(* ===== verification/Prelude.thy ===== *)
theory Prelude
  imports Complex_Main
begin

text \<open>
  What every component shares: the JSON values that cross the HTTP, database and event
  boundaries, the exceptions the services throw, programs as state transformers that may throw,
  a weakest-precondition calculus for them, and the JavaScript string helpers the code uses.

  Strings are lists of 8-bit characters, read as UTF-16 code units below 256; the few non-ASCII
  characters of the source's messages (an arrow, Spanish accents) are written in ASCII.
\<close>

named_theorems prog_simps \<open>evaluation of programs on a state\<close>
named_theorems wp_simps \<open>weakest preconditions, by structure\<close>

subsection \<open>JSON values and exceptions\<close>

datatype json =
    JNull
  | JBool bool
  | JNum rat
  | JStr string
  | JArr "json list"
  | JObj "(string \<times> json) list"

text \<open>An optional field of an object literal: an \<open>undefined\<close> value leaves no field behind.\<close>

definition jopt :: "string \<Rightarrow> json option \<Rightarrow> (string \<times> json) list" where
  "jopt k v = (case v of None \<Rightarrow> [] | Some x \<Rightarrow> [(k, x)])"

definition jnullable :: "string option \<Rightarrow> json" where
  "jnullable v = (case v of None \<Rightarrow> JNull | Some s \<Rightarrow> JStr s)"

record detail =
  d_field :: string
  d_code :: string
  d_message :: string

text \<open>An exception's body: a message, the validators' code with details, or any other object.\<close>

datatype err_body = Msg string | Coded string "detail list" | Body json

text \<open>The Nest HTTP exceptions the services throw, and a plain JavaScript \<open>Error\<close>.\<close>

datatype exn =
    BadRequest err_body
  | Unauthorized string
  | Forbidden string
  | NotFound string
  | Conflict string
  | PayloadTooLarge string
  | UnsupportedMediaType string
  | InternalServerError string
  | ServiceUnavailable string
  | UpstreamError nat json
  | PlainError string

text \<open>The HTTP status the framework answers with for each exception.\<close>

fun http_status :: "exn \<Rightarrow> nat" where
  "http_status (BadRequest _) = 400"
| "http_status (Unauthorized _) = 401"
| "http_status (Forbidden _) = 403"
| "http_status (NotFound _) = 404"
| "http_status (Conflict _) = 409"
| "http_status (PayloadTooLarge _) = 413"
| "http_status (UnsupportedMediaType _) = 415"
| "http_status (InternalServerError _) = 500"
| "http_status (ServiceUnavailable _) = 503"
| "http_status (UpstreamError _ _) = 400"
| "http_status (PlainError _) = 500"

subsection \<open>Programs\<close>

text \<open>
  An \<open>async\<close> method is a state transformer that ends with a value or an exception. The state is
  that of the world the method acts on; what was written before an exception stays written.
\<close>

type_synonym ('w, 'a) prog = "'w \<Rightarrow> (exn + 'a) \<times> 'w"

definition ret :: "'a \<Rightarrow> ('w, 'a) prog" where
  "ret x = (\<lambda>w. (Inr x, w))"

definition throw :: "exn \<Rightarrow> ('w, 'a) prog" where
  "throw e = (\<lambda>w. (Inl e, w))"

definition bnd :: "('w, 'a) prog \<Rightarrow> ('a \<Rightarrow> ('w, 'b) prog) \<Rightarrow> ('w, 'b) prog" where
  "bnd m f = (\<lambda>w. case m w of (Inl e, v) \<Rightarrow> (Inl e, v) | (Inr x, v) \<Rightarrow> f x v)"

definition catch :: "('w, 'a) prog \<Rightarrow> (exn \<Rightarrow> ('w, 'a) prog) \<Rightarrow> ('w, 'a) prog" where
  "catch m h = (\<lambda>w. case m w of (Inl e, v) \<Rightarrow> h e v | (Inr x, v) \<Rightarrow> (Inr x, v))"

text \<open>\<open>if (!c) throw e;\<close>\<close>

definition require :: "bool \<Rightarrow> exn \<Rightarrow> ('w, unit) prog" where
  "require c e = (if c then ret () else throw e)"

text \<open>\<open>for (const x of xs) await f(x);\<close>\<close>

primrec for_each :: "('a \<Rightarrow> ('w, unit) prog) \<Rightarrow> 'a list \<Rightarrow> ('w, unit) prog" where
  "for_each f [] = ret ()"
| "for_each f (x # xs) = bnd (f x) (\<lambda>_. for_each f xs)"

lemma ret_run [prog_simps]: "ret x w = (Inr x, w)"
  by (simp add: ret_def)

lemma throw_run [prog_simps]: "throw e w = (Inl e, w)"
  by (simp add: throw_def)

lemma require_run [prog_simps]: "require c e w = ((if c then Inr () else Inl e), w)"
  by (simp add: require_def ret_def throw_def)

lemma bnd_run [prog_simps]:
  "bnd m f w = (case m w of (r, v) \<Rightarrow> (case r of Inl e \<Rightarrow> (Inl e, v) | Inr x \<Rightarrow> f x v))"
  by (auto simp: bnd_def split: prod.splits sum.splits)

lemma catch_run [prog_simps]:
  "catch m h w = (case m w of (r, v) \<Rightarrow> (case r of Inl e \<Rightarrow> h e v | Inr x \<Rightarrow> (Inr x, v)))"
  by (auto simp: catch_def split: prod.splits sum.splits)

lemma bnd_Inr:
  "bnd m f w = (Inr y, w') \<longleftrightarrow> (\<exists>x v. m w = (Inr x, v) \<and> f x v = (Inr y, w'))"
  by (auto simp: bnd_def split: prod.splits sum.splits)

lemma bnd_Inl:
  "bnd m f w = (Inl e, w') \<longleftrightarrow>
     m w = (Inl e, w') \<or> (\<exists>x v. m w = (Inr x, v) \<and> f x v = (Inl e, w'))"
  by (auto simp: bnd_def split: prod.splits sum.splits)

lemma bnd_ret_left: "bnd (ret x) f = f x"
  by (simp add: bnd_def ret_def fun_eq_iff)

lemma bnd_throw_left: "bnd (throw e) f = throw e"
  by (simp add: bnd_def throw_def fun_eq_iff)

lemma bnd_ret_right: "bnd m ret = m"
  by (auto simp: bnd_def ret_def fun_eq_iff split: prod.splits sum.splits)

lemma bnd_assoc: "bnd (bnd m f) g = bnd m (\<lambda>x. bnd (f x) g)"
  by (auto simp: bnd_def fun_eq_iff split: prod.splits sum.splits)

subsection \<open>Weakest preconditions\<close>

text \<open>
  \<open>wp m Q w\<close>: running \<open>m\<close> from \<open>w\<close> ends in an outcome and a state that satisfy \<open>Q\<close>. Programs
  are total, so this is total correctness; the outcome may be an exception.
\<close>

definition wp :: "('w, 'a) prog \<Rightarrow> (exn + 'a \<Rightarrow> 'w \<Rightarrow> bool) \<Rightarrow> 'w \<Rightarrow> bool" where
  "wp m Q w = (case m w of (r, v) \<Rightarrow> Q r v)"

lemma wpD: "wp m Q w \<Longrightarrow> m w = (r, v) \<Longrightarrow> Q r v"
  by (simp add: wp_def)

lemma wp_after: "wp m (\<lambda>_ v. R v) w \<Longrightarrow> R (snd (m w))"
  by (simp add: wp_def split: prod.splits)

lemma wpI: "(\<And>r v. m w = (r, v) \<Longrightarrow> Q r v) \<Longrightarrow> wp m Q w"
  by (auto simp: wp_def split: prod.splits)

lemma wp_ret [wp_simps]: "wp (ret x) Q w = Q (Inr x) w"
  by (simp add: wp_def ret_def)

lemma wp_throw [wp_simps]: "wp (throw e) Q w = Q (Inl e) w"
  by (simp add: wp_def throw_def)

lemma wp_bnd [wp_simps]:
  "wp (bnd m f) Q w = wp m (\<lambda>r v. case r of Inl e \<Rightarrow> Q (Inl e) v | Inr x \<Rightarrow> wp (f x) Q v) w"
  by (auto simp: wp_def bnd_def split: prod.splits sum.splits)

lemma wp_catch [wp_simps]:
  "wp (catch m h) Q w = wp m (\<lambda>r v. case r of Inl e \<Rightarrow> wp (h e) Q v | Inr x \<Rightarrow> Q (Inr x) v) w"
  by (auto simp: wp_def catch_def split: prod.splits sum.splits)

lemma wp_require [wp_simps]:
  "wp (require c e) Q w = (if c then Q (Inr ()) w else Q (Inl e) w)"
  by (simp add: wp_def require_def ret_def throw_def)

lemma wp_if [wp_simps]: "wp (if c then m else n) Q w = (if c then wp m Q w else wp n Q w)"
  by simp

lemma wp_mono:
  assumes "wp m Q w" and "\<And>r v. Q r v \<Longrightarrow> R r v"
  shows "wp m R w"
  using assms by (auto simp: wp_def split: prod.splits)

text \<open>A loop keeps an invariant that its body keeps on every outcome.\<close>

lemma wp_for_each_invariant:
  assumes inv: "I w" and body: "\<And>x v. x \<in> set xs \<Longrightarrow> I v \<Longrightarrow> wp (f x) (\<lambda>_. I) v"
  shows "wp (for_each f xs) (\<lambda>_. I) w"
  using assms
proof (induction xs arbitrary: w)
  case Nil
  then show ?case by (simp add: wp_ret)
next
  case (Cons x xs)
  have "wp (f x) (\<lambda>_. I) w" using Cons.prems by simp
  then have "wp (f x) (\<lambda>r v. case r of Inl e \<Rightarrow> I v | Inr y \<Rightarrow> wp (for_each f xs) (\<lambda>_. I) v) w"
    by (rule wp_mono) (use Cons.IH Cons.prems(2) in \<open>auto split: sum.splits\<close>)
  then show ?case by (simp add: wp_bnd)
qed

text \<open>A loop whose body always ends normally and keeps an invariant.\<close>

lemma wp_for_each:
  assumes inv: "I w" and body: "\<And>x v. x \<in> set xs \<Longrightarrow> I v \<Longrightarrow> wp (f x) (\<lambda>r v'. r = Inr () \<and> I v') v"
    and post: "\<And>v. I v \<Longrightarrow> Q (Inr ()) v"
  shows "wp (for_each f xs) Q w"
  using inv body
proof (induction xs arbitrary: w)
  case Nil
  then show ?case by (simp add: wp_ret post)
next
  case (Cons x xs)
  have "wp (f x) (\<lambda>r v. r = Inr () \<and> I v) w" using Cons.prems by simp
  then have "wp (f x) (\<lambda>r v. case r of Inl e \<Rightarrow> Q (Inl e) v | Inr y \<Rightarrow> wp (for_each f xs) Q v) w"
    by (rule wp_mono) (use Cons.IH Cons.prems(2) in \<open>auto split: sum.splits\<close>)
  then show ?case by (simp add: wp_bnd)
qed

subsection \<open>JavaScript strings and values\<close>

text \<open>The white space \<open>String.prototype.trim\<close> removes, among code units below 256.\<close>

definition js_space :: "char \<Rightarrow> bool" where
  "js_space c \<longleftrightarrow> (of_char c :: nat) \<in> {9, 10, 11, 12, 13, 32, 160}"

definition trim :: "string \<Rightarrow> string" where
  "trim s = rev (dropWhile js_space (rev (dropWhile js_space s)))"

definition js_includes :: "'a list \<Rightarrow> 'a \<Rightarrow> bool" where
  "js_includes xs x \<longleftrightarrow> x \<in> set xs"

fun join :: "string \<Rightarrow> string list \<Rightarrow> string" where
  "join sep [] = ''''"
| "join sep [x] = x"
| "join sep (x # y # xs) = x @ sep @ join sep (y # xs)"

text \<open>\<open>value || fallback\<close> on an optional string: the empty string is falsy too.\<close>

definition truthy :: "string option \<Rightarrow> bool" where
  "truthy v = (case v of None \<Rightarrow> False | Some s \<Rightarrow> s \<noteq> [])"

definition or_else :: "string option \<Rightarrow> string \<Rightarrow> string" where
  "or_else v d = (case v of None \<Rightarrow> d | Some s \<Rightarrow> if s = [] then d else s)"

text \<open>\<open>value ?? fallback\<close>: only \<open>null\<close> and \<open>undefined\<close> give way.\<close>

definition default :: "'a option \<Rightarrow> 'a \<Rightarrow> 'a" where
  "default v d = (case v of None \<Rightarrow> d | Some x \<Rightarrow> x)"

text \<open>
  The names every object inherits from \<open>Object.prototype\<close>: \<open>key in obj\<close> and \<open>obj[key]\<close> find them
  on a plain object literal too.
\<close>

definition object_prototype_keys :: "string list" where
  "object_prototype_keys = [''constructor'', ''__defineGetter__'', ''__defineSetter__'',
     ''hasOwnProperty'', ''__lookupGetter__'', ''__lookupSetter__'', ''isPrototypeOf'',
     ''propertyIsEnumerable'', ''toString'', ''valueOf'', ''__proto__'', ''toLocaleString'']"

definition inherited :: "string \<Rightarrow> bool" where
  "inherited k \<longleftrightarrow> k \<in> set object_prototype_keys"

text \<open>The elements of \<open>new Set(xs)\<close> in insertion order: the first occurrence of each counts.\<close>

fun uniq :: "'a list \<Rightarrow> 'a list" where
  "uniq [] = []"
| "uniq (x # xs) = x # filter (\<lambda>y. y \<noteq> x) (uniq xs)"

text \<open>A template literal prints a natural number in decimal.\<close>

fun nat_str :: "nat \<Rightarrow> string" where
  "nat_str n = (if n < 10 then [char_of (48 + n)] else nat_str (n div 10) @ [char_of (48 + n mod 10)])"

declare nat_str.simps [simp del]

text \<open>\<open>new Date(t).toISOString()\<close> for the years 0 to 9999: days to a civil date, then the time of day.\<close>

definition pad :: "nat \<Rightarrow> int \<Rightarrow> string" where
  "pad k n = (let ds = nat_str (nat n) in replicate (k - length ds) (CHR ''0'') @ ds)"

definition civil_from_days :: "int \<Rightarrow> int \<times> int \<times> int" where
  "civil_from_days z0 =
     (let z = z0 + 719468; era = z div 146097; doe = z mod 146097;
          yoe = (doe - doe div 1460 + doe div 36524 - doe div 146096) div 365;
          doy = doe - (365 * yoe + yoe div 4 - yoe div 100); mp = (5 * doy + 2) div 153;
          d = doy - (153 * mp + 2) div 5 + 1; m = (if mp < 10 then mp + 3 else mp - 9)
      in (yoe + era * 400 + (if m \<le> 2 then 1 else 0), m, d))"

definition iso_string :: "int \<Rightarrow> string" where
  "iso_string t = (case civil_from_days (t div 86400000) of (y, m, d) \<Rightarrow>
     let r = t mod 86400000
     in pad 4 y @ ''-'' @ pad 2 m @ ''-'' @ pad 2 d @ ''T'' @ pad 2 (r div 3600000) @ '':'' @ pad 2 (r div 60000 mod 60) @ '':'' @
        pad 2 (r div 1000 mod 60) @ ''.'' @ pad 3 (r mod 1000) @ ''Z'')"

text \<open>The first day of the epoch, so that runs with a small clock evaluate.\<close>

lemma pad_epoch: "pad 4 1970 = ''1970''" "pad 2 1 = ''01''"
  by (simp_all add: pad_def nat_str.simps [of 1970] nat_str.simps [of 197] nat_str.simps [of 19] nat_str.simps [of 1] nat_str.simps [of "Suc 0"] char_of_def bit_Suc_0_iff)

lemma civil_epoch: "civil_from_days 0 = (1970, 1, 1)"
proof -
  have a: "(719468::int) div 146097 = 4" "(719468::int) mod 146097 = 135080" by simp_all
  have b: "(135080::int) div 1460 = 92" "(135080::int) div 36524 = 3" "(135080::int) div 146096 = 0" "(134991::int) div 365 = 369" by simp_all
  show ?thesis unfolding civil_from_days_def add_0 Let_def a by (simp add: b)
qed

lemma iso_string_epoch: "0 \<le> t \<Longrightarrow> t < 86400000 \<Longrightarrow> iso_string t = ''1970-01-01T'' @ pad 2 (t div 3600000) @ '':'' @ pad 2 (t div 60000 mod 60) @ '':'' @
        pad 2 (t div 1000 mod 60) @ ''.'' @ pad 3 (t mod 1000) @ ''Z''"
  by (simp add: iso_string_def pad_epoch civil_epoch)

lemma iso_string_code [code]: "iso_string t = (if 0 \<le> t \<and> t < 86400000 then ''1970-01-01T'' @ pad 2 (t div 3600000) @ '':'' @ pad 2 (t div 60000 mod 60) @ '':'' @
        pad 2 (t div 1000 mod 60) @ ''.'' @ pad 3 (t mod 1000) @ ''Z'' else (case civil_from_days (t div 86400000) of (y, m, d) \<Rightarrow>
     let r = t mod 86400000
     in pad 4 y @ ''-'' @ pad 2 m @ ''-'' @ pad 2 d @ ''T'' @ pad 2 (r div 3600000) @ '':'' @ pad 2 (r div 60000 mod 60) @ '':'' @
        pad 2 (r div 1000 mod 60) @ ''.'' @ pad 3 (r mod 1000) @ ''Z''))"
  using iso_string_epoch by (simp add: iso_string_def)

lemma set_uniq [simp]: "set (uniq xs) = set xs"
  by (induction xs) auto

lemma distinct_uniq [simp]: "distinct (uniq xs)"
  by (induction xs) auto

lemma uniq_Nil_iff [simp]: "uniq xs = [] \<longleftrightarrow> xs = []"
  by (cases xs) auto

lemma js_includes_iff [simp]: "js_includes xs x \<longleftrightarrow> x \<in> set xs"
  by (simp add: js_includes_def)

lemma default_simps [simp]: "default None d = d" "default (Some x) d = x"
  by (simp_all add: default_def)

lemma truthy_simps [simp]: "truthy None = False" "truthy (Some s) = (s \<noteq> [])"
  by (simp_all add: truthy_def)

lemma or_else_simps [simp]: "or_else None d = d" "or_else (Some s) d = (if s = [] then d else s)"
  by (simp_all add: or_else_def)

lemma set_trim: "set (trim s) \<subseteq> set s"
  unfolding trim_def by (meson order.trans set_dropWhileD set_rev subsetI subset_iff set_rev[THEN equalityD1])

lemma dropWhile_fixed: "xs = [] \<or> \<not> P (hd xs) \<Longrightarrow> dropWhile P xs = xs"
  by (cases xs) auto

lemma trim_idem: "trim (trim s) = trim s"
proof -
  define ys where "ys = dropWhile js_space s"
  define zs where "zs = rev (dropWhile js_space (rev ys))"
  have "ys = zs @ rev (takeWhile js_space (rev ys))"
    unfolding zs_def by (metis rev_append rev_rev_ident takeWhile_dropWhile_id)
  moreover have "ys \<noteq> [] \<Longrightarrow> \<not> js_space (hd ys)"
    unfolding ys_def by (rule hd_dropWhile)
  ultimately have "zs = [] \<or> \<not> js_space (hd zs)"
    by (cases "zs = []") (metis append_is_Nil_conv hd_append2)+
  then have "dropWhile js_space zs = zs" by (rule dropWhile_fixed)
  moreover have "dropWhile js_space (rev zs) = rev zs"
    unfolding zs_def by simp
  ultimately show ?thesis unfolding trim_def zs_def ys_def by simp
qed

subsection \<open>Lists of rows updated by key\<close>

text \<open>
  An SQL \<open>UPDATE ... WHERE\<close> on a table given as a list of rows; the components reason about it
  through these lemmas only.
\<close>

definition update_where :: "('r \<Rightarrow> bool) \<Rightarrow> ('r \<Rightarrow> 'r) \<Rightarrow> 'r list \<Rightarrow> 'r list" where
  "update_where P f rs = map (\<lambda>r. if P r then f r else r) rs"

lemma update_where_none: "\<forall>r \<in> set rs. \<not> P r \<Longrightarrow> update_where P f rs = rs"
  by (simp add: update_where_def map_idI)

lemma length_update_where [simp]: "length (update_where P f rs) = length rs"
  by (simp add: update_where_def)

lemma set_update_where: "set (update_where P f rs) = {r \<in> set rs. \<not> P r} \<union> f ` {r \<in> set rs. P r}"
  by (auto simp: update_where_def)

lemma map_key_update_where:
  "(\<And>r. P r \<Longrightarrow> k (f r) = k r) \<Longrightarrow> map k (update_where P f rs) = map k rs"
  by (simp add: update_where_def)

lemma filter_hdD: "filter P xs = r # rs \<Longrightarrow> r \<in> set xs \<and> P r"
  by (metis (mono_tags, lifting) list.set_intros(1) mem_Collect_eq set_filter)

lemma filter_Nil_iff: "filter P xs = [] \<longleftrightarrow> (\<forall>x \<in> set xs. \<not> P x)"
  by (simp add: filter_empty_conv)

lemma filter_singleD:
  assumes "filter P xs = [a]" and "x \<in> set xs" and "P x"
  shows "x = a"
proof -
  have "x \<in> set (filter P xs)" using assms(2,3) by simp
  then show ?thesis unfolding assms(1) by simp
qed

lemma update_where_all2:
  assumes "filter P xs = [a]" and "R a (f a)" and "\<And>x. R x x"
  shows "list_all2 R xs (update_where P f xs)"
  using assms filter_singleD [OF assms(1)]
  by (auto simp: update_where_def list_all2_map2 list_all2_same)

lemma update_where_single:
  "filter P xs = [a] \<Longrightarrow> (\<And>x. P x \<Longrightarrow> P (f x)) \<Longrightarrow> filter P (update_where P f xs) = [f a]"
  by (induction xs) (auto simp: update_where_def filter_empty_conv split: if_splits)

end
