(* ===== verification/Schema.thy ===== *)
theory Schema
  imports Prelude
begin

text \<open>
  The rows of the tables the services read and write: one record per table, a field per column
  the code names. Text columns are strings, nullable columns options, time stamps milliseconds
  since the epoch, JSON columns either a record (the milestones) or a \<open>json\<close> value. The field
  prefix names the table. The integrity constraints at the end are the unique indexes of
  \<open>scripts/*.sql\<close>.
\<close>

record milestone =
  ms_description :: "string option"
  ms_amount :: "string option"
  ms_status :: "string option"
  ms_evidence_description :: "string option"
  ms_evidence_urls :: "string list option"
  ms_evidence_at :: "int option"

record agreement =
  a_id :: string
  a_contract_id :: "string option"
  a_title :: string
  a_description :: "string option"
  a_amount :: string
  a_asset :: "string option"
  a_status :: string
  a_type :: "string option"
  a_milestones :: "milestone list option"
  a_metadata :: json
  a_created_by :: string
  a_created_at :: int
  a_updated_at :: int
  a_funded_at :: "int option"
  a_completed_at :: "int option"

record participant =
  p_id :: string
  p_agreement_id :: string
  p_wallet :: string
  p_role :: "string option"

record activity_row =
  act_id :: string
  act_agreement_id :: string
  act_actor :: string
  act_action :: string
  act_details :: json
  act_previous :: "string option"
  act_new :: "string option"
  act_created_at :: int

record user_wallet =
  uw_id :: string
  uw_user_id :: string
  uw_address :: string
  uw_type :: string
  uw_label :: "string option"
  uw_primary :: bool
  uw_verified :: bool
  uw_verified_at :: "int option"
  uw_auth_provider :: "string option"
  uw_pollar_user_id :: "string option"
  uw_c_address :: "string option"
  uw_created_at :: int
  uw_updated_at :: int

record auth_user =
  au_id :: string
  au_wallet :: "string option"
  au_pollar_user_id :: "string option"
  au_wallet_provider :: "string option"

record profile_about =
  pa_avatar_url :: "string option"
  pa_headline :: "string option"
  pa_bio :: "string option"
  pa_skills :: "string list option"
  pa_tech_stack :: "string list option"
  pa_hourly_rate :: "rat option"
  pa_availability :: "string option"
  pa_portfolio_links :: "json option"
  pa_social_links :: "json option"
  pa_org_name :: "string option"
  pa_org_description :: "string option"
  pa_org_website :: "string option"
  pa_looking_for :: "string list option"
  pa_org_links :: "json option"

definition no_about :: profile_about where
  "no_about = \<lparr>pa_avatar_url = None, pa_headline = None, pa_bio = None, pa_skills = None, pa_tech_stack = None, pa_hourly_rate = None,
     pa_availability = None, pa_portfolio_links = None, pa_social_links = None, pa_org_name = None, pa_org_description = None,
     pa_org_website = None, pa_looking_for = None, pa_org_links = None\<rparr>"

record profile =
  pr_id :: string
  pr_wallet :: string
  pr_display_name :: "string option"
  pr_email :: "string option"
  pr_account_type :: string
  pr_role :: string
  pr_handle :: "string option"
  pr_show_earnings :: bool
  pr_about :: profile_about
  pr_created_at :: int
  pr_updated_at :: int

record dispute =
  dp_id :: string
  dp_agreement_id :: string
  dp_opened_by :: string
  dp_reason :: string
  dp_evidence_urls :: "string list"
  dp_status :: string
  dp_resolver :: "string option"
  dp_created_at :: int
  dp_updated_at :: int
  dp_resolved_at :: "int option"

record resolution =
  rs_id :: string
  rs_dispute_id :: string
  rs_resolved_by :: string
  rs_payer_percentage :: rat
  rs_payee_percentage :: rat
  rs_notes :: string
  rs_created_at :: int

record retry_job =
  rj_id :: string
  rj_type :: string
  rj_key :: string
  rj_payload :: json
  rj_status :: string
  rj_attempts :: int
  rj_max_attempts :: int
  rj_next_attempt_at :: int
  rj_last_error :: "string option"
  rj_created_at :: int
  rj_updated_at :: int
  rj_completed_at :: "int option"

record opportunity =
  op_id :: string
  op_project_id :: string
  op_title :: string
  op_description :: string
  op_skills :: "string list"
  op_budget :: rat
  op_asset :: string
  op_engagement :: string
  op_status :: string
  op_created_at :: int

record application =
  ap_id :: string
  ap_opportunity_id :: string
  ap_builder_id :: string
  ap_message :: string
  ap_status :: string
  ap_created_at :: int

record verification =
  vr_id :: string
  vr_subject_type :: string
  vr_subject_id :: string
  vr_provider :: "string option"
  vr_reference :: "string option"
  vr_status :: string
  vr_level :: string
  vr_verified_at :: "int option"
  vr_expires_at :: "int option"
  vr_metadata :: json
  vr_created_at :: int
  vr_updated_at :: "string option"

record kyb_verification =
  kb_id :: string
  kb_organization_id :: string
  kb_requested_by :: string
  kb_entity_type :: string
  kb_business_name :: string
  kb_registration_number :: string
  kb_country :: string
  kb_status :: string
  kb_provider :: string
  kb_session_id :: string
  kb_rejection_reason :: "string option"
  kb_verified_at :: "int option"
  kb_created_at :: int
  kb_updated_at :: int

record notification_log =
  nl_id :: string
  nl_agreement_id :: "string option"
  nl_event_type :: string
  nl_channel :: string
  nl_recipient :: "string option"
  nl_subject :: "string option"
  nl_status :: string
  nl_error :: "string option"
  nl_created_at :: int

record contact =
  co_id :: string
  co_user_id :: string
  co_contact_user_id :: "string option"
  co_name :: string
  co_email :: "string option"
  co_phone :: "string option"
  co_wallet :: "string option"
  co_status :: string

record stored_file =
  fi_id :: string
  fi_path :: string
  fi_name :: string
  fi_type :: string
  fi_size :: nat
  fi_agreement_id :: "string option"
  fi_user :: string
  fi_wallet :: string
  fi_created_at :: int

record chat_message =
  cm_id :: string
  cm_agreement_id :: string
  cm_sender_id :: string
  cm_sender_wallet :: string
  cm_text :: string
  cm_created_at :: int

record attachment =
  at_message_id :: string
  at_file_id :: string

text \<open>The database as a whole: its tables, each a list of rows in insertion order.\<close>

record tables =
  t_agreements :: "agreement list"
  t_participants :: "participant list"
  t_activity :: "activity_row list"
  t_wallets :: "user_wallet list"
  t_users :: "auth_user list"
  t_profiles :: "profile list"
  t_disputes :: "dispute list"
  t_resolutions :: "resolution list"
  t_jobs :: "retry_job list"
  t_opportunities :: "opportunity list"
  t_applications :: "application list"
  t_verifications :: "verification list"
  t_kyb :: "kyb_verification list"
  t_notifications :: "notification_log list"
  t_contacts :: "contact list"
  t_files :: "stored_file list"
  t_messages :: "chat_message list"
  t_attachments :: "attachment list"

subsection \<open>Integrity constraints\<close>

text \<open>A primary key, and the unique indexes of the migrations.\<close>

definition keyed :: "('r \<Rightarrow> string) \<Rightarrow> 'r list \<Rightarrow> bool" where
  "keyed k rs \<longleftrightarrow> distinct (map k rs)"

definition valid_wallets :: "user_wallet list \<Rightarrow> bool" where
  "valid_wallets rs \<longleftrightarrow> keyed uw_id rs \<and>
     distinct (map (\<lambda>r. (uw_user_id r, uw_address r)) rs) \<and>
     distinct (map uw_user_id (filter uw_primary rs))"

definition valid_jobs :: "retry_job list \<Rightarrow> bool" where
  "valid_jobs rs \<longleftrightarrow> keyed rj_id rs \<and> distinct (map rj_key rs)"

definition valid_applications :: "application list \<Rightarrow> bool" where
  "valid_applications rs \<longleftrightarrow> keyed ap_id rs \<and>
     distinct (map (\<lambda>r. (ap_opportunity_id r, ap_builder_id r)) rs)"

definition valid_profiles :: "profile list \<Rightarrow> bool" where
  "valid_profiles rs \<longleftrightarrow> keyed pr_id rs \<and>
     distinct (map pr_handle (filter (\<lambda>r. pr_handle r \<noteq> None) rs))"

definition valid_verifications :: "verification list \<Rightarrow> bool" where
  "valid_verifications rs \<longleftrightarrow> keyed vr_id rs \<and>
     distinct (map (\<lambda>r. (vr_subject_type r, vr_subject_id r, vr_provider r))
       (filter (\<lambda>r. vr_provider r \<noteq> None) rs))"

definition valid_kyb :: "kyb_verification list \<Rightarrow> bool" where
  "valid_kyb rs \<longleftrightarrow> keyed kb_id rs \<and> distinct (map kb_organization_id rs)"

definition valid_files :: "stored_file list \<Rightarrow> bool" where
  "valid_files rs \<longleftrightarrow> keyed fi_id rs \<and> distinct (map fi_path rs)"

definition valid_attachments :: "attachment list \<Rightarrow> bool" where
  "valid_attachments rs \<longleftrightarrow> distinct (map (\<lambda>r. (at_message_id r, at_file_id r)) rs)"

text \<open>Rows with the same key in a keyed table are the same row.\<close>

lemma keyed_unique: "keyed k rs \<Longrightarrow> r \<in> set rs \<Longrightarrow> s \<in> set rs \<Longrightarrow> k r = k s \<Longrightarrow> r = s"
  by (auto simp: keyed_def distinct_map inj_on_def)

lemma keyed_filter_single:
  "keyed k rs \<Longrightarrow> r \<in> set rs \<Longrightarrow> filter (\<lambda>x. k x = k r) rs = [r]"
  by (induction rs) (auto simp: keyed_def filter_empty_conv image_iff)

subsection \<open>Deferred work and domain events\<close>

text \<open>
  Work a handler starts without awaiting it: it runs after the handler's own effects, and its
  failure never reaches the handler (the code attaches a \<open>catch\<close> that logs). A sync or
  reconcile task is a job put on the in-memory retry queue.
\<close>

datatype task =
    SyncAgreement string
  | ReconcileAgreement string
  | SyncStatusTransition string string string

text \<open>An event on the in-process bus: its name and its payload.\<close>

type_synonym event = "string \<times> json"

end
