(* ===== verification/Lifecycle.thy ===== *)
theory Lifecycle
  imports Schema
begin

text \<open>
  The agreement state machine: \<open>agreements/agreement-lifecycle.ts\<close>, the second transition table
  of \<open>agreements/validation/agreement-validation.service.ts\<close>, and \<open>validateTransition\<close> of
  \<open>agreements/agreement.validator.ts\<close>. Statuses are the strings the database stores. The
  abstract machine is the inductive relation \<open>lifecycle_step\<close>; the lemmas show that the three
  validators decide exactly it, and what its paths look like.
\<close>

section \<open>\<open>agreement-lifecycle.ts\<close>\<close>

definition AGREEMENT_STATUSES :: "string list" where
  "AGREEMENT_STATUSES = [''draft'', ''pending'', ''funded'', ''active'', ''in_review'', ''completed'',
     ''disputed'', ''resolved'', ''cancelled'']"

definition AGREEMENT_TRANSITIONS :: "(string \<times> string list) list" where
  "AGREEMENT_TRANSITIONS =
     [(''draft'', [''pending'', ''cancelled'']),
      (''pending'', [''funded'', ''active'', ''cancelled'']),
      (''funded'', [''active'', ''cancelled'']),
      (''active'', [''in_review'', ''disputed'', ''cancelled'']),
      (''in_review'', [''completed'', ''active'', ''disputed'']),
      (''disputed'', [''resolved'', ''active'']),
      (''completed'', []),
      (''resolved'', []),
      (''cancelled'', [])]"

text \<open>Indexing the table with a known status; the code never indexes it with another key.\<close>

definition transitions_from :: "string \<Rightarrow> string list" where
  "transitions_from s = default (map_of AGREEMENT_TRANSITIONS s) []"

definition TERMINAL_STATUSES :: "string list" where
  "TERMINAL_STATUSES = filter (\<lambda>s. length (transitions_from s) = 0) AGREEMENT_STATUSES"

definition COMPLETED_MILESTONE_STATUSES :: "string list" where
  "COMPLETED_MILESTONE_STATUSES = [''approved'', ''released'']"

definition isAgreementStatus :: "string \<Rightarrow> bool" where
  "isAgreementStatus v = js_includes AGREEMENT_STATUSES v"

definition isTerminalStatus :: "string \<Rightarrow> bool" where
  "isTerminalStatus s = js_includes TERMINAL_STATUSES s"

definition canTransition :: "string \<Rightarrow> string \<Rightarrow> bool" where
  "canTransition from to =
     (if \<not> isAgreementStatus from \<or> \<not> isAgreementStatus to then False
      else js_includes (transitions_from from) to)"

definition allowed_text :: "string list \<Rightarrow> string \<Rightarrow> string" where
  "allowed_text allowed none = (if allowed \<noteq> [] then join '', '' allowed else none)"

definition quoted :: "string \<Rightarrow> string" where
  "quoted s = ''\"'' @ s @ ''\"''"

definition invalidTransitionMessage :: "string \<Rightarrow> string \<Rightarrow> string" where
  "invalidTransitionMessage from to =
     (if \<not> isAgreementStatus from then
        ''Agreement has unknown status '' @ quoted from @ '' and cannot be transitioned''
      else if \<not> isAgreementStatus to then quoted to @ '' is not a valid agreement status''
      else ''Invalid status transition '' @ quoted from @ '' -> '' @ quoted to @
        ''. Allowed from '' @ quoted from @ '': '' @
        allowed_text (transitions_from from) ''none (terminal status)'')"

text \<open>\<open>null\<close> or a value that is not an array counts as an agreement without milestones.\<close>

definition milestonesSatisfyCompletion :: "milestone list option \<Rightarrow> bool" where
  "milestonesSatisfyCompletion ms = (case ms of
     None \<Rightarrow> True
   | Some xs \<Rightarrow> if length xs = 0 then True
       else list_all (\<lambda>m. js_includes COMPLETED_MILESTONE_STATUSES (default (ms_status m) '''')) xs)"

section \<open>\<open>validateTransition\<close> of \<open>agreement.validator.ts\<close>\<close>

text \<open>A validation result: \<open>None\<close> is \<open>{ success: true }\<close>, otherwise the error with its details.\<close>

type_synonym validation_result = "(string \<times> detail list) option"

definition mk_detail :: "string \<Rightarrow> string \<Rightarrow> string \<Rightarrow> detail" where
  "mk_detail f c m = \<lparr>d_field = f, d_code = c, d_message = m\<rparr>"

definition errResult :: "detail list \<Rightarrow> validation_result" where
  "errResult ds = Some (''VALIDATION_ERROR'', ds)"

definition okResult :: validation_result where
  "okResult = None"

definition validateTransition :: "string \<Rightarrow> string \<Rightarrow> validation_result" where
  "validateTransition from to = (
     let errors =
       (if \<not> isAgreementStatus from
        then [mk_detail ''status'' ''INVALID_STATUS'' (quoted from @ '' is not a valid agreement status'')]
        else []) @
       (if \<not> isAgreementStatus to
        then [mk_detail ''status'' ''INVALID_STATUS'' (quoted to @ '' is not a valid agreement status'')]
        else [])
     in if errors \<noteq> [] then errResult errors
        else if \<not> js_includes (transitions_from from) to then
          errResult [mk_detail ''status'' ''INVALID_TRANSITION''
            (''Invalid status transition '' @ quoted from @ '' -> '' @ quoted to @
             ''. Allowed from '' @ quoted from @ '': '' @
             allowed_text (transitions_from from) ''none (terminal status)'')]
        else okResult)"

section \<open>\<open>agreement-validation.service.ts\<close>\<close>

definition VALID_TRANSITIONS :: "(string \<times> string list) list" where
  "VALID_TRANSITIONS =
     [(''draft'', [''pending'', ''cancelled'']),
      (''pending'', [''funded'', ''active'', ''cancelled'']),
      (''funded'', [''active'', ''cancelled'']),
      (''active'', [''in_review'', ''disputed'', ''cancelled'']),
      (''in_review'', [''completed'', ''active'', ''disputed'']),
      (''disputed'', [''resolved'', ''active'']),
      (''completed'', []),
      (''cancelled'', []),
      (''resolved'', [])]"

text \<open>\<open>key in VALID_TRANSITIONS\<close>: own keys, and those inherited from \<open>Object.prototype\<close>.\<close>

definition in_table :: "string \<Rightarrow> bool" where
  "in_table s \<longleftrightarrow> map_of VALID_TRANSITIONS s \<noteq> None \<or> inherited s"

text \<open>
  The outcome is \<open>Inr None\<close> for \<open>{ valid: true }\<close> and \<open>Inr (Some reason)\<close> for a refusal. An
  inherited key as the source status passes the guard and then has no \<open>includes\<close> method, which
  is a \<open>TypeError\<close>.
\<close>

definition service_validateTransition :: "string \<Rightarrow> string \<Rightarrow> exn + string option" where
  "service_validateTransition from to =
     (if \<not> in_table from then Inr (Some (''Unknown source status: '' @ quoted from))
      else if \<not> in_table to then Inr (Some (''Unknown target status: '' @ quoted to))
      else if from = to then
        Inr (Some (''Transition to the same status ('' @ quoted from @ '' -> '' @ quoted to @ '') is a no-op''))
      else case map_of VALID_TRANSITIONS from of
        None \<Rightarrow> Inl (PlainError ''TypeError: allowed.includes is not a function'')
      | Some allowed \<Rightarrow>
          if \<not> js_includes allowed to then
            Inr (Some (''Invalid transition: '' @ quoted from @ '' -> '' @ quoted to @
              ''. Allowed targets: '' @ or_else (Some (join '', '' allowed)) ''(none - terminal state)''))
          else Inr None)"

text \<open>An inherited key yields a function object instead of a list, which \<open>None\<close> stands for.\<close>

definition getAllowedTransitions :: "string \<Rightarrow> string list option" where
  "getAllowedTransitions from = (case map_of VALID_TRANSITIONS from of
     Some ts \<Rightarrow> Some ts
   | None \<Rightarrow> if inherited from then None else Some [])"

definition getTransitionMap :: "(string \<times> string list) list" where
  "getTransitionMap = map (\<lambda>(from, to). (from, to)) VALID_TRANSITIONS"

section \<open>The abstract machine\<close>

inductive lifecycle_step :: "string \<Rightarrow> string \<Rightarrow> bool" where
  submit: "lifecycle_step ''draft'' ''pending''"
| fund: "lifecycle_step ''pending'' ''funded''"
| fund_and_start: "lifecycle_step ''pending'' ''active''"
| start: "lifecycle_step ''funded'' ''active''"
| review: "lifecycle_step ''active'' ''in_review''"
| request_changes: "lifecycle_step ''in_review'' ''active''"
| complete: "lifecycle_step ''in_review'' ''completed''"
| dispute: "s \<in> {''active'', ''in_review''} \<Longrightarrow> lifecycle_step s ''disputed''"
| resolve: "lifecycle_step ''disputed'' ''resolved''"
| withdraw: "lifecycle_step ''disputed'' ''active''"
| cancel: "s \<in> {''draft'', ''pending'', ''funded'', ''active''} \<Longrightarrow> lifecycle_step s ''cancelled''"

inductive_simps lifecycle_step_iff: "lifecycle_step s t"
inductive_cases to_completedE: "lifecycle_step s ''completed''"
inductive_cases to_in_reviewE: "lifecycle_step s ''in_review''"
inductive_cases to_resolvedE: "lifecycle_step s ''resolved''"

lemmas lifecycle_tables = AGREEMENT_STATUSES_def AGREEMENT_TRANSITIONS_def VALID_TRANSITIONS_def
  transitions_from_def isAgreementStatus_def

lemma isAgreementStatus_iff: "isAgreementStatus s \<longleftrightarrow> s \<in> set AGREEMENT_STATUSES"
  by (simp add: isAgreementStatus_def)

text \<open>One decision per status: the table lookups as a case distinction on literal statuses.\<close>

lemma canTransition_iff_step: "canTransition s t \<longleftrightarrow> lifecycle_step s t"
  by (auto simp: canTransition_def lifecycle_tables lifecycle_step_iff)

text \<open>The machine is executed by the table lookup.\<close>

lemma lifecycle_step_code [code]: "lifecycle_step s t = canTransition s t"
  by (rule canTransition_iff_step [symmetric])

lemma isTerminalStatus_iff:
  "isTerminalStatus s \<longleftrightarrow> s = ''completed'' \<or> s = ''resolved'' \<or> s = ''cancelled''"
  by (auto simp: isTerminalStatus_def TERMINAL_STATUSES_def lifecycle_tables)

lemma validateTransition_ok_iff: "validateTransition s t = None \<longleftrightarrow> canTransition s t"
  by (simp add: validateTransition_def canTransition_def errResult_def okResult_def Let_def)

lemma tables_agree:
  "isAgreementStatus s \<Longrightarrow> map_of VALID_TRANSITIONS s = Some (transitions_from s)"
  by (auto simp: lifecycle_tables)

lemma in_table_iff: "in_table s \<longleftrightarrow> isAgreementStatus s \<or> inherited s"
  by (auto simp: in_table_def lifecycle_tables)

lemma not_inherited_status: "isAgreementStatus s \<Longrightarrow> \<not> inherited s"
  by (auto simp: lifecycle_tables inherited_def object_prototype_keys_def)

lemma step_irrefl: "\<not> lifecycle_step s s"
  by (auto simp: lifecycle_step_iff)

lemma service_ok_iff:
  "service_validateTransition s t = Inr None \<longleftrightarrow> canTransition s t"
proof (cases "isAgreementStatus s \<and> isAgreementStatus t")
  case True
  then show ?thesis
    using step_irrefl [of s] tables_agree [of s]
    by (auto simp: service_validateTransition_def in_table_iff canTransition_def
        canTransition_iff_step [symmetric])
next
  case False
  have "\<not> isAgreementStatus x \<Longrightarrow> map_of VALID_TRANSITIONS x = None" for x
    by (auto simp: lifecycle_tables)
  moreover have "x \<in> set ts \<Longrightarrow> isAgreementStatus x" if "map_of VALID_TRANSITIONS s = Some ts" for x ts
    using that by (auto simp: lifecycle_tables split: if_splits)
  ultimately show ?thesis using False
    by (auto simp: service_validateTransition_def canTransition_def split: option.splits)
qed

section \<open>Paths\<close>

text \<open>A history of statuses in which every change passes \<open>canTransition\<close>.\<close>

fun lifecycle_path :: "string list \<Rightarrow> bool" where
  "lifecycle_path [] = True"
| "lifecycle_path [s] = True"
| "lifecycle_path (s # t # ss) = (canTransition s t \<and> lifecycle_path (t # ss))"

lemma lifecycle_path_snoc:
  "lifecycle_path (ss @ [s, t]) \<longleftrightarrow> lifecycle_path (ss @ [s]) \<and> canTransition s t"
  by (induction ss rule: lifecycle_path.induct) auto

text \<open>A path that ends in a state with one predecessor, and starts elsewhere, comes from there.\<close>

lemma ends_before:
  assumes path: "lifecycle_path (ss @ [t])" and start: "hd (ss @ [t]) \<noteq> t"
    and pred: "\<And>s. canTransition s t \<Longrightarrow> s = p"
  shows "\<exists>qs. ss = qs @ [p] \<and> lifecycle_path (qs @ [p])"
proof -
  from start have "ss \<noteq> []" by auto
  then obtain qs s where ss: "ss = qs @ [s]" by (metis rev_exhaust)
  with path have "canTransition s t" "lifecycle_path (qs @ [s])"
    using lifecycle_path_snoc [of qs s t] by simp_all
  with pred [of s] ss show ?thesis by blast
qed

lemma status_cases:
  assumes "isAgreementStatus s"
  obtains "s = ''draft''" | "s = ''pending''" | "s = ''funded''" | "s = ''active''" | "s = ''in_review''"
    | "s = ''completed''" | "s = ''disputed''" | "s = ''resolved''" | "s = ''cancelled''"
proof -
  have "s \<in> set AGREEMENT_STATUSES" using assms by (simp only: isAgreementStatus_iff)
  then show thesis
    unfolding AGREEMENT_STATUSES_def list.set insert_iff empty_iff
    by (elim disjE) (erule that FalseE)+
qed

text \<open>A way to the end from every status.\<close>

definition closing_path :: "string \<Rightarrow> string list" where
  "closing_path s =
     (if s \<in> {''draft'', ''pending'', ''funded'', ''active''} then [''cancelled'']
      else if s = ''in_review'' then [''completed''] else if s = ''disputed'' then [''resolved''] else [])"

lemma closing_path_ok:
  assumes "isAgreementStatus s"
  shows "lifecycle_path (s # closing_path s) \<and> isTerminalStatus (last (s # closing_path s))"
  using assms
  by (rule status_cases) (simp_all add: closing_path_def isTerminalStatus_iff canTransition_def lifecycle_tables)

lemma terminal_iff_no_exit:
  assumes "isAgreementStatus s"
  shows "isTerminalStatus s \<longleftrightarrow> transitions_from s = []"
  using assms by (rule status_cases) (simp_all add: isTerminalStatus_iff lifecycle_tables)

lemma transitions_are_statuses: "t \<in> set (transitions_from s) \<Longrightarrow> isAgreementStatus t"
  by (auto simp: lifecycle_tables split: if_splits)

lemma no_exit_iff:
  assumes "isAgreementStatus s"
  shows "(\<forall>t. \<not> canTransition s t) \<longleftrightarrow> transitions_from s = []"
  using assms transitions_are_statuses [of _ s] by (cases "transitions_from s") (auto simp: canTransition_def)

lemma to_completed: "canTransition s ''completed'' \<Longrightarrow> s = ''in_review''"
  unfolding canTransition_iff_step by (erule to_completedE)

lemma to_in_review: "canTransition s ''in_review'' \<Longrightarrow> s = ''active''"
  unfolding canTransition_iff_step by (erule to_in_reviewE)

section \<open>Properties\<close>

text \<open>
  (C12) The three transition validators of the code, \<open>canTransition\<close>, \<open>validateTransition\<close> of the
  validator and \<open>validateTransition\<close> of the validation service, accept exactly the same changes:
  those of the abstract state machine. The second, separately maintained table never drifts
  from the first.
\<close>

theorem validators_agree:
  "(canTransition s t \<longleftrightarrow> lifecycle_step s t) \<and>
   (validateTransition s t = None \<longleftrightarrow> lifecycle_step s t) \<and>
   (service_validateTransition s t = Inr None \<longleftrightarrow> lifecycle_step s t)"
  by (simp add: canTransition_iff_step validateTransition_ok_iff service_ok_iff)

text \<open>
  An agreement that starts in any status but \<open>in_review\<close> or \<open>completed\<close> and ends \<open>completed\<close>
  by allowed changes only has gone through review, and was active right before it unless its
  history starts with the review: funds are never marked released without a review step.
\<close>

theorem completed_only_after_review:
  assumes "lifecycle_path p" and "p \<noteq> []" and "hd p \<notin> {''in_review'', ''completed''}"
    and "last p = ''completed''"
  shows "\<exists>q. p = q @ [''active'', ''in_review'', ''completed''] \<and> lifecycle_path (q @ [''active''])"
proof -
  obtain ss where p: "p = ss @ [''completed'']"
    using assms(2,4) by (metis append_butlast_last_id)
  obtain qs where ss: "ss = qs @ [''in_review'']" and qs: "lifecycle_path (qs @ [''in_review''])"
    using ends_before [of ss "''completed''" "''in_review''"] to_completed assms(1,3)
    unfolding p by blast
  have "hd (qs @ [''in_review'']) \<noteq> ''in_review''" using assms(3) p ss by (cases qs) auto
  then obtain rs where "qs = rs @ [''active'']" "lifecycle_path (rs @ [''active''])"
    using ends_before [of qs "''in_review''" "''active''"] to_in_review qs by blast
  then show ?thesis using p ss by simp
qed

lemma completed_only_after_review_witness:
  "\<exists>q. [''pending'', ''funded'', ''active'', ''in_review'', ''completed''] =
     q @ [''active'', ''in_review'', ''completed''] \<and> lifecycle_path (q @ [''active''])"
  by (rule completed_only_after_review) (simp_all add: canTransition_def lifecycle_tables)

text \<open>
  Terminal statuses have no way out, and every other status has one: from each status the
  code knows, some allowed path ends in a terminal status.
\<close>

theorem terminal_reachable:
  assumes "isAgreementStatus s"
  shows "(isTerminalStatus s \<longleftrightarrow> (\<forall>t. \<not> canTransition s t)) \<and>
    (\<exists>p. lifecycle_path (s # p) \<and> isTerminalStatus (last (s # p)))"
  using closing_path_ok [OF assms] terminal_iff_no_exit [OF assms] no_exit_iff [OF assms] by blast

lemma terminal_reachable_witness:
  "(isTerminalStatus ''funded'' \<longleftrightarrow> (\<forall>t. \<not> canTransition ''funded'' t)) \<and>
    (\<exists>p. lifecycle_path (''funded'' # p) \<and> isTerminalStatus (last (''funded'' # p)))"
  by (rule terminal_reachable) (simp add: isAgreementStatus_def AGREEMENT_STATUSES_def)

text \<open>
  The validation service answers every pair of strings, except that it throws a
  \<open>TypeError\<close> exactly when the source status is a name inherited from \<open>Object.prototype\<close>, the
  target is another key its \<open>in\<close> test accepts, and the two differ.
\<close>

theorem service_throws_iff:
  "(\<exists>e. service_validateTransition s t = Inl e) \<longleftrightarrow>
     inherited s \<and> (isAgreementStatus t \<or> inherited t) \<and> s \<noteq> t"
proof -
  have none: "\<not> isAgreementStatus s \<Longrightarrow> map_of VALID_TRANSITIONS s = None"
    by (auto simp: lifecycle_tables)
  show ?thesis
    using none tables_agree [of s] not_inherited_status [of s]
    by (cases "isAgreementStatus s") (auto simp: service_validateTransition_def in_table_iff)
qed

end
