(* ===== verification/Milestones.thy ===== *)
theory Milestones
  imports Prelude
begin

text \<open>
  Milestone statuses (\<open>common/milestone-status.ts\<close>) and the decisions of the milestone sync
  service about one milestone (\<open>agreements/milestone-sync/milestone-sync.service.ts\<close>): whether a
  status Trustless Work reports is applied, skipped or a conflict. The push itself, which talks to
  Trustless Work, is in the theory of the escrow helpers.
\<close>

section \<open>\<open>common/milestone-status.ts\<close>\<close>

definition MILESTONE_STATUSES :: "string list" where
  "MILESTONE_STATUSES = [''pending'', ''approved'', ''released'', ''rejected'']"

definition isMilestoneStatus :: "string \<Rightarrow> bool" where
  "isMilestoneStatus v = js_includes MILESTONE_STATUSES v"

definition normalizeMilestoneStatus :: "string \<Rightarrow> string option" where
  "normalizeMilestoneStatus raw = (if isMilestoneStatus raw then Some raw else None)"

record tw_flags =
  twf_approved :: "bool option"
  twf_released :: "bool option"

record tw_milestone =
  tw_status :: "string option"
  tw_approved :: "bool option"
  tw_flags :: "tw_flags option"

text \<open>\<open>toLowerCase\<close> on the ASCII letters, which decides the comparison with an ASCII word.\<close>

definition lower_char :: "char \<Rightarrow> char" where
  "lower_char c = (let n = (of_char c :: nat) in if 65 \<le> n \<and> n \<le> 90 then char_of (n + 32) else c)"

definition upper_char :: "char \<Rightarrow> char" where
  "upper_char c = (let n = (of_char c :: nat) in if 97 \<le> n \<and> n \<le> 122 then char_of (n - 32) else c)"

definition toLowerCase :: "string \<Rightarrow> string" where
  "toLowerCase s = map lower_char s"

definition toUpperCase :: "string \<Rightarrow> string" where
  "toUpperCase s = map upper_char s"

definition milestoneStatusFromTrustless :: "tw_milestone \<Rightarrow> bool \<Rightarrow> string" where
  "milestoneStatusFromTrustless m escrowReleased =
     (let flag = (\<lambda>f. case tw_flags m of None \<Rightarrow> False | Some fs \<Rightarrow> default (f fs) False)
      in if escrowReleased \<or> flag twf_released then ''released''
         else if default (tw_approved m) False \<or> flag twf_approved then ''approved''
         else if map_option toLowerCase (tw_status m) = Some ''rejected'' then ''rejected''
         else ''pending'')"

section \<open>Decisions of \<open>MilestoneSyncService\<close>\<close>

definition toTWServiceType :: "string \<Rightarrow> string" where
  "toTWServiceType agreementType = (if agreementType = ''multi'' then ''multi-release'' else ''single-release'')"

definition settled_statuses :: "string list" where
  "settled_statuses = [''approved'', ''released'', ''rejected'', ''cancelled'']"

definition detectConflict :: "string \<Rightarrow> string \<Rightarrow> bool" where
  "detectConflict localStatus twStatus =
     (if localStatus \<notin> set settled_statuses then False
      else if localStatus = twStatus then False
      else if localStatus = ''approved'' \<and> twStatus = ''released'' then False
      else twStatus \<in> set settled_statuses)"

datatype sync_decision = Applied | Skipped | Conflicting

definition applyTWMilestoneUpdate :: "string \<Rightarrow> string \<Rightarrow> sync_decision" where
  "applyTWMilestoneUpdate currentLocalStatus tw =
     (case normalizeMilestoneStatus tw of
        None \<Rightarrow> Conflicting
      | Some twStatus \<Rightarrow>
          if currentLocalStatus = twStatus then Skipped
          else if detectConflict currentLocalStatus twStatus then Conflicting
          else Applied)"

text \<open>What the caller stores after a decision, and a run over a sequence of reports.\<close>

definition after_report :: "string \<Rightarrow> string \<Rightarrow> string" where
  "after_report s tw = (if applyTWMilestoneUpdate s tw = Applied then tw else s)"

definition after_reports :: "string \<Rightarrow> string list \<Rightarrow> string" where
  "after_reports = foldl after_report"

section \<open>Lemmas\<close>

lemmas milestone_defs = isMilestoneStatus_def MILESTONE_STATUSES_def normalizeMilestoneStatus_def
  settled_statuses_def detectConflict_def applyTWMilestoneUpdate_def after_report_def

lemma fromTrustless_is_status: "isMilestoneStatus (milestoneStatusFromTrustless m r)"
  by (simp add: milestoneStatusFromTrustless_def isMilestoneStatus_def MILESTONE_STATUSES_def Let_def)

lemma applied_status: "applyTWMilestoneUpdate s tw = Applied \<Longrightarrow> isMilestoneStatus tw"
  by (auto simp: applyTWMilestoneUpdate_def normalizeMilestoneStatus_def split: if_splits)

lemma report_again: "applyTWMilestoneUpdate (after_report s tw) tw \<noteq> Applied"
  by (auto simp: after_report_def applyTWMilestoneUpdate_def normalizeMilestoneStatus_def)

lemma report_idem: "after_report (after_report s tw) tw = after_report s tw"
  using report_again [of s tw] by (simp add: after_report_def)

lemma after_report_iff:
  "isMilestoneStatus tw \<Longrightarrow> after_report s tw =
     (if s \<in> set settled_statuses \<and> tw \<noteq> ''pending'' \<and> \<not> (s = ''approved'' \<and> tw = ''released'') then s else tw)"
  by (auto simp: milestone_defs)

lemma after_report_other: "\<not> isMilestoneStatus tw \<Longrightarrow> after_report s tw = s"
  by (simp add: after_report_def applyTWMilestoneUpdate_def normalizeMilestoneStatus_def)

lemma after_report_released:
  "after_report ''released'' tw = (if tw = ''pending'' then ''pending'' else ''released'')"
  using after_report_iff [of tw "''released''"] after_report_other [of tw "''released''"]
  by (cases "isMilestoneStatus tw") (auto simp: settled_statuses_def isMilestoneStatus_def MILESTONE_STATUSES_def)

lemma after_reports_released: "''pending'' \<notin> set rs \<Longrightarrow> after_reports ''released'' rs = ''released''"
  by (induction rs) (auto simp: after_reports_def after_report_released)

section \<open>Properties\<close>

text \<open>
  What a Trustless Work report does to the local milestone: it is read from the flags as one
  of the four Thalos statuses, and storing it is idempotent. The local status is kept exactly when
  it is settled and the report is another settled status, the step from approved to released
  excepted; otherwise the report is taken over.
\<close>

theorem milestone_report_outcome:
  "let tw = milestoneStatusFromTrustless m released in
     isMilestoneStatus tw \<and>
     after_report s tw =
       (if s \<in> set settled_statuses \<and> tw \<noteq> ''pending'' \<and> \<not> (s = ''approved'' \<and> tw = ''released'') then s else tw) \<and>
     after_report (after_report s tw) tw = after_report s tw"
  by (simp add: Let_def fromTrustless_is_status after_report_iff report_idem)

text \<open>
  A released milestone stays released through a sequence of reports exactly as long as none of
  them says pending: a stale pending report is not taken for a conflict and takes the release back.
\<close>

theorem released_stays_iff:
  "(\<forall>n. after_reports ''released'' (take n rs) = ''released'') \<longleftrightarrow> ''pending'' \<notin> set rs"
proof
  assume stays: "\<forall>n. after_reports ''released'' (take n rs) = ''released''"
  show "''pending'' \<notin> set rs"
  proof
    assume "''pending'' \<in> set rs"
    then obtain ys zs where rs: "rs = ys @ ''pending'' # zs" by (meson split_list)
    have "after_reports ''released'' (ys @ [''pending'']) = ''released''"
      using stays [rule_format, of "Suc (length ys)"] by (simp add: rs)
    moreover have "after_reports ''released'' ys = ''released''"
      using stays [rule_format, of "length ys"] by (simp add: rs)
    ultimately show False by (simp add: after_reports_def after_report_released)
  qed
next
  assume "''pending'' \<notin> set rs"
  then have "''pending'' \<notin> set (take n rs)" for n by (meson in_set_takeD)
  then show "\<forall>n. after_reports ''released'' (take n rs) = ''released''"
    by (simp add: after_reports_released)
qed

end
