(* ===== verification/JsNumber.thy ===== *)
theory JsNumber
  imports Prelude "HOL-Library.Log_Nat"
begin

text \<open>
  JavaScript numbers: IEEE 754 binary64 with round-to-nearest, ties to even. A finite number is
  the rational it stands for (the two zeros are one value); the operations round the exact
  result with \<open>rnd64\<close> and overflow to an infinity. The locale \<open>rounding\<close> states what the
  arithmetic proofs need of a rounding function, and \<open>rnd64\<close> is shown to satisfy it.
\<close>

subsection \<open>Rounding to binary64\<close>

text \<open>The exponent of the leading bit: \<open>2 powi expo q \<le> \<bar>q\<bar> < 2 powi (expo q + 1)\<close>.\<close>

definition expo :: "rat \<Rightarrow> int" where
  "expo q = (case quotient_of \<bar>q\<bar> of (n, d) \<Rightarrow>
     (let e = bitlen n - bitlen d in if 2 powi e \<le> \<bar>q\<bar> then e else e - 1))"

definition round_even :: "rat \<Rightarrow> int" where
  "round_even x = (let f = \<lfloor>x\<rfloor>; r = x - of_int f in
     if r < 1 / 2 then f else if 1 / 2 < r then f + 1 else if even f then f else f + 1)"

definition unit64 :: "rat \<Rightarrow> rat" where
  "unit64 q = 2 powi (max (expo q) (- 1022) - 52)"

definition rnd64 :: "rat \<Rightarrow> rat" where
  "rnd64 q = (if q = 0 then 0 else of_int (round_even (q / unit64 q)) * unit64 q)"

text \<open>
  What the proofs use: small integers are exact, the error is at most half a unit in the last
  place (relative \<open>eps64\<close>, or below the smallest normal number \<open>tiny64\<close>), and rounding keeps
  the sign.
\<close>

definition eps64 :: rat where "eps64 = 1 / 2 ^ 53"

definition tiny64 :: rat where "tiny64 = 2 powi (- 1022)"

locale rounding =
  fixes fl :: "rat \<Rightarrow> rat"
  assumes fl_int: "\<bar>n\<bar> \<le> 2 ^ 53 \<Longrightarrow> fl (of_int n) = of_int n"
    and fl_err: "\<bar>fl x - x\<bar> \<le> \<bar>x\<bar> * eps64 + tiny64"
    and fl_nonneg: "0 \<le> x \<Longrightarrow> 0 \<le> fl x"
    and fl_le_int: "0 \<le> x \<Longrightarrow> x \<le> of_int n \<Longrightarrow> n < 2 ^ 53 \<Longrightarrow> fl x \<le> of_int n"
    and fl_ge_int: "0 \<le> n \<Longrightarrow> n \<le> 2 ^ 53 \<Longrightarrow> of_int n \<le> x \<Longrightarrow> of_int n \<le> fl x"
begin

lemma fl_0 [simp]: "fl 0 = 0"
  using fl_int [of 0] by simp

lemma fl_upper: "0 \<le> x \<Longrightarrow> fl x \<le> x + x * eps64 + tiny64"
  using fl_err [of x] by (simp add: abs_le_iff)

lemma fl_lower: "0 \<le> x \<Longrightarrow> x - x * eps64 - tiny64 \<le> fl x"
  using fl_err [of x] by (simp add: abs_le_iff)

end

lemma powi_split: "(2::rat) powi (a + b) = 2 powi a * 2 powi b"
  by (simp add: power_int_add)

lemma powi_mono2: "a \<le> b \<Longrightarrow> (2::rat) powi a \<le> 2 powi b"
  by (rule power_int_increasing) auto

lemma powi_pos [simp]: "0 < (2::rat) powi a"
  by (rule zero_less_power_int) simp

lemma bitlen_between:
  assumes "0 < (n::int)"
  shows "(2::rat) powi (bitlen n - 1) \<le> of_int n \<and> of_int n < (2::rat) powi bitlen n"
proof -
  have b: "2 ^ nat (bitlen n - 1) \<le> n \<and> n < 2 ^ nat (bitlen n)"
    using bitlen_bounds [OF assms] by simp
  have "1 \<le> bitlen n" using assms bitlen_nonneg [of n] bitlen_eq_zero_iff [of n] by linarith
  then have e: "(2::rat) powi (bitlen n - 1) = of_int (2 ^ nat (bitlen n - 1))"
      "(2::rat) powi bitlen n = of_int (2 ^ nat (bitlen n))"
    by (simp_all add: power_int_def)
  show ?thesis unfolding e using b by (simp only: of_int_le_iff of_int_less_iff)
qed

lemma expo_bounds:
  assumes "q \<noteq> 0"
  shows "2 powi expo q \<le> \<bar>q\<bar> \<and> \<bar>q\<bar> < 2 powi (expo q + 1)"
proof -
  obtain n d where nd: "quotient_of \<bar>q\<bar> = (n, d)" by fastforce
  then have q: "\<bar>q\<bar> = of_int n / of_int d" and d: "0 < d"
    by (simp_all add: quotient_of_div quotient_of_denom_pos)
  have n: "0 < n"
    using q d assms by (metis abs_ge_zero abs_zero div_0 of_int_0 of_int_0_less_iff order_le_less
        zero_less_abs_iff zero_less_divide_iff not_less_iff_gr_or_eq)
  define e where "e = bitlen n - bitlen d"
  have N: "2 powi (bitlen n - 1) \<le> (of_int n :: rat)" "(of_int n :: rat) < 2 powi bitlen n"
    and D: "2 powi (bitlen d - 1) \<le> (of_int d :: rat)" "(of_int d :: rat) < 2 powi bitlen d"
    using bitlen_between [OF n] bitlen_between [OF d] by auto
  have up: "\<bar>q\<bar> < 2 powi (e + 1)"
  proof -
    have "(of_int n :: rat) < 2 powi bitlen n" by (rule N)
    also have "\<dots> = 2 powi (e + 1) * 2 powi (bitlen d - 1)"
      unfolding e_def by (simp flip: powi_split)
    also have "\<dots> \<le> 2 powi (e + 1) * of_int d" using D(1) by simp
    finally show ?thesis using d by (simp add: q pos_divide_less_eq)
  qed
  have low: "2 powi (e - 1) \<le> \<bar>q\<bar>"
  proof -
    have "2 powi (e - 1) * of_int d \<le> 2 powi (e - 1) * (2 powi bitlen d :: rat)" using D(2) by simp
    also have "\<dots> = 2 powi (bitlen n - 1)" unfolding e_def by (simp flip: powi_split)
    also have "\<dots> \<le> of_int n" by (rule N)
    finally show ?thesis using d by (simp add: q pos_le_divide_eq)
  qed
  show ?thesis using up low by (auto simp: expo_def nd Let_def e_def [symmetric])
qed

lemma round_even_err: "\<bar>of_int (round_even x) - x\<bar> \<le> 1 / 2"
proof -
  have "of_int \<lfloor>x\<rfloor> \<le> x" "x < of_int \<lfloor>x\<rfloor> + 1" by linarith+
  then show ?thesis by (auto simp: round_even_def Let_def abs_le_iff)
qed

lemma round_even_int [simp]: "round_even (of_int n) = n"
  by (simp add: round_even_def)

lemma round_even_nonneg: "0 \<le> x \<Longrightarrow> 0 \<le> round_even x"
  by (auto simp: round_even_def Let_def)

lemma unit64_pos [simp]: "0 < unit64 q"
  by (simp add: unit64_def)

lemma unit64_ge0 [simp]: "0 \<le> unit64 q"
  using unit64_pos [of q] by linarith

lemma abs_unit64 [simp]: "\<bar>unit64 q\<bar> = unit64 q"
  by simp

lemma unit64_nz [simp]: "unit64 q \<noteq> 0"
  using unit64_pos [of q] by linarith

lemma rnd64_abs_err: "\<bar>rnd64 q - q\<bar> \<le> unit64 q / 2"
proof (cases "q = 0")
  case True
  then show ?thesis using unit64_pos [of q] by (simp add: rnd64_def less_imp_le)
next
  case False
  let ?u = "unit64 q"
  have "rnd64 q - q = (of_int (round_even (q / ?u)) - q / ?u) * ?u"
    using False unit64_pos [of q] by (simp add: rnd64_def algebra_simps)
  then have "\<bar>rnd64 q - q\<bar> = \<bar>of_int (round_even (q / ?u)) - q / ?u\<bar> * ?u"
    using unit64_pos [of q] by (simp add: abs_mult)
  also have "\<dots> \<le> 1 / 2 * ?u"
    using unit64_pos [of q] round_even_err by (intro mult_right_mono) auto
  finally show ?thesis by simp
qed

lemma rnd64_exact:
  assumes "q / unit64 q = of_int k"
  shows "rnd64 q = q"
proof (cases "q = 0")
  case False
  have "rnd64 q = of_int k * unit64 q" using False assms by (simp add: rnd64_def)
  also have "\<dots> = q" using assms unit64_pos [of q] by (simp add: field_simps)
  finally show ?thesis .
qed (simp add: rnd64_def)

lemma rnd64_int:
  assumes "\<bar>n\<bar> \<le> 2 ^ 53"
  shows "rnd64 (of_int n) = of_int n"
proof (cases "n = 0")
  case True
  then show ?thesis by (simp add: rnd64_def)
next
  case False
  define e where "e = expo (of_int n)"
  have b: "2 powi e \<le> \<bar>of_int n :: rat\<bar>" "\<bar>of_int n :: rat\<bar> < 2 powi (e + 1)"
    using expo_bounds [of "of_int n"] False by (auto simp: e_def)
  have e0: "0 \<le> e"
  proof (rule ccontr)
    assume "\<not> 0 \<le> e"
    then have "(2::rat) powi (e + 1) \<le> 2 powi 0" by (intro powi_mono2) simp
    moreover have "of_int 1 \<le> (of_int \<bar>n\<bar> :: rat)"
      using False by (subst of_int_le_iff) linarith
    ultimately show False using b(2) by simp
  qed
  have e53: "e \<le> 53"
  proof (rule ccontr)
    assume "\<not> e \<le> 53"
    then have "(2::rat) powi 54 \<le> 2 powi e" by (intro powi_mono2) simp
    moreover have "\<bar>of_int n :: rat\<bar> \<le> 2 ^ 53"
      using assms by (metis of_int_abs of_int_le_iff of_int_numeral of_int_power)
    ultimately have "(2::rat) powi 54 \<le> 2 ^ 53" using b(1) by linarith
    then show False by simp
  qed
  have u: "unit64 (of_int n) = 2 powi (e - 52)" using e0 by (simp add: unit64_def e_def [symmetric] max_def)
  show ?thesis
  proof (cases "e = 53")
    case True
    then have "(2::rat) ^ 53 \<le> \<bar>of_int n\<bar>" using b(1) by simp
    then have "(of_int (2 ^ 53) :: rat) \<le> of_int \<bar>n\<bar>" by simp
    then have "\<bar>n\<bar> = 2 ^ 53" using assms by (simp only: of_int_le_iff)
    then have "n = 2 ^ 53 \<or> n = - (2 ^ 53)" by linarith
    then have "even n" by auto
    then obtain k where k: "n = 2 * k" by (elim evenE)
    have "unit64 (of_int n) = 2" using True u by simp
    then have "(of_int n :: rat) / unit64 (of_int n) = of_int k" by (simp add: k)
    then show ?thesis by (rule rnd64_exact)
  next
    case False
    then have le: "e \<le> 52" using e53 by simp
    have "(of_int n :: rat) / unit64 (of_int n) = of_int n * 2 powi (52 - e)"
      unfolding u by (simp add: divide_inverse flip: power_int_minus)
    also have "\<dots> = of_int (n * 2 ^ nat (52 - e))"
      using le by (simp add: power_int_def)
    finally show ?thesis by (rule rnd64_exact)
  qed
qed

lemma rnd64_err: "\<bar>rnd64 q - q\<bar> \<le> \<bar>q\<bar> * eps64 + tiny64"
proof (cases "q = 0")
  case True
  then show ?thesis by (simp add: rnd64_def tiny64_def less_imp_le)
next
  case False
  have half: "unit64 q / 2 = 2 powi (max (expo q) (- 1022)) * eps64"
    by (simp add: unit64_def eps64_def power_int_diff)
  have "unit64 q / 2 \<le> \<bar>q\<bar> * eps64 + tiny64"
  proof (cases "- 1022 \<le> expo q")
    case True
    then have "unit64 q / 2 \<le> \<bar>q\<bar> * eps64"
      using expo_bounds [OF False] by (simp add: half max_def eps64_def)
    then show ?thesis by (simp add: tiny64_def add_increasing2 less_imp_le)
  next
    case False
    then have "unit64 q / 2 = tiny64 * eps64" by (simp add: half max_def tiny64_def)
    also have "\<dots> \<le> tiny64" unfolding eps64_def tiny64_def
      by (rule mult_left_le) (simp_all add: less_imp_le)
    also have "\<dots> \<le> \<bar>q\<bar> * eps64 + tiny64" by (simp add: eps64_def)
    finally show ?thesis .
  qed
  then show ?thesis using rnd64_abs_err [of q] by linarith
qed

lemma rnd64_nonneg: "0 \<le> q \<Longrightarrow> 0 \<le> rnd64 q"
proof -
  assume "0 \<le> q"
  then have "0 \<le> round_even (q / unit64 q)"
    using unit64_pos [of q] by (intro round_even_nonneg divide_nonneg_nonneg) simp_all
  then show ?thesis using unit64_pos [of q] by (auto simp: rnd64_def intro: mult_nonneg_nonneg)
qed

lemma round_even_le: "x \<le> of_int m \<Longrightarrow> round_even x \<le> m"
proof -
  assume x: "x \<le> of_int m"
  then have "\<lfloor>x\<rfloor> < m \<or> x = of_int m" by linarith
  then show ?thesis by (auto simp: round_even_def Let_def)
qed

lemma rnd64_le_int:
  assumes "0 \<le> x" and "x \<le> of_int n" and "n < 2 ^ 53"
  shows "rnd64 x \<le> of_int n"
proof (cases "x = 0")
  case True
  then show ?thesis using assms by (simp add: rnd64_def)
next
  case False
  define e where "e = max (expo x) (- 1022)"
  have "2 powi expo x \<le> x" using expo_bounds [OF False] assms(1) by simp
  also have "x < 2 powi 53"
  proof -
    have "(of_int n :: rat) < of_int (2 ^ 53)" using assms(3) by (simp only: of_int_less_iff)
    then show ?thesis using assms(2) by simp
  qed
  finally have "(2::rat) powi expo x < 2 powi 53" .
  then have "expo x < 53" using powi_mono2 [of 53 "expo x"] by (meson not_le)
  then have e: "e \<le> 52" by (simp add: e_def)
  have u: "unit64 x = 2 powi (e - 52)" by (simp add: unit64_def e_def)
  have "(of_int n :: rat) / unit64 x = of_int n * 2 powi (52 - e)"
    unfolding u by (simp add: divide_inverse flip: power_int_minus)
  also have "\<dots> = of_int (n * 2 ^ nat (52 - e))" using e by (simp add: power_int_def)
  finally have n: "(of_int n :: rat) / unit64 x = of_int (n * 2 ^ nat (52 - e))" .
  have "x / unit64 x \<le> of_int n / unit64 x" using assms(2) by (simp add: divide_right_mono)
  then have "of_int (round_even (x / unit64 x)) \<le> (of_int n :: rat) / unit64 x"
    unfolding n by (simp only: of_int_le_iff round_even_le)
  then have "of_int (round_even (x / unit64 x)) * unit64 x \<le> of_int n" by (simp add: pos_le_divide_eq)
  then show ?thesis using False by (simp add: rnd64_def)
qed

lemma round_even_ge: "of_int m \<le> x \<Longrightarrow> m \<le> round_even x"
proof -
  assume "of_int m \<le> x"
  then have "m \<le> \<lfloor>x\<rfloor>" by (simp add: le_floor_iff)
  then show ?thesis by (auto simp: round_even_def Let_def)
qed

lemma rnd64_ge:
  assumes "x \<noteq> 0" and "of_int k * unit64 x \<le> x"
  shows "of_int k * unit64 x \<le> rnd64 x"
proof -
  have "of_int k \<le> x / unit64 x" using assms(2) by (simp add: pos_le_divide_eq)
  then have "k \<le> round_even (x / unit64 x)" by (rule round_even_ge)
  then show ?thesis using assms(1) by (simp add: rnd64_def)
qed

lemma rnd64_ge_int:
  assumes "0 \<le> n" and "n \<le> 2 ^ 53" and "of_int n \<le> x"
  shows "of_int n \<le> rnd64 x"
proof (cases "x = 0")
  case True
  then show ?thesis using assms by (simp add: rnd64_def)
next
  case False
  define e where "e = max (expo x) (- 1022)"
  have u: "unit64 x = 2 powi (e - 52)" by (simp add: unit64_def e_def)
  have x: "2 powi expo x \<le> x" using expo_bounds [OF False] assms by simp
  show ?thesis
  proof (cases "e \<le> 52")
    case True
    have "of_int (n * 2 ^ nat (52 - e)) * unit64 x = of_int n * (2 powi (52 - e) * 2 powi (e - 52))"
      using True by (simp add: u power_int_def)
    also have "\<dots> = of_int n" by (simp flip: powi_split)
    finally have n: "of_int (n * 2 ^ nat (52 - e)) * unit64 x = of_int n" .
    have "of_int (n * 2 ^ nat (52 - e)) * unit64 x \<le> rnd64 x"
      by (rule rnd64_ge [OF \<open>x \<noteq> 0\<close>]) (use assms(3) in \<open>simp only: n\<close>)
    then show ?thesis by (simp only: n)
  next
    case False
    then have e: "e = expo x" by (auto simp: e_def)
    have "of_int (2 ^ 52) * unit64 x = 2 powi 52 * 2 powi (e - 52)" by (simp add: u)
    also have "\<dots> = 2 powi e" by (simp only: powi_split [symmetric]) simp
    finally have "2 powi e \<le> rnd64 x"
      using rnd64_ge [OF \<open>x \<noteq> 0\<close>, of "2 ^ 52"] x e by simp
    moreover have "(2::rat) powi 53 \<le> 2 powi e" using False by (intro powi_mono2) simp
    moreover have "(of_int n :: rat) \<le> of_int (2 ^ 53)" using assms(2) by (simp only: of_int_le_iff)
    ultimately show ?thesis by simp
  qed
qed

interpretation ieee: rounding rnd64
  by unfold_locales (auto simp: rnd64_int rnd64_err rnd64_nonneg rnd64_le_int rnd64_ge_int)

subsection \<open>Numbers with infinities and NaN\<close>

datatype jsnum = Fin rat | PosInf | NegInf | NaN

text \<open>The rounded result of an operation with exact result \<open>q\<close>; overflow is an infinity.\<close>

definition of_exact :: "rat \<Rightarrow> jsnum" where
  "of_exact q = (let r = rnd64 q in
     if \<bar>r\<bar> < 2 ^ 1024 then Fin r else if 0 < r then PosInf else NegInf)"

definition is_finite :: "jsnum \<Rightarrow> bool" where
  "is_finite x = (case x of Fin _ \<Rightarrow> True | _ \<Rightarrow> False)"

fun js_neg :: "jsnum \<Rightarrow> jsnum" where
  "js_neg (Fin a) = Fin (- a)"
| "js_neg PosInf = NegInf"
| "js_neg NegInf = PosInf"
| "js_neg NaN = NaN"

fun js_add :: "jsnum \<Rightarrow> jsnum \<Rightarrow> jsnum" where
  "js_add NaN _ = NaN"
| "js_add _ NaN = NaN"
| "js_add (Fin a) (Fin b) = of_exact (a + b)"
| "js_add PosInf NegInf = NaN"
| "js_add NegInf PosInf = NaN"
| "js_add PosInf _ = PosInf"
| "js_add _ PosInf = PosInf"
| "js_add NegInf _ = NegInf"
| "js_add _ NegInf = NegInf"

definition js_sub :: "jsnum \<Rightarrow> jsnum \<Rightarrow> jsnum" where
  "js_sub x y = js_add x (js_neg y)"

fun js_sgn :: "jsnum \<Rightarrow> rat" where
  "js_sgn (Fin a) = sgn a"
| "js_sgn PosInf = 1"
| "js_sgn NegInf = -1"
| "js_sgn NaN = 0"

fun js_mult :: "jsnum \<Rightarrow> jsnum \<Rightarrow> jsnum" where
  "js_mult NaN _ = NaN"
| "js_mult _ NaN = NaN"
| "js_mult (Fin a) (Fin b) = of_exact (a * b)"
| "js_mult x y = (let s = js_sgn x * js_sgn y in
     if s = 0 then NaN else if 0 < s then PosInf else NegInf)"

text \<open>Division by a finite non-zero constant is all the code does.\<close>

fun js_div_by :: "jsnum \<Rightarrow> rat \<Rightarrow> jsnum" where
  "js_div_by (Fin a) c = of_exact (a / c)"
| "js_div_by x c = (if 0 < c then x else js_neg x)"

fun js_floor :: "jsnum \<Rightarrow> jsnum" where
  "js_floor (Fin a) = Fin (of_int \<lfloor>a\<rfloor>)"
| "js_floor x = x"

text \<open>\<open>Math.round\<close>: the nearest integer, halves towards plus infinity, computed exactly.\<close>

fun js_round :: "jsnum \<Rightarrow> jsnum" where
  "js_round (Fin a) = Fin (of_int \<lfloor>a + 1 / 2\<rfloor>)"
| "js_round x = x"

fun js_abs :: "jsnum \<Rightarrow> jsnum" where
  "js_abs (Fin a) = Fin \<bar>a\<bar>"
| "js_abs NaN = NaN"
| "js_abs _ = PosInf"

fun js_less :: "jsnum \<Rightarrow> jsnum \<Rightarrow> bool" where
  "js_less (Fin a) (Fin b) = (a < b)"
| "js_less NegInf (Fin _) = True"
| "js_less NegInf PosInf = True"
| "js_less (Fin _) PosInf = True"
| "js_less _ _ = False"

fun js_eq :: "jsnum \<Rightarrow> jsnum \<Rightarrow> bool" where
  "js_eq (Fin a) (Fin b) = (a = b)"
| "js_eq PosInf PosInf = True"
| "js_eq NegInf NegInf = True"
| "js_eq _ _ = False"

definition js_le :: "jsnum \<Rightarrow> jsnum \<Rightarrow> bool" where
  "js_le x y \<longleftrightarrow> js_less x y \<or> js_eq x y"

text \<open>
  \<open>Number(x.toFixed(k))\<close> for a finite \<open>x\<close> below \<open>10^21\<close>: \<open>toFixed\<close> prints the multiple of
  \<open>10^-k\<close> nearest to the magnitude of \<open>x\<close> (the larger one on a tie), and \<open>Number\<close> rounds that
  decimal to a double. A larger \<open>x\<close> is printed in full and read back unchanged.
\<close>

definition via_fixed :: "nat \<Rightarrow> rat \<Rightarrow> jsnum" where
  "via_fixed k x = (if \<bar>x\<bar> < 10 ^ 21
     then of_exact (sgn x * of_int \<lfloor>\<bar>x\<bar> * 10 ^ k + 1 / 2\<rfloor> / 10 ^ k) else Fin x)"

fun js_via_fixed :: "nat \<Rightarrow> jsnum \<Rightarrow> jsnum" where
  "js_via_fixed k (Fin x) = via_fixed k x"
| "js_via_fixed k x = x"

text \<open>Below a bound far from overflow the operations are the rounded exact ones.\<close>

text \<open>For evaluation: most results are far below the overflow bound, which is slow to compute.\<close>

lemma of_exact_code [code]: "of_exact q = (let r = rnd64 q in
     if \<bar>r\<bar> < 1000000000000000000000 then Fin r
     else if \<bar>r\<bar> < 2 ^ 1024 then Fin r else if 0 < r then PosInf else NegInf)"
proof -
  have "(1000000000000000000000 :: rat) \<le> 2 ^ 1024"
    by (rule order_trans [of _ "2 ^ 100"]) (simp, rule power_increasing, simp_all)
  then show ?thesis by (auto simp: of_exact_def Let_def)
qed

lemma of_exact_small: "\<bar>q\<bar> \<le> 2 ^ 1000 \<Longrightarrow> of_exact q = Fin (rnd64 q)"
proof -
  assume q: "\<bar>q\<bar> \<le> 2 ^ 1000"
  have "eps64 \<le> 1" "tiny64 \<le> 1" by (simp_all add: eps64_def tiny64_def)
  then have "\<bar>q\<bar> * eps64 \<le> \<bar>q\<bar>" by (intro mult_left_le) auto
  then have "\<bar>rnd64 q\<bar> \<le> 2 * \<bar>q\<bar> + 1"
    using rnd64_err [of q] \<open>tiny64 \<le> 1\<close> by linarith
  also have "\<dots> \<le> 2 * 2 ^ 1000 + (1::rat)" using q by linarith
  also have "\<dots> < 2 ^ 1024" by simp
  finally show ?thesis by (simp add: of_exact_def Let_def)
qed

lemma of_exact_int: "\<bar>n\<bar> \<le> 2 ^ 53 \<Longrightarrow> of_exact (of_int n) = Fin (of_int n)"
proof -
  assume n: "\<bar>n\<bar> \<le> 2 ^ 53"
  then have "\<bar>of_int n :: rat\<bar> \<le> of_int (2 ^ 53)" by (metis of_int_abs of_int_le_iff)
  also have "\<dots> \<le> 2 ^ 1000" by simp
  finally show ?thesis using n by (simp add: of_exact_small rnd64_int)
qed

subsection \<open>Counting in units\<close>

text \<open>
  A count of \<open>1/d\<close> units, printed as a number of units and multiplied back, is the count again:
  the bounds that make cents and stroops exact.
\<close>

lemma near_floor: "\<bar>y - of_int k\<bar> < 1 / 2 \<Longrightarrow> \<lfloor>y + 1 / 2\<rfloor> = k" for y :: rat
  by (rule floor_unique) linarith+

lemma tiny64_le: "tiny64 \<le> 1 / 2 ^ 1000"
  by (simp add: tiny64_def power_int_def field_simps)

lemma tiny64_small: "tiny64 \<le> 1 / 2 ^ 100"
  using tiny64_le by (rule order_trans) simp

context rounding
begin

lemma fl_close: "0 \<le> x \<Longrightarrow> x \<le> m \<Longrightarrow> \<bar>fl x - x\<bar> \<le> m * eps64 + 1 / 2 ^ 100"
proof -
  assume x: "0 \<le> x" "x \<le> m"
  have "\<bar>fl x - x\<bar> \<le> x * eps64 + tiny64" using fl_err [of x] x by simp
  also have "\<dots> \<le> m * eps64 + 1 / 2 ^ 100"
    using x tiny64_small by (intro add_mono mult_right_mono) (auto simp: eps64_def)
  finally show ?thesis .
qed

lemma units_close:
  assumes "0 \<le> k" and "k \<le> 2 ^ 50" and d: "1 \<le> d" "d \<le> 10 ^ 7"
  shows "\<bar>fl (of_int k / d) * d - of_int k\<bar> \<le> 1 / 7"
proof -
  have k: "0 \<le> (of_int k :: rat)" "(of_int k :: rat) \<le> 2 ^ 50"
    using assms by (simp, metis of_int_le_iff of_int_numeral of_int_power)
  then have "\<bar>fl (of_int k / d) - of_int k / d\<bar> \<le> 2 ^ 50 / d * eps64 + 1 / 2 ^ 100"
    using d by (intro fl_close) (auto intro: divide_right_mono)
  then have "\<bar>fl (of_int k / d) - of_int k / d\<bar> * d \<le> (2 ^ 50 / d * eps64 + 1 / 2 ^ 100) * d"
    using d by (intro mult_right_mono) auto
  moreover have "\<bar>fl (of_int k / d) - of_int k / d\<bar> * d = \<bar>fl (of_int k / d) * d - of_int k\<bar>"
  proof -
    have "fl (of_int k / d) * d - of_int k = (fl (of_int k / d) - of_int k / d) * d"
      using d by (simp add: left_diff_distrib)
    then show ?thesis using d by (simp add: abs_mult)
  qed
  moreover have "(2 ^ 50 / d * eps64 + 1 / 2 ^ 100) * d \<le> 1 / 7"
    using d by (simp add: eps64_def distrib_right)
  ultimately show ?thesis by linarith
qed

lemma units_back:
  assumes "0 \<le> k" and "k \<le> 2 ^ 50" and d: "1 \<le> d" "d \<le> 10 ^ 7"
  shows "\<lfloor>fl (fl (of_int k / d) * d) + 1 / 2\<rfloor> = k"
proof (rule near_floor)
  let ?x = "fl (of_int k / d)"
  have k: "0 \<le> (of_int k :: rat)" "(of_int k :: rat) \<le> 2 ^ 50"
    using assms by (simp, metis of_int_le_iff of_int_numeral of_int_power)
  have near: "\<bar>?x * d - of_int k\<bar> \<le> 1 / 7" using assms by (rule units_close)
  have "0 \<le> ?x" using k d by (intro fl_nonneg) simp
  then have "\<bar>fl (?x * d) - ?x * d\<bar> \<le> (2 ^ 50 + 1) * eps64 + 1 / 2 ^ 100"
    using near k d by (intro fl_close) (simp, linarith)
  also have "\<dots> \<le> 1 / 7" by (simp add: eps64_def)
  finally show "\<bar>fl (?x * d) - of_int k\<bar> < 1 / 2" using near by linarith
qed

end

lemma is_finite_Fin [simp]: "is_finite x \<longleftrightarrow> (\<exists>a. x = Fin a)"
  by (auto simp: is_finite_def split: jsnum.splits)

subsection \<open>Numbers as text\<close>

text \<open>
  \<open>String(x)\<close>: the shortest decimal digits that read back as \<open>x\<close>, the closest ones among
  those. \<open>dec_exp x\<close> is \<open>n\<close> with \<open>10^(n-1) \<le> x < 10^n\<close>.
\<close>

definition dec_exp :: "rat \<Rightarrow> int" where
  "dec_exp x = default (List.find (\<lambda>n. x < 10 powi n) [-323..310]) 310"

definition digit_candidates :: "rat \<Rightarrow> int \<Rightarrow> nat \<Rightarrow> int list" where
  "digit_candidates x n k =
     (let y = x / 10 powi (n - int k); f = \<lfloor>y\<rfloor>
      in if y - of_int f \<le> 1 / 2 then [f, f + 1] else [f + 1, f])"

definition shortest_digits :: "rat \<Rightarrow> int \<Rightarrow> string" where
  "shortest_digits x n =
     (case List.find (\<lambda>(k, c). rnd64 (of_int c * 10 powi (n - int k)) = x)
         (concat (map (\<lambda>k. map (Pair k) (digit_candidates x n k)) [1..<18])) of
        Some (k, c) \<Rightarrow> nat_str (nat c)
      | None \<Rightarrow> nat_str (nat \<lfloor>x / 10 powi (n - 17)\<rfloor>))"

definition place_point :: "string \<Rightarrow> int \<Rightarrow> string" where
  "place_point ds n = (let k = int (length ds) in
     if k \<le> n \<and> n \<le> 21 then ds @ replicate (nat (n - k)) (CHR ''0'')
     else if 0 < n \<and> n \<le> 21 then take (nat n) ds @ ''.'' @ drop (nat n) ds
     else if -6 < n \<and> n \<le> 0 then ''0.'' @ replicate (nat (- n)) (CHR ''0'') @ ds
     else (if k = 1 then ds else take 1 ds @ ''.'' @ drop 1 ds) @
       (if n \<le> 0 then ''e-'' else ''e+'') @ nat_str (nat \<bar>n - 1\<bar>))"

fun num_str :: "jsnum \<Rightarrow> string" where
  "num_str (Fin x) = (if x = 0 then ''0''
     else (if x < 0 then ''-'' else []) @ place_point (shortest_digits \<bar>x\<bar> (dec_exp \<bar>x\<bar>)) (dec_exp \<bar>x\<bar>))"
| "num_str PosInf = ''Infinity''"
| "num_str NegInf = ''-Infinity''"
| "num_str NaN = ''NaN''"

text \<open>\<open>x.toFixed(k)\<close>, with \<open>0 < k\<close>.\<close>

definition fixed_digits :: "nat \<Rightarrow> nat \<Rightarrow> string" where
  "fixed_digits k m = (let ds = nat_str m; ds' = replicate (Suc k - length ds) (CHR ''0'') @ ds
     in take (length ds' - k) ds' @ ''.'' @ drop (length ds' - k) ds')"

fun to_fixed :: "nat \<Rightarrow> jsnum \<Rightarrow> string" where
  "to_fixed k (Fin x) = (if \<bar>x\<bar> < 10 ^ 21
     then (if x < 0 then ''-'' else []) @ fixed_digits k (nat \<lfloor>\<bar>x\<bar> * 10 ^ k + 1 / 2\<rfloor>)
     else num_str (Fin x))"
| "to_fixed k x = num_str x"

text \<open>A decimal literal \<open>d+\<close> or \<open>d+.d+\<close>, and the number it denotes.\<close>

definition digit :: "char \<Rightarrow> bool" where
  "digit c \<longleftrightarrow> 48 \<le> (of_char c :: nat) \<and> (of_char c :: nat) \<le> 57"

definition digits_val :: "string \<Rightarrow> nat" where
  "digits_val s = foldl (\<lambda>n c. 10 * n + (of_char c - 48)) 0 s"

text \<open>The regular expression \<open>/^\d+(\.\d+)?$/\<close> with its two groups of digits.\<close>

definition decimal_parts :: "string \<Rightarrow> (string \<times> string) option" where
  "decimal_parts s = (case takeWhile digit s of
     [] \<Rightarrow> None
   | ip \<Rightarrow> (case dropWhile digit s of
       [] \<Rightarrow> Some (ip, [])
     | c # fp \<Rightarrow> if c = CHR ''.'' \<and> fp \<noteq> [] \<and> list_all digit fp then Some (ip, fp) else None))"

definition decimal_value :: "string \<times> string \<Rightarrow> rat" where
  "decimal_value p = (case p of (ip, fp) \<Rightarrow>
     of_nat (digits_val (ip @ fp)) / 10 ^ length fp)"

lemma decimal_value_nonneg: "0 \<le> decimal_value p"
  by (simp add: decimal_value_def split: prod.splits)

text \<open>\<open>Number(s)\<close>: white space around it, then a signed decimal, a prefixed integer or \<open>Infinity\<close>.\<close>

definition split_sign :: "string \<Rightarrow> bool \<times> string" where
  "split_sign s = (case s of
     [] \<Rightarrow> (False, [])
   | c # cs \<Rightarrow> if c = CHR ''-'' then (True, cs) else if c = CHR ''+'' then (False, cs) else (False, s))"

definition exponent_part :: "string \<Rightarrow> int option" where
  "exponent_part s = (case s of
     [] \<Rightarrow> Some 0
   | c # cs \<Rightarrow> if c = CHR ''e'' \<or> c = CHR ''E'' then
       (case split_sign cs of (neg, ds) \<Rightarrow>
          if ds \<noteq> [] \<and> list_all digit ds
          then Some ((if neg then - 1 else 1) * int (digits_val ds)) else None)
     else None)"

definition unsigned_decimal :: "string \<Rightarrow> rat option" where
  "unsigned_decimal s =
     (let ip = takeWhile digit s; r = dropWhile digit s;
          fp = (case r of [] \<Rightarrow> [] | c # cs \<Rightarrow> if c = CHR ''.'' then takeWhile digit cs else []);
          r' = (case r of [] \<Rightarrow> [] | c # cs \<Rightarrow> if c = CHR ''.'' then dropWhile digit cs else r)
      in if ip @ fp = [] then None
         else map_option (\<lambda>e. of_nat (digits_val (ip @ fp)) * 10 powi (e - int (length fp))) (exponent_part r'))"

definition digit_in_base :: "nat \<Rightarrow> char \<Rightarrow> nat option" where
  "digit_in_base b c = (let n = (of_char c :: nat);
       v = (if 48 \<le> n \<and> n \<le> 57 then n - 48
            else if 97 \<le> n \<and> n \<le> 102 then n - 87
            else if 65 \<le> n \<and> n \<le> 70 then n - 55 else 16)
     in if v < b then Some v else None)"

definition based_integer :: "nat \<Rightarrow> string \<Rightarrow> rat option" where
  "based_integer b s = (if s = [] then None
     else map_option of_nat (foldl (\<lambda>acc c. case (acc, digit_in_base b c) of
       (Some n, Some d) \<Rightarrow> Some (b * n + d) | _ \<Rightarrow> None) (Some 0) s))"

definition number_base :: "string \<Rightarrow> (nat \<times> string) option" where
  "number_base t = (case t of
     z # x # ds \<Rightarrow> if z \<noteq> CHR ''0'' then None
       else if x = CHR ''x'' \<or> x = CHR ''X'' then Some (16, ds)
       else if x = CHR ''o'' \<or> x = CHR ''O'' then Some (8, ds)
       else if x = CHR ''b'' \<or> x = CHR ''B'' then Some (2, ds) else None
   | _ \<Rightarrow> None)"

definition str_number :: "string \<Rightarrow> jsnum" where
  "str_number s = (let t = trim s in
     if t = [] then Fin 0
     else case number_base t of
       Some (b, ds) \<Rightarrow> (case based_integer b ds of None \<Rightarrow> NaN | Some q \<Rightarrow> of_exact q)
     | None \<Rightarrow> (case split_sign t of (neg, u) \<Rightarrow>
         if u = ''Infinity'' then (if neg then NegInf else PosInf)
         else case unsigned_decimal u of
           None \<Rightarrow> NaN
         | Some q \<Rightarrow> if neg then js_neg (of_exact q) else of_exact q))"

text \<open>\<open>JSON.stringify\<close> and \<open>String\<close> on JSON values.\<close>

definition hex_digit :: "nat \<Rightarrow> char" where
  "hex_digit n = char_of (if n < 10 then 48 + n else 87 + n)"

definition escape_char :: "char \<Rightarrow> string" where
  "escape_char c = (let n = (of_char c :: nat) in
     if n = 34 then [char_of (92::nat), c] else if n = 92 then [c, c]
     else if n = 8 then [char_of (92::nat), CHR ''b''] else if n = 9 then [char_of (92::nat), CHR ''t'']
     else if n = 10 then [char_of (92::nat), CHR ''n''] else if n = 12 then [char_of (92::nat), CHR ''f'']
     else if n = 13 then [char_of (92::nat), CHR ''r'']
     else if n < 32 then char_of (92::nat) # ''u00'' @ [hex_digit (n div 16), hex_digit (n mod 16)]
     else [c])"

definition json_string :: "string \<Rightarrow> string" where
  "json_string s = [char_of (34::nat)] @ concat (map escape_char s) @ [char_of (34::nat)]"

fun stringify :: "json \<Rightarrow> string" where
  "stringify JNull = ''null''"
| "stringify (JBool b) = (if b then ''true'' else ''false'')"
| "stringify (JNum r) = num_str (Fin r)"
| "stringify (JStr s) = json_string s"
| "stringify (JArr xs) = ''['' @ join '','' (map stringify xs) @ '']''"
| "stringify (JObj kvs) = ''{'' @ join '','' (map (\<lambda>(k, v). json_string k @ '':'' @ stringify v) kvs) @ ''}''"

fun js_String :: "json \<Rightarrow> string" where
  "js_String JNull = ''null''"
| "js_String (JBool b) = (if b then ''true'' else ''false'')"
| "js_String (JNum r) = num_str (Fin r)"
| "js_String (JStr s) = s"
| "js_String (JArr xs) = join '','' (map (\<lambda>x. case x of JNull \<Rightarrow> [] | _ \<Rightarrow> js_String x) xs)"
| "js_String (JObj kvs) = ''[object Object]''"

text \<open>A property of a JSON value: the keys of a parsed document are distinct.\<close>

definition jget :: "string \<Rightarrow> json \<Rightarrow> json option" where
  "jget k v = (case v of JObj kvs \<Rightarrow> map_of kvs k | _ \<Rightarrow> None)"

definition jnum :: "nat \<Rightarrow> json" where
  "jnum n = JNum (of_nat n)"

text \<open>Truthiness of a JSON value, a missing one being \<open>undefined\<close>.\<close>

fun jtruthy :: "json option \<Rightarrow> bool" where
  "jtruthy None = False"
| "jtruthy (Some JNull) = False"
| "jtruthy (Some (JBool b)) = b"
| "jtruthy (Some (JNum r)) = (r \<noteq> 0)"
| "jtruthy (Some (JStr s)) = (s \<noteq> [])"
| "jtruthy (Some (JArr _)) = True"
| "jtruthy (Some (JObj _)) = True"

end
