(* ===== verification/Distributions.thy ===== *)
theory Distributions
  imports JsNumber
begin

text \<open>
  A dispute resolution turned from percentages into amounts: \<open>disputes/dispute-distributions.ts\<close>,
  in the doubles the code computes with. The lemmas bound every rounding step; the properties say
  that the final check never fires and that the amounts total the escrow exactly.
\<close>

section \<open>The code\<close>

text \<open>A missing address behaves as the empty one.\<close>

record allocation =
  al_address :: string
  al_percentage :: jsnum

record distribution =
  ds_address :: string
  ds_amount :: jsnum

text \<open>The \<open>DistributionError\<close>s, one constructor per message with the values it prints.\<close>

datatype distribution_error =
    NotFinite string
  | NoAllocations
  | NoAddress
  | PercentageNotANumber string
  | PercentageOutOfRange string
  | DuplicateAddress
  | PercentagesMustTotal100 jsnum
  | NothingToDistribute
  | AllRoundedToZero
  | MustTotalExactly jsnum jsnum
  | MustNotExceed jsnum jsnum

definition STROOPS_PER_UNIT :: rat where
  "STROOPS_PER_UNIT = 10000000"

definition toStroops :: "jsnum \<Rightarrow> string \<Rightarrow> distribution_error + jsnum" where
  "toStroops v field =
     (if \<not> is_finite v then Inl (NotFinite field)
      else Inr (js_round (js_mult v (Fin STROOPS_PER_UNIT))))"

definition fromStroops :: "jsnum \<Rightarrow> jsnum" where
  "fromStroops s = js_via_fixed 7 (js_div_by s STROOPS_PER_UNIT)"

fun check_each :: "allocation list \<Rightarrow> distribution_error option" where
  "check_each [] = None"
| "check_each (a # as) =
     (if trim (al_address a) = [] then Some NoAddress
      else if \<not> is_finite (al_percentage a) then Some (PercentageNotANumber (al_address a))
      else if js_less (al_percentage a) (Fin 0) \<or> js_less (Fin 100) (al_percentage a)
        then Some (PercentageOutOfRange (al_address a))
      else check_each as)"

definition js_sum :: "jsnum list \<Rightarrow> jsnum" where
  "js_sum xs = foldl js_add (Fin 0) xs"

text \<open>The double the literal \<open>1e-9\<close> denotes.\<close>

definition percent_slack :: jsnum where
  "percent_slack = of_exact (1 / 10 ^ 9)"

definition assertAllocations :: "allocation list \<Rightarrow> distribution_error option" where
  "assertAllocations as =
     (if length as = 0 then Some NoAllocations
      else case check_each as of
        Some e \<Rightarrow> Some e
      | None \<Rightarrow>
          let addresses = map (trim \<circ> al_address) as in
          if length (uniq addresses) \<noteq> length addresses then Some DuplicateAddress
          else let tot = js_sum (map al_percentage as) in
            if js_less percent_slack (js_abs (js_sub tot (Fin 100)))
            then Some (PercentagesMustTotal100 tot) else None)"

definition share_of :: "jsnum \<Rightarrow> jsnum \<Rightarrow> jsnum" where
  "share_of t p = js_floor (js_div_by (js_mult t p) 100)"

definition largest_index :: "jsnum list \<Rightarrow> nat" where
  "largest_index shares =
     foldl (\<lambda>largest i. if js_less (shares ! largest) (shares ! i) then i else largest) 0 [1..<length shares]"

definition splitStroops :: "jsnum \<Rightarrow> allocation list \<Rightarrow> jsnum list" where
  "splitStroops totalStroops as =
     (let shares = map (\<lambda>a. share_of totalStroops (al_percentage a)) as;
          distributed = js_sum shares;
          remainder = js_sub totalStroops distributed
      in if js_eq remainder (Fin 0) then shares
         else let largest = largest_index shares
              in shares[largest := js_add (shares ! largest) remainder])"

text \<open>\<open>toStroops\<close> over all amounts, then the sum; the first amount that is not finite throws.\<close>

fun sum_stroops :: "jsnum \<Rightarrow> distribution list \<Rightarrow> distribution_error + jsnum" where
  "sum_stroops acc [] = Inr acc"
| "sum_stroops acc (d # ds) = (case toStroops (ds_amount d) ''amount'' of
     Inl e \<Rightarrow> Inl e
   | Inr s \<Rightarrow> sum_stroops (js_add acc s) ds)"

definition assertWithinContract ::
    "string \<Rightarrow> distribution list \<Rightarrow> jsnum \<Rightarrow> distribution_error option" where
  "assertWithinContract escrowType ds totalStroops = (case sum_stroops (Fin 0) ds of
     Inl e \<Rightarrow> Some e
   | Inr got \<Rightarrow>
       if escrowType = ''single-release'' \<and> \<not> js_eq got totalStroops then
         Some (MustTotalExactly (fromStroops totalStroops) (fromStroops got))
       else if escrowType = ''multi-release'' \<and> js_less totalStroops got then
         Some (MustNotExceed (fromStroops totalStroops) (fromStroops got))
       else None)"

definition to_distributions :: "allocation list \<Rightarrow> jsnum list \<Rightarrow> distribution list" where
  "to_distributions as shares =
     map (\<lambda>(address, stroops). \<lparr>ds_address = address, ds_amount = fromStroops stroops\<rparr>)
       (filter (\<lambda>(address, stroops). js_less (Fin 0) stroops)
         (zip (map (trim \<circ> al_address) as) shares))"

definition buildDistributions ::
    "string \<Rightarrow> jsnum \<Rightarrow> allocation list \<Rightarrow> distribution_error + distribution list" where
  "buildDistributions escrowType amount as = (case assertAllocations as of
     Some e \<Rightarrow> Inl e
   | None \<Rightarrow> (case toStroops amount ''total'' of
       Inl e \<Rightarrow> Inl e
     | Inr totalStroops \<Rightarrow>
         if js_le totalStroops (Fin 0) then Inl NothingToDistribute
         else let ds = to_distributions as (splitStroops totalStroops as) in
           if length ds = 0 then Inl AllRoundedToZero
           else (case assertWithinContract escrowType ds totalStroops of
               Some e \<Rightarrow> Inl e
             | None \<Rightarrow> Inr ds)))"

definition twoPartyAllocations :: "string \<Rightarrow> string \<Rightarrow> jsnum \<Rightarrow> allocation list" where
  "twoPartyAllocations approver serviceProvider approverPercentage =
     [\<lparr>al_address = approver, al_percentage = approverPercentage\<rparr>,
      \<lparr>al_address = serviceProvider, al_percentage = js_sub (Fin 100) approverPercentage\<rparr>]"

section \<open>Rounding errors\<close>

text \<open>An integer count of stroops is read back unchanged from the amount printed for it.\<close>

lemma fromStroops_int:
  assumes "0 \<le> k" and "k \<le> 2 ^ 50"
  shows "fromStroops (Fin (of_int k)) = Fin (rnd64 (of_int k / 10000000))"
proof -
  let ?x = "rnd64 (of_int k / 10000000)"
  have k: "0 \<le> (of_int k :: rat)" "(of_int k :: rat) \<le> 2 ^ 50"
    using assms by (simp, metis of_int_le_iff of_int_numeral of_int_power)
  have near: "\<bar>?x * 10000000 - of_int k\<bar> \<le> 1 / 7" using assms by (intro ieee.units_close) simp_all
  have x0: "0 \<le> ?x" using k by (intro ieee.fl_nonneg) simp
  have small: "\<bar>of_int k / 10000000 :: rat\<bar> \<le> 2 ^ 1000"
  proof -
    have "\<bar>of_int k / 10000000 :: rat\<bar> \<le> 2 ^ 50" using k by simp
    then show ?thesis by (rule order_trans) simp
  qed
  have fl: "\<lfloor>?x * 10000000 + 1 / 2\<rfloor> = k" using near by (intro near_floor) linarith
  have "?x * 10000000 \<le> 2 ^ 50 + 1" using near k by linarith
  then have big: "?x < 10 ^ 21" by simp
  have s: "sgn ?x * (of_int k :: rat) = of_int k"
  proof (cases "?x = 0")
    case True
    then have "\<bar>of_int k :: rat\<bar> \<le> 1 / 7" using near by simp
    then have "k = 0" using near_floor [of "of_int k" 0] near_floor [of "of_int k" k] by simp
    then show ?thesis by simp
  next
    case False
    then show ?thesis using x0 by (simp add: sgn_if)
  qed
  have "fromStroops (Fin (of_int k)) = of_exact (sgn ?x * of_int k / 10000000)"
    using x0 big fl
    by (simp add: fromStroops_def STROOPS_PER_UNIT_def of_exact_small [OF small] via_fixed_def)
  then show ?thesis by (simp only: s of_exact_small [OF small])
qed

lemma toStroops_fromStroops:
  assumes "0 \<le> k" and "k \<le> 2 ^ 50"
  shows "toStroops (fromStroops (Fin (of_int k))) f = Inr (Fin (of_int k))"
proof -
  let ?x = "rnd64 (of_int k / 10000000)"
  have k: "(of_int k :: rat) \<le> 1125899906842624" using assms by simp
  have k0: "0 \<le> (of_int k :: rat)" using assms(1) by simp
  have "\<bar>?x * 10000000 - of_int k\<bar> \<le> 1 / 7" using assms by (intro ieee.units_close) simp_all
  then have "\<bar>?x * 10000000\<bar> \<le> 1125899906842625" using k k0 by linarith
  then have "\<bar>?x * 10000000\<bar> \<le> 2 ^ 1000" by (rule order_trans) simp
  then show ?thesis using ieee.units_back [OF assms, of 10000000]
    by (simp add: toStroops_def fromStroops_int [OF assms] STROOPS_PER_UNIT_def of_exact_small)
qed

text \<open>The float sum of at most a thousand percentages.\<close>

lemma sum_list_le_100: "(\<And>p. p \<in> set ps \<Longrightarrow> p \<le> (100::rat)) \<Longrightarrow> sum_list ps \<le> 100 * of_nat (length ps)"
  by (induction ps) (auto simp: algebra_simps intro: add_mono)

lemma sum_list_nonneg_rat: "(\<And>p. p \<in> set ps \<Longrightarrow> (0::rat) \<le> p) \<Longrightarrow> 0 \<le> sum_list ps"
  by (induction ps) auto

lemma js_sum_snoc: "js_sum (xs @ [x]) = js_add (js_sum xs) x"
  by (simp add: js_sum_def)

lemma js_sum_close:
  assumes "\<And>p. p \<in> set ps \<Longrightarrow> 0 \<le> p \<and> p \<le> 100" and "length ps \<le> 1000"
  shows "\<exists>s. js_sum (map Fin ps) = Fin s \<and> 0 \<le> s \<and> \<bar>s - sum_list ps\<bar> \<le> of_nat (length ps) / 2 ^ 36"
  using assms
proof (induction ps rule: rev_induct)
  case Nil
  then show ?case by (simp add: js_sum_def)
next
  case (snoc p ps)
  then obtain s where s: "js_sum (map Fin ps) = Fin s" "0 \<le> s"
      "\<bar>s - sum_list ps\<bar> \<le> of_nat (length ps) / 2 ^ 36" by auto
  have p: "0 \<le> p" "p \<le> 100" using snoc.prems by auto
  have n: "(of_nat (length ps) :: rat) \<le> 1000" using snoc.prems(2) by simp
  have "sum_list ps \<le> 100 * of_nat (length ps)" using snoc.prems(1) by (intro sum_list_le_100) auto
  moreover have "of_nat (length ps) / 2 ^ 36 \<le> (1::rat)" using n by simp
  ultimately have sum: "s + p \<le> 100101" using s(3) n p by linarith
  then have close: "\<bar>rnd64 (s + p) - (s + p)\<bar> \<le> 100101 * eps64 + 1 / 2 ^ 100"
    using s p by (intro ieee.fl_close) auto
  also have "\<dots> \<le> 1 / 2 ^ 36" by (simp add: eps64_def)
  finally have step: "\<bar>rnd64 (s + p) - (s + p)\<bar> \<le> 1 / 2 ^ 36" .
  have "\<bar>s + p\<bar> \<le> 100101" using sum s p by simp
  then have "\<bar>s + p\<bar> \<le> 2 ^ 1000" by (rule order_trans) simp
  then have "js_sum (map Fin (ps @ [p])) = Fin (rnd64 (s + p))"
    using s(1) by (simp add: js_sum_snoc of_exact_small)
  moreover have "0 \<le> rnd64 (s + p)" using s p by (intro ieee.fl_nonneg) simp
  moreover have "\<bar>rnd64 (s + p) - sum_list (ps @ [p])\<bar> \<le> of_nat (length (ps @ [p])) / 2 ^ 36"
  proof -
    have "of_nat (length (ps @ [p])) / (2 ^ 36 :: rat) = of_nat (length ps) / 2 ^ 36 + 1 / 2 ^ 36"
      by (simp add: add_divide_distrib)
    moreover have "sum_list (ps @ [p]) = sum_list ps + p" by simp
    ultimately show ?thesis using step s(3) by linarith
  qed
  ultimately show ?case by blast
qed

text \<open>Sums of integers below \<open>2^53\<close> are exact.\<close>

lemma sum_list_nonneg_int: "(\<And>k. k \<in> set ks \<Longrightarrow> (0::int) \<le> k) \<Longrightarrow> 0 \<le> sum_list ks"
  by (induction ks) auto

lemma js_sum_ints:
  assumes "\<And>k. k \<in> set ks \<Longrightarrow> 0 \<le> k" and "sum_list ks \<le> 2 ^ 53"
  shows "js_sum (map (\<lambda>k. Fin (of_int k)) ks) = Fin (of_int (sum_list ks))"
  using assms
proof (induction ks rule: rev_induct)
  case Nil
  then show ?case by (simp add: js_sum_def)
next
  case (snoc k ks)
  have nn: "0 \<le> sum_list ks" "0 \<le> k" using snoc.prems(1) sum_list_nonneg_int by auto
  moreover have total: "sum_list ks + k \<le> 2 ^ 53" using snoc.prems(2) by simp
  ultimately have "\<bar>sum_list ks + k\<bar> \<le> 2 ^ 53" by simp
  moreover have "sum_list ks \<le> 2 ^ 53" using total nn by linarith
  then have "js_sum (map (\<lambda>k. Fin (of_int k)) ks) = Fin (of_int (sum_list ks))"
    using snoc.IH snoc.prems(1) by simp
  ultimately show ?case using of_exact_int [of "sum_list ks + k"] by (simp add: js_sum_snoc)
qed

context rounding
begin

text \<open>Two rounded steps compute a share of \<open>q\<close> stroops almost exactly.\<close>

lemma share_bounds:
  assumes "0 \<le> q" and "q \<le> 2 ^ 50"
  shows "fl (fl (100 * q) / 100) \<le> q * (1 + 3 * eps64) + 1 / 2 ^ 98"
    and "q - 1 / 2 \<le> fl (fl (100 * q) / 100)"
proof -
  let ?x = "fl (100 * q)"
  have x: "?x \<le> 100 * q + 100 * q * eps64 + tiny64" "100 * q - 100 * q * eps64 - tiny64 \<le> ?x"
    using fl_upper [of "100 * q"] fl_lower [of "100 * q"] assms(1) by simp_all
  have x0: "0 \<le> ?x" using assms by (intro fl_nonneg) simp
  have y: "fl (?x / 100) \<le> ?x / 100 + ?x / 100 * eps64 + tiny64" "?x / 100 - ?x / 100 * eps64 - tiny64 \<le> fl (?x / 100)"
    using fl_upper [of "?x / 100"] fl_lower [of "?x / 100"] x0 by simp_all
  note t = tiny64_small
  show "fl (?x / 100) \<le> q * (1 + 3 * eps64) + 1 / 2 ^ 98"
    using x y t assms unfolding eps64_def by simp
  show "q - 1 / 2 \<le> fl (?x / 100)"
    using x y t assms unfolding eps64_def by simp
qed

end

text \<open>The index of the largest share.\<close>

lemma largest_upto:
  assumes "m \<le> length vs"
  shows "foldl (\<lambda>l i. if js_less (map Fin vs ! l) (map Fin vs ! i) then i else l) 0 [1..<m] < max 1 m \<and>
    (\<forall>i<m. vs ! i \<le> vs ! foldl (\<lambda>l i. if js_less (map Fin vs ! l) (map Fin vs ! i) then i else l) 0 [1..<m])"
    (is "?f m < max 1 m \<and> _")
  using assms
proof (induction m)
  case 0
  then show ?case by simp
next
  case (Suc m)
  show ?case
  proof (cases "m = 0")
    case True
    then show ?thesis by simp
  next
    case False
    have IH: "?f m < m" "\<forall>i<m. vs ! i \<le> vs ! ?f m" using Suc False by (simp_all add: max_def)
    have "?f (Suc m) = (if vs ! ?f m < vs ! m then m else ?f m)"
      using False Suc.prems IH(1) by simp
    then show ?thesis using IH False by (auto simp: less_Suc_eq max_def intro: order_trans less_imp_le)
  qed
qed

lemma largest_index_max:
  assumes "vs \<noteq> []"
  shows "largest_index (map Fin vs) < length vs"
    and "\<forall>i < length vs. vs ! i \<le> vs ! largest_index (map Fin vs)"
  using largest_upto [of "length vs" vs] assms by (auto simp: largest_index_def max_def split: if_splits)

lemma sum_list_le_max:
  "(\<And>k. k \<in> set ks \<Longrightarrow> k \<le> (m::int)) \<Longrightarrow> sum_list ks \<le> int (length ks) * m"
  by (induction ks) (auto simp: algebra_simps intro: add_mono)

lemma sum_list_update_int:
  "i < length ks \<Longrightarrow> sum_list (ks[i := v]) = sum_list ks - ks ! i + (v::int)"
  by (induction ks arbitrary: i) (auto split: nat.splits)

section \<open>Accepted allocations\<close>

lemma length_uniq_iff: "length (uniq xs) = length xs \<longleftrightarrow> distinct xs"
  by (metis card_distinct distinct_card distinct_uniq set_uniq)

lemma check_each_None_iff:
  "check_each as = None \<longleftrightarrow> (\<forall>a \<in> set as. trim (al_address a) \<noteq> [] \<and>
     (\<exists>p. al_percentage a = Fin p \<and> 0 \<le> p \<and> p \<le> 100))"
  by (induction as) auto

lemma assertAllocations_None_iff:
  "assertAllocations as = None \<longleftrightarrow>
     as \<noteq> [] \<and> check_each as = None \<and> distinct (map (trim \<circ> al_address) as) \<and>
     \<not> js_less percent_slack (js_abs (js_sub (js_sum (map al_percentage as)) (Fin 100)))"
  by (auto simp: assertAllocations_def Let_def length_uniq_iff split: option.splits)

lemma percentages_Fin:
  assumes "check_each as = None"
  obtains ps where "map al_percentage as = map Fin ps" "\<And>p. p \<in> set ps \<Longrightarrow> 0 \<le> p \<and> p \<le> 100"
proof -
  let ?val = "\<lambda>a. (case al_percentage a of Fin p \<Rightarrow> p | _ \<Rightarrow> 0)"
  have "map al_percentage as = map Fin (map ?val as)"
    using assms by (auto simp: check_each_None_iff)
  moreover have "0 \<le> p \<and> p \<le> 100" if "p \<in> set (map ?val as)" for p
    using assms that by (auto simp: check_each_None_iff split: jsnum.splits)
  ultimately show thesis using that by blast
qed

lemma percent_slack_Fin: "percent_slack = Fin (rnd64 (1 / 10 ^ 9))" "rnd64 (1 / 10 ^ 9) \<le> 2 / 10 ^ 9"
proof -
  have "\<bar>1 / 10 ^ 9 :: rat\<bar> \<le> 2 ^ 1000" by (rule order_trans [of _ 1]) simp_all
  then show "percent_slack = Fin (rnd64 (1 / 10 ^ 9))" unfolding percent_slack_def by (rule of_exact_small)
  have "rnd64 (1 / 10 ^ 9) \<le> 1 / 10 ^ 9 + 1 / 10 ^ 9 * eps64 + tiny64"
    by (rule ieee.fl_upper) simp
  then show "rnd64 (1 / 10 ^ 9) \<le> 2 / 10 ^ 9"
    using tiny64_small unfolding eps64_def by simp
qed

lemma accepted_total:
  assumes "assertAllocations as = None" and "length as \<le> 1000"
    and ps: "map al_percentage as = map Fin ps" "\<And>p. p \<in> set ps \<Longrightarrow> 0 \<le> p \<and> p \<le> 100"
  shows "sum_list ps \<le> 100 + 1 / 2 ^ 25"
proof -
  have len: "length ps \<le> 1000" using assms(2) ps(1) by (metis length_map)
  obtain s where s: "js_sum (map Fin ps) = Fin s" "0 \<le> s" "\<bar>s - sum_list ps\<bar> \<le> of_nat (length ps) / 2 ^ 36"
    using js_sum_close [OF ps(2) len] by auto
  have "(of_nat (length ps) :: rat) \<le> 1000" using len by simp
  then have "of_nat (length ps) / 2 ^ 36 \<le> (1000 :: rat) / 2 ^ 36" by simp
  then have near: "sum_list ps \<le> s + 1000 / 2 ^ 36" using s(3) by linarith
  show ?thesis
  proof (cases "s \<le> 100")
    case True
    then show ?thesis using near by simp
  next
    case False
    have n: "(of_nat (length ps) :: rat) \<le> 1000" using len by simp
    have "sum_list ps \<le> 100 * of_nat (length ps)" using ps(2) by (intro sum_list_le_100) auto
    moreover have "of_nat (length ps) / 2 ^ 36 \<le> (1 :: rat)" using n by simp
    ultimately have "s \<le> 100001" using s(3) n by linarith
    then have "\<bar>s - 100\<bar> \<le> 100001" using False by simp
    then have "\<bar>s - 100\<bar> \<le> 2 ^ 1000" by (rule order_trans) simp
    then have "js_sub (js_sum (map al_percentage as)) (Fin 100) = Fin (rnd64 (s - 100))"
      using s(1) ps(1) by (simp add: js_sub_def of_exact_small)
    moreover have "\<not> js_less percent_slack (js_abs (js_sub (js_sum (map al_percentage as)) (Fin 100)))"
      using assms(1) unfolding assertAllocations_None_iff by blast
    ultimately have out: "\<not> js_less percent_slack (Fin \<bar>rnd64 (s - 100)\<bar>)" by simp
    obtain e where e: "percent_slack = Fin e" "e \<le> 2 / 10 ^ 9" by (rule that [OF percent_slack_Fin])
    have "\<bar>rnd64 (s - 100)\<bar> \<le> e" using out unfolding e(1) js_less.simps not_less .
    then have "rnd64 (s - 100) \<le> 2 / 10 ^ 9" using e(2) by linarith
    moreover have "(s - 100) - (s - 100) * eps64 - tiny64 \<le> rnd64 (s - 100)"
      using False by (intro ieee.fl_lower) simp
    moreover have "(s - 100) * eps64 \<le> (s - 100) * (1 / 4)"
      using False by (intro mult_left_mono) (simp_all add: eps64_def)
    moreover have "tiny64 \<le> 1 / 10 ^ 9" using tiny64_small by (rule order_trans) simp
    ultimately have "s - 100 \<le> 4 / 10 ^ 9" by simp
    then show ?thesis using near by simp
  qed
qed

lemma split_exact:
  fixes T :: int
  assumes shares: "map (\<lambda>a. share_of (Fin (of_int T)) (al_percentage a)) as = map (\<lambda>k. Fin (of_int k)) ks"
    and T: "0 < T" "T \<le> 2 ^ 50" and ks: "ks \<noteq> []" "length ks \<le> 1000" "\<And>k. k \<in> set ks \<Longrightarrow> 0 \<le> k"
    and excess: "2 ^ 28 * (sum_list ks - T) \<le> T"
  shows "\<exists>qs. splitStroops (Fin (of_int T)) as = map (\<lambda>k. Fin (of_int k)) qs \<and>
    length qs = length ks \<and> (\<forall>k \<in> set qs. 0 \<le> k) \<and> sum_list qs = T \<and>
    (\<forall>i < length ks. \<bar>qs ! i - ks ! i\<bar> \<le> \<bar>T - sum_list ks\<bar>)"
proof -
  let ?S = "sum_list ks" and ?j = "\<lambda>k. Fin (of_int k)"
  have S: "0 \<le> ?S" "?S \<le> 2 ^ 51" using T excess ks(3) by (auto intro: sum_list_nonneg_int)
  then have "\<bar>T - ?S\<bar> \<le> 2 ^ 53" using T by (simp add: abs_le_iff)
  then have rem: "js_sub (Fin (of_int T)) (js_sum (map ?j ks)) = Fin (of_int (T - ?S))"
    using of_exact_int [of "T - ?S"] S ks(3) by (simp add: js_sub_def js_sum_ints)
  define l where "l = largest_index (map ?j ks)"
  have split: "splitStroops (Fin (of_int T)) as =
      (if T = ?S then map ?j ks else (map ?j ks)[l := js_add (map ?j ks ! l) (Fin (of_int (T - ?S)))])"
    unfolding splitStroops_def shares Let_def rem l_def by simp
  have vs: "map ?j ks = map Fin (map of_int ks)" by simp
  have l: "l < length ks" "\<And>i. i < length ks \<Longrightarrow> ks ! i \<le> ks ! l"
    using largest_index_max [of "map of_int ks"] ks(1) unfolding l_def vs by auto
  have lks: "0 \<le> ks ! l" "ks ! l \<le> ?S" using l(1) ks(3)
    by (auto intro: member_le_sum_list)
  show ?thesis
  proof (cases "T = ?S")
    case True
    then show ?thesis using ks(3) split by (intro exI [of _ ks]) auto
  next
    case False
    let ?v = "ks ! l + (T - ?S)"
    have "?S \<le> int (length ks) * (ks ! l)"
      using l(2) by (intro sum_list_le_max) (auto simp: in_set_conv_nth)
    also have "\<dots> \<le> 1000 * (ks ! l)" using ks(2) lks by (intro mult_right_mono) auto
    finally have v: "0 \<le> ?v" using excess lks T by simp
    have "\<bar>?v\<bar> \<le> 2 ^ 53" using v lks S T by simp
    then have "splitStroops (Fin (of_int T)) as = map ?j (ks[l := ?v])"
      using False split l(1) of_exact_int [of ?v] by (simp add: map_update)
    moreover have "\<forall>k \<in> set (ks[l := ?v]). 0 \<le> k"
      using ks(3) v set_update_subset_insert [of ks l ?v] by auto
    moreover have "sum_list (ks[l := ?v]) = T" using l(1) by (simp add: sum_list_update_int)
    moreover have "\<forall>i < length ks. \<bar>ks[l := ?v] ! i - ks ! i\<bar> \<le> \<bar>T - ?S\<bar>"
      using l(1) by (auto simp: nth_list_update)
    ultimately show ?thesis by (intro exI [of _ "ks[l := ?v]"]) simp
  qed
qed

lemma sum_list_affine:
  "(\<And>p. p \<in> set ps \<Longrightarrow> f p \<le> c * p + d) \<Longrightarrow> sum_list (map f ps) \<le> c * sum_list ps + of_nat (length ps) * (d::rat)"
proof (induction ps)
  case (Cons p ps)
  have "f p \<le> c * p + d" using Cons.prems by simp
  moreover have "sum_list (map f ps) \<le> c * sum_list ps + of_nat (length ps) * d" using Cons by simp
  ultimately show ?case by (simp add: algebra_simps)
qed simp

lemma share_of_int:
  fixes T :: int
  assumes T: "0 < T" "T \<le> 2 ^ 50" and p: "0 \<le> p" "p \<le> 100"
  shows "\<exists>k. share_of (Fin (of_int T)) (Fin p) = Fin (of_int k) \<and> 0 \<le> k \<and>
    of_int k \<le> of_int T * (1 + 3 * eps64) / 100 * p + 1 / 2 ^ 98 \<and>
    of_int T * p / 100 - 3 / 2 \<le> of_int k"
proof -
  define q where "q = of_int T * p / 100"
  have T': "0 < (of_int T :: rat)" "(of_int T :: rat) \<le> 2 ^ 50"
    using T by (simp, metis of_int_le_iff of_int_numeral of_int_power)
  have "of_int T * p \<le> of_int T * 100" using T' p by (intro mult_left_mono) auto
  then have "q \<le> of_int T" by (simp add: q_def)
  then have q: "0 \<le> q" "q \<le> 2 ^ 50" using T' p order_trans by (simp add: q_def, blast)
  have Tp: "of_int T * p = 100 * q" by (simp add: q_def)
  let ?y = "rnd64 (rnd64 (100 * q) / 100)"
  note b = ieee.share_bounds [OF q]
  have x0: "0 \<le> rnd64 (100 * q)" using q by (intro ieee.fl_nonneg) simp
  have y0: "0 \<le> ?y" using x0 by (intro ieee.fl_nonneg) simp
  have "rnd64 (100 * q) \<le> 100 * q + 100 * q * eps64 + tiny64" using q by (intro ieee.fl_upper) simp
  then have "rnd64 (100 * q) \<le> 101 * 2 ^ 50" using q tiny64_small unfolding eps64_def by simp
  then have "\<bar>rnd64 (100 * q) / 100\<bar> \<le> 101 * 2 ^ 50" using x0 by simp
  then have small: "\<bar>rnd64 (100 * q) / 100\<bar> \<le> 2 ^ 1000" by (rule order_trans) simp
  have "\<bar>100 * q\<bar> \<le> 100 * 2 ^ 50" using q by simp
  then have "\<bar>100 * q\<bar> \<le> 2 ^ 1000" by (rule order_trans) simp
  then have "share_of (Fin (of_int T)) (Fin p) = Fin (of_int \<lfloor>?y\<rfloor>)"
    by (simp only: share_of_def js_mult.simps Tp of_exact_small js_div_by.simps small js_floor.simps)
  moreover have "of_int \<lfloor>?y\<rfloor> \<le> of_int T * (1 + 3 * eps64) / 100 * p + 1 / 2 ^ 98"
  proof -
    have "q * (1 + 3 * eps64) = of_int T * (1 + 3 * eps64) / 100 * p" by (simp add: q_def)
    moreover have "of_int \<lfloor>?y\<rfloor> \<le> ?y" by (rule of_int_floor_le)
    ultimately show ?thesis using b(1) by linarith
  qed
  moreover have "q - 3 / 2 \<le> of_int \<lfloor>?y\<rfloor>" using b(2) by linarith
  ultimately show ?thesis using y0 by (intro exI [of _ "\<lfloor>?y\<rfloor>"]) (simp add: q_def)
qed

lemma shares_ints:
  fixes T :: int
  assumes acc: "assertAllocations as = None" and len: "length as \<le> 1000" and T: "0 < T" "T \<le> 2 ^ 50"
  shows "\<exists>ks. map (\<lambda>a. share_of (Fin (of_int T)) (al_percentage a)) as = map (\<lambda>k. Fin (of_int k)) ks \<and>
    (\<forall>k \<in> set ks. 0 \<le> k) \<and> 2 ^ 28 * (sum_list ks - T) \<le> T"
proof -
  have "check_each as = None" using acc by (simp add: assertAllocations_None_iff)
  then obtain ps where ps: "map al_percentage as = map Fin ps" "\<And>p. p \<in> set ps \<Longrightarrow> 0 \<le> p \<and> p \<le> 100"
    by (rule percentages_Fin) auto
  let ?c = "of_int T * (1 + 3 * eps64) / 100"
  have "\<forall>p \<in> set ps. \<exists>k. share_of (Fin (of_int T)) (Fin p) = Fin (of_int k) \<and> 0 \<le> k \<and>
      of_int k \<le> ?c * p + 1 / 2 ^ 98"
    using share_of_int [OF T] ps(2) by blast
  then obtain f where f: "\<And>p. p \<in> set ps \<Longrightarrow> share_of (Fin (of_int T)) (Fin p) = Fin (of_int (f p)) \<and> 0 \<le> f p \<and>
      of_int (f p) \<le> ?c * p + 1 / 2 ^ 98"
    by metis
  have "map (\<lambda>a. share_of (Fin (of_int T)) (al_percentage a)) as = map (share_of (Fin (of_int T))) (map al_percentage as)"
    by simp
  also have "\<dots> = map (\<lambda>k. Fin (of_int k)) (map f ps)" using f by (simp add: ps(1))
  finally have eq: "map (\<lambda>a. share_of (Fin (of_int T)) (al_percentage a)) as = map (\<lambda>k. Fin (of_int k)) (map f ps)" .
  have n: "(of_nat (length ps) :: rat) \<le> 1000" using len ps(1) by (metis length_map of_nat_le_iff of_nat_numeral)
  have T': "1 \<le> (of_int T :: rat)" using T(1) by simp
  have "of_int (sum_list (map f ps)) = sum_list (map (\<lambda>p. of_int (f p)) ps)"
    by (induction ps) simp_all
  also have "\<dots> \<le> ?c * sum_list ps + of_nat (length ps) * (1 / 2 ^ 98)"
    using f by (intro sum_list_affine) auto
  also have "\<dots> \<le> ?c * (100 + 1 / 2 ^ 25) + 1000 * (1 / 2 ^ 98)"
    using accepted_total [OF acc len ps] T' n
    by (intro add_mono mult_left_mono mult_right_mono) (auto simp: eps64_def)
  also have "\<dots> = of_int T * ((1 + 3 * eps64) / 100 * (100 + 1 / 2 ^ 25)) + 1000 * (1 / 2 ^ 98)" by simp
  also have "\<dots> \<le> of_int T * (1 + 1 / 2 ^ 30) + 1000 * (1 / 2 ^ 98)"
    using T' by (intro add_right_mono mult_left_mono) (simp_all add: eps64_def)
  also have "\<dots> \<le> of_int T * (1 + 1 / 2 ^ 28)"
    using T' by (simp add: algebra_simps)
  finally have "(of_int (2 ^ 28 * (sum_list (map f ps) - T)) :: rat) \<le> of_int T" by (simp add: algebra_simps)
  then have "2 ^ 28 * (sum_list (map f ps) - T) \<le> T" by (simp only: of_int_le_iff)
  then show ?thesis using eq f by (intro exI [of _ "map f ps"]) auto
qed

section \<open>The distributions\<close>

definition paid :: "allocation list \<Rightarrow> int list \<Rightarrow> (string \<times> int) list" where
  "paid as ks = filter (\<lambda>(a, k). 0 < k) (zip (map (trim \<circ> al_address) as) ks)"

lemma to_distributions_ints:
  "to_distributions as (map (\<lambda>k. Fin (of_int k)) ks) =
     map (\<lambda>(a, k). \<lparr>ds_address = a, ds_amount = fromStroops (Fin (of_int k))\<rparr>) (paid as ks)"
  by (simp add: to_distributions_def paid_def zip_map2 filter_map o_def split_def)

lemma paid_pos: "(a, k) \<in> set (paid as ks) \<Longrightarrow> 0 < k"
  by (auto simp: paid_def)

lemma sum_zip_filter:
  "length xs = length ks \<Longrightarrow> (\<And>k. k \<in> set ks \<Longrightarrow> 0 \<le> (k::int)) \<Longrightarrow>
     sum_list (map snd (filter (\<lambda>(a, k). 0 < k) (zip xs ks))) = sum_list ks"
proof (induction xs ks rule: list_induct2)
  case (Cons x xs k ks)
  then have "k = 0 \<or> 0 < k" by force
  with Cons show ?case by auto
qed simp

lemma paid_total:
  assumes "length ks = length as" and "\<forall>k \<in> set ks. 0 \<le> k"
  shows "sum_list (map snd (paid as ks)) = sum_list ks"
  unfolding paid_def using assms by (intro sum_zip_filter) auto

lemma distinct_fst_filter_zip: "distinct xs \<Longrightarrow> distinct (map fst (filter P (zip xs ks)))"
proof (induction xs arbitrary: ks)
  case (Cons x xs)
  then show ?case by (cases ks) (auto dest: set_zip_leftD)
qed simp

lemma paid_addresses:
  assumes "distinct (map (trim \<circ> al_address) as)"
  shows "distinct (map fst (paid as ks))" and "set (map fst (paid as ks)) \<subseteq> trim ` al_address ` set as"
proof -
  show "distinct (map fst (paid as ks))"
    unfolding paid_def by (rule distinct_fst_filter_zip [OF assms])
  have "set (map fst (paid as ks)) \<subseteq> set (map (trim \<circ> al_address) as)"
    unfolding paid_def by (force dest: set_zip_leftD simp del: set_map simp: set_map [of fst])
  then show "set (map fst (paid as ks)) \<subseteq> trim ` al_address ` set as" by (simp add: image_comp)
qed

lemma sum_stroops_paid:
  assumes "\<And>a k. (a, k) \<in> set ps \<Longrightarrow> 0 < k" and "0 \<le> acc" and "acc + sum_list (map snd ps) \<le> 2 ^ 50"
  shows "sum_stroops (Fin (of_int acc))
      (map (\<lambda>(a, k). \<lparr>ds_address = a, ds_amount = fromStroops (Fin (of_int k))\<rparr>) ps) =
    Inr (Fin (of_int (acc + sum_list (map snd ps))))"
  using assms
proof (induction ps arbitrary: acc)
  case (Cons x ps)
  obtain a k where x: "x = (a, k)" by fastforce
  have k: "0 < k" using Cons.prems(1) [of a k] x by simp
  have nn: "0 \<le> sum_list (map snd ps)" using Cons.prems(1)
    by (intro sum_list_nonneg_int) (force intro: less_imp_le)
  have le: "acc + k + sum_list (map snd ps) \<le> 2 ^ 50" using Cons.prems(3) x by simp
  then have "toStroops (fromStroops (Fin (of_int k))) ''amount'' = Inr (Fin (of_int k))"
    using k Cons.prems(2) nn by (intro toStroops_fromStroops) auto
  moreover have "of_exact (of_int (acc + k)) = Fin (of_int (acc + k))"
    using k Cons.prems(2) le nn by (intro of_exact_int) simp
  moreover have "sum_stroops (Fin (of_int (acc + k)))
      (map (\<lambda>(a, k). \<lparr>ds_address = a, ds_amount = fromStroops (Fin (of_int k))\<rparr>) ps) =
      Inr (Fin (of_int (acc + k + sum_list (map snd ps))))"
    using Cons.prems(1,2) k le by (intro Cons.IH) auto
  ultimately show ?case by (simp add: x add.assoc)
qed simp

text \<open>Totals from one stroop to a hundred million units.\<close>

lemma toStroops_total:
  assumes "1 / 10 ^ 7 \<le> v" and "v \<le> 10 ^ 8"
  obtains T where "toStroops (Fin v) f = Inr (Fin (of_int T))" "0 < T" "T \<le> 2 ^ 50"
    "\<bar>of_int T - v * 10 ^ 7\<bar> \<le> 5 / 8"
proof -
  let ?x = "v * 10000000" and ?T = "\<lfloor>rnd64 (v * 10000000) + 1 / 2\<rfloor>"
  have x: "1 \<le> ?x" "?x \<le> 10 ^ 15" using assms by simp_all
  then have "\<bar>rnd64 ?x - ?x\<bar> \<le> 10 ^ 15 * eps64 + 1 / 2 ^ 100" by (intro ieee.fl_close) auto
  also have "\<dots> \<le> 1 / 8" by (simp add: eps64_def)
  finally have r: "\<bar>rnd64 ?x - ?x\<bar> \<le> 1 / 8" .
  have fl: "rnd64 ?x - 1 / 2 < of_int ?T" "of_int ?T \<le> rnd64 ?x + 1 / 2" by linarith+
  have "\<bar>?x\<bar> \<le> 10 ^ 15" using x by linarith
  then have "\<bar>?x\<bar> \<le> 2 ^ 1000" by (rule order_trans) simp
  then have "toStroops (Fin v) f = Inr (Fin (of_int ?T))"
    by (simp add: toStroops_def STROOPS_PER_UNIT_def of_exact_small)
  moreover have near: "\<bar>of_int ?T - v * 10 ^ 7\<bar> \<le> 5 / 8" proof -
    have "v * 10 ^ 7 = ?x" by simp
    then show ?thesis using fl r by linarith
  qed
  moreover have "0 < (of_int ?T :: rat)" using fl r x by linarith
  moreover have "(of_int ?T :: rat) \<le> of_int (2 ^ 50)"
  proof -
    have "?x \<le> 1000000000000000" using x by simp
    then have "(of_int ?T :: rat) \<le> 1125899906842624" using fl r by linarith
    then show ?thesis by simp
  qed
  ultimately show thesis by (intro that) (simp_all only: of_int_0_less_iff of_int_le_iff)
qed

lemma two_party_accepted:
  assumes "0 \<le> p" and "p \<le> 100" and "trim a \<noteq> []" and "trim b \<noteq> []" and "trim a \<noteq> trim b"
  shows "assertAllocations (twoPartyAllocations a b (Fin p)) = None"
proof -
  let ?r = "rnd64 (100 - p)" and ?p = "rnd64 p"
  have e: "100 * eps64 + 1 / 2 ^ 100 \<le> (1 / 10 ^ 12 :: rat)" "300 * eps64 + 1 / 2 ^ 100 \<le> (1 / 10 ^ 12 :: rat)"
    by (simp_all add: eps64_def)
  have r: "0 \<le> ?r" "?r \<le> 100"
    using ieee.fl_nonneg [of "100 - p"] ieee.fl_le_int [of "100 - p" 100] assms by simp_all
  have p: "0 \<le> ?p" "?p \<le> 100"
    using ieee.fl_nonneg [of p] ieee.fl_le_int [of p 100] assms by simp_all
  have near: "\<bar>?r - (100 - p)\<bar> \<le> 1 / 10 ^ 12" "\<bar>?p - p\<bar> \<le> 1 / 10 ^ 12"
    "\<bar>rnd64 (?p + ?r) - (?p + ?r)\<bar> \<le> 1 / 10 ^ 12"
    using ieee.fl_close [of "100 - p" 100] ieee.fl_close [of p 100] ieee.fl_close [of "?p + ?r" 300]
      e r p assms by simp_all
  let ?s = "rnd64 (?p + ?r)"
  have s: "\<bar>?s - 100\<bar> \<le> 3 / 10 ^ 12" using near by linarith
  have b: "\<bar>rnd64 (?s - 100)\<bar> \<le> 7 / 10 ^ 12"
  proof -
    have "\<bar>?s - 100\<bar> * eps64 \<le> \<bar>?s - 100\<bar>" by (rule mult_left_le) (simp_all add: eps64_def)
    moreover have "tiny64 \<le> 1 / 10 ^ 12" using tiny64_small by (rule order_trans) simp
    ultimately show ?thesis using ieee.fl_err [of "?s - 100"] s by linarith
  qed
  have big: "\<bar>q\<bar> \<le> 1000 \<Longrightarrow> of_exact q = Fin (rnd64 q)" for q
    by (rule of_exact_small) (erule order_trans, simp)
  have "3 / 10 ^ 12 \<le> (1000 :: rat)" by simp
  with s have "\<bar>?s - 100\<bar> \<le> 1000" by (rule order_trans)
  then have "of_exact (?s - 100) = Fin (rnd64 (?s - 100))" by (rule big)
  moreover have "of_exact (100 - p) = Fin ?r" "of_exact p = Fin ?p" "of_exact (?p + ?r) = Fin ?s"
    using assms r p by (simp_all add: big)
  moreover have "7 / 10 ^ 12 \<le> rnd64 (1 / 10 ^ 9)"
    using ieee.fl_lower [of "1 / 10 ^ 9"] tiny64_small unfolding eps64_def by simp
  then have "\<not> js_less percent_slack (Fin \<bar>rnd64 (?s - 100)\<bar>)"
    unfolding percent_slack_Fin(1) js_less.simps using b by linarith
  ultimately show ?thesis
    using assms r
    by (simp add: assertAllocations_None_iff twoPartyAllocations_def js_sub_def js_sum_def)
qed

text \<open>Everything after the checks succeeds.\<close>

lemma distributions_exact:
  assumes acc: "assertAllocations as = None" and len: "length as \<le> 1000"
    and T: "toStroops v ''total'' = Inr (Fin (of_int T))" "0 < T" "T \<le> 2 ^ 50"
  shows "\<exists>ks qs. buildDistributions kind v as =
      Inr (map (\<lambda>(a, k). \<lparr>ds_address = a, ds_amount = fromStroops (Fin (of_int k))\<rparr>) (paid as qs)) \<and>
    sum_list (map snd (paid as qs)) = T \<and> sum_list qs = T \<and> length qs = length as \<and> length ks = length as \<and>
    map (\<lambda>a. share_of (Fin (of_int T)) (al_percentage a)) as = map (\<lambda>k. Fin (of_int k)) ks \<and>
    (\<forall>i < length as. \<bar>qs ! i - ks ! i\<bar> \<le> \<bar>T - sum_list ks\<bar>)"
proof -
  have as: "as \<noteq> []" using acc by (simp add: assertAllocations_None_iff)
  obtain ks where ks: "map (\<lambda>a. share_of (Fin (of_int T)) (al_percentage a)) as = map (\<lambda>k. Fin (of_int k)) ks"
      "\<And>k. k \<in> set ks \<Longrightarrow> 0 \<le> k" "2 ^ 28 * (sum_list ks - T) \<le> T"
    using shares_ints [OF acc len T(2,3)] by auto
  have lks: "length ks = length as" using ks(1) by (metis length_map)
  then have "ks \<noteq> []" "length ks \<le> 1000" using as len by auto
  then obtain qs where qs: "splitStroops (Fin (of_int T)) as = map (\<lambda>k. Fin (of_int k)) qs"
      "length qs = length ks" "\<forall>k \<in> set qs. 0 \<le> k" "sum_list qs = T"
      "\<forall>i < length ks. \<bar>qs ! i - ks ! i\<bar> \<le> \<bar>T - sum_list ks\<bar>"
    using split_exact [OF ks(1) T(2,3) _ _ ks(2,3)] by blast
  let ?d = "map (\<lambda>(a, k). \<lparr>ds_address = a, ds_amount = fromStroops (Fin (of_int k))\<rparr>) (paid as qs)"
  have tot: "sum_list (map snd (paid as qs)) = T" using paid_total [of qs as] qs lks by simp
  then have ne: "paid as qs \<noteq> []" using T(2) by auto
  have "sum_stroops (Fin (of_int 0)) ?d = Inr (Fin (of_int (0 + sum_list (map snd (paid as qs)))))"
    using tot T(3) by (intro sum_stroops_paid) (auto simp: paid_pos)
  then have "assertWithinContract kind ?d (Fin (of_int T)) = None"
    by (simp add: assertWithinContract_def tot)
  moreover have "to_distributions as (splitStroops (Fin (of_int T)) as) = ?d"
    unfolding qs(1) by (rule to_distributions_ints)
  ultimately have "buildDistributions kind v as = Inr ?d"
    using ne T by (simp add: buildDistributions_def acc js_le_def Let_def)
  then show ?thesis using tot qs ks(1) lks by (intro exI [of _ ks] exI [of _ qs]) simp
qed

lemma two_party_fair:
  fixes T ka kb qa qb :: int
  assumes "0 \<le> p" "p \<le> 100" and T: "0 < T" "T \<le> 2 ^ 50"
    and a: "share_of (Fin (of_int T)) (Fin p) = Fin (of_int ka)"
    and b: "share_of (Fin (of_int T)) (Fin (rnd64 (100 - p))) = Fin (of_int kb)"
    and q: "qa + qb = T" "\<bar>qa - ka\<bar> \<le> \<bar>T - (ka + kb)\<bar>"
  shows "\<bar>of_int qa - of_int T * p / 100\<bar> \<le> 5"
proof -
  let ?r = "rnd64 (100 - p)"
  have r: "0 \<le> ?r" "?r \<le> 100"
    using ieee.fl_nonneg [of "100 - p"] ieee.fl_le_int [of "100 - p" 100] assms by simp_all
  have T': "0 < (of_int T :: rat)" "(of_int T :: rat) \<le> 1125899906842624" using T by simp_all
  have up: "of_int T * (1 + 3 * eps64) / 100 * x + 1 / 2 ^ 98 \<le> of_int T * x / 100 + 1" if "0 \<le> x" "x \<le> 100" for x
  proof -
    have "of_int T * x \<le> 1125899906842624 * 100" using T' that by (intro mult_mono) auto
    then show ?thesis unfolding eps64_def by (simp add: field_simps)
  qed
  have A: "of_int ka \<le> of_int T * p / 100 + 1" "of_int T * p / 100 - 3 / 2 \<le> of_int ka"
    using share_of_int [OF T assms(1,2)] a up [OF assms(1,2)] by auto
  have B: "of_int kb \<le> of_int T * ?r / 100 + 1" "of_int T * ?r / 100 - 3 / 2 \<le> of_int kb"
    using share_of_int [OF T r] b up [OF r] by auto
  have "\<bar>?r - (100 - p)\<bar> \<le> 100 * eps64 + 1 / 2 ^ 100" using assms by (intro ieee.fl_close) auto
  also have "\<dots> \<le> 2 / 10 ^ 14" by (simp add: eps64_def)
  finally have "of_int T * \<bar>?r - (100 - p)\<bar> \<le> 1125899906842624 * (2 / 10 ^ 14)"
    using T' by (intro mult_mono) auto
  then have "\<bar>of_int T * ?r - of_int T * (100 - p)\<bar> \<le> 25"
    using T' by (simp add: abs_mult flip: right_diff_distrib)
  then have "\<bar>of_int T * ?r / 100 - (of_int T - of_int T * p / 100)\<bar> \<le> 1 / 4"
    unfolding right_diff_distrib by linarith
  then have "\<bar>of_int T - (of_int ka + of_int kb)\<bar> \<le> (7 / 2 :: rat)" using A B by linarith
  then have "\<bar>of_int (T - (ka + kb)) :: rat\<bar> < 4" by simp
  then have "\<bar>T - (ka + kb)\<bar> \<le> 3" by (simp flip: of_int_abs)
  then have "\<bar>qa - ka\<bar> \<le> 3" using q(2) by linarith
  then have "(of_int qa :: rat) \<le> of_int ka + 3" "of_int ka \<le> (of_int qa :: rat) + 3" by linarith+
  then show ?thesis using A by linarith
qed

lemma distributions_pay:
  assumes "assertAllocations as = None" and "length as \<le> 1000"
    and "1 / 10 ^ 7 \<le> v" and "v \<le> 10 ^ 8"
  shows "\<exists>ds ks T. buildDistributions kind (Fin v) as = Inr ds \<and>
    map (\<lambda>d. toStroops (ds_amount d) ''amount'') ds = map (\<lambda>k. Inr (Fin (of_int k))) ks \<and>
    (\<forall>k \<in> set ks. 0 < k) \<and> sum_list ks = T \<and>
    toStroops (Fin v) ''total'' = Inr (Fin (of_int T)) \<and> \<bar>of_int T - v * 10 ^ 7\<bar> \<le> 5 / 8 \<and>
    distinct (map ds_address ds) \<and> set (map ds_address ds) \<subseteq> trim ` al_address ` set as"
proof -
  obtain T where T: "toStroops (Fin v) ''total'' = Inr (Fin (of_int T))" "0 < T" "T \<le> 2 ^ 50"
      "\<bar>of_int T - v * 10 ^ 7\<bar> \<le> 5 / 8"
    using toStroops_total assms(3,4) by blast
  obtain qs where qs: "buildDistributions kind (Fin v) as =
      Inr (map (\<lambda>(a, k). \<lparr>ds_address = a, ds_amount = fromStroops (Fin (of_int k))\<rparr>) (paid as qs))"
      "sum_list (map snd (paid as qs)) = T"
    using distributions_exact [OF assms(1,2) T(1-3)] by blast
  have pos: "0 < k" if "k \<in> set (map snd (paid as qs))" for k using that by (auto simp: paid_def)
  have "k \<le> 2 ^ 50" if "k \<in> set (map snd (paid as qs))" for k
    using member_le_sum_list [OF that] pos qs(2) T(3) by (force intro: less_imp_le)
  then have rtrip: "toStroops (fromStroops (Fin (of_int k))) ''amount'' = Inr (Fin (of_int k))"
    if "k \<in> set (map snd (paid as qs))" for k
    using that pos [OF that] by (intro toStroops_fromStroops) auto
  have dist: "distinct (map (trim \<circ> al_address) as)" using assms(1) by (simp add: assertAllocations_None_iff)
  show ?thesis
    using qs T rtrip pos paid_addresses [OF dist, of qs]
    by (intro exI [of _ "map (\<lambda>(a, k). \<lparr>ds_address = a, ds_amount = fromStroops (Fin (of_int k))\<rparr>) (paid as qs)"]
        exI [of _ "map snd (paid as qs)"] exI [of _ T]) (auto simp: o_def split_def)
qed

section \<open>Properties\<close>

text \<open>
  (C1) A resolution pays out exactly the escrow. For every total from one stroop to a hundred
  million units and every accepted set of at most a thousand percentages, in double arithmetic:
  no check after the validation fires, every amount is a positive number of stroops, the amounts
  read back in stroops add up to the rounded total with nothing lost or invented, the rounded
  total is within 5/8 stroop of the exact one, and no address is paid twice.
\<close>

theorem distributions_total_exact:
  assumes "assertAllocations as = None" and "length as \<le> 1000"
    and "1 / 10 ^ 7 \<le> v" and "v \<le> 10 ^ 8"
  shows "\<exists>ds ks T. buildDistributions kind (Fin v) as = Inr ds \<and>
    map (\<lambda>d. toStroops (ds_amount d) ''amount'') ds = map (\<lambda>k. Inr (Fin (of_int k))) ks \<and>
    (\<forall>k \<in> set ks. 0 < k) \<and> sum_list ks = T \<and>
    toStroops (Fin v) ''total'' = Inr (Fin (of_int T)) \<and> \<bar>of_int T - v * 10 ^ 7\<bar> \<le> 5 / 8 \<and>
    distinct (map ds_address ds) \<and> set (map ds_address ds) \<subseteq> trim ` al_address ` set as"
  by (rule distributions_pay [OF assms])

lemma distributions_total_exact_witness:
  "\<exists>ds ks T. buildDistributions ''single-release'' (Fin 15) (twoPartyAllocations ''A'' ''B'' (Fin 60)) = Inr ds \<and>
    map (\<lambda>d. toStroops (ds_amount d) ''amount'') ds = map (\<lambda>k. Inr (Fin (of_int k))) ks \<and>
    (\<forall>k \<in> set ks. 0 < k) \<and> sum_list ks = T \<and>
    toStroops (Fin 15) ''total'' = Inr (Fin (of_int T)) \<and> \<bar>of_int T - 15 * 10 ^ 7 :: rat\<bar> \<le> 5 / 8 \<and>
    distinct (map ds_address ds) \<and>
    set (map ds_address ds) \<subseteq> trim ` al_address ` set (twoPartyAllocations ''A'' ''B'' (Fin 60))"
  by (rule distributions_total_exact)
    (simp_all add: two_party_accepted trim_def js_space_def twoPartyAllocations_def [THEN arg_cong [of _ _ length]])

text \<open>
  (C2) The two-party split the dispute screen offers always goes through. For two different
  addresses and any approver share from 0 to 100, the complement computed in doubles is accepted,
  the approver gets \<open>qa\<close> stroops and the service provider the rest, a party with nothing is left
  out, and the approver's part is within five stroops of the exact percentage.
\<close>

theorem two_party_resolution:
  assumes "0 \<le> p" and "p \<le> 100" and "trim a \<noteq> []" and "trim b \<noteq> []" and "trim a \<noteq> trim b"
    and "1 / 10 ^ 7 \<le> v" and "v \<le> 10 ^ 8"
  shows "\<exists>T qa. toStroops (Fin v) ''total'' = Inr (Fin (of_int T)) \<and>
    buildDistributions kind (Fin v) (twoPartyAllocations a b (Fin p)) =
      Inr (map (\<lambda>(x, k). \<lparr>ds_address = x, ds_amount = fromStroops (Fin (of_int k))\<rparr>)
        (filter (\<lambda>(x, k). 0 < k) [(trim a, qa), (trim b, T - qa)])) \<and>
    \<bar>of_int qa - of_int T * p / 100\<bar> \<le> 5"
proof -
  let ?as = "twoPartyAllocations a b (Fin p)"
  have len: "length ?as = 2" by (simp add: twoPartyAllocations_def)
  obtain T where T: "toStroops (Fin v) ''total'' = Inr (Fin (of_int T))" "0 < T" "T \<le> 2 ^ 50"
    using toStroops_total assms(6,7) by blast
  obtain ks qs where q: "buildDistributions kind (Fin v) ?as =
      Inr (map (\<lambda>(a, k). \<lparr>ds_address = a, ds_amount = fromStroops (Fin (of_int k))\<rparr>) (paid ?as qs))"
      "sum_list qs = T" "length qs = 2" "length ks = 2"
      "map (\<lambda>a. share_of (Fin (of_int T)) (al_percentage a)) ?as = map (\<lambda>k. Fin (of_int k)) ks"
      "\<forall>i < 2. \<bar>qs ! i - ks ! i\<bar> \<le> \<bar>T - sum_list ks\<bar>"
    using distributions_exact [OF two_party_accepted [OF assms(1-5)] _ T, of kind] len by auto
  obtain ka kb where ks: "ks = [ka, kb]" using q(4) by (auto simp: length_Suc_conv numeral_2_eq_2)
  obtain qa qb where qs: "qs = [qa, qb]" using q(3) by (auto simp: length_Suc_conv numeral_2_eq_2)
  have "\<bar>100 - p\<bar> \<le> 100" using assms by simp
  then have "\<bar>100 - p\<bar> \<le> 2 ^ 1000" by (rule order_trans) simp
  then have "js_sub (Fin 100) (Fin p) = Fin (rnd64 (100 - p))" by (simp add: js_sub_def of_exact_small)
  then have "share_of (Fin (of_int T)) (Fin p) = Fin (of_int ka)"
      "share_of (Fin (of_int T)) (Fin (rnd64 (100 - p))) = Fin (of_int kb)"
    using q(5) by (simp_all add: ks twoPartyAllocations_def)
  moreover have qb: "qb = T - qa" using q(2) qs by simp
  moreover have "\<bar>qa - ka\<bar> \<le> \<bar>T - (ka + kb)\<bar>" using q(6) ks qs by force
  ultimately have "\<bar>of_int qa - of_int T * p / 100\<bar> \<le> 5"
    using two_party_fair [OF assms(1,2) T(2,3), of ka kb qa qb] by simp
  moreover have "paid ?as qs = filter (\<lambda>(x, k). 0 < k) [(trim a, qa), (trim b, T - qa)]"
    by (simp add: paid_def twoPartyAllocations_def qs qb)
  ultimately show ?thesis using T(1) q(1) by (intro exI [of _ T] exI [of _ qa]) simp
qed

lemma two_party_resolution_witness:
  "\<exists>T qa. toStroops (Fin (1 / 10)) ''total'' = Inr (Fin (of_int T)) \<and>
    buildDistributions ''multi-release'' (Fin (1 / 10)) (twoPartyAllocations ''A'' ''B'' (Fin 100)) =
      Inr (map (\<lambda>(x, k). \<lparr>ds_address = x, ds_amount = fromStroops (Fin (of_int k))\<rparr>)
        (filter (\<lambda>(x, k). 0 < k) [(trim ''A'', qa), (trim ''B'', T - qa)])) \<and>
    \<bar>of_int qa - of_int T * 100 / 100 :: rat\<bar> \<le> 5"
  by (rule two_party_resolution) (simp_all add: trim_def js_space_def)

end
