(* ===== verification/Backend.thy ===== *)
theory Backend
  imports Schema
begin

text \<open>
  The database service as an argument of the model. A \<open>table\<close> holds, for one table, the
  queries the code issues through the Supabase client; a \<open>backend\<close> holds one \<open>table\<close> per table
  of the schema, the clock, random identifiers, outgoing HTTP and mail, the file storage and the
  environment variables. Every service definition takes the backend it talks to. What the
  code relies on is stated by the locales \<open>table_store\<close> (one table) and \<open>database\<close> (all of
  them); the last section builds a backend that keeps its tables in memory, fails where a fault
  schedule says so, and satisfies the laws.
\<close>

subsection \<open>The client's interface\<close>

record db_error =
  e_code :: string
  e_message :: string

text \<open>
  \<open>select_rows P k\<close>: \<open>select\<close> with filter \<open>P\<close>, then ordering and limit \<open>k\<close>. \<open>select_one\<close> ends
  with \<open>maybeSingle()\<close>, \<open>select_single\<close> with \<open>single()\<close>. \<open>update_rows\<close> awaits the update alone,
  \<open>update_single\<close> and \<open>update_one\<close> add \<open>select()\<close> and \<open>single()\<close> or \<open>maybeSingle()\<close>.
  \<open>insert_row\<close> is \<open>insert(row).select().single()\<close>, \<open>insert_rows\<close> a bare \<open>insert\<close>. The result
  pairs \<open>data\<close> and \<open>error\<close> as the client does.
\<close>

record ('s, 'r) table =
  select_rows :: "('r \<Rightarrow> bool) \<Rightarrow> ('r list \<Rightarrow> 'r list) \<Rightarrow> 's \<Rightarrow> ('r list option \<times> db_error option) \<times> 's"
  select_one :: "('r \<Rightarrow> bool) \<Rightarrow> 's \<Rightarrow> ('r option \<times> db_error option) \<times> 's"
  select_single :: "('r \<Rightarrow> bool) \<Rightarrow> 's \<Rightarrow> ('r option \<times> db_error option) \<times> 's"
  count_rows :: "('r \<Rightarrow> bool) \<Rightarrow> 's \<Rightarrow> (nat option \<times> db_error option) \<times> 's"
  insert_row :: "'r \<Rightarrow> 's \<Rightarrow> ('r option \<times> db_error option) \<times> 's"
  insert_rows :: "'r list \<Rightarrow> 's \<Rightarrow> db_error option \<times> 's"
  update_rows :: "('r \<Rightarrow> bool) \<Rightarrow> ('r \<Rightarrow> 'r) \<Rightarrow> 's \<Rightarrow> db_error option \<times> 's"
  update_single :: "('r \<Rightarrow> bool) \<Rightarrow> ('r \<Rightarrow> 'r) \<Rightarrow> 's \<Rightarrow> ('r option \<times> db_error option) \<times> 's"
  update_one :: "('r \<Rightarrow> bool) \<Rightarrow> ('r \<Rightarrow> 'r) \<Rightarrow> 's \<Rightarrow> ('r option \<times> db_error option) \<times> 's"
  delete_rows :: "('r \<Rightarrow> bool) \<Rightarrow> 's \<Rightarrow> db_error option \<times> 's"

text \<open>
  An outgoing HTTP request and its answer. The body of an answer is a JSON document or other
  text; a request that gets no answer ends with the message of the error \<open>fetch\<close> throws.
\<close>

record http_request =
  rq_method :: string
  rq_url :: string
  rq_query :: "(string \<times> string) list"
  rq_headers :: "(string \<times> string) list"
  rq_body :: "json option"

datatype http_body = Json json | Text string

record http_response =
  rp_status :: nat
  rp_body :: http_body

text \<open>
  A mail for the provider (Resend): it answers with an error's message, or accepts, or the call throws.
\<close>

record email =
  ml_from :: string
  ml_to :: "string list"
  ml_subject :: string
  ml_html :: string
  ml_reply_to :: string

record 's backend =
  agreements :: "('s, agreement) table"
  participants :: "('s, participant) table"
  activity :: "('s, activity_row) table"
  wallets :: "('s, user_wallet) table"
  users :: "('s, auth_user) table"
  profiles :: "('s, profile) table"
  disputes :: "('s, dispute) table"
  resolutions :: "('s, resolution) table"
  jobs :: "('s, retry_job) table"
  opportunities :: "('s, opportunity) table"
  applications :: "('s, application) table"
  verifications :: "('s, verification) table"
  kyb :: "('s, kyb_verification) table"
  notifications :: "('s, notification_log) table"
  contacts :: "('s, contact) table"
  files :: "('s, stored_file) table"
  messages :: "('s, chat_message) table"
  attachments :: "('s, attachment) table"
  now :: "'s \<Rightarrow> int \<times> 's"
  fetch :: "http_request \<Rightarrow> 's \<Rightarrow> (string + http_response) \<times> 's"
  mail :: "email \<Rightarrow> 's \<Rightarrow> (string + string option) \<times> 's"
  random_id :: "'s \<Rightarrow> string \<times> 's"
  put_object :: "string \<Rightarrow> 's \<Rightarrow> string option \<times> 's"
  drop_object :: "string \<Rightarrow> 's \<Rightarrow> bool \<times> 's"
  sign_object :: "string \<Rightarrow> 's \<Rightarrow> (string option \<times> string option) \<times> 's"
  getenv :: "string \<Rightarrow> string option"

text \<open>
  The world a service method acts on: the state behind the backend, the events put on the bus,
  the work started without awaiting it, the HTTP requests and mails sent with their answers, in order, and
  the objects stored in the file bucket.
\<close>

record 's world =
  svc :: 's
  emitted :: "event list"
  spawned :: "task list"
  sent :: "(http_request \<times> (string + http_response)) list"
  mailed :: "(email \<times> (string + string option)) list"
  stored :: "string list"

definition call :: "('s \<Rightarrow> 'a \<times> 's) \<Rightarrow> ('s world, 'a) prog" where
  "call f = (\<lambda>w. case f (svc w) of (x, s) \<Rightarrow> (Inr x, w\<lparr>svc := s\<rparr>))"

definition emit :: "string \<Rightarrow> json \<Rightarrow> ('s world, unit) prog" where
  "emit name payload = (\<lambda>w. (Inr (), w\<lparr>emitted := emitted w @ [(name, payload)]\<rparr>))"

definition spawn :: "task \<Rightarrow> ('s world, unit) prog" where
  "spawn t = (\<lambda>w. (Inr (), w\<lparr>spawned := spawned w @ [t]\<rparr>))"

definition send :: "'s backend \<Rightarrow> http_request \<Rightarrow> ('s world, string + http_response) prog" where
  "send B rq = (\<lambda>w. case fetch B rq (svc w) of (answer, s) \<Rightarrow>
     (Inr answer, w\<lparr>svc := s, sent := sent w @ [(rq, answer)]\<rparr>))"

definition send_email :: "'s backend \<Rightarrow> email \<Rightarrow> ('s world, string + string option) prog" where
  "send_email B m = (\<lambda>w. case mail B m (svc w) of (answer, s) \<Rightarrow>
     (Inr answer, w\<lparr>svc := s, mailed := mailed w @ [(m, answer)]\<rparr>))"

text \<open>Uploading answers the message of an error; an object removed is gone when the call succeeds.\<close>

definition upload_object :: "'s backend \<Rightarrow> string \<Rightarrow> ('s world, string option) prog" where
  "upload_object B path = (\<lambda>w. case put_object B path (svc w) of (error, s) \<Rightarrow>
     (Inr error, w\<lparr>svc := s, stored := (if error = None then stored w @ [path] else stored w)\<rparr>))"

definition remove_object :: "'s backend \<Rightarrow> string \<Rightarrow> ('s world, unit) prog" where
  "remove_object B path = (\<lambda>w. case drop_object B path (svc w) of (d, s) \<Rightarrow>
     (Inr (), w\<lparr>svc := s, stored := (if d then filter (\<lambda>p. p \<noteq> path) (stored w) else stored w)\<rparr>))"

lemma send_email_run [prog_simps]: "send_email B m w = (case mail B m (svc w) of (answer, s) \<Rightarrow>
     (Inr answer, w\<lparr>svc := s, mailed := mailed w @ [(m, answer)]\<rparr>))"
  by (simp add: send_email_def)

lemma upload_object_run [prog_simps]: "upload_object B path w = (case put_object B path (svc w) of (error, s) \<Rightarrow>
     (Inr error, w\<lparr>svc := s, stored := (if error = None then stored w @ [path] else stored w)\<rparr>))"
  by (simp add: upload_object_def)

lemma remove_object_run [prog_simps]: "remove_object B path w = (case drop_object B path (svc w) of (d, s) \<Rightarrow>
     (Inr (), w\<lparr>svc := s, stored := (if d then filter (\<lambda>p. p \<noteq> path) (stored w) else stored w)\<rparr>))"
  by (simp add: remove_object_def)

lemma send_run [prog_simps]: "send B rq w = (case fetch B rq (svc w) of (answer, s) \<Rightarrow>
     (Inr answer, w\<lparr>svc := s, sent := sent w @ [(rq, answer)]\<rparr>))"
  by (simp add: send_def)

lemma call_run [prog_simps]: "call f w = (case f (svc w) of (x, s) \<Rightarrow> (Inr x, w\<lparr>svc := s\<rparr>))"
  by (simp add: call_def)

lemma emit_run [prog_simps]: "emit n p w = (Inr (), w\<lparr>emitted := emitted w @ [(n, p)]\<rparr>)"
  by (simp add: emit_def)

lemma spawn_run [prog_simps]: "spawn t w = (Inr (), w\<lparr>spawned := spawned w @ [t]\<rparr>)"
  by (simp add: spawn_def)

lemma wp_call: "wp (call f) Q w = (case f (svc w) of (x, s) \<Rightarrow> Q (Inr x) (w\<lparr>svc := s\<rparr>))"
  by (simp add: wp_def call_def split: prod.splits)

lemma wp_emit [wp_simps]: "wp (emit n p) Q w = Q (Inr ()) (w\<lparr>emitted := emitted w @ [(n, p)]\<rparr>)"
  by (simp add: wp_def emit_def)

lemma wp_spawn [wp_simps]: "wp (spawn t) Q w = Q (Inr ()) (w\<lparr>spawned := spawned w @ [t]\<rparr>)"
  by (simp add: wp_def spawn_def)

subsection \<open>The laws of a table\<close>

text \<open>
  \<open>st\<close> reads the database content out of the service state, \<open>get\<close> and \<open>put\<close> one table out of
  it; \<open>gen i t r\<close> is row \<open>r\<close> with the columns the database generates (the key \<open>i\<close>, the time
  \<open>t\<close>), \<open>valid\<close> the table's constraints. A call either fails and leaves the content alone, or
  does what its SQL says.
\<close>

locale table_store =
  fixes T :: "('s, 'r) table"
    and st :: "'s \<Rightarrow> 'd"
    and get :: "'d \<Rightarrow> 'r list"
    and put :: "'r list \<Rightarrow> 'd \<Rightarrow> 'd"
    and gen :: "string \<Rightarrow> int \<Rightarrow> 'r \<Rightarrow> 'r"
    and valid :: "'r list \<Rightarrow> bool"
  assumes get_put: "get (put rs c) = rs"
    and put_get: "put (get c) c = c"
    and put_put: "put rs (put qs c) = put rs c"
    and select_rows_law: "select_rows T P k s = ((ds, e), s') \<Longrightarrow>
      st s' = st s \<and> (e = None \<longrightarrow> ds = Some (k (filter P (get (st s))))) \<and>
      (e \<noteq> None \<longrightarrow> ds = None)"
    and select_one_law: "select_one T P s = ((d, e), s') \<Longrightarrow>
      st s' = st s \<and> (e = None \<longrightarrow>
        (case filter P (get (st s)) of [] \<Rightarrow> d = None | r # rs \<Rightarrow> rs = [] \<and> d = Some r)) \<and>
      (e \<noteq> None \<longrightarrow> d = None)"
    and select_single_law: "select_single T P s = ((d, e), s') \<Longrightarrow>
      st s' = st s \<and> (e = None \<longrightarrow> (\<exists>r. filter P (get (st s)) = [r] \<and> d = Some r)) \<and>
      (e \<noteq> None \<longrightarrow> d = None)"
    and count_rows_law: "count_rows T P s = ((n, e), s') \<Longrightarrow>
      st s' = st s \<and> (e = None \<longrightarrow> n = Some (length (filter P (get (st s))))) \<and>
      (e \<noteq> None \<longrightarrow> n = None)"
    and insert_row_law: "insert_row T r s = ((d, e), s') \<Longrightarrow>
      (e = None \<longrightarrow> (\<exists>i t. d = Some (gen i t r) \<and>
        st s' = put (get (st s) @ [gen i t r]) (st s) \<and> valid (get (st s) @ [gen i t r]))) \<and>
      (e \<noteq> None \<longrightarrow> d = None \<and> st s' = st s)"
    and insert_rows_law: "insert_rows T rs s = (e, s') \<Longrightarrow>
      (e = None \<longrightarrow> (\<exists>qs. list_all2 (\<lambda>r q. \<exists>i t. q = gen i t r) rs qs \<and>
        st s' = put (get (st s) @ qs) (st s) \<and> valid (get (st s) @ qs))) \<and>
      (e \<noteq> None \<longrightarrow> st s' = st s)"
    and update_rows_law: "update_rows T P f s = (e, s') \<Longrightarrow>
      (e = None \<longrightarrow> st s' = put (update_where P f (get (st s))) (st s) \<and>
        valid (update_where P f (get (st s)))) \<and>
      (e \<noteq> None \<longrightarrow> st s' = st s)"
    and update_single_law: "update_single T P f s = ((d, e), s') \<Longrightarrow>
      (e = None \<longrightarrow> (\<exists>r. filter P (get (st s)) = [r] \<and> d = Some (f r)) \<and>
        st s' = put (update_where P f (get (st s))) (st s) \<and>
        valid (update_where P f (get (st s)))) \<and>
      (e \<noteq> None \<longrightarrow> d = None \<and> st s' = st s)"
    and update_one_law: "update_one T P f s = ((d, e), s') \<Longrightarrow>
      (e = None \<longrightarrow>
        (case filter P (get (st s)) of [] \<Rightarrow> d = None | r # rs \<Rightarrow> rs = [] \<and> d = Some (f r)) \<and>
        st s' = put (update_where P f (get (st s))) (st s) \<and>
        valid (update_where P f (get (st s)))) \<and>
      (e \<noteq> None \<longrightarrow> d = None \<and> st s' = st s)"
begin

text \<open>The laws as weakest preconditions of the calls.\<close>

lemma wp_select_rows:
  assumes err: "\<And>e s'. st s' = st (svc w) \<Longrightarrow> Q (Inr (None, Some e)) (w\<lparr>svc := s'\<rparr>)"
    and ok: "\<And>s'. st s' = st (svc w) \<Longrightarrow>
      Q (Inr (Some (k (filter P (get (st (svc w))))), None)) (w\<lparr>svc := s'\<rparr>)"
  shows "wp (call (select_rows T P k)) Q w"
proof -
  obtain d e s' where c: "select_rows T P k (svc w) = ((d, e), s')" by (metis prod.collapse)
  have "Q (Inr (d, e)) (w\<lparr>svc := s'\<rparr>)"
    using select_rows_law [OF c] err ok by (cases e) auto
  then show ?thesis by (simp add: wp_call c)
qed

lemma wp_select_one:
  assumes err: "\<And>e s'. st s' = st (svc w) \<Longrightarrow> Q (Inr (None, Some e)) (w\<lparr>svc := s'\<rparr>)"
    and none: "\<And>s'. st s' = st (svc w) \<Longrightarrow> \<forall>r \<in> set (get (st (svc w))). \<not> P r \<Longrightarrow>
      Q (Inr (None, None)) (w\<lparr>svc := s'\<rparr>)"
    and some: "\<And>r s'. st s' = st (svc w) \<Longrightarrow> filter P (get (st (svc w))) = [r] \<Longrightarrow>
      r \<in> set (get (st (svc w))) \<Longrightarrow> P r \<Longrightarrow> Q (Inr (Some r, None)) (w\<lparr>svc := s'\<rparr>)"
  shows "wp (call (select_one T P)) Q w"
proof -
  obtain d e s' where c: "select_one T P (svc w) = ((d, e), s')" by (metis prod.collapse)
  note law = select_one_law [OF c]
  have "Q (Inr (d, e)) (w\<lparr>svc := s'\<rparr>)"
  proof (cases e)
    case (Some x)
    then show ?thesis using law err by auto
  next
    case None
    show ?thesis
    proof (cases "filter P (get (st (svc w)))")
      case Nil
      then show ?thesis using law None none by (auto simp: filter_empty_conv)
    next
      case (Cons r rs)
      then show ?thesis using law None some filter_hdD [OF Cons] by auto
    qed
  qed
  then show ?thesis by (simp add: wp_call c)
qed

lemma wp_select_single:
  assumes err: "\<And>e s'. st s' = st (svc w) \<Longrightarrow> Q (Inr (None, Some e)) (w\<lparr>svc := s'\<rparr>)"
    and some: "\<And>r s'. st s' = st (svc w) \<Longrightarrow> filter P (get (st (svc w))) = [r] \<Longrightarrow>
      r \<in> set (get (st (svc w))) \<Longrightarrow> P r \<Longrightarrow> Q (Inr (Some r, None)) (w\<lparr>svc := s'\<rparr>)"
  shows "wp (call (select_single T P)) Q w"
proof -
  obtain d e s' where c: "select_single T P (svc w) = ((d, e), s')" by (metis prod.collapse)
  note law = select_single_law [OF c]
  have "Q (Inr (d, e)) (w\<lparr>svc := s'\<rparr>)"
  proof (cases e)
    case (Some x)
    then show ?thesis using law err by auto
  next
    case None
    then obtain r where r: "filter P (get (st (svc w))) = [r]" "d = Some r" using law by auto
    then show ?thesis using law None some filter_hdD [OF r(1)] by auto
  qed
  then show ?thesis by (simp add: wp_call c)
qed

lemma wp_count_rows:
  assumes "\<And>n e s'. st s' = st (svc w) \<Longrightarrow>
    (e = None \<Longrightarrow> n = Some (length (filter P (get (st (svc w)))))) \<Longrightarrow>
    (e \<noteq> None \<Longrightarrow> n = None) \<Longrightarrow> Q (Inr (n, e)) (w\<lparr>svc := s'\<rparr>)"
  shows "wp (call (count_rows T P)) Q w"
  using assms count_rows_law by (auto simp: wp_call split: prod.splits)

lemma wp_insert_row:
  assumes err: "\<And>e s'. st s' = st (svc w) \<Longrightarrow> Q (Inr (None, Some e)) (w\<lparr>svc := s'\<rparr>)"
    and ok: "\<And>i t s'. st s' = put (get (st (svc w)) @ [gen i t r]) (st (svc w)) \<Longrightarrow>
      valid (get (st (svc w)) @ [gen i t r]) \<Longrightarrow> Q (Inr (Some (gen i t r), None)) (w\<lparr>svc := s'\<rparr>)"
  shows "wp (call (insert_row T r)) Q w"
proof -
  obtain d e s' where c: "insert_row T r (svc w) = ((d, e), s')" by (metis prod.collapse)
  have "Q (Inr (d, e)) (w\<lparr>svc := s'\<rparr>)"
    using insert_row_law [OF c] err ok by (cases e) auto
  then show ?thesis by (simp add: wp_call c)
qed

lemma wp_insert_rows:
  assumes err: "\<And>e s'. st s' = st (svc w) \<Longrightarrow> Q (Inr (Some e)) (w\<lparr>svc := s'\<rparr>)"
    and ok: "\<And>qs s'. list_all2 (\<lambda>r q. \<exists>i t. q = gen i t r) rs qs \<Longrightarrow>
      st s' = put (get (st (svc w)) @ qs) (st (svc w)) \<Longrightarrow> valid (get (st (svc w)) @ qs) \<Longrightarrow>
      Q (Inr None) (w\<lparr>svc := s'\<rparr>)"
  shows "wp (call (insert_rows T rs)) Q w"
proof -
  obtain e s' where c: "insert_rows T rs (svc w) = (e, s')" by (metis prod.collapse)
  have "Q (Inr e) (w\<lparr>svc := s'\<rparr>)"
    using insert_rows_law [OF c] err ok by (cases e) auto
  then show ?thesis by (simp add: wp_call c)
qed

lemma wp_update_rows:
  assumes err: "\<And>e s'. st s' = st (svc w) \<Longrightarrow> Q (Inr (Some e)) (w\<lparr>svc := s'\<rparr>)"
    and ok: "\<And>s'. st s' = put (update_where P f (get (st (svc w)))) (st (svc w)) \<Longrightarrow>
      valid (update_where P f (get (st (svc w)))) \<Longrightarrow> Q (Inr None) (w\<lparr>svc := s'\<rparr>)"
  shows "wp (call (update_rows T P f)) Q w"
proof -
  obtain e s' where c: "update_rows T P f (svc w) = (e, s')" by (metis prod.collapse)
  have "Q (Inr e) (w\<lparr>svc := s'\<rparr>)"
    using update_rows_law [OF c] err ok by (cases e) auto
  then show ?thesis by (simp add: wp_call c)
qed

text \<open>The same for two calls, naming the call that was answered with an error.\<close>

lemma wp_select_rows_read:
  assumes err: "\<And>e s'. select_rows T P k (svc w) = ((None, Some e), s') \<Longrightarrow> st s' = st (svc w) \<Longrightarrow> Q (Inr (None, Some e)) (w\<lparr>svc := s'\<rparr>)"
    and ok: "\<And>s'. st s' = st (svc w) \<Longrightarrow> Q (Inr (Some (k (filter P (get (st (svc w))))), None)) (w\<lparr>svc := s'\<rparr>)"
  shows "wp (call (select_rows T P k)) Q w"
proof -
  obtain d e s' where c: "select_rows T P k (svc w) = ((d, e), s')" by (metis prod.collapse)
  have "Q (Inr (d, e)) (w\<lparr>svc := s'\<rparr>)"
    using select_rows_law [OF c] c err ok by (cases e) auto
  then show ?thesis by (simp add: wp_call c)
qed

lemma wp_update_rows_read:
  assumes err: "\<And>e s'. update_rows T P f (svc w) = (Some e, s') \<Longrightarrow> st s' = st (svc w) \<Longrightarrow> Q (Inr (Some e)) (w\<lparr>svc := s'\<rparr>)"
    and ok: "\<And>s'. st s' = put (update_where P f (get (st (svc w)))) (st (svc w)) \<Longrightarrow> Q (Inr None) (w\<lparr>svc := s'\<rparr>)"
  shows "wp (call (update_rows T P f)) Q w"
proof -
  obtain e s' where c: "update_rows T P f (svc w) = (e, s')" by (metis prod.collapse)
  have "Q (Inr e) (w\<lparr>svc := s'\<rparr>)"
    using update_rows_law [OF c] c err ok by (cases e) auto
  then show ?thesis by (simp add: wp_call c)
qed

lemma wp_update_single:
  assumes err: "\<And>e s'. st s' = st (svc w) \<Longrightarrow> Q (Inr (None, Some e)) (w\<lparr>svc := s'\<rparr>)"
    and ok: "\<And>r s'. filter P (get (st (svc w))) = [r] \<Longrightarrow>
      st s' = put (update_where P f (get (st (svc w)))) (st (svc w)) \<Longrightarrow>
      valid (update_where P f (get (st (svc w)))) \<Longrightarrow> Q (Inr (Some (f r), None)) (w\<lparr>svc := s'\<rparr>)"
  shows "wp (call (update_single T P f)) Q w"
proof -
  obtain d e s' where c: "update_single T P f (svc w) = ((d, e), s')" by (metis prod.collapse)
  have "Q (Inr (d, e)) (w\<lparr>svc := s'\<rparr>)"
    using update_single_law [OF c] err ok by (cases e) auto
  then show ?thesis by (simp add: wp_call c)
qed

lemma wp_update_one:
  assumes err: "\<And>e s'. st s' = st (svc w) \<Longrightarrow> Q (Inr (None, Some e)) (w\<lparr>svc := s'\<rparr>)"
    and none: "\<And>s'. st s' = st (svc w) \<Longrightarrow> \<forall>r \<in> set (get (st (svc w))). \<not> P r \<Longrightarrow>
      Q (Inr (None, None)) (w\<lparr>svc := s'\<rparr>)"
    and ok: "\<And>r s'. filter P (get (st (svc w))) = [r] \<Longrightarrow>
      st s' = put (update_where P f (get (st (svc w)))) (st (svc w)) \<Longrightarrow>
      valid (update_where P f (get (st (svc w)))) \<Longrightarrow> Q (Inr (Some (f r), None)) (w\<lparr>svc := s'\<rparr>)"
  shows "wp (call (update_one T P f)) Q w"
proof -
  obtain d e s' where c: "update_one T P f (svc w) = ((d, e), s')" by (metis prod.collapse)
  note law = update_one_law [OF c]
  have "Q (Inr (d, e)) (w\<lparr>svc := s'\<rparr>)"
  proof (cases e)
    case (Some x)
    then show ?thesis using law err by auto
  next
    case None
    show ?thesis
    proof (cases "filter P (get (st (svc w)))")
      case Nil
      then have n: "\<forall>r \<in> set (get (st (svc w))). \<not> P r" by (simp add: filter_empty_conv)
      then show ?thesis using law None Nil none by (simp add: update_where_none put_get)
    next
      case (Cons r rs)
      then show ?thesis using law None ok by auto
    qed
  qed
  then show ?thesis by (simp add: wp_call c)
qed

lemmas wp_calls = wp_select_rows wp_select_one wp_select_single wp_count_rows wp_insert_row
  wp_insert_rows wp_update_rows wp_update_single wp_update_one

end

text \<open>A table whose rows are deleted without taking rows of other tables with them.\<close>

locale deleting_store = table_store +
  assumes delete_rows_law: "delete_rows T P s = (e, s') \<Longrightarrow>
      (e = None \<longrightarrow> st s' = put (filter (\<lambda>r. \<not> P r) (get (st s))) (st s)) \<and>
      (e \<noteq> None \<longrightarrow> st s' = st s)"
begin

lemma wp_delete_rows:
  assumes err: "\<And>e s'. st s' = st (svc w) \<Longrightarrow> Q (Inr (Some e)) (w\<lparr>svc := s'\<rparr>)"
    and ok: "\<And>s'. st s' = put (filter (\<lambda>r. \<not> P r) (get (st (svc w)))) (st (svc w)) \<Longrightarrow>
      Q (Inr None) (w\<lparr>svc := s'\<rparr>)"
  shows "wp (call (delete_rows T P)) Q w"
proof -
  obtain e s' where c: "delete_rows T P (svc w) = (e, s')" by (metis prod.collapse)
  have "Q (Inr e) (w\<lparr>svc := s'\<rparr>)"
    using delete_rows_law [OF c] err ok by (cases e) auto
  then show ?thesis by (simp add: wp_call c)
qed

end

subsection \<open>The laws of the whole database\<close>

text \<open>
  The columns the database generates on insertion: the key, the time stamps whose default is
  \<open>now()\<close>, and the default status of an application (\<open>scripts/018\<close>).
\<close>

definition gen_agreement :: "string \<Rightarrow> int \<Rightarrow> agreement \<Rightarrow> agreement" where
  "gen_agreement i t r = r\<lparr>a_id := i, a_created_at := t, a_updated_at := t\<rparr>"

definition gen_participant :: "string \<Rightarrow> int \<Rightarrow> participant \<Rightarrow> participant" where
  "gen_participant i t r = r\<lparr>p_id := i\<rparr>"

definition gen_activity :: "string \<Rightarrow> int \<Rightarrow> activity_row \<Rightarrow> activity_row" where
  "gen_activity i t r = r\<lparr>act_id := i, act_created_at := t\<rparr>"

definition gen_wallet :: "string \<Rightarrow> int \<Rightarrow> user_wallet \<Rightarrow> user_wallet" where
  "gen_wallet i t r = r\<lparr>uw_id := i, uw_created_at := t, uw_updated_at := t\<rparr>"

definition gen_user :: "string \<Rightarrow> int \<Rightarrow> auth_user \<Rightarrow> auth_user" where
  "gen_user i t r = r\<lparr>au_id := i\<rparr>"

definition gen_profile :: "string \<Rightarrow> int \<Rightarrow> profile \<Rightarrow> profile" where
  "gen_profile i t r = r\<lparr>pr_id := i, pr_created_at := t, pr_updated_at := t\<rparr>"

definition gen_dispute :: "string \<Rightarrow> int \<Rightarrow> dispute \<Rightarrow> dispute" where
  "gen_dispute i t r = r\<lparr>dp_id := i, dp_created_at := t, dp_updated_at := t\<rparr>"

definition gen_resolution :: "string \<Rightarrow> int \<Rightarrow> resolution \<Rightarrow> resolution" where
  "gen_resolution i t r = r\<lparr>rs_id := i, rs_created_at := t\<rparr>"

definition gen_job :: "string \<Rightarrow> int \<Rightarrow> retry_job \<Rightarrow> retry_job" where
  "gen_job i t r = r\<lparr>rj_id := i, rj_created_at := t, rj_updated_at := t\<rparr>"

definition gen_opportunity :: "string \<Rightarrow> int \<Rightarrow> opportunity \<Rightarrow> opportunity" where
  "gen_opportunity i t r = r\<lparr>op_id := i, op_created_at := t\<rparr>"

definition gen_application :: "string \<Rightarrow> int \<Rightarrow> application \<Rightarrow> application" where
  "gen_application i t r = r\<lparr>ap_id := i, ap_status := ''pending'', ap_created_at := t\<rparr>"

definition gen_verification :: "string \<Rightarrow> int \<Rightarrow> verification \<Rightarrow> verification" where
  "gen_verification i t r = r\<lparr>vr_id := i, vr_created_at := t, vr_updated_at := Some (iso_string t)\<rparr>"

definition gen_kyb :: "string \<Rightarrow> int \<Rightarrow> kyb_verification \<Rightarrow> kyb_verification" where
  "gen_kyb i t r = r\<lparr>kb_id := i, kb_created_at := t, kb_updated_at := t\<rparr>"

definition gen_notification :: "string \<Rightarrow> int \<Rightarrow> notification_log \<Rightarrow> notification_log" where
  "gen_notification i t r = r\<lparr>nl_id := i, nl_created_at := t\<rparr>"

definition gen_contact :: "string \<Rightarrow> int \<Rightarrow> contact \<Rightarrow> contact" where
  "gen_contact i t r = r\<lparr>co_id := i\<rparr>"

text \<open>The service chooses the key of a file itself; attachments have no key of their own.\<close>

definition gen_file :: "string \<Rightarrow> int \<Rightarrow> stored_file \<Rightarrow> stored_file" where
  "gen_file i t r = r\<lparr>fi_created_at := t\<rparr>"

definition gen_message :: "string \<Rightarrow> int \<Rightarrow> chat_message \<Rightarrow> chat_message" where
  "gen_message i t r = r\<lparr>cm_id := i, cm_created_at := t\<rparr>"

definition gen_attachment :: "string \<Rightarrow> int \<Rightarrow> attachment \<Rightarrow> attachment" where
  "gen_attachment i t r = r"

lemmas gen_defs = gen_notification_def gen_contact_def gen_file_def gen_message_def gen_attachment_def gen_agreement_def gen_participant_def gen_activity_def gen_wallet_def gen_user_def gen_profile_def gen_dispute_def gen_resolution_def gen_job_def gen_opportunity_def gen_application_def gen_verification_def gen_kyb_def

text \<open>
  Deleting an opportunity deletes its applications (\<open>scripts/018\<close>, \<open>ON DELETE CASCADE\<close>). The other deletions of the code are of wallets and
  contacts, to which nothing refers, and of an agreement that was inserted just before, to which nothing refers yet.
\<close>

definition without_opportunities :: "(opportunity \<Rightarrow> bool) \<Rightarrow> tables \<Rightarrow> tables" where
  "without_opportunities P c = c\<lparr>t_opportunities := filter (\<lambda>r. \<not> P r) (t_opportunities c),
     t_applications := filter (\<lambda>a. \<not> list_ex (\<lambda>r. P r \<and> op_id r = ap_opportunity_id a) (t_opportunities c)) (t_applications c)\<rparr>"

locale database =
  fixes B :: "'s backend"
    and st :: "'s \<Rightarrow> tables"
  assumes agreements_store: "deleting_store (agreements B) st t_agreements
      (\<lambda>rs. t_agreements_update (\<lambda>_. rs)) gen_agreement (keyed a_id)"
    and participants_store: "table_store (participants B) st t_participants
      (\<lambda>rs. t_participants_update (\<lambda>_. rs)) gen_participant (keyed p_id)"
    and activity_store: "table_store (activity B) st t_activity
      (\<lambda>rs. t_activity_update (\<lambda>_. rs)) gen_activity (keyed act_id)"
    and wallets_store: "deleting_store (wallets B) st t_wallets
      (\<lambda>rs. t_wallets_update (\<lambda>_. rs)) gen_wallet (valid_wallets)"
    and users_store: "table_store (users B) st t_users
      (\<lambda>rs. t_users_update (\<lambda>_. rs)) gen_user (keyed au_id)"
    and profiles_store: "table_store (profiles B) st t_profiles
      (\<lambda>rs. t_profiles_update (\<lambda>_. rs)) gen_profile (valid_profiles)"
    and disputes_store: "table_store (disputes B) st t_disputes
      (\<lambda>rs. t_disputes_update (\<lambda>_. rs)) gen_dispute (keyed dp_id)"
    and resolutions_store: "table_store (resolutions B) st t_resolutions
      (\<lambda>rs. t_resolutions_update (\<lambda>_. rs)) gen_resolution (keyed rs_id)"
    and jobs_store: "table_store (jobs B) st t_jobs
      (\<lambda>rs. t_jobs_update (\<lambda>_. rs)) gen_job (valid_jobs)"
    and opportunities_store: "table_store (opportunities B) st t_opportunities
      (\<lambda>rs. t_opportunities_update (\<lambda>_. rs)) gen_opportunity (keyed op_id)"
    and opportunities_delete_law: "delete_rows (opportunities B) P s = (failed, s') \<Longrightarrow>
      (failed = None \<longrightarrow> st s' = without_opportunities P (st s)) \<and> (failed \<noteq> None \<longrightarrow> st s' = st s)"
    and applications_store: "table_store (applications B) st t_applications
      (\<lambda>rs. t_applications_update (\<lambda>_. rs)) gen_application (valid_applications)"
    and verifications_store: "table_store (verifications B) st t_verifications
      (\<lambda>rs. t_verifications_update (\<lambda>_. rs)) gen_verification (valid_verifications)"
    and kyb_store: "table_store (kyb B) st t_kyb
      (\<lambda>rs. t_kyb_update (\<lambda>_. rs)) gen_kyb (valid_kyb)"
    and notifications_store: "table_store (notifications B) st t_notifications
      (\<lambda>rs. t_notifications_update (\<lambda>_. rs)) gen_notification (keyed nl_id)"
    and contacts_store: "deleting_store (contacts B) st t_contacts
      (\<lambda>rs. t_contacts_update (\<lambda>_. rs)) gen_contact (keyed co_id)"
    and files_store: "table_store (files B) st t_files
      (\<lambda>rs. t_files_update (\<lambda>_. rs)) gen_file (valid_files)"
    and messages_store: "table_store (messages B) st t_messages
      (\<lambda>rs. t_messages_update (\<lambda>_. rs)) gen_message (keyed cm_id)"
    and attachments_store: "table_store (attachments B) st t_attachments
      (\<lambda>rs. t_attachments_update (\<lambda>_. rs)) gen_attachment (valid_attachments)"
    and now_law: "now B s = (t, s') \<Longrightarrow> st s' = st s"
    and fetch_law: "fetch B rq s = (answer, s') \<Longrightarrow> st s' = st s"
    and mail_law: "mail B m s = (reaction, s') \<Longrightarrow> st s' = st s"
    and random_law: "random_id B s = (i, s') \<Longrightarrow> st s' = st s"
    and put_law: "put_object B path s = (e, s') \<Longrightarrow> st s' = st s"
    and drop_law: "drop_object B path s = (d, s') \<Longrightarrow> st s' = st s"
    and sign_law: "sign_object B path s = (u, s') \<Longrightarrow> st s' = st s"
begin

lemma wp_fetch:
  assumes "\<And>a s'. st s' = st (svc w) \<Longrightarrow>
    Q (Inr a) (w\<lparr>svc := s', sent := sent w @ [(rq, a)]\<rparr>)"
  shows "wp (send B rq) Q w"
  using assms fetch_law by (auto simp: wp_def send_def split: prod.splits)

lemma wp_now:
  assumes "\<And>t s'. st s' = st (svc w) \<Longrightarrow> Q (Inr t) (w\<lparr>svc := s'\<rparr>)"
  shows "wp (call (now B)) Q w"
  using assms now_law by (auto simp: wp_call split: prod.splits)

lemma wp_send_email:
  assumes "\<And>a s'. st s' = st (svc w) \<Longrightarrow> Q (Inr a) (w\<lparr>svc := s', mailed := mailed w @ [(m, a)]\<rparr>)"
  shows "wp (send_email B m) Q w"
  using assms mail_law by (auto simp: wp_def send_email_def split: prod.splits)

lemma wp_random_id:
  assumes "\<And>i s'. st s' = st (svc w) \<Longrightarrow> Q (Inr i) (w\<lparr>svc := s'\<rparr>)"
  shows "wp (call (random_id B)) Q w"
  using assms random_law by (auto simp: wp_call split: prod.splits)

lemma wp_upload_object:
  assumes "\<And>e s'. st s' = st (svc w) \<Longrightarrow> Q (Inr (Some e)) (w\<lparr>svc := s', stored := stored w\<rparr>)"
    and "\<And>s'. st s' = st (svc w) \<Longrightarrow> Q (Inr None) (w\<lparr>svc := s', stored := stored w @ [path]\<rparr>)"
  shows "wp (upload_object B path) Q w"
proof -
  obtain e s' where c: "put_object B path (svc w) = (e, s')" by (metis prod.collapse)
  then show ?thesis using assms put_law [OF c] by (cases e) (simp_all add: wp_def upload_object_def)
qed

lemma wp_remove_object:
  assumes "\<And>s'. st s' = st (svc w) \<Longrightarrow> Q (Inr ()) (w\<lparr>svc := s', stored := stored w\<rparr>)"
    and "\<And>s'. st s' = st (svc w) \<Longrightarrow> Q (Inr ()) (w\<lparr>svc := s', stored := filter (\<lambda>p. p \<noteq> path) (stored w)\<rparr>)"
  shows "wp (remove_object B path) Q w"
proof -
  obtain d s' where c: "drop_object B path (svc w) = (d, s')" by (metis prod.collapse)
  then show ?thesis using assms drop_law [OF c] by (cases d) (simp_all add: wp_def remove_object_def)
qed

lemma wp_sign_object:
  assumes "\<And>u s'. st s' = st (svc w) \<Longrightarrow> Q (Inr u) (w\<lparr>svc := s'\<rparr>)"
  shows "wp (call (sign_object B path)) Q w"
  using assms sign_law by (auto simp: wp_call split: prod.splits)

lemmas agreements_wp = table_store.wp_calls [OF deleting_store.axioms(1) [OF agreements_store]] deleting_store.wp_delete_rows [OF agreements_store]
lemmas participants_wp = table_store.wp_calls [OF participants_store]
lemmas activity_wp = table_store.wp_calls [OF activity_store]
lemmas wallets_wp = table_store.wp_calls [OF deleting_store.axioms(1) [OF wallets_store]] deleting_store.wp_delete_rows [OF wallets_store]
lemmas users_wp = table_store.wp_calls [OF users_store]
lemmas profiles_wp = table_store.wp_calls [OF profiles_store]
lemmas disputes_wp = table_store.wp_calls [OF disputes_store]
lemmas resolutions_wp = table_store.wp_calls [OF resolutions_store]
lemmas jobs_wp = table_store.wp_calls [OF jobs_store]
lemmas opportunities_wp = table_store.wp_calls [OF opportunities_store]
lemma wp_delete_opportunities:
  assumes "\<And>e s'. st s' = st (svc w) \<Longrightarrow> Q (Inr (Some e)) (w\<lparr>svc := s'\<rparr>)"
    and "\<And>s'. st s' = without_opportunities P (st (svc w)) \<Longrightarrow> Q (Inr None) (w\<lparr>svc := s'\<rparr>)"
  shows "wp (call (delete_rows (opportunities B) P)) Q w"
proof -
  obtain e s' where c: "delete_rows (opportunities B) P (svc w) = (e, s')" by (metis prod.collapse)
  have "Q (Inr e) (w\<lparr>svc := s'\<rparr>)"
    using opportunities_delete_law [OF c] assms by (cases e) auto
  then show ?thesis by (simp add: wp_call c)
qed

lemmas applications_wp = table_store.wp_calls [OF applications_store]
lemmas verifications_wp = table_store.wp_calls [OF verifications_store]
lemmas kyb_wp = table_store.wp_calls [OF kyb_store]
lemmas notifications_wp = table_store.wp_calls [OF notifications_store]
lemmas contacts_wp = table_store.wp_calls [OF deleting_store.axioms(1) [OF contacts_store]] deleting_store.wp_delete_rows [OF contacts_store]
lemmas files_wp = table_store.wp_calls [OF files_store]
lemmas messages_wp = table_store.wp_calls [OF messages_store]
lemmas attachments_wp = table_store.wp_calls [OF attachments_store]

lemmas db_wp = wp_now wp_fetch agreements_wp participants_wp activity_wp wallets_wp users_wp profiles_wp disputes_wp resolutions_wp jobs_wp opportunities_wp applications_wp verifications_wp kyb_wp
  notifications_wp contacts_wp files_wp messages_wp attachments_wp
  wp_send_email wp_random_id wp_upload_object wp_remove_object wp_sign_object

end

subsection \<open>A backend in memory\<close>

text \<open>
  Its calls are numbered. Call number \<open>n\<close> fails with \<open>fault n\<close> when that is an error; a clock
  reading takes \<open>clock n\<close>; an inserted row gets the key \<open>fresh n\<close>; an HTTP request is answered by
  \<open>reply n\<close>, a mail by \<open>receipt n\<close>. All are arbitrary, and so are the environment variables \<open>mem_vars\<close>, so a
  theorem about this backend covers every schedule of failures.
\<close>

named_theorems mem_run \<open>calls on the backend in memory\<close>

record mem_env =
  fault :: "nat \<Rightarrow> db_error option"
  clock :: "nat \<Rightarrow> int"
  fresh :: "nat \<Rightarrow> string"
  reply :: "nat \<Rightarrow> http_request \<Rightarrow> string + http_response"
  receipt :: "nat \<Rightarrow> email \<Rightarrow> string + string option"

record mem =
  tabs :: tables
  ticks :: nat
  env :: mem_env

definition tick :: "mem \<Rightarrow> mem" where
  "tick m = m\<lparr>ticks := Suc (ticks m)\<rparr>"

definition db_error_of :: "string \<Rightarrow> string \<Rightarrow> db_error" where
  "db_error_of c m = \<lparr>e_code = c, e_message = m\<rparr>"

definition not_one :: db_error where
  "not_one = db_error_of ''PGRST116'' ''The result contains no row or more than one''"

definition unique_violation :: db_error where
  "unique_violation = db_error_of ''23505'' ''duplicate key value violates unique constraint''"

text \<open>A call: either the scheduled fault, or a function of the tables that may change them.\<close>

definition mem_call :: "(db_error \<Rightarrow> 'a) \<Rightarrow> (tables \<Rightarrow> 'a \<times> tables) \<Rightarrow> mem \<Rightarrow> 'a \<times> mem" where
  "mem_call failed f m = (case fault (env m) (ticks m) of
     Some e \<Rightarrow> (failed e, tick m)
   | None \<Rightarrow> (case f (tabs m) of (x, ts) \<Rightarrow> (x, tick (m\<lparr>tabs := ts\<rparr>))))"

definition mem_write :: "(tables \<Rightarrow> 'r list) \<Rightarrow> ('r list \<Rightarrow> tables \<Rightarrow> tables) \<Rightarrow> ('r list \<Rightarrow> bool) \<Rightarrow>
    (db_error \<Rightarrow> 'a) \<Rightarrow> 'a \<Rightarrow> 'r list \<Rightarrow> tables \<Rightarrow> 'a \<times> tables" where
  "mem_write get put valid failed x rs ts =
     (if valid rs then (x, put rs ts) else (failed unique_violation, ts))"

definition failed_data :: "db_error \<Rightarrow> 'a option \<times> db_error option" where
  "failed_data e = (None, Some e)"

definition mem_gen :: "mem \<Rightarrow> (string \<Rightarrow> int \<Rightarrow> 'r \<Rightarrow> 'r) \<Rightarrow> nat \<Rightarrow> 'r \<Rightarrow> 'r" where
  "mem_gen m gen k r = gen (fresh (env m) (ticks m + k)) (clock (env m) (ticks m)) r"

fun mem_gens :: "mem \<Rightarrow> (string \<Rightarrow> int \<Rightarrow> 'r \<Rightarrow> 'r) \<Rightarrow> nat \<Rightarrow> 'r list \<Rightarrow> 'r list" where
  "mem_gens m gen k [] = []"
| "mem_gens m gen k (r # rs) = mem_gen m gen k r # mem_gens m gen (Suc k) rs"

definition mem_table :: "(tables \<Rightarrow> 'r list) \<Rightarrow> ('r list \<Rightarrow> tables \<Rightarrow> tables) \<Rightarrow>
    (string \<Rightarrow> int \<Rightarrow> 'r \<Rightarrow> 'r) \<Rightarrow> ('r list \<Rightarrow> bool) \<Rightarrow> (mem, 'r) table" where
  "mem_table get put gen valid = \<lparr>
     select_rows = (\<lambda>P k. mem_call failed_data (\<lambda>ts. ((Some (k (filter P (get ts))), None), ts))),
     select_one = (\<lambda>P. mem_call failed_data (\<lambda>ts. (case filter P (get ts) of
       [] \<Rightarrow> (None, None) | [r] \<Rightarrow> (Some r, None) | _ \<Rightarrow> failed_data not_one, ts))),
     select_single = (\<lambda>P. mem_call failed_data (\<lambda>ts. (case filter P (get ts) of
       [r] \<Rightarrow> (Some r, None) | _ \<Rightarrow> failed_data not_one, ts))),
     count_rows = (\<lambda>P. mem_call failed_data (\<lambda>ts. ((Some (length (filter P (get ts))), None), ts))),
     insert_row = (\<lambda>r m. mem_call failed_data (\<lambda>ts. let q = mem_gen m gen 0 r in
       mem_write get put valid failed_data (Some q, None) (get ts @ [q]) ts) m),
     insert_rows = (\<lambda>rs m. mem_call Some (\<lambda>ts.
       mem_write get put valid Some None (get ts @ mem_gens m gen 0 rs) ts) m),
     update_rows = (\<lambda>P f. mem_call Some (\<lambda>ts.
       mem_write get put valid Some None (update_where P f (get ts)) ts)),
     update_single = (\<lambda>P f. mem_call failed_data (\<lambda>ts. case filter P (get ts) of
       [r] \<Rightarrow> mem_write get put valid failed_data (Some (f r), None) (update_where P f (get ts)) ts
     | _ \<Rightarrow> (failed_data not_one, ts))),
     update_one = (\<lambda>P f. mem_call failed_data (\<lambda>ts. case filter P (get ts) of
       [] \<Rightarrow> mem_write get put valid failed_data (None, None) (update_where P f (get ts)) ts
     | [r] \<Rightarrow> mem_write get put valid failed_data (Some (f r), None) (update_where P f (get ts)) ts
     | _ \<Rightarrow> (failed_data not_one, ts))),
     delete_rows = (\<lambda>P. mem_call Some (\<lambda>ts. (None, put (filter (\<lambda>r. \<not> P r) (get ts)) ts)))\<rparr>"

definition mem_backend :: "(string \<Rightarrow> string option) \<Rightarrow> mem backend" where
  "mem_backend mem_vars = \<lparr>
     agreements = mem_table t_agreements (\<lambda>rs. t_agreements_update (\<lambda>_. rs)) gen_agreement (keyed a_id),
     participants = mem_table t_participants (\<lambda>rs. t_participants_update (\<lambda>_. rs)) gen_participant (keyed p_id),
     activity = mem_table t_activity (\<lambda>rs. t_activity_update (\<lambda>_. rs)) gen_activity (keyed act_id),
     wallets = mem_table t_wallets (\<lambda>rs. t_wallets_update (\<lambda>_. rs)) gen_wallet (valid_wallets),
     users = mem_table t_users (\<lambda>rs. t_users_update (\<lambda>_. rs)) gen_user (keyed au_id),
     profiles = mem_table t_profiles (\<lambda>rs. t_profiles_update (\<lambda>_. rs)) gen_profile (valid_profiles),
     disputes = mem_table t_disputes (\<lambda>rs. t_disputes_update (\<lambda>_. rs)) gen_dispute (keyed dp_id),
     resolutions = mem_table t_resolutions (\<lambda>rs. t_resolutions_update (\<lambda>_. rs)) gen_resolution (keyed rs_id),
     jobs = mem_table t_jobs (\<lambda>rs. t_jobs_update (\<lambda>_. rs)) gen_job (valid_jobs),
     opportunities = (mem_table t_opportunities (\<lambda>rs. t_opportunities_update (\<lambda>_. rs)) gen_opportunity (keyed op_id))
       \<lparr>delete_rows := \<lambda>P. mem_call Some (\<lambda>ts. (None, without_opportunities P ts))\<rparr>,
     applications = mem_table t_applications (\<lambda>rs. t_applications_update (\<lambda>_. rs)) gen_application (valid_applications),
     verifications = mem_table t_verifications (\<lambda>rs. t_verifications_update (\<lambda>_. rs)) gen_verification (valid_verifications),
     kyb = mem_table t_kyb (\<lambda>rs. t_kyb_update (\<lambda>_. rs)) gen_kyb (valid_kyb),
     notifications = mem_table t_notifications (\<lambda>rs. t_notifications_update (\<lambda>_. rs)) gen_notification (keyed nl_id),
     contacts = mem_table t_contacts (\<lambda>rs. t_contacts_update (\<lambda>_. rs)) gen_contact (keyed co_id),
     files = mem_table t_files (\<lambda>rs. t_files_update (\<lambda>_. rs)) gen_file (valid_files),
     messages = mem_table t_messages (\<lambda>rs. t_messages_update (\<lambda>_. rs)) gen_message (keyed cm_id),
     attachments = mem_table t_attachments (\<lambda>rs. t_attachments_update (\<lambda>_. rs)) gen_attachment (valid_attachments),
     now = (\<lambda>m. (clock (env m) (ticks m), tick m)),
     fetch = (\<lambda>rq m. (reply (env m) (ticks m) rq, tick m)),
     mail = (\<lambda>q m. (receipt (env m) (ticks m) q, tick m)),
     random_id = (\<lambda>m. (fresh (env m) (ticks m), tick m)),
     put_object = (\<lambda>path m. (map_option e_message (fault (env m) (ticks m)), tick m)),
     drop_object = (\<lambda>path m. (fault (env m) (ticks m) = None, tick m)),
     sign_object = (\<lambda>path m. (case fault (env m) (ticks m) of
       Some e \<Rightarrow> (None, Some (e_message e)) | None \<Rightarrow> (Some (''https://storage/'' @ path), None), tick m)),
     getenv = mem_vars\<rparr>"

lemma tick_simps [simp]: "tabs (tick m) = tabs m" "env (tick m) = env m"
  by (simp_all add: tick_def)

lemma mem_gens_all2: "list_all2 (\<lambda>r q. \<exists>i t. q = gen i t r) rs (mem_gens m gen k rs)"
  by (induction rs arbitrary: k) (auto simp: mem_gen_def)

text \<open>A table in memory satisfies the laws, whatever lens and constraints it is built from.\<close>

lemma mem_table_store:
  assumes lens: "\<And>rs c. get (put rs c) = rs" "\<And>c. put (get c) c = c" "\<And>rs qs c. put rs (put qs c) = put rs c"
  shows "table_store (mem_table get put gen valid) tabs get put gen valid" (is ?store)
    and "deleting_store (mem_table get put gen valid) tabs get put gen valid"
    and "table_store ((mem_table get put gen valid)\<lparr>delete_rows := f\<rparr>) tabs get put gen valid"
proof -
  show store: ?store
proof (unfold_locales, goal_cases)
  case (7 P s d e s')
  show ?case
  proof (cases "fault (env s) (ticks s)")
    case None
    with 7 show ?thesis
      by (auto simp: mem_table_def mem_call_def mem_write_def failed_data_def Let_def mem_gen_def
          split: if_splits)
  next
    case (Some x)
    with 7 have "e = Some x \<and> d = None \<and> s' = tick s"
      by (simp add: mem_table_def mem_call_def failed_data_def)
    then show ?thesis by simp
  qed
next
  case (8 r s d e s')
  show ?case
  proof (cases "fault (env s) (ticks s)")
    case None
    with 8 show ?thesis
      by (fastforce simp: mem_table_def mem_call_def mem_write_def failed_data_def Let_def mem_gen_def
          split: if_splits)
  next
    case (Some x)
    with 8 have "e = Some x \<and> d = None \<and> s' = tick s"
      by (simp add: mem_table_def mem_call_def failed_data_def)
    then show ?thesis by simp
  qed
next
  case (9 rs s e s')
  then show ?case
    by (auto simp: mem_table_def mem_call_def mem_write_def mem_gens_all2
        intro!: exI [of _ "mem_gens s gen 0 rs"] split: option.splits if_splits)
qed (auto simp: lens mem_table_def mem_call_def mem_write_def failed_data_def
    split: option.splits if_splits list.splits prod.splits)
  then show "table_store ((mem_table get put gen valid)\<lparr>delete_rows := f\<rparr>) tabs get put gen valid"
    by (simp add: table_store_def)
  show "deleting_store (mem_table get put gen valid) tabs get put gen valid"
    by (intro deleting_store.intro store, unfold_locales) (auto simp: mem_table_def mem_call_def split: option.splits)
qed

interpretation mem: database "mem_backend vars" tabs for vars
  by (rule database.intro) (auto simp: mem_backend_def mem_call_def intro!: mem_table_store split: option.splits)

text \<open>What each call on it does, for runs that compute.\<close>

lemma mem_tables [mem_run]:
  "agreements (mem_backend mem_vars) = mem_table t_agreements (\<lambda>rs. t_agreements_update (\<lambda>_. rs)) gen_agreement (keyed a_id)"
  "participants (mem_backend mem_vars) = mem_table t_participants (\<lambda>rs. t_participants_update (\<lambda>_. rs)) gen_participant (keyed p_id)"
  "activity (mem_backend mem_vars) = mem_table t_activity (\<lambda>rs. t_activity_update (\<lambda>_. rs)) gen_activity (keyed act_id)"
  "wallets (mem_backend mem_vars) = mem_table t_wallets (\<lambda>rs. t_wallets_update (\<lambda>_. rs)) gen_wallet (valid_wallets)"
  "users (mem_backend mem_vars) = mem_table t_users (\<lambda>rs. t_users_update (\<lambda>_. rs)) gen_user (keyed au_id)"
  "profiles (mem_backend mem_vars) = mem_table t_profiles (\<lambda>rs. t_profiles_update (\<lambda>_. rs)) gen_profile (valid_profiles)"
  "disputes (mem_backend mem_vars) = mem_table t_disputes (\<lambda>rs. t_disputes_update (\<lambda>_. rs)) gen_dispute (keyed dp_id)"
  "resolutions (mem_backend mem_vars) = mem_table t_resolutions (\<lambda>rs. t_resolutions_update (\<lambda>_. rs)) gen_resolution (keyed rs_id)"
  "jobs (mem_backend mem_vars) = mem_table t_jobs (\<lambda>rs. t_jobs_update (\<lambda>_. rs)) gen_job (valid_jobs)"
  "opportunities (mem_backend mem_vars) = (mem_table t_opportunities (\<lambda>rs. t_opportunities_update (\<lambda>_. rs)) gen_opportunity (keyed op_id))
       \<lparr>delete_rows := \<lambda>P. mem_call Some (\<lambda>ts. (None, without_opportunities P ts))\<rparr>"
  "applications (mem_backend mem_vars) = mem_table t_applications (\<lambda>rs. t_applications_update (\<lambda>_. rs)) gen_application (valid_applications)"
  "verifications (mem_backend mem_vars) = mem_table t_verifications (\<lambda>rs. t_verifications_update (\<lambda>_. rs)) gen_verification (valid_verifications)"
  "kyb (mem_backend mem_vars) = mem_table t_kyb (\<lambda>rs. t_kyb_update (\<lambda>_. rs)) gen_kyb (valid_kyb)"
  "notifications (mem_backend mem_vars) = mem_table t_notifications (\<lambda>rs. t_notifications_update (\<lambda>_. rs)) gen_notification (keyed nl_id)"
  "contacts (mem_backend mem_vars) = mem_table t_contacts (\<lambda>rs. t_contacts_update (\<lambda>_. rs)) gen_contact (keyed co_id)"
  "files (mem_backend mem_vars) = mem_table t_files (\<lambda>rs. t_files_update (\<lambda>_. rs)) gen_file (valid_files)"
  "messages (mem_backend mem_vars) = mem_table t_messages (\<lambda>rs. t_messages_update (\<lambda>_. rs)) gen_message (keyed cm_id)"
  "attachments (mem_backend mem_vars) = mem_table t_attachments (\<lambda>rs. t_attachments_update (\<lambda>_. rs)) gen_attachment (valid_attachments)"
  "mail (mem_backend mem_vars) = (\<lambda>q m. (receipt (env m) (ticks m) q, tick m))"
  "random_id (mem_backend mem_vars) = (\<lambda>m. (fresh (env m) (ticks m), tick m))"
  "put_object (mem_backend mem_vars) = (\<lambda>path m. (map_option e_message (fault (env m) (ticks m)), tick m))"
  "drop_object (mem_backend mem_vars) = (\<lambda>path m. (fault (env m) (ticks m) = None, tick m))"
  "sign_object (mem_backend mem_vars) = (\<lambda>path m. (case fault (env m) (ticks m) of
       Some e \<Rightarrow> (None, Some (e_message e)) | None \<Rightarrow> (Some (''https://storage/'' @ path), None), tick m))"
  "now (mem_backend mem_vars) = (\<lambda>m. (clock (env m) (ticks m), tick m))"
  "fetch (mem_backend mem_vars) = (\<lambda>rq m. (reply (env m) (ticks m) rq, tick m))"
  "getenv (mem_backend mem_vars) = mem_vars"
  by (simp_all add: mem_backend_def)

lemma mem_calls [mem_run]:
  "select_rows (mem_table get put gen valid) = (\<lambda>P k. mem_call failed_data (\<lambda>ts. ((Some (k (filter P (get ts))), None), ts)))"
  "select_one (mem_table get put gen valid) = (\<lambda>P. mem_call failed_data (\<lambda>ts. (case filter P (get ts) of [] \<Rightarrow> (None, None) | [r] \<Rightarrow> (Some r, None) | _ \<Rightarrow> failed_data not_one, ts)))"
  "select_single (mem_table get put gen valid) = (\<lambda>P. mem_call failed_data (\<lambda>ts. (case filter P (get ts) of [r] \<Rightarrow> (Some r, None) | _ \<Rightarrow> failed_data not_one, ts)))"
  "count_rows (mem_table get put gen valid) = (\<lambda>P. mem_call failed_data (\<lambda>ts. ((Some (length (filter P (get ts))), None), ts)))"
  "insert_row (mem_table get put gen valid) = (\<lambda>r m. mem_call failed_data (\<lambda>ts. let q = mem_gen m gen 0 r in mem_write get put valid failed_data (Some q, None) (get ts @ [q]) ts) m)"
  "insert_rows (mem_table get put gen valid) = (\<lambda>rs m. mem_call Some (\<lambda>ts. mem_write get put valid Some None (get ts @ mem_gens m gen 0 rs) ts) m)"
  "update_rows (mem_table get put gen valid) = (\<lambda>P f. mem_call Some (\<lambda>ts. mem_write get put valid Some None (update_where P f (get ts)) ts))"
  "update_single (mem_table get put gen valid) = (\<lambda>P f. mem_call failed_data (\<lambda>ts. case filter P (get ts) of [r] \<Rightarrow> mem_write get put valid failed_data (Some (f r), None) (update_where P f (get ts)) ts | _ \<Rightarrow> (failed_data not_one, ts)))"
  "update_one (mem_table get put gen valid) = (\<lambda>P f. mem_call failed_data (\<lambda>ts. case filter P (get ts) of [] \<Rightarrow> mem_write get put valid failed_data (None, None) (update_where P f (get ts)) ts | [r] \<Rightarrow> mem_write get put valid failed_data (Some (f r), None) (update_where P f (get ts)) ts | _ \<Rightarrow> (failed_data not_one, ts)))"
  "delete_rows (mem_table get put gen valid) = (\<lambda>P. mem_call Some (\<lambda>ts. (None, put (filter (\<lambda>r. \<not> P r) (get ts)) ts)))"
  by (simp_all add: mem_table_def)

lemmas mem_run_defs = mem_call_def mem_write_def mem_gen_def failed_data_def tick_def

text \<open>An empty database and a world that starts on it, for concrete runs.\<close>

definition no_tables :: tables where
  "no_tables = \<lparr>t_agreements = [], t_participants = [], t_activity = [], t_wallets = [], t_users = [],
     t_profiles = [], t_disputes = [], t_resolutions = [], t_jobs = [], t_opportunities = [],
     t_applications = [], t_verifications = [], t_kyb = [], t_notifications = [], t_contacts = [], t_files = [],
     t_messages = [], t_attachments = []\<rparr>"

definition quiet_env :: mem_env where
  "quiet_env = \<lparr>fault = (\<lambda>_. None), clock = (\<lambda>n. 1000 + int n), fresh = (\<lambda>n. ''id-'' @ nat_str n),
     reply = (\<lambda>_ _. Inl ''fetch failed''), receipt = (\<lambda>_ _. Inr None)\<rparr>"

definition world_on :: "tables \<Rightarrow> mem_env \<Rightarrow> mem world" where
  "world_on ts e = \<lparr>svc = \<lparr>tabs = ts, ticks = 0, env = e\<rparr>, emitted = [], spawned = [], sent = [], mailed = [], stored = []\<rparr>"

end
