(* ===== verification/Access.thy ===== *)
theory Access
  imports Backend Lifecycle
begin

text \<open>
  Who may act on an agreement: \<open>common/wallets/resolve-user-wallets.ts\<close> and the two assertions of
  \<open>AgreementsService\<close> built on it, and the shared writer of the activity log,
  \<open>agreements/agreement-activity.service.ts\<close>. The lemmas are weakest-precondition rules for
  these operations over any database that keeps its laws: they change no table but the log,
  and a check that passes proves access in terms of the tables.
\<close>

section \<open>\<open>resolve-user-wallets.ts\<close>\<close>

text \<open>The primary wallet first; the database leaves the order of the others open.\<close>

definition primary_first :: "user_wallet list \<Rightarrow> user_wallet list" where
  "primary_first rs = filter uw_primary rs @ filter (\<lambda>r. \<not> uw_primary r) rs"

definition resolveUserWallets :: "'s backend \<Rightarrow> string \<Rightarrow> ('s world, string list) prog" where
  "resolveUserWallets B userId =
     bnd (call (select_rows (wallets B) (\<lambda>r. uw_user_id r = userId) primary_first)) (\<lambda>(linked, _).
     bnd (call (select_one (users B) (\<lambda>u. au_id u = userId))) (\<lambda>(legacy, _).
     let legacyWallet = (case legacy of None \<Rightarrow> None | Some u \<Rightarrow> au_wallet u)
     in ret (uniq (filter (\<lambda>a. a \<noteq> []) (map uw_address (default linked []) @ [or_else legacyWallet []])))))"

definition userOwnsWallet :: "'s backend \<Rightarrow> string \<Rightarrow> string \<Rightarrow> ('s world, bool) prog" where
  "userOwnsWallet B userId wallet =
     bnd (resolveUserWallets B userId) (\<lambda>ws. ret (js_includes ws wallet))"

definition userCanAccessAgreement ::
    "'s backend \<Rightarrow> string \<Rightarrow> string \<Rightarrow> string \<Rightarrow> ('s world, bool) prog" where
  "userCanAccessAgreement B userId agreementId createdBy =
     bnd (resolveUserWallets B userId) (\<lambda>ws.
     if length ws = 0 then ret False
     else if createdBy = userId \<or> js_includes ws createdBy then ret True
     else bnd (call (select_rows (participants B)
              (\<lambda>p. p_agreement_id p = agreementId \<and> p_wallet p \<in> set ws) (take 1))) (\<lambda>(parts, _).
          ret (length (default parts []) \<noteq> 0)))"

section \<open>The assertions of \<open>AgreementsService\<close>\<close>

definition assertActorWallet :: "'s backend \<Rightarrow> string \<Rightarrow> string \<Rightarrow> ('s world, unit) prog" where
  "assertActorWallet B userId actorWallet =
     bnd (resolveUserWallets B userId) (\<lambda>ws.
     bnd (require (length ws \<noteq> 0) (Forbidden ''No hay wallet asociada a este usuario (ni en user_wallets ni en auth_users.wallet_public_key). Revisa Supabase y que Nest use el mismo proyecto (SUPABASE_URL).'')) (\<lambda>_.
     require (js_includes ws actorWallet) (Forbidden ''created_by debe ser una de las wallets vinculadas al usuario del JWT (misma cadena G...).'')))"

definition assertCanAccessAgreement :: "'s backend \<Rightarrow> string \<Rightarrow> string \<Rightarrow> ('s world, unit) prog" where
  "assertCanAccessAgreement B userId agreementId =
     bnd (call (select_one (agreements B) (\<lambda>a. a_id a = agreementId))) (\<lambda>(agreement, aErr).
     case (aErr, agreement) of
       (None, Some a) \<Rightarrow>
         bnd (userCanAccessAgreement B userId agreementId (a_created_by a)) (\<lambda>allowed.
         require allowed (Forbidden ''Not a participant of this agreement''))
     | _ \<Rightarrow> throw (NotFound ''Agreement not found''))"

section \<open>\<open>agreement-activity.service.ts\<close>\<close>

text \<open>The row to insert; the database adds its key and time.\<close>

definition activity_entry ::
    "string \<Rightarrow> string \<Rightarrow> string \<Rightarrow> json \<Rightarrow> string option \<Rightarrow> string option \<Rightarrow> activity_row" where
  "activity_entry agreementId actorWallet action details previousState newState =
     \<lparr>act_id = [], act_agreement_id = agreementId, act_actor = actorWallet, act_action = action,
      act_details = details, act_previous = previousState, act_new = newState, act_created_at = 0\<rparr>"

text \<open>A failed insert is logged and forgotten.\<close>

definition logActivity ::
    "'s backend \<Rightarrow> string \<Rightarrow> string \<Rightarrow> string \<Rightarrow> json \<Rightarrow> string option \<Rightarrow> string option \<Rightarrow> ('s world, unit) prog" where
  "logActivity B agreementId actorWallet action details previousState newState =
     bnd (call (insert_rows (activity B)
       [activity_entry agreementId actorWallet action details previousState newState])) (\<lambda>error. ret ())"

section \<open>What a passed check proves\<close>

definition owns :: "tables \<Rightarrow> string \<Rightarrow> string \<Rightarrow> bool" where
  "owns ts userId w \<longleftrightarrow> w \<noteq> [] \<and>
     ((\<exists>r \<in> set (t_wallets ts). uw_user_id r = userId \<and> uw_address r = w) \<or>
      (\<exists>u \<in> set (t_users ts). au_id u = userId \<and> au_wallet u = Some w))"

definition may_access :: "tables \<Rightarrow> string \<Rightarrow> string \<Rightarrow> bool" where
  "may_access ts userId agreementId \<longleftrightarrow>
     (\<exists>w. owns ts userId w) \<and>
     (\<exists>a \<in> set (t_agreements ts). a_id a = agreementId \<and>
       (a_created_by a = userId \<or> owns ts userId (a_created_by a) \<or>
        (\<exists>p \<in> set (t_participants ts). p_agreement_id p = agreementId \<and> owns ts userId (p_wallet p))))"

text \<open>Everything but the activity log.\<close>

definition same_but_log :: "tables \<Rightarrow> tables \<Rightarrow> bool" where
  "same_but_log a b \<longleftrightarrow> a\<lparr>t_activity := t_activity b\<rparr> = b"

lemma same_but_log_refl [simp]: "same_but_log a a"
  by (simp add: same_but_log_def)

lemma same_but_log_trans: "same_but_log a b \<Longrightarrow> same_but_log b c \<Longrightarrow> same_but_log a c"
  by (metis same_but_log_def tables.surjective tables.update_convs(3))

lemma owns_wallet: "r \<in> set (t_wallets ts) \<Longrightarrow> uw_address r \<noteq> [] \<Longrightarrow> owns ts (uw_user_id r) (uw_address r)"
  by (auto simp: owns_def)

lemma owns_legacy: "u \<in> set (t_users ts) \<Longrightarrow> au_wallet u = Some a \<Longrightarrow> a \<noteq> [] \<Longrightarrow> owns ts (au_id u) a"
  by (auto simp: owns_def)

lemma may_access_creator:
  "a \<in> set (t_agreements ts) \<Longrightarrow> owns ts userId w \<Longrightarrow> a_created_by a = userId \<or> owns ts userId (a_created_by a) \<Longrightarrow>
     may_access ts userId (a_id a)"
  by (auto simp: may_access_def)

lemma may_access_participant:
  "a \<in> set (t_agreements ts) \<Longrightarrow> p \<in> set (t_participants ts) \<Longrightarrow> p_agreement_id p = a_id a \<Longrightarrow>
     owns ts userId (p_wallet p) \<Longrightarrow> may_access ts userId (a_id a)"
  by (auto simp: may_access_def)

lemma take_filter_nonempty: "take 1 (filter P xs) \<noteq> [] \<Longrightarrow> \<exists>x \<in> set xs. P x"
  by (auto simp: filter_empty_conv)

context database
begin

lemma wp_resolveUserWallets:
  assumes "\<And>ws s'. st s' = st (svc w) \<Longrightarrow> (\<And>a. a \<in> set ws \<Longrightarrow> owns (st (svc w)) userId a) \<Longrightarrow>
    Q (Inr ws) (w\<lparr>svc := s'\<rparr>)"
  shows "wp (resolveUserWallets B userId) Q w"
  unfolding resolveUserWallets_def
  by (auto simp: wp_simps Let_def primary_first_def or_else_def split: option.splits if_splits
      intro!: wallets_wp users_wp assms) (metis owns_wallet owns_legacy)+

lemma wp_userCanAccessAgreement:
  assumes "\<And>ok s'. st s' = st (svc w) \<Longrightarrow>
    (\<And>a. ok \<Longrightarrow> a \<in> set (t_agreements (st (svc w))) \<Longrightarrow> a_id a = aid \<Longrightarrow> a_created_by a = creator \<Longrightarrow>
      may_access (st (svc w)) userId aid) \<Longrightarrow> Q (Inr ok) (w\<lparr>svc := s'\<rparr>)"
  shows "wp (userCanAccessAgreement B userId aid creator) Q w"
  unfolding userCanAccessAgreement_def wp_bnd
proof (rule wp_resolveUserWallets)
  fix ws s' assume s': "st s' = st (svc w)" and ws: "\<And>a. a \<in> set ws \<Longrightarrow> owns (st (svc w)) userId a"
  have some: "\<exists>w'. owns (st (svc w)) userId w'" if "ws \<noteq> []" using that ws by (meson list.set_sel(1))
  have part: "may_access (st (svc w)) userId (a_id a)"
    if "take 1 (filter (\<lambda>p. p_agreement_id p = a_id a \<and> p_wallet p \<in> set ws) (t_participants (st (svc w)))) \<noteq> []"
      "a \<in> set (t_agreements (st (svc w)))" for a
    using take_filter_nonempty [OF that(1)] that(2) ws by (auto intro: may_access_participant)
  show "case Inr ws of Inl e \<Rightarrow> Q (Inl e) (w\<lparr>svc := s'\<rparr>)
    | Inr x \<Rightarrow> wp (if length x = 0 then ret False
        else if creator = userId \<or> js_includes x creator then ret True
        else bnd (call (select_rows (participants B)
              (\<lambda>p. p_agreement_id p = aid \<and> p_wallet p \<in> set x) (take 1))) (\<lambda>(parts, uu).
          ret (length (default parts []) \<noteq> 0))) Q (w\<lparr>svc := s'\<rparr>)"
    using s' some ws part
    by (auto simp: wp_simps intro!: participants_wp assms intro: may_access_creator split: if_splits)
qed

lemma wp_assertActorWallet:
  assumes "\<And>s'. st s' = st (svc w) \<Longrightarrow> owns (st (svc w)) userId wallet \<Longrightarrow> Q (Inr ()) (w\<lparr>svc := s'\<rparr>)"
    and "\<And>s' e. st s' = st (svc w) \<Longrightarrow> Q (Inl (Forbidden e)) (w\<lparr>svc := s'\<rparr>)"
  shows "wp (assertActorWallet B userId wallet) Q w"
  unfolding assertActorWallet_def
  by (auto simp: wp_simps intro!: wp_resolveUserWallets assms)

lemma wp_assertCanAccessAgreement:
  assumes "\<And>s'. st s' = st (svc w) \<Longrightarrow> may_access (st (svc w)) userId aid \<Longrightarrow> Q (Inr ()) (w\<lparr>svc := s'\<rparr>)"
    and "\<And>s' e. st s' = st (svc w) \<Longrightarrow> http_status e \<in> {403, 404} \<Longrightarrow> Q (Inl e) (w\<lparr>svc := s'\<rparr>)"
  shows "wp (assertCanAccessAgreement B userId aid) Q w"
  unfolding assertCanAccessAgreement_def
  by (auto simp: wp_simps intro!: agreements_wp wp_userCanAccessAgreement assms)

lemma wp_logActivity:
  assumes "\<And>s'. same_but_log (st (svc w)) (st s') \<Longrightarrow> Q (Inr ()) (w\<lparr>svc := s'\<rparr>)"
  shows "wp (logActivity B aid actor action details prev next) Q w"
  unfolding logActivity_def
  by (auto simp: wp_simps same_but_log_def intro!: activity_wp assms)

lemmas access_wp = wp_assertActorWallet wp_assertCanAccessAgreement wp_logActivity

end

end
