(* ===== verification/Validator.thy ===== *)
theory Validator
  imports JsNumber Lifecycle
begin

text \<open>
  The structural checks of an agreement, \<open>agreements/agreement.validator.ts\<close>, with amounts as the
  strings the API carries and sums in cents computed in doubles. The main property: on amounts
  with at most two decimals the cent arithmetic is exact, so an accepted agreement's milestones
  add up to its amount.
\<close>

section \<open>The code\<close>

record participant_input =
  pi_wallet :: string
  pi_role :: "string option"

record agreement_input =
  in_title :: string
  in_description :: "string option"
  in_amount :: string
  in_asset :: "string option"
  in_type :: "string option"
  in_milestones :: "milestone list option"
  in_participants :: "participant_input list"

text \<open>\<open>Number(s)\<close> and \<open>parseFloat(s)\<close> on a string the amount pattern accepts.\<close>

definition amount_num :: "string \<Rightarrow> jsnum" where
  "amount_num s = (case decimal_parts s of None \<Rightarrow> NaN | Some p \<Rightarrow> of_exact (decimal_value p))"

definition isValidPositiveNumeric :: "string \<Rightarrow> bool" where
  "isValidPositiveNumeric s =
     (if decimal_parts s = None then False else js_less (Fin 0) (amount_num s))"

definition toCents :: "string \<Rightarrow> jsnum" where
  "toCents s = js_round (js_mult (amount_num s) (Fin 100))"

definition milestone_sum_cents :: "milestone list \<Rightarrow> jsnum" where
  "milestone_sum_cents ms = foldl (\<lambda>sum m. js_add sum (toCents (default (ms_amount m) []))) (Fin 0) ms"

definition indexed :: "string \<Rightarrow> nat \<Rightarrow> string \<Rightarrow> string" where
  "indexed arr i field = arr @ ''['' @ nat_str i @ '']'' @ field"

definition sum_mismatch :: "string \<Rightarrow> milestone list \<Rightarrow> detail list" where
  "sum_mismatch amount ms =
     (let totalCents = toCents amount; milestoneSumCents = milestone_sum_cents ms
      in if \<not> js_eq totalCents milestoneSumCents then
           [mk_detail ''milestones'' ''MILESTONE_SUM_MISMATCH''
             (''Sum of milestone amounts ('' @ to_fixed 2 (js_div_by milestoneSumCents 100) @
              '') does not equal total amount ('' @ to_fixed 2 (js_div_by totalCents 100) @ '')'')]
         else [])"

definition milestone_errors :: "nat \<Rightarrow> milestone \<Rightarrow> detail list" where
  "milestone_errors i m =
     (if trim (default (ms_description m) []) = [] then
        [mk_detail (indexed ''milestones'' i ''.description'') ''REQUIRED''
          ''Milestone description must be non-empty'']
      else []) @
     (case ms_amount m of
        None \<Rightarrow> [mk_detail (indexed ''milestones'' i ''.amount'') ''REQUIRED''
          ''Milestone amount is required'']
      | Some a \<Rightarrow> if \<not> isValidPositiveNumeric a then
          [mk_detail (indexed ''milestones'' i ''.amount'') ''INVALID_AMOUNT''
            ''Milestone amount must be a positive numeric string'']
        else [])"

definition header_errors :: "agreement_input \<Rightarrow> detail list" where
  "header_errors inp =
     (if trim (in_title inp) = []
      then [mk_detail ''title'' ''REQUIRED'' ''Title is required and must be non-empty''] else []) @
     (case in_description inp of
        None \<Rightarrow> []
      | Some d \<Rightarrow> if trim d = []
          then [mk_detail ''description'' ''INVALID'' ''Description must be non-empty if provided''] else []) @
     (if \<not> isValidPositiveNumeric (in_amount inp)
      then [mk_detail ''amount'' ''INVALID_AMOUNT'' ''Amount must be a positive numeric string''] else []) @
     (if default (in_asset inp) ''USDC'' \<noteq> ''USDC''
      then [mk_detail ''asset'' ''INVALID_ASSET'' ''Only USDC is supported''] else [])"

definition type_errors :: "nat \<Rightarrow> string option \<Rightarrow> detail list" where
  "type_errors n ty =
     (if n > 1 then
        (if ty \<noteq> Some ''multi'' then
           [mk_detail ''agreement_type'' ''INVALID_AGREEMENT_TYPE''
             ''Agreement with multiple milestones must have agreement_type \"multi\"'']
         else [])
      else
        (if ty = Some ''multi'' then
           [mk_detail ''agreement_type'' ''INVALID_AGREEMENT_TYPE''
             ''Agreement with a single milestone must have agreement_type \"single\"'']
         else []))"

definition participant_errors :: "participant_input list \<Rightarrow> detail list" where
  "participant_errors ps =
     (if length ps = 0 then [mk_detail ''participants'' ''REQUIRED'' ''At least one participant is required'']
      else concat (map (\<lambda>(i, p).
        if trim (pi_wallet p) = [] then
          [mk_detail (indexed ''participants'' i ''.wallet_address'') ''REQUIRED''
            ''Participant wallet address must be non-empty'']
        else []) (enumerate 0 ps)))"

definition validateAgreement :: "agreement_input \<Rightarrow> validation_result" where
  "validateAgreement inp =
     (let errors = header_errors inp;
          milestones = default (in_milestones inp) [];
          errors = (if length milestones > 0 then
              let errors = errors @ concat (map (\<lambda>(i, m). milestone_errors i m) (enumerate 0 milestones));
                  errors = (if errors = [] then errors @ sum_mismatch (in_amount inp) milestones else errors)
              in errors @ type_errors (length milestones) (in_type inp)
            else errors);
          errors = errors @ participant_errors (in_participants inp)
      in if errors \<noteq> [] then errResult errors else okResult)"

definition consistency_milestone_errors :: "nat \<Rightarrow> milestone \<Rightarrow> detail list" where
  "consistency_milestone_errors i m =
     (case ms_description m of
        None \<Rightarrow> []
      | Some d \<Rightarrow> if trim d = [] then
          [mk_detail (indexed ''milestones'' i ''.description'') ''INCONSISTENT'' ''Milestone description is empty'']
        else []) @
     (case ms_amount m of
        None \<Rightarrow> [mk_detail (indexed ''milestones'' i ''.amount'') ''INCONSISTENT'' ''Milestone amount is missing'']
      | Some a \<Rightarrow> if \<not> isValidPositiveNumeric a then
          [mk_detail (indexed ''milestones'' i ''.amount'') ''INCONSISTENT_AMOUNT''
            ''Milestone amount is not a positive numeric string'']
        else [])"

definition validateAgreementConsistency :: "string \<Rightarrow> milestone list option \<Rightarrow> validation_result" where
  "validateAgreementConsistency amount ms =
     (let errors = (if \<not> isValidPositiveNumeric amount
            then [mk_detail ''amount'' ''INCONSISTENT_AMOUNT'' ''Agreement amount is not a positive numeric string'']
            else []);
          milestones = default ms [];
          errors = errors @ concat (map (\<lambda>(i, m). consistency_milestone_errors i m) (enumerate 0 milestones));
          errors = (if errors = [] \<and> length milestones > 0 then errors @ sum_mismatch amount milestones else errors)
      in if errors \<noteq> [] then errResult errors else okResult)"

section \<open>Cents are exact\<close>

text \<open>An amount with at most two decimals, up to \<open>10^13\<close>, and its number of cents.\<close>

definition in_cents :: "string \<Rightarrow> int" where
  "in_cents s = (case decimal_parts s of
     None \<Rightarrow> 0
   | Some (ip, fp) \<Rightarrow> int (digits_val (ip @ fp)) * 10 ^ (2 - length fp))"

definition money :: "string \<Rightarrow> bool" where
  "money s = (case decimal_parts s of
     None \<Rightarrow> False
   | Some (ip, fp) \<Rightarrow> length fp \<le> 2 \<and> decimal_value (ip, fp) \<le> 10 ^ 13)"

definition amount_value :: "string \<Rightarrow> rat" where
  "amount_value s = (case decimal_parts s of None \<Rightarrow> 0 | Some p \<Rightarrow> decimal_value p)"

lemma money_cents:
  assumes "money s"
  shows "amount_value s = of_int (in_cents s) / 100" "0 \<le> in_cents s" "in_cents s \<le> 10 ^ 15"
    "amount_num s = of_exact (of_int (in_cents s) / 100)"
proof -
  obtain ip fp where p: "decimal_parts s = Some (ip, fp)" "length fp \<le> 2" "decimal_value (ip, fp) \<le> 10 ^ 13"
    using assms by (auto simp: money_def split: option.splits)
  have "length fp = 0 \<or> length fp = 1 \<or> length fp = 2" using p(2) by linarith
  then have v: "decimal_value (ip, fp) = of_int (in_cents s) / 100"
    by (auto simp: decimal_value_def in_cents_def p(1))
  then show "amount_value s = of_int (in_cents s) / 100" "amount_num s = of_exact (of_int (in_cents s) / 100)"
    by (simp_all only: amount_value_def amount_num_def p(1) option.case)
  show "0 \<le> in_cents s" by (simp add: in_cents_def p(1))
  have "(of_int (in_cents s) :: rat) \<le> of_int (10 ^ 15)" using p(3) v by simp
  then show "in_cents s \<le> 10 ^ 15" by (simp only: of_int_le_iff)
qed

lemma cents_small: "0 \<le> c \<Longrightarrow> c \<le> 10 ^ 15 \<Longrightarrow> \<bar>of_int c / 100 :: rat\<bar> \<le> 2 ^ 1000"
proof -
  assume c: "0 \<le> c" "c \<le> 10 ^ 15"
  then have "\<bar>of_int c / 100 :: rat\<bar> \<le> 10 ^ 15" by simp
  then show ?thesis by (rule order_trans) simp
qed

lemma toCents_money:
  assumes "money s"
  shows "toCents s = Fin (of_int (in_cents s))"
proof -
  let ?c = "in_cents s" and ?x = "rnd64 (of_int (in_cents s) / 100)"
  note c = money_cents [OF assms]
  have c50: "?c \<le> 2 ^ 50" using c(3) by simp
  have "\<bar>?x * 100 - of_int ?c\<bar> \<le> 1 / 7" using c(2) c50 by (intro ieee.units_close) auto
  moreover have "0 \<le> (of_int ?c :: rat)" "(of_int ?c :: rat) \<le> 1000000000000000" using c(2,3) by simp_all
  ultimately have "\<bar>?x * 100\<bar> \<le> 1000000000000001" by linarith
  then have "\<bar>?x * 100\<bar> \<le> 2 ^ 1000" by (rule order_trans) simp
  then have "toCents s = Fin (of_int \<lfloor>rnd64 (?x * 100) + 1 / 2\<rfloor>)"
    using c by (simp add: toCents_def of_exact_small cents_small)
  then show ?thesis using ieee.units_back [OF c(2) c50, of 100] by simp
qed

lemma positive_money: "money s \<Longrightarrow> isValidPositiveNumeric s \<longleftrightarrow> 0 < amount_value s"
proof -
  assume m: "money s"
  let ?c = "in_cents s"
  note c = money_cents [OF m]
  have "?c = 0 \<or> 1 \<le> ?c" using c(2) by linarith
  moreover have "0 < rnd64 (of_int ?c / 100)" if "1 \<le> ?c"
  proof -
    have "?c \<le> 2 ^ 50" using c(3) by simp
    then have "\<bar>rnd64 (of_int ?c / 100) * 100 - of_int ?c\<bar> \<le> 1 / 7"
      using c(2) by (intro ieee.units_close) auto
    moreover have "(1::rat) \<le> of_int ?c" using that by simp
    ultimately show ?thesis by linarith
  qed
  moreover have "decimal_parts s \<noteq> None" using m by (auto simp: money_def split: option.splits)
  ultimately show ?thesis using c
    by (auto simp: isValidPositiveNumeric_def of_exact_small cents_small)
qed

text \<open>A float sum that has passed an integer below \<open>2^53\<close> stays above it.\<close>

definition beyond :: "int \<Rightarrow> jsnum \<Rightarrow> bool" where
  "beyond n v \<longleftrightarrow> v = PosInf \<or> (\<exists>r. v = Fin r \<and> of_int n \<le> r)"

lemma beyond_add:
  assumes "0 \<le> n" "n \<le> 2 ^ 53" and "beyond n v" and "0 \<le> b"
  shows "beyond n (js_add v (Fin b))"
proof (cases "v = PosInf")
  case False
  then obtain r where r: "v = Fin r" "of_int n \<le> r" using assms(3) by (auto simp: beyond_def)
  then have "of_int n \<le> rnd64 (r + b)" using assms by (intro ieee.fl_ge_int) auto
  moreover have "0 \<le> (of_int n :: rat)" using assms(1) by simp
  moreover have "\<not> rnd64 (r + b) < 0" using calculation by linarith
  ultimately show ?thesis using r by (auto simp: beyond_def of_exact_def Let_def abs_if)
qed (simp add: beyond_def)

lemma beyond_foldl:
  assumes "0 \<le> n" "n \<le> 2 ^ 53" and "beyond n v" and "\<And>k. k \<in> set ks \<Longrightarrow> 0 \<le> k"
  shows "beyond n (foldl (\<lambda>acc k. js_add acc (Fin (of_int k))) v ks)"
  using assms(3,4)
proof (induction ks arbitrary: v)
  case (Cons k ks)
  have "beyond n (js_add v (Fin (of_int k)))" using Cons.prems by (intro beyond_add assms(1,2)) auto
  then show ?case using Cons by simp
qed simp

lemma cents_sum_iff:
  assumes "\<And>k. k \<in> set ks \<Longrightarrow> 0 \<le> k \<and> k \<le> 10 ^ 15" and "0 \<le> acc" "acc \<le> 10 ^ 15" and "0 \<le> t" "t \<le> 10 ^ 15"
  shows "js_eq (Fin (of_int t)) (foldl (\<lambda>acc k. js_add acc (Fin (of_int k))) (Fin (of_int acc)) ks) \<longleftrightarrow>
    t = acc + sum_list ks"
  using assms(1-3)
proof (induction ks arbitrary: acc)
  case (Cons k ks)
  have k: "0 \<le> k" "k \<le> 10 ^ 15" using Cons.prems(1) by auto
  have step: "js_add (Fin (of_int acc)) (Fin (of_int k)) = Fin (of_int (acc + k))"
    using of_exact_int [of "acc + k"] k Cons.prems by simp
  show ?case
  proof (cases "acc + k \<le> 10 ^ 15")
    case True
    then have "js_eq (Fin (of_int t)) (foldl (\<lambda>acc k. js_add acc (Fin (of_int k))) (Fin (of_int (acc + k))) ks) \<longleftrightarrow>
        t = acc + k + sum_list ks"
      using Cons.prems k by (intro Cons.IH) auto
    then show ?thesis using step by (simp add: add.assoc)
  next
    case False
    have "beyond (t + 1) (foldl (\<lambda>acc k. js_add acc (Fin (of_int k))) (Fin (of_int (acc + k))) ks)"
      using False assms(4,5) Cons.prems(1) by (intro beyond_foldl) (auto simp: beyond_def)
    then have "\<not> js_eq (Fin (of_int t)) (foldl (\<lambda>acc k. js_add acc (Fin (of_int k))) (Fin (of_int (acc + k))) ks)"
      by (auto simp: beyond_def)
    moreover have "0 \<le> sum_list ks" using Cons.prems(1) by (intro sum_list_nonneg) auto
    then have "t \<noteq> acc + (k + sum_list ks)" using False assms(5) by linarith
    ultimately show ?thesis using step by simp
  qed
qed auto

section \<open>What is accepted\<close>

definition milestone_ok :: "milestone \<Rightarrow> bool" where
  "milestone_ok m \<longleftrightarrow> trim (default (ms_description m) []) \<noteq> [] \<and>
     (\<exists>a. ms_amount m = Some a \<and> isValidPositiveNumeric a)"

lemma concat_enumerate_Nil:
  "(\<And>i x. x \<in> set xs \<Longrightarrow> f i x = [] \<longleftrightarrow> P x) \<Longrightarrow>
     concat (map (\<lambda>(i, x). f i x) (enumerate n xs)) = [] \<longleftrightarrow> (\<forall>x \<in> set xs. P x)"
  by (induction xs arbitrary: n) auto

lemma milestone_errors_Nil: "milestone_errors i m = [] \<longleftrightarrow> milestone_ok m"
  by (auto simp: milestone_errors_def milestone_ok_def split: option.splits)

lemma milestones_errors_Nil:
  "concat (map (\<lambda>(i, m). milestone_errors i m) (enumerate n ms)) = [] \<longleftrightarrow> (\<forall>m \<in> set ms. milestone_ok m)"
  by (rule concat_enumerate_Nil) (rule milestone_errors_Nil)

lemma participant_errors_Nil:
  "participant_errors ps = [] \<longleftrightarrow> ps \<noteq> [] \<and> (\<forall>p \<in> set ps. trim (pi_wallet p) \<noteq> [])"
proof -
  have "concat (map (\<lambda>(i, p).
        if trim (pi_wallet p) = [] then
          [mk_detail (indexed ''participants'' i ''.wallet_address'') ''REQUIRED''
            ''Participant wallet address must be non-empty'']
        else []) (enumerate 0 ps)) = [] \<longleftrightarrow> (\<forall>p \<in> set ps. trim (pi_wallet p) \<noteq> [])"
    by (rule concat_enumerate_Nil) simp
  then show ?thesis unfolding participant_errors_def by (simp del: concat_eq_Nil_conv)
qed

lemma sum_mismatch_Nil: "sum_mismatch a ms = [] \<longleftrightarrow> js_eq (toCents a) (milestone_sum_cents ms)"
  by (simp add: sum_mismatch_def Let_def)

lemma type_errors_Nil: "type_errors n ty = [] \<longleftrightarrow> (1 < n \<longleftrightarrow> ty = Some ''multi'')"
  by (auto simp: type_errors_def)

text \<open>The check passes exactly on these inputs.\<close>

lemma validateAgreement_None_iff:
  "validateAgreement inp = None \<longleftrightarrow>
     header_errors inp = [] \<and> participant_errors (in_participants inp) = [] \<and>
     (default (in_milestones inp) [] \<noteq> [] \<longrightarrow>
       (\<forall>m \<in> set (default (in_milestones inp) []). milestone_ok m) \<and>
       js_eq (toCents (in_amount inp)) (milestone_sum_cents (default (in_milestones inp) [])) \<and>
       (1 < length (default (in_milestones inp) []) \<longleftrightarrow> in_type inp = Some ''multi''))"
  by (simp add: validateAgreement_def Let_def errResult_def okResult_def milestones_errors_Nil
      sum_mismatch_Nil type_errors_Nil flip: milestones_errors_Nil [of 0])
    blast

lemma consistency_None_iff:
  "validateAgreementConsistency a ms = None \<longleftrightarrow>
     isValidPositiveNumeric a \<and>
     (\<forall>m \<in> set (default ms []). (\<forall>d. ms_description m = Some d \<longrightarrow> trim d \<noteq> []) \<and>
        (\<exists>b. ms_amount m = Some b \<and> isValidPositiveNumeric b)) \<and>
     (default ms [] \<noteq> [] \<longrightarrow> js_eq (toCents a) (milestone_sum_cents (default ms [])))"
proof -
  let ?P = "\<lambda>m. (\<forall>d. ms_description m = Some d \<longrightarrow> trim d \<noteq> []) \<and>
        (\<exists>b. ms_amount m = Some b \<and> isValidPositiveNumeric b)"
  have each: "concat (map (\<lambda>(i, m). consistency_milestone_errors i m) (enumerate 0 (default ms []))) = [] \<longleftrightarrow>
      (\<forall>m \<in> set (default ms []). ?P m)"
    by (rule concat_enumerate_Nil) (auto simp: consistency_milestone_errors_def split: option.splits)
  show ?thesis
    unfolding validateAgreementConsistency_def Let_def using each
    by (auto simp: errResult_def okResult_def sum_mismatch_Nil)
qed

lemma milestone_sum_money:
  assumes "\<And>m. m \<in> set ms \<Longrightarrow> \<exists>b. ms_amount m = Some b \<and> money b" and "money a"
  shows "js_eq (toCents a) (milestone_sum_cents ms) \<longleftrightarrow>
    amount_value a = sum_list (map (\<lambda>m. amount_value (the (ms_amount m))) ms)"
proof -
  let ?k = "\<lambda>m. in_cents (the (ms_amount m))"
  have k: "0 \<le> ?k m \<and> ?k m \<le> 10 ^ 15" if "m \<in> set ms" for m
    using assms(1) [OF that] money_cents by fastforce
  have "milestone_sum_cents ms = foldl (\<lambda>acc k. js_add acc (Fin (of_int k))) (Fin (of_int 0)) (map ?k ms)"
    unfolding milestone_sum_cents_def foldl_map
    using assms(1) toCents_money by (intro foldl_cong) force+
  then have "js_eq (toCents a) (milestone_sum_cents ms) \<longleftrightarrow> in_cents a = 0 + sum_list (map ?k ms)"
    unfolding toCents_money [OF assms(2)]
    using k money_cents [OF assms(2)] by (simp only: cents_sum_iff) (intro cents_sum_iff; auto)
  moreover have "sum_list (map (\<lambda>m. amount_value (the (ms_amount m))) ms) = of_int (sum_list (map ?k ms)) / 100"
    using assms(1) money_cents(1) by (induction ms) (force simp: add_divide_distrib)+
  moreover have "x = y \<longleftrightarrow> of_int x / 100 = (of_int y / 100 :: rat)" for x y by simp
  ultimately show ?thesis unfolding money_cents(1) [OF assms(2)] by (simp only: add_0)
qed

section \<open>Properties\<close>

text \<open>The agreements that should be accepted, with exact amounts.\<close>

definition agreement_spec :: "agreement_input \<Rightarrow> bool" where
  "agreement_spec inp \<longleftrightarrow> (let ms = default (in_milestones inp) [] in
     trim (in_title inp) \<noteq> [] \<and> (\<forall>d. in_description inp = Some d \<longrightarrow> trim d \<noteq> []) \<and>
     0 < amount_value (in_amount inp) \<and> in_asset inp \<in> {None, Some ''USDC''} \<and>
     in_participants inp \<noteq> [] \<and> (\<forall>p \<in> set (in_participants inp). trim (pi_wallet p) \<noteq> []) \<and>
     (ms \<noteq> [] \<longrightarrow>
       (\<forall>m \<in> set ms. (\<exists>d. ms_description m = Some d \<and> trim d \<noteq> []) \<and>
          (\<exists>b. ms_amount m = Some b \<and> 0 < amount_value b)) \<and>
       amount_value (in_amount inp) = sum_list (map (\<lambda>m. amount_value (the (ms_amount m))) ms) \<and>
       (1 < length ms \<longleftrightarrow> in_type inp = Some ''multi'')))"

lemma trim_Nil [simp]: "trim [] = []"
  by (simp add: trim_def)

lemma header_errors_Nil:
  "header_errors inp = [] \<longleftrightarrow> trim (in_title inp) \<noteq> [] \<and>
     (\<forall>d. in_description inp = Some d \<longrightarrow> trim d \<noteq> []) \<and>
     isValidPositiveNumeric (in_amount inp) \<and> in_asset inp \<in> {None, Some ''USDC''}"
  by (cases "in_asset inp") (auto simp: header_errors_def split: option.splits)

lemma milestone_ok_money:
  assumes "\<And>b. ms_amount m = Some b \<Longrightarrow> money b"
  shows "milestone_ok m \<longleftrightarrow> (\<exists>d. ms_description m = Some d \<and> trim d \<noteq> []) \<and>
    (\<exists>b. ms_amount m = Some b \<and> 0 < amount_value b)"
  using assms positive_money by (cases "ms_description m") (auto simp: milestone_ok_def)

text \<open>
  (C5) On amounts of at most two decimals (and up to \<open>10^13\<close>) the validator accepts exactly the
  well-formed agreements: in spite of the double arithmetic in cents, the milestones are accepted
  if and only if their exact amounts add up to the agreement's amount.
\<close>

theorem validateAgreement_exact:
  assumes "money (in_amount inp)"
    and "\<And>m b. m \<in> set (default (in_milestones inp) []) \<Longrightarrow> ms_amount m = Some b \<Longrightarrow> money b"
  shows "validateAgreement inp = None \<longleftrightarrow> agreement_spec inp"
proof -
  let ?ms = "default (in_milestones inp) []"
  have ok: "(\<forall>m \<in> set ?ms. milestone_ok m) \<longleftrightarrow>
      (\<forall>m \<in> set ?ms. (\<exists>d. ms_description m = Some d \<and> trim d \<noteq> []) \<and>
          (\<exists>b. ms_amount m = Some b \<and> 0 < amount_value b))"
    using milestone_ok_money assms(2) by (intro ball_cong) auto
  have sum: "js_eq (toCents (in_amount inp)) (milestone_sum_cents ?ms) \<longleftrightarrow>
      amount_value (in_amount inp) = sum_list (map (\<lambda>m. amount_value (the (ms_amount m))) ?ms)"
    if "\<forall>m \<in> set ?ms. milestone_ok m"
    using that assms by (intro milestone_sum_money) (auto simp: milestone_ok_def)
  show ?thesis
    unfolding validateAgreement_None_iff agreement_spec_def Let_def header_errors_Nil participant_errors_Nil
      positive_money [OF assms(1)]
    using sum ok by blast
qed

definition sample_milestone :: "string \<Rightarrow> milestone" where
  "sample_milestone a = \<lparr>ms_description = Some ''design'', ms_amount = Some a, ms_status = None,
     ms_evidence_description = None, ms_evidence_urls = None, ms_evidence_at = None\<rparr>"

definition sample_input :: "string \<Rightarrow> agreement_input" where
  "sample_input a = \<lparr>in_title = ''Site'', in_description = None, in_amount = a, in_asset = None,
     in_type = Some ''multi'', in_milestones = Some [sample_milestone ''50.25'', sample_milestone ''49.75''],
     in_participants = [\<lparr>pi_wallet = ''GA'', pi_role = None\<rparr>]\<rparr>"

lemmas sample_simps = sample_input_def sample_milestone_def money_def decimal_parts_def digit_def
  decimal_value_def digits_val_def amount_value_def js_space_def trim_def

lemma validateAgreement_exact_witness:
  "(validateAgreement (sample_input ''100'') = None \<longleftrightarrow> agreement_spec (sample_input ''100'')) \<and>
   agreement_spec (sample_input ''100'')"
proof
  show "validateAgreement (sample_input ''100'') = None \<longleftrightarrow> agreement_spec (sample_input ''100'')"
    by (rule validateAgreement_exact) (auto simp: sample_simps)
  show "agreement_spec (sample_input ''100'')"
    by (simp add: agreement_spec_def sample_simps)
qed

lemma sample_accepted: "validateAgreement (sample_input ''100'') = None"
proof -
  have "money ''100''" "money ''50.25''" "money ''49.75''" by (simp_all add: sample_simps)
  moreover have "toCents ''100'' = Fin 10000" "toCents ''50.25'' = Fin 5025" "toCents ''49.75'' = Fin 4975"
    using calculation by (simp_all add: toCents_money in_cents_def sample_simps)
  moreover have "of_exact 5025 = Fin 5025" "of_exact 10000 = Fin 10000"
    using of_exact_int [of 5025] of_exact_int [of 10000] by simp_all
  ultimately show ?thesis
    by (auto simp: validateAgreement_None_iff header_errors_Nil participant_errors_Nil milestone_ok_def
        positive_money milestone_sum_cents_def sample_simps)
qed

text \<open>The consistency check reads nothing of a milestone but its description and amount.\<close>

lemma consistency_same:
  assumes "list_all2 (\<lambda>m m'. ms_description m = ms_description m' \<and> ms_amount m = ms_amount m') ms ms'"
  shows "validateAgreementConsistency a (Some ms) = None \<longleftrightarrow> validateAgreementConsistency a (Some ms') = None"
proof -
  have "milestone_sum_cents ms = milestone_sum_cents ms'"
  proof -
    have "foldl (\<lambda>acc m. js_add acc (toCents (default (ms_amount m) []))) z ms =
        foldl (\<lambda>acc m. js_add acc (toCents (default (ms_amount m) []))) z ms'" for z
      using assms by (induction ms ms' arbitrary: z rule: list_all2_induct) auto
    then show ?thesis by (simp add: milestone_sum_cents_def)
  qed
  moreover have "(\<forall>m \<in> set ms. (\<forall>d. ms_description m = Some d \<longrightarrow> trim d \<noteq> []) \<and>
        (\<exists>b. ms_amount m = Some b \<and> isValidPositiveNumeric b)) \<longleftrightarrow>
      (\<forall>m \<in> set ms'. (\<forall>d. ms_description m = Some d \<longrightarrow> trim d \<noteq> []) \<and>
        (\<exists>b. ms_amount m = Some b \<and> isValidPositiveNumeric b))"
    using assms by (induction ms ms' rule: list_all2_induct) auto
  moreover have "ms = [] \<longleftrightarrow> ms' = []" using assms by (cases ms; cases ms') auto
  ultimately show ?thesis by (simp add: consistency_None_iff)
qed

lemma accepted_consistent:
  "validateAgreement inp = None \<Longrightarrow> validateAgreementConsistency (in_amount inp) (in_milestones inp) = None"
  by (auto simp: validateAgreement_None_iff consistency_None_iff header_errors_Nil milestone_ok_def)

text \<open>
  Whatever the validator of new agreements accepts, the consistency check of stored
  agreements accepts too: a fresh agreement is never reported as inconsistent.
\<close>

theorem accepted_is_consistent:
  assumes "validateAgreement inp = None"
  shows "validateAgreementConsistency (in_amount inp) (in_milestones inp) = None"
  using assms by (rule accepted_consistent)

lemma accepted_is_consistent_witness:
  "validateAgreementConsistency (in_amount (sample_input ''100'')) (in_milestones (sample_input ''100'')) = None"
  by (rule accepted_is_consistent) (rule sample_accepted)

text \<open>
  Amounts are compared in whole cents although the asset has seven decimals: an agreement
  for 100.004 whose milestones add up to 100 is accepted, and is not well-formed.
\<close>

theorem subcents_accepted:
  "validateAgreement (sample_input ''100.004'') = None \<and> \<not> agreement_spec (sample_input ''100.004'')"
proof
  let ?x = "rnd64 (25001 / 250)"
  have x: "\<bar>?x - 25001 / 250\<bar> \<le> 1 / 1000000" and x1: "1 \<le> ?x"
    using ieee.fl_close [of "25001 / 250" 101] ieee.fl_ge_int [of 1 "25001 / 250"] unfolding eps64_def
    by simp_all
  then have x100: "0 \<le> ?x * 100" "?x * 100 \<le> 10001" by linarith+
  then have "\<bar>rnd64 (?x * 100) - ?x * 100\<bar> \<le> 10001 * eps64 + 1 / 2 ^ 100" by (rule ieee.fl_close)
  also have "\<dots> \<le> 1 / 1000000" by (simp add: eps64_def)
  finally have "\<bar>rnd64 (?x * 100) - 10000\<bar> < 1 / 2" using x by linarith
  then have "\<bar>rnd64 (?x * 100) - of_int 10000\<bar> < 1 / 2" by (simp only: of_int_numeral)
  then have r: "\<lfloor>rnd64 (?x * 100) + 1 / 2\<rfloor> = 10000" by (rule near_floor)
  have "\<bar>?x * 100\<bar> \<le> 10001" using x100 by simp
  then have "\<bar>?x * 100\<bar> \<le> 2 ^ 1000" by (rule order_trans) simp
  moreover have "\<bar>25001 / 250 :: rat\<bar> \<le> 2 ^ 1000"
    by (rule order_trans [of _ 101]) simp_all
  then have num: "amount_num ''100.004'' = Fin ?x"
    by (simp add: amount_num_def sample_simps of_exact_small)
  ultimately have "toCents ''100.004'' = Fin 10000" using r by (simp add: toCents_def of_exact_small)
  moreover have "isValidPositiveNumeric ''100.004''"
    using num x1 by (simp add: isValidPositiveNumeric_def sample_simps)
  moreover have "money ''50.25''" "money ''49.75''" by (simp_all add: sample_simps)
  moreover have "toCents ''50.25'' = Fin 5025" "toCents ''49.75'' = Fin 4975"
    using calculation by (simp_all add: toCents_money in_cents_def sample_simps)
  moreover have "of_exact 5025 = Fin 5025" "of_exact 10000 = Fin 10000"
    using of_exact_int [of 5025] of_exact_int [of 10000] by simp_all
  ultimately show "validateAgreement (sample_input ''100.004'') = None"
    by (auto simp: validateAgreement_None_iff header_errors_Nil participant_errors_Nil milestone_ok_def
        positive_money milestone_sum_cents_def sample_simps)
  show "\<not> agreement_spec (sample_input ''100.004'')"
    by (simp add: agreement_spec_def sample_simps)
qed

end
