(* ===== verification/Relay.thy ===== *)
theory Relay
  imports Access JsNumber Validator Milestones
begin

text \<open>
  Talking to Trustless Work: \<open>internal-trustless/trustless-relay.helper.ts\<close>, the request builders
  and writes of \<open>escrow-write.helper.ts\<close>, the funding guard \<open>escrow-funding.guard.ts\<close>, and the part
  of the milestone sync service that pushes a milestone. Trustless Work itself is the \<open>fetch\<close>
  of the backend; every request sent is in the log \<open>sent\<close> of the world.
\<close>

section \<open>\<open>trustless-relay.helper.ts\<close>\<close>

definition starts_with :: "string \<Rightarrow> string \<Rightarrow> bool" where
  "starts_with p s \<longleftrightarrow> take (length p) s = p"

definition ALLOWED_PREFIXES :: "string list" where
  "ALLOWED_PREFIXES = [''deployer/'', ''escrow/'', ''helper/'']"

definition strip_slashes :: "string \<Rightarrow> string" where
  "strip_slashes path = dropWhile (\<lambda>c. c = CHR ''/'') path"

definition getBaseUrl :: "'s backend \<Rightarrow> exn + string" where
  "getBaseUrl B = (case getenv B ''TRUSTLESSWORK_API_URL'' of
     None \<Rightarrow> Inl (BadRequest (Msg ''TRUSTLESSWORK_API_URL not set''))
   | Some u \<Rightarrow> if u = [] then Inl (BadRequest (Msg ''TRUSTLESSWORK_API_URL not set''))
       else Inr (if last u = CHR ''/'' then butlast u else u))"

definition getApiKey :: "'s backend \<Rightarrow> exn + string" where
  "getApiKey B = (case getenv B ''TRUSTLESSWORK_API_KEY'' of
     None \<Rightarrow> Inl (BadRequest (Msg ''TRUSTLESSWORK_API_KEY not set''))
   | Some k \<Rightarrow> if k = [] then Inl (BadRequest (Msg ''TRUSTLESSWORK_API_KEY not set'')) else Inr k)"

definition assertAllowedPath :: "string \<Rightarrow> bool" where
  "assertAllowedPath path = list_ex (\<lambda>p. starts_with p (strip_slashes path)) ALLOWED_PREFIXES"

definition buildHeaders :: "string \<Rightarrow> (string \<times> string) list" where
  "buildHeaders key = [(''Content-Type'', ''application/json''), (''x-api-key'', key)]"

definition lift_exn :: "exn + 'a \<Rightarrow> ('w, 'a) prog" where
  "lift_exn r = (case r of Inl e \<Rightarrow> throw e | Inr x \<Rightarrow> ret x)"

text \<open>The parsed answer: an empty body is \<open>null\<close>, a body that is not JSON its text.\<close>

definition response_data :: "http_body \<Rightarrow> json" where
  "response_data b = (case b of Json j \<Rightarrow> j | Text t \<Rightarrow> if t = [] then JNull else JStr t)"

definition relay_request ::
    "string \<Rightarrow> string \<Rightarrow> string \<Rightarrow> string \<Rightarrow> (string \<times> string) list \<Rightarrow> json option \<Rightarrow> http_request" where
  "relay_request base key meth path query body =
     \<lparr>rq_method = meth, rq_url = base @ ''/'' @ strip_slashes path,
      rq_query = (if meth = ''GET'' then filter (\<lambda>(k, v). v \<noteq> []) query else []),
      rq_headers = buildHeaders key,
      rq_body = (if meth = ''POST'' then Some (default body (JObj [])) else None)\<rparr>"

definition relayToTrustless ::
    "'s backend \<Rightarrow> string \<Rightarrow> string \<Rightarrow> (string \<times> string) list \<Rightarrow> json option \<Rightarrow> ('s world, nat \<times> json) prog" where
  "relayToTrustless B meth path query body =
     bnd (require (assertAllowedPath path) (BadRequest (Msg ''Path not allowed for Trustless relay''))) (\<lambda>_.
     bnd (lift_exn (getBaseUrl B)) (\<lambda>base.
     bnd (lift_exn (getApiKey B)) (\<lambda>key.
     bnd (send B (relay_request base key meth path query body)) (\<lambda>res.
     case res of
       Inl message \<Rightarrow> throw (PlainError message)
     | Inr rp \<Rightarrow> ret (rp_status rp, response_data (rp_body rp))))))"

section \<open>\<open>escrow-write.helper.ts\<close>\<close>

text \<open>A request to replay: \<open>RelayRequest\<close>.\<close>

record relay_write =
  rw_path :: string
  rw_body :: json

definition DEFAULT_PLATFORM_ADDRESS :: string where
  "DEFAULT_PLATFORM_ADDRESS = ''GBMJTAVJFAKMKLXYXGXACBFGIFS62A7DT46PFHQ3W4RG7CG4HVESSNRY''"

definition DEFAULT_DISPUTE_RESOLVER :: string where
  "DEFAULT_DISPUTE_RESOLVER = ''GB6MP3L6UGIDY6O6MXNLSKHLXT2T2TCMPZIZGUTOGYKOLHW7EORWMFCK''"

definition USDC_ISSUER_TESTNET :: string where
  "USDC_ISSUER_TESTNET = ''GBBD47IF6LWK7P7MDEVSCWR7DPUWV3NY3DTQEVFL4NAT4AQH3ZLLFLA5''"

definition USDC_ISSUER_MAINNET :: string where
  "USDC_ISSUER_MAINNET = ''GA5ZSEJYB37JRC5AVCIA5MOP4RHTM335X2KGX3IHOJAPP5RE34K4KZVN''"

definition getPlatformAddress :: "'s backend \<Rightarrow> string" where
  "getPlatformAddress B = or_else (getenv B ''PLATFORM_ADDRESS'') DEFAULT_PLATFORM_ADDRESS"

definition getDisputeResolver :: "'s backend \<Rightarrow> string" where
  "getDisputeResolver B = or_else (getenv B ''DISPUTE_RESOLVER'') DEFAULT_DISPUTE_RESOLVER"

definition isMainnet :: "'s backend \<Rightarrow> bool" where
  "isMainnet B = (let n = toLowerCase (or_else (getenv B ''STELLAR_NETWORK'') ''testnet'')
     in n = ''mainnet'' \<or> n = ''public'')"

definition trustline_address :: "'s backend \<Rightarrow> string" where
  "trustline_address B = or_else (getenv B ''TRUSTLINE_USDC_ADDRESS'')
     (if isMainnet B then USDC_ISSUER_MAINNET else USDC_ISSUER_TESTNET)"

definition getTrustline :: "'s backend \<Rightarrow> json" where
  "getTrustline B = JObj [(''symbol'', JStr ''USDC''), (''address'', JStr (trustline_address B))]"

text \<open>\<open>Date.now().toString(36).toUpperCase()\<close>.\<close>

definition base36_digit :: "nat \<Rightarrow> char" where
  "base36_digit n = char_of (if n < 10 then 48 + n else 55 + n)"

fun base36 :: "nat \<Rightarrow> string" where
  "base36 n = (if n < 36 then [base36_digit n] else base36 (n div 36) @ [base36_digit (n mod 36)])"

declare base36.simps [simp del]

definition generateEngagementId :: "string \<Rightarrow> int \<Rightarrow> string" where
  "generateEngagementId ty now_ms = ''THALOS-v2-'' @ ty @ ''-'' @ base36 (nat now_ms)"

record escrow_roles_dto =
  er_approver :: string
  er_serviceProvider :: string
  er_releaseSigner :: string
  er_receiver :: "string option"

record escrow_milestone_dto =
  em_description :: string
  em_amount :: "string option"
  em_status :: "string option"

record create_escrow_dto =
  ce_title :: string
  ce_description :: string
  ce_amount :: string
  ce_platformFee :: string
  ce_signer :: string
  ce_serviceType :: string
  ce_roles :: escrow_roles_dto
  ce_milestones :: "escrow_milestone_dto list"

text \<open>A number in a JSON body: what is not finite is serialised as \<open>null\<close>.\<close>

definition jnum_of :: "jsnum \<Rightarrow> json" where
  "jnum_of x = (case x of Fin r \<Rightarrow> JNum r | _ \<Rightarrow> JNull)"

definition num_of_opt :: "string option \<Rightarrow> jsnum" where
  "num_of_opt v = (case v of None \<Rightarrow> NaN | Some s \<Rightarrow> str_number s)"

definition buildRoles :: "'s backend \<Rightarrow> string \<Rightarrow> escrow_roles_dto \<Rightarrow> json" where
  "buildRoles B serviceType roles =
     (let base = [(''approver'', JStr (er_approver roles)),
           (''serviceProvider'', JStr (er_serviceProvider roles)),
           (''platformAddress'', JStr (getPlatformAddress B)),
           (''releaseSigner'', JStr (er_releaseSigner roles)),
           (''disputeResolver'', JStr (getDisputeResolver B))]
      in if serviceType = ''single-release''
         then JObj (base @ jopt ''receiver'' (map_option JStr (er_receiver roles))) else JObj base)"

definition buildAgreementBody :: "'s backend \<Rightarrow> create_escrow_dto \<Rightarrow> int \<Rightarrow> json" where
  "buildAgreementBody B dto now_ms =
     (let isMulti = (ce_serviceType dto = ''multi-release'');
          base = [(''signer'', JStr (ce_signer dto)),
            (''engagementId'', JStr (generateEngagementId (if isMulti then ''MULTIRELEASE'' else ''SINGLERELEASE'') now_ms)),
            (''title'', JStr (ce_title dto)),
            (''description'', JStr (ce_description dto)),
            (''roles'', buildRoles B (ce_serviceType dto) (ce_roles dto)),
            (''platformFee'', jnum_of (str_number (ce_platformFee dto))),
            (''trustline'', getTrustline B)]
      in if isMulti then JObj (base @
           [(''milestones'', JArr (map (\<lambda>m. JObj ([(''description'', JStr (em_description m)),
               (''amount'', jnum_of (num_of_opt (em_amount m)))] @
               jopt ''status'' (map_option JStr (em_status m)) @
               [(''receiver'', JStr (ce_signer dto))])) (ce_milestones dto)))])
         else JObj (base @
           [(''amount'', jnum_of (str_number (ce_amount dto))),
            (''milestones'', JArr (map (\<lambda>m. JObj [(''description'', JStr (em_description m))]) (ce_milestones dto)))]))"

definition formatUpstreamError :: "json \<Rightarrow> err_body" where
  "formatUpstreamError data =
     (let message = (case data of
          JObj kvs \<Rightarrow> (case map_of kvs ''message'' of Some m \<Rightarrow> js_String m | None \<Rightarrow> stringify data)
        | JStr s \<Rightarrow> s
        | _ \<Rightarrow> stringify data)
      in Coded ''UPSTREAM_ERROR'' [mk_detail ''upstream'' ''UPSTREAM_ERROR'' message])"

definition relayWrite :: "'s backend \<Rightarrow> string \<Rightarrow> json \<Rightarrow> ('s world, json) prog" where
  "relayWrite B path body =
     bnd (relayToTrustless B ''POST'' path [] (Some body)) (\<lambda>(status, data).
     if 400 \<le> status then throw (UpstreamError status data) else ret data)"

definition relay_of :: "string \<Rightarrow> (string \<times> json) list \<Rightarrow> relay_write" where
  "relay_of path fs = \<lparr>rw_path = path, rw_body = JObj fs\<rparr>"

definition buildCreateEscrowRequest :: "'s backend \<Rightarrow> create_escrow_dto \<Rightarrow> int \<Rightarrow> relay_write" where
  "buildCreateEscrowRequest B dto now_ms =
     \<lparr>rw_path = (if ce_serviceType dto = ''multi-release'' then ''deployer/multi-release'' else ''deployer/single-release''),
      rw_body = buildAgreementBody B dto now_ms\<rparr>"

definition buildFundEscrowRequest :: "string \<Rightarrow> string \<Rightarrow> jsnum \<Rightarrow> string \<Rightarrow> relay_write" where
  "buildFundEscrowRequest contractId signer amount ty =
     relay_of (''escrow/'' @ ty @ ''/fund-escrow'')
       [(''contractId'', JStr contractId), (''signer'', JStr signer), (''amount'', jnum_of amount)]"

definition buildApproveMilestoneRequest :: "string \<Rightarrow> string \<Rightarrow> string \<Rightarrow> string \<Rightarrow> relay_write" where
  "buildApproveMilestoneRequest contractId milestoneIndex approver ty =
     relay_of (''escrow/'' @ ty @ ''/approve-milestone'')
       [(''contractId'', JStr contractId), (''milestoneIndex'', JStr milestoneIndex), (''approver'', JStr approver)]"

record change_status_dto =
  cs_contractId :: string
  cs_milestoneIndex :: string
  cs_newEvidence :: string
  cs_newStatus :: string
  cs_serviceProvider :: string
  cs_type :: string

definition buildChangeMilestoneStatusRequest :: "change_status_dto \<Rightarrow> relay_write" where
  "buildChangeMilestoneStatusRequest dto =
     relay_of (''escrow/'' @ cs_type dto @ ''/change-milestone-status'')
       [(''contractId'', JStr (cs_contractId dto)), (''milestoneIndex'', JStr (cs_milestoneIndex dto)),
        (''newEvidence'', JStr (cs_newEvidence dto)), (''newStatus'', JStr (cs_newStatus dto)),
        (''serviceProvider'', JStr (cs_serviceProvider dto))]"

definition buildReleaseFundsRequest :: "string \<Rightarrow> string \<Rightarrow> string \<Rightarrow> string option \<Rightarrow> relay_write" where
  "buildReleaseFundsRequest contractId releaseSigner ty milestoneIndex =
     relay_of (if ty = ''single-release'' then ''escrow/'' @ ty @ ''/release-funds''
               else ''escrow/'' @ ty @ ''/release-milestone-funds'')
       ([(''contractId'', JStr contractId), (''releaseSigner'', JStr releaseSigner)] @
        jopt ''milestoneIndex'' (map_option JStr milestoneIndex))"

definition createEscrow :: "'s backend \<Rightarrow> create_escrow_dto \<Rightarrow> ('s world, json) prog" where
  "createEscrow B dto =
     bnd (call (now B)) (\<lambda>t.
     let request = buildCreateEscrowRequest B dto t;
         isMulti = (ce_serviceType dto = ''multi-release'');
         milestones = map (\<lambda>m. \<lparr>ms_description = Some (em_description m),
             ms_amount = (if isMulti then em_amount m else Some (ce_amount dto)),
             ms_status = Some (default (em_status m) ''pending''),
             ms_evidence_description = None, ms_evidence_urls = None, ms_evidence_at = None\<rparr>) (ce_milestones dto);
         agreementInput = \<lparr>in_title = ce_title dto, in_description = Some (ce_description dto),
             in_amount = (if isMulti
               then to_fixed 2 (foldl (\<lambda>sum m. js_add sum (case ms_amount m of None \<Rightarrow> Fin 0 | Some a \<Rightarrow> str_number a)) (Fin 0) milestones)
               else ce_amount dto),
             in_asset = Some ''USDC'', in_type = Some (if isMulti then ''multi'' else ''single''),
             in_milestones = Some milestones,
             in_participants = [\<lparr>pi_wallet = ce_signer dto, pi_role = Some ''payer''\<rparr>]\<rparr>
     in case validateAgreement agreementInput of
          Some (code, details) \<Rightarrow> throw (BadRequest (Coded code details))
        | None \<Rightarrow> relayWrite B (rw_path request) (rw_body request))"

definition write_request :: "'s backend \<Rightarrow> relay_write \<Rightarrow> ('s world, json) prog" where
  "write_request B r = relayWrite B (rw_path r) (rw_body r)"

definition fundEscrow :: "'s backend \<Rightarrow> string \<Rightarrow> string \<Rightarrow> jsnum \<Rightarrow> string \<Rightarrow> ('s world, json) prog" where
  "fundEscrow B contractId signer amount ty = write_request B (buildFundEscrowRequest contractId signer amount ty)"

definition approveMilestone :: "'s backend \<Rightarrow> string \<Rightarrow> string \<Rightarrow> string \<Rightarrow> string \<Rightarrow> ('s world, json) prog" where
  "approveMilestone B contractId milestoneIndex approver ty =
     write_request B (buildApproveMilestoneRequest contractId milestoneIndex approver ty)"

definition changeMilestoneStatus :: "'s backend \<Rightarrow> change_status_dto \<Rightarrow> ('s world, json) prog" where
  "changeMilestoneStatus B dto = write_request B (buildChangeMilestoneStatusRequest dto)"

definition releaseFunds :: "'s backend \<Rightarrow> string \<Rightarrow> string \<Rightarrow> string \<Rightarrow> string option \<Rightarrow> ('s world, json) prog" where
  "releaseFunds B contractId releaseSigner ty milestoneIndex =
     write_request B (buildReleaseFundsRequest contractId releaseSigner ty milestoneIndex)"

definition disputeMilestone :: "'s backend \<Rightarrow> string \<Rightarrow> string \<Rightarrow> string option \<Rightarrow> string \<Rightarrow> ('s world, json) prog" where
  "disputeMilestone B contractId ty milestoneIndex signer =
     (if ty = ''single-release'' then
        relayWrite B ''escrow/single-release/dispute-escrow''
          (JObj [(''contractId'', JStr contractId), (''signer'', JStr signer)])
      else relayWrite B ''escrow/multi-release/dispute-milestone''
          (JObj ([(''contractId'', JStr contractId)] @ jopt ''milestoneIndex'' (map_option JStr milestoneIndex) @
            [(''signer'', JStr signer)])))"

definition sendTransaction :: "'s backend \<Rightarrow> string \<Rightarrow> ('s world, json) prog" where
  "sendTransaction B signedXdr = relayWrite B ''helper/send-transaction'' (JObj [(''signedXdr'', JStr signedXdr)])"

section \<open>\<open>escrow-funding.guard.ts\<close>\<close>

text \<open>\<open>Number\<close> of a property that may be missing.\<close>

definition json_number :: "json option \<Rightarrow> jsnum" where
  "json_number v = (case v of
     None \<Rightarrow> NaN
   | Some JNull \<Rightarrow> Fin 0
   | Some (JBool b) \<Rightarrow> Fin (if b then 1 else 0)
   | Some (JNum r) \<Rightarrow> Fin r
   | Some (JStr s) \<Rightarrow> str_number s
   | Some (JArr xs) \<Rightarrow> str_number (js_String (JArr xs))
   | Some (JObj _) \<Rightarrow> NaN)"

definition answer_list :: "json \<Rightarrow> json list" where
  "answer_list data = (case data of JArr xs \<Rightarrow> xs | _ \<Rightarrow> if jtruthy (Some data) then [data] else [])"

definition escrow_query :: "string \<Rightarrow> (string \<times> string) list" where
  "escrow_query contractId = [(''contractIds[]'', contractId), (''validateOnChain'', ''true'')]"

definition find_escrow :: "string \<Rightarrow> json \<Rightarrow> json option" where
  "find_escrow contractId data =
     List.find (\<lambda>e. jget ''contractId'' e = Some (JStr contractId)) (answer_list data)"

definition assertEscrowFunded :: "'s backend \<Rightarrow> string \<Rightarrow> ('s world, unit) prog" where
  "assertEscrowFunded B contractId =
     bnd (relayToTrustless B ''GET'' ''helper/get-escrow-by-contract-ids'' (escrow_query contractId) None) (\<lambda>(status, data).
     bnd (require (\<not> (status < 200 \<or> 300 \<le> status))
       (ServiceUnavailable ''Could not verify the escrow balance on Trustless Work. Try again in a moment.'')) (\<lambda>_.
     case find_escrow contractId data of
       None \<Rightarrow> throw (ServiceUnavailable (''Escrow '' @ contractId @ '' is not indexed on Trustless Work yet. Try again in a moment.''))
     | Some escrow \<Rightarrow>
         let balance = json_number (jget ''balance'' escrow)
         in require (is_finite balance \<and> \<not> js_le balance (Fin 0))
              (BadRequest (Msg ''This escrow has not been funded yet. Evidence can only be submitted after funding.''))))"

section \<open>The push of \<open>MilestoneSyncService\<close>\<close>

record milestone_sync_payload =
  mp_contractId :: string
  mp_agreementType :: string
  mp_milestoneIndex :: string
  mp_action :: string
  mp_approver :: "string option"
  mp_serviceProvider :: "string option"
  mp_newEvidence :: "string option"
  mp_newStatus :: "string option"

definition pushMilestoneToTW :: "'s backend \<Rightarrow> milestone_sync_payload \<Rightarrow> ('s world, json) prog" where
  "pushMilestoneToTW B p =
     (let ty = toTWServiceType (mp_agreementType p)
      in if mp_action p = ''approve'' then
           approveMilestone B (mp_contractId p) (mp_milestoneIndex p) (default (mp_approver p) []) ty
         else bnd (assertEscrowFunded B (mp_contractId p)) (\<lambda>_.
           changeMilestoneStatus B \<lparr>cs_contractId = mp_contractId p, cs_milestoneIndex = mp_milestoneIndex p,
             cs_newEvidence = default (mp_newEvidence p) [], cs_newStatus = default (mp_newStatus p) [],
             cs_serviceProvider = default (mp_serviceProvider p) [], cs_type = ty\<rparr>))"

text \<open>The message of an exception, as \<open>err.message\<close>.\<close>

fun exn_message :: "exn \<Rightarrow> string" where
  "exn_message (BadRequest (Msg m)) = m"
| "exn_message (BadRequest (Coded c ds)) = ''Bad Request Exception''"
| "exn_message (BadRequest (Body j)) = (case jget ''message'' j of Some (JStr m) \<Rightarrow> m | _ \<Rightarrow> ''Bad Request Exception'')"
| "exn_message (UpstreamError _ data) = (case data of JStr m \<Rightarrow> m
     | JNull \<Rightarrow> ''Bad Request'' | JBool False \<Rightarrow> ''Bad Request''
     | _ \<Rightarrow> (case jget ''message'' data of Some (JStr m) \<Rightarrow> m | _ \<Rightarrow> ''Trustless Relay Error''))"
| "exn_message (Unauthorized m) = m"
| "exn_message (Forbidden m) = m"
| "exn_message (NotFound m) = m"
| "exn_message (Conflict m) = m"
| "exn_message (PayloadTooLarge m) = m"
| "exn_message (UnsupportedMediaType m) = m"
| "exn_message (InternalServerError m) = m"
| "exn_message (ServiceUnavailable m) = m"
| "exn_message (PlainError m) = m"

text \<open>The job's result: success, and the error that makes the queue retry.\<close>

definition handleMilestoneUpdateJob :: "'s backend \<Rightarrow> milestone_sync_payload \<Rightarrow> ('s world, bool \<times> string option) prog" where
  "handleMilestoneUpdateJob B p =
     catch (bnd (pushMilestoneToTW B p) (\<lambda>_. ret (True, None)))
       (\<lambda>err. case err of
          UpstreamError status _ \<Rightarrow> if status < 500 then ret (True, None) else ret (False, Some (exn_message err))
        | _ \<Rightarrow> ret (False, Some (exn_message err)))"

section \<open>What is asked and what is sent\<close>

text \<open>A request for the escrow of a contract, and an answer that lists it with a positive balance.\<close>

definition reads_contract :: "string \<Rightarrow> http_request \<Rightarrow> bool" where
  "reads_contract cid q \<longleftrightarrow> rq_method q = ''GET'' \<and> (\<exists>base. rq_url q = base @ ''/helper/get-escrow-by-contract-ids'') \<and>
     map_of (rq_query q) ''contractIds[]'' = (if cid = [] then None else Some cid)"

definition payload_items :: "json \<Rightarrow> json list" where
  "payload_items data = (case data of JArr xs \<Rightarrow> xs | _ \<Rightarrow> [data])"

definition shows_funds :: "string \<Rightarrow> string + http_response \<Rightarrow> bool" where
  "shows_funds cid answer \<longleftrightarrow> (\<exists>rp e b. answer = Inr rp \<and> 200 \<le> rp_status rp \<and> rp_status rp < 300 \<and>
     e \<in> set (payload_items (response_data (rp_body rp))) \<and> jget ''contractId'' e = Some (JStr cid) \<and>
     json_number (jget ''balance'' e) = Fin b \<and> 0 < b)"

text \<open>A request that submits evidence for a milestone of a contract.\<close>

definition submits :: "string \<Rightarrow> string \<Rightarrow> string \<Rightarrow> string \<Rightarrow> string \<Rightarrow> string \<Rightarrow> http_request \<Rightarrow> bool" where
  "submits cid serviceType milestone evidence status provider q \<longleftrightarrow> rq_method q = ''POST'' \<and>
     (\<exists>base. rq_url q = base @ ''/escrow/'' @ serviceType @ ''/change-milestone-status'') \<and>
     rq_body q = Some (JObj [(''contractId'', JStr cid), (''milestoneIndex'', JStr milestone), (''newEvidence'', JStr evidence),
       (''newStatus'', JStr status), (''serviceProvider'', JStr provider)])"

text \<open>Nothing was sent, or the read of the contract, or that with an answer that shows funds and then the request.\<close>

definition sent_if_funded :: "string \<Rightarrow> (http_request \<Rightarrow> bool) \<Rightarrow> 's world \<Rightarrow> 's world \<Rightarrow> bool" where
  "sent_if_funded cid request w w' \<longleftrightarrow> sent w' = sent w \<or>
     (\<exists>g a. reads_contract cid g \<and> (sent w' = sent w @ [(g, a)] \<or>
        (\<exists>q b. shows_funds cid a \<and> request q \<and> sent w' = sent w @ [(g, a), (q, b)])))"

lemma lift_exn_run [prog_simps]: "lift_exn r w = (r, w)"
  by (simp add: lift_exn_def prog_simps split: sum.splits)

text \<open>A relay either sends nothing, or one request to an allowed path whose answer it returns.\<close>

lemma relay_run:
  assumes "relayToTrustless B meth path query body w = (r, w')"
  shows "(\<exists>e. r = Inl e \<and> w' = w) \<or>
    (\<exists>base key answer s. assertAllowedPath path \<and> getBaseUrl B = Inr base \<and> getApiKey B = Inr key \<and>
       w' = w\<lparr>svc := s, sent := sent w @ [(relay_request base key meth path query body, answer)]\<rparr> \<and>
       ((\<exists>m. answer = Inl m \<and> r = Inl (PlainError m)) \<or>
        (\<exists>rp. answer = Inr rp \<and> r = Inr (rp_status rp, response_data (rp_body rp)))))"
  using assms
  by (auto simp: relayToTrustless_def prog_simps split: sum.splits prod.splits if_splits)

lemma relayWrite_sent:
  assumes "relayWrite B path body w = (r, w')"
  shows "sent w' = sent w \<or>
    (\<exists>rq answer base. sent w' = sent w @ [(rq, answer)] \<and> rq_method rq = ''POST'' \<and>
       rq_url rq = base @ ''/'' @ strip_slashes path \<and> rq_body rq = Some body)"
  using assms relay_run [of B "''POST''" path "[]" "Some body" w]
  by (fastforce simp: relayWrite_def prog_simps relay_request_def split: prod.splits sum.splits if_splits)

lemma reads_contract_relay:
  "reads_contract cid (relay_request base key ''GET'' ''helper/get-escrow-by-contract-ids'' (escrow_query cid) None)"
  by (simp add: reads_contract_def relay_request_def escrow_query_def strip_slashes_def)

lemma answer_list_items: "set (answer_list data) \<subseteq> set (payload_items data)"
  by (auto simp: answer_list_def payload_items_def split: json.splits)

lemma assertEscrowFunded_sent:
  assumes "assertEscrowFunded B cid w = (r, w')"
  shows "(sent w' = sent w \<and> (\<exists>e. r = Inl e)) \<or>
    (\<exists>rq answer. sent w' = sent w @ [(rq, answer)] \<and> reads_contract cid rq \<and> (r = Inr () \<longrightarrow> shows_funds cid answer))"
proof -
  obtain r1 w1 where 1: "relayToTrustless B ''GET'' ''helper/get-escrow-by-contract-ids'' (escrow_query cid) None w = (r1, w1)"
    by (metis prod.collapse)
  show ?thesis
  proof (cases r1)
    case (Inl e)
    then have "r = Inl e" "w' = w1" using assms 1 by (simp_all add: assertEscrowFunded_def prog_simps)
    then show ?thesis using relay_run [OF 1] Inl reads_contract_relay by auto
  next
    case (Inr sd)
    then obtain base key rp s where rp: "r1 = Inr (rp_status rp, response_data (rp_body rp))"
      "w1 = w\<lparr>svc := s, sent := sent w @ [(relay_request base key ''GET'' ''helper/get-escrow-by-contract-ids''
          (escrow_query cid) None, Inr rp)]\<rparr>"
      using relay_run [OF 1] by auto
    have found: "e \<in> set (payload_items data) \<and> jget ''contractId'' e = Some (JStr cid)" if "find_escrow cid data = Some e" for e data
      using that subsetD [OF answer_list_items [of data]] nth_mem by (auto simp: find_escrow_def find_Some_iff)
    have "w' = w1 \<and> (r = Inr () \<longrightarrow> (\<exists>e b. find_escrow cid (response_data (rp_body rp)) = Some e \<and>
        json_number (jget ''balance'' e) = Fin b \<and> 0 < b) \<and> 200 \<le> rp_status rp \<and> rp_status rp < 300)"
      using assms 1 unfolding rp(1)
      by (auto simp: assertEscrowFunded_def prog_simps Let_def js_le_def not_less split: option.splits if_splits)
    then show ?thesis using rp(2) reads_contract_relay found by (fastforce simp: shows_funds_def)
  qed
qed

text \<open>A write after the check: what the write alone would send is only sent after an answer that shows funds.\<close>

lemma funded_write_sent:
  assumes run: "bnd (assertEscrowFunded B cid) (\<lambda>_. m) w = (r, w')"
    and wr: "\<And>w r w'. m w = (r, w') \<Longrightarrow> sent w' = sent w \<or> (\<exists>q b. sent w' = sent w @ [(q, b)] \<and> request q)"
  shows "sent_if_funded cid request w w'"
proof -
  obtain r1 w1 where 1: "assertEscrowFunded B cid w = (r1, w1)" by (metis prod.collapse)
  show ?thesis
  proof (cases r1)
    case (Inl e)
    then have "w' = w1" using run 1 by (simp add: prog_simps)
    then show ?thesis using assertEscrowFunded_sent [OF 1] by (auto simp: sent_if_funded_def)
  next
    case (Inr u)
    then have "m w1 = (r, w')" using run 1 by (simp add: prog_simps)
    from wr [OF this] show ?thesis using assertEscrowFunded_sent [OF 1] Inr
      by (fastforce simp: sent_if_funded_def)
  qed
qed

lemma change_status_sent:
  assumes "relayWrite B (rw_path (buildChangeMilestoneStatusRequest dto)) (rw_body (buildChangeMilestoneStatusRequest dto)) w = (r, w')"
  shows "sent w' = sent w \<or> (\<exists>q b. sent w' = sent w @ [(q, b)] \<and>
    submits (cs_contractId dto) (cs_type dto) (cs_milestoneIndex dto) (cs_newEvidence dto) (cs_newStatus dto) (cs_serviceProvider dto) q)"
  using relayWrite_sent [OF assms]
  by (fastforce simp: submits_def buildChangeMilestoneStatusRequest_def relay_of_def strip_slashes_def)

definition pushes_evidence :: "milestone_sync_payload \<Rightarrow> http_request \<Rightarrow> bool" where
  "pushes_evidence p = submits (mp_contractId p) (if mp_agreementType p = ''multi'' then ''multi-release'' else ''single-release'')
     (mp_milestoneIndex p) (default (mp_newEvidence p) []) (default (mp_newStatus p) []) (default (mp_serviceProvider p) [])"

lemma push_evidence_sent:
  assumes "mp_action p \<noteq> ''approve''" and "pushMilestoneToTW B p w = (r, w')"
  shows "sent_if_funded (mp_contractId p) (pushes_evidence p) w w'"
proof (rule funded_write_sent)
  let ?dto = "\<lparr>cs_contractId = mp_contractId p, cs_milestoneIndex = mp_milestoneIndex p,
     cs_newEvidence = default (mp_newEvidence p) [], cs_newStatus = default (mp_newStatus p) [],
     cs_serviceProvider = default (mp_serviceProvider p) [], cs_type = toTWServiceType (mp_agreementType p)\<rparr>"
  show "bnd (assertEscrowFunded B (mp_contractId p)) (\<lambda>_. changeMilestoneStatus B ?dto) w = (r, w')"
    using assms by (simp add: pushMilestoneToTW_def Let_def)
  show "sent v' = sent v \<or> (\<exists>q b. sent v' = sent v @ [(q, b)] \<and> pushes_evidence p q)"
    if "changeMilestoneStatus B ?dto v = (x, v')" for v x v'
    using change_status_sent [of B ?dto v x v'] that
    by (simp add: changeMilestoneStatus_def write_request_def pushes_evidence_def toTWServiceType_def)
qed

lemma job_evidence_sent:
  assumes "mp_action p \<noteq> ''approve''" and "handleMilestoneUpdateJob B p w = (r, w')"
  shows "sent_if_funded (mp_contractId p) (pushes_evidence p) w w'"
proof -
  obtain r1 w1 where 1: "pushMilestoneToTW B p w = (r1, w1)" by (metis prod.collapse)
  then have "w' = w1"
    using assms(2) by (auto simp: handleMilestoneUpdateJob_def prog_simps split: sum.splits exn.splits if_splits)
  then show ?thesis using push_evidence_sent [OF assms(1) 1] by simp
qed

section \<open>A sample\<close>

definition sample_vars :: "string \<Rightarrow> string option" where
  "sample_vars k = (if k = ''TRUSTLESSWORK_API_URL'' then Some ''https://tw/'' else
     if k = ''TRUSTLESSWORK_API_KEY'' then Some ''key'' else None)"

definition sample_push :: milestone_sync_payload where
  "sample_push = \<lparr>mp_contractId = ''C1'', mp_agreementType = ''single'', mp_milestoneIndex = ''0'',
     mp_action = ''change_status'', mp_approver = None, mp_serviceProvider = Some ''GS'',
     mp_newEvidence = Some ''done'', mp_newStatus = Some ''completed''\<rparr>"

definition sample_reply :: "nat \<Rightarrow> http_request \<Rightarrow> string + http_response" where
  "sample_reply n rq = Inr \<lparr>rp_status = 200,
     rp_body = Json (JArr [JObj [(''contractId'', JStr ''C1''), (''balance'', JNum 15)]])\<rparr>"

end
