(* ===== verification/Sync.thy ===== *)
theory Sync
  imports Relay
begin

text \<open>
  The synchronisation engine between agreements and Trustless Work escrows:
  \<open>agreements/sync/agreement-sync.service.ts\<close>. An escrow is the JSON document Trustless Work
  answers with; its fields are read with the types the code declares for them.
\<close>

section \<open>Types and status mapping\<close>

record sync_result =
  sy_synced :: bool
  sy_direction :: "string option"
  sy_actions :: "string list"
  sy_errors :: "string list"

record reconcile_result =
  rc_reconciled :: bool
  rc_divergence :: "string option"
  rc_resolution :: "string option"
  rc_actions :: "string list"

definition TW_TO_THALOS_STATUS :: "(string \<times> string) list" where
  "TW_TO_THALOS_STATUS =
     [(''created'', ''pending''), (''funded'', ''funded''), (''active'', ''active''),
      (''completed'', ''completed''), (''cancelled'', ''cancelled''), (''disputed'', ''disputed'')]"

definition THALOS_TO_TW_STATUS :: "(string \<times> string) list" where
  "THALOS_TO_TW_STATUS =
     [(''pending'', ''created''), (''funded'', ''funded''), (''active'', ''active''),
      (''completed'', ''completed''), (''cancelled'', ''cancelled''), (''disputed'', ''disputed'')]"

definition statusOrder :: "string list" where
  "statusOrder = [''pending'', ''funded'', ''active'', ''in_review'', ''completed'']"

text \<open>\<open>xs.indexOf(x)\<close>.\<close>

fun index_of :: "'a list \<Rightarrow> 'a \<Rightarrow> int" where
  "index_of [] x = -1"
| "index_of (y # ys) x = (if y = x then 0 else (let i = index_of ys x in if i < 0 then -1 else i + 1))"

text \<open>A string field of an escrow; a missing one is the empty string where only truth matters.\<close>

definition esc_str :: "string \<Rightarrow> json \<Rightarrow> string" where
  "esc_str k e = (case jget k e of Some (JStr s) \<Rightarrow> s | _ \<Rightarrow> [])"

definition esc_status :: "json \<Rightarrow> string option" where
  "esc_status e = map_option js_String (jget ''status'' e)"

text \<open>
  The mapped status. \<open>None\<close> is \<open>undefined\<close>, and the function an inherited key finds: the
  database client drops both from the update. A \<open>null\<close> status stays \<open>null\<close> (printed \<open>null\<close> in the
  messages, equal to no text), and the database refuses the update with it: the column's type in
  the code is a string.
\<close>

definition null_status :: "json \<Rightarrow> bool" where
  "null_status e \<longleftrightarrow> jget ''status'' e = Some JNull"

definition null_violation :: db_error where
  "null_violation = \<lparr>e_code = ''23502'', e_message = ''null value in column status violates not-null constraint''\<rparr>"

definition twMapped :: "json \<Rightarrow> string option" where
  "twMapped e = (case esc_status e of
     None \<Rightarrow> None
   | Some s \<Rightarrow> if inherited s then None else Some (default (map_of TW_TO_THALOS_STATUS s) s))"

definition mapped_json :: "json \<Rightarrow> json option" where
  "mapped_json e = (if null_status e then Some JNull else map_option JStr (twMapped e))"

definition show_opt :: "string option \<Rightarrow> string" where
  "show_opt v = default v ''undefined''"

definition dq :: "string \<Rightarrow> string" where
  "dq s = [char_of (34::nat)] @ s @ [char_of (34::nat)]"

section \<open>Reading the escrow\<close>

text \<open>\<open>encodeURIComponent\<close>, with the two-byte UTF-8 form of the characters from 128 on.\<close>

definition upper_hex :: "nat \<Rightarrow> string" where
  "upper_hex n = [CHR ''%'', base36_digit (n div 16), base36_digit (n mod 16)]"

definition encode_char :: "char \<Rightarrow> string" where
  "encode_char c = (let n = (of_char c :: nat) in
     if (48 \<le> n \<and> n \<le> 57) \<or> (65 \<le> n \<and> n \<le> 90) \<or> (97 \<le> n \<and> n \<le> 122) \<or> c \<in> set ''-_.!~*()'' \<or> n = 39
     then [c] else if n < 128 then upper_hex n
     else upper_hex (192 + n div 64) @ upper_hex (128 + n mod 64))"

definition encodeURIComponent :: "string \<Rightarrow> string" where
  "encodeURIComponent s = concat (map encode_char s)"

text \<open>\<open>xs.find(e => e.id === contractId)\<close>; reading \<open>id\<close> of \<open>null\<close> throws.\<close>

fun find_id :: "string \<Rightarrow> json list \<Rightarrow> exn + json option" where
  "find_id cid [] = Inr None"
| "find_id cid (e # es) =
     (if e = JNull then Inl (PlainError ''TypeError'')
      else if jget ''id'' e = Some (JStr cid) then Inr (Some e) else find_id cid es)"

definition pick_escrow :: "string \<Rightarrow> json \<Rightarrow> exn + json option" where
  "pick_escrow cid data = (case data of
     JArr es \<Rightarrow> (case find_id cid es of
         Inl e \<Rightarrow> Inl e
       | Inr (Some e) \<Rightarrow> Inr (Some e)
       | Inr None \<Rightarrow> Inr (case es of [] \<Rightarrow> None | e # _ \<Rightarrow> Some e))
   | _ \<Rightarrow> Inr (Some data))"

definition fetchTrustlessEscrow :: "'s backend \<Rightarrow> string \<Rightarrow> ('s world, json option) prog" where
  "fetchTrustlessEscrow B contractId =
     catch
       (bnd (relayToTrustless B ''GET'' (''escrow/'' @ encodeURIComponent contractId) [] None) (\<lambda>(status, data).
        if 200 \<le> status \<and> status < 300 \<and> jtruthy (Some data) then lift_exn (pick_escrow contractId data)
        else bnd (relayToTrustless B ''GET'' ''helper/get-escrows-by-signer'' [(''signer'', contractId)] None)
          (\<lambda>(fstatus, escrows).
           if 400 \<le> fstatus then ret None
           else if \<not> jtruthy (Some escrows) then ret None
           else lift_exn (pick_escrow contractId escrows))))
       (\<lambda>err. ret None)"

text \<open>Whether the contract exists, or the error.\<close>

definition validateContractOnTrustless :: "'s backend \<Rightarrow> string \<Rightarrow> ('s world, string option) prog" where
  "validateContractOnTrustless B contractId =
     catch
       (bnd (fetchTrustlessEscrow B contractId) (\<lambda>escrow.
        case escrow of
          None \<Rightarrow> ret (Some (''Contract '' @ dq contractId @ '' not found on Trustless Work''))
        | Some _ \<Rightarrow> ret None))
       (\<lambda>err. ret (Some (''Could not validate contract on TW: '' @ exn_message err)))"

section \<open>Writing the log and the participants\<close>

definition jtime :: "int \<Rightarrow> json" where
  "jtime t = JNum (of_int t)"

definition logSyncActivity :: "'s backend \<Rightarrow> string \<Rightarrow> string \<Rightarrow> (string \<times> json) list \<Rightarrow> ('s world, unit) prog" where
  "logSyncActivity B agreementId action details =
     bnd (call (now B)) (\<lambda>t.
     logActivity B agreementId ''SYNC_ENGINE'' (''sync_'' @ action) (JObj (details @ [(''timestamp'', jtime t)])) None None)"

definition new_participant :: "string \<Rightarrow> string \<Rightarrow> string option \<Rightarrow> participant" where
  "new_participant agreementId wallet role =
     \<lparr>p_id = [], p_agreement_id = agreementId, p_wallet = wallet, p_role = role\<rparr>"

definition missing_participants :: "string \<Rightarrow> json \<Rightarrow> participant list \<Rightarrow> participant list" where
  "missing_participants agreementId escrow existing =
     (let existingRoles = map (\<lambda>p. p_wallet p @ '':'' @ default (p_role p) ''null'') existing;
          missing = (\<lambda>k. let v = esc_str k escrow in
            if v \<noteq> [] \<and> v @ '':'' @ k \<notin> set existingRoles
            then [new_participant agreementId v (Some k)] else [])
      in missing ''sender'' @ missing ''receiver'' @ missing ''approver'')"

definition syncParticipants :: "'s backend \<Rightarrow> string \<Rightarrow> json \<Rightarrow> ('s world, unit) prog" where
  "syncParticipants B agreementId escrow =
     bnd (call (select_rows (participants B) (\<lambda>p. p_agreement_id p = agreementId) (\<lambda>rs. rs))) (\<lambda>(existing, _).
     let toInsert = missing_participants agreementId escrow (default existing [])
     in if length toInsert > 0 then bnd (call (insert_rows (participants B) toInsert)) (\<lambda>_. ret ())
        else ret ())"

section \<open>The status transition hook\<close>

definition agreement_completed :: "string \<Rightarrow> agreement \<Rightarrow> int \<Rightarrow> json" where
  "agreement_completed agreementId a t =
     JObj [(''agreementId'', JStr agreementId), (''title'', JStr (a_title a)), (''totalAmount'', JStr (a_amount a)),
       (''asset'', JStr (default (a_asset a) ''USDC'')), (''completedAt'', jtime t)]"

definition agreement_funded :: "string \<Rightarrow> agreement \<Rightarrow> string \<Rightarrow> json" where
  "agreement_funded agreementId a wallet =
     JObj [(''agreementId'', JStr agreementId), (''title'', JStr (a_title a)), (''amount'', JStr (a_amount a)),
       (''asset'', JStr (default (a_asset a) ''USDC'')), (''fundedByWallet'', JStr wallet)]"

text \<open>The lifecycle event of a new status, emitted from the row read before.\<close>

definition emit_lifecycle :: "'s backend \<Rightarrow> string \<Rightarrow> agreement \<Rightarrow> string \<Rightarrow> string \<Rightarrow> ('s world, unit) prog" where
  "emit_lifecycle B agreementId a toStatus fundedBy =
     (if toStatus = ''funded'' then emit ''agreement.funded'' (agreement_funded agreementId a fundedBy)
      else if toStatus = ''completed'' \<or> toStatus = ''resolved'' then
        bnd (call (now B)) (\<lambda>t. emit ''agreement.completed'' (agreement_completed agreementId a t))
      else ret ())"

definition contract_field :: "agreement \<Rightarrow> (string \<times> json)" where
  "contract_field a = (''contractId'', jnullable (a_contract_id a))"

definition syncStatusTransition :: "'s backend \<Rightarrow> string \<Rightarrow> string \<Rightarrow> string \<Rightarrow> ('s world, sync_result) prog" where
  "syncStatusTransition B agreementId fromStatus toStatus =
     bnd (lift_exn (service_validateTransition fromStatus toStatus)) (\<lambda>validation.
     case validation of
       Some reason \<Rightarrow>
         bnd (logSyncActivity B agreementId ''transition_rejected''
           [(''from'', JStr fromStatus), (''to'', JStr toStatus), (''reason'', JStr reason)]) (\<lambda>_.
         ret \<lparr>sy_synced = False, sy_direction = None, sy_actions = [], sy_errors = [reason]\<rparr>)
     | None \<Rightarrow>
         let actions = [''Transition '' @ dq fromStatus @ '' -> '' @ dq toStatus @ '' validated''] in
         bnd (call (select_single (agreements B) (\<lambda>a. a_id a = agreementId))) (\<lambda>(agreement, _).
         case agreement of
           None \<Rightarrow> ret \<lparr>sy_synced = False, sy_direction = None, sy_actions = actions, sy_errors = [''Agreement not found'']\<rparr>
         | Some a \<Rightarrow>
             let actions = actions @
               (if truthy (a_contract_id a) \<and> map_of THALOS_TO_TW_STATUS toStatus \<noteq> None
                then [''Status '' @ dq toStatus @ '' logged for TW sync - user must sign transaction on client''] else []) in
             bnd (emit_lifecycle B agreementId a toStatus (a_created_by a)) (\<lambda>_.
             bnd (logSyncActivity B agreementId ''transition_applied''
               [(''from'', JStr fromStatus), (''to'', JStr toStatus), contract_field a]) (\<lambda>_.
             ret \<lparr>sy_synced = True, sy_direction = Some ''thalos_to_tw'', sy_actions = actions, sy_errors = []\<rparr>))))"

section \<open>\<open>doSync\<close>\<close>

definition sync_direction :: "string option \<Rightarrow> string \<Rightarrow> string" where
  "sync_direction mapped currentStatus =
     (let twIdx = (case mapped of None \<Rightarrow> -1 | Some s \<Rightarrow> index_of statusOrder s);
          thIdx = index_of statusOrder currentStatus
      in if thIdx < twIdx then ''tw_to_thalos'' else if twIdx < thIdx then ''thalos_to_tw'' else ''tw_to_thalos'')"

definition pull_status :: "string option \<Rightarrow> int \<Rightarrow> agreement \<Rightarrow> agreement" where
  "pull_status mapped t a = a\<lparr>a_status := default mapped (a_status a), a_updated_at := t\<rparr>"

text \<open>The branch that takes the escrow's status over.\<close>

definition pull_from_tw ::
    "'s backend \<Rightarrow> string \<Rightarrow> agreement \<Rightarrow> json \<Rightarrow> string option \<Rightarrow> string list \<Rightarrow> ('s world, sync_result) prog" where
  "pull_from_tw B agreementId a esc mapped actions =
     bnd (call (now B)) (\<lambda>t.
     bnd (if null_status esc then ret (Some null_violation)
          else call (update_rows (agreements B) (\<lambda>r. a_id r = agreementId) (pull_status mapped t))) (\<lambda>updateErr.
     case updateErr of
       Some e \<Rightarrow> ret \<lparr>sy_synced = False, sy_direction = Some ''tw_to_thalos'', sy_actions = actions,
         sy_errors = [''Failed to update Thalos status: '' @ e_message e]\<rparr>
     | None \<Rightarrow>
         let actions = actions @ [''Status updated in Thalos: '' @ dq (a_status a) @ '' -> '' @ dq (show_opt mapped)];
             parties = (esc_str ''sender'' esc \<noteq> [] \<or> esc_str ''receiver'' esc \<noteq> []) in
         bnd (if parties then syncParticipants B agreementId esc else ret ()) (\<lambda>_.
         bnd (logSyncActivity B agreementId ''pulled_from_tw''
           ([(''fromStatus'', JStr (a_status a))] @ jopt ''toStatus'' (mapped_json esc) @
            jopt ''twRawStatus'' (jget ''status'' esc) @ [contract_field a])) (\<lambda>_.
         ret \<lparr>sy_synced = True, sy_direction = Some ''tw_to_thalos'',
           sy_actions = actions @ (if parties then [''Participants synced from TW''] else []), sy_errors = []\<rparr>))))"

definition doSync :: "'s backend \<Rightarrow> string \<Rightarrow> ('s world, sync_result) prog" where
  "doSync B agreementId =
     bnd (call (select_single (agreements B) (\<lambda>a. a_id a = agreementId))) (\<lambda>(agreement, fetchErr).
     case (fetchErr, agreement) of
       (None, Some a) \<Rightarrow>
         if \<not> truthy (a_contract_id a) then
           ret \<lparr>sy_synced = True, sy_direction = None, sy_actions = [''No contract_id linked - skipping TW sync''], sy_errors = []\<rparr>
         else
           let contractId = default (a_contract_id a) [] in
           bnd (fetchTrustlessEscrow B contractId) (\<lambda>escrow.
           case escrow of
             None \<Rightarrow>
               bnd (logSyncActivity B agreementId ''fetch_failed'' [contract_field a]) (\<lambda>_.
               ret \<lparr>sy_synced = False, sy_direction = None, sy_actions = [],
                 sy_errors = [''Could not fetch escrow from Trustless Work'']\<rparr>)
           | Some esc \<Rightarrow>
               let fetched = ''Fetched escrow '' @ contractId @ '' from TW (status: '' @ show_opt (esc_status esc) @ '')'';
                   mapped = twMapped esc; currentStatus = a_status a in
               if mapped = Some currentStatus \<and> \<not> null_status esc then
                 bnd (logSyncActivity B agreementId ''already_in_sync'' [(''status'', JStr currentStatus), contract_field a]) (\<lambda>_.
                 ret \<lparr>sy_synced = True, sy_direction = Some ''already_in_sync'',
                   sy_actions = [fetched, ''Statuses match - already in sync''], sy_errors = []\<rparr>)
               else
                 let direction = sync_direction mapped currentStatus;
                     actions = [fetched, ''Sync direction: '' @ direction @ '' (Thalos: '' @ dq currentStatus @
                       '', TW mapped: '' @ dq (show_opt mapped) @ '')''] in
                 if direction = ''tw_to_thalos'' then
                   pull_from_tw B agreementId a esc mapped actions
                 else
                   bnd (logSyncActivity B agreementId ''push_pending''
                     ([(''fromStatus'', JStr currentStatus)] @ jopt ''toStatus'' (mapped_json esc) @ [contract_field a])) (\<lambda>_.
                   ret \<lparr>sy_synced = True, sy_direction = Some direction,
                     sy_actions = actions @ [''Thalos status '' @ dq currentStatus @ '' is ahead of TW '' @
                       dq (show_opt mapped) @ '' - deploy/fund/complete on TW client-side''], sy_errors = []\<rparr>))
     | _ \<Rightarrow> ret \<lparr>sy_synced = False, sy_direction = None, sy_actions = [],
         sy_errors = [case fetchErr of Some e \<Rightarrow> e_message e | None \<Rightarrow> ''Agreement not found'']\<rparr>)"

section \<open>\<open>doReconcile\<close>\<close>

definition jflag :: "string \<Rightarrow> json \<Rightarrow> bool option" where
  "jflag k v = map_option (\<lambda>x. jtruthy (Some x)) (jget k v)"

definition tw_milestone_of :: "json \<Rightarrow> tw_milestone" where
  "tw_milestone_of j = \<lparr>tw_status = (case jget ''status'' j of Some (JStr s) \<Rightarrow> Some s | _ \<Rightarrow> None),
     tw_approved = jflag ''approved'' j,
     tw_flags = map_option (\<lambda>f. \<lparr>twf_approved = jflag ''approved'' f, twf_released = jflag ''released'' f\<rparr>) (jget ''flags'' j)\<rparr>"

definition esc_milestones :: "json \<Rightarrow> json list option" where
  "esc_milestones esc = (case jget ''milestones'' esc of
     Some (JArr xs) \<Rightarrow> Some xs | v \<Rightarrow> if jtruthy v then Some [] else None)"

definition esc_released :: "json \<Rightarrow> bool" where
  "esc_released esc = (case jget ''flags'' esc of None \<Rightarrow> False | Some f \<Rightarrow> jtruthy (jget ''released'' f))"

text \<open>The milestones paired by index: the new list, and an action per change.\<close>

fun reconcile_milestones :: "nat \<Rightarrow> bool \<Rightarrow> milestone list \<Rightarrow> json list \<Rightarrow> milestone list \<times> string list" where
  "reconcile_milestones i released (m # ms) (t # ts) =
     (let tw = milestoneStatusFromTrustless (tw_milestone_of t) released;
          (ms', actions) = reconcile_milestones (Suc i) released ms ts
      in if ms_status m \<noteq> Some tw
         then (m\<lparr>ms_status := Some tw\<rparr> # ms',
           (''Reconciled milestone['' @ nat_str i @ ''] status: '' @ dq (show_opt (ms_status m)) @ '' -> '' @ dq tw) # actions)
         else (m # ms', actions))"
| "reconcile_milestones i released ms ts = (ms, [])"

definition doReconcile :: "'s backend \<Rightarrow> string \<Rightarrow> ('s world, reconcile_result) prog" where
  "doReconcile B agreementId =
     bnd (doSync B agreementId) (\<lambda>syncResult.
     if sy_direction syncResult = Some ''already_in_sync'' then
       ret \<lparr>rc_reconciled = True, rc_divergence = None, rc_resolution = None, rc_actions = sy_actions syncResult\<rparr>
     else if \<not> sy_synced syncResult \<and> length (sy_errors syncResult) > 0 then
       ret \<lparr>rc_reconciled = False, rc_divergence = Some (join ''; '' (sy_errors syncResult)),
         rc_resolution = Some ''Could not reconcile - errors during sync'', rc_actions = sy_actions syncResult\<rparr>
     else
       let finish = (\<lambda>actions. ret \<lparr>rc_reconciled = (length actions > 0),
             rc_divergence = (if sy_direction syncResult \<noteq> None then Some ''Status divergence: Thalos vs TW'' else None),
             rc_resolution = Some ''Divergence corrected'', rc_actions = actions\<rparr>) in
       bnd (call (select_single (agreements B) (\<lambda>a. a_id a = agreementId))) (\<lambda>(agreement, _).
       case agreement of
         None \<Rightarrow> finish (sy_actions syncResult)
       | Some a \<Rightarrow>
           if \<not> truthy (a_contract_id a) then finish (sy_actions syncResult)
           else bnd (fetchTrustlessEscrow B (default (a_contract_id a) [])) (\<lambda>escrow.
             case escrow of
               None \<Rightarrow> finish (sy_actions syncResult)
             | Some esc \<Rightarrow>
                 bnd (case (esc_milestones esc, a_milestones a) of
                    (Some tws, Some ms) \<Rightarrow>
                      let (ms', changes) = reconcile_milestones 0 (esc_released esc) ms tws in
                      bnd (call (now B)) (\<lambda>t.
                      bnd (call (update_rows (agreements B) (\<lambda>r. a_id r = agreementId)
                        (\<lambda>r. r\<lparr>a_milestones := Some ms', a_updated_at := t\<rparr>))) (\<lambda>_. ret changes))
                  | _ \<Rightarrow> ret []) (\<lambda>changes.
                 bnd (logSyncActivity B agreementId ''reconcile_completed''
                   ([(''thalosStatus'', JStr (a_status a))] @ jopt ''twStatus'' (jget ''status'' esc) @
                    [(''milestonesReconciled'', jnum (case esc_milestones esc of None \<Rightarrow> 0 | Some xs \<Rightarrow> length xs))])) (\<lambda>_.
                 finish (sy_actions syncResult @ changes))))))"

section \<open>The entry points\<close>

definition syncAgreement :: "'s backend \<Rightarrow> string \<Rightarrow> bool \<Rightarrow> ('s world, sync_result) prog" where
  "syncAgreement B agreementId useRetryQueue =
     (if useRetryQueue then
        bnd (spawn (SyncAgreement agreementId)) (\<lambda>_.
        ret \<lparr>sy_synced = False, sy_direction = None, sy_actions = [''Enqueued sync job to retry queue''], sy_errors = []\<rparr>)
      else doSync B agreementId)"

definition reconcileAgreement :: "'s backend \<Rightarrow> string \<Rightarrow> bool \<Rightarrow> ('s world, reconcile_result) prog" where
  "reconcileAgreement B agreementId useRetryQueue =
     (if useRetryQueue then
        bnd (spawn (ReconcileAgreement agreementId)) (\<lambda>_.
        ret \<lparr>rc_reconciled = False, rc_divergence = None, rc_resolution = None,
          rc_actions = [''Enqueued reconcile job to retry queue'']\<rparr>)
      else doReconcile B agreementId)"

text \<open>The job handlers the constructor registers: success, and the error text.\<close>

definition handle_sync_job :: "'s backend \<Rightarrow> string \<Rightarrow> ('s world, bool \<times> string option) prog" where
  "handle_sync_job B agreementId =
     bnd (doSync B agreementId) (\<lambda>r. ret (length (sy_errors r) = 0, Some (join ''; '' (sy_errors r))))"

definition handle_reconcile_job :: "'s backend \<Rightarrow> string \<Rightarrow> ('s world, bool \<times> string option) prog" where
  "handle_reconcile_job B agreementId =
     bnd (doReconcile B agreementId) (\<lambda>r. ret (rc_reconciled r,
       if length (rc_actions r) = 0 then Some ''Reconciliation did not change state'' else None))"

section \<open>What the engine may change\<close>

text \<open>
  The stages an agreement goes through, and a later stage. Of one agreement the status may change:
  while it is at a stage, only to a later one.
\<close>

definition stages :: "string list" where
  "stages = [''pending'', ''funded'', ''active'', ''in_review'', ''completed'']"

definition later_stage :: "string \<Rightarrow> string \<Rightarrow> bool" where
  "later_stage s s' \<longleftrightarrow> (\<exists>ps qs rs. stages = ps @ [s] @ qs @ [s'] @ rs)"

definition status_forward :: "string \<Rightarrow> agreement \<Rightarrow> agreement \<Rightarrow> bool" where
  "status_forward aid a a' \<longleftrightarrow> a' = a \<or>
     a_id a = aid \<and> a' = a\<lparr>a_status := a_status a', a_updated_at := a_updated_at a'\<rparr> \<and>
     (a_status a \<in> set stages \<longrightarrow> a_status a' = a_status a \<or> later_stage (a_status a) (a_status a'))"

text \<open>Beside it participants of this agreement with an escrow role may join, and the engine's entries in its log.\<close>

definition escrow_party :: "string \<Rightarrow> participant \<Rightarrow> bool" where
  "escrow_party aid p \<longleftrightarrow> p_agreement_id p = aid \<and> p_wallet p \<noteq> [] \<and>
     (p_role p = Some ''sender'' \<or> p_role p = Some ''receiver'' \<or> p_role p = Some ''approver'')"

definition engine_entry :: "string \<Rightarrow> activity_row \<Rightarrow> bool" where
  "engine_entry aid l \<longleftrightarrow> act_agreement_id l = aid \<and> act_actor l = ''SYNC_ENGINE''"

definition sync_effect :: "string \<Rightarrow> tables \<Rightarrow> tables \<Rightarrow> bool" where
  "sync_effect aid ts ts' \<longleftrightarrow>
     ts' = ts\<lparr>t_agreements := t_agreements ts', t_participants := t_participants ts', t_activity := t_activity ts'\<rparr> \<and>
     list_all2 (status_forward aid) (t_agreements ts) (t_agreements ts') \<and>
     (\<exists>ps. t_participants ts' = t_participants ts @ ps \<and> list_all (escrow_party aid) ps) \<and>
     (\<exists>ls. t_activity ts' = t_activity ts @ ls \<and> list_all (engine_entry aid) ls)"

lemma status_forward_refl [simp]: "status_forward aid a a"
  by (simp add: status_forward_def)

lemma sync_effect_refl [simp]: "sync_effect aid ts ts"
  by (simp add: sync_effect_def list_all2_same)

text \<open>Such additions alone.\<close>

definition engine_logged :: "string \<Rightarrow> tables \<Rightarrow> tables \<Rightarrow> bool" where
  "engine_logged aid ts ts' \<longleftrightarrow> (\<exists>ls. ts' = ts\<lparr>t_activity := t_activity ts @ ls\<rparr> \<and> list_all (engine_entry aid) ls)"

definition parties_joined :: "string \<Rightarrow> tables \<Rightarrow> tables \<Rightarrow> bool" where
  "parties_joined aid ts ts' \<longleftrightarrow> (\<exists>ps. ts' = ts\<lparr>t_participants := t_participants ts @ ps\<rparr> \<and> list_all (escrow_party aid) ps)"

lemma engine_logged_refl [simp]: "engine_logged aid ts ts"
  unfolding engine_logged_def by (rule exI [of _ "[]"]) simp

lemma parties_joined_refl [simp]: "parties_joined aid ts ts"
  unfolding parties_joined_def by (rule exI [of _ "[]"]) simp

lemma engine_logged_log: "engine_logged aid ts us \<Longrightarrow> same_but_log ts us"
  by (auto simp: engine_logged_def same_but_log_def)

lemma sync_effect_log: "sync_effect aid ts us \<Longrightarrow> engine_logged aid us vs \<Longrightarrow> sync_effect aid ts vs"
  by (cases ts; cases us; cases vs) (force simp: engine_logged_def sync_effect_def)

lemma sync_effect_participants:
  "sync_effect aid ts us \<Longrightarrow> parties_joined aid us vs \<Longrightarrow> sync_effect aid ts vs"
  by (cases ts; cases us; cases vs) (force simp: parties_joined_def sync_effect_def)

lemma sync_direction_cases: "sync_direction m s = ''tw_to_thalos'' \<or> sync_direction m s = ''thalos_to_tw''"
  by (simp add: sync_direction_def Let_def)

text \<open>A pull from a stage goes to a later one, or leaves the status as it is.\<close>

lemma later_stage_nth:
  assumes "i < j" and "j < length stages"
  shows "later_stage (stages ! i) (stages ! j)"
proof -
  have "stages = take i stages @ [stages ! i] @ take (j - Suc i) (drop (Suc i) stages) @ [stages ! j] @ drop (Suc j) stages"
    using assms id_take_nth_drop [of i stages] id_take_nth_drop [of "j - Suc i" "drop (Suc i) stages"] by simp
  then show ?thesis unfolding later_stage_def by blast
qed

lemma index_of_nth: "0 \<le> index_of xs x \<Longrightarrow> nat (index_of xs x) < length xs \<and> xs ! nat (index_of xs x) = x"
  by (induction xs) (auto simp: Let_def nth_Cons' nat_add_distrib split: if_splits)

lemma index_of_mem: "x \<in> set xs \<Longrightarrow> 0 \<le> index_of xs x"
  by (induction xs) (auto simp: Let_def)

lemma pull_forward:
  assumes "sync_direction mapped s = ''tw_to_thalos''" and "s \<in> set stages"
  shows "default mapped s = s \<or> later_stage s (default mapped s)"
proof (cases mapped)
  case (Some s')
  have order: "statusOrder = stages" by (simp add: statusOrder_def stages_def)
  define i where "i = index_of stages s"
  define j where "j = index_of stages s'"
  have "i \<le> j"
    using assms(1) unfolding Some sync_direction_def Let_def option.case order i_def [symmetric] j_def [symmetric]
    by (simp split: if_splits)
  moreover have i: "0 \<le> i" unfolding i_def by (rule index_of_mem [OF assms(2)])
  ultimately have j: "0 \<le> j" by simp
  note ni = index_of_nth [of stages s, folded i_def, OF i] and nj = index_of_nth [of stages s', folded j_def, OF j]
  show ?thesis
  proof (cases "i = j")
    case True
    then show ?thesis using ni nj Some by simp
  next
    case False
    then have "nat i < nat j" using \<open>i \<le> j\<close> i by simp
    then show ?thesis
      using later_stage_nth [of "nat i" "nat j"] ni nj Some by simp
  qed
qed simp

lemma sync_effect_pull:
  assumes one: "filter (\<lambda>a. a_id a = aid) (t_agreements ts) = [a]"
    and dir: "sync_direction mapped (a_status a) = ''tw_to_thalos''"
  shows "sync_effect aid ts (ts\<lparr>t_agreements := update_where (\<lambda>r. a_id r = aid) (pull_status mapped t) (t_agreements ts)\<rparr>)"
proof -
  have same: "r = a" if "r \<in> set (t_agreements ts)" "a_id r = aid" for r
  proof -
    have "r \<in> set (filter (\<lambda>a. a_id a = aid) (t_agreements ts))" using that by simp
    then show ?thesis unfolding one by simp
  qed
  have "status_forward aid a (pull_status mapped t a)" if "a_id a = aid"
    using that pull_forward [OF dir] by (auto simp: status_forward_def pull_status_def)
  then show ?thesis
    using same by (auto simp: sync_effect_def update_where_def list_all2_map2 list_all2_same)
qed

text \<open>The world's other parts: no event, no task.\<close>

definition quiet :: "'s world \<Rightarrow> 's world \<Rightarrow> bool" where
  "quiet w w' \<longleftrightarrow> emitted w' = emitted w \<and> spawned w' = spawned w"

lemma quiet_simps [simp]:
  "quiet w w" "quiet w (v\<lparr>svc := s\<rparr>) = quiet w v" "quiet w (v\<lparr>sent := l\<rparr>) = quiet w v"
  "quiet (v\<lparr>svc := s\<rparr>) w = quiet v w" "quiet (v\<lparr>sent := l\<rparr>) w = quiet v w"
  by (simp_all add: quiet_def)

lemma quiet_trans: "quiet a b \<Longrightarrow> quiet b c \<Longrightarrow> quiet a c"
  by (simp add: quiet_def)

lemmas sync_effect_log1 = sync_effect_log [OF sync_effect_refl]

lemma missing_participants_parties: "list_all (escrow_party aid) (missing_participants aid esc existing)"
  by (simp add: missing_participants_def Let_def escrow_party_def new_participant_def)

context database
begin

lemma wp_relayToTrustless:
  assumes "\<And>r w'. st (svc w') = st (svc w) \<Longrightarrow> quiet w w' \<Longrightarrow> Q r w'"
  shows "wp (relayToTrustless B meth path query body) Q w"
  unfolding relayToTrustless_def
  by (auto simp: wp_simps lift_exn_def intro!: wp_fetch assms split: sum.splits)

lemma wp_fetchTrustlessEscrow:
  assumes "\<And>r w'. st (svc w') = st (svc w) \<Longrightarrow> quiet w w' \<Longrightarrow> Q (Inr r) w'"
  shows "wp (fetchTrustlessEscrow B cid) Q w"
  unfolding fetchTrustlessEscrow_def
  by (auto simp: wp_simps lift_exn_def intro!: wp_relayToTrustless assms split: sum.splits prod.splits
      elim: quiet_trans)

lemma engine_entry_made:
  assumes "list_all2 (\<lambda>r q. \<exists>i t. q = gen_activity i t r) [activity_entry aid ''SYNC_ENGINE'' a d p n] qs"
  shows "engine_logged aid ts (ts\<lparr>t_activity := t_activity ts @ qs\<rparr>)"
  using assms
  by (auto simp: engine_logged_def engine_entry_def gen_activity_def activity_entry_def list_all2_Cons1 intro!: exI [of _ qs])

lemma wp_engine_log:
  assumes "\<And>w'. engine_logged aid (st (svc w)) (st (svc w')) \<Longrightarrow> quiet w w' \<Longrightarrow> Q (Inr ()) w'"
  shows "wp (logSyncActivity B aid action details) Q w"
  unfolding logSyncActivity_def logActivity_def
  by (auto simp: wp_simps intro!: wp_now activity_wp assms engine_entry_made)

lemma wp_logSyncActivity:
  assumes "\<And>w'. same_but_log (st (svc w)) (st (svc w')) \<Longrightarrow> quiet w w' \<Longrightarrow> Q (Inr ()) w'"
  shows "wp (logSyncActivity B aid action details) Q w"
  by (rule wp_engine_log) (auto intro: assms engine_logged_log)

lemma escrow_parties_made:
  assumes "list_all2 (\<lambda>r q. \<exists>i t. q = gen_participant i t r) (missing_participants aid esc existing) qs"
  shows "parties_joined aid ts (ts\<lparr>t_participants := t_participants ts @ qs\<rparr>)"
proof -
  have "list_all (escrow_party aid) qs"
    using assms missing_participants_parties [of aid esc existing]
    by (induction rule: list_all2_induct) (auto simp: escrow_party_def gen_participant_def)
  then show ?thesis by (auto simp: parties_joined_def)
qed

lemma wp_syncParticipants:
  assumes "\<And>w'. parties_joined aid (st (svc w)) (st (svc w')) \<Longrightarrow> quiet w w' \<Longrightarrow> Q (Inr ()) w'"
  shows "wp (syncParticipants B aid esc) Q w"
  unfolding syncParticipants_def Let_def wp_bnd [of "call x" for x]
proof (rule participants_wp(1), goal_cases)
  case (1 e s')
  then show ?case
    by (auto simp: wp_simps intro!: participants_wp(6) assms escrow_parties_made)
next
  case (2 s')
  then show ?case
    by (auto simp: wp_simps intro!: participants_wp(6) assms escrow_parties_made)
qed

text \<open>After the status was pulled: the participants, then the log.\<close>

lemma wp_after_pull:
  assumes eff: "sync_effect aid ts (st (svc w))"
    and post: "\<And>w'. sync_effect aid ts (st (svc w')) \<Longrightarrow> quiet w w' \<Longrightarrow> wp (k ()) Q w'"
  shows "wp (bnd (if c then syncParticipants B aid esc else ret ()) (\<lambda>_.
    bnd (logSyncActivity B aid action details) k)) Q w"
proof -
  have rest: "wp (bnd (logSyncActivity B aid action details) k) Q v"
    if "sync_effect aid ts (st (svc v))" "quiet w v" for v
    using that unfolding wp_bnd
    by (intro wp_engine_log) (auto intro: post sync_effect_log quiet_trans)
  show ?thesis
    unfolding wp_bnd
    by (cases c) (auto simp: wp_simps intro!: wp_syncParticipants eff rest [unfolded wp_bnd]
        intro: sync_effect_participants [OF eff])
qed

lemma wp_pull_from_tw:
  assumes one: "filter (\<lambda>r. a_id r = aid) (t_agreements (st (svc w))) = [a]"
    and dir: "sync_direction mapped (a_status a) = ''tw_to_thalos''"
    and post: "\<And>res w'. sync_effect aid (st (svc w)) (st (svc w')) \<Longrightarrow> quiet w w' \<Longrightarrow> Q (Inr res) w'"
  shows "wp (pull_from_tw B aid a esc mapped actions) Q w"
proof -
  have pulled: "wp (bnd (if c then syncParticipants B aid esc else ret ()) (\<lambda>_.
      bnd (logSyncActivity B aid action details) (\<lambda>_. ret res))) Q v"
    if "sync_effect aid (st (svc w)) (st (svc v))" "quiet w v" for c action details res v
    using that by (intro wp_after_pull) (auto simp: wp_ret intro: post quiet_trans)
  note pulled' = pulled [where c = True, unfolded if_True] pulled [where c = False, unfolded if_False]
  show ?thesis
  proof (cases "null_status esc")
    case True
    then show ?thesis
      unfolding pull_from_tw_def Let_def wp_bnd [of "call x" for x] if_P [OF True] bnd_ret_left option.case
      by (intro wp_now) (auto simp: wp_ret intro: post)
  next
    case False
    show ?thesis
      unfolding pull_from_tw_def Let_def wp_bnd [of "call x" for x] if_not_P [OF False]
      by (intro wp_now) (auto simp: wp_ret sync_effect_pull [OF one dir] intro!: agreements_wp(7) pulled' post)
  qed
qed

lemma wp_doSync:
  assumes "\<And>res w'. sync_effect aid (st (svc w)) (st (svc w')) \<Longrightarrow> quiet w w' \<Longrightarrow> Q (Inr res) w'"
  shows "wp (doSync B aid) Q w"
  unfolding doSync_def Let_def
  by (auto simp: wp_simps simp del: append.simps intro!: agreements_wp(3) wp_fetchTrustlessEscrow wp_engine_log wp_pull_from_tw assms
      split: option.splits) (blast intro: sync_effect_log1 quiet_trans)+

end

lemma reconcile_milestones_cases:
  "fst (reconcile_milestones n rel (m # ms) (t # ts)) =
     m\<lparr>ms_status := Some (milestoneStatusFromTrustless (tw_milestone_of t) rel)\<rparr> #
     fst (reconcile_milestones (Suc n) rel ms ts)"
  by (simp add: Let_def split: prod.splits)

lemma length_reconcile [simp]: "length (fst (reconcile_milestones n rel ms ts)) = length ms"
  by (induction n rel ms ts rule: reconcile_milestones.induct) (auto simp: Let_def split: prod.splits)

section \<open>Properties\<close>


definition linked_agreement :: "string \<Rightarrow> agreement" where
  "linked_agreement status = \<lparr>a_id = ''A1'', a_contract_id = Some ''C1'', a_title = ''Site'', a_description = None,
     a_amount = ''100'', a_asset = None, a_status = status, a_type = Some ''single'', a_milestones = Some [],
     a_metadata = JObj [], a_created_by = ''GA'', a_created_at = 1, a_updated_at = 1, a_funded_at = None,
     a_completed_at = None\<rparr>"

definition escrow_reply :: "string \<Rightarrow> nat \<Rightarrow> http_request \<Rightarrow> string + http_response" where
  "escrow_reply status n rq = Inr \<lparr>rp_status = 200,
     rp_body = Json (JObj [(''id'', JStr ''C1''), (''status'', JStr status), (''sender'', JStr ''GA'')])\<rparr>"

definition sync_world :: "string \<Rightarrow> string \<Rightarrow> mem world" where
  "sync_world thalos tw = world_on (no_tables\<lparr>t_agreements := [linked_agreement thalos]\<rparr>)
     (quiet_env\<lparr>reply := escrow_reply tw\<rparr>)"

definition sync_run :: "string \<Rightarrow> string \<Rightarrow> (exn + sync_result) \<times> mem world" where
  "sync_run thalos tw = doSync (mem_backend sample_vars) ''A1'' (sync_world thalos tw)"

definition statuses :: "mem world \<Rightarrow> string list" where
  "statuses w = map a_status (t_agreements (tabs (svc w)))"


text \<open>
  The order knows no terminal state: the statuses outside it count as earliest, so a sync takes a
  cancelled agreement back to pending and a resolved one back to disputed, although the
  lifecycle has no step out of either.
\<close>

theorem sync_leaves_terminal:
  "isTerminalStatus ''cancelled'' \<and> statuses (snd (sync_run ''cancelled'' ''created'')) = [''pending''] \<and>
   isTerminalStatus ''resolved'' \<and> statuses (snd (sync_run ''resolved'' ''disputed'')) = [''disputed'']"
  by (intro conjI; code_simp)

text \<open>
  Reconciliation pairs the milestones by index: each that Trustless Work reports gets exactly
  the status read from its flags and keeps everything else, the others stay as they are, and
  the list keeps its length.
\<close>

theorem reconcile_milestones_spec:
  assumes "i < length ms"
  shows "length (fst (reconcile_milestones n rel ms ts)) = length ms \<and>
    fst (reconcile_milestones n rel ms ts) ! i =
      (if i < length ts
       then (ms ! i)\<lparr>ms_status := Some (milestoneStatusFromTrustless (tw_milestone_of (ts ! i)) rel)\<rparr>
       else ms ! i)"
  using assms
proof (induction n rel ms ts arbitrary: i rule: reconcile_milestones.induct)
  case (1 n rel m ms t ts)
  then show ?case by (cases i) (simp_all only: reconcile_milestones_cases, auto)
qed auto

lemma reconcile_milestones_spec_witness:
  "length (fst (reconcile_milestones 0 True [sample_milestone ''5'', sample_milestone ''6''] [JObj []])) = 2 \<and>
   ms_status (fst (reconcile_milestones 0 True [sample_milestone ''5'', sample_milestone ''6''] [JObj []]) ! 0) = Some ''released''"
  using reconcile_milestones_spec [of 0 "[sample_milestone ''5'', sample_milestone ''6'']" 0 True "[JObj []]"]
  by (simp add: milestoneStatusFromTrustless_def del: reconcile_milestones.simps)

end
