(* ===== verification/Agreements.thy ===== *)
theory Agreements
  imports Sync
begin

text \<open>
  \<open>agreements/agreements.service.ts\<close>: creating, linking, listing agreements, and the two paths that
  change a status, the user's \<open>updateStatus\<close> and the internal \<open>applyStatusChange\<close>. The lemmas
  give each operation's effect on the tables over any database that keeps its laws.
\<close>

section \<open>Requests and answers\<close>

record create_dto = agreement_input +
  cd_contract_id :: "string option"
  cd_metadata :: "json option"
  cd_created_by :: string

record update_status_dto =
  us_status :: string
  us_actor :: string

record update_milestone_dto =
  um_index :: int
  um_status :: string
  um_actor :: string
  um_evidence_description :: "string option"
  um_evidence_urls :: "string list option"

text \<open>The \<open>error\<close> of an envelope: a message, or the validator's error object.\<close>

datatype api_error = Message string | Validation string "detail list"

record status_outcome =
  so_success :: bool
  so_error :: "string option"
  so_from :: "string option"

definition failure :: "string \<Rightarrow> status_outcome" where
  "failure m = \<lparr>so_success = False, so_error = Some m, so_from = None\<rparr>"

definition success :: status_outcome where
  "success = \<lparr>so_success = True, so_error = None, so_from = None\<rparr>"

text \<open>\<open>fetchError?.message || fallback\<close>.\<close>

definition error_or :: "db_error option \<Rightarrow> string \<Rightarrow> string" where
  "error_or e d = or_else (map_option e_message e) d"

section \<open>\<open>create\<close>\<close>

definition agreement_row :: "create_dto \<Rightarrow> agreement" where
  "agreement_row dto = \<lparr>a_id = [], a_contract_id = cd_contract_id dto, a_title = in_title dto,
     a_description = in_description dto, a_amount = in_amount dto,
     a_asset = Some (default (in_asset dto) ''USDC''), a_status = ''pending'',
     a_type = Some (default (in_type dto) ''single''), a_milestones = Some (default (in_milestones dto) []),
     a_metadata = default (cd_metadata dto) (JObj []), a_created_by = cd_created_by dto,
     a_created_at = 0, a_updated_at = 0, a_funded_at = None, a_completed_at = None\<rparr>"

definition logMilestonesCreated :: "'s backend \<Rightarrow> string \<Rightarrow> string \<Rightarrow> milestone list \<Rightarrow> ('s world, unit) prog" where
  "logMilestonesCreated B agreementId creator ms =
     for_each (\<lambda>(index, m). logActivity B agreementId creator ''milestone_created''
         (JObj ([(''milestone_index'', jnum index)] @ jopt ''milestone_description'' (map_option JStr (ms_description m))))
         None (Some (default (ms_status m) ''pending'')))
       (enumerate 0 ms)"

definition created_event :: "create_dto \<Rightarrow> agreement \<Rightarrow> json" where
  "created_event dto a = JObj ([(''agreementId'', JStr (a_id a)), (''title'', JStr (in_title dto))] @
     jopt ''description'' (map_option JStr (in_description dto)) @
     [(''amount'', JStr (in_amount dto)), (''asset'', JStr (default (in_asset dto) ''USDC'')),
      (''createdByWallet'', JStr (cd_created_by dto)),
      (''participantWallets'', JArr (map (\<lambda>p. JStr (pi_wallet p)) (in_participants dto)))])"

text \<open>Everything after the validation.\<close>

definition create_valid :: "'s backend \<Rightarrow> string \<Rightarrow> create_dto \<Rightarrow> ('s world, agreement option \<times> api_error option) prog" where
  "create_valid B userId dto =
     bnd (assertActorWallet B userId (cd_created_by dto)) (\<lambda>_.
     bnd (call (insert_row (agreements B) (agreement_row dto))) (\<lambda>(agreement, agreementError).
     case agreementError of
       Some e \<Rightarrow> ret (None, Some (Message (e_message e)))
     | None \<Rightarrow> (case agreement of
         None \<Rightarrow> throw (PlainError ''TypeError'')
       | Some a \<Rightarrow>
           bnd (call (insert_rows (participants B)
             (map (\<lambda>p. new_participant (a_id a) (pi_wallet p) (pi_role p)) (in_participants dto)))) (\<lambda>participantsError.
           case participantsError of
             Some e \<Rightarrow>
               bnd (call (delete_rows (agreements B) (\<lambda>r. a_id r = a_id a))) (\<lambda>_.
               throw (BadRequest (Msg (''Failed to create agreement participants: '' @ e_message e))))
           | None \<Rightarrow>
               bnd (logActivity B (a_id a) (cd_created_by dto) ''created''
                 (JObj [(''title'', JStr (in_title dto)), (''amount'', JStr (in_amount dto))]) None None) (\<lambda>_.
               bnd (logMilestonesCreated B (a_id a) (cd_created_by dto) (default (a_milestones a) [])) (\<lambda>_.
               bnd (emit ''agreement.created'' (created_event dto a)) (\<lambda>_.
               bnd (if truthy (a_contract_id a) then spawn (SyncAgreement (a_id a)) else ret ()) (\<lambda>_.
               ret (Some a, None)))))))))"

definition create :: "'s backend \<Rightarrow> string \<Rightarrow> create_dto \<Rightarrow> ('s world, agreement option \<times> api_error option) prog" where
  "create B userId dto =
     (case validateAgreement (agreement_input.truncate dto) of
        Some (code, details) \<Rightarrow> ret (None, Some (Validation code details))
      | None \<Rightarrow> create_valid B userId dto)"

section \<open>\<open>linkContract\<close>\<close>

definition linkContract :: "'s backend \<Rightarrow> string \<Rightarrow> string \<Rightarrow> string \<Rightarrow> string \<Rightarrow> ('s world, status_outcome) prog" where
  "linkContract B userId agreementId contractId actor =
     bnd (assertCanAccessAgreement B userId agreementId) (\<lambda>_.
     bnd (assertActorWallet B userId actor) (\<lambda>_.
     bnd (validateContractOnTrustless B contractId) (\<lambda>twValidation.
     case twValidation of
       Some e \<Rightarrow> ret (failure e)
     | None \<Rightarrow>
         bnd (call (now B)) (\<lambda>t.
         bnd (call (update_rows (agreements B) (\<lambda>r. a_id r = agreementId)
           (\<lambda>r. r\<lparr>a_contract_id := Some contractId, a_updated_at := t\<rparr>))) (\<lambda>error.
         case error of
           Some e \<Rightarrow> ret (failure (e_message e))
         | None \<Rightarrow>
             bnd (logActivity B agreementId actor ''contract_linked'' (JObj [(''contract_id'', JStr contractId)]) None None) (\<lambda>_.
             bnd (spawn (SyncAgreement agreementId)) (\<lambda>_.
             ret success)))))))"

section \<open>Changing the status\<close>

text \<open>The columns a status change writes; every time stamp is its own reading of the clock.\<close>

definition status_columns :: "string \<Rightarrow> int \<Rightarrow> int \<Rightarrow> agreement \<Rightarrow> agreement" where
  "status_columns toStatus t1 t2 a =
     (let a' = a\<lparr>a_status := toStatus, a_updated_at := t1\<rparr>
      in if toStatus = ''funded'' then a'\<lparr>a_funded_at := Some t2\<rparr>
         else if toStatus = ''completed'' \<or> toStatus = ''resolved'' then a'\<lparr>a_completed_at := Some t2\<rparr>
         else a')"

definition write_status :: "'s backend \<Rightarrow> string \<Rightarrow> string \<Rightarrow> ('s world, db_error option) prog" where
  "write_status B agreementId toStatus =
     bnd (call (now B)) (\<lambda>t1.
     bnd (if toStatus \<in> {''funded'', ''completed'', ''resolved''} then call (now B) else ret t1) (\<lambda>t2.
     call (update_rows (agreements B) (\<lambda>r. a_id r = agreementId) (status_columns toStatus t1 t2))))"

definition log_status_change ::
    "'s backend \<Rightarrow> string \<Rightarrow> string \<Rightarrow> string \<Rightarrow> string \<Rightarrow> (string \<times> json) list \<Rightarrow> ('s world, unit) prog" where
  "log_status_change B agreementId actor fromStatus toStatus details =
     logActivity B agreementId actor (''status_changed_to_'' @ toStatus)
       (JObj ([(''status'', JStr toStatus), (''from'', JStr fromStatus), (''to'', JStr toStatus)] @ details))
       (Some fromStatus) (Some toStatus)"

definition updateStatus :: "'s backend \<Rightarrow> string \<Rightarrow> string \<Rightarrow> update_status_dto \<Rightarrow> ('s world, status_outcome) prog" where
  "updateStatus B userId agreementId dto =
     bnd (assertCanAccessAgreement B userId agreementId) (\<lambda>_.
     bnd (assertActorWallet B userId (us_actor dto)) (\<lambda>_.
     bnd (call (select_single (agreements B) (\<lambda>a. a_id a = agreementId))) (\<lambda>(current, fetchError).
     case (fetchError, current) of
       (None, Some a) \<Rightarrow>
         bnd (lift_exn (service_validateTransition (a_status a) (us_status dto))) (\<lambda>refusal.
         case refusal of
           Some reason \<Rightarrow> throw (BadRequest (Msg reason))
         | None \<Rightarrow>
             bnd (require (\<not> (us_status dto = ''completed'' \<and> \<not> milestonesSatisfyCompletion (a_milestones a)))
               (BadRequest (Coded ''VALIDATION_ERROR'' [mk_detail ''status'' ''INVALID_TRANSITION''
                 ''All milestones must be approved or released before the agreement can be completed'']))) (\<lambda>_.
             bnd (write_status B agreementId (us_status dto)) (\<lambda>error.
             case error of
               Some e \<Rightarrow> ret (failure (e_message e))
             | None \<Rightarrow>
                 bnd (log_status_change B agreementId (us_actor dto) (a_status a) (us_status dto) []) (\<lambda>_.
                 bnd (spawn (SyncStatusTransition agreementId (a_status a) (us_status dto))) (\<lambda>_.
                 bnd (emit_lifecycle B agreementId a (us_status dto) (us_actor dto)) (\<lambda>_.
                 ret success))))))
     | _ \<Rightarrow> ret (failure (error_or fetchError ''Agreement not found'')))))"

text \<open>\<open>options\<close>: the status to transition from, whether to enforce the table, more details to log.\<close>

definition applyStatusChange ::
    "'s backend \<Rightarrow> string \<Rightarrow> string \<Rightarrow> string \<Rightarrow> string option \<Rightarrow> bool \<Rightarrow> (string \<times> json) list \<Rightarrow>
     ('s world, status_outcome) prog" where
  "applyStatusChange B agreementId actor toStatus optFrom enforce details =
     bnd (call (select_single (agreements B) (\<lambda>a. a_id a = agreementId))) (\<lambda>(current, fetchError).
     case (fetchError, current) of
       (None, Some a) \<Rightarrow>
         let fromStatus = default optFrom (a_status a) in
         bnd (if enforce then lift_exn (service_validateTransition fromStatus toStatus) else ret None) (\<lambda>refusal.
         case refusal of
           Some reason \<Rightarrow> ret (failure reason)
         | None \<Rightarrow>
             bnd (write_status B agreementId toStatus) (\<lambda>error.
             case error of
               Some e \<Rightarrow> ret (failure (e_message e))
             | None \<Rightarrow>
                 bnd (log_status_change B agreementId actor fromStatus toStatus details) (\<lambda>_.
                 bnd (emit_lifecycle B agreementId a toStatus actor) (\<lambda>_.
                 ret (success\<lparr>so_from := Some fromStatus\<rparr>)))))
     | _ \<Rightarrow> ret (failure (error_or fetchError ''Agreement not found'')))"

section \<open>\<open>updateMilestone\<close>\<close>

definition emits_evidence :: "update_milestone_dto \<Rightarrow> bool" where
  "emits_evidence dto \<longleftrightarrow> um_evidence_description dto \<noteq> None \<or> um_evidence_urls dto \<noteq> None"

definition apply_milestone :: "update_milestone_dto \<Rightarrow> int \<Rightarrow> milestone \<Rightarrow> milestone" where
  "apply_milestone dto t m =
     (let m1 = m\<lparr>ms_status := Some (um_status dto)\<rparr>;
          m2 = (case um_evidence_description dto of None \<Rightarrow> m1 | Some d \<Rightarrow> m1\<lparr>ms_evidence_description := Some d\<rparr>);
          m3 = (case um_evidence_urls dto of None \<Rightarrow> m2 | Some us \<Rightarrow> m2\<lparr>ms_evidence_urls := Some us\<rparr>)
      in if emits_evidence dto then m3\<lparr>ms_evidence_at := Some t\<rparr> else m3)"

definition jurls :: "string list option \<Rightarrow> json option" where
  "jurls us = map_option (\<lambda>xs. JArr (map JStr xs)) us"

definition milestone_fields :: "update_milestone_dto \<Rightarrow> milestone \<Rightarrow> string \<Rightarrow> (string \<times> json) list" where
  "milestone_fields dto m asset =
     [(''milestoneIndex'', JNum (of_int (um_index dto)))] @
     jopt ''milestoneDescription'' (map_option JStr (ms_description m)) @
     jopt ''milestoneAmount'' (map_option JStr (ms_amount m)) @ [(''asset'', JStr asset)]"

definition milestone_log :: "update_milestone_dto \<Rightarrow> milestone \<Rightarrow> string option \<Rightarrow> string \<Rightarrow> json" where
  "milestone_log dto m previous asset =
     JObj ([(''milestone_index'', JNum (of_int (um_index dto)))] @
       jopt ''milestone_description'' (map_option JStr (ms_description m)) @
       jopt ''from'' (map_option JStr previous) @ [(''to'', JStr (um_status dto))] @
       jopt ''milestone_amount'' (map_option JStr (ms_amount m)) @ [(''asset'', JStr asset)] @
       jopt ''evidence_description'' (map_option JStr (um_evidence_description dto)) @
       jopt ''evidence_urls'' (jurls (um_evidence_urls dto)))"

text \<open>The events, in order, from the row as read and the milestone as written.\<close>

definition milestone_events :: "update_milestone_dto \<Rightarrow> string \<Rightarrow> agreement \<Rightarrow> milestone \<Rightarrow> string option \<Rightarrow> event list" where
  "milestone_events dto agreementId a m previous =
     (let asset = default (a_asset a) ''USDC'';
          common = milestone_fields dto m asset;
          contract = [(''contractId'', jnullable (a_contract_id a)), (''serviceType'', jnullable (a_type a))]
      in (if emits_evidence dto then
            [(''evidence.submitted'', JObj ([(''agreementId'', JStr (a_id a)), (''agreementTitle'', JStr (a_title a))] @ common @
               [(''submittedByWallet'', JStr (um_actor dto))] @
               jopt ''evidenceDescription'' (map_option JStr (um_evidence_description dto)) @
               jopt ''evidenceUrls'' (jurls (um_evidence_urls dto))))] else []) @
         (if previous \<noteq> Some ''approved'' \<and> um_status dto = ''approved'' then
            [(''milestone.approved'', JObj ([(''agreementId'', JStr (a_id a)), (''agreementTitle'', JStr (a_title a))] @ common @
               [(''approvedByWallet'', JStr (um_actor dto))] @ contract))] else []) @
         (if um_status dto = ''released'' then
            [(''milestone.released'', JObj ([(''agreementId'', JStr agreementId), (''agreementTitle'', JStr (a_title a))] @ common @ contract @
               [(''actorWallet'', JStr (um_actor dto))] @
               jopt ''evidence'' (map_option JStr (um_evidence_description dto))))] else []))"

definition emit_all :: "event list \<Rightarrow> ('s world, unit) prog" where
  "emit_all es = for_each (\<lambda>(n, p). emit n p) es"

text \<open>The rest of the handler, from the milestones of the row and the time of the evidence.\<close>

definition save_milestone ::
    "'s backend \<Rightarrow> string \<Rightarrow> update_milestone_dto \<Rightarrow> agreement \<Rightarrow> milestone list \<Rightarrow> int \<Rightarrow> ('s world, status_outcome) prog" where
  "save_milestone B agreementId dto a milestones t =
     (let old = milestones ! nat (um_index dto); previous = ms_status old;
          m = apply_milestone dto t old; milestones' = milestones[nat (um_index dto) := m]
      in case validateAgreementConsistency (a_amount a) (Some milestones') of
           Some (code, details) \<Rightarrow> throw (BadRequest (Coded code details))
         | None \<Rightarrow>
             bnd (call (now B)) (\<lambda>t2.
             bnd (call (update_rows (agreements B) (\<lambda>r. a_id r = agreementId)
               (\<lambda>r. r\<lparr>a_milestones := Some milestones', a_updated_at := t2\<rparr>))) (\<lambda>updateError.
             case updateError of
               Some e \<Rightarrow> ret (failure (e_message e))
             | None \<Rightarrow>
                 bnd (logActivity B agreementId (um_actor dto) (''milestone_'' @ um_status dto)
                   (milestone_log dto m previous (default (a_asset a) ''USDC'')) previous (Some (um_status dto))) (\<lambda>_.
                 bnd (emit_all (milestone_events dto agreementId a m previous)) (\<lambda>_.
                 bnd (spawn (SyncAgreement agreementId)) (\<lambda>_.
                 ret success))))))"

definition updateMilestone :: "'s backend \<Rightarrow> string \<Rightarrow> string \<Rightarrow> update_milestone_dto \<Rightarrow> ('s world, status_outcome) prog" where
  "updateMilestone B userId agreementId dto =
     bnd (assertCanAccessAgreement B userId agreementId) (\<lambda>_.
     bnd (assertActorWallet B userId (um_actor dto)) (\<lambda>_.
     bnd (call (select_single (agreements B) (\<lambda>a. a_id a = agreementId))) (\<lambda>(agreement, fetchError).
     case (fetchError, agreement) of
       (None, Some a) \<Rightarrow> (case a_milestones a of
           None \<Rightarrow> throw (PlainError ''TypeError'')
         | Some milestones \<Rightarrow>
             if um_index dto < 0 \<or> int (length milestones) \<le> um_index dto then ret (failure ''Invalid milestone index'')
             else bnd (if emits_evidence dto then call (now B) else ret 0)
               (save_milestone B agreementId dto a milestones))
     | _ \<Rightarrow> ret (failure (error_or fetchError ''Not found'')))))"

section \<open>Reading\<close>

definition newest_first :: "agreement list \<Rightarrow> agreement list" where
  "newest_first rs = rev (sort_key a_created_at rs)"

definition agreementIdsForWallets :: "'s backend \<Rightarrow> string list \<Rightarrow> ('s world, string list \<times> string option) prog" where
  "agreementIdsForWallets B ws =
     (if length ws = 0 then ret ([], None) else
      bnd (call (select_rows (participants B) (\<lambda>p. p_wallet p \<in> set ws) (\<lambda>rs. rs))) (\<lambda>(participations, partError).
      case partError of Some e \<Rightarrow> ret ([], Some (e_message e)) | None \<Rightarrow>
      bnd (call (select_rows (agreements B) (\<lambda>a. a_created_by a \<in> set ws) (\<lambda>rs. rs))) (\<lambda>(createdRows, createdError).
      case createdError of Some e \<Rightarrow> ret ([], Some (e_message e)) | None \<Rightarrow>
      ret (uniq (filter (\<lambda>i. i \<noteq> []) (map p_agreement_id (default participations []) @
             map a_id (default createdRows []))), None))))"

definition fetchAgreementsByIds ::
    "'s backend \<Rightarrow> string list \<Rightarrow> string option \<Rightarrow> string option \<Rightarrow> ('s world, agreement list \<times> string option) prog" where
  "fetchAgreementsByIds B ids status ty =
     (if length ids = 0 then ret ([], None) else
      bnd (call (select_rows (agreements B)
        (\<lambda>a. a_id a \<in> set ids \<and> (truthy status \<longrightarrow> Some (a_status a) = status) \<and> (truthy ty \<longrightarrow> a_type a = ty))
        newest_first)) (\<lambda>(data, error).
      case error of Some e \<Rightarrow> ret ([], Some (e_message e)) | None \<Rightarrow> ret (default data [], None)))"

definition list_agreements ::
    "'s backend \<Rightarrow> string \<Rightarrow> string option \<Rightarrow> string option \<Rightarrow> ('s world, agreement list \<times> string option) prog" where
  "list_agreements B userId status ty =
     bnd (resolveUserWallets B userId) (\<lambda>ws.
     if length ws = 0 then ret ([], None) else
     bnd (agreementIdsForWallets B ws) (\<lambda>(ids, error).
     case error of Some e \<Rightarrow> ret ([], Some e) | None \<Rightarrow> fetchAgreementsByIds B ids status ty))"

definition listByWallet :: "'s backend \<Rightarrow> string \<Rightarrow> string \<Rightarrow> ('s world, agreement list \<times> string option) prog" where
  "listByWallet B userId wallet =
     bnd (assertActorWallet B userId wallet) (\<lambda>_.
     bnd (agreementIdsForWallets B [wallet]) (\<lambda>(ids, error).
     case error of Some e \<Rightarrow> ret ([], Some e) | None \<Rightarrow> fetchAgreementsByIds B ids None None))"

definition getById ::
    "'s backend \<Rightarrow> string \<Rightarrow> string \<Rightarrow> ('s world, agreement option \<times> participant list \<times> string option) prog" where
  "getById B userId agreementId =
     bnd (assertCanAccessAgreement B userId agreementId) (\<lambda>_.
     bnd (call (select_single (agreements B) (\<lambda>a. a_id a = agreementId))) (\<lambda>(agreement, agError).
     case agError of Some e \<Rightarrow> ret (None, [], Some (e_message e)) | None \<Rightarrow>
     bnd (call (select_rows (participants B) (\<lambda>p. p_agreement_id p = agreementId) (\<lambda>rs. rs))) (\<lambda>(parts, partError).
     case partError of Some e \<Rightarrow> ret (agreement, [], Some (e_message e)) | None \<Rightarrow>
     ret (agreement, default parts [], None))))"

definition getByContractId :: "'s backend \<Rightarrow> string \<Rightarrow> string \<Rightarrow> ('s world, agreement option \<times> string option) prog" where
  "getByContractId B userId contractId =
     bnd (call (select_one (agreements B) (\<lambda>a. a_contract_id a = Some contractId))) (\<lambda>(data, error).
     case error of
       Some e \<Rightarrow> if e_code e = ''PGRST116''
         then ret (None, Some ''Ningun acuerdo tiene contract_id igual a este valor (revisa Supabase o hace PATCH link-contract antes).'')
         else ret (None, Some (e_message e))
     | None \<Rightarrow> (case data of
           None \<Rightarrow> ret (None, Some ''Ningun acuerdo tiene contract_id igual a este valor (copia el texto exacto de la columna contract_id).'')
         | Some a \<Rightarrow> bnd (assertCanAccessAgreement B userId (a_id a)) (\<lambda>_. ret (Some a, None))))"

definition newest_activity :: "activity_row list \<Rightarrow> activity_row list" where
  "newest_activity rs = rev (sort_key act_created_at rs)"

definition getActivity :: "'s backend \<Rightarrow> string \<Rightarrow> string \<Rightarrow> ('s world, activity_row list \<times> string option) prog" where
  "getActivity B userId agreementId =
     bnd (assertCanAccessAgreement B userId agreementId) (\<lambda>_.
     bnd (call (select_rows (activity B) (\<lambda>r. act_agreement_id r = agreementId) newest_activity)) (\<lambda>(data, error).
     case error of Some e \<Rightarrow> ret ([], Some (e_message e)) | None \<Rightarrow> ret (default data [], None)))"

section \<open>Effects\<close>

definition lifecycle_events :: "string \<Rightarrow> string list" where
  "lifecycle_events toStatus = (if toStatus = ''funded'' then [''agreement.funded'']
     else if toStatus = ''completed'' \<or> toStatus = ''resolved'' then [''agreement.completed''] else [])"

text \<open>The tables after a status change of one agreement, the log apart.\<close>

definition status_written :: "string \<Rightarrow> string \<Rightarrow> tables \<Rightarrow> tables \<Rightarrow> bool" where
  "status_written aid to ts ts' \<longleftrightarrow> (\<exists>t1 t2. same_but_log
     (ts\<lparr>t_agreements := update_where (\<lambda>r. a_id r = aid) (status_columns to t1 t2) (t_agreements ts)\<rparr>) ts')"

lemma status_written_intro:
  "status_written aid to ts (ts\<lparr>t_agreements := update_where (\<lambda>r. a_id r = aid) (status_columns to t1 t2) (t_agreements ts)\<rparr>)"
  unfolding status_written_def by (intro exI [of _ t1] exI [of _ t2]) simp

lemma status_written_log: "status_written aid to ts us \<Longrightarrow> same_but_log us vs \<Longrightarrow> status_written aid to ts vs"
  unfolding status_written_def using same_but_log_trans by blast

context database
begin

lemma wp_write_status:
  assumes err: "\<And>e s'. st s' = st (svc w) \<Longrightarrow> Q (Inr (Some e)) (w\<lparr>svc := s'\<rparr>)"
    and ok: "\<And>s'. status_written aid to (st (svc w)) (st s') \<Longrightarrow> Q (Inr None) (w\<lparr>svc := s'\<rparr>)"
  shows "wp (write_status B aid to) Q w"
proof -
  have upd: "wp (call (update_rows (agreements B) (\<lambda>r. a_id r = aid) (status_columns to t1 t2))) Q (w\<lparr>svc := s\<rparr>)"
    if "st s = st (svc w)" for s t1 t2
  proof (rule agreements_wp)
    fix s' assume "st s' = st (svc (w\<lparr>svc := s\<rparr>))\<lparr>t_agreements := update_where (\<lambda>r. a_id r = aid) (status_columns to t1 t2)
        (t_agreements (st (svc (w\<lparr>svc := s\<rparr>))))\<rparr>"
    then have "status_written aid to (st (svc w)) (st s')"
      using that by (simp add: status_written_intro)
    then show "Q (Inr None) (w\<lparr>svc := s\<rparr>\<lparr>svc := s'\<rparr>)" using ok by simp
  qed (use err that in simp)
  have "wp (bnd (if c then call (now B) else ret t1) (\<lambda>t2. call (update_rows (agreements B) (\<lambda>r. a_id r = aid)
      (status_columns to t1 t2)))) Q (w\<lparr>svc := s\<rparr>)" if "st s = st (svc w)" for c s t1
    using that by (cases c) (auto simp: wp_simps intro!: wp_now upd)
  then show ?thesis
    unfolding write_status_def wp_bnd [of "call (now B)"]
    by (intro wp_now) simp
qed

lemma wp_log_status_change:
  assumes "\<And>s'. same_but_log (st (svc w)) (st s') \<Longrightarrow> Q (Inr ()) (w\<lparr>svc := s'\<rparr>)"
  shows "wp (log_status_change B aid actor from to details) Q w"
  unfolding log_status_change_def by (rule wp_logActivity) (rule assms)

lemma wp_emit_lifecycle:
  assumes "\<And>w'. st (svc w') = st (svc w) \<Longrightarrow> spawned w' = spawned w \<Longrightarrow> sent w' = sent w \<Longrightarrow>
    map fst (emitted w') = map fst (emitted w) @ lifecycle_events to \<Longrightarrow> Q (Inr ()) w'"
  shows "wp (emit_lifecycle B aid a to by) Q w"
proof -
  have later: "Q (Inr ()) (w\<lparr>svc := s', emitted := emitted w @ [(e, x)]\<rparr>)" if "st s' = st (svc w)" "lifecycle_events to = [e]" for s' e x
    by (rule assms) (simp_all add: that)
  have evs: "lifecycle_events to = (if to = ''funded'' then [''agreement.funded'']
      else if to = ''completed'' \<or> to = ''resolved'' then [''agreement.completed''] else [])"
    by (rule lifecycle_events_def)
  consider "to = ''funded''" | "to \<noteq> ''funded''" "to = ''completed'' \<or> to = ''resolved''"
    | "to \<noteq> ''funded''" "\<not> (to = ''completed'' \<or> to = ''resolved'')" by blast
  then show ?thesis
  proof cases
    case 1
    then show ?thesis unfolding emit_lifecycle_def if_P [OF 1] wp_emit by (intro assms) (simp_all add: lifecycle_events_def)
  next
    case 2
    have "wp (emit e x) Q (w\<lparr>svc := s'\<rparr>)" if "st s' = st (svc w)" "e = ''agreement.completed''" for s' e x
      using later [OF that(1), of e x] 2 that(2) by (simp only: wp_emit evs if_False if_True world.simps) simp
    then show ?thesis unfolding emit_lifecycle_def if_not_P [OF 2(1)] if_P [OF 2(2)] wp_bnd
      by (intro wp_now) simp_all
  next
    case 3
    show ?thesis unfolding emit_lifecycle_def if_not_P [OF 3(1)] if_not_P [OF 3(2)] wp_ret by (intro assms) (simp_all only: evs 3 if_False append_Nil2)
  qed
qed

end

text \<open>
  What \<open>updateStatus\<close> promises: either nothing has happened, or everything was checked on the one
  row with that id, the row was changed, the hook started and the event emitted.
\<close>

definition status_update_ok :: "string \<Rightarrow> string \<Rightarrow> update_status_dto \<Rightarrow> tables \<Rightarrow> tables \<Rightarrow> agreement \<Rightarrow> bool" where
  "status_update_ok userId aid dto ts ts' a \<longleftrightarrow>
     may_access ts userId aid \<and> owns ts userId (us_actor dto) \<and>
     filter (\<lambda>r. a_id r = aid) (t_agreements ts) = [a] \<and> lifecycle_step (a_status a) (us_status dto) \<and>
     (us_status dto = ''completed'' \<longrightarrow> milestonesSatisfyCompletion (a_milestones a)) \<and>
     status_written aid (us_status dto) ts ts'"

lemma service_valid_step: "service_validateTransition s t = Inr None \<Longrightarrow> lifecycle_step s t"
  by (simp add: service_ok_iff canTransition_iff_step)

context database
begin

lemma wp_updateStatus:
  assumes none: "\<And>r w'. st (svc w') = st (svc w) \<Longrightarrow> quiet w w' \<Longrightarrow> r \<noteq> Inr success \<Longrightarrow> Q r w'"
    and ok: "\<And>w' a. status_update_ok userId aid dto (st (svc w)) (st (svc w')) a \<Longrightarrow>
      spawned w' = spawned w @ [SyncStatusTransition aid (a_status a) (us_status dto)] \<Longrightarrow>
      map fst (emitted w') = map fst (emitted w) @ lifecycle_events (us_status dto) \<Longrightarrow> Q (Inr success) w'"
  shows "wp (updateStatus B userId aid dto) Q w"
proof -
  have fail: "failure m \<noteq> success" for m by (simp add: failure_def success_def)
  have after: "wp (bnd (log_status_change B aid (us_actor dto) (a_status a) (us_status dto) []) (\<lambda>_.
      bnd (spawn (SyncStatusTransition aid (a_status a) (us_status dto))) (\<lambda>_.
      bnd (emit_lifecycle B aid a (us_status dto) (us_actor dto)) (\<lambda>_. ret success)))) Q v"
    if "status_update_ok userId aid dto (st (svc w)) (st (svc v)) a" "quiet w v" for v a
    unfolding wp_bnd
    using that by (intro wp_log_status_change,
        auto simp: wp_simps quiet_def status_update_ok_def intro!: wp_emit_lifecycle ok [of _ a])
      (blast intro: status_written_log)+
  show ?thesis
    unfolding updateStatus_def wp_bnd [of "assertCanAccessAgreement a b c" for a b c] wp_bnd [of "assertActorWallet a b c" for a b c]
      wp_bnd [of "call c" for c]
  proof (rule wp_assertCanAccessAgreement, goal_cases)
    case (1 s1)
    show ?case unfolding sum.case
    proof (rule wp_assertActorWallet, goal_cases)
      case (1 s2)
      note acc = this(1,2) \<open>st s1 = _\<close> \<open>may_access _ _ _\<close>
      show ?case unfolding sum.case
      proof (intro agreements_wp, goal_cases)
        case (2 r s')
        from acc 2(1,2) show ?case
          by (auto simp: wp_bnd [of "lift_exn c" for c] wp_bnd [of "require c e" for c e] wp_bnd [of "write_status a b c" for a b c]
            wp_ret wp_throw wp_require bnd_ret_left bnd_throw_left lift_exn_def fail status_update_ok_def
            intro!: none wp_write_status after dest!: service_valid_step split: sum.splits option.splits)
      qed (use acc none fail in \<open>auto simp: wp_simps\<close>)
    qed (use 1 none in auto)
  qed (use none in auto)
qed

lemma wp_applyStatusChange:
  assumes none: "\<And>r w'. st (svc w') = st (svc w) \<Longrightarrow> quiet w w' \<Longrightarrow> (\<forall>x. r = Inr x \<longrightarrow> \<not> so_success x) \<Longrightarrow> Q r w'"
    and ok: "\<And>w' a. filter (\<lambda>r. a_id r = aid) (t_agreements (st (svc w))) = [a] \<Longrightarrow>
      (enforce \<longrightarrow> lifecycle_step (default optFrom (a_status a)) to) \<Longrightarrow>
      status_written aid to (st (svc w)) (st (svc w')) \<Longrightarrow> spawned w' = spawned w \<Longrightarrow>
      map fst (emitted w') = map fst (emitted w) @ lifecycle_events to \<Longrightarrow>
      Q (Inr (success\<lparr>so_from := Some (default optFrom (a_status a))\<rparr>)) w'"
  shows "wp (applyStatusChange B aid actor to optFrom enforce details) Q w"
proof -
  have after: "wp (bnd (log_status_change B aid actor from to details) (\<lambda>_.
      bnd (emit_lifecycle B aid a to actor) (\<lambda>_. ret (success\<lparr>so_from := Some (default optFrom (a_status a))\<rparr>)))) Q v"
    if "status_written aid to (st (svc w)) (st (svc v))" "quiet w v"
      "filter (\<lambda>r. a_id r = aid) (t_agreements (st (svc w))) = [a]"
      "enforce \<longrightarrow> lifecycle_step (default optFrom (a_status a)) to" for v a "from"
    unfolding wp_bnd
    using that by (intro wp_log_status_change,
        auto simp: wp_simps quiet_def intro!: wp_emit_lifecycle ok [of a])
      (blast intro: status_written_log)+
  show ?thesis
    unfolding applyStatusChange_def wp_bnd [of "call c" for c]
  proof (intro agreements_wp, goal_cases)
    case (2 r s')
    from 2(1,2) show ?case
      by (auto simp: Let_def wp_bnd [of "lift_exn c" for c] wp_bnd [of "ret c" for c] wp_bnd [of "write_status a b c" for a b c]
        wp_ret wp_throw bnd_ret_left bnd_throw_left lift_exn_def failure_def
        intro!: none wp_write_status after dest!: service_valid_step split: sum.splits option.splits)
  qed (use none in \<open>auto simp: wp_simps failure_def\<close>)
qed

end

text \<open>What \<open>create\<close> and \<open>updateMilestone\<close> promise when they succeed.\<close>

definition stores_request :: "create_dto \<Rightarrow> agreement \<Rightarrow> bool" where
  "stores_request dto a \<longleftrightarrow> a_title a = in_title dto \<and> a_description a = in_description dto \<and> a_amount a = in_amount dto \<and>
     a_asset a = Some (case in_asset dto of None \<Rightarrow> ''USDC'' | Some x \<Rightarrow> x) \<and> a_status a = ''pending'' \<and>
     a_type a = Some (case in_type dto of None \<Rightarrow> ''single'' | Some x \<Rightarrow> x) \<and>
     a_milestones a = Some (case in_milestones dto of None \<Rightarrow> [] | Some ms \<Rightarrow> ms) \<and>
     a_metadata a = (case cd_metadata dto of None \<Rightarrow> JObj [] | Some j \<Rightarrow> j) \<and> a_created_by a = cd_created_by dto \<and>
     a_contract_id a = cd_contract_id dto \<and> a_funded_at a = None \<and> a_completed_at a = None"

definition announces_agreement :: "create_dto \<Rightarrow> agreement \<Rightarrow> json \<Rightarrow> bool" where
  "announces_agreement dto a p \<longleftrightarrow> jget ''agreementId'' p = Some (JStr (a_id a)) \<and> jget ''title'' p = Some (JStr (a_title a)) \<and>
     jget ''amount'' p = Some (JStr (a_amount a)) \<and> jget ''createdByWallet'' p = Some (JStr (a_created_by a)) \<and>
     jget ''participantWallets'' p = Some (JArr (map (\<lambda>x. JStr (pi_wallet x)) (in_participants dto)))"

lemma row_stores: "stores_request dto (gen_agreement i t (agreement_row dto))"
  by (simp add: stores_request_def gen_agreement_def agreement_row_def default_def split: option.split)

lemma event_announces: "stores_request dto a \<Longrightarrow> announces_agreement dto a (created_event dto a)"
  by (simp add: announces_agreement_def created_event_def stores_request_def jget_def jopt_def split: option.split)

definition created_ok :: "string \<Rightarrow> create_dto \<Rightarrow> tables \<Rightarrow> tables \<Rightarrow> agreement \<Rightarrow> bool" where
  "created_ok userId dto ts ts' a \<longleftrightarrow>
     validateAgreement (agreement_input.truncate dto) = None \<and> owns ts userId (cd_created_by dto) \<and>
     stores_request dto a \<and> a_id a \<notin> a_id ` set (t_agreements ts) \<and>
     (\<exists>ps. list_all2 (\<lambda>p q. p_agreement_id q = a_id a \<and> p_wallet q = pi_wallet p \<and> p_role q = pi_role p)
         (in_participants dto) ps \<and>
       same_but_log (ts\<lparr>t_agreements := t_agreements ts @ [a], t_participants := t_participants ts @ ps\<rparr>) ts')"

text \<open>A milestone after an update: the status of the request, its evidence where it gives any, all else as before.\<close>

definition milestone_changed :: "update_milestone_dto \<Rightarrow> milestone \<Rightarrow> milestone \<Rightarrow> bool" where
  "milestone_changed dto old m \<longleftrightarrow> ms_description m = ms_description old \<and> ms_amount m = ms_amount old \<and>
     ms_status m = Some (um_status dto) \<and>
     ms_evidence_description m =
       (case um_evidence_description dto of None \<Rightarrow> ms_evidence_description old | Some d \<Rightarrow> Some d) \<and>
     ms_evidence_urls m = (case um_evidence_urls dto of None \<Rightarrow> ms_evidence_urls old | Some us \<Rightarrow> Some us) \<and>
     (if um_evidence_description dto = None \<and> um_evidence_urls dto = None then ms_evidence_at m = ms_evidence_at old
      else ms_evidence_at m \<noteq> None)"

lemma apply_milestone_changed: "milestone_changed dto old (apply_milestone dto t old)"
  by (auto simp: milestone_changed_def apply_milestone_def Let_def emits_evidence_def split: option.split)

text \<open>The events of an update: which, in which order, and that each names the agreement and the milestone.\<close>

definition announces_milestone :: "update_milestone_dto \<Rightarrow> string \<Rightarrow> string option \<Rightarrow> event list \<Rightarrow> bool" where
  "announces_milestone dto aid previous es \<longleftrightarrow>
     map fst es = (if um_evidence_description dto = None \<and> um_evidence_urls dto = None then [] else [''evidence.submitted'']) @
       (if um_status dto = ''approved'' \<and> previous \<noteq> Some ''approved'' then [''milestone.approved''] else []) @
       (if um_status dto = ''released'' then [''milestone.released''] else []) \<and>
     list_all (\<lambda>(n, p). jget ''agreementId'' p = Some (JStr aid) \<and>
       jget ''milestoneIndex'' p = Some (JNum (of_int (um_index dto)))) es"

lemma milestone_events_announce: "a_id a = aid \<Longrightarrow> announces_milestone dto aid previous (milestone_events dto aid a m previous)"
  by (auto simp: announces_milestone_def milestone_events_def Let_def emits_evidence_def milestone_fields_def jget_def)

definition milestone_update_ok :: "string \<Rightarrow> string \<Rightarrow> update_milestone_dto \<Rightarrow> tables \<Rightarrow> tables \<Rightarrow> agreement \<Rightarrow> milestone list \<Rightarrow>
    milestone \<Rightarrow> bool" where
  "milestone_update_ok userId aid dto ts ts' a ms m \<longleftrightarrow>
     may_access ts userId aid \<and> owns ts userId (um_actor dto) \<and>
     filter (\<lambda>r. a_id r = aid) (t_agreements ts) = [a] \<and> a_milestones a = Some ms \<and> 0 \<le> um_index dto \<and> um_index dto < int (length ms) \<and>
     milestone_changed dto (ms ! nat (um_index dto)) m \<and>
     validateAgreementConsistency (a_amount a) (Some (ms[nat (um_index dto) := m])) = None \<and>
     (\<exists>t. same_but_log (ts\<lparr>t_agreements := update_where (\<lambda>r. a_id r = aid)
         (\<lambda>r. r\<lparr>a_milestones := Some (ms[nat (um_index dto) := m]), a_updated_at := t\<rparr>) (t_agreements ts)\<rparr>) ts')"

text \<open>What a listing may show of a database to a user.\<close>

definition listed :: "tables \<Rightarrow> string \<Rightarrow> string option \<Rightarrow> string option \<Rightarrow> agreement \<Rightarrow> bool" where
  "listed ts userId status ty a \<longleftrightarrow> a \<in> set (t_agreements ts) \<and> may_access ts userId (a_id a) \<and>
     (truthy status \<longrightarrow> Some (a_status a) = status) \<and> (truthy ty \<longrightarrow> a_type a = ty)"

lemma wp_emit_all: "wp (emit_all es) Q w = Q (Inr ()) (w\<lparr>emitted := emitted w @ es\<rparr>)"
  unfolding emit_all_def
  by (induction es arbitrary: w) (auto simp: wp_simps)

lemma filter_not_new: "keyed k (rs @ [r]) \<Longrightarrow> filter (\<lambda>x. k x \<noteq> k r) rs = rs"
  by (auto simp: keyed_def filter_id_conv) (metis imageI)

context database
begin

lemma wp_logMilestonesCreated:
  assumes "\<And>w'. same_but_log (st (svc w)) (st (svc w')) \<Longrightarrow> quiet w w' \<Longrightarrow> Q (Inr ()) w'"
  shows "wp (logMilestonesCreated B aid creator ms) Q w"
  unfolding logMilestonesCreated_def
  by (rule wp_for_each [where I = "\<lambda>v. same_but_log (st (svc w)) (st (svc v)) \<and> quiet w v"])
    (auto simp: split_def intro!: wp_logActivity assms intro: same_but_log_trans)

text \<open>After both inserts: the log entries, the event and the sync of a linked contract.\<close>

lemma wp_after_create:
  assumes ok: "created_ok userId dto ts (st (svc w)) a"
    and post: "\<And>w'. created_ok userId dto ts (st (svc w')) a \<Longrightarrow>
      emitted w' = emitted w @ [(''agreement.created'', created_event dto a)] \<Longrightarrow>
      spawned w' = spawned w @ (if truthy (a_contract_id a) then [SyncAgreement (a_id a)] else []) \<Longrightarrow>
      Q (Inr (Some a, None)) w'"
  shows "wp (bnd (logActivity B (a_id a) (cd_created_by dto) ''created'' d None None) (\<lambda>_.
     bnd (logMilestonesCreated B (a_id a) (cd_created_by dto) ms) (\<lambda>_.
     bnd (emit ''agreement.created'' (created_event dto a)) (\<lambda>_.
     bnd (if truthy (a_contract_id a) then spawn (SyncAgreement (a_id a)) else ret ()) (\<lambda>_.
     ret (Some a, None)))))) Q w"
proof -
  have "created_ok userId dto ts us a" if "same_but_log (st (svc w)) us" for us
    using ok that unfolding created_ok_def by (blast intro: same_but_log_trans)
  then show ?thesis
    unfolding wp_bnd
    by (intro wp_logActivity, auto simp: wp_simps quiet_def intro!: wp_logMilestonesCreated post)
      (metis same_but_log_trans)+
qed

text \<open>A creation that fails may leave the bare agreement behind: its removal can fail too.\<close>

lemma wp_create:
  assumes none: "\<And>r w'. (\<forall>a. r \<noteq> Inr (Some a, None)) \<Longrightarrow> quiet w w' \<Longrightarrow>
      st (svc w') = st (svc w) \<or> (\<exists>i t. st (svc w') = st (svc w)\<lparr>t_agreements :=
        t_agreements (st (svc w)) @ [gen_agreement i t (agreement_row dto)]\<rparr>) \<Longrightarrow> Q r w'"
    and ok: "\<And>a w'. created_ok userId dto (st (svc w)) (st (svc w')) a \<Longrightarrow>
      emitted w' = emitted w @ [(''agreement.created'', created_event dto a)] \<Longrightarrow>
      spawned w' = spawned w @ (if truthy (cd_contract_id dto) then [SyncAgreement (a_id a)] else []) \<Longrightarrow>
      Q (Inr (Some a, None)) w'"
  shows "wp (create B userId dto) Q w"
proof (cases "validateAgreement (agreement_input.truncate dto)")
  case (Some e)
  then show ?thesis by (cases e) (auto simp: create_def wp_simps intro!: none)
next
  case None
  let ?new = "\<lambda>i p. new_participant i (pi_wallet p) (pi_role p)"
  have inserted: "wp (bnd (call (insert_rows (participants B) (map (?new (a_id a)) (in_participants dto)))) (\<lambda>participantsError.
      case participantsError of
        Some e \<Rightarrow> bnd (call (delete_rows (agreements B) (\<lambda>r. a_id r = a_id a))) (\<lambda>_.
          throw (BadRequest (Msg (''Failed to create agreement participants: '' @ e_message e))))
      | None \<Rightarrow>
          bnd (logActivity B (a_id a) (cd_created_by dto) ''created'' d None None) (\<lambda>_.
          bnd (logMilestonesCreated B (a_id a) (cd_created_by dto) ms) (\<lambda>_.
          bnd (emit ''agreement.created'' (created_event dto a)) (\<lambda>_.
          bnd (if truthy (a_contract_id a) then spawn (SyncAgreement (a_id a)) else ret ()) (\<lambda>_.
          ret (Some a, None))))))) Q v"
    if own: "owns (st (svc w)) userId (cd_created_by dto)" and a: "a = gen_agreement i t (agreement_row dto)"
      and v: "st (svc v) = st (svc w)\<lparr>t_agreements := t_agreements (st (svc w)) @ [a]\<rparr>"
      and key: "keyed a_id (t_agreements (st (svc w)) @ [a])" and q: "quiet w v" for v a i t d ms
    unfolding wp_bnd [of "call x" for x]
  proof (intro participants_wp, goal_cases)
    case (1 e s')
    then have "st s' = st (svc v)" by simp
    then show ?case
      using q v a filter_not_new [OF key] by (auto simp: wp_simps intro!: agreements_wp none) blast
  next
    case (2 qs s')
    have c: "a_contract_id a = cd_contract_id dto" by (simp add: a gen_agreement_def agreement_row_def)
    have rows: "list_all2 (\<lambda>p q. p_agreement_id q = a_id a \<and> p_wallet q = pi_wallet p \<and> p_role q = pi_role p) (in_participants dto) qs"
      using 2(1) unfolding list_all2_map1
      by (rule list_all2_mono) (auto simp: gen_participant_def new_participant_def)
    have "created_ok userId dto (st (svc w)) (st s') a"
      unfolding created_ok_def using None own a key 2(2) rows row_stores
      by (auto simp: v keyed_def intro!: exI [of _ qs])
    then show ?case
      unfolding sum.case option.case
      by (intro wp_after_create [where ts = "st (svc w)"]) (use q c in \<open>auto simp: quiet_def intro!: ok\<close>)
  qed
  show ?thesis
    unfolding create_def create_valid_def None option.case wp_bnd [of "assertActorWallet a b c" for a b c] wp_bnd [of "call (insert_row x r)" for x r]
  proof (rule wp_assertActorWallet, goal_cases)
    case (1 s1)
    show ?case unfolding sum.case
    proof (rule agreements_wp(5), goal_cases)
      case (2 i t s')
      show ?case unfolding sum.case prod.case option.case
        by (rule inserted [of _ i t]) (use 1 2 in auto)
    qed (use 1 in \<open>auto simp: wp_ret intro!: none\<close>)
  qed (auto intro!: none)
qed

lemma wp_updateMilestone:
  assumes none: "\<And>r w'. st (svc w') = st (svc w) \<Longrightarrow> quiet w w' \<Longrightarrow> r \<noteq> Inr success \<Longrightarrow> Q r w'"
    and ok: "\<And>w' a ms m. milestone_update_ok userId aid dto (st (svc w)) (st (svc w')) a ms m \<Longrightarrow>
      spawned w' = spawned w @ [SyncAgreement aid] \<Longrightarrow>
      emitted w' = emitted w @ milestone_events dto aid a m (ms_status (ms ! nat (um_index dto))) \<Longrightarrow> Q (Inr success) w'"
  shows "wp (updateMilestone B userId aid dto) Q w"
proof -
  have fail: "failure m \<noteq> success" for m by (simp add: failure_def success_def)
  have after: "wp (bnd (logActivity B aid actor action d p n) (\<lambda>_.
      bnd (emit_all (milestone_events dto aid a m (ms_status (ms ! nat (um_index dto))))) (\<lambda>_.
      bnd (spawn (SyncAgreement aid)) (\<lambda>_. ret success)))) Q v"
    if "milestone_update_ok userId aid dto (st (svc w)) (st (svc v)) a ms m" "quiet w v" for v a ms m actor action d p n
  proof -
    have "milestone_update_ok userId aid dto (st (svc w)) us a ms m" if "same_but_log (st (svc v)) us" for us
      using \<open>milestone_update_ok _ _ _ _ _ _ _ _\<close> that unfolding milestone_update_ok_def by (blast intro: same_but_log_trans)
    then show ?thesis
      unfolding wp_bnd using \<open>quiet w v\<close>
      by (intro wp_logActivity) (auto simp: wp_simps wp_emit_all quiet_def intro!: ok [of _ a ms m])
  qed
  have saved: "wp (save_milestone B aid dto a ms t) Q v"
    if "may_access (st (svc w)) userId aid" "owns (st (svc w)) userId (um_actor dto)"
      "filter (\<lambda>r. a_id r = aid) (t_agreements (st (svc w))) = [a]" "a_milestones a = Some ms" "0 \<le> um_index dto" "um_index dto < int (length ms)"
      "st (svc v) = st (svc w)" "quiet w v" for v a ms t
    using that unfolding save_milestone_def Let_def wp_bnd [of "call x" for x]
    by (auto simp: wp_bnd [of "call x" for x] wp_ret wp_throw fail milestone_update_ok_def apply_milestone_changed intro!: wp_now agreements_wp after none
        split: option.splits)
      (rule exI, rule refl same_but_log_refl)+
  show ?thesis
    unfolding updateMilestone_def wp_bnd [of "assertCanAccessAgreement a b c" for a b c] wp_bnd [of "assertActorWallet a b c" for a b c]
      wp_bnd [of "call (select_single x r)" for x r]
  proof (rule wp_assertCanAccessAgreement, goal_cases)
    case (1 s1)
    show ?case unfolding sum.case
    proof (rule wp_assertActorWallet, goal_cases)
      case (1 s2)
      note acc = this(1,2) \<open>st s1 = _\<close> \<open>may_access _ _ _\<close>
      show ?case unfolding sum.case
      proof (intro agreements_wp, goal_cases)
        case (2 r s')
        from acc 2(1,2) show ?case
          by (auto simp: wp_simps fail intro!: none wp_now saved split: option.splits)
      qed (use acc none fail in \<open>auto simp: wp_simps\<close>)
    qed (use 1 none in auto)
  qed (use none in auto)
qed

lemma wp_agreementIdsForWallets:
  assumes "\<And>ids e w'. st (svc w') = st (svc w) \<Longrightarrow> quiet w w' \<Longrightarrow> (\<And>i. i \<in> set ids \<Longrightarrow>
      (\<exists>p \<in> set (t_participants (st (svc w))). p_agreement_id p = i \<and> p_wallet p \<in> set ws) \<or>
      (\<exists>a \<in> set (t_agreements (st (svc w))). a_id a = i \<and> a_created_by a \<in> set ws)) \<Longrightarrow>
    Q (Inr (ids, e)) w'"
  shows "wp (agreementIdsForWallets B ws) Q w"
  unfolding agreementIdsForWallets_def
  by (auto simp: wp_simps intro!: participants_wp agreements_wp assms) blast

lemma wp_fetchAgreementsByIds:
  assumes "\<And>as e w'. st (svc w') = st (svc w) \<Longrightarrow> quiet w w' \<Longrightarrow> (\<And>a. a \<in> set as \<Longrightarrow>
      a \<in> set (t_agreements (st (svc w))) \<and> a_id a \<in> set ids \<and> (truthy status \<longrightarrow> Some (a_status a) = status) \<and>
      (truthy ty \<longrightarrow> a_type a = ty)) \<Longrightarrow> Q (Inr (as, e)) w'"
  shows "wp (fetchAgreementsByIds B ids status ty) Q w"
  unfolding fetchAgreementsByIds_def
  by (auto simp: wp_simps newest_first_def intro!: agreements_wp assms)

lemma wp_listing:
  assumes own: "\<And>a. a \<in> set ws \<Longrightarrow> owns (st (svc w)) userId a"
    and post: "\<And>as e w'. st (svc w') = st (svc w) \<Longrightarrow> quiet w w' \<Longrightarrow> (\<And>a. a \<in> set as \<Longrightarrow> listed (st (svc w)) userId status ty a) \<Longrightarrow>
      Q (Inr (as, e)) w'"
  shows "wp (bnd (agreementIdsForWallets B ws) (\<lambda>(ids, error).
    case error of Some e \<Rightarrow> ret ([], Some e) | None \<Rightarrow> fetchAgreementsByIds B ids status ty)) Q w"
proof -
  have mine: "listed (st (svc w)) userId status ty a"
    if "a \<in> set (t_agreements (st (svc w)))" "truthy status \<longrightarrow> Some (a_status a) = status" "truthy ty \<longrightarrow> a_type a = ty"
      "(\<exists>p \<in> set (t_participants (st (svc w))). p_agreement_id p = a_id a \<and> p_wallet p \<in> set ws) \<or>
       (\<exists>b \<in> set (t_agreements (st (svc w))). a_id b = a_id a \<and> a_created_by b \<in> set ws)" for a
    using that own unfolding listed_def may_access_def by blast
  show ?thesis
    unfolding wp_bnd
  proof (rule wp_agreementIdsForWallets, goal_cases)
    case (1 ids e v)
    note ids = this(3)
    show ?case
      using 1(1,2) by (cases e) (auto simp: wp_ret intro!: wp_fetchAgreementsByIds post mine dest!: ids intro: quiet_trans)
  qed
qed

lemma wp_list_agreements:
  assumes "\<And>as e w'. st (svc w') = st (svc w) \<Longrightarrow> quiet w w' \<Longrightarrow> (\<And>a. a \<in> set as \<Longrightarrow> listed (st (svc w)) userId status ty a) \<Longrightarrow>
      Q (Inr (as, e)) w'"
  shows "wp (list_agreements B userId status ty) Q w"
  unfolding list_agreements_def wp_bnd [of "resolveUserWallets x y" for x y]
  by (rule wp_resolveUserWallets) (auto simp: wp_ret intro!: wp_listing assms)

lemma wp_listByWallet:
  assumes "\<And>r w'. st (svc w') = st (svc w) \<Longrightarrow> quiet w w' \<Longrightarrow>
      (\<And>as e a. r = Inr (as, e) \<Longrightarrow> a \<in> set as \<Longrightarrow> listed (st (svc w)) userId None None a) \<Longrightarrow> Q r w'"
  shows "wp (listByWallet B userId wallet) Q w"
  unfolding listByWallet_def wp_bnd [of "assertActorWallet a b c" for a b c]
  by (rule wp_assertActorWallet) (auto intro!: wp_listing assms)

lemma wp_getById:
  assumes "\<And>r w'. st (svc w') = st (svc w) \<Longrightarrow> quiet w w' \<Longrightarrow>
      (\<And>a ps e. r = Inr (a, ps, e) \<Longrightarrow> may_access (st (svc w)) userId aid \<and>
        (\<forall>x. a = Some x \<longrightarrow> filter (\<lambda>r. a_id r = aid) (t_agreements (st (svc w))) = [x]) \<and>
        (\<forall>p \<in> set ps. p_agreement_id p = aid)) \<Longrightarrow> Q r w'"
  shows "wp (getById B userId aid) Q w"
  unfolding getById_def
  by (auto simp: wp_simps intro!: wp_assertCanAccessAgreement agreements_wp participants_wp assms)

lemma wp_getByContractId:
  assumes "\<And>r w'. st (svc w') = st (svc w) \<Longrightarrow> quiet w w' \<Longrightarrow>
      (\<And>a e. r = Inr (Some a, e) \<Longrightarrow> may_access (st (svc w)) userId (a_id a) \<and> a_contract_id a = Some cid) \<Longrightarrow>
      Q r w'"
  shows "wp (getByContractId B userId cid) Q w"
  unfolding getByContractId_def
  by (auto simp: wp_simps simp del: append.simps intro!: wp_assertCanAccessAgreement agreements_wp assms)

lemma wp_getActivity:
  assumes "\<And>r w'. st (svc w') = st (svc w) \<Longrightarrow> quiet w w' \<Longrightarrow>
      (\<And>rs e. r = Inr (rs, e) \<Longrightarrow> may_access (st (svc w)) userId aid \<and> (\<forall>x \<in> set rs. act_agreement_id x = aid)) \<Longrightarrow>
      Q r w'"
  shows "wp (getActivity B userId aid) Q w"
  unfolding getActivity_def
  by (auto simp: wp_simps newest_activity_def intro!: wp_assertCanAccessAgreement activity_wp assms)

end

section \<open>Properties\<close>


definition wallet_of :: "string \<Rightarrow> string \<Rightarrow> user_wallet" where
  "wallet_of u w = \<lparr>uw_id = ''W1'', uw_user_id = u, uw_address = w, uw_type = ''external'', uw_label = None,
     uw_primary = True, uw_verified = True, uw_verified_at = None, uw_auth_provider = None,
     uw_pollar_user_id = None, uw_c_address = None, uw_created_at = 1, uw_updated_at = 1\<rparr>"

definition user_world :: "agreement list \<Rightarrow> mem world" where
  "user_world as = world_on (no_tables\<lparr>t_agreements := as, t_wallets := [wallet_of ''U1'' ''GA'']\<rparr>)
     (quiet_env\<lparr>reply := escrow_reply ''funded''\<rparr>)"

definition funding_run :: "(exn + status_outcome) \<times> mem world" where
  "funding_run = updateStatus (mem_backend sample_vars) ''U1'' ''A1'' \<lparr>us_status = ''funded'', us_actor = ''GA''\<rparr>
     (user_world [linked_agreement ''pending''])"


text \<open>
  The internal status change that webhooks and disputes use checks no user, and enforces the
  lifecycle only when asked to: it either changes nothing and does not report success, or changes
  exactly this row to the target status and emits the lifecycle event once, starting no sync.
\<close>

theorem applyStatusChange_effect:
  assumes "database B st" and "applyStatusChange B aid actor to optFrom enforce details w = (r, w')"
  shows "((\<forall>x. r = Inr x \<longrightarrow> \<not> so_success x) \<and> st (svc w') = st (svc w) \<and> quiet w w') \<or>
    (\<exists>a. filter (\<lambda>r. a_id r = aid) (t_agreements (st (svc w))) = [a] \<and>
      r = Inr (success\<lparr>so_from := Some (default optFrom (a_status a))\<rparr>) \<and>
      (enforce \<longrightarrow> lifecycle_step (default optFrom (a_status a)) to) \<and>
      status_written aid to (st (svc w)) (st (svc w')) \<and> spawned w' = spawned w \<and>
      map fst (emitted w') = map fst (emitted w) @ lifecycle_events to)"
proof -
  let ?P = "\<lambda>r v. ((\<forall>x. r = Inr x \<longrightarrow> \<not> so_success x) \<and> st (svc v) = st (svc w) \<and> quiet w v) \<or>
    (\<exists>a. filter (\<lambda>r. a_id r = aid) (t_agreements (st (svc w))) = [a] \<and>
      r = Inr (success\<lparr>so_from := Some (default optFrom (a_status a))\<rparr>) \<and>
      (enforce \<longrightarrow> lifecycle_step (default optFrom (a_status a)) to) \<and>
      status_written aid to (st (svc w)) (st (svc v)) \<and> spawned v = spawned w \<and>
      map fst (emitted v) = map fst (emitted w) @ lifecycle_events to)"
  have "wp (applyStatusChange B aid actor to optFrom enforce details) ?P w"
    by (rule database.wp_applyStatusChange [OF assms(1)]) auto
  from wpD [OF this assms(2)] show ?thesis .
qed

definition dispute_run :: "(exn + status_outcome) \<times> mem world" where
  "dispute_run = applyStatusChange (mem_backend sample_vars) ''A1'' ''system'' ''disputed'' None True []
     (user_world [linked_agreement ''active''])"

lemma applyStatusChange_effect_witness:
  "statuses (snd dispute_run) = [''disputed''] \<and>
   status_written ''A1'' ''disputed'' (tabs (svc (user_world [linked_agreement ''active'']))) (tabs (svc (snd dispute_run)))"
proof -
  have s: "statuses (snd dispute_run) = [''disputed'']" by code_simp
  moreover have "statuses (user_world [linked_agreement ''active'']) = [''active'']" by code_simp
  ultimately have "tabs (svc (snd dispute_run)) \<noteq> tabs (svc (user_world [linked_agreement ''active'']))"
    by (auto simp: statuses_def)
  then show ?thesis
    using s applyStatusChange_effect [OF mem.database_axioms, of sample_vars "''A1''" "''system''" "''disputed''" None True "[]"
        "user_world [linked_agreement ''active'']" "fst dispute_run" "snd dispute_run"]
    by (auto simp: dispute_run_def)
qed

text \<open>
  A funding announced through \<open>updateStatus\<close> is announced twice: once by the handler, and once
  more by the status hook it starts, which emits the same event from the same row.
\<close>

theorem funded_event_twice:
  "map fst (emitted (snd funding_run)) = [''agreement.funded''] \<and>
   spawned (snd funding_run) = [SyncStatusTransition ''A1'' ''pending'' ''funded''] \<and>
   emitted (snd (syncStatusTransition (mem_backend sample_vars) ''A1'' ''pending'' ''funded'' (snd funding_run))) =
     [hd (emitted (snd funding_run)), hd (emitted (snd funding_run))]"
  by (intro conjI; code_simp)

text \<open>
  (C8) Creating an agreement either stores a validated request of a wallet its user owns, under a
  new key: title, description, amount, asset, type, milestones, meta data, contract and creator are those of the request (USDC,
  single and none where it is silent), the status is pending, and there is one row per participant with wallet and role; it
  announces the stored agreement once and syncs it exactly when it has a contract. Or it
  announces nothing and leaves the tables as they were, but for the bare agreement when its
  removal after a failed participant insert fails as well.
\<close>

theorem create_sound:
  assumes "database B st" and "create B userId dto w = (r, w')"
  shows "(\<exists>a p. r = Inr (Some a, None) \<and> created_ok userId dto (st (svc w)) (st (svc w')) a \<and>
      emitted w' = emitted w @ [(''agreement.created'', p)] \<and> announces_agreement dto a p \<and>
      spawned w' = spawned w @ (if truthy (cd_contract_id dto) then [SyncAgreement (a_id a)] else [])) \<or>
    ((\<forall>a. r \<noteq> Inr (Some a, None)) \<and> quiet w w' \<and>
      (st (svc w') = st (svc w) \<or> (\<exists>a. stores_request dto a \<and> st (svc w') = st (svc w)\<lparr>t_agreements :=
        t_agreements (st (svc w)) @ [a]\<rparr>)))"
proof -
  let ?P = "\<lambda>r v. (\<exists>a p. r = Inr (Some a, None) \<and> created_ok userId dto (st (svc w)) (st (svc v)) a \<and>
      emitted v = emitted w @ [(''agreement.created'', p)] \<and> announces_agreement dto a p \<and>
      spawned v = spawned w @ (if truthy (cd_contract_id dto) then [SyncAgreement (a_id a)] else [])) \<or>
    ((\<forall>a. r \<noteq> Inr (Some a, None)) \<and> quiet w v \<and>
      (st (svc v) = st (svc w) \<or> (\<exists>a. stores_request dto a \<and> st (svc v) = st (svc w)\<lparr>t_agreements :=
        t_agreements (st (svc w)) @ [a]\<rparr>)))"
  have stored: "stores_request dto a" if "created_ok userId dto ts ts' a" for a ts ts'
    using that by (simp add: created_ok_def)
  have "wp (create B userId dto) ?P w"
    by (rule database.wp_create [OF assms(1)]) (blast intro: event_announces stored row_stores)+
  from wpD [OF this assms(2)] show ?thesis .
qed

definition sample_dto :: create_dto where
  "sample_dto = agreement_input.extend (sample_input ''100'')
     \<lparr>cd_contract_id = Some ''C9'', cd_metadata = None, cd_created_by = ''GA''\<rparr>"

lemma sample_dto_valid: "validateAgreement (agreement_input.truncate sample_dto) = None"
proof -
  have "agreement_input.truncate sample_dto = sample_input ''100''"
    by (simp add: sample_dto_def agreement_input.defs sample_input_def)
  then show ?thesis by (simp add: sample_accepted)
qed

definition create_run :: "(exn + agreement option \<times> api_error option) \<times> mem world" where
  "create_run = create_valid (mem_backend sample_vars) ''U1'' sample_dto (user_world [])"

lemma create_run_eq: "create (mem_backend sample_vars) ''U1'' sample_dto (user_world []) = create_run"
  by (simp add: create_def sample_dto_valid create_run_def)

lemma create_sound_witness:
  "map fst (emitted (snd create_run)) = [''agreement.created''] \<and>
   (\<exists>a. created_ok ''U1'' sample_dto (tabs (svc (user_world []))) (tabs (svc (snd create_run))) a)"
proof -
  have e: "map fst (emitted (snd create_run)) = [''agreement.created'']" by code_simp
  then have "\<not> quiet (user_world []) (snd create_run)"
    by (auto simp: quiet_def user_world_def world_on_def)
  then show ?thesis
    using e create_sound [OF mem.database_axioms, of sample_vars "''U1''" sample_dto "user_world []" "fst create_run" "snd create_run"]
    by (auto simp: create_run_eq)
qed

text \<open>
  (C9) A milestone update either does nothing, or was made by someone with access who owns the acting
  wallet, on an existing index of the one agreement, and changes that milestone only: its status is the one of the request, its
  evidence description and links are those of the request where it gives any, its description and amount stay. The new list
  passed the consistency check, no other agreement or table changes (the log apart), and the events of the change, each naming the
  agreement and the milestone, are emitted before one sync is started.
\<close>

theorem updateMilestone_sound:
  assumes "database B st" and "updateMilestone B userId aid dto w = (r, w')"
  shows "(r \<noteq> Inr success \<and> st (svc w') = st (svc w) \<and> quiet w w') \<or>
    (r = Inr success \<and> (\<exists>a ms m es. milestone_update_ok userId aid dto (st (svc w)) (st (svc w')) a ms m \<and>
      spawned w' = spawned w @ [SyncAgreement aid] \<and> emitted w' = emitted w @ es \<and>
      announces_milestone dto aid (ms_status (ms ! nat (um_index dto))) es))"
proof -
  let ?P = "\<lambda>r v. (r \<noteq> Inr success \<and> st (svc v) = st (svc w) \<and> quiet w v) \<or>
    (r = Inr success \<and> (\<exists>a ms m es. milestone_update_ok userId aid dto (st (svc w)) (st (svc v)) a ms m \<and>
      spawned v = spawned w @ [SyncAgreement aid] \<and> emitted v = emitted w @ es \<and>
      announces_milestone dto aid (ms_status (ms ! nat (um_index dto))) es))"
  have named: "a_id a = aid" if "milestone_update_ok userId aid dto ts ts' a ms m" for ts ts' a ms m
    using that by (auto simp: milestone_update_ok_def dest: filter_hdD)
  have "wp (updateMilestone B userId aid dto) ?P w"
    by (rule database.wp_updateMilestone [OF assms(1)]) (blast intro: milestone_events_announce named)+
  from wpD [OF this assms(2)] show ?thesis .
qed

definition sample_update :: update_milestone_dto where
  "sample_update = \<lparr>um_index = 1, um_status = ''approved'', um_actor = ''GA'', um_evidence_description = Some ''ok'',
     um_evidence_urls = None\<rparr>"

definition milestones_world :: "mem world" where
  "milestones_world = user_world [(linked_agreement ''active'')\<lparr>a_milestones := in_milestones (sample_input ''100'')\<rparr>]"

text \<open>The write of the run, past the consistency check that its amounts pass.\<close>

lemma sample_update_consistent:
  "validateAgreementConsistency ''100''
     (Some [sample_milestone ''50.25'', apply_milestone sample_update t (sample_milestone ''49.75'')]) = None"
proof -
  have "validateAgreementConsistency ''100'' (Some [sample_milestone ''50.25'', sample_milestone ''49.75'']) = None"
    using accepted_consistent [OF sample_accepted] by (simp add: sample_input_def)
  then show ?thesis
    by (rule consistency_same [THEN iffD1, rotated]) (simp add: apply_milestone_def Let_def split: option.splits)
qed

definition update_run :: "(exn + status_outcome) \<times> mem world" where
  "update_run = updateMilestone (mem_backend sample_vars) ''U1'' ''A1'' sample_update milestones_world"

lemma update_run_ok: "fst update_run = Inr success"
  by (simp add: update_run_def milestones_world_def user_world_def world_on_def quiet_env_def no_tables_def
    updateMilestone_def assertCanAccessAgreement_def assertActorWallet_def userCanAccessAgreement_def resolveUserWallets_def
    save_milestone_def Let_def sample_update_consistent [unfolded sample_update_def One_nat_def]
    primary_first_def emits_evidence_def logActivity_def emit_all_def update_where_def keyed_def milestone_events_def
    prog_simps mem_run mem_run_defs linked_agreement_def wallet_of_def sample_update_def sample_input_def)

lemma updateMilestone_sound_witness:
  "\<exists>a ms m. milestone_update_ok ''U1'' ''A1'' sample_update (tabs (svc milestones_world)) (tabs (svc (snd update_run))) a ms m \<and>
     spawned (snd update_run) = [SyncAgreement ''A1'']"
  using updateMilestone_sound [OF mem.database_axioms, of sample_vars "''U1''" "''A1''" sample_update milestones_world
      "fst update_run" "snd update_run"] update_run_ok
  by (auto simp: update_run_def milestones_world_def user_world_def world_on_def)

text \<open>
  (C7) The read paths disclose nothing to outsiders: every agreement listed, every agreement,
  participant and log entry fetched, belongs to an agreement the user may access, the listing
  respects its filters, and reading changes nothing.
\<close>

theorem reads_are_authorized:
  assumes "database B st"
  shows "wp (list_agreements B userId status ty) (\<lambda>r v. st (svc v) = st (svc w) \<and> quiet w v \<and>
      (\<exists>as e. r = Inr (as, e) \<and> (\<forall>a \<in> set as. listed (st (svc w)) userId status ty a))) w \<and>
    wp (listByWallet B userId wallet) (\<lambda>r v. st (svc v) = st (svc w) \<and> quiet w v \<and>
      (\<forall>as e. r = Inr (as, e) \<longrightarrow> (\<forall>a \<in> set as. listed (st (svc w)) userId None None a))) w \<and>
    wp (getById B userId aid) (\<lambda>r v. st (svc v) = st (svc w) \<and> quiet w v \<and>
      (\<forall>a ps e. r = Inr (a, ps, e) \<longrightarrow> may_access (st (svc w)) userId aid \<and>
        (\<forall>x. a = Some x \<longrightarrow> a_id x = aid) \<and> (\<forall>p \<in> set ps. p_agreement_id p = aid))) w \<and>
    wp (getByContractId B userId cid) (\<lambda>r v. st (svc v) = st (svc w) \<and> quiet w v \<and>
      (\<forall>a e. r = Inr (Some a, e) \<longrightarrow> may_access (st (svc w)) userId (a_id a) \<and> a_contract_id a = Some cid)) w \<and>
    wp (getActivity B userId aid) (\<lambda>r v. st (svc v) = st (svc w) \<and> quiet w v \<and>
      (\<forall>rs e. r = Inr (rs, e) \<longrightarrow> may_access (st (svc w)) userId aid \<and> (\<forall>x \<in> set rs. act_agreement_id x = aid))) w"
  by (intro conjI database.wp_list_agreements [OF assms] database.wp_listByWallet [OF assms] database.wp_getById [OF assms]
      database.wp_getByContractId [OF assms] database.wp_getActivity [OF assms])
    (auto dest: filter_hdD)

definition listing_run :: "(exn + agreement list \<times> string option) \<times> mem world" where
  "listing_run = list_agreements (mem_backend sample_vars) ''U1'' (Some ''active'') None
     (user_world [linked_agreement ''active'', (linked_agreement ''active'')\<lparr>a_id := ''A2'', a_created_by := ''GB''\<rparr>])"

lemma reads_are_authorized_witness:
  "fst listing_run = Inr ([linked_agreement ''active''], None) \<and>
   may_access (tabs (svc (user_world [linked_agreement ''active'', (linked_agreement ''active'')\<lparr>a_id := ''A2'', a_created_by := ''GB''\<rparr>])))
     ''U1'' (a_id (linked_agreement ''active''))"
proof -
  let ?w = "user_world [linked_agreement ''active'', (linked_agreement ''active'')\<lparr>a_id := ''A2'', a_created_by := ''GB''\<rparr>]"
  have r: "fst listing_run = Inr ([linked_agreement ''active''], None)" by code_simp
  have "wp (list_agreements (mem_backend sample_vars) ''U1'' (Some ''active'') None)
      (\<lambda>r v. tabs (svc v) = tabs (svc ?w) \<and> quiet ?w v \<and>
        (\<exists>as e. r = Inr (as, e) \<and> (\<forall>a \<in> set as. listed (tabs (svc ?w)) ''U1'' (Some ''active'') None a))) ?w"
    using reads_are_authorized [OF mem.database_axioms, of sample_vars "''U1''" "Some ''active''" None ?w] by blast
  then have "\<exists>as e. fst listing_run = Inr (as, e) \<and>
      (\<forall>a \<in> set as. listed (tabs (svc ?w)) ''U1'' (Some ''active'') None a)"
    unfolding listing_run_def wp_def by (auto split: prod.splits)
  then show ?thesis using r by (auto simp: listed_def)
qed

end
