(* ===== verification/Disputes.thy ===== *)
theory Disputes
  imports Agreements
begin

text \<open>
  \<open>disputes/disputes.service.ts\<close>: opening, assigning, resolving and cancelling disputes, each of which
  drives the agreement's status through \<open>applyStatusChange\<close>. Unlike the agreements service it knows
  one wallet per user, the legacy column of \<open>auth_users\<close>. A dispute is answered without the agreement
  columns that the queries embed for display.
\<close>

section \<open>Requests and access\<close>

record open_dispute_dto =
  od_agreement_id :: string
  od_opened_by :: string
  od_reason :: string
  od_evidence_urls :: "string list option"

record assign_resolver_dto =
  ar_resolver_wallet :: string

record resolve_dispute_dto =
  rd_resolved_by :: string
  rd_payer_percentage :: rat
  rd_payee_percentage :: rat
  rd_notes :: "string option"

record cancel_dispute_dto =
  cx_cancelled_by :: string

definition walletForUserId :: "'s backend \<Rightarrow> string \<Rightarrow> ('s world, string option) prog" where
  "walletForUserId B userId =
     bnd (call (select_one (users B) (\<lambda>u. au_id u = userId))) (\<lambda>(data, error).
     case (error, data) of
       (None, Some u) \<Rightarrow> ret (if truthy (au_wallet u) then au_wallet u else None)
     | _ \<Rightarrow> ret None)"

definition dispute_assertActorWallet :: "'s backend \<Rightarrow> string \<Rightarrow> string \<Rightarrow> ('s world, unit) prog" where
  "dispute_assertActorWallet B userId actorWallet =
     bnd (walletForUserId B userId) (\<lambda>w.
     require (w = Some actorWallet) (Forbidden ''Wallet does not match authenticated user''))"

definition dispute_assertCanAccess :: "'s backend \<Rightarrow> string \<Rightarrow> string \<Rightarrow> ('s world, unit) prog" where
  "dispute_assertCanAccess B userId agreementId =
     bnd (walletForUserId B userId) (\<lambda>wallet.
     case wallet of
       None \<Rightarrow> throw (Forbidden ''No wallet on profile'')
     | Some w \<Rightarrow>
         bnd (call (select_one (agreements B) (\<lambda>a. a_id a = agreementId))) (\<lambda>(agreement, aErr).
         case (aErr, agreement) of
           (None, Some a) \<Rightarrow>
             if a_created_by a = w \<or> a_created_by a = userId then ret ()
             else bnd (call (select_rows (participants B)
                    (\<lambda>p. p_agreement_id p = agreementId \<and> p_wallet p = w) (take 1))) (\<lambda>(parts, _).
                  require (length (default parts []) \<noteq> 0) (Forbidden ''Not a participant of this agreement''))
         | _ \<Rightarrow> throw (NotFound ''Agreement not found'')))"

section \<open>\<open>openDispute\<close>\<close>

definition active_dispute :: "dispute \<Rightarrow> bool" where
  "active_dispute d \<longleftrightarrow> dp_status d = ''open'' \<or> dp_status d = ''under_review''"

definition new_dispute :: "open_dispute_dto \<Rightarrow> dispute" where
  "new_dispute dto = \<lparr>dp_id = [], dp_agreement_id = od_agreement_id dto, dp_opened_by = od_opened_by dto,
     dp_reason = od_reason dto, dp_evidence_urls = default (od_evidence_urls dto) [], dp_status = ''open'',
     dp_resolver = None, dp_created_at = 0, dp_updated_at = 0, dp_resolved_at = None\<rparr>"

text \<open>After the row is stored: the agreement's status, the log, the event.\<close>

definition announce_dispute :: "'s backend \<Rightarrow> open_dispute_dto \<Rightarrow> dispute \<Rightarrow>
    ('s world, dispute option \<times> string option) prog" where
  "announce_dispute B dto d =
     bnd (applyStatusChange B (od_agreement_id dto) (od_opened_by dto) ''disputed'' None True
       [(''dispute_id'', JStr (dp_id d)), (''reason'', JStr (od_reason dto)), (''source'', JStr ''dispute'')]) (\<lambda>statusResult.
     bnd (require (so_success statusResult) (BadRequest (Coded ''VALIDATION_ERROR'' [mk_detail ''status'' ''INVALID_TRANSITION''
       (or_else (so_error statusResult) ''Invalid status transition'')]))) (\<lambda>_.
     bnd (logActivity B (od_agreement_id dto) (od_opened_by dto) ''dispute_opened''
       (JObj [(''dispute_id'', JStr (dp_id d)), (''reason'', JStr (od_reason dto))])
       (so_from statusResult) (Some ''disputed'')) (\<lambda>_.
     bnd (emit ''dispute.opened'' (JObj [(''disputeId'', JStr (dp_id d)), (''agreementId'', JStr (od_agreement_id dto)),
       (''openedByWallet'', JStr (od_opened_by dto)), (''reason'', JStr (od_reason dto))])) (\<lambda>_.
     ret (Some d, None)))))"

definition openDispute :: "'s backend \<Rightarrow> string \<Rightarrow> open_dispute_dto \<Rightarrow>
    ('s world, dispute option \<times> string option) prog" where
  "openDispute B userId dto =
     bnd (dispute_assertCanAccess B userId (od_agreement_id dto)) (\<lambda>_.
     bnd (dispute_assertActorWallet B userId (od_opened_by dto)) (\<lambda>_.
     bnd (call (select_one (disputes B) (\<lambda>d. dp_agreement_id d = od_agreement_id dto \<and> active_dispute d))) (\<lambda>(existing, _).
     case existing of
       Some _ \<Rightarrow> ret (None, Some ''There is already an open dispute for this agreement'')
     | None \<Rightarrow>
         bnd (call (insert_row (disputes B) (new_dispute dto))) (\<lambda>(dispute, error).
         case error of
           Some e \<Rightarrow> ret (None, Some (e_message e))
         | None \<Rightarrow> (case dispute of
             None \<Rightarrow> throw (PlainError ''TypeError'')
           | Some d \<Rightarrow> announce_dispute B dto d)))))"

section \<open>\<open>assignResolver\<close>\<close>

text \<open>The row of a dispute, or a 404.\<close>

definition fetch_dispute :: "'s backend \<Rightarrow> string \<Rightarrow> ('s world, dispute) prog" where
  "fetch_dispute B disputeId =
     bnd (call (select_one (disputes B) (\<lambda>d. dp_id d = disputeId))) (\<lambda>(dispute, fetchError).
     case (fetchError, dispute) of
       (None, Some d) \<Rightarrow> ret d
     | _ \<Rightarrow> throw (NotFound ''Dispute not found''))"

definition assignResolver :: "'s backend \<Rightarrow> string \<Rightarrow> string \<Rightarrow> assign_resolver_dto \<Rightarrow> ('s world, status_outcome) prog" where
  "assignResolver B userId disputeId dto =
     bnd (fetch_dispute B disputeId) (\<lambda>dispute.
     bnd (dispute_assertCanAccess B userId (dp_agreement_id dispute)) (\<lambda>_.
     bnd (require (dp_status dispute = ''open'') (BadRequest (Msg ''Can only assign resolver to open disputes''))) (\<lambda>_.
     bnd (call (now B)) (\<lambda>t.
     bnd (call (update_rows (disputes B) (\<lambda>d. dp_id d = disputeId)
       (\<lambda>d. d\<lparr>dp_resolver := Some (ar_resolver_wallet dto), dp_status := ''under_review'', dp_updated_at := t\<rparr>))) (\<lambda>error.
     case error of
       Some e \<Rightarrow> ret (failure (e_message e))
     | None \<Rightarrow>
         bnd (logActivity B (dp_agreement_id dispute) (ar_resolver_wallet dto) ''dispute_resolver_assigned''
           (JObj [(''dispute_id'', JStr disputeId), (''resolver_wallet'', JStr (ar_resolver_wallet dto))]) None None) (\<lambda>_.
         ret success))))))"

section \<open>\<open>resolveDispute\<close>\<close>

definition new_resolution :: "string \<Rightarrow> resolve_dispute_dto \<Rightarrow> resolution" where
  "new_resolution disputeId dto = \<lparr>rs_id = [], rs_dispute_id = disputeId, rs_resolved_by = rd_resolved_by dto,
     rs_payer_percentage = rd_payer_percentage dto, rs_payee_percentage = rd_payee_percentage dto,
     rs_notes = or_else (rd_notes dto) [], rs_created_at = 0\<rparr>"

text \<open>\<open>payer_percentage + payee_percentage !== 100\<close>, in doubles.\<close>

definition percentages_ok :: "resolve_dispute_dto \<Rightarrow> bool" where
  "percentages_ok dto \<longleftrightarrow> js_eq (js_add (Fin (rd_payer_percentage dto)) (Fin (rd_payee_percentage dto))) (Fin 100)"

definition percentage_fields :: "resolve_dispute_dto \<Rightarrow> (string \<times> json) list" where
  "percentage_fields dto = [(''payer_percentage'', JNum (rd_payer_percentage dto)),
     (''payee_percentage'', JNum (rd_payee_percentage dto))]"

definition announce_resolution :: "'s backend \<Rightarrow> string \<Rightarrow> resolve_dispute_dto \<Rightarrow> dispute \<Rightarrow> resolution \<Rightarrow>
    ('s world, resolution option \<times> string option) prog" where
  "announce_resolution B disputeId dto dispute rs =
     bnd (applyStatusChange B (dp_agreement_id dispute) (rd_resolved_by dto) ''resolved'' None True
       ([(''dispute_id'', JStr disputeId)] @ percentage_fields dto @ [(''source'', JStr ''dispute'')])) (\<lambda>statusResult.
     if \<not> so_success statusResult then ret (None, Some (or_else (so_error statusResult) ''Failed to mark agreement resolved''))
     else
       bnd (logActivity B (dp_agreement_id dispute) (rd_resolved_by dto) ''dispute_resolved''
         (JObj ([(''dispute_id'', JStr disputeId)] @ percentage_fields dto @
           jopt ''resolution_notes'' (map_option JStr (rd_notes dto))))
         (Some (default (so_from statusResult) ''disputed'')) (Some ''resolved'')) (\<lambda>_.
       bnd (emit ''dispute.resolved'' (JObj [(''disputeId'', JStr disputeId), (''agreementId'', JStr (dp_agreement_id dispute)),
         (''resolvedByWallet'', JStr (rd_resolved_by dto)), (''payerPercentage'', JNum (rd_payer_percentage dto)),
         (''payeePercentage'', JNum (rd_payee_percentage dto)),
         (''resolutionNotes'', JStr (or_else (rd_notes dto) []))])) (\<lambda>_.
       ret (Some rs, None))))"

definition record_resolution :: "'s backend \<Rightarrow> string \<Rightarrow> resolve_dispute_dto \<Rightarrow> dispute \<Rightarrow>
    ('s world, resolution option \<times> string option) prog" where
  "record_resolution B disputeId dto dispute =
     bnd (call (insert_row (resolutions B) (new_resolution disputeId dto))) (\<lambda>(resolution, resError).
     case resError of
       Some e \<Rightarrow> ret (None, Some (e_message e))
     | None \<Rightarrow> (case resolution of
         None \<Rightarrow> throw (PlainError ''TypeError'')
       | Some rs \<Rightarrow>
           bnd (call (now B)) (\<lambda>t1.
           bnd (call (now B)) (\<lambda>t2.
           bnd (call (update_rows (disputes B) (\<lambda>d. dp_id d = disputeId)
             (\<lambda>d. d\<lparr>dp_status := ''resolved'', dp_resolved_at := Some t1, dp_updated_at := t2\<rparr>))) (\<lambda>_.
           announce_resolution B disputeId dto dispute rs)))))"

definition resolveDispute :: "'s backend \<Rightarrow> string \<Rightarrow> string \<Rightarrow> resolve_dispute_dto \<Rightarrow>
    ('s world, resolution option \<times> string option) prog" where
  "resolveDispute B userId disputeId dto =
     bnd (dispute_assertActorWallet B userId (rd_resolved_by dto)) (\<lambda>_.
     bnd (require (percentages_ok dto) (BadRequest (Msg ''Percentages must sum to 100%''))) (\<lambda>_.
     bnd (fetch_dispute B disputeId) (\<lambda>dispute.
     bnd (require (dp_status dispute \<noteq> ''resolved'') (BadRequest (Msg ''Dispute is already resolved''))) (\<lambda>_.
     bnd (require (truthy (dp_resolver dispute) \<and> dp_resolver dispute = Some (rd_resolved_by dto))
       (Forbidden ''Only the assigned resolver can resolve this dispute'')) (\<lambda>_.
     record_resolution B disputeId dto dispute)))))"

section \<open>\<open>cancelDispute\<close>\<close>

definition restore_agreement :: "'s backend \<Rightarrow> string \<Rightarrow> cancel_dispute_dto \<Rightarrow> dispute \<Rightarrow> ('s world, status_outcome) prog" where
  "restore_agreement B disputeId dto dispute =
     bnd (call (select_single (agreements B) (\<lambda>a. a_id a = dp_agreement_id dispute))) (\<lambda>(agreement, _).
     case validateTransition (case agreement of None \<Rightarrow> ''undefined'' | Some a \<Rightarrow> a_status a) ''active'' of
       Some (code, details) \<Rightarrow> throw (BadRequest (Coded code details))
     | None \<Rightarrow>
         bnd (applyStatusChange B (dp_agreement_id dispute) (cx_cancelled_by dto) ''active'' None False
           [(''dispute_id'', JStr disputeId), (''source'', JStr ''dispute_cancel'')]) (\<lambda>statusResult.
         if \<not> so_success statusResult then ret (failure (or_else (so_error statusResult) ''Failed to restore agreement status''))
         else
           bnd (logActivity B (dp_agreement_id dispute) (cx_cancelled_by dto) ''dispute_cancelled''
             (JObj [(''dispute_id'', JStr disputeId)]) (Some (default (so_from statusResult) ''disputed'')) (Some ''active'')) (\<lambda>_.
           ret success)))"

definition cancelDispute :: "'s backend \<Rightarrow> string \<Rightarrow> string \<Rightarrow> cancel_dispute_dto \<Rightarrow> ('s world, status_outcome) prog" where
  "cancelDispute B userId disputeId dto =
     bnd (dispute_assertActorWallet B userId (cx_cancelled_by dto)) (\<lambda>_.
     bnd (fetch_dispute B disputeId) (\<lambda>dispute.
     bnd (require (dp_opened_by dispute = cx_cancelled_by dto) (Forbidden ''Only the dispute opener can cancel it'')) (\<lambda>_.
     bnd (require (dp_status dispute \<noteq> ''resolved'') (BadRequest (Msg ''Cannot cancel a resolved dispute''))) (\<lambda>_.
     bnd (call (now B)) (\<lambda>t.
     bnd (call (update_rows (disputes B) (\<lambda>d. dp_id d = disputeId) (\<lambda>d. d\<lparr>dp_status := ''cancelled'', dp_updated_at := t\<rparr>))) (\<lambda>error.
     case error of
       Some e \<Rightarrow> ret (failure (e_message e))
     | None \<Rightarrow> restore_agreement B disputeId dto dispute))))))"

section \<open>Reading\<close>

definition newest_disputes :: "dispute list \<Rightarrow> dispute list" where
  "newest_disputes rs = rev (sort_key dp_created_at rs)"

definition dispute_list :: "'s backend \<Rightarrow> (dispute \<Rightarrow> bool) \<Rightarrow> ('s world, dispute list \<times> string option) prog" where
  "dispute_list B P =
     bnd (call (select_rows (disputes B) P newest_disputes)) (\<lambda>(data, error).
     case error of Some e \<Rightarrow> ret ([], Some (e_message e)) | None \<Rightarrow> ret (default data [], None))"

definition getOpenDisputes :: "'s backend \<Rightarrow> string \<Rightarrow> ('s world, dispute list \<times> string option) prog" where
  "getOpenDisputes B userId = dispute_list B active_dispute"

definition getDisputesByResolver :: "'s backend \<Rightarrow> string \<Rightarrow> string \<Rightarrow> ('s world, dispute list \<times> string option) prog" where
  "getDisputesByResolver B userId resolverWallet =
     bnd (dispute_assertActorWallet B userId resolverWallet) (\<lambda>_.
     dispute_list B (\<lambda>d. dp_resolver d = Some resolverWallet))"

definition getDisputeById :: "'s backend \<Rightarrow> string \<Rightarrow> string \<Rightarrow> ('s world, dispute \<times> resolution option) prog" where
  "getDisputeById B userId disputeId =
     bnd (fetch_dispute B disputeId) (\<lambda>dispute.
     bnd (dispute_assertCanAccess B userId (dp_agreement_id dispute)) (\<lambda>_.
     bnd (call (select_one (resolutions B) (\<lambda>r. rs_dispute_id r = disputeId))) (\<lambda>(resolution, _).
     ret (dispute, resolution))))"

definition getDisputesByAgreement :: "'s backend \<Rightarrow> string \<Rightarrow> string \<Rightarrow> ('s world, dispute list \<times> string option) prog" where
  "getDisputesByAgreement B userId agreementId =
     bnd (dispute_assertCanAccess B userId agreementId) (\<lambda>_.
     dispute_list B (\<lambda>d. dp_agreement_id d = agreementId))"

section \<open>What the operations may do to a dispute\<close>

definition legacy_wallet :: "tables \<Rightarrow> string \<Rightarrow> string \<Rightarrow> bool" where
  "legacy_wallet ts userId w \<longleftrightarrow> w \<noteq> [] \<and> (\<exists>u \<in> set (t_users ts). au_id u = userId \<and> au_wallet u = Some w)"

lemma legacy_owns: "legacy_wallet ts userId w \<Longrightarrow> owns ts userId w"
  by (auto simp: legacy_wallet_def owns_def)

text \<open>A change of one row: it is assigned, resolved or cancelled, and never leaves \<open>resolved\<close>.\<close>

definition dispute_step :: "dispute \<Rightarrow> dispute \<Rightarrow> bool" where
  "dispute_step d d' \<longleftrightarrow> d' = d \<or>
     dp_status d \<noteq> ''resolved'' \<and> dp_id d' = dp_id d \<and> dp_agreement_id d' = dp_agreement_id d \<and>
     dp_opened_by d' = dp_opened_by d \<and> dp_reason d' = dp_reason d \<and> dp_evidence_urls d' = dp_evidence_urls d \<and>
     (dp_status d = ''open'' \<and> dp_status d' = ''under_review'' \<and> dp_resolver d' \<noteq> None \<or>
      dp_status d' = ''resolved'' \<and> dp_resolver d \<noteq> None \<and> dp_resolver d' = dp_resolver d \<or>
      dp_status d' = ''cancelled'' \<and> dp_resolver d' = dp_resolver d)"

definition disputes_evolve :: "dispute list \<Rightarrow> dispute list \<Rightarrow> bool" where
  "disputes_evolve ds ds' \<longleftrightarrow> (\<exists>es new. ds' = es @ new \<and> list_all2 dispute_step ds es \<and>
     (\<forall>d \<in> set new. dp_status d = ''open'' \<and> dp_resolver d = None))"

lemma dispute_step_refl [simp]: "dispute_step d d"
  by (simp add: dispute_step_def)

lemma evolve_refl [simp]: "disputes_evolve ds ds"
  unfolding disputes_evolve_def by (rule exI [of _ ds], rule exI [of _ "[]"]) (simp add: list_all2_same)

lemma evolve_new: "dp_status d = ''open'' \<Longrightarrow> dp_resolver d = None \<Longrightarrow> disputes_evolve ds (ds @ [d])"
  unfolding disputes_evolve_def by (rule exI [of _ ds], rule exI [of _ "[d]"]) (simp add: list_all2_same)

lemma evolve_update:
  "filter P ds = [d] \<Longrightarrow> dispute_step d (f d) \<Longrightarrow> disputes_evolve ds (update_where P f ds)"
  unfolding disputes_evolve_def by (rule exI, rule exI [of _ "[]"]) (auto intro!: update_where_all2)

lemma log_tables: "same_but_log ts us \<Longrightarrow>
    t_agreements us = t_agreements ts \<and> t_disputes us = t_disputes ts \<and> t_resolutions us = t_resolutions ts"
  by (cases ts; cases us) (simp add: same_but_log_def)

lemma status_disputes: "status_written aid to ts us \<Longrightarrow> t_disputes us = t_disputes ts"
  by (auto simp: status_written_def dest!: log_tables)

lemma status_resolutions: "status_written aid to ts us \<Longrightarrow> t_resolutions us = t_resolutions ts"
  by (auto simp: status_written_def dest!: log_tables)

context database
begin

lemma wp_walletForUserId:
  assumes "\<And>r s'. st s' = st (svc w) \<Longrightarrow> (\<And>a. r = Some a \<Longrightarrow> legacy_wallet (st (svc w)) userId a) \<Longrightarrow>
    Q (Inr r) (w\<lparr>svc := s'\<rparr>)"
  shows "wp (walletForUserId B userId) Q w"
  unfolding walletForUserId_def
  by (auto simp: wp_simps legacy_wallet_def intro!: users_wp assms) (auto simp: truthy_def split: option.splits)

lemma wp_dispute_assertActorWallet:
  assumes "\<And>s'. st s' = st (svc w) \<Longrightarrow> legacy_wallet (st (svc w)) userId a \<Longrightarrow> Q (Inr ()) (w\<lparr>svc := s'\<rparr>)"
    and "\<And>s' e. st s' = st (svc w) \<Longrightarrow> Q (Inl e) (w\<lparr>svc := s'\<rparr>)"
  shows "wp (dispute_assertActorWallet B userId a) Q w"
  unfolding dispute_assertActorWallet_def
  by (auto simp: wp_simps intro!: wp_walletForUserId assms)

lemma wp_dispute_assertCanAccess:
  assumes ok: "\<And>s'. st s' = st (svc w) \<Longrightarrow> may_access (st (svc w)) userId aid \<Longrightarrow> Q (Inr ()) (w\<lparr>svc := s'\<rparr>)"
    and err: "\<And>s' e. st s' = st (svc w) \<Longrightarrow> Q (Inl e) (w\<lparr>svc := s'\<rparr>)"
  shows "wp (dispute_assertCanAccess B userId aid) Q w"
proof -
  show ?thesis
    unfolding dispute_assertCanAccess_def wp_bnd [of "walletForUserId x y" for x y]
  proof (rule wp_walletForUserId)
    fix r s' assume s': "st s' = st (svc w)" and r: "\<And>a. r = Some a \<Longrightarrow> legacy_wallet (st (svc w)) userId a"
    then show "case Inr r of Inl e \<Rightarrow> Q (Inl e) (w\<lparr>svc := s'\<rparr>) | Inr x \<Rightarrow> wp (case x of
         None \<Rightarrow> throw (Forbidden ''No wallet on profile'')
       | Some w \<Rightarrow>
           bnd (call (select_one (agreements B) (\<lambda>a. a_id a = aid))) (\<lambda>(agreement, aErr).
           case (aErr, agreement) of
             (None, Some a) \<Rightarrow>
               if a_created_by a = w \<or> a_created_by a = userId then ret ()
               else bnd (call (select_rows (participants B)
                      (\<lambda>p. p_agreement_id p = aid \<and> p_wallet p = w) (take 1))) (\<lambda>(parts, _).
                    require (length (default parts []) \<noteq> 0) (Forbidden ''Not a participant of this agreement''))
           | _ \<Rightarrow> throw (NotFound ''Agreement not found''))) Q (w\<lparr>svc := s'\<rparr>)"
      using legacy_owns [OF r] by (cases r, auto simp: wp_simps filter_empty_conv simp del: append.simps
          intro!: err ok agreements_wp participants_wp)
        (blast intro: may_access_creator may_access_participant)+
  qed
qed

lemma wp_fetch_dispute:
  assumes "\<And>d s'. st s' = st (svc w) \<Longrightarrow> filter (\<lambda>r. dp_id r = i) (t_disputes (st (svc w))) = [d] \<Longrightarrow> Q (Inr d) (w\<lparr>svc := s'\<rparr>)"
    and "\<And>s' e. st s' = st (svc w) \<Longrightarrow> Q (Inl e) (w\<lparr>svc := s'\<rparr>)"
  shows "wp (fetch_dispute B i) Q w"
  unfolding fetch_dispute_def
  by (auto simp: wp_simps intro!: disputes_wp assms)

end

definition dispute_opened :: "string \<Rightarrow> open_dispute_dto \<Rightarrow> tables \<Rightarrow> tables \<Rightarrow> dispute \<Rightarrow> bool" where
  "dispute_opened userId dto ts ts' d \<longleftrightarrow>
     may_access ts userId (od_agreement_id dto) \<and> legacy_wallet ts userId (od_opened_by dto) \<and>
     (\<exists>i t. d = gen_dispute i t (new_dispute dto)) \<and>
     (\<exists>a. filter (\<lambda>r. a_id r = od_agreement_id dto) (t_agreements ts) = [a] \<and> lifecycle_step (a_status a) ''disputed'') \<and>
     status_written (od_agreement_id dto) ''disputed'' (ts\<lparr>t_disputes := t_disputes ts @ [d]\<rparr>) ts'"

text \<open>
  The dispute's row after a resolution: resolved, unless the database answered the update that resolves it with an
  error, which the code does not look at.
\<close>

definition resolving_refused :: "'s backend \<Rightarrow> ('s \<Rightarrow> tables) \<Rightarrow> string \<Rightarrow> tables \<Rightarrow> bool" where
  "resolving_refused B st i us \<longleftrightarrow> (\<exists>s f e s'. st s = us \<and> (\<forall>d. dp_status (f d) = ''resolved'') \<and>
     update_rows (disputes B) (\<lambda>d. dp_id d = i) f s = (Some e, s'))"

definition resolved_row :: "'s backend \<Rightarrow> ('s \<Rightarrow> tables) \<Rightarrow> string \<Rightarrow> tables \<Rightarrow> dispute list \<Rightarrow> bool" where
  "resolved_row B st i us ds \<longleftrightarrow>
     (\<exists>t1 t2. ds = update_where (\<lambda>r. dp_id r = i)
        (\<lambda>r. r\<lparr>dp_status := ''resolved'', dp_resolved_at := Some t1, dp_updated_at := t2\<rparr>) (t_disputes us)) \<or>
     ds = t_disputes us \<and> resolving_refused B st i us"

definition dispute_closed :: "'s backend \<Rightarrow> ('s \<Rightarrow> tables) \<Rightarrow> string \<Rightarrow> string \<Rightarrow> resolve_dispute_dto \<Rightarrow> tables \<Rightarrow> tables \<Rightarrow>
    resolution \<Rightarrow> bool" where
  "dispute_closed B st userId i dto ts ts' rs \<longleftrightarrow>
     legacy_wallet ts userId (rd_resolved_by dto) \<and>
     js_add (Fin (rd_payer_percentage dto)) (Fin (rd_payee_percentage dto)) = Fin 100 \<and>
     rs_dispute_id rs = i \<and> rs_resolved_by rs = rd_resolved_by dto \<and> rs_payer_percentage rs = rd_payer_percentage dto \<and>
     rs_payee_percentage rs = rd_payee_percentage dto \<and>
     rs_notes rs = (case rd_notes dto of None \<Rightarrow> [] | Some n \<Rightarrow> n) \<and> t_resolutions ts' = t_resolutions ts @ [rs] \<and>
     (\<exists>d. filter (\<lambda>r. dp_id r = i) (t_disputes ts) = [d] \<and> dp_status d \<noteq> ''resolved'' \<and>
       dp_resolver d = Some (rd_resolved_by dto) \<and>
       (\<exists>a ds. filter (\<lambda>r. a_id r = dp_agreement_id d) (t_agreements ts) = [a] \<and> lifecycle_step (a_status a) ''resolved'' \<and>
         resolved_row B st i (ts\<lparr>t_resolutions := t_resolutions ts @ [rs]\<rparr>) ds \<and>
         status_written (dp_agreement_id d) ''resolved''
           (ts\<lparr>t_disputes := ds, t_resolutions := t_resolutions ts @ [rs]\<rparr>) ts'))"

lemma percentages_ok_sum: "percentages_ok dto \<longleftrightarrow> js_add (Fin (rd_payer_percentage dto)) (Fin (rd_payee_percentage dto)) = Fin 100"
  by (cases "js_add (Fin (rd_payer_percentage dto)) (Fin (rd_payee_percentage dto))") (auto simp: percentages_ok_def)

context database
begin

lemmas disputes_update_read = table_store.wp_update_rows_read [OF disputes_store]

lemma wp_openDispute:
  assumes none: "\<And>r w'. (\<forall>d. r \<noteq> Inr (Some d, None)) \<Longrightarrow> quiet w w' \<Longrightarrow>
      st (svc w') = st (svc w) \<or> (\<exists>i t. st (svc w') = st (svc w)\<lparr>t_disputes :=
        t_disputes (st (svc w)) @ [gen_dispute i t (new_dispute dto)]\<rparr>) \<Longrightarrow> Q r w'"
    and ok: "\<And>d w'. dispute_opened userId dto (st (svc w)) (st (svc w')) d \<Longrightarrow> spawned w' = spawned w \<Longrightarrow>
      map fst (emitted w') = map fst (emitted w) @ [''dispute.opened''] \<Longrightarrow> Q (Inr (Some d, None)) w'"
  shows "wp (openDispute B userId dto) Q w"
proof -
  have announced: "wp (announce_dispute B dto d) Q v"
    if acc: "may_access (st (svc w)) userId (od_agreement_id dto)" "legacy_wallet (st (svc w)) userId (od_opened_by dto)"
      and d: "d = gen_dispute i t (new_dispute dto)"
      and v: "st (svc v) = st (svc w)\<lparr>t_disputes := t_disputes (st (svc w)) @ [d]\<rparr>" "quiet w v" for d v i t
    unfolding announce_dispute_def wp_bnd [of "applyStatusChange a b c d e f g" for a b c d e f g]
  proof (rule wp_applyStatusChange, goal_cases)
    case (1 r w')
    then show ?case
      using v d by (cases r) (auto simp: wp_simps intro!: none intro: quiet_trans)
  next
    case (2 w' a)
    have "dispute_opened userId dto (st (svc w)) us d" if "same_but_log (st (svc w')) us" for us
      using acc 2(1,2,3) that unfolding dispute_opened_def d
      by (auto simp: v(1) d intro: status_written_log)
    then show ?case
      using v 2(4,5) by (auto simp: wp_simps success_def lifecycle_events_def quiet_def intro!: wp_logActivity ok)
  qed
  show ?thesis
    unfolding openDispute_def wp_bnd [of "dispute_assertCanAccess a b c" for a b c] wp_bnd [of "dispute_assertActorWallet a b c" for a b c]
      wp_bnd [of "call c" for c]
  proof (rule wp_dispute_assertCanAccess, goal_cases)
    case (1 s1)
    show ?case unfolding sum.case
    proof (rule wp_dispute_assertActorWallet, goal_cases)
      case (1 s2)
      note acc = this \<open>st s1 = _\<close> \<open>may_access _ _ _\<close>
      have "wp (call (insert_row (disputes B) (new_dispute dto))) (\<lambda>r v. case r of Inl e \<Rightarrow> Q (Inl e) v | Inr x \<Rightarrow>
          wp (case x of (dispute, error) \<Rightarrow> case error of Some e \<Rightarrow> ret (None, Some (e_message e))
            | None \<Rightarrow> (case dispute of None \<Rightarrow> throw (PlainError ''TypeError'') | Some d \<Rightarrow> announce_dispute B dto d)) Q v) (w\<lparr>svc := s\<rparr>)"
        if "st s = st (svc w)" for s
      proof (rule disputes_wp(5), goal_cases)
        case (2 i t s')
        show ?case unfolding sum.case prod.case option.case
          by (rule announced) (use acc 2 that in auto)
      qed (use that in \<open>auto simp: wp_ret intro!: none\<close>)
      then show ?case
        using acc by (auto simp: wp_simps simp del: append.simps intro!: disputes_wp(2) none)
    qed (use 1 none in auto)
  qed (use none in auto)
qed

lemma wp_assignResolver:
  assumes "\<And>r w'. quiet w w' \<Longrightarrow> t_agreements (st (svc w')) = t_agreements (st (svc w)) \<Longrightarrow>
    t_resolutions (st (svc w')) = t_resolutions (st (svc w)) \<Longrightarrow>
    disputes_evolve (t_disputes (st (svc w))) (t_disputes (st (svc w'))) \<Longrightarrow>
    (r = Inr success \<Longrightarrow> \<exists>d. filter (\<lambda>r. dp_id r = i) (t_disputes (st (svc w))) = [d] \<and> dp_status d = ''open'' \<and>
      may_access (st (svc w)) userId (dp_agreement_id d)) \<Longrightarrow> Q r w'"
  shows "wp (assignResolver B userId i dto) Q w"
  unfolding assignResolver_def wp_bnd [of "fetch_dispute a b" for a b]
proof (rule wp_fetch_dispute, goal_cases)
  case (1 d s1)
  have ev: "disputes_evolve (t_disputes (st (svc w))) (update_where (\<lambda>d. dp_id d = i)
      (\<lambda>d. d\<lparr>dp_resolver := Some x, dp_status := ''under_review'', dp_updated_at := t\<rparr>) (t_disputes (st (svc w))))"
    if "dp_status d = ''open''" for x t
    by (rule evolve_update [OF 1(2)]) (simp add: dispute_step_def that)
  show ?case
    using 1 by (auto simp: wp_simps failure_def success_def intro!: wp_dispute_assertCanAccess wp_now disputes_wp wp_logActivity assms ev
        dest!: log_tables)
qed (auto intro!: assms)

lemma wp_announce_resolution:
  assumes d: "filter (\<lambda>r. dp_id r = i) (t_disputes ts) = [d]" "dp_status d \<noteq> ''resolved''"
      "dp_resolver d = Some (rd_resolved_by dto)"
    and who: "legacy_wallet ts userId (rd_resolved_by dto)" "percentages_ok dto"
    and rs: "rs = gen_resolution k t (new_resolution i dto)"
    and v: "st (svc v) = ts\<lparr>t_disputes := ds, t_resolutions := t_resolutions ts @ [rs]\<rparr>"
    and ds: "resolved_row B st i (ts\<lparr>t_resolutions := t_resolutions ts @ [rs]\<rparr>) ds"
    and none: "\<And>r w'. t_disputes (st (svc w')) = ds \<Longrightarrow> (\<forall>x. r \<noteq> Inr (Some x, None)) \<Longrightarrow> Q r w'"
    and ok: "\<And>w'. dispute_closed B st userId i dto ts (st (svc w')) rs \<Longrightarrow> t_disputes (st (svc w')) = ds \<Longrightarrow>
      map fst (emitted w') = map fst (emitted v) @ [''agreement.completed'', ''dispute.resolved''] \<Longrightarrow> Q (Inr (Some rs, None)) w'"
  shows "wp (announce_resolution B i dto d rs) Q v"
  unfolding announce_resolution_def wp_bnd [of "applyStatusChange a b c d e f g" for a b c d e f g]
proof (rule wp_applyStatusChange, goal_cases)
  case (1 r w')
  then show ?case
    using v by (cases r) (auto simp: wp_simps intro!: none)
next
  case (2 w' a)
  have "dispute_closed B st userId i dto ts us rs \<and> t_disputes us = ds" if us: "same_but_log (st (svc w')) us" for us
  proof -
    note sw = status_written_log [OF 2(3) us]
    have "t_resolutions us = t_resolutions ts @ [rs]" "t_disputes us = ds"
      using status_resolutions [OF sw] status_disputes [OF sw] v by simp_all
    moreover have "\<exists>a ds'. filter (\<lambda>r. a_id r = dp_agreement_id d) (t_agreements ts) = [a] \<and> lifecycle_step (a_status a) ''resolved'' \<and>
        resolved_row B st i (ts\<lparr>t_resolutions := t_resolutions ts @ [rs]\<rparr>) ds' \<and> status_written (dp_agreement_id d) ''resolved'' (ts\<lparr>t_disputes := ds', t_resolutions := t_resolutions ts @ [rs]\<rparr>) us"
      using 2(1,2) ds sw v by (intro exI [of _ a] exI [of _ ds]) simp
    moreover have "rs_dispute_id rs = i" "rs_resolved_by rs = rd_resolved_by dto" "rs_payer_percentage rs = rd_payer_percentage dto"
      "rs_payee_percentage rs = rd_payee_percentage dto" "rs_notes rs = (case rd_notes dto of None \<Rightarrow> [] | Some n \<Rightarrow> n)"
      by (simp_all add: rs gen_resolution_def new_resolution_def or_else_def split: option.split)
    ultimately show ?thesis using d who [unfolded percentages_ok_sum] unfolding dispute_closed_def by blast
  qed
  then show ?case
    using 2(4,5) by (auto simp: wp_simps success_def lifecycle_events_def simp del: append.simps intro!: wp_logActivity ok)
qed

lemma wp_resolveDispute:
  assumes "\<And>r w'. disputes_evolve (t_disputes (st (svc w))) (t_disputes (st (svc w'))) \<Longrightarrow>
    (\<And>rs. r = Inr (Some rs, None) \<Longrightarrow> dispute_closed B st userId i dto (st (svc w)) (st (svc w')) rs \<and>
      map fst (emitted w') = map fst (emitted w) @ [''agreement.completed'', ''dispute.resolved'']) \<Longrightarrow> Q r w'"
  shows "wp (resolveDispute B userId i dto) Q w"
proof -
  let ?res = "\<lambda>t1 t2 r. r\<lparr>dp_status := ''resolved'', dp_resolved_at := Some t1, dp_updated_at := t2\<rparr>"
  have stored: "wp (record_resolution B i dto d) Q v"
    if d: "filter (\<lambda>r. dp_id r = i) (t_disputes (st (svc w))) = [d]" "dp_status d \<noteq> ''resolved''"
        "dp_resolver d = Some (rd_resolved_by dto)"
      and who: "legacy_wallet (st (svc w)) userId (rd_resolved_by dto)" "percentages_ok dto"
      and v: "st (svc v) = st (svc w)" "emitted v = emitted w" for v d
    unfolding record_resolution_def wp_bnd [of "call c" for c]
  proof (rule resolutions_wp(5), goal_cases)
    case (2 k t s')
    note ins = 2(1)
    have ev: "disputes_evolve (t_disputes (st (svc w))) (update_where (\<lambda>r. dp_id r = i) (?res t1 t2) (t_disputes (st (svc w))))" for t1 t2
      by (rule evolve_update [OF d(1)]) (use d in \<open>simp add: dispute_step_def\<close>)
    let ?rs = "gen_resolution k t (new_resolution i dto)"
    let ?us = "(st (svc w))\<lparr>t_resolutions := t_resolutions (st (svc w)) @ [?rs]\<rparr>"
    have closing: "wp (announce_resolution B i dto d ?rs) Q u"
      if "st (svc u) = st (svc w)\<lparr>t_disputes := dl, t_resolutions := t_resolutions (st (svc w)) @ [?rs]\<rparr>"
        "emitted u = emitted w" "resolved_row B st i ?us dl" for u dl
      by (rule wp_announce_resolution [OF d who refl that(1,3)])
        (use that(2,3) ev in \<open>auto simp: resolved_row_def intro!: assms\<close>)
    have kept: "wp (announce_resolution B i dto d ?rs) Q u"
      if "st (svc u) = ?us" "emitted u = emitted w" "resolving_refused B st i ?us" for u
      by (rule closing [of u "t_disputes (st (svc w))"]) (use that in \<open>simp_all add: resolved_row_def\<close>)
    have updated: "wp (announce_resolution B i dto d ?rs) Q u"
      if "st (svc u) = ?us\<lparr>t_disputes := update_where (\<lambda>r. dp_id r = i) (?res t1 t2) (t_disputes (st (svc w)))\<rparr>" "emitted u = emitted w" for u t1 t2
      by (rule closing [of u "update_where (\<lambda>r. dp_id r = i) (?res t1 t2) (t_disputes (st (svc w)))"])
        (use that in \<open>auto simp: resolved_row_def\<close>)
    show ?case
      unfolding prod.case sum.case option.case wp_bnd [of "call c" for c]
    proof (rule wp_now, unfold sum.case, rule wp_now, unfold sum.case, rule disputes_update_read, goal_cases)
      case (1 t1 s1 t2 s2 e s3)
      have "resolving_refused B st i ?us"
        unfolding resolving_refused_def
        by (intro exI [of _ s2] exI [of _ "?res t1 t2"] exI [of _ e] exI [of _ s3]) (use 1 ins v in auto)
      then show ?case unfolding sum.case by (intro kept) (use 1 ins v in auto)
    next
      case (2 t1 s1 t2 s2 s3)
      show ?case unfolding sum.case by (rule updated [of _ t2 t1]) (use 2 ins v in auto)
    qed
  qed (use v in \<open>auto simp: wp_simps intro!: assms\<close>)
  show ?thesis
    unfolding resolveDispute_def wp_bnd [of "dispute_assertActorWallet a b c" for a b c]
  proof (rule wp_dispute_assertActorWallet, goal_cases)
    case (1 s1)
    then show ?case
      by (auto simp: wp_bnd [of "require a b" for a b] wp_bnd [of "fetch_dispute a b" for a b] wp_require
          intro!: wp_fetch_dispute stored assms)
  qed (auto intro!: assms)
qed

lemma wp_cancelDispute:
  assumes "\<And>r w'. disputes_evolve (t_disputes (st (svc w))) (t_disputes (st (svc w'))) \<Longrightarrow>
    (r = Inr success \<Longrightarrow> \<exists>d. filter (\<lambda>r. dp_id r = i) (t_disputes (st (svc w))) = [d] \<and> dp_status d \<noteq> ''resolved'' \<and>
      dp_opened_by d = cx_cancelled_by dto \<and> legacy_wallet (st (svc w)) userId (dp_opened_by d)) \<Longrightarrow> Q r w'"
  shows "wp (cancelDispute B userId i dto) Q w"
proof -
  have restored: "wp (restore_agreement B i dto d) Q v"
    if ev: "disputes_evolve (t_disputes (st (svc w))) (t_disputes (st (svc v)))"
      and d: "filter (\<lambda>r. dp_id r = i) (t_disputes (st (svc w))) = [d]" "dp_status d \<noteq> ''resolved''"
        "dp_opened_by d = cx_cancelled_by dto" "legacy_wallet (st (svc w)) userId (dp_opened_by d)" for v d
  proof -
    have end_ok: "Q r w'" if "t_disputes (st (svc w')) = t_disputes (st (svc v))" for r w'
      by (rule assms) (use that ev d in auto)
    have moved: "wp (bnd (applyStatusChange B aid actor ''active'' None False xs) k) Q u"
      if "st (svc u) = st (svc v)"
        "\<And>y w'. t_disputes (st (svc w')) = t_disputes (st (svc v)) \<Longrightarrow> wp (k y) Q w'" for u aid actor xs k
      unfolding wp_bnd
      by (rule wp_applyStatusChange) (use that in \<open>auto intro!: end_ok dest: status_disputes split: sum.splits\<close>)
    show ?thesis
      unfolding restore_agreement_def wp_bnd [of "call c" for c]
      by (intro agreements_wp) (auto simp: wp_throw wp_ret wp_bnd [of "logActivity a b c d e f g" for a b c d e f g]
          intro!: end_ok moved wp_logActivity dest!: log_tables split: option.splits)
  qed
  show ?thesis
    unfolding cancelDispute_def wp_bnd [of "dispute_assertActorWallet a b c" for a b c]
  proof (rule wp_dispute_assertActorWallet, goal_cases)
    case (1 s1)
    have "disputes_evolve (t_disputes (st (svc w))) (update_where (\<lambda>r. dp_id r = i)
        (\<lambda>d. d\<lparr>dp_status := ''cancelled'', dp_updated_at := t\<rparr>) (t_disputes (st (svc w))))"
      if "filter (\<lambda>r. dp_id r = i) (t_disputes (st (svc w))) = [d]" "dp_status d \<noteq> ''resolved''" for d t
      by (rule evolve_update [OF that(1)]) (simp add: dispute_step_def that)
    then show ?case
      using 1 by (auto simp: wp_bnd [of "require a b" for a b] wp_bnd [of "fetch_dispute a b" for a b] wp_bnd [of "call c" for c]
          wp_require wp_ret failure_def success_def
          intro!: wp_fetch_dispute wp_now disputes_wp restored assms)
  qed (auto intro!: assms)
qed

end

section \<open>Properties\<close>

text \<open>
  (C14) Disputes move only forward. Over any database, with any failing call and whatever the outcome
  of the request, each of the four operations keeps every dispute in place, changes a row only by
  assigning it while open, resolving it once a resolver is set, or cancelling it, never touches a
  resolved one, and adds at most open disputes without a resolver.
\<close>

theorem disputes_only_evolve:
  assumes "database B st"
    and "openDispute B userId od w = (r1, w1)" and "assignResolver B userId i ar w = (r2, w2)"
    and "resolveDispute B userId i rd w = (r3, w3)" and "cancelDispute B userId i cx w = (r4, w4)"
  shows "disputes_evolve (t_disputes (st (svc w))) (t_disputes (st (svc w1))) \<and>
    disputes_evolve (t_disputes (st (svc w))) (t_disputes (st (svc w2))) \<and>
    disputes_evolve (t_disputes (st (svc w))) (t_disputes (st (svc w3))) \<and>
    disputes_evolve (t_disputes (st (svc w))) (t_disputes (st (svc w4)))"
proof -
  let ?P = "\<lambda>r v. disputes_evolve (t_disputes (st (svc w))) (t_disputes (st (svc v)))"
  have new: "disputes_evolve ds (ds @ [gen_dispute k t (new_dispute od)])" for ds k t
    by (rule evolve_new) (simp_all add: gen_dispute_def new_dispute_def)
  have "wp (openDispute B userId od) ?P w"
    by (rule database.wp_openDispute [OF assms(1)]) (auto simp: dispute_opened_def new dest!: status_disputes)
  moreover have "wp (assignResolver B userId i ar) ?P w" by (rule database.wp_assignResolver [OF assms(1)])
  moreover have "wp (resolveDispute B userId i rd) ?P w" by (rule database.wp_resolveDispute [OF assms(1)])
  moreover have "wp (cancelDispute B userId i cx) ?P w" by (rule database.wp_cancelDispute [OF assms(1)])
  ultimately show ?thesis using assms(2-5) by (auto dest: wpD)
qed

definition legacy_user :: "string \<Rightarrow> string \<Rightarrow> auth_user" where
  "legacy_user i w = \<lparr>au_id = i, au_wallet = Some w, au_pollar_user_id = None, au_wallet_provider = None\<rparr>"

definition dispute_world :: "string \<Rightarrow> dispute list \<Rightarrow> mem_env \<Rightarrow> mem world" where
  "dispute_world status ds e = world_on (no_tables\<lparr>t_agreements := [linked_agreement status], t_disputes := ds,
     t_users := [legacy_user ''U1'' ''GA'', legacy_user ''U2'' ''GR'']\<rparr>) e"

definition sample_open :: open_dispute_dto where
  "sample_open = \<lparr>od_agreement_id = ''A1'', od_opened_by = ''GA'', od_reason = ''late'', od_evidence_urls = None\<rparr>"

definition sample_dispute :: "string \<Rightarrow> string option \<Rightarrow> dispute" where
  "sample_dispute status resolver = \<lparr>dp_id = ''D1'', dp_agreement_id = ''A1'', dp_opened_by = ''GA'', dp_reason = ''late'',
     dp_evidence_urls = [], dp_status = status, dp_resolver = resolver, dp_created_at = 1, dp_updated_at = 1, dp_resolved_at = None\<rparr>"

definition dispute_states :: "mem world \<Rightarrow> string list" where
  "dispute_states w = map dp_status (t_disputes (tabs (svc w)))"

abbreviation "DB \<equiv> mem_backend sample_vars"

lemma disputes_only_evolve_witness:
  "dispute_states (snd (assignResolver DB ''U1'' ''D1'' \<lparr>ar_resolver_wallet = ''GR''\<rparr>
      (dispute_world ''disputed'' [sample_dispute ''open'' None] quiet_env))) = [''under_review''] \<and>
   disputes_evolve [sample_dispute ''open'' None] (t_disputes (tabs (svc (snd (assignResolver DB ''U1'' ''D1''
      \<lparr>ar_resolver_wallet = ''GR''\<rparr> (dispute_world ''disputed'' [sample_dispute ''open'' None] quiet_env))))))"
proof
  show "dispute_states (snd (assignResolver DB ''U1'' ''D1'' \<lparr>ar_resolver_wallet = ''GR''\<rparr>
      (dispute_world ''disputed'' [sample_dispute ''open'' None] quiet_env))) = [''under_review'']"
    by code_simp
  show "disputes_evolve [sample_dispute ''open'' None] (t_disputes (tabs (svc (snd (assignResolver DB ''U1'' ''D1''
      \<lparr>ar_resolver_wallet = ''GR''\<rparr> (dispute_world ''disputed'' [sample_dispute ''open'' None] quiet_env))))))"
    using disputes_only_evolve [OF mem.database_axioms prod.collapse [symmetric] prod.collapse [symmetric]
        prod.collapse [symmetric] prod.collapse [symmetric],
        of "dispute_world ''disputed'' [sample_dispute ''open'' None] quiet_env" sample_vars "''U1''" sample_open "''D1''"
          "\<lparr>ar_resolver_wallet = ''GR''\<rparr>"]
    by (simp add: dispute_world_def world_on_def)
qed


definition open_run :: "string \<Rightarrow> (exn + dispute option \<times> string option) \<times> mem world" where
  "open_run status = openDispute DB ''U1'' sample_open (dispute_world status [] quiet_env)"



definition sample_resolve :: resolve_dispute_dto where
  "sample_resolve = \<lparr>rd_resolved_by = ''GR'', rd_payer_percentage = 60, rd_payee_percentage = 40, rd_notes = None\<rparr>"

lemma sample_percentages: "percentages_ok sample_resolve"
  using of_exact_int [of 100] by (simp add: percentages_ok_def sample_resolve_def)

definition review_world :: "string \<Rightarrow> string \<Rightarrow> mem world" where
  "review_world status dispute = dispute_world status [sample_dispute dispute (Some ''GR'')] quiet_env"

definition resolve_run :: "string \<Rightarrow> string \<Rightarrow> (exn + resolution option \<times> string option) \<times> mem world" where
  "resolve_run status dispute = resolveDispute DB ''U2'' ''D1'' sample_resolve (review_world status dispute)"

text \<open>The run with its percentage check decided.\<close>

lemmas resolve_run_simps = resolve_run_def resolveDispute_def sample_percentages require_def if_True


text \<open>
  The dispute row is written before the transition is checked: opening a dispute on a pending
  agreement is refused and leaves an open dispute behind, so that a later attempt finds one already
  open; cancelling it "restores" the agreement that was never disputed, from pending to active.
\<close>

theorem refused_dispute_stays:
  "let opened = open_run ''pending'';
       again = openDispute DB ''U1'' sample_open (snd opened);
       row = t_disputes (tabs (svc (snd opened)));
       cancelled = cancelDispute DB ''U1'' (dp_id (hd row)) \<lparr>cx_cancelled_by = ''GA''\<rparr> (snd opened)
   in http_status (projl (fst opened)) = 400 \<and> isl (fst opened) \<and> map dp_status row = [''open''] \<and>
      fst again = Inr (None, Some ''There is already an open dispute for this agreement'') \<and>
      statuses (snd opened) = [''pending''] \<and> fst cancelled = Inr success \<and> statuses (snd cancelled) = [''active'']"
  by code_simp

text \<open>
  A cancelled dispute can still be resolved: with the agreement active again the answer is an
  error, but the resolution is stored and the dispute marked resolved.
\<close>

theorem cancelled_dispute_resolved:
  "snd (projr (fst (resolve_run ''active'' ''cancelled''))) \<noteq> None \<and>
   dispute_states (snd (resolve_run ''active'' ''cancelled'')) = [''resolved''] \<and>
   length (t_resolutions (tabs (svc (snd (resolve_run ''active'' ''cancelled''))))) = 1 \<and>
   statuses (snd (resolve_run ''active'' ''cancelled'')) = [''active'']"
  by (intro conjI; simp only: resolve_run_simps; code_simp)

text \<open>
  Disputes know only the legacy wallet column: a user whose wallet is linked in \<open>user_wallets\<close> may
  change the agreement's status and may not open a dispute on it.
\<close>

theorem linked_wallet_cannot_dispute:
  "fst (updateStatus DB ''U1'' ''A1'' \<lparr>us_status = ''in_review'', us_actor = ''GA''\<rparr> (user_world [linked_agreement ''active''])) =
     Inr success \<and>
   fst (openDispute DB ''U1'' sample_open (user_world [linked_agreement ''active''])) = Inl (Forbidden ''No wallet on profile'')"
  by (intro conjI; code_simp)

end
