(* ===== verification/RetryQueue.thy ===== *)
theory RetryQueue
  imports Sync
begin

text \<open>
  The persistent retry queue, \<open>retry-queue/retry-queue.service.ts\<close>: jobs are rows of \<open>retry_jobs\<close>,
  executed by the handler registered for their type. A handler is a program on the world that
  throws to signal failure; the table of handlers and the settings read by the constructor are
  arguments.
\<close>

section \<open>Settings and back-off\<close>

record queue_settings =
  qs_maxAttempts :: int
  qs_baseDelayMs :: int
  qs_maxDelayMs :: int
  qs_pollIntervalMs :: int
  qs_concurrency :: nat
  qs_staleProcessingMs :: int

definition RETRY_QUEUE_DEFAULTS :: queue_settings where
  "RETRY_QUEUE_DEFAULTS = \<lparr>qs_maxAttempts = 5, qs_baseDelayMs = 1000, qs_maxDelayMs = 60000,
     qs_pollIntervalMs = 5000, qs_concurrency = 3, qs_staleProcessingMs = 60000\<rparr>"

text \<open>
  Doubling is exact in doubles until it overflows to infinity, and by then the cap is reached in
  both. (The one exception is a base delay of zero and more than a thousand attempts, where the code multiplies zero with
  infinity.)
\<close>

definition computeBackoffMs :: "int \<Rightarrow> int \<Rightarrow> int \<Rightarrow> int" where
  "computeBackoffMs attempt baseDelayMs maxDelayMs =
     (let exponent = max (attempt - 1) 0; delay = baseDelayMs * 2 ^ nat exponent
      in min delay maxDelayMs)"

type_synonym 's handlers = "string \<Rightarrow> (json \<Rightarrow> int \<Rightarrow> ('s world, json) prog) option"

section \<open>Reading and writing jobs\<close>

definition findByIdempotencyKey :: "'s backend \<Rightarrow> string \<Rightarrow> ('s world, retry_job option) prog" where
  "findByIdempotencyKey B key = bnd (call (select_one (jobs B) (\<lambda>j. rj_key j = key))) (\<lambda>(data, _). ret data)"

definition getJob :: "'s backend \<Rightarrow> string \<Rightarrow> ('s world, retry_job option) prog" where
  "getJob B i = bnd (call (select_one (jobs B) (\<lambda>j. rj_id j = i))) (\<lambda>(data, _). ret data)"

definition newest_jobs :: "retry_job list \<Rightarrow> retry_job list" where
  "newest_jobs rs = rev (sort_key rj_created_at rs)"

definition listJobs :: "'s backend \<Rightarrow> string option \<Rightarrow> ('s world, retry_job list) prog" where
  "listJobs B status =
     bnd (call (select_rows (jobs B) (\<lambda>j. truthy status \<longrightarrow> Some (rj_status j) = status) newest_jobs)) (\<lambda>(data, _).
     ret (default data []))"

definition new_job :: "string \<Rightarrow> json \<Rightarrow> string \<Rightarrow> int \<Rightarrow> int \<Rightarrow> retry_job" where
  "new_job jobType payload key maxAttempts t =
     \<lparr>rj_id = [], rj_type = jobType, rj_key = key, rj_payload = payload, rj_status = ''pending'', rj_attempts = 0,
      rj_max_attempts = maxAttempts, rj_next_attempt_at = t, rj_last_error = None, rj_created_at = 0, rj_updated_at = 0,
      rj_completed_at = None\<rparr>"

definition enqueue :: "'s backend \<Rightarrow> queue_settings \<Rightarrow> string \<Rightarrow> json \<Rightarrow> string \<Rightarrow> int option \<Rightarrow> ('s world, retry_job) prog" where
  "enqueue B cfg jobType payload key maxAttempts =
     bnd (findByIdempotencyKey B key) (\<lambda>existing.
     case existing of
       Some j \<Rightarrow> ret j
     | None \<Rightarrow>
         bnd (call (now B)) (\<lambda>t.
         bnd (call (insert_row (jobs B) (new_job jobType payload key (default maxAttempts (qs_maxAttempts cfg)) t))) (\<lambda>(data, error).
         case error of
           Some e \<Rightarrow>
             bnd (if e_code e = ''23505'' then findByIdempotencyKey B key else ret None) (\<lambda>raced.
             case raced of
               Some j \<Rightarrow> ret j
             | None \<Rightarrow> throw (PlainError (''Failed to enqueue retry job: '' @ e_message e)))
         | None \<Rightarrow> (case data of None \<Rightarrow> throw (PlainError ''TypeError'') | Some j \<Rightarrow> ret j))))"

definition updateJob :: "'s backend \<Rightarrow> string \<Rightarrow> (retry_job \<Rightarrow> retry_job) \<Rightarrow> ('s world, retry_job) prog" where
  "updateJob B i f =
     bnd (call (now B)) (\<lambda>t.
     bnd (call (update_single (jobs B) (\<lambda>j. rj_id j = i) (\<lambda>j. (f j)\<lparr>rj_updated_at := t\<rparr>))) (\<lambda>(data, error).
     case (error, data) of
       (None, Some j) \<Rightarrow> ret j
     | (None, None) \<Rightarrow> throw (PlainError ''TypeError'')
     | (Some e, _) \<Rightarrow> throw (PlainError (''Failed to update retry job '' @ i @ '': '' @ e_message e))))"

section \<open>One attempt\<close>

definition job_started :: "int \<Rightarrow> retry_job \<Rightarrow> retry_job" where
  "job_started attempt j = j\<lparr>rj_status := ''processing'', rj_attempts := attempt\<rparr>"

definition job_succeeded :: "int \<Rightarrow> retry_job \<Rightarrow> retry_job" where
  "job_succeeded t j = j\<lparr>rj_status := ''succeeded'', rj_last_error := None, rj_completed_at := Some t\<rparr>"

definition job_failed :: "string \<Rightarrow> int \<Rightarrow> retry_job \<Rightarrow> retry_job" where
  "job_failed message t j = j\<lparr>rj_status := ''failed'', rj_last_error := Some message, rj_completed_at := Some t\<rparr>"

definition job_postponed :: "string \<Rightarrow> int \<Rightarrow> retry_job \<Rightarrow> retry_job" where
  "job_postponed message t j = j\<lparr>rj_status := ''pending'', rj_last_error := Some message, rj_next_attempt_at := t\<rparr>"

text \<open>What the handler's outcome does: \<open>None\<close> is success, \<open>Some\<close> the message of what it threw.\<close>

definition settle_attempt :: "'s backend \<Rightarrow> queue_settings \<Rightarrow> retry_job \<Rightarrow> string option \<Rightarrow> ('s world, retry_job) prog" where
  "settle_attempt B cfg job outcome =
     (let attempt = rj_attempts job + 1
      in bnd (call (now B)) (\<lambda>t.
         updateJob B (rj_id job)
           (case outcome of
              None \<Rightarrow> job_succeeded t
            | Some message \<Rightarrow>
                if rj_max_attempts job \<le> attempt then job_failed message t
                else job_postponed message (t + computeBackoffMs attempt (qs_baseDelayMs cfg) (qs_maxDelayMs cfg)))))"

text \<open>
  The update after a success is returned, not awaited, so what it throws is not caught by the
  \<open>try\<close> around the handler: it reaches the caller.
\<close>

definition processJob :: "'s backend \<Rightarrow> queue_settings \<Rightarrow> 's handlers \<Rightarrow> retry_job \<Rightarrow> ('s world, retry_job) prog" where
  "processJob B cfg handlers job =
     (let attempt = rj_attempts job + 1
      in bnd (updateJob B (rj_id job) (job_started attempt)) (\<lambda>_.
         case handlers (rj_type job) of
           None \<Rightarrow>
             bnd (call (now B)) (\<lambda>t.
             updateJob B (rj_id job) (job_failed (''No handler registered for job type '' @ dq (rj_type job)) t))
         | Some handler \<Rightarrow>
             bnd (catch (bnd (handler (rj_payload job) attempt) (\<lambda>_. ret None)) (\<lambda>e. ret (Some (exn_message e))))
               (settle_attempt B cfg job)))"

section \<open>Polling and manual retries\<close>

definition reclaimStaleProcessingJobs :: "'s backend \<Rightarrow> queue_settings \<Rightarrow> ('s world, unit) prog" where
  "reclaimStaleProcessingJobs B cfg =
     bnd (call (now B)) (\<lambda>t.
     bnd (call (select_rows (jobs B)
       (\<lambda>j. rj_status j = ''processing'' \<and> rj_updated_at j \<le> t - qs_staleProcessingMs cfg) (\<lambda>rs. rs))) (\<lambda>(data, _).
     for_each (\<lambda>j. bnd (updateJob B (rj_id j) (\<lambda>r. r\<lparr>rj_status := ''pending''\<rparr>)) (\<lambda>_. ret ())) (default data [])))"

definition due_first :: "nat \<Rightarrow> retry_job list \<Rightarrow> retry_job list" where
  "due_first n rs = take n (sort_key rj_next_attempt_at rs)"

definition processDueJobs :: "'s backend \<Rightarrow> queue_settings \<Rightarrow> 's handlers \<Rightarrow> ('s world, unit) prog" where
  "processDueJobs B cfg handlers =
     bnd (reclaimStaleProcessingJobs B cfg) (\<lambda>_.
     bnd (call (now B)) (\<lambda>t.
     bnd (call (select_rows (jobs B) (\<lambda>j. rj_status j = ''pending'' \<and> rj_next_attempt_at j \<le> t)
       (due_first (qs_concurrency cfg)))) (\<lambda>(data, error).
     case error of
       Some e \<Rightarrow> ret ()
     | None \<Rightarrow> for_each (\<lambda>j. bnd (processJob B cfg handlers j) (\<lambda>_. ret ())) (default data []))))"

definition manualRetry :: "'s backend \<Rightarrow> queue_settings \<Rightarrow> 's handlers \<Rightarrow> string \<Rightarrow> ('s world, retry_job) prog" where
  "manualRetry B cfg handlers i =
     bnd (getJob B i) (\<lambda>job.
     case job of
       None \<Rightarrow> throw (NotFound (''Retry job '' @ i @ '' not found''))
     | Some j \<Rightarrow>
         if rj_status j = ''succeeded'' then throw (Conflict (''Retry job '' @ i @ '' already succeeded - nothing to retry''))
         else if rj_status j = ''processing'' then throw (Conflict (''Retry job '' @ i @ '' is already being processed''))
         else processJob B cfg handlers j)"

definition assertAdmin :: "'s backend \<Rightarrow> string \<Rightarrow> ('s world, unit) prog" where
  "assertAdmin B userId =
     bnd (call (select_one (users B) (\<lambda>u. au_id u = userId))) (\<lambda>(authUser, _).
     let wallet = (case authUser of None \<Rightarrow> None | Some u \<Rightarrow> au_wallet u)
     in bnd (require (truthy wallet) (Forbidden ''No wallet on profile'')) (\<lambda>_.
        bnd (call (select_one (profiles B) (\<lambda>p. Some (pr_wallet p) = wallet))) (\<lambda>(profile, _).
        require (case profile of None \<Rightarrow> False | Some p \<Rightarrow> pr_role p = ''admin'')
          (Forbidden ''Only admins can manage the retry queue''))))"

text \<open>The admin's endpoints of \<open>retry-queue.controller.ts\<close>.\<close>

definition admin_list :: "'s backend \<Rightarrow> string \<Rightarrow> string option \<Rightarrow> ('s world, retry_job list) prog" where
  "admin_list B userId status = bnd (assertAdmin B userId) (\<lambda>_. listJobs B status)"

definition admin_getOne :: "'s backend \<Rightarrow> string \<Rightarrow> string \<Rightarrow> ('s world, retry_job) prog" where
  "admin_getOne B userId i =
     bnd (assertAdmin B userId) (\<lambda>_.
     bnd (getJob B i) (\<lambda>job.
     case job of None \<Rightarrow> throw (NotFound (''Retry job '' @ i @ '' not found'')) | Some j \<Rightarrow> ret j))"

definition admin_retry :: "'s backend \<Rightarrow> queue_settings \<Rightarrow> 's handlers \<Rightarrow> string \<Rightarrow> string \<Rightarrow> ('s world, retry_job) prog" where
  "admin_retry B cfg handlers userId i = bnd (assertAdmin B userId) (\<lambda>_. manualRetry B cfg handlers i)"

section \<open>Effects on the table\<close>

lemma update_where_const: "filter P js = [j] \<Longrightarrow> update_where P f js = update_where P (\<lambda>_. f j) js"
  unfolding update_where_def by (auto dest: filter_singleD)

lemma update_where_twice:
  "(\<And>x. P x \<Longrightarrow> P (f x)) \<Longrightarrow> update_where P g (update_where P f js) = update_where P (\<lambda>x. g (f x)) js"
  unfolding update_where_def by auto

lemma valid_jobs_key:
  assumes "valid_jobs (js @ [j])" and "\<exists>x \<in> set js. rj_key x = rj_key j"
  shows False
  using assms by (auto simp: valid_jobs_def) (metis image_eqI)

text \<open>Handlers that do not write the jobs table themselves.\<close>

definition leave_jobs :: "('s \<Rightarrow> tables) \<Rightarrow> 's handlers \<Rightarrow> bool" where
  "leave_jobs st handlers \<longleftrightarrow> (\<forall>ty h p n w. handlers ty = Some h \<longrightarrow>
     t_jobs (st (svc (snd (h p n w)))) = t_jobs (st (svc w)))"

text \<open>
  The times of an attempt that ends: of two consecutive readings of the clock the second is the
  row's time stamp, and the first is the completion or, when the job is pending again, the moment
  from which the back-off counts, the base delay doubled for every earlier attempt up to the cap.
\<close>

definition attempt_times :: "'s backend \<Rightarrow> queue_settings \<Rightarrow> retry_job \<Rightarrow> retry_job \<Rightarrow> bool" where
  "attempt_times B cfg j j' \<longleftrightarrow> (\<exists>s t s1 s2. now B s = (t, s1) \<and> now B s1 = (rj_updated_at j', s2) \<and>
     (if rj_status j' = ''pending'' then rj_completed_at j' = rj_completed_at j \<and>
        rj_next_attempt_at j' = t + min (qs_baseDelayMs cfg * 2 ^ nat (rj_attempts j)) (qs_maxDelayMs cfg)
      else rj_completed_at j' = Some t \<and> rj_next_attempt_at j' = rj_next_attempt_at j))"

text \<open>
  How an attempt ends follows from what the handler of the job's type comes to on its payload and the number of the attempt.
\<close>

definition attempt_ends :: "'s handlers \<Rightarrow> retry_job \<Rightarrow> retry_job \<Rightarrow> bool" where
  "attempt_ends handlers j j' \<longleftrightarrow> (case handlers (rj_type j) of
     None \<Rightarrow> rj_status j' = ''failed'' \<and> rj_last_error j' \<noteq> None
   | Some h \<Rightarrow> \<exists>v r v'. h (rj_payload j) (rj_attempts j + 1) v = (r, v') \<and>
       (case r of
          Inr x \<Rightarrow> rj_status j' = ''succeeded'' \<and> rj_last_error j' = None
        | Inl e \<Rightarrow> rj_status j' = (if rj_max_attempts j \<le> rj_attempts j + 1 then ''failed'' else ''pending'') \<and>
            rj_last_error j' = Some (exn_message e)))"

text \<open>A job after one attempt.\<close>

definition attempted :: "'s backend \<Rightarrow> queue_settings \<Rightarrow> 's handlers \<Rightarrow> retry_job \<Rightarrow> retry_job \<Rightarrow> bool" where
  "attempted B cfg handlers j j' \<longleftrightarrow> rj_attempts j' = rj_attempts j + 1 \<and> rj_id j' = rj_id j \<and> rj_type j' = rj_type j \<and>
     rj_key j' = rj_key j \<and> rj_payload j' = rj_payload j \<and> rj_max_attempts j' = rj_max_attempts j \<and>
     attempt_ends handlers j j' \<and> attempt_times B cfg j j'"

lemma attempt_status:
  assumes "attempt_ends handlers j j'"
  shows "rj_status j' \<in> {''succeeded'', ''failed''} \<or> rj_status j' = ''pending'' \<and> rj_attempts j + 1 < rj_max_attempts j"
proof (cases "handlers (rj_type j)")
  case (Some h)
  then obtain r :: "exn + json" where "case r of Inr x \<Rightarrow> rj_status j' = ''succeeded'' \<and> rj_last_error j' = None
      | Inl e \<Rightarrow> rj_status j' = (if rj_max_attempts j \<le> rj_attempts j + 1 then ''failed'' else ''pending'') \<and> rj_last_error j' = Some (exn_message e)"
    using assms by (auto simp: attempt_ends_def)
  then show ?thesis by (cases r) (auto split: if_splits)
qed (use assms in \<open>simp add: attempt_ends_def\<close>)

lemma attempted_pending: "attempted B cfg handlers j j' \<Longrightarrow> rj_status j' = ''pending'' \<Longrightarrow> rj_attempts j + 1 < rj_max_attempts j"
  using attempt_status [of handlers j j'] by (auto simp: attempted_def)

lemma attempted_over: "attempted B cfg handlers j j' \<Longrightarrow> rj_status j' \<noteq> ''pending'' \<Longrightarrow> rj_status j' \<in> {''succeeded'', ''failed''}"
  using attempt_status [of handlers j j'] by (auto simp: attempted_def)

text \<open>What repeated polls do to one job: attempt it whenever it is pending again, \<open>n\<close> times at most.\<close>

fun attempts :: "'s backend \<Rightarrow> queue_settings \<Rightarrow> 's handlers \<Rightarrow> nat \<Rightarrow> retry_job \<Rightarrow> ('s world, retry_job) prog" where
  "attempts B cfg handlers 0 job = ret job"
| "attempts B cfg handlers (Suc n) job =
     bnd (processJob B cfg handlers job) (\<lambda>j. if rj_status j = ''pending'' then attempts B cfg handlers n j else ret j)"

definition settled :: "retry_job \<Rightarrow> retry_job \<Rightarrow> bool" where
  "settled job j \<longleftrightarrow> rj_status j \<in> {''succeeded'', ''failed''} \<and> rj_id j = rj_id job \<and> rj_max_attempts j = rj_max_attempts job \<and>
     rj_attempts job < rj_attempts j \<and> rj_attempts j \<le> max (rj_attempts job + 1) (rj_max_attempts job)"

lemma attempted_settled:
  assumes "attempted B cfg handlers job j" and "rj_status j = ''pending''" and "settled j k"
  shows "settled job k"
proof -
  have "rj_attempts j = rj_attempts job + 1" "rj_id j = rj_id job" "rj_max_attempts j = rj_max_attempts job"
    "rj_attempts job + 1 < rj_max_attempts job"
    using assms(1) attempted_pending [OF assms(1,2)] by (simp_all add: attempted_def)
  then show ?thesis using assms(3) by (simp add: settled_def)
qed

lemma attempted_done: "attempted B cfg handlers job j \<Longrightarrow> rj_status j \<noteq> ''pending'' \<Longrightarrow> settled job j"
  using attempted_over [of B cfg handlers job j] by (auto simp: attempted_def settled_def)

context database
begin

lemma wp_findByIdempotencyKey:
  assumes "\<And>s'. st s' = st (svc w) \<Longrightarrow> Q (Inr None) (w\<lparr>svc := s'\<rparr>)"
    and "\<And>j s'. st s' = st (svc w) \<Longrightarrow> filter (\<lambda>j. rj_key j = key) (t_jobs (st (svc w))) = [j] \<Longrightarrow> Q (Inr (Some j)) (w\<lparr>svc := s'\<rparr>)"
  shows "wp (findByIdempotencyKey B key) Q w"
  unfolding findByIdempotencyKey_def
  by (auto simp: wp_simps intro!: jobs_wp assms)

lemma wp_enqueue:
  assumes err: "\<And>m w'. st (svc w') = st (svc w) \<Longrightarrow> Q (Inl (PlainError m)) w'"
    and old: "\<And>j w'. st (svc w') = st (svc w) \<Longrightarrow> filter (\<lambda>j. rj_key j = key) (t_jobs (st (svc w))) = [j] \<Longrightarrow> Q (Inr j) w'"
    and new: "\<And>i t t' w'. st (svc w') = st (svc w)\<lparr>t_jobs := t_jobs (st (svc w)) @
        [gen_job i t (new_job ty payload key (default n (qs_maxAttempts cfg)) t')]\<rparr> \<Longrightarrow>
      valid_jobs (t_jobs (st (svc w'))) \<Longrightarrow>
      Q (Inr (gen_job i t (new_job ty payload key (default n (qs_maxAttempts cfg)) t'))) w'"
  shows "wp (enqueue B cfg ty payload key n) Q w"
  unfolding enqueue_def
  by (auto simp: wp_simps intro!: wp_findByIdempotencyKey wp_now jobs_wp(5) err old new)

lemma enqueue_again:
  assumes "enqueue B cfg ty payload key n w = (Inr j, w1)" and "enqueue B cfg ty' payload' key n' w1 = (Inr j', w2)"
  shows "j' = j \<and> t_jobs (st (svc w2)) = t_jobs (st (svc w1)) \<and>
    (t_jobs (st (svc w1)) = t_jobs (st (svc w)) \<or> t_jobs (st (svc w1)) = t_jobs (st (svc w)) @ [j])"
proof -
  let ?one = "\<lambda>j v. filter (\<lambda>x. rj_key x = key) (t_jobs (st (svc v))) = [j]"
  have key: "rj_key (gen_job i t (new_job a p key m t')) = key" for i t a p m t'
    by (simp add: gen_job_def new_job_def)
  have uniq: "filter (\<lambda>x. rj_key x = key) (js @ [x]) = [x]" if "valid_jobs (js @ [x])" "rj_key x = key" for js x
    using valid_jobs_key [OF that(1)] that(2) by (auto simp: filter_empty_conv)
  have one: "wp (enqueue B cfg ty payload key n) (\<lambda>r v. \<forall>j. r = Inr j \<longrightarrow> ?one j v \<and>
      (t_jobs (st (svc v)) = t_jobs (st (svc w)) \<or> t_jobs (st (svc v)) = t_jobs (st (svc w)) @ [j])) w"
    by (rule wp_enqueue) (auto simp: uniq key simp del: filter_append)
  then have first: "?one j w1" "t_jobs (st (svc w1)) = t_jobs (st (svc w)) \<or> t_jobs (st (svc w1)) = t_jobs (st (svc w)) @ [j]"
    using wpD [OF one assms(1)] by auto
  have has: "\<exists>x \<in> set (t_jobs (st (svc w1))). rj_key x = key"
    using filter_hdD [OF first(1)] by blast
  have two: "wp (enqueue B cfg ty' payload' key n') (\<lambda>r v. \<forall>j'. r = Inr j' \<longrightarrow> j' = j \<and> t_jobs (st (svc v)) = t_jobs (st (svc w1))) w1"
  proof (rule wp_enqueue, goal_cases)
    case (3 i t t' w')
    let ?g = "gen_job i t (new_job ty' payload' key (default n' (qs_maxAttempts cfg)) t')"
    have "valid_jobs (t_jobs (st (svc w1)) @ [?g])" using 3(2) unfolding 3(1) by simp
    moreover have "\<exists>x \<in> set (t_jobs (st (svc w1))). rj_key x = rj_key ?g" using has key by metis
    ultimately show ?case by (rule valid_jobs_key [THEN FalseE])
  qed (use first(1) in simp_all)
  then show ?thesis using wpD [OF two assms(2)] first(2) by auto
qed

text \<open>The clock's reading.\<close>

lemma wp_now_read:
  assumes "\<And>t s'. now B (svc w) = (t, s') \<Longrightarrow> st s' = st (svc w) \<Longrightarrow> Q (Inr t) (w\<lparr>svc := s'\<rparr>)"
  shows "wp (call (now B)) Q w"
  using assms now_law by (auto simp: wp_call split: prod.splits)

lemma wp_updateJob:
  assumes "\<And>e w'. st (svc w') = st (svc w) \<Longrightarrow> Q (Inl e) w'"
    and "\<And>r t w'. filter (\<lambda>j. rj_id j = i) (t_jobs (st (svc w))) = [r] \<Longrightarrow> \<exists>s'. now B (svc w) = (t, s') \<Longrightarrow>
      st (svc w') = st (svc w)\<lparr>t_jobs := update_where (\<lambda>j. rj_id j = i) (\<lambda>j. (f j)\<lparr>rj_updated_at := t\<rparr>) (t_jobs (st (svc w)))\<rparr> \<Longrightarrow>
      Q (Inr ((f r)\<lparr>rj_updated_at := t\<rparr>)) w'"
  shows "wp (updateJob B i f) Q w"
  unfolding updateJob_def
  by (auto simp: wp_simps intro!: wp_now_read jobs_wp(8) assms)

lemma wp_processJob:
  assumes row: "filter (\<lambda>j. rj_id j = rj_id job) (t_jobs (st (svc w))) = [job]"
    and hs: "leave_jobs st handlers"
    and err: "\<And>e w'. t_jobs (st (svc w')) = t_jobs (st (svc w)) \<or>
        (\<exists>t. t_jobs (st (svc w')) = update_where (\<lambda>j. rj_id j = rj_id job)
          (\<lambda>_. (job_started (rj_attempts job + 1) job)\<lparr>rj_updated_at := t\<rparr>) (t_jobs (st (svc w)))) \<Longrightarrow> Q (Inl e) w'"
    and ok: "\<And>j w'. attempted B cfg handlers job j \<Longrightarrow>
      t_jobs (st (svc w')) = update_where (\<lambda>j. rj_id j = rj_id job) (\<lambda>_. j) (t_jobs (st (svc w))) \<Longrightarrow> Q (Inr j) w'"
  shows "wp (processJob B cfg handlers job) Q w"
proof -
  let ?P = "\<lambda>j. rj_id j = rj_id job" and ?n = "rj_attempts job + 1"
  let ?started = "\<lambda>t. (job_started ?n job)\<lparr>rj_updated_at := t\<rparr>"
  have id: "rj_id (?started t) = rj_id job" for t by (simp add: job_started_def)
  have settle: "wp (updateJob B (rj_id job) f) Q v"
    if v: "t_jobs (st (svc v)) = update_where ?P (\<lambda>_. ?started t) (t_jobs (st (svc w)))"
      and f: "\<And>t' s2. now B (svc v) = (t', s2) \<Longrightarrow> attempted B cfg handlers job ((f (?started t))\<lparr>rj_updated_at := t'\<rparr>)" for v t f
  proof (rule wp_updateJob, goal_cases)
    case (1 e w')
    then show ?case using v by (intro err) auto
  next
    case (2 r t' w')
    then obtain s2 where clock: "now B (svc v) = (t', s2)" by blast
    have one: "filter ?P (t_jobs (st (svc v))) = [?started t]"
      unfolding v by (rule update_where_single [OF row, of "\<lambda>_. ?started t"]) (simp add: id)
    then have r: "r = ?started t" using 2(1) by simp
    have "t_jobs (st (svc w')) = update_where ?P (\<lambda>_. (f (?started t))\<lparr>rj_updated_at := t'\<rparr>) (t_jobs (st (svc w)))"
      using 2(3) update_where_const [OF one, of "\<lambda>j. (f j)\<lparr>rj_updated_at := t'\<rparr>"]
      by (simp add: v update_where_twice id)
    then show ?case unfolding r by (intro ok f [OF clock])
  qed
  have times: "attempt_times B cfg job j"
    if "now B u = (t1, s1)" "now B s1 = (rj_updated_at j, s2)"
      "rj_status j = ''pending'' \<Longrightarrow> rj_completed_at j = rj_completed_at job \<and>
        rj_next_attempt_at j = t1 + min (qs_baseDelayMs cfg * 2 ^ nat (rj_attempts job)) (qs_maxDelayMs cfg)"
      "rj_status j \<noteq> ''pending'' \<Longrightarrow> rj_completed_at j = Some t1 \<and> rj_next_attempt_at j = rj_next_attempt_at job" for u t1 s1 s2 j
    unfolding attempt_times_def using that by (intro exI [of _ u] exI [of _ t1] exI [of _ s1] exI [of _ s2]) auto
  have delay: "computeBackoffMs ?n b c = min (b * 2 ^ nat (rj_attempts job)) c" for b c
    by (simp add: computeBackoffMs_def max_def)
  have done': "wp (settle_attempt B cfg job out) Q v"
    if "t_jobs (st (svc v)) = update_where ?P (\<lambda>_. ?started t) (t_jobs (st (svc w)))" "handlers (rj_type job) = Some h"
      "h (rj_payload job) ?n u = (x, u')" "out = (case x of Inl e \<Rightarrow> Some (exn_message e) | Inr y \<Rightarrow> None)" for v t out h u x u'
    unfolding settle_attempt_def Let_def wp_bnd
  proof (rule wp_now_read, unfold sum.case, rule settle [of _ t], goal_cases)
    case (1 t1 s1)
    then show ?case using that by simp
  next
    case (2 t1 s1 t2 s2)
    have clock: "now B s1 = (t2, s2)" using 2(3) by simp
    let ?j = "((case out of None \<Rightarrow> job_succeeded t1 | Some m \<Rightarrow> if rj_max_attempts job \<le> ?n then job_failed m t1
        else job_postponed m (t1 + computeBackoffMs ?n (qs_baseDelayMs cfg) (qs_maxDelayMs cfg))) (?started t))\<lparr>rj_updated_at := t2\<rparr>"
    note shapes = job_started_def job_succeeded_def job_failed_def job_postponed_def
    have "attempt_ends handlers job ?j"
      unfolding attempt_ends_def that(2) option.case
      by (intro exI [of _ u] exI [of _ x] exI [of _ u']) (use that(3,4) in \<open>auto simp: shapes split: sum.splits\<close>)
    moreover have "attempt_times B cfg job ?j"
      by (rule times [OF 2(1)]) (use clock delay in \<open>auto simp: shapes split: option.splits if_splits\<close>)
    ultimately show ?case
      unfolding attempted_def by (auto simp: shapes split: option.splits)
  qed
  show ?thesis
    unfolding processJob_def Let_def wp_bnd [of "updateJob a b c" for a b c]
  proof (rule wp_updateJob, goal_cases)
    case (1 e w')
    then show ?case by (simp add: err)
  next
    case (2 r t w')
    have v: "t_jobs (st (svc w')) = update_where ?P (\<lambda>_. ?started t) (t_jobs (st (svc w)))"
      using 2(1,3) row update_where_const [OF row, of "\<lambda>j. (job_started ?n j)\<lparr>rj_updated_at := t\<rparr>"] by simp
    show ?case
    proof (cases "handlers (rj_type job)")
      case None
      have "attempted B cfg handlers job ((job_failed m t1 (?started t))\<lparr>rj_updated_at := t2\<rparr>)"
        if "now B u = (t1, s1)" "now B s1 = (t2, s2)" for m t1 t2 u s1 s2
        unfolding attempted_def attempt_ends_def
        by (intro conjI times [OF that(1)]) (use that None in \<open>auto simp: job_started_def job_failed_def\<close>)
      then show ?thesis
        using None v by (auto simp: wp_bnd [of "call c" for c] intro!: wp_now_read settle [of _ t])
    next
      case (Some h)
      have kept: "t_jobs (st (svc u)) = update_where ?P (\<lambda>_. ?started t) (t_jobs (st (svc w)))"
        if "h (rj_payload job) ?n w' = (x, u)" for x u
        using hs Some that v unfolding leave_jobs_def by (metis snd_conv)
      have "wp (h (rj_payload job) ?n) (\<lambda>r u. case r of Inl e \<Rightarrow> wp (settle_attempt B cfg job (Some (exn_message e))) Q u
          | Inr x \<Rightarrow> wp (settle_attempt B cfg job None) Q u) w'"
      proof (rule wpI)
        fix x u assume h: "h (rj_payload job) ?n w' = (x, u)"
        show "case x of Inl e \<Rightarrow> wp (settle_attempt B cfg job (Some (exn_message e))) Q u
          | Inr y \<Rightarrow> wp (settle_attempt B cfg job None) Q u"
          using done' [OF kept [OF h] Some h refl] by (cases x) simp_all
      qed
      then show ?thesis
        using Some by (auto simp: wp_bnd wp_catch wp_ret elim!: wp_mono split: sum.splits)
    qed
  qed
qed

lemma wp_attempts:
  assumes row: "filter (\<lambda>j. rj_id j = rj_id job) (t_jobs (st (svc w))) = [job]" and hs: "leave_jobs st handlers"
    and n: "1 \<le> n" "rj_max_attempts job - rj_attempts job \<le> int n"
  shows "wp (attempts B cfg handlers n job) (\<lambda>r v. case r of Inl e \<Rightarrow> True | Inr j \<Rightarrow>
    settled job j \<and> filter (\<lambda>j. rj_id j = rj_id job) (t_jobs (st (svc v))) = [j]) w"
  using row n
proof (induction n arbitrary: job w)
  case 0
  then show ?case by simp
next
  case (Suc n)
  show ?case
    unfolding attempts.simps wp_bnd
  proof (rule wp_processJob [OF Suc.prems(1) hs], goal_cases)
    case (1 e w')
    then show ?case by simp
  next
    case (2 j w')
    have one: "filter (\<lambda>j. rj_id j = rj_id job) (t_jobs (st (svc w'))) = [j]"
      unfolding 2(2) by (rule update_where_single [OF Suc.prems(1), of "\<lambda>_. j"]) (use 2(1) in \<open>simp add: attempted_def\<close>)
    show ?case
    proof (cases "rj_status j = ''pending''")
      case True
      then have left: "rj_max_attempts j - rj_attempts j \<le> int n" "1 \<le> n" and id: "rj_id j = rj_id job"
        using 2(1) Suc.prems(3) attempted_pending [OF 2(1)] by (auto simp: attempted_def)
      have "wp (attempts B cfg handlers n j) (\<lambda>r v. case r of Inl e \<Rightarrow> True | Inr k \<Rightarrow>
          settled j k \<and> filter (\<lambda>k. rj_id k = rj_id j) (t_jobs (st (svc v))) = [k]) w'"
        using one id left by (intro Suc.IH) simp_all
      then have "wp (attempts B cfg handlers n j) (\<lambda>r v. case r of Inl e \<Rightarrow> True | Inr k \<Rightarrow>
          settled job k \<and> filter (\<lambda>k. rj_id k = rj_id job) (t_jobs (st (svc v))) = [k]) w'"
        by (rule wp_mono) (use attempted_settled [OF 2(1) True] id in \<open>auto split: sum.splits\<close>)
      then show ?thesis using True by simp
    next
      case False
      then show ?thesis using one attempted_done [OF 2(1)] by (simp add: wp_ret)
    qed
  qed
qed

end

section \<open>Properties\<close>

text \<open>
  The back-off doubles and is capped: with non-negative settings the delay after attempt \<open>n\<close> is the
  base times two to the \<open>n - 1\<close> as long as that is below the cap and the cap from then on, and it never
  shrinks from one attempt to the next.
\<close>

theorem backoff_doubles_to_cap:
  assumes "1 \<le> n" and "0 \<le> base" and "0 \<le> cap"
  shows "computeBackoffMs n base cap = (if base * 2 ^ nat (n - 1) \<le> cap then base * 2 ^ nat (n - 1) else cap) \<and>
    computeBackoffMs n base cap \<le> computeBackoffMs (n + 1) base cap \<and> computeBackoffMs n base cap \<le> cap \<and>
    (2 * computeBackoffMs n base cap \<le> cap \<longrightarrow> 0 < base \<longrightarrow> computeBackoffMs (n + 1) base cap = 2 * computeBackoffMs n base cap)"
proof -
  have e: "nat (n + 1 - 1) = Suc (nat (n - 1))" using assms by simp
  define d where "d = base * 2 ^ nat (n - 1)"
  have d: "0 \<le> d" "0 < base \<Longrightarrow> 0 < d" using assms by (simp_all add: d_def)
  have "computeBackoffMs n base cap = min d cap" "computeBackoffMs (n + 1) base cap = min (2 * d) cap"
    using assms e by (simp_all add: computeBackoffMs_def d_def Let_def max_def)
  then show ?thesis using d assms(3) unfolding d_def [symmetric] by (auto simp: min_def)
qed

lemma backoff_doubles_to_cap_witness:
  "map (\<lambda>n. computeBackoffMs n 1000 60000) [1, 2, 6, 7, 8] = [1000, 2000, 32000, 60000, 60000] \<and>
   computeBackoffMs 3 1000 60000 \<le> computeBackoffMs (3 + 1) 1000 60000"
  using backoff_doubles_to_cap [of 3 1000 60000] by (simp add: computeBackoffMs_def)

text \<open>
  (C20) An attempt counts once and ends the job in exactly one way. Over any database, with handlers
  that do not write the queue themselves: the row becomes succeeded, without an error, when the handler of its type ended
  normally on its payload; when the handler threw, it becomes failed if the attempts are used up and pending again while some remain, with the
  exception's message; without a handler it becomes failed. No other row changes. The end is stamped with a reading of the clock, and a job that is pending again is
  due exactly the back-off (base times two to the earlier attempts, at most the cap) after that reading, the clock being read
  once more for the row's time stamp. A failing write ends in an exception with the job as it was or marked processing.
\<close>

theorem processJob_outcome:
  assumes "database B st" and "leave_jobs st handlers"
    and "filter (\<lambda>j. rj_id j = rj_id job) (t_jobs (st (svc w))) = [job]"
    and "processJob B cfg handlers job w = (r, w')"
  shows "(\<exists>j. r = Inr j \<and> attempted B cfg handlers job j \<and>
      t_jobs (st (svc w')) = update_where (\<lambda>j. rj_id j = rj_id job) (\<lambda>_. j) (t_jobs (st (svc w)))) \<or>
    (\<exists>e. r = Inl e \<and> (t_jobs (st (svc w')) = t_jobs (st (svc w)) \<or>
      (\<exists>t. t_jobs (st (svc w')) = update_where (\<lambda>j. rj_id j = rj_id job)
        (\<lambda>_. job\<lparr>rj_status := ''processing'', rj_attempts := rj_attempts job + 1, rj_updated_at := t\<rparr>) (t_jobs (st (svc w))))))"
proof -
  let ?P = "\<lambda>r v. (\<exists>j. r = Inr j \<and> attempted B cfg handlers job j \<and>
      t_jobs (st (svc v)) = update_where (\<lambda>j. rj_id j = rj_id job) (\<lambda>_. j) (t_jobs (st (svc w)))) \<or>
    (\<exists>e. r = Inl e \<and> (t_jobs (st (svc v)) = t_jobs (st (svc w)) \<or>
      (\<exists>t. t_jobs (st (svc v)) = update_where (\<lambda>j. rj_id j = rj_id job)
        (\<lambda>_. job\<lparr>rj_status := ''processing'', rj_attempts := rj_attempts job + 1, rj_updated_at := t\<rparr>) (t_jobs (st (svc w))))))"
  have "wp (processJob B cfg handlers job) ?P w"
    by (rule database.wp_processJob [OF assms(1,3,2)]) (auto simp: job_started_def)
  from wpD [OF this assms(4)] show ?thesis .
qed

definition sample_job :: "string \<Rightarrow> int \<Rightarrow> retry_job" where
  "sample_job status n = (new_job ''payment_execution'' (JStr ''pay'') ''k1'' 5 1)\<lparr>rj_id := ''J1'', rj_status := status, rj_attempts := n\<rparr>"

text \<open>A handler that does its work, one that fails.\<close>

definition pays :: "mem handlers" where
  "pays ty = Some (\<lambda>p n. bnd (emit ''pay'' p) (\<lambda>_. ret JNull))"

definition breaks :: "mem handlers" where
  "breaks ty = Some (\<lambda>p n. throw (PlainError ''fetch failed''))"

definition queue_world :: "retry_job list \<Rightarrow> mem world" where
  "queue_world js = world_on (no_tables\<lparr>t_jobs := js\<rparr>) quiet_env"

definition job_states :: "mem world \<Rightarrow> (string \<times> int) list" where
  "job_states w = map (\<lambda>j. (rj_status j, rj_attempts j)) (t_jobs (tabs (svc w)))"

definition attempt_run :: "mem handlers \<Rightarrow> int \<Rightarrow> (exn + retry_job) \<times> mem world" where
  "attempt_run hs n = processJob (mem_backend sample_vars) RETRY_QUEUE_DEFAULTS hs (sample_job ''pending'' n)
     (queue_world [sample_job ''pending'' n])"

lemma breaks_leave: "leave_jobs tabs breaks"
  by (auto simp: leave_jobs_def breaks_def prog_simps)

lemma processJob_outcome_witness:
  "job_states (snd (attempt_run breaks 3)) = [(''pending'', 4)] \<and>
   (\<exists>j. attempted (mem_backend sample_vars) RETRY_QUEUE_DEFAULTS breaks (sample_job ''pending'' 3) j)"
proof -
  have a: "job_states (snd (attempt_run breaks 3)) = [(''pending'', 4)]" "\<not> isl (fst (attempt_run breaks 3))" by code_simp+
  have row: "filter (\<lambda>j. rj_id j = rj_id (sample_job ''pending'' 3)) (t_jobs (tabs (svc (queue_world [sample_job ''pending'' 3])))) =
      [sample_job ''pending'' 3]"
    by (simp add: queue_world_def world_on_def no_tables_def)
  show ?thesis
    using a processJob_outcome [OF mem.database_axioms breaks_leave row, of sample_vars RETRY_QUEUE_DEFAULTS
        "fst (attempt_run breaks 3)" "snd (attempt_run breaks 3)"]
    by (auto simp: attempt_run_def)
qed

text \<open>
  Enqueueing is idempotent in the key: over any database, once an enqueue has answered, every
  further enqueue with that key, whatever its type and payload, answers the same job and adds nothing,
  also when the lookup that should have found it fails.
\<close>

theorem enqueue_idempotent:
  assumes "database B st"
    and "enqueue B cfg ty payload key n w = (Inr j, w1)" and "enqueue B cfg ty' payload' key n' w1 = (Inr j', w2)"
  shows "j' = j \<and> t_jobs (st (svc w2)) = t_jobs (st (svc w1)) \<and>
    (t_jobs (st (svc w1)) = t_jobs (st (svc w)) \<or> t_jobs (st (svc w1)) = t_jobs (st (svc w)) @ [j])"
  by (rule database.enqueue_again [OF assms])

definition enqueue_run :: "string \<Rightarrow> mem world \<Rightarrow> (exn + retry_job) \<times> mem world" where
  "enqueue_run payload w = enqueue (mem_backend sample_vars) RETRY_QUEUE_DEFAULTS ''payment_execution'' (JStr payload) ''k1'' None w"

lemma enqueue_idempotent_witness:
  "job_states (snd (enqueue_run ''again'' (snd (enqueue_run ''pay'' (queue_world []))))) = [(''pending'', 0)] \<and>
   projr (fst (enqueue_run ''again'' (snd (enqueue_run ''pay'' (queue_world []))))) = projr (fst (enqueue_run ''pay'' (queue_world [])))"
proof
  let ?w1 = "snd (enqueue_run ''pay'' (queue_world []))"
  show "job_states (snd (enqueue_run ''again'' ?w1)) = [(''pending'', 0)]" by code_simp
  have "\<not> isl (fst (enqueue_run ''pay'' (queue_world [])))" "\<not> isl (fst (enqueue_run ''again'' ?w1))" by code_simp+
  then obtain j w1 j' w2 where e: "enqueue_run ''pay'' (queue_world []) = (Inr j, w1)" "enqueue_run ''again'' w1 = (Inr j', w2)"
    by (metis isl_def snd_conv sum.exhaust surjective_pairing)
  show "projr (fst (enqueue_run ''again'' ?w1)) = projr (fst (enqueue_run ''pay'' (queue_world [])))"
    using enqueue_idempotent [OF mem.database_axioms e [unfolded enqueue_run_def]] e by simp
qed

text \<open>
  (C21) Every job settles. Over any database, with handlers that do not write the queue: a job that is
  attempted whenever it is pending again, is succeeded or failed for good after at most as many attempts as
  it has left (one at least), its counter not beyond its limit, unless a write of the queue
  itself fails.
\<close>

theorem job_settles:
  assumes "database B st" and "leave_jobs st handlers"
    and "filter (\<lambda>j. rj_id j = rj_id job) (t_jobs (st (svc w))) = [job]"
    and "1 \<le> n" and "rj_max_attempts job - rj_attempts job \<le> int n"
    and "attempts B cfg handlers n job w = (r, w')"
  shows "(\<exists>e. r = Inl e) \<or> (\<exists>j. r = Inr j \<and> settled job j \<and> filter (\<lambda>j. rj_id j = rj_id job) (t_jobs (st (svc w'))) = [j])"
  using wpD [OF database.wp_attempts [OF assms(1,3,2,4,5)] assms(6)] by (cases r) auto

definition attempts_run :: "mem handlers \<Rightarrow> nat \<Rightarrow> (exn + retry_job) \<times> mem world" where
  "attempts_run hs n = attempts (mem_backend sample_vars) RETRY_QUEUE_DEFAULTS hs n (sample_job ''pending'' 2)
     (queue_world [sample_job ''pending'' 2])"

lemma job_settles_witness:
  "job_states (snd (attempts_run breaks 2)) = [(''pending'', 4)] \<and> job_states (snd (attempts_run breaks 3)) = [(''failed'', 5)] \<and>
   (\<exists>j. settled (sample_job ''pending'' 2) j)"
proof -
  have a: "job_states (snd (attempts_run breaks 2)) = [(''pending'', 4)]" "job_states (snd (attempts_run breaks 3)) = [(''failed'', 5)]"
    "\<not> isl (fst (attempts_run breaks 3))" by code_simp+
  have row: "filter (\<lambda>j. rj_id j = rj_id (sample_job ''pending'' 2)) (t_jobs (tabs (svc (queue_world [sample_job ''pending'' 2])))) =
      [sample_job ''pending'' 2]"
    by (simp add: queue_world_def world_on_def no_tables_def)
  have n: "rj_max_attempts (sample_job ''pending'' 2) - rj_attempts (sample_job ''pending'' 2) \<le> int 3"
    by (simp add: sample_job_def new_job_def)
  show ?thesis
    using a job_settles [OF mem.database_axioms breaks_leave row _ n, of sample_vars RETRY_QUEUE_DEFAULTS
        "fst (attempts_run breaks 3)" "snd (attempts_run breaks 3)"]
    by (auto simp: attempts_run_def)
qed

text \<open>
  The queue does not make a handler run once. Two polls that both selected a due job before either marked
  it (they start on a timer that does not wait for the previous poll) run its handler twice, and the row
  counts one attempt; and a manual retry of a job that failed for good goes past its limit.
\<close>

theorem attempts_undercounted:
  "let job = sample_job ''pending'' 0;
       w = snd (bnd (processJob (mem_backend sample_vars) RETRY_QUEUE_DEFAULTS pays job)
             (\<lambda>_. processJob (mem_backend sample_vars) RETRY_QUEUE_DEFAULTS pays job) (queue_world [job]));
       v = snd (manualRetry (mem_backend sample_vars) RETRY_QUEUE_DEFAULTS breaks ''J1'' (queue_world [sample_job ''failed'' 5]))
   in emitted w = [(''pay'', JStr ''pay''), (''pay'', JStr ''pay'')] \<and> job_states w = [(''succeeded'', 1)] \<and>
      job_states v = [(''failed'', 6)]"
  by code_simp

end
