(* ===== verification/Escrows.thy ===== *)
theory Escrows
  imports RetryQueue Distributions
begin

text \<open>
  The escrow endpoints: what \<open>internal-trustless/escrow-read.helper.ts\<close> reads out of an escrow
  document, the recipients' check of \<open>trustline.guard.ts\<close>, and the handlers of
  \<open>internal-trustless/escrows.controller.ts\<close>, whose writes fall back on the persistent retry queue.
  Whether a string is a Stellar public key is decided by the Stellar SDK, an argument here.
\<close>

section \<open>Reading an escrow\<close>

record escrow_roles =
  ro_approver :: "string option"
  ro_serviceProvider :: "string option"
  ro_releaseSigner :: "string option"
  ro_disputeResolver :: "string option"
  ro_receiver :: "string option"
  ro_platformAddress :: "string option"

record escrow_flags =
  ef_disputed :: bool
  ef_released :: bool
  ef_resolved :: bool

record milestone_snapshot_flags = escrow_flags +
  ef_approved :: bool

record milestone_snapshot =
  sm_description :: "string option"
  sm_status :: "string option"
  sm_amount :: "jsnum option"
  sm_approved :: bool
  sm_flags :: "milestone_snapshot_flags option"

record escrow_asset =
  as_address :: "string option"
  as_symbol :: "string option"

record escrow_snapshot =
  sn_contractId :: string
  sn_type :: string
  sn_amount :: jsnum
  sn_balance :: jsnum
  sn_roles :: escrow_roles
  sn_flags :: escrow_flags
  sn_milestones :: "milestone_snapshot list"
  sn_trustline :: "escrow_asset option"

definition isRecord :: "json option \<Rightarrow> bool" where
  "isRecord v = (case v of Some (JObj _) \<Rightarrow> True | _ \<Rightarrow> False)"

definition finite_or_zero :: "jsnum \<Rightarrow> jsnum" where
  "finite_or_zero x = (if is_finite x then x else Fin 0)"

definition toNumber :: "json option \<Rightarrow> jsnum" where
  "toNumber v = (case v of
     Some (JNum r) \<Rightarrow> Fin r
   | Some (JStr s) \<Rightarrow> if trim s \<noteq> [] then finite_or_zero (str_number s) else Fin 0
   | _ \<Rightarrow> Fin 0)"

definition optionalString :: "json option \<Rightarrow> string option" where
  "optionalString v = (case v of Some (JStr s) \<Rightarrow> if trim s \<noteq> [] then Some s else None | _ \<Rightarrow> None)"

definition is_true :: "json option \<Rightarrow> bool" where
  "is_true v = (case v of Some (JBool b) \<Rightarrow> b | _ \<Rightarrow> False)"

text \<open>\<open>isRecord(v) ? v : {}\<close>, an empty object having no property.\<close>

definition record_or_empty :: "json option \<Rightarrow> json" where
  "record_or_empty v = (if isRecord v then default v (JObj []) else JObj [])"

definition parseMilestone :: "json \<Rightarrow> milestone_snapshot" where
  "parseMilestone entry =
     (let m = record_or_empty (Some entry);
          flags = (if isRecord (jget ''flags'' m) then jget ''flags'' m else None)
      in \<lparr>sm_description = optionalString (jget ''description'' m),
          sm_status = optionalString (jget ''status'' m),
          sm_amount = (case jget ''amount'' m of None \<Rightarrow> None | Some a \<Rightarrow> Some (toNumber (Some a))),
          sm_approved = (is_true (jget ''approved'' m) \<or>
            (case flags of None \<Rightarrow> False | Some fs \<Rightarrow> is_true (jget ''approved'' fs))),
          sm_flags = map_option (\<lambda>fs. \<lparr>ef_disputed = is_true (jget ''disputed'' fs),
            ef_released = is_true (jget ''released'' fs), ef_resolved = is_true (jget ''resolved'' fs),
            ef_approved = is_true (jget ''approved'' fs)\<rparr>) flags\<rparr>)"

definition parseMilestones :: "json option \<Rightarrow> milestone_snapshot list" where
  "parseMilestones raw = (case raw of Some (JArr xs) \<Rightarrow> map parseMilestone xs | _ \<Rightarrow> [])"

definition parseRoles :: "json \<Rightarrow> escrow_roles" where
  "parseRoles roles = \<lparr>ro_approver = optionalString (jget ''approver'' roles),
     ro_serviceProvider = optionalString (jget ''serviceProvider'' roles),
     ro_releaseSigner = optionalString (jget ''releaseSigner'' roles),
     ro_disputeResolver = optionalString (jget ''disputeResolver'' roles),
     ro_receiver = optionalString (jget ''receiver'' roles),
     ro_platformAddress = optionalString (jget ''platformAddress'' roles)\<rparr>"

definition parseEscrow :: "json option \<Rightarrow> escrow_snapshot option" where
  "parseEscrow raw = (case raw of
     Some (JObj kvs) \<Rightarrow>
       (let e = JObj kvs; flags = record_or_empty (jget ''flags'' e); trustline = jget ''trustline'' e
        in case optionalString (jget ''contractId'' e) of
          None \<Rightarrow> None
        | Some contractId \<Rightarrow> Some
            \<lparr>sn_contractId = contractId,
             sn_type = (if jget ''type'' e = Some (JStr ''multi-release'') then ''multi-release'' else ''single-release''),
             sn_amount = toNumber (jget ''amount'' e),
             sn_balance = toNumber (jget ''balance'' e),
             sn_roles = parseRoles (record_or_empty (jget ''roles'' e)),
             sn_flags = \<lparr>ef_disputed = is_true (jget ''disputed'' flags),
               ef_released = is_true (jget ''released'' flags), ef_resolved = is_true (jget ''resolved'' flags)\<rparr>,
             sn_milestones = parseMilestones (jget ''milestones'' e),
             sn_trustline = (if isRecord trustline
               then Some \<lparr>as_address = optionalString (jget ''address'' (record_or_empty trustline)),
                 as_symbol = optionalString (jget ''symbol'' (record_or_empty trustline))\<rparr> else None)\<rparr>)
   | _ \<Rightarrow> None)"

definition first_escrow :: "json \<Rightarrow> json option" where
  "first_escrow payload = (case payload of JArr [] \<Rightarrow> None | JArr (x # _) \<Rightarrow> Some x | _ \<Rightarrow> Some payload)"

definition readEscrow :: "'s backend \<Rightarrow> string \<Rightarrow> ('s world, escrow_snapshot) prog" where
  "readEscrow B contractId =
     bnd (relayToTrustless B ''GET'' ''helper/get-escrow-by-contract-ids'' (escrow_query contractId) None) (\<lambda>(status, data).
     bnd (require (\<not> 500 \<le> status)
       (ServiceUnavailable ''Could not read the escrow from Trustless Work. Try again in a moment.'')) (\<lambda>_.
     bnd (require (\<not> 400 \<le> status) (BadRequest (formatUpstreamError data))) (\<lambda>_.
     case parseEscrow (first_escrow data) of
       None \<Rightarrow> throw (NotFound (''No escrow found for contract '' @ contractId))
     | Some escrow \<Rightarrow> ret escrow)))"

section \<open>What a resolution divides, and when it may\<close>

definition is_index :: "jsnum \<Rightarrow> nat \<Rightarrow> nat option" where
  "is_index x n = (case x of Fin r \<Rightarrow> (if of_int \<lfloor>r\<rfloor> = r \<and> 0 \<le> r \<and> r < of_nat n then Some (nat \<lfloor>r\<rfloor>) else None) | _ \<Rightarrow> None)"

definition js_min :: "jsnum \<Rightarrow> jsnum \<Rightarrow> jsnum" where
  "js_min x y = (if x = NaN \<or> y = NaN then NaN else if js_less y x then y else x)"

definition resolutionTotal :: "escrow_snapshot \<Rightarrow> string \<Rightarrow> string option \<Rightarrow> exn + jsnum" where
  "resolutionTotal escrow ty milestoneIndex =
     (if ty = ''single-release'' then
        if js_le (sn_balance escrow) (Fin 0)
        then Inl (BadRequest (Msg ''This escrow holds no funds, so there is nothing to distribute.''))
        else Inr (sn_balance escrow)
      else case is_index (num_of_opt milestoneIndex) (length (sn_milestones escrow)) of
        None \<Rightarrow> Inl (BadRequest (Msg (''Milestone '' @ default milestoneIndex ''(none)'' @ '' does not exist on this escrow.'')))
      | Some index \<Rightarrow>
          (case sm_amount (sn_milestones escrow ! index) of
             None \<Rightarrow> Inl (BadRequest (Msg (''Milestone '' @ nat_str index @ '' has no amount, so there is nothing to distribute.'')))
           | Some amount \<Rightarrow>
               if js_le amount (Fin 0)
               then Inl (BadRequest (Msg (''Milestone '' @ nat_str index @ '' has no amount, so there is nothing to distribute.'')))
               else Inr (js_min amount (if js_less (Fin 0) (sn_balance escrow) then sn_balance escrow else amount))))"

record resolve_escrow_dto =
  re_contractId :: string
  re_type :: string
  re_milestoneIndex :: "string option"
  re_disputeResolver :: string
  re_allocations :: "allocation list"

definition assertResolvable :: "escrow_snapshot \<Rightarrow> resolve_escrow_dto \<Rightarrow> exn option" where
  "assertResolvable escrow dto =
     (let refuse = (\<lambda>m. Some (BadRequest (Msg m)));
          expected = ro_disputeResolver (sn_roles escrow)
      in if sn_type escrow \<noteq> re_type dto then
           refuse (''This escrow is '' @ sn_type escrow @ '', not '' @ re_type dto @ ''. Resolving it needs the other endpoint.'')
         else if truthy expected \<and> toUpperCase (default expected []) \<noteq> toUpperCase (trim (re_disputeResolver dto)) then
           refuse ''This wallet is not the dispute resolver of this escrow, so it cannot resolve it.''
         else if ef_resolved (sn_flags escrow) then refuse ''This dispute was already resolved on-chain.''
         else if re_type dto = ''single-release'' then
           if \<not> ef_disputed (sn_flags escrow) then refuse ''This escrow is not in dispute, so there is nothing to resolve.''
           else None
         else case is_index (num_of_opt (re_milestoneIndex dto)) (length (sn_milestones escrow)) of
           None \<Rightarrow> None
         | Some index \<Rightarrow>
             (case sm_flags (sn_milestones escrow ! index) of
                None \<Rightarrow> None
              | Some fs \<Rightarrow>
                  if ef_released fs \<or> ef_resolved fs
                  then refuse (''Milestone '' @ default (re_milestoneIndex dto) ''undefined'' @ '' is already settled.'')
                  else if \<not> ef_disputed fs
                  then refuse (''Milestone '' @ default (re_milestoneIndex dto) ''undefined'' @
                    '' is not in dispute, so there is nothing to resolve.'')
                  else None))"

section \<open>\<open>trustline.guard.ts\<close>\<close>

definition usdcIssuer :: "'s backend \<Rightarrow> escrow_asset option \<Rightarrow> string" where
  "usdcIssuer B asset = or_else (map_option trim (case asset of None \<Rightarrow> None | Some a \<Rightarrow> as_address a)) (trustline_address B)"

definition assetName :: "escrow_asset option \<Rightarrow> string" where
  "assetName asset = or_else (map_option trim (case asset of None \<Rightarrow> None | Some a \<Rightarrow> as_symbol a)) ''USDC''"

definition horizonUrl :: "'s backend \<Rightarrow> string" where
  "horizonUrl B = (if isMainnet B then ''https://horizon.stellar.org'' else ''https://horizon-testnet.stellar.org'')"

text \<open>
  \<open>balances.some(...)\<close> on whatever the answer's \<open>balances\<close> are: it stops at the first match, throws on
  a \<open>null\<close> entry before one and on something that is not an array.
\<close>

fun some_issuer :: "string \<Rightarrow> json list \<Rightarrow> exn + bool" where
  "some_issuer issuer [] = Inr False"
| "some_issuer issuer (b # bs) =
     (if b = JNull then Inl (PlainError ''TypeError'')
      else if jget ''asset_issuer'' b = Some (JStr issuer) then Inr True
      else some_issuer issuer bs)"

definition holds_issuer :: "string \<Rightarrow> json \<Rightarrow> exn + bool" where
  "holds_issuer issuer account =
     (if account = JNull then Inl (PlainError ''TypeError'')
      else case jget ''balances'' account of
        None \<Rightarrow> Inr False
      | Some JNull \<Rightarrow> Inr False
      | Some (JArr bs) \<Rightarrow> some_issuer issuer bs
      | Some _ \<Rightarrow> Inl (PlainError ''TypeError''))"

definition account_request :: "'s backend \<Rightarrow> string \<Rightarrow> http_request" where
  "account_request B address = \<lparr>rq_method = ''GET'', rq_url = horizonUrl B @ ''/accounts/'' @ address,
     rq_query = [], rq_headers = [], rq_body = None\<rparr>"

definition readTrustline :: "'s backend \<Rightarrow> string \<Rightarrow> string \<Rightarrow> ('s world, string) prog" where
  "readTrustline B address issuer =
     bnd (send B (account_request B address)) (\<lambda>res.
     case res of
       Inl _ \<Rightarrow> throw (ServiceUnavailable ''Could not reach Stellar Horizon to check the recipients. Try again in a moment.'')
     | Inr rp \<Rightarrow>
         if rp_status rp = 404 then ret ''no-account''
         else
           bnd (require (200 \<le> rp_status rp \<and> rp_status rp < 300)
             (ServiceUnavailable (''Stellar Horizon answered '' @ nat_str (rp_status rp) @ '' while checking '' @ address @
               ''. Try again in a moment.''))) (\<lambda>_.
           case rp_body rp of
             Text _ \<Rightarrow> throw (PlainError ''SyntaxError'')
           | Json account \<Rightarrow> bnd (lift_exn (holds_issuer issuer account)) (\<lambda>holds.
               ret (if holds then ''held'' else ''missing''))))"

text \<open>
  \<open>Promise.all\<close>: every request is made, also after one has failed; one failure fails the whole. The
  model makes the requests in order and reports the first failure.
\<close>

primrec promise_all :: "('a \<Rightarrow> ('w, 'b) prog) \<Rightarrow> 'a list \<Rightarrow> ('w, 'b list) prog" where
  "promise_all f [] = ret []"
| "promise_all f (x # xs) = (\<lambda>w. case f x w of (r, v) \<Rightarrow> (case promise_all f xs v of (rs, u) \<Rightarrow>
     ((case r of Inl e \<Rightarrow> Inl e | Inr y \<Rightarrow> (case rs of Inl e \<Rightarrow> Inl e | Inr ys \<Rightarrow> Inr (y # ys))), u)))"

definition recipients :: "string list \<Rightarrow> string list" where
  "recipients addresses = uniq (filter (\<lambda>a. a \<noteq> []) (map trim addresses))"

definition trustline_problem :: "string \<Rightarrow> (string \<times> string) list \<Rightarrow> exn" where
  "trustline_problem symbol problems = BadRequest (Body (JObj
     [(''message'', JStr ((if length problems = 1 then ''One recipient cannot receive '' else ''Some recipients cannot receive '') @
        symbol @ '' yet, so this resolution would fail on submit.'')),
      (''code'', JStr ''TRUSTLINE_MISSING''),
      (''problems'', JArr (map (\<lambda>(a, reason). JObj [(''address'', JStr a), (''reason'', JStr reason)]) problems))]))"

definition assertRecipientsCanReceive :: "'s backend \<Rightarrow> string list \<Rightarrow> escrow_asset option \<Rightarrow> ('s world, unit) prog" where
  "assertRecipientsCanReceive B addresses asset =
     (let unique = recipients addresses
      in if unique = [] then ret ()
         else bnd (promise_all (\<lambda>a. bnd (readTrustline B a (usdcIssuer B asset)) (\<lambda>reason. ret (a, reason))) unique) (\<lambda>states.
           let problems = filter (\<lambda>(a, reason). reason \<noteq> ''held'') states
           in require (problems = []) (trustline_problem (assetName asset) problems)))"

section \<open>Writes with a backstop\<close>

text \<open>A request as the payload of a job, and back.\<close>

definition relay_payload :: "relay_write \<Rightarrow> json" where
  "relay_payload r = JObj [(''path'', JStr (rw_path r)), (''body'', rw_body r)]"

definition replay :: "'s backend \<Rightarrow> json \<Rightarrow> int \<Rightarrow> ('s world, json) prog" where
  "replay B payload attempt = relayWrite B (case jget ''path'' payload of Some (JStr p) \<Rightarrow> p | _ \<Rightarrow> ''undefined'')
     (default (jget ''body'' payload) (JObj []))"

definition escrow_handlers :: "'s backend \<Rightarrow> 's handlers" where
  "escrow_handlers B ty =
     (if ty = ''agreement_creation'' \<or> ty = ''milestone_update'' \<or> ty = ''payment_execution''
      then Some (replay B) else None)"

definition writeWithBackstop ::
    "'s backend \<Rightarrow> queue_settings \<Rightarrow> string \<Rightarrow> string \<Rightarrow> relay_write \<Rightarrow> ('s world, json) prog" where
  "writeWithBackstop B cfg jobType key request =
     catch (relayWrite B (rw_path request) (rw_body request))
       (\<lambda>error. if (case error of UpstreamError status _ \<Rightarrow> status < 500 | _ \<Rightarrow> False) then throw error
         else bnd (enqueue B cfg jobType (relay_payload request) key None) (\<lambda>_. throw error))"

section \<open>The endpoints\<close>

definition key_of :: "string list \<Rightarrow> string" where
  "key_of parts = join '':'' parts"

definition post_create :: "'s backend \<Rightarrow> queue_settings \<Rightarrow> create_escrow_dto \<Rightarrow> ('s world, json) prog" where
  "post_create B cfg dto =
     bnd (call (now B)) (\<lambda>t.
     let request = buildCreateEscrowRequest B dto t
     in writeWithBackstop B cfg ''agreement_creation''
          (key_of [''agreement_creation'', (case jget ''engagementId'' (rw_body request) of Some (JStr e) \<Rightarrow> e | _ \<Rightarrow> ''undefined'')])
          request)"

record fund_escrow_dto =
  fe_contractId :: string
  fe_signer :: string
  fe_amount :: jsnum
  fe_type :: string

definition post_fund :: "'s backend \<Rightarrow> queue_settings \<Rightarrow> fund_escrow_dto \<Rightarrow> ('s world, json) prog" where
  "post_fund B cfg dto = writeWithBackstop B cfg ''payment_execution''
     (key_of [''payment_execution'', ''fund'', fe_contractId dto, fe_signer dto, num_str (fe_amount dto)])
     (buildFundEscrowRequest (fe_contractId dto) (fe_signer dto) (fe_amount dto) (fe_type dto))"

record approve_milestone_dto =
  am_contractId :: string
  am_milestoneIndex :: string
  am_approver :: string
  am_type :: string

definition post_approve_milestone :: "'s backend \<Rightarrow> queue_settings \<Rightarrow> approve_milestone_dto \<Rightarrow> ('s world, json) prog" where
  "post_approve_milestone B cfg dto = writeWithBackstop B cfg ''milestone_update''
     (key_of [''milestone_update'', ''approve'', am_contractId dto, am_milestoneIndex dto])
     (buildApproveMilestoneRequest (am_contractId dto) (am_milestoneIndex dto) (am_approver dto) (am_type dto))"

definition post_change_milestone_status :: "'s backend \<Rightarrow> queue_settings \<Rightarrow> change_status_dto \<Rightarrow> ('s world, json) prog" where
  "post_change_milestone_status B cfg dto =
     bnd (assertEscrowFunded B (cs_contractId dto)) (\<lambda>_.
     writeWithBackstop B cfg ''milestone_update''
       (key_of [''milestone_update'', ''status'', cs_contractId dto, cs_milestoneIndex dto, cs_newStatus dto])
       (buildChangeMilestoneStatusRequest dto))"

record release_funds_dto =
  rf_contractId :: string
  rf_releaseSigner :: string
  rf_type :: string
  rf_milestoneIndex :: "string option"

definition post_release :: "'s backend \<Rightarrow> queue_settings \<Rightarrow> release_funds_dto \<Rightarrow> ('s world, json) prog" where
  "post_release B cfg dto = writeWithBackstop B cfg ''payment_execution''
     (key_of [''payment_execution'', ''release'', rf_contractId dto, rf_releaseSigner dto, default (rf_milestoneIndex dto) ''all''])
     (buildReleaseFundsRequest (rf_contractId dto) (rf_releaseSigner dto) (rf_type dto) (rf_milestoneIndex dto))"

record dispute_milestone_dto =
  dm_contractId :: string
  dm_type :: string
  dm_milestoneIndex :: "string option"
  dm_signer :: string

definition post_dispute :: "'s backend \<Rightarrow> dispute_milestone_dto \<Rightarrow> ('s world, json) prog" where
  "post_dispute B dto = disputeMilestone B (dm_contractId dto) (dm_type dto) (dm_milestoneIndex dto) (dm_signer dto)"

definition post_send_transaction :: "'s backend \<Rightarrow> string \<Rightarrow> ('s world, json) prog" where
  "post_send_transaction B signedXdr = sendTransaction B signedXdr"

text \<open>The text of a \<open>DistributionError\<close>.\<close>

fun distribution_message :: "distribution_error \<Rightarrow> string" where
  "distribution_message (NotFinite field) = field @ '' must be a finite number''"
| "distribution_message NoAllocations = ''A resolution needs at least one allocation''"
| "distribution_message NoAddress = ''Every allocation needs an address''"
| "distribution_message (PercentageNotANumber a) = ''Percentage for '' @ a @ '' must be a number''"
| "distribution_message (PercentageOutOfRange a) = ''Percentage for '' @ a @ '' must be between 0 and 100''"
| "distribution_message DuplicateAddress = ''The same address appears twice in the allocations''"
| "distribution_message (PercentagesMustTotal100 x) = ''Percentages must total 100, got '' @ num_str x"
| "distribution_message NothingToDistribute = ''There is nothing to distribute: the total is zero''"
| "distribution_message AllRoundedToZero = ''Every allocation rounded to zero''"
| "distribution_message (MustTotalExactly x y) =
     ''Distributions must total the escrow balance exactly: expected '' @ num_str x @ '', got '' @ num_str y"
| "distribution_message (MustNotExceed x y) =
     ''Distributions must not exceed the milestone amount: limit '' @ num_str x @ '', got '' @ num_str y"

definition splitByPercentage :: "resolve_escrow_dto \<Rightarrow> escrow_snapshot \<Rightarrow> exn + distribution list" where
  "splitByPercentage dto escrow = (case resolutionTotal escrow (re_type dto) (re_milestoneIndex dto) of
     Inl e \<Rightarrow> Inl e
   | Inr amount \<Rightarrow> (case buildDistributions (re_type dto) amount (re_allocations dto) of
       Inl e \<Rightarrow> Inl (BadRequest (Body (JObj [(''message'', JStr (distribution_message e)), (''code'', JStr ''INVALID_DISTRIBUTION'')])))
     | Inr ds \<Rightarrow> Inr ds))"

definition distributions_json :: "distribution list \<Rightarrow> json" where
  "distributions_json ds = JArr (map (\<lambda>d. JObj [(''address'', JStr (ds_address d)), (''amount'', jnum_of (ds_amount d))]) ds)"

definition buildResolveDisputeRequest :: "resolve_escrow_dto \<Rightarrow> distribution list \<Rightarrow> relay_write" where
  "buildResolveDisputeRequest dto ds =
     (if re_type dto = ''single-release'' then
        relay_of ''escrow/single-release/resolve-dispute''
          [(''contractId'', JStr (re_contractId dto)), (''disputeResolver'', JStr (re_disputeResolver dto)),
           (''distributions'', distributions_json ds)]
      else relay_of ''escrow/multi-release/resolve-milestone-dispute''
          ([(''contractId'', JStr (re_contractId dto))] @ jopt ''milestoneIndex'' (map_option JStr (re_milestoneIndex dto)) @
           [(''disputeResolver'', JStr (re_disputeResolver dto)), (''distributions'', distributions_json ds)]))"

definition post_resolve_dispute :: "'s backend \<Rightarrow> queue_settings \<Rightarrow> resolve_escrow_dto \<Rightarrow> ('s world, json) prog" where
  "post_resolve_dispute B cfg dto =
     bnd (readEscrow B (re_contractId dto)) (\<lambda>escrow.
     bnd (case assertResolvable escrow dto of None \<Rightarrow> ret () | Some e \<Rightarrow> throw e) (\<lambda>_.
     bnd (lift_exn (splitByPercentage dto escrow)) (\<lambda>ds.
     bnd (assertRecipientsCanReceive B (map ds_address ds) (sn_trustline escrow)) (\<lambda>_.
     writeWithBackstop B cfg ''payment_execution''
       (key_of [''payment_execution'', ''resolve'', re_contractId dto, re_disputeResolver dto, default (re_milestoneIndex dto) ''all''])
       (buildResolveDisputeRequest dto ds)))))"

text \<open>The public reads.\<close>

definition assertStellarAddress :: "(string \<Rightarrow> bool) \<Rightarrow> string option \<Rightarrow> ('w, unit) prog" where
  "assertStellarAddress isValidEd25519PublicKey address =
     require (truthy address \<and> isValidEd25519PublicKey (default address []))
       (BadRequest (Msg ''`address` no es una clave publica Stellar valida''))"

definition TW_ROLE_MAP :: "(string \<times> string) list" where
  "TW_ROLE_MAP = [(''service_provider'', ''serviceProvider''), (''release_signer'', ''releaseSigner''),
     (''dispute_resolver'', ''disputeResolver'')]"

text \<open>
  \<open>TW_ROLE_MAP[role] ?? role\<close>: a name every object inherits finds that property, which the query prints.
\<close>

definition tw_role :: "string \<Rightarrow> string" where
  "tw_role role = (case map_of TW_ROLE_MAP role of
     Some r \<Rightarrow> r
   | None \<Rightarrow>
       if role = ''__proto__'' then ''[object Object]''
       else if inherited role
       then ''function '' @ (if role = ''constructor'' then ''Object'' else role) @ ''() { [native code] }''
       else role)"

definition relay_read :: "'s backend \<Rightarrow> string \<Rightarrow> (string \<times> string) list \<Rightarrow> ('s world, json) prog" where
  "relay_read B path query =
     bnd (relayToTrustless B ''GET'' path query None) (\<lambda>(status, data).
     if 400 \<le> status then throw (BadRequest (formatUpstreamError data)) else ret data)"

definition getEscrowsBySigner :: "'s backend \<Rightarrow> (string \<Rightarrow> bool) \<Rightarrow> string \<Rightarrow> string option \<Rightarrow> string option \<Rightarrow> string option \<Rightarrow>
    ('s world, json) prog" where
  "getEscrowsBySigner B isValidEd25519PublicKey address page pageSize validateOnChain =
     bnd (assertStellarAddress isValidEd25519PublicKey (Some address)) (\<lambda>_.
     relay_read B ''helper/get-escrows-by-signer''
       [(''signer'', address), (''page'', default page ''1''), (''pageSize'', default pageSize ''5''),
        (''validateOnChain'', default validateOnChain ''true'')])"

definition getEscrowsByRole :: "'s backend \<Rightarrow> (string \<Rightarrow> bool) \<Rightarrow> string option \<Rightarrow> string option \<Rightarrow> string option \<Rightarrow> string option \<Rightarrow>
    ('s world, json) prog" where
  "getEscrowsByRole B isValidEd25519PublicKey address role status ty =
     bnd (assertStellarAddress isValidEd25519PublicKey address) (\<lambda>_.
     relay_read B ''helper/get-escrows-by-role''
       ([(''roleAddress'', default address [])] @
        (if truthy role then [(''role'', tw_role (default role []))] else []) @
        (if truthy status then [(''status'', default status [])] else []) @
        (if truthy ty then [(''type'', default ty [])] else [])))"

definition getEscrowByContractId :: "'s backend \<Rightarrow> string option \<Rightarrow> ('s world, escrow_snapshot) prog" where
  "getEscrowByContractId B contractId =
     bnd (require (trim (default contractId []) \<noteq> []) (BadRequest (Msg ''`contractId` is required''))) (\<lambda>_.
     readEscrow B (trim (default contractId [])))"

section \<open>What is sent\<close>

text \<open>A read of an account on Horizon, answered with an account that has a balance of the issuer's asset.\<close>

definition receives :: "'s backend \<Rightarrow> string \<Rightarrow> string \<Rightarrow> http_request \<times> (string + http_response) \<Rightarrow> bool" where
  "receives B issuer a l \<longleftrightarrow> rq_method (fst l) = ''GET'' \<and>
     rq_url (fst l) = (if isMainnet B then ''https://horizon.stellar.org/accounts/'' else ''https://horizon-testnet.stellar.org/accounts/'') @ a \<and>
     (\<exists>rp account bs b. snd l = Inr rp \<and> 200 \<le> rp_status rp \<and> rp_status rp < 300 \<and> rp_body rp = Json account \<and>
        jget ''balances'' account = Some (JArr bs) \<and> b \<in> set bs \<and> jget ''asset_issuer'' b = Some (JStr issuer))"

lemma some_issuer_True: "some_issuer issuer bs = Inr True \<Longrightarrow> \<exists>b \<in> set bs. jget ''asset_issuer'' b = Some (JStr issuer)"
  by (induction issuer bs rule: some_issuer.induct) (auto split: if_splits)

lemma holds_issuer_True:
  "holds_issuer issuer account = Inr True \<Longrightarrow>
   \<exists>bs b. jget ''balances'' account = Some (JArr bs) \<and> b \<in> set bs \<and> jget ''asset_issuer'' b = Some (JStr issuer)"
  by (auto simp: holds_issuer_def dest!: some_issuer_True split: option.splits json.splits if_splits)

definition asks :: "'s backend \<Rightarrow> string \<Rightarrow> http_request \<times> (string + http_response) \<Rightarrow> bool" where
  "asks B a l \<longleftrightarrow> fst l = account_request B a"

text \<open>The document an answer shows first.\<close>

definition shows_document :: "string + http_response \<Rightarrow> json \<Rightarrow> bool" where
  "shows_document answer doc \<longleftrightarrow> (\<exists>rp. answer = Inr rp \<and> rp_status rp < 400 \<and>
     (response_data (rp_body rp) = doc \<or> (\<exists>docs. response_data (rp_body rp) = JArr (doc # docs))))"

lemma first_escrow_shown:
  assumes "first_escrow (response_data (rp_body rp)) = Some doc" and "rp_status rp < 400"
  shows "shows_document (Inr rp) doc"
  using assms by (auto simp: shows_document_def first_escrow_def split: json.splits list.splits)

lemma readEscrow_sent:
  assumes "readEscrow B cid w = (r, w')"
  shows "(sent w' = sent w \<and> (\<exists>e. r = Inl e)) \<or>
    (\<exists>rq answer. sent w' = sent w @ [(rq, answer)] \<and> reads_contract cid rq \<and>
       (\<forall>escrow. r = Inr escrow \<longrightarrow> (\<exists>doc. shows_document answer doc \<and> parseEscrow (Some doc) = Some escrow)))"
proof -
  obtain r1 w1 where 1: "relayToTrustless B ''GET'' ''helper/get-escrow-by-contract-ids'' (escrow_query cid) None w = (r1, w1)"
    by (metis prod.collapse)
  show ?thesis
  proof (cases r1)
    case (Inl e)
    then have "r = Inl e" "w' = w1" using assms 1 by (simp_all add: readEscrow_def prog_simps)
    then show ?thesis using relay_run [OF 1] Inl reads_contract_relay by auto
  next
    case (Inr sd)
    then obtain base key rp s where rp: "r1 = Inr (rp_status rp, response_data (rp_body rp))"
      "w1 = w\<lparr>svc := s, sent := sent w @ [(relay_request base key ''GET'' ''helper/get-escrow-by-contract-ids''
          (escrow_query cid) None, Inr rp)]\<rparr>"
      using relay_run [OF 1] by auto
    have "w' = w1 \<and> (\<forall>escrow. r = Inr escrow \<longrightarrow> rp_status rp < 400 \<and>
        parseEscrow (first_escrow (response_data (rp_body rp))) = Some escrow)"
      using assms 1 unfolding rp(1)
      by (auto simp: readEscrow_def prog_simps not_le split: option.splits if_splits)
    moreover have "\<exists>doc. shows_document (Inr rp) doc \<and> parseEscrow (Some doc) = Some escrow"
      if "rp_status rp < 400" "parseEscrow (first_escrow (response_data (rp_body rp))) = Some escrow" for escrow
      using that first_escrow_shown [of rp] by (cases "first_escrow (response_data (rp_body rp))") (auto simp: parseEscrow_def)
    ultimately show ?thesis using rp(2) reads_contract_relay by auto
  qed
qed

lemma readTrustline_sent:
  assumes "readTrustline B a issuer w = (r, w')"
  shows "\<exists>l. sent w' = sent w @ [l] \<and> asks B a l \<and> (r = Inr ''held'' \<longrightarrow> receives B issuer a l)"
  using assms
  by (auto simp: readTrustline_def prog_simps receives_def asks_def account_request_def horizonUrl_def dest!: holds_issuer_True
      split: prod.splits sum.splits if_splits http_body.splits)

text \<open>Concurrent checks: one request for each element, and when all hold, each was answered so.\<close>

lemma promise_all_sent:
  assumes step: "\<And>x w r w'. f x w = (r, w') \<Longrightarrow>
      \<exists>l. sent w' = sent w @ [l] \<and> A x l \<and> (\<forall>y. r = Inr y \<longrightarrow> fst y = x \<and> (good (snd y) \<longrightarrow> R x l))"
    and run: "promise_all f xs w = (r, w')"
  shows "\<exists>ls. sent w' = sent w @ ls \<and> list_all2 A xs ls \<and>
    (\<forall>ys. r = Inr ys \<longrightarrow> (\<forall>y \<in> set ys. good (snd y)) \<longrightarrow> list_all2 R xs ls)"
  using run
proof (induction xs arbitrary: w r w')
  case Nil
  then show ?case by (simp add: prog_simps)
next
  case (Cons x xs)
  obtain r1 v where 1: "f x w = (r1, v)" by (metis prod.collapse)
  obtain r2 u where 2: "promise_all f xs v = (r2, u)" by (metis prod.collapse)
  obtain l where l: "sent v = sent w @ [l]" "A x l" "\<forall>y. r1 = Inr y \<longrightarrow> fst y = x \<and> (good (snd y) \<longrightarrow> R x l)"
    using step [OF 1] by blast
  obtain ls where ls: "sent u = sent v @ ls" "list_all2 A xs ls"
    "\<forall>ys. r2 = Inr ys \<longrightarrow> (\<forall>y \<in> set ys. good (snd y)) \<longrightarrow> list_all2 R xs ls"
    using Cons.IH [OF 2] by blast
  have "w' = u" "r = (case r1 of Inl e \<Rightarrow> Inl e | Inr y \<Rightarrow> (case r2 of Inl e \<Rightarrow> Inl e | Inr ys \<Rightarrow> Inr (y # ys)))"
    using Cons.prems 1 2 by simp_all
  then show ?case
    using l ls by (intro exI [of _ "l # ls"]) (auto split: sum.splits)
qed

lemma recipients_checked:
  assumes "assertRecipientsCanReceive B as asset w = (r, w')"
  shows "\<exists>ls. sent w' = sent w @ ls \<and> list_all2 (asks B) (recipients as) ls \<and>
    (r = Inr () \<longrightarrow> list_all2 (receives B (usdcIssuer B asset)) (recipients as) ls)"
proof (cases "recipients as = []")
  case True
  then show ?thesis using assms by (auto simp: assertRecipientsCanReceive_def prog_simps)
next
  case False
  let ?f = "\<lambda>a. bnd (readTrustline B a (usdcIssuer B asset)) (\<lambda>reason. ret (a, reason))"
  have step: "\<exists>l. sent w' = sent w @ [l] \<and> asks B a l \<and>
      (\<forall>y. r = Inr y \<longrightarrow> fst y = a \<and> (snd y = ''held'' \<longrightarrow> receives B (usdcIssuer B asset) a l))"
    if f: "?f a w = (r, w')" for a w r w'
  proof -
    obtain r1 v where 1: "readTrustline B a (usdcIssuer B asset) w = (r1, v)" by (metis prod.collapse)
    then have "w' = v" "r = (case r1 of Inl e \<Rightarrow> Inl e | Inr reason \<Rightarrow> Inr (a, reason))"
      using f by (auto simp: prog_simps split: sum.splits)
    then show ?thesis using readTrustline_sent [OF 1] by (auto split: sum.splits)
  qed
  obtain r1 w1 where 1: "promise_all ?f (recipients as) w = (r1, w1)" by (cases "promise_all ?f (recipients as) w")
  have "\<exists>ls. sent w1 = sent w @ ls \<and> list_all2 (asks B) (recipients as) ls \<and>
      (\<forall>ys. r1 = Inr ys \<longrightarrow> (\<forall>y \<in> set ys. snd y = ''held'') \<longrightarrow> list_all2 (receives B (usdcIssuer B asset)) (recipients as) ls)"
    by (rule promise_all_sent [where f = ?f, OF step 1])
  then obtain ls where ls: "sent w1 = sent w @ ls" "list_all2 (asks B) (recipients as) ls"
    "\<forall>ys. r1 = Inr ys \<longrightarrow> (\<forall>y \<in> set ys. snd y = ''held'') \<longrightarrow> list_all2 (receives B (usdcIssuer B asset)) (recipients as) ls"
    by (elim exE conjE)
  have "w' = w1 \<and> (r = Inr () \<longrightarrow> (\<exists>ys. r1 = Inr ys \<and> (\<forall>y \<in> set ys. snd y = ''held'')))"
    using assms 1 False
    by (auto simp: assertRecipientsCanReceive_def prog_simps Let_def filter_empty_conv split: sum.splits if_splits)
  then show ?thesis using ls by auto
qed

lemma enqueue_sends_nothing:
  "enqueue B cfg ty p k n w = (r, w') \<Longrightarrow> sent w' = sent w"
  by (auto simp: enqueue_def findByIdempotencyKey_def prog_simps split: prod.splits sum.splits option.splits if_splits)

lemma backstop_sent:
  assumes "writeWithBackstop B cfg ty k rq w = (r, w')"
  shows "sent w' = sent w \<or> (\<exists>q b base. sent w' = sent w @ [(q, b)] \<and> rq_method q = ''POST'' \<and>
    rq_url q = base @ ''/'' @ strip_slashes (rw_path rq) \<and> rq_body q = Some (rw_body rq))"
proof -
  obtain r1 w1 where 1: "relayWrite B (rw_path rq) (rw_body rq) w = (r1, w1)" by (metis prod.collapse)
  have "sent w' = sent w1"
    using assms 1 enqueue_sends_nothing
    by (fastforce simp: writeWithBackstop_def prog_simps split: sum.splits prod.splits if_splits)
  then show ?thesis using relayWrite_sent [OF 1] by auto
qed

lemma backstop_submits:
  assumes "writeWithBackstop B cfg ty k (buildChangeMilestoneStatusRequest dto) w = (r, w')"
  shows "sent w' = sent w \<or> (\<exists>q b. sent w' = sent w @ [(q, b)] \<and>
    submits (cs_contractId dto) (cs_type dto) (cs_milestoneIndex dto) (cs_newEvidence dto) (cs_newStatus dto) (cs_serviceProvider dto) q)"
  using backstop_sent [OF assms]
  by (fastforce simp: submits_def buildChangeMilestoneStatusRequest_def relay_of_def strip_slashes_def)

text \<open>
  What the document of an escrow, as Trustless Work answers it, must say for a request to resolve its
  dispute, stated on the document itself: flags that are objects with the property \<open>true\<close>, the
  milestone at the index the request names, and the amount its percentages are percentages of.
\<close>

definition flagged :: "string \<Rightarrow> json \<Rightarrow> bool" where
  "flagged k v \<longleftrightarrow> (\<exists>fs. jget ''flags'' v = Some (JObj fs) \<and> map_of fs k = Some (JBool True))"

definition named_milestone :: "resolve_escrow_dto \<Rightarrow> json \<Rightarrow> json \<Rightarrow> bool" where
  "named_milestone dto doc m \<longleftrightarrow> (\<exists>s i ms. re_milestoneIndex dto = Some s \<and> str_number s = Fin (of_nat i) \<and>
     jget ''milestones'' doc = Some (JArr ms) \<and> i < length ms \<and> m = ms ! i)"

definition may_be_resolved :: "resolve_escrow_dto \<Rightarrow> json \<Rightarrow> bool" where
  "may_be_resolved dto doc \<longleftrightarrow>
     re_type dto = (if jget ''type'' doc = Some (JStr ''multi-release'') then ''multi-release'' else ''single-release'') \<and>
     (\<forall>rs d. jget ''roles'' doc = Some (JObj rs) \<longrightarrow> map_of rs ''disputeResolver'' = Some (JStr d) \<longrightarrow> trim d \<noteq> [] \<longrightarrow>
        toUpperCase d = toUpperCase (trim (re_disputeResolver dto))) \<and>
     \<not> flagged ''resolved'' doc \<and>
     (if re_type dto = ''single-release'' then flagged ''disputed'' doc
      else \<exists>m. named_milestone dto doc m \<and> \<not> flagged ''released'' m \<and> \<not> flagged ''resolved'' m \<and>
        ((\<exists>fs. jget ''flags'' m = Some (JObj fs)) \<longrightarrow> flagged ''disputed'' m))"

definition divides :: "resolve_escrow_dto \<Rightarrow> json \<Rightarrow> jsnum \<Rightarrow> bool" where
  "divides dto doc v \<longleftrightarrow> (let b = toNumber (jget ''balance'' doc) in
     if re_type dto = ''single-release'' then js_less (Fin 0) b \<and> v = b
     else \<exists>m. named_milestone dto doc m \<and> (let a = toNumber (jget ''amount'' m) in
       js_less (Fin 0) a \<and> v = (if js_less (Fin 0) b \<and> js_less b a then b else a)))"

definition issuer_of :: "'s backend \<Rightarrow> json \<Rightarrow> string" where
  "issuer_of B doc = (case jget ''trustline'' doc of
     Some (JObj t) \<Rightarrow> (case map_of t ''address'' of
       Some (JStr a) \<Rightarrow> if trim a \<noteq> [] then trim a else trustline_address B
     | _ \<Rightarrow> trustline_address B)
   | _ \<Rightarrow> trustline_address B)"

text \<open>The request that resolves it.\<close>

definition resolves :: "resolve_escrow_dto \<Rightarrow> distribution list \<Rightarrow> http_request \<Rightarrow> bool" where
  "resolves dto ds q \<longleftrightarrow> rq_method q = ''POST'' \<and>
     (\<exists>base. rq_url q = base @ (if re_type dto = ''single-release'' then ''/escrow/single-release/resolve-dispute''
        else ''/escrow/multi-release/resolve-milestone-dispute'')) \<and>
     rq_body q = Some (JObj ([(''contractId'', JStr (re_contractId dto))] @
       (if re_type dto = ''single-release'' then [] else [(''milestoneIndex'', JStr (the (re_milestoneIndex dto)))]) @
       [(''disputeResolver'', JStr (re_disputeResolver dto)),
        (''distributions'', JArr (map (\<lambda>d. JObj [(''address'', JStr (ds_address d)), (''amount'', jnum_of (ds_amount d))]) ds))]))"

lemma is_true_flag: "is_true (jget k (record_or_empty (jget ''flags'' v))) \<longleftrightarrow> flagged k v"
  by (auto simp: is_true_def record_or_empty_def isRecord_def flagged_def jget_def [of k] split: option.splits json.splits)

lemma is_index_Some:
  assumes "is_index x n = Some i"
  shows "x = Fin (of_nat i)" "i < n"
proof -
  obtain r where r: "x = Fin r" "of_int \<lfloor>r\<rfloor> = r" "0 \<le> r" "r < of_nat n" "i = nat \<lfloor>r\<rfloor>"
    using assms by (auto simp: is_index_def split: jsnum.splits if_splits)
  have "of_nat i = (of_int (int i) :: rat)" by simp
  also have "int i = \<lfloor>r\<rfloor>" using r(3,5) by simp
  finally have i: "of_nat i = r" using r(2) by simp
  show "x = Fin (of_nat i)" using r(1) i by simp
  have "(of_nat i :: rat) < of_nat n" using r(4) i by simp
  then show "i < n" by (simp only: of_nat_less_iff)
qed

lemma parseMilestones_nth:
  "i < length (parseMilestones raw) \<Longrightarrow> \<exists>ms. raw = Some (JArr ms) \<and> i < length ms \<and> parseMilestones raw ! i = parseMilestone (ms ! i)"
  by (auto simp: parseMilestones_def split: option.splits json.splits)

lemma milestone_document: "record_or_empty (Some m) = m \<or> record_or_empty (Some m) = JObj [] \<and> (\<forall>k. jget k m = None)"
  by (cases m) (simp_all add: record_or_empty_def isRecord_def jget_def)

lemma jget_milestone: "jget k (record_or_empty (Some m)) = jget k m"
  using milestone_document [of m] by (auto simp: jget_def [of k "JObj []"])

lemma parseMilestone_flags:
  "sm_flags (parseMilestone m) = (if \<exists>fs. jget ''flags'' m = Some (JObj fs)
     then Some \<lparr>ef_disputed = flagged ''disputed'' m, ef_released = flagged ''released'' m,
       ef_resolved = flagged ''resolved'' m, ef_approved = flagged ''approved'' m\<rparr>
     else None)"
proof (cases "\<exists>fs. jget ''flags'' m = Some (JObj fs)")
  case True
  then obtain fs where fs: "jget ''flags'' m = Some (JObj fs)" by blast
  then have "isRecord (jget ''flags'' m)" by (simp add: isRecord_def)
  moreover have "is_true (jget k (JObj fs)) = flagged k m" for k
    using fs by (auto simp: flagged_def is_true_def jget_def [of k] split: option.splits json.splits)
  ultimately show ?thesis using fs by (simp add: parseMilestone_def Let_def jget_milestone)
next
  case False
  then have "\<not> isRecord (jget ''flags'' m)" by (auto simp: isRecord_def split: option.splits json.splits)
  then show ?thesis using False by (simp add: parseMilestone_def Let_def jget_milestone)
qed

lemma parseMilestone_amount: "sm_amount (parseMilestone m) = Some a \<Longrightarrow> a = toNumber (jget ''amount'' m)"
  by (auto simp: parseMilestone_def Let_def jget_milestone split: option.splits)

lemma issuer_of_trustline:
  assumes "t = jget ''trustline'' doc"
  shows "usdcIssuer B (if isRecord t
      then Some \<lparr>as_address = optionalString (jget ''address'' (record_or_empty t)), as_symbol = y\<rparr> else None) = issuer_of B doc"
  unfolding issuer_of_def assms [symmetric]
  by (auto simp: usdcIssuer_def record_or_empty_def isRecord_def optionalString_def jget_def split: option.splits json.splits)

lemma parseEscrow_Some:
  assumes "parseEscrow (Some doc) = Some escrow"
  shows "sn_type escrow = (if jget ''type'' doc = Some (JStr ''multi-release'') then ''multi-release'' else ''single-release'')"
    "sn_balance escrow = toNumber (jget ''balance'' doc)" "sn_milestones escrow = parseMilestones (jget ''milestones'' doc)"
    "ef_resolved (sn_flags escrow) = flagged ''resolved'' doc" "ef_disputed (sn_flags escrow) = flagged ''disputed'' doc"
    "ro_disputeResolver (sn_roles escrow) = optionalString (jget ''disputeResolver'' (record_or_empty (jget ''roles'' doc)))"
    "usdcIssuer B (sn_trustline escrow) = issuer_of B doc"
proof -
  obtain kvs where d: "doc = JObj kvs" using assms by (auto simp: parseEscrow_def split: json.splits)
  obtain c where c: "optionalString (jget ''contractId'' doc) = Some c"
    using assms by (cases "optionalString (jget ''contractId'' doc)") (simp_all add: d parseEscrow_def Let_def)
  have e: "escrow = \<lparr>sn_contractId = c,
             sn_type = (if jget ''type'' doc = Some (JStr ''multi-release'') then ''multi-release'' else ''single-release''),
             sn_amount = toNumber (jget ''amount'' doc), sn_balance = toNumber (jget ''balance'' doc),
             sn_roles = parseRoles (record_or_empty (jget ''roles'' doc)),
             sn_flags = \<lparr>ef_disputed = flagged ''disputed'' doc, ef_released = flagged ''released'' doc, ef_resolved = flagged ''resolved'' doc\<rparr>,
             sn_milestones = parseMilestones (jget ''milestones'' doc),
             sn_trustline = (if isRecord (jget ''trustline'' doc)
               then Some \<lparr>as_address = optionalString (jget ''address'' (record_or_empty (jget ''trustline'' doc))),
                 as_symbol = optionalString (jget ''symbol'' (record_or_empty (jget ''trustline'' doc)))\<rparr> else None)\<rparr>"
    using assms c unfolding d parseEscrow_def Let_def option.case json.case is_true_flag by (simp only: option.case option.inject)
  show "sn_type escrow = (if jget ''type'' doc = Some (JStr ''multi-release'') then ''multi-release'' else ''single-release'')"
    "sn_balance escrow = toNumber (jget ''balance'' doc)" "sn_milestones escrow = parseMilestones (jget ''milestones'' doc)"
    "ef_resolved (sn_flags escrow) = flagged ''resolved'' doc" "ef_disputed (sn_flags escrow) = flagged ''disputed'' doc"
    "ro_disputeResolver (sn_roles escrow) = optionalString (jget ''disputeResolver'' (record_or_empty (jget ''roles'' doc)))"
    by (simp_all add: e parseRoles_def)
  show "usdcIssuer B (sn_trustline escrow) = issuer_of B doc"
    unfolding e escrow_snapshot.simps by (rule issuer_of_trustline [OF refl])
qed

lemma resolver_named:
  assumes "jget ''roles'' doc = Some (JObj rs)" and "map_of rs ''disputeResolver'' = Some (JStr d)" and "trim d \<noteq> []"
  shows "optionalString (jget ''disputeResolver'' (record_or_empty (jget ''roles'' doc))) = Some d"
  using assms by (simp add: optionalString_def record_or_empty_def isRecord_def jget_def [of "''disputeResolver''"])

lemma toNumber_positive: "\<not> js_le (toNumber v) (Fin 0) \<longleftrightarrow> js_less (Fin 0) (toNumber v)"
proof -
  have "is_finite (toNumber v)"
    by (auto simp: toNumber_def finite_or_zero_def is_finite_def split: option.splits json.splits)
  then show ?thesis by (cases "toNumber v") (auto simp: is_finite_def js_le_def)
qed

text \<open>A resolution that passes the checks is of a document that may be resolved, and divides what it holds.\<close>

lemma resolution_checked:
  assumes doc: "parseEscrow (Some doc) = Some escrow" and ok: "assertResolvable escrow dto = None"
    and total: "resolutionTotal escrow (re_type dto) (re_milestoneIndex dto) = Inr v"
  shows "may_be_resolved dto doc \<and> divides dto doc v"
proof -
  note e = parseEscrow_Some [OF doc]
  have common: "re_type dto = (if jget ''type'' doc = Some (JStr ''multi-release'') then ''multi-release'' else ''single-release'')"
    "\<not> flagged ''resolved'' doc"
    using ok e(1,4) by (auto simp: assertResolvable_def Let_def split: if_splits)
  have resolver: "toUpperCase d = toUpperCase (trim (re_disputeResolver dto))"
    if "jget ''roles'' doc = Some (JObj rs)" "map_of rs ''disputeResolver'' = Some (JStr d)" "trim d \<noteq> []" for rs d
  proof -
    have "d \<noteq> []" using that(3) by (auto simp: trim_def)
    then show ?thesis using ok e(6) resolver_named [OF that] by (auto simp: assertResolvable_def Let_def split: if_splits)
  qed
  show ?thesis
  proof (cases "re_type dto = ''single-release''")
    case True
    then have "flagged ''disputed'' doc" using ok e(5) by (auto simp: assertResolvable_def Let_def split: if_splits)
    moreover have "js_less (Fin 0) (sn_balance escrow)" "v = sn_balance escrow"
      using total True unfolding resolutionTotal_def e(2) by (auto simp: toNumber_positive split: if_splits)
    ultimately show ?thesis using common resolver True e(2) by (auto simp: may_be_resolved_def divides_def Let_def)
  next
    case False
    obtain i a where i: "is_index (num_of_opt (re_milestoneIndex dto)) (length (sn_milestones escrow)) = Some i"
      "sm_amount (sn_milestones escrow ! i) = Some a" "\<not> js_le a (Fin 0)"
      "v = js_min a (if js_less (Fin 0) (sn_balance escrow) then sn_balance escrow else a)"
      using total False by (auto simp: resolutionTotal_def split: option.splits if_splits)
    note idx = is_index_Some [OF i(1)]
    obtain t where t: "re_milestoneIndex dto = Some t" "str_number t = Fin (of_nat i)"
      using idx(1) by (auto simp: num_of_opt_def split: option.splits)
    obtain ms where ms: "jget ''milestones'' doc = Some (JArr ms)" "i < length ms" "sn_milestones escrow ! i = parseMilestone (ms ! i)"
      using parseMilestones_nth idx(2) unfolding e(3) by blast
    have named: "named_milestone dto doc (ms ! i)" using t ms by (auto simp: named_milestone_def)
    have flags: "\<not> flagged ''released'' (ms ! i) \<and> \<not> flagged ''resolved'' (ms ! i) \<and>
        ((\<exists>fs. jget ''flags'' (ms ! i) = Some (JObj fs)) \<longrightarrow> flagged ''disputed'' (ms ! i))"
      using ok i(1) False ms(3)
      by (auto simp: assertResolvable_def Let_def parseMilestone_flags split: if_splits) (auto simp: flagged_def)
    have a: "a = toNumber (jget ''amount'' (ms ! i))" using i(2) ms(3) parseMilestone_amount by metis
    have fin: "toNumber x \<noteq> NaN" for x
      by (auto simp: toNumber_def finite_or_zero_def is_finite_def split: option.splits json.splits)
    have "js_less (Fin 0) a \<and> v = (if js_less (Fin 0) (sn_balance escrow) \<and> js_less (sn_balance escrow) a then sn_balance escrow else a)"
      using i(3,4) unfolding a toNumber_positive e(2) by (auto simp: js_min_def fin)
    then show ?thesis using common resolver named flags False e(2) a
      by (auto simp: may_be_resolved_def divides_def Let_def)
  qed
qed

lemma asks_get: "list_all2 (asks B) xs ls \<Longrightarrow> (q, a) \<in> set ls \<Longrightarrow> rq_method q = ''GET''"
  by (auto simp: list_all2_conv_all_nth asks_def account_request_def in_set_conv_nth)

text \<open>The recipients' check and the write after it.\<close>

lemma checked_write_sent:
  assumes "bnd (assertRecipientsCanReceive B as asset) (\<lambda>_. writeWithBackstop B cfg ty k rq) w = (r, w')"
  shows "\<exists>ls. list_all2 (asks B) (recipients as) ls \<and> (sent w' = sent w @ ls \<or>
    (\<exists>q b base. sent w' = sent w @ ls @ [(q, b)] \<and> list_all2 (receives B (usdcIssuer B asset)) (recipients as) ls \<and>
       rq_method q = ''POST'' \<and> rq_url q = base @ ''/'' @ strip_slashes (rw_path rq) \<and> rq_body q = Some (rw_body rq)))"
proof -
  obtain r2 w2 where 2: "assertRecipientsCanReceive B as asset w = (r2, w2)" by (metis prod.collapse)
  obtain ls where ls: "sent w2 = sent w @ ls" "list_all2 (asks B) (recipients as) ls"
    "r2 = Inr () \<longrightarrow> list_all2 (receives B (usdcIssuer B asset)) (recipients as) ls"
    using recipients_checked [OF 2] by blast
  show ?thesis
  proof (cases r2)
    case (Inl x)
    then have "w' = w2" using assms 2 by (simp add: prog_simps)
    then show ?thesis using ls by auto
  next
    case (Inr u)
    then have "writeWithBackstop B cfg ty k rq w2 = (r, w')" using assms 2 by (simp add: prog_simps)
    from backstop_sent [OF this] show ?thesis using ls Inr by fastforce
  qed
qed

text \<open>The addresses paid are trimmed addresses of the allocations, and each has been asked for.\<close>

lemma check_each_address: "check_each as = None \<Longrightarrow> x \<in> set as \<Longrightarrow> trim (al_address x) \<noteq> []"
  by (induction as rule: check_each.induct) (auto split: if_splits)

lemma paid_allocations:
  assumes "buildDistributions ty v as = Inr ds" and "d \<in> set ds"
  shows "ds_address d \<in> trim ` al_address ` set as \<and> ds_address d \<noteq> []"
proof -
  have as: "assertAllocations as = None" and ds: "\<exists>ks. ds = to_distributions as ks"
    using assms(1) by (auto simp: buildDistributions_def Let_def split: option.splits sum.splits if_splits)
  have "trim (al_address x) \<noteq> []" if "x \<in> set as" for x
    using as that check_each_address by (auto simp: assertAllocations_None_iff)
  then show ?thesis using ds assms(2) by (fastforce simp: to_distributions_def dest: set_zip_leftD)
qed

lemma recipients_shown:
  assumes "list_all2 (receives B issuer) (recipients (map ds_address ds)) ls"
    and "d \<in> set ds" and "ds_address d \<in> trim ` X \<and> ds_address d \<noteq> []"
  shows "\<exists>l \<in> set ls. receives B issuer (ds_address d) l"
proof -
  have "trim (ds_address d) = ds_address d" using assms(3) by (auto simp: trim_idem)
  then have "ds_address d \<in> set (recipients (map ds_address ds))"
    using assms(2,3) by (force simp: recipients_def)
  then obtain i where "i < length ls" "recipients (map ds_address ds) ! i = ds_address d" "receives B issuer (ds_address d) (ls ! i)"
    using assms(1) by (auto simp: list_all2_conv_all_nth in_set_conv_nth)
  then show ?thesis using nth_mem by blast
qed

lemma request_resolves:
  assumes "rq_method q = ''POST''" and "rq_url q = base @ ''/'' @ strip_slashes (rw_path (buildResolveDisputeRequest dto ds))"
    and "rq_body q = Some (rw_body (buildResolveDisputeRequest dto ds))"
    and "re_type dto \<noteq> ''single-release'' \<Longrightarrow> \<exists>s. re_milestoneIndex dto = Some s"
  shows "resolves dto ds q"
  using assms
  by (auto simp: resolves_def buildResolveDisputeRequest_def relay_of_def strip_slashes_def distributions_json_def jopt_def split: if_splits)

lemma splitByPercentage_Inr:
  "splitByPercentage dto escrow = Inr ds \<longleftrightarrow> (\<exists>amount. resolutionTotal escrow (re_type dto) (re_milestoneIndex dto) = Inr amount \<and>
     buildDistributions (re_type dto) amount (re_allocations dto) = Inr ds)"
  by (auto simp: splitByPercentage_def split: sum.splits)

lemma resolutionTotal_bound:
  assumes "resolutionTotal escrow ty mi = Inr (Fin v)" and "sn_balance escrow = Fin b"
  shows "if ty = ''single-release'' then v = b else
    (\<exists>s i a. mi = Some s \<and> str_number s = Fin (of_nat i) \<and> i < length (sn_milestones escrow) \<and>
       sm_amount (sn_milestones escrow ! i) = Some a \<and>
       (if 0 < b then v \<le> b \<and> js_le (Fin v) a \<and> (Fin v = a \<or> v = b) else Fin v = a))"
proof (cases "ty = ''single-release''")
  case True
  then show ?thesis using assms by (auto simp: resolutionTotal_def split: if_splits)
next
  case False
  then obtain i a where i: "is_index (num_of_opt mi) (length (sn_milestones escrow)) = Some i"
    "sm_amount (sn_milestones escrow ! i) = Some a"
    "Fin v = js_min a (if 0 < b then Fin b else a)"
    using assms by (auto simp: resolutionTotal_def split: option.splits if_splits)
  obtain t where t: "mi = Some t" "str_number t = Fin (of_nat i)"
    using is_index_Some(1) [OF i(1)] by (auto simp: num_of_opt_def split: option.splits)
  have "if 0 < b then v \<le> b \<and> js_le (Fin v) a \<and> (Fin v = a \<or> v = b) else Fin v = a"
    using i(3) by (cases a) (auto simp: js_min_def js_le_def split: if_splits)
  then show ?thesis using t is_index_Some(2) [OF i(1)] i(2) False by auto
qed

lemma payload_path: "jget ''path'' (relay_payload rq) = Some (JStr (rw_path rq))" "jget ''body'' (relay_payload rq) = Some (rw_body rq)"
  by (simp_all add: relay_payload_def jget_def)

lemma replay_payload: "replay B (relay_payload rq) n = relayWrite B (rw_path rq) (rw_body rq)"
  by (simp add: replay_def payload_path)

definition transient :: "exn \<Rightarrow> bool" where
  "transient e \<longleftrightarrow> (\<forall>s d. e = UpstreamError s d \<longrightarrow> 500 \<le> s)"

text \<open>What is on the queue after a write has failed for a transient reason.\<close>

definition backed_up :: "string \<Rightarrow> string \<Rightarrow> relay_write \<Rightarrow> retry_job list \<Rightarrow> retry_job list \<Rightarrow> bool" where
  "backed_up ty key rq js js' \<longleftrightarrow>
     (if \<exists>j \<in> set js. rj_key j = key then js' = js
      else \<exists>j. js' = js @ [j] \<and> rj_key j = key \<and> rj_type j = ty \<and>
        rj_payload j = JObj [(''path'', JStr (rw_path rq)), (''body'', rw_body rq)] \<and>
        rj_status j = ''pending'' \<and> rj_attempts j = 0)"

context database
begin

lemma wp_backup:
  assumes "\<And>m w'. st (svc w') = st (svc w) \<Longrightarrow> Q (Inl (PlainError m)) w'"
    and "\<And>w'. st (svc w') = st (svc w)\<lparr>t_jobs := t_jobs (st (svc w'))\<rparr> \<Longrightarrow>
      backed_up ty key rq (t_jobs (st (svc w))) (t_jobs (st (svc w'))) \<Longrightarrow> Q (Inl e) w'"
  shows "wp (bnd (enqueue B cfg ty (relay_payload rq) key None) (\<lambda>_. throw e)) Q w"
proof (unfold wp_bnd, rule wp_enqueue, goal_cases)
  case (1 x w')
  then show ?case using assms(1) by simp
next
  case (2 j w')
  then show ?case using filter_hdD [OF 2(2)] by (auto simp: wp_throw backed_up_def intro!: assms(2))
next
  case (3 i t t' w')
  have "\<not> (\<exists>j \<in> set (t_jobs (st (svc w))). rj_key j = key)"
    using valid_jobs_key [of "t_jobs (st (svc w))"] 3(2) unfolding 3(1) by (fastforce simp: gen_job_def new_job_def)
  then show ?case using 3(1) by (auto simp: wp_throw backed_up_def gen_job_def new_job_def relay_payload_def intro!: assms(2))
qed

lemma wp_relayWrite:
  assumes "\<And>r w'. st (svc w') = st (svc w) \<Longrightarrow> Q r w'"
  shows "wp (relayWrite B path body) Q w"
  unfolding relayWrite_def relayToTrustless_def lift_exn_def
  by (auto simp: wp_simps intro!: wp_fetch assms split: sum.split)

end

section \<open>The document of an escrow\<close>

text \<open>The document Trustless Work answers for an escrow, in the shape \<open>parseEscrow\<close> reads.\<close>

definition jstr_opt :: "string option \<Rightarrow> json option" where
  "jstr_opt v = map_option JStr v"

definition milestone_json :: "milestone_snapshot \<Rightarrow> json" where
  "milestone_json m = JObj (jopt ''description'' (jstr_opt (sm_description m)) @ jopt ''status'' (jstr_opt (sm_status m)) @
     jopt ''amount'' (map_option jnum_of (sm_amount m)) @ jopt ''flags'' (map_option (\<lambda>fs. JObj
       [(''disputed'', JBool (ef_disputed fs)), (''released'', JBool (ef_released fs)),
        (''resolved'', JBool (ef_resolved fs)), (''approved'', JBool (ef_approved fs))]) (sm_flags m)) @
     [(''approved'', JBool (sm_approved m))])"

definition roles_json :: "escrow_roles \<Rightarrow> json" where
  "roles_json r = JObj (jopt ''approver'' (jstr_opt (ro_approver r)) @ jopt ''serviceProvider'' (jstr_opt (ro_serviceProvider r)) @
     jopt ''releaseSigner'' (jstr_opt (ro_releaseSigner r)) @ jopt ''disputeResolver'' (jstr_opt (ro_disputeResolver r)) @
     jopt ''receiver'' (jstr_opt (ro_receiver r)) @ jopt ''platformAddress'' (jstr_opt (ro_platformAddress r)))"

definition asset_json :: "escrow_asset \<Rightarrow> json" where
  "asset_json a = JObj (jopt ''address'' (jstr_opt (as_address a)) @ jopt ''symbol'' (jstr_opt (as_symbol a)))"

definition escrow_json :: "escrow_snapshot \<Rightarrow> json" where
  "escrow_json e = JObj ([(''contractId'', JStr (sn_contractId e)), (''type'', JStr (sn_type e)),
     (''amount'', jnum_of (sn_amount e)), (''balance'', jnum_of (sn_balance e)), (''roles'', roles_json (sn_roles e)),
     (''flags'', JObj [(''disputed'', JBool (ef_disputed (sn_flags e))), (''released'', JBool (ef_released (sn_flags e))),
       (''resolved'', JBool (ef_resolved (sn_flags e)))]),
     (''milestones'', JArr (map milestone_json (sn_milestones e)))] @
     jopt ''trustline'' (map_option asset_json (sn_trustline e)))"

text \<open>Texts are not blank, amounts finite, the type one of the two, and an approved flag is an approval.\<close>

definition solid :: "string option \<Rightarrow> bool" where
  "solid v \<longleftrightarrow> (\<forall>s. v = Some s \<longrightarrow> trim s \<noteq> [])"

definition solid_milestone :: "milestone_snapshot \<Rightarrow> bool" where
  "solid_milestone m \<longleftrightarrow> solid (sm_description m) \<and> solid (sm_status m) \<and> (\<forall>a. sm_amount m = Some a \<longrightarrow> is_finite a) \<and>
     (\<forall>fs. sm_flags m = Some fs \<longrightarrow> ef_approved fs \<longrightarrow> sm_approved m)"

definition solid_roles :: "escrow_roles \<Rightarrow> bool" where
  "solid_roles r \<longleftrightarrow> solid (ro_approver r) \<and> solid (ro_serviceProvider r) \<and> solid (ro_releaseSigner r) \<and>
     solid (ro_disputeResolver r) \<and> solid (ro_receiver r) \<and> solid (ro_platformAddress r)"

definition solid_escrow :: "escrow_snapshot \<Rightarrow> bool" where
  "solid_escrow e \<longleftrightarrow> trim (sn_contractId e) \<noteq> [] \<and> (sn_type e = ''single-release'' \<or> sn_type e = ''multi-release'') \<and>
     is_finite (sn_amount e) \<and> is_finite (sn_balance e) \<and> solid_roles (sn_roles e) \<and>
     (\<forall>m \<in> set (sn_milestones e). solid_milestone m) \<and>
     (\<forall>a. sn_trustline e = Some a \<longrightarrow> solid (as_address a) \<and> solid (as_symbol a))"

lemma map_of_jopt: "map_of (jopt k v) k' = (if k = k' then v else None)"
  by (simp add: jopt_def split: option.split)

lemma case_option_eta: "(case v of None \<Rightarrow> None | Some x \<Rightarrow> Some x) = v"
  by (simp split: option.split)

lemma solid_read: "solid v \<Longrightarrow> optionalString (jstr_opt v) = v"
  by (cases v) (auto simp: solid_def optionalString_def jstr_opt_def)

lemmas read_back = jget_def map_add_def map_of_jopt case_option_eta solid_read

lemma toNumber_jnum: "is_finite a \<Longrightarrow> toNumber (Some (jnum_of a)) = a"
  by (auto simp: toNumber_def jnum_of_def)

lemma parse_roles_json: "solid_roles r \<Longrightarrow> parseRoles (roles_json r) = r"
  by (simp add: parseRoles_def roles_json_def read_back solid_roles_def cong: option.case_cong)

lemma parse_milestone_json:
  assumes "solid_milestone m"
  shows "parseMilestone (milestone_json m) = m"
proof -
  have r: "isRecord (Some (milestone_json m))" by (simp add: isRecord_def milestone_json_def)
  show ?thesis
    using assms unfolding parseMilestone_def record_or_empty_def if_P [OF r] default_simps Let_def
    by (cases m; cases "sm_amount m"; cases "sm_flags m")
      (auto simp: milestone_json_def read_back solid_milestone_def isRecord_def is_true_def toNumber_jnum cong: option.case_cong)
qed

lemma parse_asset_json:
  "solid (as_address a) \<Longrightarrow> solid (as_symbol a) \<Longrightarrow>
   \<lparr>as_address = optionalString (jget ''address'' (asset_json a)), as_symbol = optionalString (jget ''symbol'' (asset_json a))\<rparr> = a"
  by (simp add: asset_json_def read_back cong: option.case_cong)

lemma records [simp]: "record_or_empty (Some (JObj kvs)) = JObj kvs" "record_or_empty (Some (roles_json r)) = roles_json r"
  "record_or_empty (Some (asset_json a)) = asset_json a" "isRecord (Some (asset_json a))"
  by (simp_all add: record_or_empty_def isRecord_def roles_json_def asset_json_def)

lemma escrow_fields:
  "jget ''contractId'' (escrow_json e) = Some (JStr (sn_contractId e))" "jget ''type'' (escrow_json e) = Some (JStr (sn_type e))"
  "jget ''amount'' (escrow_json e) = Some (jnum_of (sn_amount e))" "jget ''balance'' (escrow_json e) = Some (jnum_of (sn_balance e))"
  "jget ''roles'' (escrow_json e) = Some (roles_json (sn_roles e))"
  "jget ''flags'' (escrow_json e) = Some (JObj [(''disputed'', JBool (ef_disputed (sn_flags e))),
     (''released'', JBool (ef_released (sn_flags e))), (''resolved'', JBool (ef_resolved (sn_flags e)))])"
  "jget ''milestones'' (escrow_json e) = Some (JArr (map milestone_json (sn_milestones e)))"
  "jget ''trustline'' (escrow_json e) = map_option asset_json (sn_trustline e)"
  unfolding escrow_json_def jget_def by (simp_all add: map_add_def map_of_jopt case_option_eta)

lemma parseEscrow_json:
  "parseEscrow (Some (escrow_json e)) = (case optionalString (Some (JStr (sn_contractId e))) of None \<Rightarrow> None | Some c \<Rightarrow> Some
     \<lparr>sn_contractId = c, sn_type = (if sn_type e = ''multi-release'' then ''multi-release'' else ''single-release''),
      sn_amount = toNumber (Some (jnum_of (sn_amount e))), sn_balance = toNumber (Some (jnum_of (sn_balance e))),
      sn_roles = parseRoles (roles_json (sn_roles e)), sn_flags = sn_flags e,
      sn_milestones = map (\<lambda>x. parseMilestone (milestone_json x)) (sn_milestones e),
      sn_trustline = map_option (\<lambda>a. \<lparr>as_address = optionalString (jget ''address'' (asset_json a)),
        as_symbol = optionalString (jget ''symbol'' (asset_json a))\<rparr>) (sn_trustline e)\<rparr>)"
proof -
  obtain kvs where kvs: "escrow_json e = JObj kvs" by (simp add: escrow_json_def)
  have fl: "\<lparr>ef_disputed = is_true (jget ''disputed'' f), ef_released = is_true (jget ''released'' f), ef_resolved = is_true (jget ''resolved'' f)\<rparr> = sn_flags e"
    if "f = JObj [(''disputed'', JBool (ef_disputed (sn_flags e))), (''released'', JBool (ef_released (sn_flags e))), (''resolved'', JBool (ef_resolved (sn_flags e)))]" for f
    unfolding that by (simp add: jget_def is_true_def)
  have tl: "(if isRecord (map_option asset_json v)
      then Some \<lparr>as_address = optionalString (jget ''address'' (record_or_empty (map_option asset_json v))),
        as_symbol = optionalString (jget ''symbol'' (record_or_empty (map_option asset_json v)))\<rparr> else None) =
    map_option (\<lambda>a. \<lparr>as_address = optionalString (jget ''address'' (asset_json a)), as_symbol = optionalString (jget ''symbol'' (asset_json a))\<rparr>) v" for v
    by (cases v) (simp_all add: isRecord_def [of None])
  show ?thesis
    unfolding kvs parseEscrow_def option.case json.case Let_def
    unfolding kvs [symmetric] escrow_fields tl records fl [OF refl] parseMilestones_def
    by (simp add: o_def cong: option.case_cong)
qed

section \<open>Properties\<close>

text \<open>
  (C3) A dispute resolution reaches Trustless Work only after everything that can refuse it: whatever
  the environment, the network and the database answer, the request ends having sent nothing but
  reads, or having sent in this order a read of the request's contract, one read per recipient, and one \<open>POST\<close> to resolve it.
  The document the first read showed is of the request's type and unresolved, names no other wallet as its resolver, and is
  in dispute when it is single-release; otherwise the milestone the request names is in it, neither released nor
  resolved, and in dispute when it carries flags. What the percentages divide is its balance, or that milestone's amount
  (capped by a positive balance). Every address paid is one the request allocates to, and was shown by a
  read to hold the document's asset; the \<open>POST\<close> carries the request's contract, milestone and resolver with these distributions.
\<close>

theorem resolution_guarded:
  assumes "post_resolve_dispute B cfg dto w = (r, w')"
  shows "(\<exists>gs. sent w' = sent w @ gs \<and> (\<forall>(q, a) \<in> set gs. rq_method q = ''GET'')) \<or>
    (\<exists>g a doc v ds ls q b. sent w' = sent w @ (g, a) # ls @ [(q, b)] \<and> (\<forall>(q, a) \<in> set ls. rq_method q = ''GET'') \<and>
       reads_contract (re_contractId dto) g \<and> shows_document a doc \<and> may_be_resolved dto doc \<and> divides dto doc v \<and>
       buildDistributions (re_type dto) v (re_allocations dto) = Inr ds \<and>
       (\<forall>d \<in> set ds. ds_address d \<in> trim ` al_address ` set (re_allocations dto) \<and>
          (\<exists>l \<in> set ls. receives B (issuer_of B doc) (ds_address d) l)) \<and>
       resolves dto ds q)"
proof -
  obtain r1 w1 where 1: "readEscrow B (re_contractId dto) w = (r1, w1)" by (metis prod.collapse)
  note read = readEscrow_sent [OF 1]
  show ?thesis
  proof (cases "\<exists>escrow ds. r1 = Inr escrow \<and> assertResolvable escrow dto = None \<and> splitByPercentage dto escrow = Inr ds")
    case False
    then have "w' = w1"
      using assms 1 by (auto simp: post_resolve_dispute_def prog_simps split: sum.splits option.splits)
    then show ?thesis using read by (auto simp: reads_contract_def)
  next
    case True
    then obtain escrow ds where e: "r1 = Inr escrow" "assertResolvable escrow dto = None" "splitByPercentage dto escrow = Inr ds"
      by blast
    obtain g a doc where g: "sent w1 = sent w @ [(g, a)]" "reads_contract (re_contractId dto) g" "shows_document a doc"
      "parseEscrow (Some doc) = Some escrow"
      using read e(1) by auto
    obtain v where v: "resolutionTotal escrow (re_type dto) (re_milestoneIndex dto) = Inr v"
      "buildDistributions (re_type dto) v (re_allocations dto) = Inr ds"
      using e(3) by (auto simp: splitByPercentage_Inr)
    note checked = resolution_checked [OF g(4) e(2) v(1)]
    obtain k where "bnd (assertRecipientsCanReceive B (map ds_address ds) (sn_trustline escrow))
        (\<lambda>_. writeWithBackstop B cfg ''payment_execution'' k (buildResolveDisputeRequest dto ds)) w1 = (r, w')"
      using assms 1 e by (simp add: post_resolve_dispute_def bnd_run [of "readEscrow B c" for c] bnd_ret_left
          lift_exn_def)
    from checked_write_sent [OF this, unfolded parseEscrow_Some(7) [OF g(4)]]
    obtain ls where ls: "list_all2 (asks B) (recipients (map ds_address ds)) ls"
      "sent w' = sent w1 @ ls \<or> (\<exists>q b base. sent w' = sent w1 @ ls @ [(q, b)] \<and>
         list_all2 (receives B (issuer_of B doc)) (recipients (map ds_address ds)) ls \<and> rq_method q = ''POST'' \<and>
         rq_url q = base @ ''/'' @ strip_slashes (rw_path (buildResolveDisputeRequest dto ds)) \<and>
         rq_body q = Some (rw_body (buildResolveDisputeRequest dto ds)))"
      by blast
    from ls(2) show ?thesis
    proof
      assume "sent w' = sent w1 @ ls"
      then show ?thesis using g(1,2) asks_get [OF ls(1)] by (auto simp: reads_contract_def)
    next
      assume "\<exists>q b base. sent w' = sent w1 @ ls @ [(q, b)] \<and>
         list_all2 (receives B (issuer_of B doc)) (recipients (map ds_address ds)) ls \<and> rq_method q = ''POST'' \<and>
         rq_url q = base @ ''/'' @ strip_slashes (rw_path (buildResolveDisputeRequest dto ds)) \<and>
         rq_body q = Some (rw_body (buildResolveDisputeRequest dto ds))"
      then obtain q b base where q: "sent w' = sent w @ (g, a) # ls @ [(q, b)]"
        "list_all2 (receives B (issuer_of B doc)) (recipients (map ds_address ds)) ls" "rq_method q = ''POST''"
        "rq_url q = base @ ''/'' @ strip_slashes (rw_path (buildResolveDisputeRequest dto ds))"
        "rq_body q = Some (rw_body (buildResolveDisputeRequest dto ds))"
        using g(1) by auto
      have "\<exists>s. re_milestoneIndex dto = Some s" if "re_type dto \<noteq> ''single-release''"
        using checked that by (auto simp: may_be_resolved_def named_milestone_def)
      then have "resolves dto ds q" by (rule request_resolves [OF q(3-5)])
      moreover have "\<forall>d \<in> set ds. ds_address d \<in> trim ` al_address ` set (re_allocations dto) \<and>
          (\<exists>l \<in> set ls. receives B (issuer_of B doc) (ds_address d) l)"
        using recipients_shown [OF q(2)] paid_allocations [OF v(2)] by blast
      moreover have "\<forall>(q, a) \<in> set ls. rq_method q = ''GET''" using asks_get [OF ls(1)] by blast
      ultimately show ?thesis using q(1) g(2,3) checked v(2) by blast
    qed
  qed
qed

text \<open>
  (C11) Evidence is submitted only for a funded contract. The push of a milestone update, the job that repeats it and
  the deprecated endpoint for it, whatever the environment, the network and the database answer, send nothing, or one read of
  the contract of the request, or that read answered with this contract and a positive balance and then one \<open>POST\<close>, which
  submits the evidence, status and provider of the request for the milestone and contract of the request. The generic relay
  endpoints and the replay of a backed-up \<open>POST\<close> do not ask again and are not meant here.
\<close>

theorem evidence_needs_funds:
  shows "(mp_action p \<noteq> ''approve'' \<longrightarrow> pushMilestoneToTW B p w = (r1, w1) \<longrightarrow>
      sent_if_funded (mp_contractId p) (pushes_evidence p) w w1) \<and>
    (mp_action p \<noteq> ''approve'' \<longrightarrow> handleMilestoneUpdateJob B p w = (r2, w2) \<longrightarrow>
      sent_if_funded (mp_contractId p) (pushes_evidence p) w w2) \<and>
    (post_change_milestone_status B cfg dto w = (r3, w3) \<longrightarrow>
      sent_if_funded (cs_contractId dto) (submits (cs_contractId dto) (cs_type dto) (cs_milestoneIndex dto)
        (cs_newEvidence dto) (cs_newStatus dto) (cs_serviceProvider dto)) w w3)"
proof (intro conjI impI)
  show "sent_if_funded (mp_contractId p) (pushes_evidence p) w w1"
    if "mp_action p \<noteq> ''approve''" "pushMilestoneToTW B p w = (r1, w1)"
    by (rule push_evidence_sent [OF that])
  show "sent_if_funded (mp_contractId p) (pushes_evidence p) w w2"
    if "mp_action p \<noteq> ''approve''" "handleMilestoneUpdateJob B p w = (r2, w2)"
    by (rule job_evidence_sent [OF that])
  show "sent_if_funded (cs_contractId dto) (submits (cs_contractId dto) (cs_type dto) (cs_milestoneIndex dto)
        (cs_newEvidence dto) (cs_newStatus dto) (cs_serviceProvider dto)) w w3"
    if "post_change_milestone_status B cfg dto w = (r3, w3)"
    by (rule funded_write_sent [OF that [unfolded post_change_milestone_status_def]]) (rule backstop_submits)
qed

text \<open>
  (C4) The amounts sent stay within the escrow: a single-release resolution splits its whole balance. A
  multi-release one splits the amount of the milestone the request names, or, while the contract holds anything, the
  smaller of that amount and the balance; when it holds nothing the limit is the milestone's amount alone
  (\<open>empty_contract_divided\<close>). With a total from one stroop to a hundred million and at most a thousand
  recipients, the amounts are positive stroops that add up to the total exactly, to different addresses.
\<close>

theorem resolution_within_escrow:
  assumes "splitByPercentage dto escrow = Inr ds" and "sn_balance escrow = Fin b"
    and "resolutionTotal escrow (re_type dto) (re_milestoneIndex dto) = Inr (Fin v)"
    and "length (re_allocations dto) \<le> 1000" and "1 / 10 ^ 7 \<le> v" and "v \<le> 10 ^ 8"
  shows "(\<exists>ks T. map (\<lambda>d. toStroops (ds_amount d) ''amount'') ds = map (\<lambda>k. Inr (Fin (of_int k))) ks \<and>
      (\<forall>k \<in> set ks. 0 < k) \<and> sum_list ks = T \<and> \<bar>of_int T - v * 10 ^ 7\<bar> \<le> 5 / 8) \<and>
    distinct (map ds_address ds) \<and>
    (if re_type dto = ''single-release'' then v = b else
      (\<exists>s i a. re_milestoneIndex dto = Some s \<and> str_number s = Fin (of_nat i) \<and> i < length (sn_milestones escrow) \<and>
         sm_amount (sn_milestones escrow ! i) = Some a \<and>
         (if 0 < b then v \<le> b \<and> js_le (Fin v) a \<and> (Fin v = a \<or> v = b) else Fin v = a)))"
proof -
  have ds: "buildDistributions (re_type dto) (Fin v) (re_allocations dto) = Inr ds"
    using assms(1,3) by (simp add: splitByPercentage_Inr)
  then have "assertAllocations (re_allocations dto) = None" by (auto simp: buildDistributions_def split: option.splits)
  note pay = distributions_pay [OF this assms(4-6), of "re_type dto"]
  show ?thesis
    by (intro conjI resolutionTotal_bound [OF assms(3,2)]) (use pay ds in auto)
qed


text \<open>
  (C39) Reading an escrow loses nothing: the document of any escrow with finite amounts and no blank texts is
  parsed back to exactly that escrow, roles, flags, milestones and asset included.
\<close>

theorem escrow_roundtrip:
  assumes "solid_escrow e"
  shows "parseEscrow (Some (escrow_json e)) = Some e"
proof -
  have ms: "map (\<lambda>x. parseMilestone (milestone_json x)) (sn_milestones e) = sn_milestones e"
    using assms by (intro map_idI) (simp add: solid_escrow_def parse_milestone_json)
  have tl: "map_option (\<lambda>a. \<lparr>as_address = optionalString (jget ''address'' (asset_json a)), as_symbol = optionalString (jget ''symbol'' (asset_json a))\<rparr>)
      (sn_trustline e) = sn_trustline e"
    using assms by (cases "sn_trustline e") (simp_all add: solid_escrow_def parse_asset_json)
  show ?thesis
    using assms unfolding parseEscrow_json ms tl
    by (cases e) (auto simp: solid_escrow_def toNumber_jnum parse_roles_json optionalString_def)
qed

section \<open>Concrete requests\<close>

definition sample_resolution :: resolve_escrow_dto where
  "sample_resolution = \<lparr>re_contractId = ''C1'', re_type = ''single-release'', re_milestoneIndex = None,
     re_disputeResolver = ''GR'', re_allocations = [\<lparr>al_address = ''GA'', al_percentage = Fin 100\<rparr>]\<rparr>"

definition sample_escrow :: json where
  "sample_escrow = JObj [(''contractId'', JStr ''C1''), (''type'', JStr ''single-release''), (''balance'', JNum 15),
     (''roles'', JObj [(''disputeResolver'', JStr ''gr'')]), (''flags'', JObj [(''disputed'', JBool True)]),
     (''trustline'', JObj [(''address'', JStr ''GI'')])]"

text \<open>Trustless Work shows the escrow, Horizon the trustline; the write is answered with the given status.\<close>

definition escrow_network :: "nat \<Rightarrow> nat \<Rightarrow> http_request \<Rightarrow> string + http_response" where
  "escrow_network write_status n rq =
     (if rq_method rq = ''POST'' then Inr \<lparr>rp_status = write_status, rp_body = Json (JObj [])\<rparr>
      else if rq_url rq = ''https://tw/helper/get-escrow-by-contract-ids'' then Inr \<lparr>rp_status = 200, rp_body = Json (JArr [sample_escrow])\<rparr>
      else Inr \<lparr>rp_status = 200, rp_body = Json (JObj [(''balances'', JArr [JObj [(''asset_issuer'', JStr ''GI'')]])])\<rparr>)"

definition escrow_world :: "nat \<Rightarrow> retry_job list \<Rightarrow> mem world" where
  "escrow_world write_status js = world_on (no_tables\<lparr>t_jobs := js\<rparr>) (quiet_env\<lparr>reply := escrow_network write_status\<rparr>)"

definition resolution_run :: "(exn + json) \<times> mem world" where
  "resolution_run = post_resolve_dispute (mem_backend sample_vars) RETRY_QUEUE_DEFAULTS sample_resolution (escrow_world 200 [])"

lemma resolution_guarded_witness:
  "map (rq_method \<circ> fst) (sent (snd resolution_run)) = [''GET'', ''GET'', ''POST''] \<and>
   (\<exists>doc ds. reads_contract ''C1'' (fst (sent (snd resolution_run) ! 0)) \<and> shows_document (snd (sent (snd resolution_run) ! 0)) doc \<and>
      may_be_resolved sample_resolution doc \<and> resolves sample_resolution ds (fst (sent (snd resolution_run) ! 2)))"
proof -
  have a: "map (rq_method \<circ> fst) (sent (snd resolution_run)) = [''GET'', ''GET'', ''POST'']" by code_simp
  have run: "post_resolve_dispute (mem_backend sample_vars) RETRY_QUEUE_DEFAULTS sample_resolution (escrow_world 200 []) =
      (fst resolution_run, snd resolution_run)"
    by (simp add: resolution_run_def)
  have none: "sent (escrow_world 200 []) = []" by (simp add: escrow_world_def world_on_def)
  have "re_contractId sample_resolution = ''C1''" by (simp add: sample_resolution_def)
  then show ?thesis
    using a resolution_guarded [OF run] unfolding none by (auto simp: map_eq_Cons_conv) blast
qed

definition push_run :: "(exn + json) \<times> mem world" where
  "push_run = pushMilestoneToTW (mem_backend sample_vars) sample_push (world_on no_tables (quiet_env\<lparr>reply := sample_reply\<rparr>))"

lemma evidence_needs_funds_witness:
  "map (rq_method \<circ> fst) (sent (snd push_run)) = [''GET'', ''POST''] \<and>
   shows_funds ''C1'' (snd (sent (snd push_run) ! 0)) \<and> pushes_evidence sample_push (fst (sent (snd push_run) ! 1))"
proof -
  have a: "map (rq_method \<circ> fst) (sent (snd push_run)) = [''GET'', ''POST'']" by code_simp
  have p: "mp_action sample_push \<noteq> ''approve''" "mp_contractId sample_push = ''C1''" by (simp_all add: sample_push_def)
  have "sent_if_funded ''C1'' (pushes_evidence sample_push) (world_on no_tables (quiet_env\<lparr>reply := sample_reply\<rparr>)) (snd push_run)"
    using evidence_needs_funds [of sample_push "mem_backend sample_vars" "world_on no_tables (quiet_env\<lparr>reply := sample_reply\<rparr>)"
        "fst push_run" "snd push_run"] p by (simp add: push_run_def)
  then show ?thesis using a by (auto simp: sent_if_funded_def world_on_def map_eq_Cons_conv)
qed

lemma resolution_within_escrow_witness:
  "splitByPercentage sample_resolution (the (parseEscrow (Some sample_escrow))) = Inr [\<lparr>ds_address = ''GA'', ds_amount = Fin 15\<rparr>] \<and>
   (\<exists>ks T. map (\<lambda>d. toStroops (ds_amount d) ''amount'') [\<lparr>ds_address = ''GA'', ds_amount = Fin 15\<rparr>] = map (\<lambda>k. Inr (Fin (of_int k))) ks \<and>
     (\<forall>k \<in> set ks. 0 < k) \<and> sum_list ks = T \<and> \<bar>of_int T - 15 * 10 ^ 7 :: rat\<bar> \<le> 5 / 8)"
proof -
  have 1: "splitByPercentage sample_resolution (the (parseEscrow (Some sample_escrow))) = Inr [\<lparr>ds_address = ''GA'', ds_amount = Fin 15\<rparr>]"
    by code_simp
  have 2: "sn_balance (the (parseEscrow (Some sample_escrow))) = Fin 15" by code_simp
  have 3: "resolutionTotal (the (parseEscrow (Some sample_escrow))) (re_type sample_resolution) (re_milestoneIndex sample_resolution) = Inr (Fin 15)"
    by code_simp
  have 4: "length (re_allocations sample_resolution) \<le> 1000" by (simp add: sample_resolution_def)
  have 5: "1 / 10 ^ 7 \<le> (15 :: rat)" "(15 :: rat) \<le> 10 ^ 8" by simp_all
  from 1 resolution_within_escrow [OF 1 2 3 4 5, THEN conjunct1] show ?thesis by (rule conjI)
qed

definition sample_release :: release_funds_dto where
  "sample_release = \<lparr>rf_contractId = ''C1'', rf_releaseSigner = ''GS'', rf_type = ''single-release'', rf_milestoneIndex = None\<rparr>"

definition release_run :: "(exn + json) \<times> mem world" where
  "release_run = post_release (mem_backend sample_vars) RETRY_QUEUE_DEFAULTS sample_release (escrow_world 503 [])"


definition resubmission :: change_status_dto where
  "resubmission = \<lparr>cs_contractId = ''C1'', cs_milestoneIndex = ''0'', cs_newEvidence = ''second try'', cs_newStatus = ''completed'',
     cs_serviceProvider = ''GS'', cs_type = ''single-release''\<rparr>"

definition earlier_job :: retry_job where
  "earlier_job = (sample_job ''succeeded'' 1)\<lparr>rj_key := ''milestone_update:status:C1:0:completed''\<rparr>"

text \<open>
  A backstop key is spent once. Evidence resubmitted for a milestone that was rejected has the
  key of the first submission, so when Trustless Work fails again after the first job succeeded,
  the request is answered as failed and nothing is left to retry it.
\<close>

theorem resubmission_not_backed_up:
  "let run = post_change_milestone_status (mem_backend sample_vars) RETRY_QUEUE_DEFAULTS resubmission (escrow_world 503 [earlier_job])
   in fst run = Inl (UpstreamError 503 (JObj [])) \<and> t_jobs (tabs (svc (snd run))) = [earlier_job]"
  by code_simp

definition empty_escrow :: "string \<Rightarrow> escrow_snapshot" where
  "empty_escrow ty = \<lparr>sn_contractId = ''C1'', sn_type = ty, sn_amount = Fin 50, sn_balance = Fin 0,
     sn_roles = parseRoles (JObj []), sn_flags = \<lparr>ef_disputed = True, ef_released = False, ef_resolved = False\<rparr>,
     sn_milestones = [\<lparr>sm_description = None, sm_status = None, sm_amount = Some (Fin 50), sm_approved = False, sm_flags = None\<rparr>],
     sn_trustline = None\<rparr>"

text \<open>
  An empty contract is not noticed for a multi-release escrow: with a balance of zero the whole amount of the
  milestone is divided, while a single-release resolution is refused.
\<close>

theorem empty_contract_divided:
  "resolutionTotal (empty_escrow ''multi-release'') ''multi-release'' (Some ''0'') = Inr (Fin 50) \<and>
   resolutionTotal (empty_escrow ''single-release'') ''single-release'' None =
     Inl (BadRequest (Msg ''This escrow holds no funds, so there is nothing to distribute.''))"
  by code_simp

definition sample_snapshot :: escrow_snapshot where
  "sample_snapshot = (empty_escrow ''multi-release'')\<lparr>sn_balance := Fin 15, sn_trustline := Some \<lparr>as_address = Some ''GI'', as_symbol = None\<rparr>\<rparr>"

lemma escrow_roundtrip_witness: "parseEscrow (Some (escrow_json sample_snapshot)) = Some sample_snapshot"
proof (rule escrow_roundtrip)
  show "solid_escrow sample_snapshot"
    by (simp add: solid_escrow_def sample_snapshot_def empty_escrow_def solid_def solid_roles_def solid_milestone_def parseRoles_def
        optionalString_def jget_def trim_def js_space_def)
qed

end
