(* ===== verification/JsonText.thy ===== *)
theory JsonText
  imports Sync
begin

text \<open>
  More of the JavaScript the services use on parsed JSON: optional chaining, the splitting of strings, and ISO time stamps.
\<close>

section \<open>Values\<close>

text \<open>\<open>a?.b\<close> on a parsed value, and \<open>a ?? b\<close>.\<close>

definition jpath :: "string \<Rightarrow> string \<Rightarrow> json \<Rightarrow> json option" where
  "jpath k l v = (case jget k v of None \<Rightarrow> None | Some u \<Rightarrow> jget l u)"

definition nullish :: "json option \<Rightarrow> bool" where
  "nullish v \<longleftrightarrow> v = None \<or> v = Some JNull"

section \<open>Strings and times\<close>

text \<open>\<open>s.split(c)\<close> for one character.\<close>

fun split_on :: "char \<Rightarrow> string \<Rightarrow> string list" where
  "split_on c [] = [[]]"
| "split_on c (x # s) = (if x = c then [] # split_on c s else (case split_on c s of p # ps \<Rightarrow> (x # p) # ps | [] \<Rightarrow> [[x]]))"

lemma split_on_free: "c \<notin> set s \<Longrightarrow> split_on c s = [s]"
  by (induction s) auto

lemma split_on_append: "c \<notin> set s \<Longrightarrow> split_on c (s @ c # t) = s # split_on c t"
  by (induction s) auto

lemma iso_sample: "iso_string 1709210096789 = ''2024-02-29T12:34:56.789Z''"
  by code_simp

end
