(* ===== verification/Notifications.thy ===== *)
theory Notifications
  imports Sync
begin

text \<open>
  \<open>notifications/notifications.service.ts\<close> and its listener: which mails an event sends, to whom, and
  the log row every attempt leaves. The mail provider is the \<open>mail\<close> of the backend. The bodies are
  rendered by the templates of \<open>notifications/templates\<close>, an argument of the definitions: a function of the
  template's name and the event's data (see Templates), which ends in an exception when the data are malformed.
\<close>

section \<open>Configuration\<close>

definition DEFAULT_FROM_EMAIL :: string where
  "DEFAULT_FROM_EMAIL = ''Thalos <notifications@thalosplatform.xyz>''"

definition DEFAULT_REPLY_TO :: string where
  "DEFAULT_REPLY_TO = ''Thalos <no-reply@thalosplatform.xyz>''"

definition pickFromEnv :: "'s backend \<Rightarrow> string \<Rightarrow> string \<Rightarrow> string" where
  "pickFromEnv B key fallback = (case getenv B key of
     None \<Rightarrow> fallback
   | Some raw \<Rightarrow> if trim raw \<noteq> [] then trim raw else fallback)"

text \<open>The client exists when the module was started with a key.\<close>

definition resend_ready :: "'s backend \<Rightarrow> bool" where
  "resend_ready B \<longleftrightarrow> truthy (getenv B ''RESEND_API_KEY'')"

section \<open>Recipients and the log\<close>

definition getEmailForWallet :: "'s backend \<Rightarrow> string \<Rightarrow> ('s world, string option) prog" where
  "getEmailForWallet B wallet =
     bnd (call (select_one (profiles B) (\<lambda>p. pr_wallet p = wallet))) (\<lambda>(data, error).
     ret (case (error, data) of (None, Some p) \<Rightarrow> if truthy (pr_email p) then pr_email p else None | _ \<Rightarrow> None))"

primrec emails_of :: "'s backend \<Rightarrow> string list \<Rightarrow> ('s world, string list) prog" where
  "emails_of B [] = ret []"
| "emails_of B (w # ws) =
     bnd (getEmailForWallet B w) (\<lambda>email.
     bnd (emails_of B ws) (\<lambda>rest.
     ret (case email of None \<Rightarrow> rest | Some e \<Rightarrow> e # rest)))"

definition getParticipantEmails :: "'s backend \<Rightarrow> string \<Rightarrow> string option \<Rightarrow> ('s world, string list) prog" where
  "getParticipantEmails B agreementId excludedWallet =
     bnd (call (select_rows (participants B)
       (\<lambda>p. p_agreement_id p = agreementId \<and> (truthy excludedWallet \<longrightarrow> Some (p_wallet p) \<noteq> excludedWallet)) (\<lambda>rs. rs))) (\<lambda>(ps, error).
     if error \<noteq> None then ret [] else emails_of B (map p_wallet (default ps [])))"

record notification_entry =
  ne_status :: string
  ne_eventType :: string
  ne_subject :: "string option"
  ne_recipients :: "string list"
  ne_agreementId :: "string option"
  ne_error :: "string option"

definition log_row :: "notification_entry \<Rightarrow> string option \<Rightarrow> notification_log" where
  "log_row entry recipient = \<lparr>nl_id = [], nl_agreement_id = ne_agreementId entry, nl_event_type = ne_eventType entry,
     nl_channel = ''email'', nl_recipient = recipient, nl_subject = ne_subject entry, nl_status = ne_status entry,
     nl_error = ne_error entry, nl_created_at = 0\<rparr>"

definition recordNotification :: "'s backend \<Rightarrow> notification_entry \<Rightarrow> ('s world, unit) prog" where
  "recordNotification B entry =
     bnd (call (insert_rows (notifications B)
       (map (log_row entry) (if ne_recipients entry \<noteq> [] then map Some (ne_recipients entry) else [None])))) (\<lambda>_.
     ret ())"

section \<open>Sending\<close>

record mail_context =
  mc_eventType :: string
  mc_agreementId :: "string option"

definition entry_of :: "mail_context \<Rightarrow> string \<Rightarrow> string option \<Rightarrow> string list \<Rightarrow> string option \<Rightarrow> notification_entry" where
  "entry_of ctx status subject recipients error = \<lparr>ne_status = status, ne_eventType = mc_eventType ctx, ne_subject = subject,
     ne_recipients = recipients, ne_agreementId = mc_agreementId ctx, ne_error = error\<rparr>"

definition sendEmail :: "'s backend \<Rightarrow> string list \<Rightarrow> string \<Rightarrow> string \<Rightarrow> mail_context \<Rightarrow> ('s world, bool) prog" where
  "sendEmail B recipients subject html ctx =
     (if \<not> resend_ready B then
        bnd (recordNotification B (entry_of ctx ''skipped'' (Some subject) recipients (Some ''RESEND_API_KEY not configured''))) (\<lambda>_. ret False)
      else if length recipients = 0 then
        bnd (recordNotification B (entry_of ctx ''skipped'' (Some subject) [] (Some ''No recipient had an email address on their profile''))) (\<lambda>_.
        ret False)
      else
        bnd (send_email B \<lparr>ml_from = pickFromEnv B ''EMAIL_FROM'' DEFAULT_FROM_EMAIL, ml_to = recipients, ml_subject = subject,
          ml_html = html, ml_reply_to = pickFromEnv B ''EMAIL_REPLY_TO'' DEFAULT_REPLY_TO\<rparr>) (\<lambda>answer.
        case answer of
          Inl thrown \<Rightarrow> bnd (recordNotification B (entry_of ctx ''failed'' (Some subject) recipients (Some thrown))) (\<lambda>_. ret False)
        | Inr (Some message) \<Rightarrow> bnd (recordNotification B (entry_of ctx ''failed'' (Some subject) recipients (Some message))) (\<lambda>_. ret False)
        | Inr None \<Rightarrow> bnd (recordNotification B (entry_of ctx ''sent'' (Some subject) recipients None)) (\<lambda>_. ret True)))"

text \<open>A property of the event's data in a template literal.\<close>

definition prop_text :: "string \<Rightarrow> json \<Rightarrow> string" where
  "prop_text k data = (case jget k data of None \<Rightarrow> ''undefined'' | Some v \<Rightarrow> js_String v)"

text \<open>What all the notifications of an agreement do: the eight methods differ in event type, template and subject.\<close>

definition notify :: "'s backend \<Rightarrow> (string \<Rightarrow> json \<Rightarrow> exn + string) \<Rightarrow> string \<Rightarrow> string \<Rightarrow> string \<Rightarrow> json \<Rightarrow> string option \<Rightarrow> ('s world, unit) prog" where
  "notify B html eventType template subject data excludedWallet =
     (let agreementId = prop_text ''agreementId'' data; ctx = \<lparr>mc_eventType = eventType, mc_agreementId = Some agreementId\<rparr>
      in bnd (getParticipantEmails B agreementId excludedWallet) (\<lambda>emails.
         if length emails = 0
         then recordNotification B (entry_of ctx ''skipped'' None [] (Some ''No participant had an email address on their profile''))
         else bnd (lift_exn (html template data)) (\<lambda>body.
              bnd (sendEmail B emails subject body ctx) (\<lambda>_. ret ()))))"

definition notifyAgreementCreated :: "'s backend \<Rightarrow> (string \<Rightarrow> json \<Rightarrow> exn + string) \<Rightarrow> json \<Rightarrow> ('s world, unit) prog" where
  "notifyAgreementCreated B html data =
     notify B html ''agreement_created'' ''agreementCreatedTemplate'' (''New Agreement Created: '' @ prop_text ''title'' data) data None"

definition notifyAgreementFunded :: "'s backend \<Rightarrow> (string \<Rightarrow> json \<Rightarrow> exn + string) \<Rightarrow> json \<Rightarrow> ('s world, unit) prog" where
  "notifyAgreementFunded B html data =
     notify B html ''agreement_funded'' ''agreementFundedTemplate'' (''Agreement Funded: '' @ prop_text ''title'' data) data None"

definition notifyEvidenceSubmitted :: "'s backend \<Rightarrow> (string \<Rightarrow> json \<Rightarrow> exn + string) \<Rightarrow> json \<Rightarrow> string option \<Rightarrow> ('s world, unit) prog" where
  "notifyEvidenceSubmitted B html data excludedWallet =
     notify B html ''evidence_submitted'' ''evidenceSubmittedTemplate'' (''Evidence Submitted: '' @ prop_text ''agreementTitle'' data)
       data excludedWallet"

definition notifyMilestoneApproved :: "'s backend \<Rightarrow> (string \<Rightarrow> json \<Rightarrow> exn + string) \<Rightarrow> json \<Rightarrow> ('s world, unit) prog" where
  "notifyMilestoneApproved B html data =
     notify B html ''milestone_approved'' ''milestoneApprovedTemplate'' (''Milestone Approved: '' @ prop_text ''milestoneDescription'' data)
       data None"

definition notifyMilestoneReleased :: "'s backend \<Rightarrow> (string \<Rightarrow> json \<Rightarrow> exn + string) \<Rightarrow> json \<Rightarrow> ('s world, unit) prog" where
  "notifyMilestoneReleased B html data =
     notify B html ''milestone_released'' ''milestoneReleasedTemplate'' (''Payment Released: '' @ prop_text ''milestoneDescription'' data)
       data None"

definition notifyDisputeOpened :: "'s backend \<Rightarrow> (string \<Rightarrow> json \<Rightarrow> exn + string) \<Rightarrow> json \<Rightarrow> ('s world, unit) prog" where
  "notifyDisputeOpened B html data =
     notify B html ''dispute_opened'' ''disputeOpenedTemplate'' (''Dispute Opened: '' @ prop_text ''agreementTitle'' data) data None"

definition notifyDisputeResolved :: "'s backend \<Rightarrow> (string \<Rightarrow> json \<Rightarrow> exn + string) \<Rightarrow> json \<Rightarrow> ('s world, unit) prog" where
  "notifyDisputeResolved B html data =
     notify B html ''dispute_resolved'' ''disputeResolvedTemplate'' (''Dispute Resolved: '' @ prop_text ''agreementTitle'' data) data None"

definition notifyAgreementCompleted :: "'s backend \<Rightarrow> (string \<Rightarrow> json \<Rightarrow> exn + string) \<Rightarrow> json \<Rightarrow> ('s world, unit) prog" where
  "notifyAgreementCompleted B html data =
     notify B html ''agreement_completed'' ''agreementCompletedTemplate'' (''Agreement Completed: '' @ prop_text ''title'' data) data None"

definition sendCustomNotification :: "'s backend \<Rightarrow> string list \<Rightarrow> string \<Rightarrow> string \<Rightarrow> ('s world, unit) prog" where
  "sendCustomNotification B ws subject body =
     (let ctx = \<lparr>mc_eventType = ''custom'', mc_agreementId = None\<rparr>
      in bnd (emails_of B ws) (\<lambda>emails.
         if length emails = 0
         then recordNotification B (entry_of ctx ''skipped'' (Some subject) [] (Some ''None of the given wallets had an email address''))
         else bnd (sendEmail B emails subject body ctx) (\<lambda>_. ret ())))"

section \<open>Disputes\<close>

definition handleDisputeOpened :: "'s backend \<Rightarrow> (string \<Rightarrow> json \<Rightarrow> exn + string) \<Rightarrow> json \<Rightarrow> ('s world, unit) prog" where
  "handleDisputeOpened B html payload =
     bnd (call (select_one (agreements B) (\<lambda>a. a_id a = prop_text ''agreementId'' payload))) (\<lambda>(agreement, _).
     case agreement of
       None \<Rightarrow> ret ()
     | Some a \<Rightarrow>
         bnd (call (select_one (profiles B) (\<lambda>p. pr_wallet p = prop_text ''openedByWallet'' payload))) (\<lambda>(openerProfile, _).
         notifyDisputeOpened B html (JObj ([(''agreementId'', JStr (prop_text ''agreementId'' payload)), (''agreementTitle'', JStr (a_title a))] @
           jopt ''disputeReason'' (jget ''reason'' payload) @ jopt ''openedByWallet'' (jget ''openedByWallet'' payload) @
           jopt ''openedByName'' (map_option (\<lambda>p. jnullable (pr_display_name p)) openerProfile)))))"

text \<open>\<open>parseFloat\<close>: the longest prefix that is a decimal literal, after white space.\<close>

definition decimal_literal :: "string \<Rightarrow> jsnum option" where
  "decimal_literal s = (case split_sign s of (neg, u) \<Rightarrow>
     if u = ''Infinity'' then Some (if neg then NegInf else PosInf)
     else map_option (\<lambda>q. if neg then js_neg (of_exact q) else of_exact q) (unsigned_decimal u))"

definition parseFloat :: "string \<Rightarrow> jsnum" where
  "parseFloat s = (let t = dropWhile js_space s in
     case List.find (\<lambda>n. decimal_literal (take n t) \<noteq> None) (rev [0..<Suc (length t)]) of
       None \<Rightarrow> NaN
     | Some n \<Rightarrow> the (decimal_literal (take n t)))"

text \<open>\<open>((total * percentage) / 100).toFixed(2)\<close>.\<close>

definition share_text :: "jsnum \<Rightarrow> json \<Rightarrow> string \<Rightarrow> string" where
  "share_text amount payload k = to_fixed 2 (js_div_by (js_mult amount (json_number (jget k payload))) 100)"

definition handleDisputeResolved :: "'s backend \<Rightarrow> (string \<Rightarrow> json \<Rightarrow> exn + string) \<Rightarrow> json \<Rightarrow> ('s world, unit) prog" where
  "handleDisputeResolved B html payload =
     bnd (call (select_one (agreements B) (\<lambda>a. a_id a = prop_text ''agreementId'' payload))) (\<lambda>(agreement, _).
     case agreement of
       None \<Rightarrow> ret ()
     | Some ag \<Rightarrow>
         let amount = parseFloat (a_amount ag)
         in notifyDisputeResolved B html (JObj ([(''agreementId'', JStr (prop_text ''agreementId'' payload)), (''agreementTitle'', JStr (a_title ag)),
             (''resolution'', if jtruthy (jget ''resolutionNotes'' payload) then the (jget ''resolutionNotes'' payload)
                else JStr ''Dispute has been resolved'')] @
             jopt ''resolvedByWallet'' (jget ''resolvedByWallet'' payload) @
             [(''refundAmount'', JStr (share_text amount payload ''payerPercentage'')),
              (''releaseAmount'', JStr (share_text amount payload ''payeePercentage'')),
              (''asset'', jnullable (a_asset ag))])))"

section \<open>The listener\<close>

text \<open>A handler's failure is logged and dropped.\<close>

definition guarded :: "('w, unit) prog \<Rightarrow> ('w, unit) prog" where
  "guarded m = catch m (\<lambda>_. ret ())"

definition on_event :: "'s backend \<Rightarrow> (string \<Rightarrow> json \<Rightarrow> exn + string) \<Rightarrow> event \<Rightarrow> ('s world, unit) prog" where
  "on_event B html ev = (case ev of (name, data) \<Rightarrow>
     if name = ''agreement.created'' then guarded (notifyAgreementCreated B html data)
     else if name = ''agreement.funded'' then guarded (notifyAgreementFunded B html data)
     else if name = ''agreement.completed'' then guarded (notifyAgreementCompleted B html data)
     else if name = ''evidence.submitted'' then guarded (notifyEvidenceSubmitted B html data
       (case jget ''submittedByWallet'' data of Some (JStr w) \<Rightarrow> Some w | _ \<Rightarrow> None))
     else if name = ''milestone.approved'' then guarded (notifyMilestoneApproved B html data)
     else if name = ''milestone.released'' then guarded (notifyMilestoneReleased B html data)
     else if name = ''dispute.opened'' then guarded (handleDisputeOpened B html data)
     else if name = ''dispute.resolved'' then guarded (handleDisputeResolved B html data)
     else ret ())"

section \<open>What a notification changes\<close>

text \<open>
  Nothing but the log and the mails: the rows appended are of one agreement and one kind of event; at most one
  mail goes out, to some of the allowed addresses, and the rows say what became of it.
\<close>

definition notified :: "('s \<Rightarrow> tables) \<Rightarrow> string option \<Rightarrow> string \<Rightarrow> string set \<Rightarrow> 's world \<Rightarrow> 's world \<Rightarrow> bool" where
  "notified st ag ev allowed w v \<longleftrightarrow>
     (\<exists>qs. st (svc v) = (st (svc w))\<lparr>t_notifications := t_notifications (st (svc w)) @ qs\<rparr> \<and>
        (\<forall>q \<in> set qs. nl_agreement_id q = ag \<and> nl_event_type q = ev \<and> nl_channel q = ''email'') \<and>
        (v = w\<lparr>svc := svc v\<rparr> \<and> (\<forall>q \<in> set qs. nl_status q = ''skipped'') \<or>
         (\<exists>m a. v = w\<lparr>svc := svc v, mailed := mailed w @ [(m, a)]\<rparr> \<and> ml_to m \<noteq> [] \<and> set (ml_to m) \<subseteq> allowed \<and>
           (\<forall>q \<in> set qs. nl_recipient q \<in> Some ` set (ml_to m) \<and> nl_status q = (if a = Inr None then ''sent'' else ''failed'')))))"

text \<open>The addresses of the profiles of some wallets, and of an agreement's participants but one.\<close>

definition addresses :: "tables \<Rightarrow> string set \<Rightarrow> string set" where
  "addresses c ws = {e. e \<noteq> [] \<and> (\<exists>p \<in> set (t_profiles c). pr_wallet p \<in> ws \<and> pr_email p = Some e)}"

definition others :: "tables \<Rightarrow> string \<Rightarrow> string option \<Rightarrow> string set" where
  "others c ag excluded = p_wallet ` {p \<in> set (t_participants c). p_agreement_id p = ag \<and>
     (truthy excluded \<longrightarrow> Some (p_wallet p) \<noteq> excluded)}"

lemma addresses_insert: "addresses c (insert x A) = addresses c {x} \<union> addresses c A"
  by (auto simp: addresses_def)

lemma gen_rows_all:
  assumes "list_all2 (\<lambda>r q. \<exists>i t. q = gen i t r) rs qs" and "\<And>i t r. r \<in> set rs \<Longrightarrow> P (gen i t r)"
  shows "\<forall>q \<in> set qs. P q"
  using assms by (induction rs qs rule: list_all2_induct) auto

lemma log_row_fields [simp]:
  "nl_agreement_id (gen_notification i t (log_row en x)) = ne_agreementId en" "nl_event_type (gen_notification i t (log_row en x)) = ne_eventType en"
  "nl_channel (gen_notification i t (log_row en x)) = ''email''" "nl_recipient (gen_notification i t (log_row en x)) = x"
  "nl_status (gen_notification i t (log_row en x)) = ne_status en"
  by (simp_all add: log_row_def gen_notification_def)

lemma entry_fields [simp]:
  "ne_status (entry_of ctx status subject rs err) = status" "ne_eventType (entry_of ctx status subject rs err) = mc_eventType ctx"
  "ne_recipients (entry_of ctx status subject rs err) = rs" "ne_agreementId (entry_of ctx status subject rs err) = mc_agreementId ctx"
  by (simp_all add: entry_of_def)

lemma prop_text_first [simp]: "prop_text k (JObj ((k, JStr s) # fs)) = s"
  by (simp add: prop_text_def jget_def)

text \<open>The kind a handler logs: the event's name with underscores.\<close>

definition event_kind :: "string \<Rightarrow> string" where
  "event_kind name = map (\<lambda>c. if c = CHR ''.'' then CHR ''_'' else c) name"

text \<open>The wallet that is not told: the one that submitted the evidence.\<close>

definition untold :: "event \<Rightarrow> string option" where
  "untold ev = (if fst ev = ''evidence.submitted''
     then case jget ''submittedByWallet'' (snd ev) of Some (JStr w) \<Rightarrow> Some w | _ \<Rightarrow> None else None)"

lemma notified_quiet:
  assumes "st s' = (st (svc w))\<lparr>t_notifications := t_notifications (st (svc w)) @ qs\<rparr>"
    and "\<forall>q \<in> set qs. nl_agreement_id q = ag \<and> nl_event_type q = ev \<and> nl_channel q = ''email'' \<and> nl_status q = ''skipped''"
  shows "notified st ag ev allowed w (w\<lparr>svc := s'\<rparr>)"
  using assms by (auto simp: notified_def intro!: exI [of _ qs])

lemma notified_mail:
  assumes "st s' = (st (svc w))\<lparr>t_notifications := t_notifications (st (svc w)) @ qs\<rparr>" and "ml_to m \<noteq> []" and "set (ml_to m) \<subseteq> allowed"
    and "\<forall>q \<in> set qs. nl_agreement_id q = ag \<and> nl_event_type q = ev \<and> nl_channel q = ''email'' \<and>
      nl_status q = (if a = Inr None then ''sent'' else ''failed'') \<and> nl_recipient q \<in> Some ` set (ml_to m)"
  shows "notified st ag ev allowed w (w\<lparr>mailed := mailed w @ [(m, a)], svc := s'\<rparr>)"
  unfolding notified_def
proof (rule exI [of _ qs], intro conjI, goal_cases)
  case 3
  show ?case by (rule disjI2, rule exI [of _ m], rule exI [of _ a]) (use assms in auto)
qed (use assms in auto)

lemma notified_frame:
  assumes "notified st ag ev allowed w v"
  obtains ns where "st (svc v) = (st (svc w))\<lparr>t_notifications := ns\<rparr>" "emitted v = emitted w" "spawned v = spawned w" "sent v = sent w"
    "stored v = stored w"
proof -
  obtain ns where ns: "st (svc v) = (st (svc w))\<lparr>t_notifications := ns\<rparr>"
    and v: "v = w\<lparr>svc := svc v\<rparr> \<or> (\<exists>l. v = w\<lparr>svc := svc v, mailed := l\<rparr>)"
    using assms unfolding notified_def by blast
  have "emitted v = emitted w \<and> spawned v = spawned w \<and> sent v = sent w \<and> stored v = stored w" if "v = w\<lparr>svc := x\<rparr>" for x
    unfolding that by simp
  moreover have "emitted v = emitted w \<and> spawned v = spawned w \<and> sent v = sent w \<and> stored v = stored w" if "v = w\<lparr>svc := x, mailed := l\<rparr>" for x l
    unfolding that by simp
  ultimately show thesis using that [OF ns] v by blast
qed

context database begin

lemma wp_recordNotification:
  assumes "\<And>qs s'. st s' = (st (svc w))\<lparr>t_notifications := t_notifications (st (svc w)) @ qs\<rparr> \<Longrightarrow>
    \<forall>q \<in> set qs. nl_agreement_id q = ne_agreementId en \<and> nl_event_type q = ne_eventType en \<and> nl_channel q = ''email'' \<and>
      nl_status q = ne_status en \<and> (ne_recipients en \<noteq> [] \<longrightarrow> nl_recipient q \<in> Some ` set (ne_recipients en)) \<Longrightarrow>
    Q (Inr ()) (w\<lparr>svc := s'\<rparr>)"
  shows "wp (recordNotification B en) Q w"
  unfolding recordNotification_def wp_bnd
proof (rule notifications_wp(6), goal_cases)
  case (1 e s')
  then show ?case using assms [of s' "[]"] by (simp add: wp_ret)
next
  case (2 qs s')
  have "\<forall>q \<in> set qs. nl_agreement_id q = ne_agreementId en \<and> nl_event_type q = ne_eventType en \<and> nl_channel q = ''email'' \<and>
      nl_status q = ne_status en \<and> (ne_recipients en \<noteq> [] \<longrightarrow> nl_recipient q \<in> Some ` set (ne_recipients en))"
    by (rule gen_rows_all [OF 2(1)]) auto
  then show ?case using assms [of s' qs] 2(2) by (simp add: wp_ret)
qed

lemma wp_getEmailForWallet:
  assumes "\<And>e s'. st s' = st (svc w) \<Longrightarrow> set_option e \<subseteq> addresses (st (svc w)) {wallet} \<Longrightarrow> Q (Inr e) (w\<lparr>svc := s'\<rparr>)"
  shows "wp (getEmailForWallet B wallet) Q w"
  unfolding getEmailForWallet_def wp_bnd
  by (rule profiles_wp(2)) (auto simp: wp_ret addresses_def truthy_def split: option.splits intro!: assms)

lemma wp_emails_of:
  assumes "\<And>es s'. st s' = st (svc w) \<Longrightarrow> set es \<subseteq> addresses (st (svc w)) (set ws) \<Longrightarrow> Q (Inr es) (w\<lparr>svc := s'\<rparr>)"
  shows "wp (emails_of B ws) Q w"
  using assms
proof (induction ws arbitrary: w Q)
  case Nil
  then show ?case using Nil(1) [of "svc w" "[]"] by (simp add: wp_ret)
next
  case (Cons x ws)
  show ?case
    unfolding emails_of.simps wp_bnd
  proof (rule wp_getEmailForWallet, goal_cases)
    case (1 e s1)
    show ?case
      by (simp, rule Cons.IH) (use 1 in \<open>auto simp: wp_ret addresses_insert [of _ x "set ws"] intro!: Cons.prems split: option.splits\<close>)
  qed
qed

lemma wp_getParticipantEmails:
  assumes "\<And>es s'. st s' = st (svc w) \<Longrightarrow> set es \<subseteq> addresses (st (svc w)) (others (st (svc w)) ag excluded) \<Longrightarrow>
    Q (Inr es) (w\<lparr>svc := s'\<rparr>)"
  shows "wp (getParticipantEmails B ag excluded) Q w"
  unfolding getParticipantEmails_def wp_bnd [of "call c" for c]
proof (rule participants_wp(1), goal_cases)
  case (1 e s')
  then show ?case using assms [of s' "[]"] by (simp add: wp_ret)
next
  case (2 s')
  have w: "set (map p_wallet (default (Some (filter (\<lambda>p. p_agreement_id p = ag \<and> (truthy excluded \<longrightarrow> Some (p_wallet p) \<noteq> excluded))
      (t_participants (st (svc w))))) [])) = others (st (svc w)) ag excluded"
    by (auto simp: others_def)
  show ?case
    by (simp, rule wp_emails_of) (use 2 w assms in \<open>auto simp: w [simplified]\<close>)
qed

lemma wp_sendEmail:
  assumes "set rs \<subseteq> allowed" and "\<And>b v. notified st (mc_agreementId ctx) (mc_eventType ctx) allowed w v \<Longrightarrow> Q (Inr b) v"
  shows "wp (sendEmail B rs subject html ctx) Q w"
proof -
  show ?thesis
  proof (cases "\<not> resend_ready B \<or> length rs = 0")
    case True
    then show ?thesis
      unfolding sendEmail_def by (auto simp: wp_bnd wp_ret intro!: wp_recordNotification assms(2) notified_quiet)
  next
    case False
    have rec: "wp (bnd (recordNotification B (entry_of ctx (if a = Inr None then ''sent'' else ''failed'') sub rs err)) (\<lambda>_. ret b)) Q
        (w\<lparr>svc := s', mailed := mailed w @ [(m, a)]\<rparr>)" if s': "st s' = st (svc w)" and m: "ml_to m = rs" for a sub err b s' m
      unfolding wp_bnd
    proof (rule wp_recordNotification, goal_cases)
      case (1 qs s2)
      have "notified st (mc_agreementId ctx) (mc_eventType ctx) allowed w (w\<lparr>mailed := mailed w @ [(m, a)], svc := s2\<rparr>)"
        by (rule notified_mail [of _ _ _ qs]) (use 1 False assms(1) s' m in auto)
      then show ?case by (simp add: wp_ret assms(2))
    qed
    from False show ?thesis
      by (simp add: sendEmail_def wp_bnd [of "send_email b m" for b m], intro wp_send_email)
        (use rec [of _ _ "Inl x" for x] rec [of _ _ "Inr None"] rec [of _ _ "Inr (Some x)" for x] in \<open>auto split: sum.splits option.splits\<close>)
  qed
qed

lemma wp_notify:
  assumes "\<And>r v. notified st (Some (prop_text ''agreementId'' data)) ev
    (addresses (st (svc w)) (others (st (svc w)) (prop_text ''agreementId'' data) excluded)) w v \<Longrightarrow> Q r v"
  shows "wp (notify B html ev template subject data excluded) Q w"
  unfolding notify_def Let_def wp_bnd [of "getParticipantEmails b a x" for b a x]
proof (rule wp_getParticipantEmails, goal_cases)
  case (1 es s')
  let ?ctx = "\<lparr>mc_eventType = ev, mc_agreementId = Some (prop_text ''agreementId'' data)\<rparr>"
  let ?to = "addresses (st (svc w)) (others (st (svc w)) (prop_text ''agreementId'' data) excluded)"
  have before: "notified st a ev A w v" if "notified st a ev A (w\<lparr>svc := s'\<rparr>) v" for a A v
    using that 1(1) by (simp add: notified_def)
  have "wp (sendEmail B es subject body ?ctx)
      (\<lambda>r v. case r of Inl e \<Rightarrow> Q (Inl e) v | Inr b \<Rightarrow> Q (Inr ()) v) (w\<lparr>svc := s'\<rparr>)" for body
    by (rule wp_sendEmail [OF 1(2)]) (auto intro!: assms before)
  moreover have "wp (recordNotification B (entry_of ?ctx ''skipped'' None [] msg)) Q (w\<lparr>svc := s'\<rparr>)" for msg
    by (rule wp_recordNotification) (auto simp: 1(1) intro!: assms notified_quiet)
  moreover have "Q (Inl e) (w\<lparr>svc := s'\<rparr>)" for e
    by (rule assms, rule notified_quiet [of _ _ _ "[]"]) (simp_all add: 1(1))
  ultimately show ?case by (simp add: wp_bnd wp_ret lift_exn_def wp_throw cong: sum.case_cong split: sum.split)
qed

lemmas agreement_notifications = notifyAgreementCreated_def notifyAgreementFunded_def notifyAgreementCompleted_def
  notifyEvidenceSubmitted_def notifyMilestoneApproved_def notifyMilestoneReleased_def notifyDisputeOpened_def
  notifyDisputeResolved_def

lemma notified_none: "st s' = st (svc w) \<Longrightarrow> notified st ag ev A w (w\<lparr>svc := s'\<rparr>)"
  by (rule notified_quiet [of _ _ _ "[]"]) simp_all

lemma notified_refl: "notified st ag ev A w w"
  using notified_none [of "svc w" w] by simp

lemma notified_after: "st s' = st (svc w) \<Longrightarrow> notified st ag ev A (w\<lparr>svc := s'\<rparr>) v \<Longrightarrow> notified st ag ev A w v"
  by (simp add: notified_def)

lemma wp_handleDisputeOpened:
  assumes "\<And>r v. notified st (Some (prop_text ''agreementId'' data)) ''dispute_opened''
    (addresses (st (svc w)) (others (st (svc w)) (prop_text ''agreementId'' data) None)) w v \<Longrightarrow> Q r v"
  shows "wp (handleDisputeOpened B html data) Q w"
  unfolding handleDisputeOpened_def wp_bnd [of "call c" for c]
proof (rule agreements_wp(2), goal_cases)
  case (3 a s1)
  show ?case
    by (simp add: wp_bnd [of "call c" for c], rule profiles_wp(2))
      (auto simp: notifyDisputeOpened_def 3(1) intro!: wp_notify assms elim!: notified_after [rotated])
qed (auto simp: wp_ret intro!: assms notified_none)

lemma wp_handleDisputeResolved:
  assumes "\<And>r v. notified st (Some (prop_text ''agreementId'' data)) ''dispute_resolved''
    (addresses (st (svc w)) (others (st (svc w)) (prop_text ''agreementId'' data) None)) w v \<Longrightarrow> Q r v"
  shows "wp (handleDisputeResolved B html data) Q w"
  unfolding handleDisputeResolved_def wp_bnd [of "call c" for c]
proof (rule agreements_wp(2), goal_cases)
  case (3 a s1)
  then show ?case
    by (auto simp: notifyDisputeResolved_def Let_def intro!: wp_notify assms elim!: notified_after [rotated])
qed (auto simp: wp_ret intro!: assms notified_none)

lemma wp_guarded: "wp m (\<lambda>_. Q (Inr ())) w \<Longrightarrow> wp (guarded m) Q w"
  unfolding guarded_def wp_catch by (erule wp_mono) (auto simp: wp_ret split: sum.splits)

lemma wp_on_event:
  "wp (on_event B html ev) (\<lambda>r v. r = Inr () \<and> notified st (Some (prop_text ''agreementId'' (snd ev))) (event_kind (fst ev))
     (addresses (st (svc w)) (others (st (svc w)) (prop_text ''agreementId'' (snd ev)) (untold ev))) w v) w"
proof -
  obtain name data where ev: "ev = (name, data)" by (cases ev)
  show ?thesis
    unfolding ev on_event_def prod.case
    by (simp add: untold_def event_kind_def)
      (auto simp: agreement_notifications wp_ret intro!: wp_guarded wp_notify wp_handleDisputeOpened wp_handleDisputeResolved notified_refl)
qed

end

section \<open>Properties\<close>

text \<open>
  (C34) A notification disturbs nothing and tells only the participants. Over any database and any templates,
  whatever calls fail, the listener ends normally on every event; it changes nothing but the notification log, to
  which it appends rows of the event's kind and agreement, and it sends at most one mail, to e-mail addresses of
  profiles of that agreement's participants, without the wallet that submitted the evidence; the rows say sent exactly
  when the provider accepted that mail.
\<close>

theorem notifications_contained:
  assumes "database B st" and "on_event B html ev w = (r, w')"
  shows "r = Inr () \<and> notified st (Some (prop_text ''agreementId'' (snd ev))) (event_kind (fst ev))
     (addresses (st (svc w)) (others (st (svc w)) (prop_text ''agreementId'' (snd ev)) (untold ev))) w w'"
  by (rule wpD [OF database.wp_on_event [OF assms(1)] assms(2)])

definition mail_tables :: tables where
  "mail_tables = no_tables\<lparr>
     t_participants := map (\<lambda>(i, w). \<lparr>p_id = i, p_agreement_id = ''A1'', p_wallet = w, p_role = None\<rparr>) [(''P1'', ''GA''), (''P2'', ''GB''), (''P3'', ''GC'')],
     t_profiles := map (\<lambda>(w, e). \<lparr>pr_id = w, pr_wallet = w, pr_display_name = None, pr_email = e, pr_account_type = ''personal'', pr_role = ''user'',
       pr_handle = None, pr_show_earnings = False, pr_about = no_about, pr_created_at = 0, pr_updated_at = 0\<rparr>) [(''GA'', Some ''a@x.io''), (''GB'', Some ''b@x.io''), (''GC'', None), (''GD'', Some ''d@x.io'')]\<rparr>"

definition evidence_event :: event where
  "evidence_event = (''evidence.submitted'', JObj [(''agreementId'', JStr ''A1''), (''agreementTitle'', JStr ''Site''), (''submittedByWallet'', JStr ''GA'')])"

definition mail_run :: "mem_env \<Rightarrow> (exn + unit) \<times> mem world" where
  "mail_run e = on_event (mem_backend (\<lambda>k. if k = ''RESEND_API_KEY'' then Some ''re_1'' else None)) (\<lambda>t d. Inr t) evidence_event (world_on mail_tables e)"

definition mail_trace :: "mem world \<Rightarrow> (string list \<times> string) list \<times> (string option \<times> string) list" where
  "mail_trace w = (map (\<lambda>(m, a). (ml_to m, ml_subject m)) (mailed w), map (\<lambda>q. (nl_recipient q, nl_status q)) (t_notifications (tabs (svc w))))"

lemma notifications_contained_witness:
  "mail_trace (snd (mail_run quiet_env)) = ([([''b@x.io''], ''Evidence Submitted: Site'')], [(Some ''b@x.io'', ''sent'')]) \<and>
   mail_trace (snd (mail_run (quiet_env\<lparr>receipt := \<lambda>_ _. Inl ''socket hang up''\<rparr>))) =
     ([([''b@x.io''], ''Evidence Submitted: Site'')], [(Some ''b@x.io'', ''failed'')]) \<and>
   fst (mail_run (quiet_env\<lparr>fault := \<lambda>n. if n = 1 then Some not_one else None\<rparr>)) = Inr ()"
proof -
  have run: "on_event (mem_backend (\<lambda>k. if k = ''RESEND_API_KEY'' then Some ''re_1'' else None)) (\<lambda>t d. Inr t) evidence_event (world_on mail_tables e) =
      (fst (mail_run e), snd (mail_run e))" for e
    by (simp add: mail_run_def)
  have "fst (mail_run (quiet_env\<lparr>fault := \<lambda>n. if n = 1 then Some not_one else None\<rparr>)) = Inr ()"
    using notifications_contained [OF mem.database_axioms run] by simp
  moreover have "mail_trace (snd (mail_run quiet_env)) = ([([''b@x.io''], ''Evidence Submitted: Site'')], [(Some ''b@x.io'', ''sent'')])"
    "mail_trace (snd (mail_run (quiet_env\<lparr>receipt := \<lambda>_ _. Inl ''socket hang up''\<rparr>))) =
      ([([''b@x.io''], ''Evidence Submitted: Site'')], [(Some ''b@x.io'', ''failed'')])"
    by code_simp+
  ultimately show ?thesis by simp
qed

end
