(* ===== verification/Webhooks.thy ===== *)
theory Webhooks
  imports JsonText Notifications RetryQueue Milestones
begin

text \<open>
  The webhooks of Trustless Work: \<open>webhooks/webhooks.controller.ts\<close> verifies the signature and puts the event
  on the persistent queue, \<open>webhooks/webhooks.service.ts\<close> is the handler that later applies it. A
  payload is the JSON value the request carries. The hash functions of \<open>crypto\<close> and the parser behind
  \<open>JSON.parse\<close> are arguments.
\<close>

section \<open>The signature\<close>

text \<open>HMAC-SHA256 of a key and a message, and SHA-256, both printed in hexadecimal.\<close>

record crypto =
  hmac_sha256 :: "string \<Rightarrow> string \<Rightarrow> string"
  sha256 :: "string \<Rightarrow> string"

definition hex_value :: "char \<Rightarrow> nat option" where
  "hex_value c = (let n = (of_char c :: nat) in
     if 48 \<le> n \<and> n \<le> 57 then Some (n - 48) else if 97 \<le> n \<and> n \<le> 102 then Some (n - 87)
     else if 65 \<le> n \<and> n \<le> 70 then Some (n - 55) else None)"

text \<open>\<open>Buffer.from(s, 'hex')\<close> stops at the first pair that is not hexadecimal.\<close>

fun hex_bytes :: "string \<Rightarrow> nat list" where
  "hex_bytes (a # b # s) = (case (hex_value a, hex_value b) of
     (Some x, Some y) \<Rightarrow> (16 * x + y) # hex_bytes s
   | _ \<Rightarrow> [])"
| "hex_bytes _ = []"

text \<open>Buffers of different lengths make \<open>timingSafeEqual\<close> throw, which counts as a mismatch.\<close>

definition verifySignature :: "'s backend \<Rightarrow> crypto \<Rightarrow> string \<Rightarrow> string \<Rightarrow> bool" where
  "verifySignature B K rawBody signatureHeader =
     (let secret = default (getenv B ''TRUSTLESS_WORK_WEBHOOK_SECRET'') ''''
      in if secret = [] then False
         else let expected = hmac_sha256 K secret rawBody;
                  provided = (if take 7 signatureHeader = ''sha256='' then drop 7 signatureHeader else signatureHeader)
              in hex_bytes expected = hex_bytes provided)"

section \<open>Accepting an event\<close>

record event_config =
  ec_action :: string
  ec_target :: "string option"

definition TW_EVENT_MAP :: "(string \<times> event_config) list" where
  "TW_EVENT_MAP =
     (let status_update = (\<lambda>s. \<lparr>ec_action = ''status_update'', ec_target = Some s\<rparr>);
          milestone_update = \<lparr>ec_action = ''milestone_update'', ec_target = None\<rparr>;
          info = \<lparr>ec_action = ''info'', ec_target = None\<rparr>
      in [(''escrow.funded'', status_update ''funded''),
          (''escrow.released'', status_update ''completed''),
          (''escrow.disputed'', status_update ''disputed''),
          (''contract.completed'', status_update ''completed''),
          (''contract.cancelled'', status_update ''cancelled''),
          (''agreement.created'', info),
          (''agreement.updated'', info),
          (''agreement.milestone_updated'', milestone_update),
          (''escrow.created'', info),
          (''escrow.updated'', info),
          (''escrow.milestone_updated'', milestone_update),
          (''escrow.dispute_created'', status_update ''disputed''),
          (''dispute.created'', status_update ''disputed''),
          (''milestone.completed'', milestone_update),
          (''milestone.approved'', milestone_update),
          (''milestone.rejected'', milestone_update),
          (''milestone.cancelled'', milestone_update)])"

definition config_json :: "event_config \<Rightarrow> json" where
  "config_json c = JObj ([(''action'', JStr (ec_action c))] @ jopt ''targetStatus'' (map_option JStr (ec_target c)))"

text \<open>
  What \<open>TW_EVENT_MAP[key]\<close> leaves in the JSON of the job: nothing found, or the value's fields. An
  inherited key finds a function, which JSON drops, or the empty prototype.
\<close>

definition config_fields :: "string \<Rightarrow> (string \<times> json) list option" where
  "config_fields key = (case map_of TW_EVENT_MAP key of
     Some c \<Rightarrow> Some [(''config'', config_json c)]
   | None \<Rightarrow> if key = ''__proto__'' then Some [(''config'', JObj [])] else if inherited key then Some [] else None)"

definition buildIdempotencyKey :: "crypto \<Rightarrow> json \<Rightarrow> string" where
  "buildIdempotencyKey K payload =
     (let hash = take 16 (sha256 K (stringify payload))
      in ''webhook:'' @ prop_text ''contractId'' payload @ '':'' @ prop_text ''event'' payload @ '':'' @ hash)"

text \<open>The answer: whether the event is handled, and the reason when not.\<close>

definition handleEvent :: "'s backend \<Rightarrow> crypto \<Rightarrow> queue_settings \<Rightarrow> json \<Rightarrow> ('s world, bool \<times> string option) prog" where
  "handleEvent B K cfg payload =
     (case config_fields (prop_text ''event'' payload) of
        None \<Rightarrow> ret (False, Some ''unhandled_event_type'')
      | Some config \<Rightarrow>
          bnd (enqueue B cfg ''webhook_event_processing'' (JObj ([(''payload'', payload)] @ config)) (buildIdempotencyKey K payload) None) (\<lambda>_.
          ret (True, None)))"

definition handleTrustlessWork ::
    "'s backend \<Rightarrow> crypto \<Rightarrow> (string \<Rightarrow> json option) \<Rightarrow> queue_settings \<Rightarrow> string \<Rightarrow> string option \<Rightarrow> ('s world, bool \<times> string option) prog" where
  "handleTrustlessWork B K parse cfg rawBody signatureHeader =
     bnd (require (truthy signatureHeader) (Unauthorized ''Missing x-trustless-signature header'')) (\<lambda>_.
     bnd (require (verifySignature B K rawBody (default signatureHeader '''')) (Unauthorized ''Invalid webhook signature'')) (\<lambda>_.
     case parse rawBody of
       None \<Rightarrow> throw (BadRequest (Msg ''Malformed JSON payload''))
     | Some payload \<Rightarrow>
         bnd (require (payload \<noteq> JNull) (PlainError ''TypeError'')) (\<lambda>_.
         bnd (require (jtruthy (jget ''event'' payload) \<and> jtruthy (jget ''contractId'' payload))
           (BadRequest (Msg ''Payload must include event and contractId''))) (\<lambda>_.
         handleEvent B K cfg payload))))"

section \<open>Applying a status\<close>

definition webhook_columns :: "string \<Rightarrow> int \<Rightarrow> int \<Rightarrow> agreement \<Rightarrow> agreement" where
  "webhook_columns targetStatus t1 t2 a =
     (let a1 = a\<lparr>a_status := targetStatus, a_updated_at := t1\<rparr>
      in if targetStatus = ''funded'' then a1\<lparr>a_funded_at := Some t2\<rparr>
         else if targetStatus = ''completed'' then a1\<lparr>a_completed_at := Some t2\<rparr> else a1)"

definition detail_json :: "detail \<Rightarrow> json" where
  "detail_json d = JObj [(''field'', JStr (d_field d)), (''code'', JStr (d_code d)), (''message'', JStr (d_message d))]"

definition event_details :: "json \<Rightarrow> (string \<times> json) list" where
  "event_details payload = jopt ''event'' (jget ''event'' payload) @ jopt ''contractId'' (jget ''contractId'' payload)"

definition dispatchNotification :: "'s backend \<Rightarrow> (string \<Rightarrow> json \<Rightarrow> exn + string) \<Rightarrow> string \<Rightarrow> agreement \<Rightarrow> ('s world, unit) prog" where
  "dispatchNotification B html status a =
     guarded
       (if status = ''funded'' then
          emit ''agreement.funded'' (JObj [(''agreementId'', JStr (a_id a)), (''title'', JStr (a_title a)), (''amount'', JStr (a_amount a)),
            (''asset'', JStr (default (a_asset a) ''USDC'')), (''fundedByWallet'', JStr ''trustless-work'')])
        else if status = ''completed'' then
          bnd (call (now B)) (\<lambda>t.
          emit ''agreement.completed'' (JObj [(''agreementId'', JStr (a_id a)), (''title'', JStr (a_title a)), (''totalAmount'', JStr (a_amount a)),
            (''asset'', JStr (default (a_asset a) ''USDC'')), (''completedAt'', jtime t)]))
        else if status = ''disputed'' then
          notifyDisputeOpened B html (JObj [(''agreementId'', JStr (a_id a)), (''agreementTitle'', JStr (a_title a)),
            (''disputeReason'', JStr ''Dispute raised via Trustless Work''), (''openedByWallet'', JStr ''trustless-work'')])
        else ret ())"

text \<open>From the check of the transition on: the guarded update, and what follows from its result.\<close>

definition after_status_update ::
    "'s backend \<Rightarrow> (string \<Rightarrow> json \<Rightarrow> exn + string) \<Rightarrow> json \<Rightarrow> string \<Rightarrow> string \<Rightarrow> agreement option \<times> db_error option \<Rightarrow> ('s world, unit) prog" where
  "after_status_update B html payload contractId targetStatus result = (case result of
     (updated, Some e) \<Rightarrow> throw (PlainError (e_message e))
   | (None, None) \<Rightarrow>
       bnd (call (select_one (agreements B) (\<lambda>a. a_contract_id a = Some contractId))) (\<lambda>(existing, _).
       require (existing \<noteq> None) (PlainError (''Agreement not found for contractId='' @ dq contractId)))
   | (Some row, None) \<Rightarrow>
       bnd (logActivity B (a_id row) ''trustless-work-webhook'' (''webhook_status_changed_to_'' @ targetStatus)
         (JObj (event_details payload)) None None) (\<lambda>_.
       dispatchNotification B html targetStatus row))"

definition write_webhook_status ::
    "'s backend \<Rightarrow> (string \<Rightarrow> json \<Rightarrow> exn + string) \<Rightarrow> json \<Rightarrow> string \<Rightarrow> string \<Rightarrow> ('s world, unit) prog" where
  "write_webhook_status B html payload contractId targetStatus =
     bnd (call (now B)) (\<lambda>t1.
     bnd (if targetStatus \<in> {''funded'', ''completed''} then call (now B) else ret t1) (\<lambda>t2.
     bnd (call (update_one (agreements B) (\<lambda>a. a_contract_id a = Some contractId \<and> a_status a \<noteq> targetStatus)
       (webhook_columns targetStatus t1 t2))) (after_status_update B html payload contractId targetStatus)))"

definition applyStatusUpdate :: "'s backend \<Rightarrow> (string \<Rightarrow> json \<Rightarrow> exn + string) \<Rightarrow> json \<Rightarrow> string \<Rightarrow> ('s world, unit) prog" where
  "applyStatusUpdate B html payload targetStatus =
     (let contractId = prop_text ''contractId'' payload
      in bnd (call (select_one (agreements B) (\<lambda>a. a_contract_id a = Some contractId))) (\<lambda>(current, selectError).
         case selectError of
           Some e \<Rightarrow> throw (PlainError (e_message e))
         | None \<Rightarrow> (case current of
             None \<Rightarrow> write_webhook_status B html payload contractId targetStatus
           | Some a \<Rightarrow> (case validateTransition (a_status a) targetStatus of
               Some (code, details) \<Rightarrow>
                 logActivity B (a_id a) ''trustless-work-webhook'' ''webhook_transition_rejected''
                   (JObj (event_details payload @ [(''from'', JStr (a_status a)), (''to'', JStr targetStatus),
                     (''reason'', JObj [(''code'', JStr code), (''details'', JArr (map detail_json details))])])) None None
             | None \<Rightarrow> write_webhook_status B html payload contractId targetStatus))))"

section \<open>Applying a milestone\<close>

text \<open>The element a property key names, for a key that is an index.\<close>

definition element :: "json \<Rightarrow> 'a list \<Rightarrow> nat option" where
  "element v xs = List.find (\<lambda>i. nat_str i = js_String v) [0..<length xs]"

definition set_element :: "json \<Rightarrow> ('a \<Rightarrow> 'a) \<Rightarrow> 'a list \<Rightarrow> exn + 'a list" where
  "set_element v f xs = (case element v xs of None \<Rightarrow> Inl (PlainError ''TypeError'') | Some i \<Rightarrow> Inr (xs[i := f (xs ! i)]))"

definition set_field :: "json \<Rightarrow> ('b \<Rightarrow> 'a \<Rightarrow> 'a) \<Rightarrow> 'b option \<Rightarrow> 'a list \<Rightarrow> exn + 'a list" where
  "set_field v f x xs = (case x of None \<Rightarrow> Inr xs | Some y \<Rightarrow> set_element v (f y) xs)"

text \<open>The status to store, when the reported one is canonical, and the description, when there is one.\<close>

definition reported_status :: "json \<Rightarrow> string option" where
  "reported_status payload = (case jpath ''milestone'' ''status'' payload of
     Some (JStr s) \<Rightarrow> if s \<noteq> [] then normalizeMilestoneStatus s else None
   | _ \<Rightarrow> None)"

definition reported_description :: "json \<Rightarrow> string option" where
  "reported_description payload = (let d = jpath ''milestone'' ''description'' payload in if jtruthy d then map_option js_String d else None)"

definition patch_milestones :: "json \<Rightarrow> json \<Rightarrow> milestone list \<Rightarrow> exn + milestone list" where
  "patch_milestones payload milestoneIndex ms =
     (case set_field milestoneIndex (\<lambda>s. ms_status_update (\<lambda>_. Some s)) (reported_status payload) ms of
        Inl e \<Rightarrow> Inl e
      | Inr ms' \<Rightarrow> set_field milestoneIndex (\<lambda>d. ms_description_update (\<lambda>_. Some d)) (reported_description payload) ms')"

definition applyMilestoneUpdate :: "'s backend \<Rightarrow> json \<Rightarrow> ('s world, unit) prog" where
  "applyMilestoneUpdate B payload =
     (let contractId = prop_text ''contractId'' payload
      in bnd (call (select_one (agreements B) (\<lambda>a. a_contract_id a = Some contractId))) (\<lambda>(agreement, fetchError).
         case (fetchError, agreement) of
           (None, Some a) \<Rightarrow>
             (let own = jpath ''milestone'' ''index'' payload; index = (if nullish own then jpath ''data'' ''milestone_index'' payload else own)
              in case index of
                   None \<Rightarrow> ret ()
                 | Some v \<Rightarrow>
                     if js_less (json_number index) (Fin 0) then ret ()
                     else (case a_milestones a of
                       None \<Rightarrow> ret ()
                     | Some ms \<Rightarrow>
                         if js_le (Fin (of_nat (length ms))) (json_number index) then ret ()
                         else
                           bnd (lift_exn (patch_milestones payload v ms)) (\<lambda>ms'.
                           bnd (call (now B)) (\<lambda>t.
                           bnd (call (update_rows (agreements B) (\<lambda>r. a_contract_id r = Some contractId)
                             (\<lambda>r. r\<lparr>a_milestones := Some ms', a_updated_at := t\<rparr>))) (\<lambda>updateError.
                           case updateError of
                             Some e \<Rightarrow> throw (PlainError (e_message e))
                           | None \<Rightarrow>
                               logActivity B (a_id a) ''trustless-work-webhook'' ''webhook_milestone_updated''
                                 (JObj (event_details payload @ [(''milestone_index'', v)])) None None)))))
         | _ \<Rightarrow> ret ()))"

section \<open>The handler of the queue\<close>

text \<open>\<open>s.replace('.', '_')\<close> replaces the first dot; there is no such method on other values.\<close>

fun first_dot :: "string \<Rightarrow> string" where
  "first_dot [] = []"
| "first_dot (c # s) = (if c = CHR ''.'' then CHR ''_'' # s else c # first_dot s)"

definition applyInfoUpdate :: "'s backend \<Rightarrow> json \<Rightarrow> ('s world, unit) prog" where
  "applyInfoUpdate B payload =
     bnd (call (select_one (agreements B) (\<lambda>a. a_contract_id a = Some (prop_text ''contractId'' payload)))) (\<lambda>(agreement, fetchError).
     case (fetchError, agreement, jget ''event'' payload) of
       (None, Some a, Some (JStr event)) \<Rightarrow>
         logActivity B (a_id a) ''trustless-work-webhook'' (''webhook_event_'' @ first_dot event)
           (JObj (event_details payload @ jopt ''data'' (jget ''data'' payload))) None None
     | (None, Some a, _) \<Rightarrow> throw (PlainError ''TypeError'')
     | _ \<Rightarrow> ret ())"

definition processEvent :: "'s backend \<Rightarrow> (string \<Rightarrow> json \<Rightarrow> exn + string) \<Rightarrow> json \<Rightarrow> ('s world, unit) prog" where
  "processEvent B html job =
     (case (jget ''payload'' job, jget ''config'' job) of
        (Some payload, Some config) \<Rightarrow>
          if jget ''action'' config = Some (JStr ''status_update'') then applyStatusUpdate B html payload (prop_text ''targetStatus'' config)
          else if jget ''action'' config = Some (JStr ''milestone_update'') then applyMilestoneUpdate B payload
          else if jget ''action'' config = Some (JStr ''info'') then applyInfoUpdate B payload
          else ret ()
      | _ \<Rightarrow> throw (PlainError ''TypeError''))"

definition webhook_handlers :: "'s backend \<Rightarrow> (string \<Rightarrow> json \<Rightarrow> exn + string) \<Rightarrow> 's handlers" where
  "webhook_handlers B html jobType =
     (if jobType = ''webhook_event_processing'' then Some (\<lambda>job attempt. bnd (processEvent B html job) (\<lambda>_. ret JNull)) else None)"

section \<open>What an event may change\<close>

definition milestones_patched :: "milestone list \<Rightarrow> milestone list \<Rightarrow> bool" where
  "milestones_patched ms ms' \<longleftrightarrow> ms' = ms \<or>
     (\<exists>i s d. i < length ms \<and> ms' = ms[i := (ms ! i)\<lparr>ms_status := s, ms_description := d\<rparr>] \<and>
        (s = ms_status (ms ! i) \<or> (\<exists>c. s = Some c \<and> isMilestoneStatus c)))"

text \<open>An agreement before and after: a step of the lifecycle, or a milestone patched, on the contract of the event.\<close>

definition webhook_step :: "string \<Rightarrow> agreement \<Rightarrow> agreement \<Rightarrow> bool" where
  "webhook_step cid a a' \<longleftrightarrow> a' = a \<or> a_contract_id a = Some cid \<and>
     (lifecycle_step (a_status a) (a_status a') \<and>
        a' = a\<lparr>a_status := a_status a', a_updated_at := a_updated_at a', a_funded_at := a_funded_at a', a_completed_at := a_completed_at a'\<rparr> \<or>
      (\<exists>ms ms'. a_milestones a = Some ms \<and> milestones_patched ms ms' \<and> a' = a\<lparr>a_milestones := Some ms', a_updated_at := a_updated_at a'\<rparr>))"

definition webhook_effect :: "string \<Rightarrow> tables \<Rightarrow> tables \<Rightarrow> bool" where
  "webhook_effect cid ts ts' \<longleftrightarrow>
     ts' = ts\<lparr>t_agreements := t_agreements ts', t_activity := t_activity ts', t_notifications := t_notifications ts'\<rparr> \<and>
     list_all2 (webhook_step cid) (t_agreements ts) (t_agreements ts')"

text \<open>A failing attempt has changed no agreement, so that the next one starts from the same state.\<close>

definition webhook_outcome :: "('s \<Rightarrow> tables) \<Rightarrow> string \<Rightarrow> 's world \<Rightarrow> exn + unit \<Rightarrow> 's world \<Rightarrow> bool" where
  "webhook_outcome st cid w r v \<longleftrightarrow> webhook_effect cid (st (svc w)) (st (svc v)) \<and> spawned v = spawned w \<and> sent v = sent w \<and>
     (isl r \<longrightarrow> t_agreements (st (svc v)) = t_agreements (st (svc w)))"

lemma webhook_step_refl [simp]: "webhook_step cid a a"
  by (simp add: webhook_step_def)

lemma webhook_effect_refl [simp]: "webhook_effect cid ts ts"
  by (simp add: webhook_effect_def list_all2_same)

lemma webhook_effect_log: "webhook_effect cid ts us \<Longrightarrow> same_but_log us vs \<Longrightarrow> webhook_effect cid ts vs"
  by (cases ts; cases us; cases vs) (simp add: same_but_log_def webhook_effect_def)

lemma webhook_effect_mail: "webhook_effect cid ts us \<Longrightarrow> webhook_effect cid ts (us\<lparr>t_notifications := ns\<rparr>)"
  by (cases ts; cases us) (simp add: webhook_effect_def)

lemma webhook_effect_jobs: "webhook_effect cid ts us \<Longrightarrow> t_jobs us = t_jobs ts"
  by (cases ts; cases us) (simp add: webhook_effect_def)

lemma snd_bnd_ret: "snd (bnd m (\<lambda>_. ret x) w) = snd (m w)"
  by (cases "m w"; cases "fst (m w)") (auto simp: bnd_run ret_run)

lemma webhook_outcome_same: "st (svc v) = st (svc w) \<Longrightarrow> spawned v = spawned w \<Longrightarrow> sent v = sent w \<Longrightarrow> webhook_outcome st cid w r v"
  by (simp add: webhook_outcome_def)

lemma element_index: "element v xs = Some i \<Longrightarrow> i < length xs"
  by (auto simp: element_def find_Some_iff)

lemma element_update [simp]: "element v (xs[i := x]) = element v xs"
  by (simp add: element_def)

lemma set_fieldD:
  "set_field v f x xs = Inr ys \<Longrightarrow> x = None \<and> ys = xs \<or>
     (\<exists>y i. x = Some y \<and> element v xs = Some i \<and> i < length xs \<and> ys = xs[i := f y (xs ! i)])"
  by (auto simp: set_field_def set_element_def element_index split: option.splits)

lemma reported_canonical: "reported_status payload = Some c \<Longrightarrow> isMilestoneStatus c"
  by (auto simp: reported_status_def normalizeMilestoneStatus_def split: option.splits json.splits if_splits)

lemma patch_effect:
  assumes "patch_milestones payload v ms = Inr ms'"
  shows "milestones_patched ms ms'"
proof -
  obtain ms1 where one: "set_field v (\<lambda>s. ms_status_update (\<lambda>_. Some s)) (reported_status payload) ms = Inr ms1"
    and two: "set_field v (\<lambda>d. ms_description_update (\<lambda>_. Some d)) (reported_description payload) ms1 = Inr ms'"
    using assms by (auto simp: patch_milestones_def split: sum.splits)
  have patched: "milestones_patched ms (ms[i := m])"
    if "i < length ms" "m = (ms ! i)\<lparr>ms_status := s, ms_description := d\<rparr>" "s = ms_status (ms ! i) \<or> (\<exists>c. s = Some c \<and> isMilestoneStatus c)"
    for i m s d
    using that unfolding milestones_patched_def by blast
  consider "ms1 = ms" | c i where "isMilestoneStatus c" "element v ms = Some i" "i < length ms" "ms1 = ms[i := (ms ! i)\<lparr>ms_status := Some c\<rparr>]"
    using set_fieldD [OF one] reported_canonical [of payload] by blast
  then show ?thesis
  proof cases
    case 1
    have "ms' = ms \<or> (\<exists>i d. i < length ms \<and> ms' = ms[i := (ms ! i)\<lparr>ms_description := Some d\<rparr>])"
      using set_fieldD [OF two] 1 by blast
    moreover have "milestones_patched ms ms" by (simp add: milestones_patched_def)
    ultimately show ?thesis by (auto intro!: patched [where s = "ms_status (ms ! i)" and i = i for i])
  next
    case 2
    have "ms' = ms1 \<or> (\<exists>d. ms' = ms1[i := (ms1 ! i)\<lparr>ms_description := Some d\<rparr>])"
      using set_fieldD [OF two] 2(2) unfolding 2(4) by auto
    then show ?thesis
    proof
      assume "ms' = ms1"
      then show ?thesis using 2 by (auto intro!: patched [where i = i and s = "Some c" and d = "ms_description (ms ! i)"])
    next
      assume "\<exists>d. ms' = ms1[i := (ms1 ! i)\<lparr>ms_description := Some d\<rparr>]"
      then show ?thesis using 2 by (auto intro!: patched [where i = i and s = "Some c"])
    qed
  qed
qed

text \<open>What the endpoint answers and stores.\<close>

definition accepted :: "crypto \<Rightarrow> (string \<Rightarrow> json option) \<Rightarrow> string \<Rightarrow> tables \<Rightarrow> tables \<Rightarrow> bool" where
  "accepted K parse raw ts ts' \<longleftrightarrow> (\<exists>js. ts' = ts\<lparr>t_jobs := t_jobs ts @ js\<rparr> \<and> length js \<le> 1 \<and>
     (\<forall>j \<in> set js. rj_type j = ''webhook_event_processing'' \<and> rj_status j = ''pending'' \<and> rj_attempts j = 0 \<and>
        (\<exists>p. parse raw = Some p \<and> rj_key j = ''webhook:'' @ prop_text ''contractId'' p @ '':'' @ prop_text ''event'' p @ '':'' @ take 16 (sha256 K (stringify p)) \<and>
          jget ''payload'' (rj_payload j) = Some p)))"

lemma accepted_refl: "accepted K parse raw ts ts"
  by (auto simp: accepted_def intro!: exI [of _ "[]"])

lemma accepted_one:
  assumes "parse raw = Some p" and "ts' = ts\<lparr>t_jobs := t_jobs ts @
    [gen_job i t (new_job ''webhook_event_processing'' (JObj ((''payload'', p) # c)) (buildIdempotencyKey K p) n t')]\<rparr>"
  shows "accepted K parse raw ts ts'"
  unfolding accepted_def assms(2)
  by (intro exI conjI, rule refl) (simp_all add: gen_job_def new_job_def jget_def assms(1) buildIdempotencyKey_def Let_def)

text \<open>
  A signed body: a secret is configured and not empty, and the header is not empty and is the hexadecimal HMAC of the body
  under this secret, with \<open>sha256=\<close> before it or not.
\<close>

definition signed :: "'s backend \<Rightarrow> crypto \<Rightarrow> string \<Rightarrow> string option \<Rightarrow> bool" where
  "signed B K raw sig \<longleftrightarrow> (\<exists>secret header. getenv B ''TRUSTLESS_WORK_WEBHOOK_SECRET'' = Some secret \<and> secret \<noteq> [] \<and>
     sig = Some header \<and> header \<noteq> [] \<and>
     ((\<exists>h. header = ''sha256='' @ h \<and> hex_bytes h = hex_bytes (hmac_sha256 K secret raw)) \<or>
      (\<nexists>h. header = ''sha256='' @ h) \<and> hex_bytes header = hex_bytes (hmac_sha256 K secret raw)))"

lemma prefixed: "take 7 s = ''sha256='' \<longleftrightarrow> (\<exists>h. s = ''sha256='' @ h)"
proof
  assume "take 7 s = ''sha256=''"
  then have "s = ''sha256='' @ drop 7 s" by (metis append_take_drop_id)
  then show "\<exists>h. s = ''sha256='' @ h" by blast
qed auto

lemma signed_iff: "signed B K raw sig \<longleftrightarrow> truthy sig \<and> verifySignature B K raw (default sig '''')"
proof (cases "getenv B ''TRUSTLESS_WORK_WEBHOOK_SECRET''")
  case None
  then show ?thesis by (simp add: signed_def verifySignature_def)
next
  case (Some secret)
  show ?thesis
  proof (cases sig)
    case None
    then show ?thesis by (simp add: signed_def)
  next
    case (Some header)
    have drop: "drop 7 (''sha256='' @ h) = h" for h :: string by simp
    show ?thesis
      unfolding signed_def verifySignature_def Let_def prefixed Some
      using \<open>getenv B _ = _\<close> drop by (cases "\<exists>h. header = ''sha256='' @ h") auto
  qed
qed

lemma handle_unsigned:
  "\<not> signed B K raw sig \<Longrightarrow> \<exists>m. handleTrustlessWork B K parse cfg raw sig w = (Inl (Unauthorized m), w)"
  by (auto simp: signed_iff handleTrustlessWork_def prog_simps)

lemma handle_answer:
  "handleTrustlessWork B K parse cfg raw sig w = (Inr x, w') \<Longrightarrow> \<exists>p. parse raw = Some p \<and> handleEvent B K cfg p w = (Inr x, w')"
  by (auto simp: handleTrustlessWork_def prog_simps split: if_splits option.splits)

context database begin

lemma wp_dispatchNotification:
  assumes ok: "\<And>v ns. st (svc v) = (st (svc w))\<lparr>t_notifications := ns\<rparr> \<Longrightarrow> spawned v = spawned w \<Longrightarrow> sent v = sent w \<Longrightarrow> Q (Inr ()) v"
  shows "wp (dispatchNotification B html status a) Q w"
proof -
  have told: "Q (Inr ()) v" if "notified st ag ev A w v" for ag ev A v
    using that by (rule notified_frame) (rule ok)
  have same: "Q (Inr ()) v" if "st (svc v) = st (svc w)" "spawned v = spawned w" "sent v = sent w" for v
    using that ok [of v "t_notifications (st (svc w))"] by simp
  show ?thesis
  proof -
    have completed: "wp (bnd (call (now B)) (\<lambda>t. emit ''agreement.completed'' (p t))) (\<lambda>_. Q (Inr ())) w" for p
      unfolding wp_bnd by (rule wp_now) (simp add: wp_emit same)
    have disputed: "wp (notifyDisputeOpened B html p) (\<lambda>_. Q (Inr ())) w" for p
      unfolding notifyDisputeOpened_def by (rule wp_notify) (erule told)
    show ?thesis
      unfolding dispatchNotification_def
      by (rule wp_guarded) (simp_all add: completed disputed wp_emit wp_ret same)
  qed
qed

lemma webhook_status_effect:
  assumes "\<forall>a \<in> set (t_agreements ts). a_contract_id a = Some cid \<longrightarrow> lifecycle_step (a_status a) target"
  shows "webhook_effect cid ts (ts\<lparr>t_agreements := update_where (\<lambda>a. a_contract_id a = Some cid \<and> a_status a \<noteq> target)
    (webhook_columns target t1 t2) (t_agreements ts)\<rparr>)"
  using assms
  by (auto simp: webhook_effect_def update_where_def list_all2_map2 list_all2_same webhook_step_def webhook_columns_def Let_def)

lemma wp_write_webhook_status:
  assumes "\<forall>a \<in> set (t_agreements (st (svc w))). a_contract_id a = Some cid \<longrightarrow> lifecycle_step (a_status a) target"
    and u: "st (svc u) = st (svc w)" "spawned u = spawned w" "sent u = sent w"
  shows "wp (write_webhook_status B html payload cid target) (webhook_outcome st cid w) u"
proof -
  have after: "wp (bnd (logActivity B i actor action d p n) (\<lambda>_. dispatchNotification B html target row)) (webhook_outcome st cid w) v"
    if "webhook_effect cid (st (svc w)) (st (svc v))" "spawned v = spawned w" "sent v = sent w" for i actor action d p n row v
    unfolding wp_bnd
    by (rule wp_logActivity, unfold sum.case, rule wp_dispatchNotification)
      (use that in \<open>auto simp: webhook_outcome_def intro: webhook_effect_log webhook_effect_mail\<close>)
  have written: "wp (bnd (call (update_one (agreements B) (\<lambda>a. a_contract_id a = Some cid \<and> a_status a \<noteq> target) (webhook_columns target t1 t2)))
      (after_status_update B html payload cid target)) (webhook_outcome st cid w) v"
    if "st (svc v) = st (svc w)" "spawned v = spawned w" "sent v = sent w" for t1 t2 v
    unfolding wp_bnd [of "call (update_one a b c)" for a b c]
  proof (rule agreements_wp(9), goal_cases)
    case (2 s')
    then show ?case
      using that by (auto simp: after_status_update_def wp_bnd wp_require intro!: agreements_wp(2) webhook_outcome_same)
  next
    case (3 r s')
    then show ?case
      using that webhook_status_effect [OF assms(1)] by (auto simp: after_status_update_def intro!: after)
  qed (use that in \<open>auto simp: after_status_update_def wp_throw intro!: webhook_outcome_same\<close>)
  show ?thesis
    unfolding write_webhook_status_def wp_bnd [of "call (now x)" for x] wp_bnd [of "if a then b else c" for a b c]
    by (rule wp_now, cases "target \<in> {''funded'', ''completed''}")
      (simp only: if_True if_False sum.case, rule wp_now, simp add: written u, simp add: wp_ret written u)
qed

lemma wp_applyStatusUpdate:
  "wp (applyStatusUpdate B html payload target) (webhook_outcome st (prop_text ''contractId'' payload) w) w"
proof -
  let ?cid = "prop_text ''contractId'' payload"
  have move: "wp (write_webhook_status B html payload ?cid target) (webhook_outcome st ?cid w) (w\<lparr>svc := s'\<rparr>)"
    if "st s' = st (svc w)" "\<forall>a \<in> set (t_agreements (st (svc w))). a_contract_id a = Some ?cid \<longrightarrow> lifecycle_step (a_status a) target" for s'
    by (rule wp_write_webhook_status) (use that in simp_all)
  show ?thesis
    unfolding applyStatusUpdate_def Let_def wp_bnd
  proof (rule agreements_wp(2), goal_cases)
    case (3 a s')
    have only: "\<forall>b \<in> set (t_agreements (st (svc w))). a_contract_id b = Some ?cid \<longrightarrow> b = a"
      using filter_singleD [OF 3(2)] by blast
    show ?case
    proof (cases "validateTransition (a_status a) target")
      case None
      then have "lifecycle_step (a_status a) target" by (simp add: validateTransition_ok_iff canTransition_iff_step)
      then show ?thesis using 3(1) only None by (auto intro!: move)
    next
      case (Some e)
      then show ?thesis
        using 3(1) by (cases e) (auto simp: webhook_outcome_def intro!: wp_logActivity intro: webhook_effect_log [OF webhook_effect_refl])
    qed
  qed (auto simp: wp_throw intro!: move webhook_outcome_same)
qed

lemma wp_applyMilestoneUpdate:
  "wp (applyMilestoneUpdate B payload) (webhook_outcome st (prop_text ''contractId'' payload) w) w"
proof -
  let ?cid = "prop_text ''contractId'' payload"
  have patch: "wp (bnd (lift_exn (patch_milestones payload v ms)) (\<lambda>ms'.
       bnd (call (now B)) (\<lambda>t.
       bnd (call (update_rows (agreements B) (\<lambda>r. a_contract_id r = Some ?cid) (\<lambda>r. r\<lparr>a_milestones := Some ms', a_updated_at := t\<rparr>))) (\<lambda>updateError.
       case updateError of
         Some e \<Rightarrow> throw (PlainError (e_message e))
       | None \<Rightarrow> logActivity B (a_id a) actor action d None None)))) (webhook_outcome st ?cid w) (w\<lparr>svc := s\<rparr>)"
    if s: "st s = st (svc w)" and one: "filter (\<lambda>a. a_contract_id a = Some ?cid) (t_agreements (st (svc w))) = [a]"
      and ms: "a_milestones a = Some ms" for s a ms v actor action d
  proof (cases "patch_milestones payload v ms")
    case (Inl e)
    then show ?thesis using s by (simp add: lift_exn_def bnd_throw_left wp_throw webhook_outcome_same)
  next
    case (Inr ms')
    have eff: "webhook_effect ?cid (st (svc w)) ((st (svc w))\<lparr>t_agreements := update_where (\<lambda>r. a_contract_id r = Some ?cid)
        (\<lambda>r. r\<lparr>a_milestones := Some ms', a_updated_at := t\<rparr>) (t_agreements (st (svc w)))\<rparr>)" for t
      using patch_effect [OF Inr] ms filter_singleD [OF one]
      by (auto simp: webhook_effect_def update_where_def list_all2_map2 list_all2_same webhook_step_def)
    show ?thesis
      unfolding Inr lift_exn_def sum.case bnd_ret_left wp_bnd [of "call x" for x]
    proof (rule wp_now, unfold sum.case, rule agreements_wp(7), goal_cases)
      case (2 t s1 s2)
      then show ?case
        using s eff by (auto simp: webhook_outcome_def intro!: wp_logActivity intro: webhook_effect_log [OF eff])
    qed (use s in \<open>auto simp: wp_throw intro!: webhook_outcome_same\<close>)
  qed
  show ?thesis
    unfolding applyMilestoneUpdate_def Let_def wp_bnd [of "call x" for x]
    by (rule agreements_wp(2))
      (auto simp: wp_ret split: option.split intro!: webhook_outcome_same patch)
qed

lemma wp_applyInfoUpdate:
  "wp (applyInfoUpdate B payload) (webhook_outcome st (prop_text ''contractId'' payload) w) w"
  unfolding applyInfoUpdate_def wp_bnd [of "call x" for x]
  by (rule agreements_wp(2))
    (auto simp: wp_ret wp_throw webhook_outcome_def split: option.split json.split
      intro!: wp_logActivity intro: webhook_effect_log [OF webhook_effect_refl])

lemma wp_processEvent:
  assumes "jget ''payload'' job = Some payload"
  shows "wp (processEvent B html job) (webhook_outcome st (prop_text ''contractId'' payload) w) w"
  using assms
  by (auto simp: processEvent_def wp_ret wp_throw webhook_outcome_same split: option.split
    intro!: wp_applyStatusUpdate wp_applyMilestoneUpdate wp_applyInfoUpdate)

lemma webhook_handlers_leave: "leave_jobs st (webhook_handlers B html)"
proof -
  have "t_jobs (st (svc (snd (processEvent B html p w)))) = t_jobs (st (svc w))" for p and w :: "'s world"
  proof (cases "jget ''payload'' p")
    case None
    then show ?thesis by (simp add: processEvent_def throw_run)
  next
    case (Some q)
    have "webhook_effect (prop_text ''contractId'' q) (st (svc w)) (st (svc (snd (processEvent B html p w))))"
      using wpD [OF wp_processEvent [OF Some], of html w "fst (processEvent B html p w)" "snd (processEvent B html p w)"]
      by (simp add: webhook_outcome_def)
    then show ?thesis by (rule webhook_effect_jobs)
  qed
  then show ?thesis
    by (simp add: leave_jobs_def webhook_handlers_def snd_bnd_ret)
qed

lemma wp_handleEvent:
  assumes "parse raw = Some p"
  shows "wp (handleEvent B K cfg p) (\<lambda>r v. accepted K parse raw (st (svc w)) (st (svc v))) w"
proof (cases "config_fields (prop_text ''event'' p)")
  case None
  then show ?thesis by (simp add: handleEvent_def wp_ret accepted_refl)
next
  case (Some c)
  show ?thesis
    unfolding handleEvent_def Some option.case wp_bnd
    by (rule wp_enqueue)
      (auto simp: wp_ret accepted_refl intro!: accepted_one [of parse raw p, OF assms])
qed

lemma wp_handleTrustlessWork:
  "wp (handleTrustlessWork B K parse cfg raw sig) (\<lambda>r v. accepted K parse raw (st (svc w)) (st (svc v))) w"
  unfolding handleTrustlessWork_def
  by (auto simp: wp_bnd wp_require wp_throw accepted_refl split: option.split intro!: wp_handleEvent)

lemma handle_again:
  assumes "handleTrustlessWork B K parse cfg raw sig w = (r, w1)" and "handleTrustlessWork B K parse cfg raw sig w1 = (r', w2)"
    and "r = Inr x" and "r' = Inr y"
  shows "r' = r \<and> t_jobs (st (svc w2)) = t_jobs (st (svc w1))"
proof -
  obtain p where p: "handleEvent B K cfg p w = (Inr x, w1)" "handleEvent B K cfg p w1 = (Inr y, w2)"
    using handle_answer assms by (metis option.inject)
  show ?thesis
  proof (cases "config_fields (prop_text ''event'' p)")
    case None
    then show ?thesis using p assms(3,4) by (simp add: handleEvent_def ret_run)
  next
    case (Some c)
    let ?e = "enqueue B cfg ''webhook_event_processing'' (JObj ([(''payload'', p)] @ c)) (buildIdempotencyKey K p) None"
    have e: "handleEvent B K cfg p = bnd ?e (\<lambda>_. ret (True, None))" by (simp add: handleEvent_def Some)
    have run: "\<exists>j. m u = (Inr j, v) \<and> z = k" if "bnd m (\<lambda>_. ret k) u = (Inr z, v)" for m :: "('s world, retry_job) prog" and k :: "bool \<times> string option" and u v z
      using that by (auto simp: bnd_Inr ret_run)
    obtain j j' where "?e w = (Inr j, w1)" "?e w1 = (Inr j', w2)" "x = (True, None)" "y = (True, None)"
      using run [OF p(1) [unfolded e]] run [OF p(2) [unfolded e]] by blast
    then show ?thesis using enqueue_again assms(3,4) by auto
  qed
qed

end

section \<open>Properties\<close>

text \<open>
  (C25) Only signed events are taken, and each once. Over any database, hash functions and parser: a request whose signature
  header is missing or empty or does not decode to the HMAC of its body under the configured secret, and any request while no secret or an
  empty one is configured, is answered 401 and changes
  nothing at all; any request adds at most one pending job of the webhook type, whose key and payload come from its
  body; and delivering a handled event again gets the same answer and adds no job.
\<close>

theorem webhook_signed_once:
  assumes "database B st" and "handleTrustlessWork B K parse cfg raw sig w = (r, w1)"
    and "handleTrustlessWork B K parse cfg raw sig w1 = (r', w2)"
  shows "(\<not> signed B K raw sig \<longrightarrow> w1 = w \<and> (\<exists>m. r = Inl (Unauthorized m))) \<and>
    accepted K parse raw (st (svc w)) (st (svc w1)) \<and>
    ((\<exists>x. r = Inr x) \<and> (\<exists>x. r' = Inr x) \<longrightarrow> r' = r \<and> t_jobs (st (svc w2)) = t_jobs (st (svc w1)))"
proof (intro conjI)
  show "\<not> signed B K raw sig \<longrightarrow> w1 = w \<and> (\<exists>m. r = Inl (Unauthorized m))"
    using handle_unsigned [of B K raw sig parse cfg w] assms(2) by auto
  show "accepted K parse raw (st (svc w)) (st (svc w1))"
    by (rule wpD [OF database.wp_handleTrustlessWork [OF assms(1)] assms(2)])
  show "(\<exists>x. r = Inr x) \<and> (\<exists>x. r' = Inr x) \<longrightarrow> r' = r \<and> t_jobs (st (svc w2)) = t_jobs (st (svc w1))"
    using database.handle_again [OF assms] by blast
qed

text \<open>
  (C26) An event moves only its own agreement, and only along the lifecycle. Over any database, whatever calls fail: applying a
  queued event leaves every agreement as it was, or, for the one with the event's contract, takes one step of the lifecycle
  or patches the status (to a canonical one) and description of one milestone; beside the agreements it writes the activity and the notification
  log only, and a failing application has changed no agreement, so its retry starts over.
\<close>

theorem webhook_moves_along_lifecycle:
  assumes "database B st" and "jget ''payload'' job = Some payload" and "processEvent B html job w = (r, w')"
  shows "webhook_outcome st (prop_text ''contractId'' payload) w r w'"
  by (rule wpD [OF database.wp_processEvent [OF assms(1,2)] assms(3)])

definition tw_event :: "string \<Rightarrow> (string \<times> json) list \<Rightarrow> json" where
  "tw_event name extra = JObj ([(''event'', JStr name), (''contractId'', JStr ''C1'')] @ extra)"

definition sample_crypto :: crypto where
  "sample_crypto = \<lparr>hmac_sha256 = (\<lambda>k m. ''0aFf''), sha256 = (\<lambda>m. m)\<rparr>"

definition hook_vars :: "string \<Rightarrow> string option" where
  "hook_vars k = (if k = ''TRUSTLESS_WORK_WEBHOOK_SECRET'' then Some ''s3'' else None)"

definition deliver :: "string \<Rightarrow> string option \<Rightarrow> mem world \<Rightarrow> (exn + bool \<times> string option) \<times> mem world" where
  "deliver event sig = handleTrustlessWork (mem_backend hook_vars) sample_crypto (\<lambda>raw. Some (tw_event raw [])) RETRY_QUEUE_DEFAULTS event sig"

lemma webhook_signed_once_witness:
  "deliver ''escrow.funded'' (Some ''sha256=0aFe'') (queue_world []) = (Inl (Unauthorized ''Invalid webhook signature''), queue_world []) \<and>
   job_states (snd (deliver ''escrow.funded'' (Some ''sha256=0AFF'') (snd (deliver ''escrow.funded'' (Some ''0aff'') (queue_world []))))) = [(''pending'', 0)] \<and>
   t_jobs (tabs (svc (snd (deliver ''escrow.funded'' (Some ''0aff'') (snd (deliver ''escrow.funded'' (Some ''0aff'') (queue_world []))))))) =
     t_jobs (tabs (svc (snd (deliver ''escrow.funded'' (Some ''0aff'') (queue_world [])))))"
proof -
  let ?w1 = "snd (deliver ''escrow.funded'' (Some ''0aff'') (queue_world []))"
  have run: "handleTrustlessWork (mem_backend hook_vars) sample_crypto (\<lambda>raw. Some (tw_event raw [])) RETRY_QUEUE_DEFAULTS e s v =
      (fst (deliver e s v), snd (deliver e s v))" for e s v
    by (simp add: deliver_def)
  have uns: "\<not> signed (mem_backend hook_vars) sample_crypto ''escrow.funded'' (Some ''sha256=0aFe'')"
    unfolding signed_iff by code_simp
  have f: "fst (deliver ''escrow.funded'' (Some ''0aff'') (queue_world [])) = Inr (True, None)"
    "fst (deliver ''escrow.funded'' (Some ''0aff'') ?w1) = Inr (True, None)"
    "fst (deliver ''escrow.funded'' (Some ''sha256=0aFe'') (queue_world [])) = Inl (Unauthorized ''Invalid webhook signature'')"
    "job_states (snd (deliver ''escrow.funded'' (Some ''sha256=0AFF'') ?w1)) = [(''pending'', 0)]"
    by code_simp+
  have "snd (deliver ''escrow.funded'' (Some ''sha256=0aFe'') (queue_world [])) = queue_world []"
    using webhook_signed_once [OF mem.database_axioms run run] uns by blast
  moreover have "t_jobs (tabs (svc (snd (deliver ''escrow.funded'' (Some ''0aff'') ?w1)))) = t_jobs (tabs (svc ?w1))"
    using webhook_signed_once [OF mem.database_axioms run [of "''escrow.funded''" "Some ''0aff''" "queue_world []"] run] f by blast
  ultimately show ?thesis using f by (auto simp: prod_eq_iff)
qed

definition hook_world :: "string \<Rightarrow> milestone list \<Rightarrow> mem world" where
  "hook_world status ms = world_on (no_tables\<lparr>t_agreements := [(linked_agreement status)\<lparr>a_milestones := Some ms\<rparr>]\<rparr>) quiet_env"

definition hook_run :: "string \<Rightarrow> (string \<times> json) list \<Rightarrow> mem world \<Rightarrow> (exn + unit) \<times> mem world" where
  "hook_run event extra = processEvent (mem_backend hook_vars) (\<lambda>t d. Inr t)
     (JObj ((''payload'', tw_event event extra) # the (config_fields event)))"

definition hook_milestone :: "string \<Rightarrow> milestone" where
  "hook_milestone s = \<lparr>ms_description = None, ms_amount = None, ms_status = Some s, ms_evidence_description = None, ms_evidence_urls = None, ms_evidence_at = None\<rparr>"

definition milestone_event :: "string \<Rightarrow> (string \<times> json) list" where
  "milestone_event s = [(''milestone'', JObj [(''index'', JNum 0), (''status'', JStr s)])]"

definition milestone_statuses :: "mem world \<Rightarrow> string option list" where
  "milestone_statuses w = concat (map (\<lambda>a. map ms_status (default (a_milestones a) [])) (t_agreements (tabs (svc w))))"

lemma webhook_moves_along_lifecycle_witness:
  "statuses (snd (hook_run ''escrow.funded'' [] (hook_world ''pending'' []))) = [''funded''] \<and>
   map fst (emitted (snd (hook_run ''escrow.funded'' [] (hook_world ''pending'' [])))) = [''agreement.funded''] \<and>
   webhook_outcome tabs ''C1'' (hook_world ''pending'' []) (fst (hook_run ''escrow.funded'' [] (hook_world ''pending'' [])))
     (snd (hook_run ''escrow.funded'' [] (hook_world ''pending'' [])))"
proof -
  have run: "processEvent (mem_backend hook_vars) (\<lambda>t d. Inr t) (JObj ((''payload'', tw_event e x) # the (config_fields e))) v =
      (fst (hook_run e x v), snd (hook_run e x v))" for e x v
    by (simp add: hook_run_def)
  have p: "jget ''payload'' (JObj ((''payload'', q) # c)) = Some q" for q c by (simp add: jget_def)
  have "prop_text ''contractId'' (tw_event e x) = ''C1''" for e x by (simp add: tw_event_def prop_text_def jget_def)
  then have "webhook_outcome tabs ''C1'' (hook_world ''pending'' []) (fst (hook_run ''escrow.funded'' [] (hook_world ''pending'' [])))
     (snd (hook_run ''escrow.funded'' [] (hook_world ''pending'' [])))"
    using webhook_moves_along_lifecycle [OF mem.database_axioms p run] by metis
  moreover have "statuses (snd (hook_run ''escrow.funded'' [] (hook_world ''pending'' []))) = [''funded'']"
    "map fst (emitted (snd (hook_run ''escrow.funded'' [] (hook_world ''pending'' [])))) = [''agreement.funded'']"
    by code_simp+
  ultimately show ?thesis by blast
qed

text \<open>
  Two runs against the intent. The release of a funded escrow does not complete the agreement: the step is not in
  the lifecycle, the refusal is logged, and since the job succeeds nothing retries it. And a milestone that was released
  goes back to any canonical status the event names, which the synchronisation refuses.
\<close>

lemma release_refused:
  "hook_run ''escrow.released'' [] (hook_world ''active'' []) =
     (Inr (), snd (hook_run ''escrow.released'' [] (hook_world ''active'' []))) \<and>
   statuses (snd (hook_run ''escrow.released'' [] (hook_world ''active'' []))) = [''active''] \<and>
   map act_action (t_activity (tabs (svc (snd (hook_run ''escrow.released'' [] (hook_world ''active'' [])))))) = [''webhook_transition_rejected'']"
proof -
  have "fst (hook_run ''escrow.released'' [] (hook_world ''active'' [])) = Inr ()"
    "statuses (snd (hook_run ''escrow.released'' [] (hook_world ''active'' []))) = [''active'']"
    "map act_action (t_activity (tabs (svc (snd (hook_run ''escrow.released'' [] (hook_world ''active'' [])))))) = [''webhook_transition_rejected'']"
    by code_simp+
  then show ?thesis by (simp add: prod_eq_iff)
qed

lemma released_milestone_reopened:
  "milestone_statuses (snd (hook_run ''milestone.rejected'' (milestone_event ''rejected'')
     (hook_world ''active'' [hook_milestone ''released'', hook_milestone ''pending'']))) = [Some ''rejected'', Some ''pending''] \<and>
   applyTWMilestoneUpdate ''released'' ''rejected'' = Conflicting"
  by code_simp

end
