(* ===== verification/HttpClient.thy ===== *)
theory HttpClient
  imports Relay
begin

text \<open>
  \<open>common/api/api-client.ts\<close>, the HTTP client of the services that read other servers: every outcome, also a
  failing connection, becomes an envelope. A body that is not JSON is text; a body announced as JSON that does not
  parse makes the call throw, which is a request without an answer.
\<close>

record api_response =
  ar_success :: bool
  ar_data :: "json option"
  ar_error :: "string option"

record api_config =
  ac_method :: string
  ac_url :: string
  ac_headers :: "(string \<times> string) list"
  ac_body :: "json option"
  ac_query :: "(string \<times> json) list"

text \<open>The query parameters that are sent: those with a value.\<close>

definition buildUrl :: "api_config \<Rightarrow> (string \<times> string) list" where
  "buildUrl c = map (\<lambda>(k, v). (k, js_String v)) (filter (\<lambda>(k, v). v \<noteq> JNull \<and> v \<noteq> JStr []) (ac_query c))"

definition buildFetchOptions :: "api_config \<Rightarrow> http_request" where
  "buildFetchOptions c = \<lparr>rq_method = ac_method c, rq_url = ac_url c, rq_query = buildUrl c,
     rq_headers = (''Content-Type'', ''application/json'') # ac_headers c,
     rq_body = (if jtruthy (ac_body c) \<and> ac_method c \<in> {''POST'', ''PATCH'', ''PUT''} then ac_body c else None)\<rparr>"

definition parseResponse :: "http_response \<Rightarrow> json" where
  "parseResponse r = (case rp_body r of Json v \<Rightarrow> v | Text s \<Rightarrow> if s \<noteq> [] then JStr s else JNull)"

definition extractErrorMessage :: "json \<Rightarrow> nat \<Rightarrow> string" where
  "extractErrorMessage error status = (case error of
     JObj kvs \<Rightarrow> (case jget ''message'' error of
         Some m \<Rightarrow> js_String m
       | None \<Rightarrow> (case jget ''error'' error of Some e \<Rightarrow> js_String e | None \<Rightarrow> ''HTTP '' @ nat_str status))
   | _ \<Rightarrow> ''HTTP '' @ nat_str status)"

definition request :: "'s backend \<Rightarrow> api_config \<Rightarrow> ('s world, api_response) prog" where
  "request B c =
     bnd (send B (buildFetchOptions c)) (\<lambda>answer.
     ret (case answer of
            Inl message \<Rightarrow> \<lparr>ar_success = False, ar_data = None, ar_error = Some message\<rparr>
          | Inr response \<Rightarrow>
              let responseData = parseResponse response
              in if \<not> (200 \<le> rp_status response \<and> rp_status response < 300)
                 then \<lparr>ar_success = False, ar_data = None, ar_error = Some (extractErrorMessage responseData (rp_status response))\<rparr>
                 else \<lparr>ar_success = True, ar_data = Some responseData, ar_error = None\<rparr>))"

definition api_get :: "'s backend \<Rightarrow> string \<Rightarrow> (string \<times> string) list \<Rightarrow> (string \<times> json) list \<Rightarrow> ('s world, api_response) prog" where
  "api_get B url headers query = request B \<lparr>ac_method = ''GET'', ac_url = url, ac_headers = headers, ac_body = None, ac_query = query\<rparr>"

definition api_post :: "'s backend \<Rightarrow> string \<Rightarrow> json \<Rightarrow> (string \<times> string) list \<Rightarrow> (string \<times> json) list \<Rightarrow> ('s world, api_response) prog" where
  "api_post B url body headers query = request B \<lparr>ac_method = ''POST'', ac_url = url, ac_headers = headers, ac_body = Some body, ac_query = query\<rparr>"

definition api_patch :: "'s backend \<Rightarrow> string \<Rightarrow> json \<Rightarrow> (string \<times> string) list \<Rightarrow> (string \<times> json) list \<Rightarrow> ('s world, api_response) prog" where
  "api_patch B url body headers query = request B \<lparr>ac_method = ''PATCH'', ac_url = url, ac_headers = headers, ac_body = Some body, ac_query = query\<rparr>"

definition api_delete :: "'s backend \<Rightarrow> string \<Rightarrow> (string \<times> string) list \<Rightarrow> (string \<times> json) list \<Rightarrow> ('s world, api_response) prog" where
  "api_delete B url headers query = request B \<lparr>ac_method = ''DELETE'', ac_url = url, ac_headers = headers, ac_body = None, ac_query = query\<rparr>"

definition api_put :: "'s backend \<Rightarrow> string \<Rightarrow> json \<Rightarrow> (string \<times> string) list \<Rightarrow> (string \<times> json) list \<Rightarrow> ('s world, api_response) prog" where
  "api_put B url body headers query = request B \<lparr>ac_method = ''PUT'', ac_url = url, ac_headers = headers, ac_body = Some body, ac_query = query\<rparr>"

text \<open>The envelope of an answer.\<close>

definition enveloped :: "string + http_response \<Rightarrow> api_response \<Rightarrow> bool" where
  "enveloped answer a \<longleftrightarrow> (ar_success a \<longleftrightarrow> (\<exists>r. answer = Inr r \<and> 200 \<le> rp_status r \<and> rp_status r < 300)) \<and>
     (ar_success a \<longleftrightarrow> ar_data a \<noteq> None) \<and> (ar_success a \<longleftrightarrow> ar_error a = None)"


context database begin

lemma wp_request:
  assumes "\<And>a answer s'. st s' = st (svc w) \<Longrightarrow> enveloped answer a \<Longrightarrow>
    Q (Inr a) (w\<lparr>svc := s', sent := sent w @ [(buildFetchOptions c, answer)]\<rparr>)"
  shows "wp (request B c) Q w"
  unfolding request_def wp_bnd
  by (rule wp_fetch) (auto simp: wp_ret enveloped_def Let_def intro!: assms split: sum.split)

end

section \<open>Properties\<close>

text \<open>
  The HTTP client is total. Over any database and network: a request, whatever happens to it, ends normally with an envelope after
  one attempt, changes no table, and the envelope says success, with data and without an error, exactly when an answer
  with a status of the 200s came; otherwise it carries an error's message and no data.
\<close>

theorem request_total:
  assumes "database B st" and "request B c w = (r, w')"
  shows "\<exists>a answer. r = Inr a \<and> enveloped answer a \<and> sent w' = sent w @ [(buildFetchOptions c, answer)] \<and> st (svc w') = st (svc w)"
proof -
  have "wp (request B c) (\<lambda>r v. \<exists>a answer. r = Inr a \<and> enveloped answer a \<and>
      sent v = sent w @ [(buildFetchOptions c, answer)] \<and> st (svc v) = st (svc w)) w"
    by (rule database.wp_request [OF assms(1)]) auto
  from wpD [OF this assms(2)] show ?thesis .
qed

definition sample_config :: api_config where
  "sample_config = \<lparr>ac_method = ''GET'', ac_url = ''https://x.io'', ac_headers = [], ac_body = None, ac_query = [(''a'', JStr ''1''), (''b'', JStr [])]\<rparr>"

definition sample_get :: "(string + http_response) \<Rightarrow> (exn + api_response) \<times> mem world" where
  "sample_get answer = request (mem_backend sample_vars) sample_config (world_on no_tables (quiet_env\<lparr>reply := \<lambda>_ _. answer\<rparr>))"

lemma request_total_witness:
  "fst (sample_get (Inr \<lparr>rp_status = 404, rp_body = Json (JObj [(''error'', JStr ''no account'')])\<rparr>)) =
     Inr \<lparr>ar_success = False, ar_data = None, ar_error = Some ''no account''\<rparr> \<and>
   map (rq_query \<circ> fst) (sent (snd (sample_get (Inl ''socket hang up'')))) = [[(''a'', ''1'')]] \<and>
   (\<exists>a answer. fst (sample_get (Inl ''socket hang up'')) = Inr a \<and> enveloped answer a)"
proof -
  have run: "request (mem_backend sample_vars) sample_config (world_on no_tables (quiet_env\<lparr>reply := \<lambda>_ _. answer\<rparr>)) =
      (fst (sample_get answer), snd (sample_get answer))" for answer
    by (simp add: sample_get_def)
  have "\<exists>a answer. fst (sample_get (Inl ''socket hang up'')) = Inr a \<and> enveloped answer a"
    using request_total [OF mem.database_axioms run] by blast
  moreover have "fst (sample_get (Inr \<lparr>rp_status = 404, rp_body = Json (JObj [(''error'', JStr ''no account'')])\<rparr>)) =
     Inr \<lparr>ar_success = False, ar_data = None, ar_error = Some ''no account''\<rparr>"
    "map (rq_query \<circ> fst) (sent (snd (sample_get (Inl ''socket hang up'')))) = [[(''a'', ''1'')]]"
    by code_simp+
  ultimately show ?thesis by blast
qed

end
