(* ===== verification/StellarProof.thy ===== *)
theory StellarProof
  imports JsonText
begin

text \<open>
  Wallet ownership proofs: \<open>wallets/helpers/stellar-verification.helper.ts\<close> and the challenge
  \<open>wallets/wallets.service.ts\<close> hands out. The cryptography of Node and of the Stellar SDK is an
  argument: HMAC and SHA-256, the base64url coding of a text and the JSON value such a coding reads back to,
  and the Ed25519 keys. Strings are bytes.
\<close>

section \<open>Cryptography\<close>

record signing =
  hmac_b64 :: "string \<Rightarrow> string \<Rightarrow> string"
  b64_text :: "string \<Rightarrow> string"
  b64_json :: "string \<Rightarrow> json option"
  sha256_raw :: "string \<Rightarrow> string"
  is_public_key :: "string \<Rightarrow> bool"
  key_verifies :: "string \<Rightarrow> string \<Rightarrow> string \<Rightarrow> bool"

section \<open>Text of a challenge\<close>

definition WALLET_OWNERSHIP_PREFIX :: string where
  "WALLET_OWNERSHIP_PREFIX = ''Thalos Wallet Ownership Proof''"

definition nl :: char where
  "nl = char_of (10::nat)"

definition SEP53_PREFIX :: string where
  "SEP53_PREFIX = ''Stellar Signed Message:'' @ [nl]"

definition networkPassphrase :: "string option \<Rightarrow> string" where
  "networkPassphrase network = (if \<not> truthy network \<or> network = Some ''testnet'' then ''Test SDF Network ; September 2015''
     else ''Public Global Stellar Network ; September 2015'')"

definition buildChallengeMessage :: "string \<Rightarrow> string \<Rightarrow> string \<Rightarrow> string \<Rightarrow> string \<Rightarrow> string" where
  "buildChallengeMessage sub addr nonce iat expiry = join [nl]
     [''Stellar Signed Message:'', WALLET_OWNERSHIP_PREFIX, [], ''I authorize linking this wallet to my Thalos account.'',
      ''Account: '' @ sub, ''Wallet: '' @ addr, ''Nonce: '' @ nonce, ''Issued At: '' @ iat, ''Expires At: '' @ expiry, []]"

definition challenge_payload :: "string \<Rightarrow> string \<Rightarrow> string \<Rightarrow> int \<Rightarrow> json" where
  "challenge_payload sub addr nonce expiry =
     JObj [(''v'', JNum 1), (''sub'', JStr sub), (''addr'', JStr addr), (''nonce'', JStr nonce), (''exp'', JNum (of_int expiry))]"

definition generateVerificationChallenge ::
    "'s backend \<Rightarrow> signing \<Rightarrow> string \<Rightarrow> string \<Rightarrow> ('s world, string \<times> string) prog" where
  "generateVerificationChallenge B K userId address =
     bnd (call (now B)) (\<lambda>issuedAt.
     bnd (call (random_id B)) (\<lambda>nonce.
     let expiresAt = issuedAt + 5 * 60 * 1000;
         payloadB64 = b64_text K (stringify (challenge_payload userId address nonce (expiresAt div 1000)))
     in bnd (require (truthy (getenv B ''JWT_SECRET'')) (InternalServerError ''Server misconfiguration'')) (\<lambda>_.
        let sig = hmac_b64 K (default (getenv B ''JWT_SECRET'') []) payloadB64;
            message = ''Stellar Signed Message:'' @ [nl] @ WALLET_OWNERSHIP_PREFIX @ [nl] @ [nl] @
              ''I authorize linking this wallet to my Thalos account.'' @ [nl] @ ''Account: '' @ userId @ [nl] @
              ''Wallet: '' @ address @ [nl] @ ''Nonce: '' @ nonce @ [nl] @ ''Issued At: '' @ iso_string issuedAt @ [nl] @
              ''Expires At: '' @ iso_string expiresAt @ [nl] @ [nl] @ ''Proof: '' @ payloadB64 @ ''.'' @ sig
        in ret (message, iso_string expiresAt))))"

section \<open>Finding the proof\<close>

text \<open>
  \<open>/^\s*Proof:\s*(.+)$/m\<close> at the start of a line: the white space may span lines; if only white space
  follows the colon, backtracking leaves its last character that ends no line.
\<close>

definition is_eol :: "char \<Rightarrow> bool" where
  "is_eol c \<longleftrightarrow> (of_char c :: nat) \<in> {10, 13}"

definition proof_group :: "string \<Rightarrow> string option" where
  "proof_group s = (case dropWhile js_space s of
     [] \<Rightarrow> (case rev (filter (\<lambda>c. \<not> is_eol c) s) of [] \<Rightarrow> None | c # _ \<Rightarrow> Some [c])
   | c # t \<Rightarrow> Some (takeWhile (\<lambda>c. \<not> is_eol c) (c # t)))"

definition proof_here :: "string \<Rightarrow> string option" where
  "proof_here s = (let u = dropWhile js_space s in if take 6 u = ''Proof:'' then proof_group (drop 6 u) else None)"

text \<open>The first line that matches.\<close>

function proof_match :: "string \<Rightarrow> string option" where
  "proof_match s = (case proof_here s of
     Some g \<Rightarrow> Some g
   | None \<Rightarrow> (case dropWhile (\<lambda>c. \<not> is_eol c) s of [] \<Rightarrow> None | _ # t \<Rightarrow> proof_match t))"
  by pat_completeness auto

lemma dropWhile_shorter: "dropWhile P s = c # t \<Longrightarrow> length t < length s"
  using length_dropWhile_le [of P s] by simp

termination proof_match
  by (relation "measure length") (auto dest: dropWhile_shorter)

declare proof_match.simps [simp del]

text \<open>\<open>/\n\s*Proof:\s*.+$/\<close> after the line feed: the rest of the text is the proof.\<close>

definition proof_tail :: "string \<Rightarrow> bool" where
  "proof_tail s \<longleftrightarrow> (let u = dropWhile js_space s; v = drop 6 u; t = dropWhile js_space v
     in take 6 u = ''Proof:'' \<and> (if t \<noteq> [] then list_all (\<lambda>c. \<not> is_eol c) t else v \<noteq> [] \<and> \<not> is_eol (last v)))"

fun cut_proof :: "string \<Rightarrow> string" where
  "cut_proof [] = []"
| "cut_proof (c # s) = (if c = nl \<and> proof_tail s then [] else c # cut_proof s)"

definition trim_end :: "string \<Rightarrow> string" where
  "trim_end s = rev (dropWhile js_space (rev s))"

definition stripProofLine :: "string \<Rightarrow> string" where
  "stripProofLine signedMessage = trim_end (cut_proof signedMessage)"

section \<open>Checking the proof\<close>

text \<open>All but the expiry, which depends on the clock.\<close>

definition read_challenge :: "signing \<Rightarrow> string \<Rightarrow> string \<Rightarrow> exn + json" where
  "read_challenge K signedMessage jwtSecret =
     (if signedMessage = [] then Inl (BadRequest (Msg ''signed_message is required''))
      else case proof_match signedMessage of
        None \<Rightarrow> Inl (Forbidden ''Invalid challenge format - missing Proof'')
      | Some prf \<Rightarrow> (case split_on (CHR ''.'') prf of
          payloadB64 # hmac # _ \<Rightarrow>
            if payloadB64 = [] \<or> hmac = [] then Inl (Forbidden ''Invalid proof format'')
            else if hmac \<noteq> hmac_b64 K jwtSecret payloadB64 then Inl (Forbidden ''Invalid proof signature'')
            else (case b64_json K payloadB64 of
              None \<Rightarrow> Inl (Forbidden ''Malformed proof payload'')
            | Some payload \<Rightarrow>
                if payload = JNull then Inl (PlainError ''TypeError'')
                else if \<not> jtruthy (jget ''sub'' payload) \<or> \<not> jtruthy (jget ''addr'' payload) \<or> \<not> jtruthy (jget ''exp'' payload)
                then Inl (Forbidden ''Incomplete proof payload'') else Inr payload)
        | _ \<Rightarrow> Inl (Forbidden ''Invalid proof format'')))"

definition parseAndVerifyChallenge :: "'s backend \<Rightarrow> signing \<Rightarrow> string \<Rightarrow> string \<Rightarrow> ('s world, json) prog" where
  "parseAndVerifyChallenge B K signedMessage jwtSecret =
     bnd (lift_exn (read_challenge K signedMessage jwtSecret)) (\<lambda>payload.
     bnd (call (now B)) (\<lambda>t.
     bnd (require (\<not> js_less (json_number (jget ''exp'' payload)) (Fin (of_int (t div 1000)))) (Forbidden ''Challenge has expired'')) (\<lambda>_.
     ret payload)))"

text \<open>The last argument of the code, the passphrase, is not used by it.\<close>

definition verifyStellarSignature :: "signing \<Rightarrow> string \<Rightarrow> string \<Rightarrow> string \<Rightarrow> exn + unit" where
  "verifyStellarSignature K signedMessage signature walletAddress =
     (if signature = [] then Inl (BadRequest (Msg ''signature is required''))
      else if \<not> is_public_key K walletAddress then Inl (BadRequest (Msg ''Invalid Stellar public key''))
      else let messageBody = stripProofLine signedMessage
           in if starts_with SEP53_PREFIX messageBody then
                if key_verifies K walletAddress (sha256_raw K messageBody) signature then Inr () else Inl (Forbidden ''Invalid Stellar signature'')
              else if starts_with WALLET_OWNERSHIP_PREFIX messageBody then
                if key_verifies K walletAddress messageBody signature then Inr () else Inl (Forbidden ''Invalid Stellar signature'')
              else Inl (Forbidden ''Unrecognized challenge prefix''))"

section \<open>A challenge is read back\<close>

text \<open>Characters that end no line, and a text that is one word of such characters.\<close>

definition one_line :: "string \<Rightarrow> bool" where
  "one_line s \<longleftrightarrow> list_all (\<lambda>c. \<not> is_eol c) s"

definition word_text :: "string \<Rightarrow> bool" where
  "word_text s \<longleftrightarrow> s \<noteq> [] \<and> list_all (\<lambda>c. \<not> js_space c \<and> c \<noteq> CHR ''.'') s"

lemma eol_space: "is_eol c \<Longrightarrow> js_space c"
  by (auto simp: is_eol_def js_space_def)

lemma nl_eol [simp]: "is_eol nl" "js_space nl"
  by (simp_all add: is_eol_def js_space_def nl_def)

lemma one_line_simps [simp]: "one_line []" "one_line (c # s) \<longleftrightarrow> \<not> is_eol c \<and> one_line s" "one_line (s @ t) \<longleftrightarrow> one_line s \<and> one_line t"
  by (simp_all add: one_line_def)

lemma one_line_nl: "one_line s \<Longrightarrow> nl \<notin> set s"
  by (auto simp: one_line_def list_all_iff)

lemma one_line_takeWhile: "one_line l \<Longrightarrow> dropWhile (\<lambda>c. \<not> is_eol c) (l @ nl # s) = nl # s"
  by (induction l) auto

lemma word_one_line: "word_text s \<Longrightarrow> one_line s"
  by (auto simp: word_text_def one_line_def list_all_iff dest: eol_space)

lemma word_no_dot: "word_text s \<Longrightarrow> CHR ''.'' \<notin> set s"
  by (auto simp: word_text_def list_all_iff)

lemma one_line_all: "one_line s \<Longrightarrow> takeWhile (\<lambda>c. \<not> is_eol c) s = s"
  by (simp add: one_line_def list_all_iff takeWhile_eq_all_conv)

text \<open>A line that starts with another letter is passed over; a blank line is white space before the next.\<close>

definition plain_line :: "string \<Rightarrow> bool" where
  "plain_line l \<longleftrightarrow> one_line l \<and> (case l of [] \<Rightarrow> False | c # _ \<Rightarrow> \<not> js_space c \<and> c \<noteq> CHR ''P'')"

lemma plain_head:
  assumes "plain_line l"
  obtains c t where "l = c # t" "\<not> js_space c" "c \<noteq> CHR ''P''" "one_line l"
  using assms by (auto simp: plain_line_def split: list.splits)

lemma proof_match_plain: "plain_line l \<Longrightarrow> proof_match (l @ nl # s) = proof_match s"
  by (erule plain_head, subst proof_match.simps)
    (auto simp: proof_here_def one_line_takeWhile)

lemma proof_match_blank: "proof_match (nl # s) = proof_match s"
proof -
  have "proof_here (nl # s) = proof_here s" by (simp add: proof_here_def)
  then show ?thesis
    by (cases "proof_here s") (simp_all add: proof_match.simps [of "nl # s"] proof_match.simps [of s])
qed

lemma space_kept: "word_text p \<Longrightarrow> dropWhile js_space (CHR '' '' # p @ q) = p @ q"
  by (cases p) (auto simp: word_text_def js_space_def)

lemma proof_match_here:
  assumes "word_text p" and "word_text q"
  shows "proof_match (''Proof: '' @ p @ ''.'' @ q) = Some (p @ ''.'' @ q)"
proof -
  have l: "takeWhile (\<lambda>c. \<not> is_eol c) (p @ ''.'' @ q) = p @ ''.'' @ q"
    by (rule one_line_all) (use assms [THEN word_one_line] in \<open>simp add: is_eol_def\<close>)
  obtain c t where p: "p = c # t" using assms(1) by (cases p) (auto simp: word_text_def)
  have "proof_group (CHR '' '' # p @ ''.'' @ q) = Some (p @ ''.'' @ q)"
    using l unfolding proof_group_def space_kept [OF assms(1), of "''.'' @ q"] by (simp add: p)
  then show ?thesis
    by (subst proof_match.simps) (simp add: proof_here_def js_space_def)
qed

lemma proof_tail_plain: "plain_line l \<Longrightarrow> \<not> proof_tail (l @ s)"
  by (erule plain_head) (auto simp: proof_tail_def)

lemma proof_tail_blank: "proof_tail (nl # s) = proof_tail s"
  by (simp add: proof_tail_def)

lemma proof_tail_here:
  assumes "word_text p" and "word_text q"
  shows "proof_tail (''Proof: '' @ p @ ''.'' @ q)"
  using assms space_kept [OF assms(1), of "''.'' @ q"]
  by (auto simp: proof_tail_def js_space_def word_text_def is_eol_def list_all_iff dest: eol_space)

lemma cut_proof_line: "one_line l \<Longrightarrow> cut_proof (l @ nl # s) = (if proof_tail s then l else l @ nl # cut_proof s)"
  by (induction l) auto

lemma trim_end_kept: "\<not> js_space c \<Longrightarrow> trim_end (s @ [c]) = s @ [c]"
  by (simp add: trim_end_def)

lemma trim_end_nl: "trim_end (s @ [nl]) = trim_end s"
  by (simp add: trim_end_def)

lemma nat_str_digits: "c \<in> set (nat_str n) \<Longrightarrow> 48 \<le> (of_char c :: nat) \<and> (of_char c :: nat) \<le> 57"
  by (induction n rule: nat_str.induct) (subst (asm) (2) nat_str.simps, auto split: if_splits)

lemma one_line_pad: "one_line (pad k n)"
  by (auto simp: pad_def Let_def one_line_def list_all_iff is_eol_def dest!: nat_str_digits)

lemma one_line_iso: "one_line (iso_string t)"
  by (auto simp: iso_string_def one_line_pad Let_def is_eol_def split: prod.split)

lemma iso_end: "\<exists>s. iso_string t = s @ [CHR ''Z'']"
  by (auto simp: iso_string_def Let_def split: prod.split)

text \<open>The lines a wallet signs.\<close>

definition challenge_lines :: "string \<Rightarrow> string \<Rightarrow> string \<Rightarrow> string \<Rightarrow> string \<Rightarrow> string list" where
  "challenge_lines sub addr nonce iat expiry =
     [''Stellar Signed Message:'', WALLET_OWNERSHIP_PREFIX, [], ''I authorize linking this wallet to my Thalos account.'',
      ''Account: '' @ sub, ''Wallet: '' @ addr, ''Nonce: '' @ nonce, ''Issued At: '' @ iat, ''Expires At: '' @ expiry]"

definition text_lines :: "string list \<Rightarrow> bool" where
  "text_lines ls \<longleftrightarrow> ls \<noteq> [] \<and> list_all (\<lambda>l. plain_line l \<or> l = []) ls \<and> plain_line (last ls)"

lemma plain_one_line: "plain_line l \<Longrightarrow> one_line l"
  by (simp add: plain_line_def)

lemma text_lines_Cons: "text_lines (l # m # ls) \<longleftrightarrow> (plain_line l \<or> l = []) \<and> text_lines (m # ls)"
  by (auto simp: text_lines_def)

lemma challenge_text_lines:
  assumes "one_line sub" "one_line addr" "one_line nonce" "one_line iat" "one_line expiry"
  shows "text_lines (challenge_lines sub addr nonce iat expiry)"
  using assms
  by (simp add: text_lines_def challenge_lines_def plain_line_def js_space_def is_eol_def WALLET_OWNERSHIP_PREFIX_def)

lemma match_lines: "text_lines ls \<Longrightarrow> proof_match (join [nl] ls @ nl # s) = proof_match s"
  by (induction "[nl]" ls rule: join.induct)
    (auto simp: text_lines_Cons proof_match_plain proof_match_blank, simp_all add: text_lines_def proof_match_plain)

lemma tail_lines: "text_lines ls \<Longrightarrow> \<not> proof_tail (join [nl] ls @ s)"
  by (induction "[nl]" ls rule: join.induct)
    (auto simp: text_lines_Cons proof_tail_plain proof_tail_blank, simp_all add: text_lines_def proof_tail_plain)

lemma cut_lines: "text_lines ls \<Longrightarrow> proof_tail s \<Longrightarrow> cut_proof (join [nl] ls @ nl # s) = join [nl] ls"
proof (induction "[nl]" ls rule: join.induct)
  case (2 l)
  then show ?case using cut_proof_line [of l s] by (auto simp: text_lines_def plain_one_line)
next
  case (3 l m ls)
  then have l: "one_line l" and r: "text_lines (m # ls)" by (auto simp: text_lines_Cons plain_one_line)
  show ?case
    using cut_proof_line [OF l, of "join [nl] (m # ls) @ nl # s"] tail_lines [OF r, of "nl # s"] 3 r by simp
qed (simp add: text_lines_def)

lemma built_message: "buildChallengeMessage sub addr nonce iat expiry = join [nl] (challenge_lines sub addr nonce iat expiry) @ [nl]"
  by (simp add: buildChallengeMessage_def challenge_lines_def)

lemma body_kept: "trim_end (join [nl] (challenge_lines sub addr nonce iat (iso_string t))) = join [nl] (challenge_lines sub addr nonce iat (iso_string t))"
proof -
  obtain u where "iso_string t = u @ [CHR ''Z'']" using iso_end by blast
  then have "join [nl] (challenge_lines sub addr nonce iat (iso_string t)) =
      join [nl] (challenge_lines sub addr nonce iat u) @ [CHR ''Z'']"
    by (simp add: challenge_lines_def)
  then show ?thesis by (simp add: trim_end_kept js_space_def)
qed

section \<open>Properties\<close>

text \<open>
  (C17) A challenge comes back. Over any backend: when the clock reads after 1970, the user, the wallet and the nonce are
  texts of one line, and the base64url coding of the payload is a word without dots that reads back as the payload, then the
  message issued to a user for a wallet, presented with the same secret, yields that payload until its five
  minutes have passed and is refused as expired from then on; and what remains without the proof line is the very text the builder
  of challenges prints, which has the prefix of the current signing scheme.
\<close>

theorem challenge_roundtrip:
  assumes run: "generateVerificationChallenge B K userId address w = (Inr (message, expiry), w')"
    and clock: "now B (svc w) = (issued, s1)" "0 < issued" "ends = issued + 300000"
    and nonce: "random_id B s1 = (nonce, s2)" "one_line nonce"
    and names: "one_line userId" "userId \<noteq> []" "one_line address" "address \<noteq> []"
    and payload: "payload = challenge_payload userId address nonce (ends div 1000)"
    and coding: "b64_json K (b64_text K (stringify payload)) = Some payload" "word_text (b64_text K (stringify payload))"
    and mac: "\<And>k m. word_text (hmac_b64 K k m)"
    and secret: "secret = default (getenv B ''JWT_SECRET'') []"
  shows "expiry = iso_string ends \<and>
    (now B (svc v) = (t, s') \<longrightarrow> fst (parseAndVerifyChallenge B K message secret v) =
       (if t div 1000 \<le> ends div 1000 then Inr payload else Inl (Forbidden ''Challenge has expired''))) \<and>
    stripProofLine message @ [nl] = buildChallengeMessage userId address nonce (iso_string issued) (iso_string ends) \<and>
    starts_with SEP53_PREFIX (stripProofLine message)"
proof -
  let ?p = "b64_text K (stringify payload)" and ?ls = "challenge_lines userId address nonce (iso_string issued) (iso_string ends)"
  let ?q = "hmac_b64 K secret ?p"
  have m: "message = join [nl] ?ls @ nl # nl # ''Proof: '' @ ?p @ ''.'' @ ?q" "expiry = iso_string ends"
    using run clock nonce
    by (auto simp: generateVerificationChallenge_def prog_simps Let_def challenge_lines_def payload secret split: if_splits)
  have lines: "text_lines ?ls"
    by (intro challenge_text_lines names nonce one_line_iso)
  have words: "word_text ?p" "word_text ?q" by (rule coding mac)+
  have "proof_match message = Some (?p @ ''.'' @ ?q)"
    unfolding m match_lines [OF lines] proof_match_blank by (intro proof_match_here words)
  moreover have "split_on (CHR ''.'') (?p @ CHR ''.'' # ?q) = [?p, ?q]"
    by (simp only: split_on_append [OF word_no_dot [OF words(1)]] split_on_free [OF word_no_dot [OF words(2)]])
  moreover have "message \<noteq> []" "?p \<noteq> []" "?q \<noteq> []" using words by (auto simp: m word_text_def)
  ultimately have "read_challenge K message secret =
      (if payload = JNull then Inl (PlainError ''TypeError'')
       else if \<not> jtruthy (jget ''sub'' payload) \<or> \<not> jtruthy (jget ''addr'' payload) \<or> \<not> jtruthy (jget ''exp'' payload)
       then Inl (Forbidden ''Incomplete proof payload'') else Inr payload)"
    by (simp add: read_challenge_def coding(1))
  moreover have "0 < ends div 1000" using clock by simp
  ultimately have read: "read_challenge K message secret = Inr payload"
    using names by (simp add: payload challenge_payload_def jget_def)
  have parse: "fst (parseAndVerifyChallenge B K message secret v) =
      (if t div 1000 \<le> ends div 1000 then Inr payload else Inl (Forbidden ''Challenge has expired''))"
    if "now B (svc v) = (t, s')"
    using that by (auto simp: parseAndVerifyChallenge_def read lift_exn_def prog_simps payload challenge_payload_def
        jget_def json_number_def)
  have strip: "stripProofLine message = join [nl] ?ls"
    unfolding stripProofLine_def m
    by (subst cut_lines [OF lines]) (simp_all only: proof_tail_blank proof_tail_here words body_kept)
  have "starts_with SEP53_PREFIX (join [nl] ?ls)"
    by (simp add: starts_with_def SEP53_PREFIX_def challenge_lines_def)
  then show ?thesis using m(2) parse strip by (simp add: built_message)
qed

text \<open>A coding that prints one word, and reads it back as the challenge of one user.\<close>

definition sample_signing :: "string \<Rightarrow> signing" where
  "sample_signing user = \<lparr>hmac_b64 = (\<lambda>k m. ''h3x''), b64_text = (\<lambda>s. ''eyJ2''), b64_json = (\<lambda>s. Some (challenge_payload user ''GA'' ''n1'' 1300)),
     sha256_raw = (\<lambda>s. s), is_public_key = (\<lambda>a. True), key_verifies = (\<lambda>a m sig. sig = ''signed-by-'' @ a)\<rparr>"

definition secret_vars :: "string \<Rightarrow> string option" where
  "secret_vars k = (if k = ''JWT_SECRET'' then Some ''s3'' else None)"

definition challenge_world :: "int \<Rightarrow> mem world" where
  "challenge_world t = world_on no_tables (quiet_env\<lparr>clock := \<lambda>_. t, fresh := \<lambda>_. ''n1''\<rparr>)"

definition challenge_run :: "(exn + string \<times> string) \<times> mem world" where
  "challenge_run = generateVerificationChallenge (mem_backend secret_vars) (sample_signing ''U1'') ''U1'' ''GA'' (challenge_world 1000000)"

lemma challenge_roundtrip_witness:
  "fst (parseAndVerifyChallenge (mem_backend secret_vars) (sample_signing ''U1'') (fst (projr (fst challenge_run))) ''s3'' (challenge_world 1300999)) =
     Inr (challenge_payload ''U1'' ''GA'' ''n1'' 1300) \<and>
   fst (parseAndVerifyChallenge (mem_backend secret_vars) (sample_signing ''U1'') (fst (projr (fst challenge_run))) ''s3'' (challenge_world 1301000)) =
     Inl (Forbidden ''Challenge has expired'')"
proof -
  let ?B = "mem_backend secret_vars" and ?K = "sample_signing ''U1''" and ?w = "challenge_world 1000000"
  have now: "\<exists>s. now ?B (svc (challenge_world t)) = (t, s)" for t
    by (simp add: mem_run challenge_world_def world_on_def)
  obtain s1 s2 where n: "now ?B (svc ?w) = (1000000, s1)" "random_id ?B s1 = (''n1'', s2)"
    by (simp add: mem_run challenge_world_def world_on_def)
  obtain m x v where run: "generateVerificationChallenge ?B ?K ''U1'' ''GA'' ?w = (Inr (m, x), v)"
    by (simp add: generateVerificationChallenge_def prog_simps n Let_def mem_run(26) secret_vars_def)
  have word: "word_text ''eyJ2''" "word_text ''h3x''" by (simp_all add: word_text_def js_space_def)
  note rt = challenge_roundtrip [OF run n(1) _ refl n(2) _ _ _ _ _ refl _ _ _ refl]
  have "fst (parseAndVerifyChallenge ?B ?K m ''s3'' (challenge_world t)) =
      (if t div 1000 \<le> 1300 then Inr (challenge_payload ''U1'' ''GA'' ''n1'' 1300) else Inl (Forbidden ''Challenge has expired''))" for t
    using rt [of "challenge_world t" t] now [of t] word
    by (auto simp: sample_signing_def one_line_def is_eol_def mem_run secret_vars_def)
  then show ?thesis by (simp add: challenge_run_def run)
qed

end
