(* ===== verification/Wallets.thy ===== *)
theory Wallets
  imports HttpClient StellarProof
begin

text \<open>
  \<open>wallets/wallets.service.ts\<close>: linking wallets to users with a proof of ownership, choosing the primary one,
  unlinking, and the views of balances and agreements. The parallel maps of the views are loops in list order; the agreement
  embedded in a participation is read by a query of its own.
\<close>

section \<open>Requests\<close>

record link_wallet_dto =
  lw_address :: string
  lw_type :: string
  lw_label :: "string option"
  lw_signed_message :: "string option"
  lw_signature :: "string option"
  lw_auth_provider :: "string option"
  lw_pollar_user_id :: "string option"
  lw_c_address :: "string option"

record update_wallet_dto =
  uwd_label :: "string option option"
  uwd_primary :: "bool option"

record verify_wallet_dto =
  vw_address :: string
  vw_signed_message :: string
  vw_signature :: string

section \<open>Reading\<close>

definition wallets_in_order :: "user_wallet list \<Rightarrow> user_wallet list" where
  "wallets_in_order rs = sort_key (\<lambda>r. \<not> uw_primary r) (sort_key uw_created_at rs)"

definition getUserWallets :: "'s backend \<Rightarrow> string \<Rightarrow> ('s world, user_wallet list \<times> string option) prog" where
  "getUserWallets B userId =
     bnd (call (select_rows (wallets B) (\<lambda>r. uw_user_id r = userId) wallets_in_order)) (\<lambda>(data, error).
     ret (case error of Some e \<Rightarrow> ([], Some (e_message e)) | None \<Rightarrow> (default data [], None)))"

definition stellarNetwork :: "'s backend \<Rightarrow> string" where
  "stellarNetwork B = or_else (getenv B ''STELLAR_NETWORK'') ''testnet''"

definition walletsHorizonUrl :: "'s backend \<Rightarrow> string" where
  "walletsHorizonUrl B = (if stellarNetwork B = ''mainnet'' then ''https://horizon.stellar.org'' else ''https://horizon-testnet.stellar.org'')"

definition walletsUsdcIssuer :: "'s backend \<Rightarrow> string" where
  "walletsUsdcIssuer B = (if stellarNetwork B = ''mainnet'' then ''GA5ZSEJYB37JRC5AVCIA5MOP4RHTM335X2KGX3IHOJAPP5RE34K4KZVN''
     else ''GBBD47IF6LWK7P7MDEVSCWR7DPUWV3NY3DTQEVFL4NAT4AQH3ZLLFLA5'')"

text \<open>One balance of a Horizon account on top of the native and the USDC balance found so far.\<close>

definition note_balance :: "string \<Rightarrow> json \<Rightarrow> json option \<times> json option \<Rightarrow> exn + json option \<times> json option" where
  "note_balance issuer balance found = (case found of (xlm, usdc) \<Rightarrow>
     if balance = JNull then Inl (PlainError ''TypeError'')
     else if jget ''asset_type'' balance = Some (JStr ''native'') then Inr (jget ''balance'' balance, usdc)
     else if jget ''asset_code'' balance = Some (JStr ''USDC'') \<and> jget ''asset_issuer'' balance = Some (JStr issuer)
     then Inr (xlm, jget ''balance'' balance) else Inr (xlm, usdc))"

fun note_balances :: "string \<Rightarrow> json list \<Rightarrow> json option \<times> json option \<Rightarrow> exn + json option \<times> json option" where
  "note_balances issuer [] found = Inr found"
| "note_balances issuer (b # bs) found = (case note_balance issuer b found of Inl e \<Rightarrow> Inl e | Inr f \<Rightarrow> note_balances issuer bs f)"

text \<open>\<open>for (const balance of account.balances)\<close>: arrays and strings iterate, other values throw.\<close>

definition account_balances :: "string \<Rightarrow> json \<Rightarrow> exn + json option \<times> json option" where
  "account_balances issuer account = (case jget ''balances'' account of
     Some (JArr bs) \<Rightarrow> note_balances issuer bs (Some (JStr ''0''), Some (JStr ''0''))
   | Some (JStr _) \<Rightarrow> Inr (Some (JStr ''0''), Some (JStr ''0''))
   | _ \<Rightarrow> Inl (PlainError ''TypeError''))"

definition getWalletBalance :: "'s backend \<Rightarrow> string \<Rightarrow> ('s world, json option \<times> json option) prog" where
  "getWalletBalance B walletAddress =
     bnd (api_get B (walletsHorizonUrl B @ ''/accounts/'' @ walletAddress) [] []) (\<lambda>response.
     if \<not> ar_success response \<or> \<not> jtruthy (ar_data response) then ret (Some (JStr ''0''), Some (JStr ''0''))
     else lift_exn (account_balances (walletsUsdcIssuer B) (the (ar_data response))))"

definition getAgreementsCount :: "'s backend \<Rightarrow> string \<Rightarrow> ('s world, nat) prog" where
  "getAgreementsCount B walletAddress =
     bnd (call (count_rows (participants B) (\<lambda>p. p_wallet p = walletAddress))) (\<lambda>(count, error).
     ret (if error \<noteq> None then 0 else default count 0))"

record wallet_view =
  wv_wallet :: user_wallet
  wv_balance :: "json option \<times> json option"
  wv_agreements_count :: nat

primrec collect :: "('a \<Rightarrow> ('w, 'b) prog) \<Rightarrow> 'a list \<Rightarrow> ('w, 'b list) prog" where
  "collect f [] = ret []"
| "collect f (x # xs) = bnd (f x) (\<lambda>y. bnd (collect f xs) (\<lambda>ys. ret (y # ys)))"

definition getUserWalletsWithBalances :: "'s backend \<Rightarrow> string \<Rightarrow> ('s world, wallet_view list \<times> string option) prog" where
  "getUserWalletsWithBalances B userId =
     bnd (getUserWallets B userId) (\<lambda>(ws, error).
     if truthy error then ret ([], error)
     else bnd (collect (\<lambda>wallet.
            bnd (getWalletBalance B (uw_address wallet)) (\<lambda>balance.
            bnd (getAgreementsCount B (uw_address wallet)) (\<lambda>n.
            ret \<lparr>wv_wallet = wallet, wv_balance = balance, wv_agreements_count = n\<rparr>))) ws) (\<lambda>views.
          ret (views, None)))"

text \<open>An agreement as the summary shows it, with the role of the wallet.\<close>

record agreement_summary =
  as_id :: string
  as_title :: string
  as_status :: string
  as_amount :: string
  as_role :: "string option"
  as_created_at :: int

record wallet_summary =
  wm_address :: string
  wm_type :: string
  wm_label :: "string option"
  wm_agreements :: "agreement_summary list"

definition summary_of :: "agreement list \<Rightarrow> participant \<Rightarrow> agreement_summary list" where
  "summary_of ags p = (case List.find (\<lambda>a. a_id a = p_agreement_id p) ags of
     None \<Rightarrow> []
   | Some a \<Rightarrow> [\<lparr>as_id = a_id a, as_title = a_title a, as_status = a_status a, as_amount = a_amount a,
       as_role = p_role p, as_created_at = a_created_at a\<rparr>])"

definition wallet_agreements :: "'s backend \<Rightarrow> user_wallet \<Rightarrow> ('s world, wallet_summary) prog" where
  "wallet_agreements B wallet =
     (let summary = \<lparr>wm_address = uw_address wallet, wm_type = uw_type wallet, wm_label = uw_label wallet, wm_agreements = []\<rparr>
      in bnd (call (select_rows (participants B) (\<lambda>p. p_wallet p = uw_address wallet) (\<lambda>rs. rs))) (\<lambda>(participations, partError).
         case (partError, participations) of
           (None, Some ps) \<Rightarrow>
             bnd (call (select_rows (agreements B) (\<lambda>a. a_id a \<in> set (map p_agreement_id ps)) (\<lambda>rs. rs))) (\<lambda>(ags, agError).
             ret (if agError \<noteq> None then summary else summary\<lparr>wm_agreements := concat (map (summary_of (default ags [])) ps)\<rparr>))
         | _ \<Rightarrow> ret summary))"

definition getAgreementsByWallet :: "'s backend \<Rightarrow> string \<Rightarrow> ('s world, wallet_summary list \<times> string option) prog" where
  "getAgreementsByWallet B userId =
     bnd (getUserWallets B userId) (\<lambda>(ws, walletsError).
     if truthy walletsError then ret ([], walletsError)
     else bnd (collect (wallet_agreements B) ws) (\<lambda>summaries. ret (summaries, None)))"

definition walletBelongsToUser :: "'s backend \<Rightarrow> string \<Rightarrow> string \<Rightarrow> ('s world, bool) prog" where
  "walletBelongsToUser B userId walletAddress =
     bnd (call (select_one (wallets B) (\<lambda>r. uw_user_id r = userId \<and> uw_address r = walletAddress))) (\<lambda>(data, error).
     ret (error = None \<and> data \<noteq> None))"

definition getPrimaryWallet :: "'s backend \<Rightarrow> string \<Rightarrow> ('s world, user_wallet option) prog" where
  "getPrimaryWallet B userId =
     bnd (call (select_one (wallets B) (\<lambda>r. uw_user_id r = userId \<and> uw_primary r))) (\<lambda>(data, error).
     ret (if error \<noteq> None then None else data))"

section \<open>Proof of ownership\<close>

definition readVerifiedIdentity :: "'s backend \<Rightarrow> string \<Rightarrow> ('s world, string option \<times> string option) prog" where
  "readVerifiedIdentity B userId =
     bnd (call (select_one (users B) (\<lambda>u. au_id u = userId))) (\<lambda>(row, error).
     if error \<noteq> None then throw (InternalServerError ''Could not read the authenticated identity'')
     else ret (case row of None \<Rightarrow> (None, None) | Some u \<Rightarrow> (au_wallet u, au_pollar_user_id u)))"

definition assertPollarOwnership :: "'s backend \<Rightarrow> string \<Rightarrow> string \<Rightarrow> string \<Rightarrow> ('s world, unit) prog" where
  "assertPollarOwnership B userId walletAddress claimedPollarUserId =
     bnd (readVerifiedIdentity B userId) (\<lambda>(walletPublicKey, pollarUserId).
     bnd (require (walletPublicKey = Some walletAddress) (Forbidden ''Pollar wallet does not match the authenticated user'')) (\<lambda>_.
     require (truthy pollarUserId \<and> pollarUserId = Some claimedPollarUserId)
       (Forbidden ''pollar_user_id does not match the authenticated user'')))"

text \<open>The challenge belongs to the user and the wallet, and the wallet's key signed it.\<close>

definition check_signature :: "'s backend \<Rightarrow> signing \<Rightarrow> string \<Rightarrow> string \<Rightarrow> string \<Rightarrow> string \<Rightarrow> ('s world, unit) prog" where
  "check_signature B K userId walletAddress signedMessage signature =
     bnd (require (truthy (getenv B ''JWT_SECRET'')) (InternalServerError ''Server misconfiguration'')) (\<lambda>_.
     bnd (parseAndVerifyChallenge B K signedMessage (default (getenv B ''JWT_SECRET'') [])) (\<lambda>payload.
     bnd (require (jget ''sub'' payload = Some (JStr userId)) (Forbidden ''Challenge was not issued for this user'')) (\<lambda>_.
     bnd (require (jget ''addr'' payload = Some (JStr walletAddress)) (Forbidden ''Challenge was not issued for this wallet address'')) (\<lambda>_.
     lift_exn (verifyStellarSignature K signedMessage signature walletAddress)))))"

text \<open>The identity that goes on the row: the provider, the Pollar user and the time of the verification.\<close>

type_synonym identity = "string option \<times> string option \<times> int"

definition custodial_identity :: "'s backend \<Rightarrow> string \<Rightarrow> link_wallet_dto \<Rightarrow> ('s world, identity) prog" where
  "custodial_identity B userId dto =
     (let authProvider = lw_auth_provider dto; pollarUserId = lw_pollar_user_id dto
      in bnd (call (now B)) (\<lambda>t.
         bnd (require (\<not> (truthy pollarUserId \<and> authProvider \<noteq> Some ''pollar'')) (BadRequest (Msg ''pollar_user_id requires auth_provider pollar''))) (\<lambda>_.
         bnd (require (\<not> (authProvider = Some ''pollar'' \<and> \<not> truthy pollarUserId)) (BadRequest (Msg ''auth_provider pollar requires pollar_user_id''))) (\<lambda>_.
         bnd (require (authProvider \<noteq> Some ''accesly'') (BadRequest (Msg ''auth_provider accesly requires wallet_type accesly''))) (\<lambda>_.
         bnd (if authProvider = Some ''pollar'' \<and> truthy pollarUserId
              then assertPollarOwnership B userId (lw_address dto) (default pollarUserId []) else ret ()) (\<lambda>_.
         ret (authProvider, pollarUserId, t)))))))"

definition accesly_identity :: "'s backend \<Rightarrow> string \<Rightarrow> link_wallet_dto \<Rightarrow> ('s world, identity) prog" where
  "accesly_identity B userId dto =
     bnd (require (truthy (lw_c_address dto)) (BadRequest (Msg ''c_address is required for accesly wallets''))) (\<lambda>_.
     bnd (require (\<not> (truthy (lw_auth_provider dto) \<and> lw_auth_provider dto \<noteq> Some ''accesly''))
       (BadRequest (Msg ''auth_provider must be accesly for an accesly wallet''))) (\<lambda>_.
     bnd (require (\<not> truthy (lw_pollar_user_id dto)) (BadRequest (Msg ''pollar_user_id is not valid for an accesly wallet''))) (\<lambda>_.
     bnd (call (select_one (users B) (\<lambda>u. au_id u = userId))) (\<lambda>(authUser, _).
     bnd (require ((case authUser of None \<Rightarrow> None | Some u \<Rightarrow> au_wallet u) = Some (lw_address dto))
       (Forbidden ''Accesly wallet does not match the authenticated user'')) (\<lambda>_.
     bnd (call (now B)) (\<lambda>t.
     ret (Some ''accesly'', None, t)))))))"

definition pollar_identity :: "'s backend \<Rightarrow> string \<Rightarrow> link_wallet_dto \<Rightarrow> ('s world, identity) prog" where
  "pollar_identity B userId dto =
     bnd (require (truthy (lw_pollar_user_id dto)) (BadRequest (Msg ''auth_provider pollar requires pollar_user_id''))) (\<lambda>_.
     bnd (assertPollarOwnership B userId (lw_address dto) (default (lw_pollar_user_id dto) [])) (\<lambda>_.
     bnd (call (now B)) (\<lambda>t.
     ret (Some ''pollar'', lw_pollar_user_id dto, t))))"

definition signed_identity :: "'s backend \<Rightarrow> signing \<Rightarrow> string \<Rightarrow> link_wallet_dto \<Rightarrow> ('s world, identity) prog" where
  "signed_identity B K userId dto =
     bnd (require (\<not> (truthy (lw_auth_provider dto) \<or> truthy (lw_pollar_user_id dto)))
       (BadRequest (Msg ''auth_provider and pollar_user_id are only valid for wallets a login provisioned or authenticated''))) (\<lambda>_.
     bnd (require (truthy (lw_signed_message dto) \<and> truthy (lw_signature dto))
       (BadRequest (Msg ''signed_message and signature are required for non-custodial wallets''))) (\<lambda>_.
     bnd (check_signature B K userId (lw_address dto) (default (lw_signed_message dto) []) (default (lw_signature dto) [])) (\<lambda>_.
     bnd (call (now B)) (\<lambda>t.
     ret (None, None, t)))))"

definition resolve_identity :: "'s backend \<Rightarrow> signing \<Rightarrow> string \<Rightarrow> link_wallet_dto \<Rightarrow> ('s world, identity) prog" where
  "resolve_identity B K userId dto =
     (if lw_type dto = ''custodial'' then custodial_identity B userId dto
      else if lw_type dto = ''accesly'' then accesly_identity B userId dto
      else if lw_auth_provider dto = Some ''pollar'' then pollar_identity B userId dto
      else signed_identity B K userId dto)"

section \<open>Linking\<close>

definition base_wallet :: "string \<Rightarrow> link_wallet_dto \<Rightarrow> bool \<Rightarrow> int \<Rightarrow> user_wallet" where
  "base_wallet userId dto isPrimary t = \<lparr>uw_id = [], uw_user_id = userId, uw_address = lw_address dto, uw_type = lw_type dto,
     uw_label = (if truthy (lw_label dto) then lw_label dto else None), uw_primary = isPrimary, uw_verified = True,
     uw_verified_at = Some t, uw_auth_provider = None, uw_pollar_user_id = None, uw_c_address = None, uw_created_at = 0, uw_updated_at = 0\<rparr>"

definition with_identity :: "link_wallet_dto \<Rightarrow> string option \<Rightarrow> string option \<Rightarrow> user_wallet \<Rightarrow> user_wallet" where
  "with_identity dto authProvider pollarUserId r =
     r\<lparr>uw_auth_provider := (if truthy authProvider then authProvider else None),
       uw_pollar_user_id := (if truthy pollarUserId then pollarUserId else None),
       uw_c_address := (if truthy (lw_c_address dto) then lw_c_address dto else None)\<rparr>"

text \<open>The insert, and the two fallbacks for a schema without the newer columns.\<close>

definition missing_column :: "db_error option \<Rightarrow> bool" where
  "missing_column error \<longleftrightarrow> (case error of None \<Rightarrow> False | Some e \<Rightarrow> e_code e = ''PGRST204'')"

definition insert_wallet ::
    "'s backend \<Rightarrow> link_wallet_dto \<Rightarrow> string option \<Rightarrow> string option \<Rightarrow> user_wallet \<Rightarrow> ('s world, user_wallet option \<times> db_error option) prog" where
  "insert_wallet B dto authProvider pollarUserId base =
     bnd (call (insert_row (wallets B) (with_identity dto authProvider pollarUserId base))) (\<lambda>first.
     bnd (if missing_column (snd first) \<and> truthy pollarUserId
          then call (insert_row (wallets B) (with_identity dto authProvider None base)) else ret first) (\<lambda>second.
     if missing_column (snd second) then call (insert_row (wallets B) base) else ret second))"

definition link_new :: "'s backend \<Rightarrow> signing \<Rightarrow> string \<Rightarrow> link_wallet_dto \<Rightarrow> bool \<Rightarrow> ('s world, user_wallet option \<times> string option) prog" where
  "link_new B K userId dto isPrimary =
     bnd (resolve_identity B K userId dto) (\<lambda>(authProvider, pollarUserId, t).
     bnd (insert_wallet B dto authProvider pollarUserId (base_wallet userId dto isPrimary t)) (\<lambda>(data, error).
     case error of
       Some e \<Rightarrow> if e_code e = ''23505'' then throw (Conflict ''Wallet is already linked to an account'') else ret (None, Some (e_message e))
     | None \<Rightarrow>
         bnd (if truthy authProvider
              then bnd (call (update_rows (users B) (\<lambda>u. au_id u = userId) (\<lambda>u. u\<lparr>au_wallet_provider := authProvider\<rparr>))) (\<lambda>_. ret ())
              else ret ()) (\<lambda>_.
         ret (data, None))))"

definition linkWallet :: "'s backend \<Rightarrow> signing \<Rightarrow> string \<Rightarrow> link_wallet_dto \<Rightarrow> ('s world, user_wallet option \<times> string option) prog" where
  "linkWallet B K userId dto =
     bnd (call (select_one (wallets B) (\<lambda>r. uw_user_id r = userId \<and> uw_address r = lw_address dto))) (\<lambda>(existing, _).
     case existing of
       Some r \<Rightarrow> ret (Some r, None)
     | None \<Rightarrow>
         bnd (call (count_rows (wallets B) (\<lambda>r. uw_user_id r = userId))) (\<lambda>(count, _).
         link_new B K userId dto (count = Some 0)))"

section \<open>Changing and unlinking\<close>

definition own_wallet :: "'s backend \<Rightarrow> string \<Rightarrow> string \<Rightarrow> ('s world, user_wallet) prog" where
  "own_wallet B userId walletId =
     bnd (call (select_one (wallets B) (\<lambda>r. uw_id r = walletId \<and> uw_user_id r = userId))) (\<lambda>(existing, fetchError).
     case (fetchError, existing) of
       (None, Some r) \<Rightarrow> ret r
     | _ \<Rightarrow> throw (NotFound ''Wallet not found''))"

definition wallet_columns :: "update_wallet_dto \<Rightarrow> int \<Rightarrow> user_wallet \<Rightarrow> user_wallet" where
  "wallet_columns dto t r =
     (let r1 = r\<lparr>uw_updated_at := t\<rparr>;
          r2 = (case uwd_label dto of None \<Rightarrow> r1 | Some l \<Rightarrow> r1\<lparr>uw_label := l\<rparr>)
      in case uwd_primary dto of None \<Rightarrow> r2 | Some b \<Rightarrow> r2\<lparr>uw_primary := b\<rparr>)"

text \<open>What follows an update with \<open>select().single()\<close>.\<close>

definition updated_wallet :: "user_wallet option \<times> db_error option \<Rightarrow> user_wallet option \<times> string option" where
  "updated_wallet result = (case result of (data, Some e) \<Rightarrow> (None, Some (e_message e)) | (data, None) \<Rightarrow> (data, None))"

definition demote_others :: "'s backend \<Rightarrow> string \<Rightarrow> string \<Rightarrow> ('s world, unit) prog" where
  "demote_others B userId walletId =
     bnd (call (now B)) (\<lambda>t.
     bnd (call (update_rows (wallets B) (\<lambda>r. uw_user_id r = userId \<and> uw_id r \<noteq> walletId)
       (\<lambda>r. r\<lparr>uw_primary := False, uw_updated_at := t\<rparr>))) (\<lambda>_. ret ()))"

definition save_wallet :: "'s backend \<Rightarrow> string \<Rightarrow> update_wallet_dto \<Rightarrow> ('s world, user_wallet option \<times> string option) prog" where
  "save_wallet B walletId dto =
     bnd (call (now B)) (\<lambda>t.
     bnd (call (update_single (wallets B) (\<lambda>r. uw_id r = walletId) (wallet_columns dto t))) (\<lambda>result.
     ret (updated_wallet result)))"

definition updateWallet :: "'s backend \<Rightarrow> string \<Rightarrow> string \<Rightarrow> update_wallet_dto \<Rightarrow> ('s world, user_wallet option \<times> string option) prog" where
  "updateWallet B userId walletId dto =
     bnd (own_wallet B userId walletId) (\<lambda>_.
     bnd (if uwd_primary dto = Some True then demote_others B userId walletId else ret ()) (\<lambda>_.
     save_wallet B walletId dto))"

definition promote_remaining :: "'s backend \<Rightarrow> string \<Rightarrow> ('s world, unit) prog" where
  "promote_remaining B userId =
     bnd (call (select_rows (wallets B) (\<lambda>r. uw_user_id r = userId) (take 1))) (\<lambda>(remaining, _).
     case default remaining [] of
       [] \<Rightarrow> ret ()
     | r # _ \<Rightarrow> bnd (call (update_rows (wallets B) (\<lambda>x. uw_id x = uw_id r) (\<lambda>x. x\<lparr>uw_primary := True\<rparr>))) (\<lambda>_. ret ()))"

definition unlinkWallet :: "'s backend \<Rightarrow> string \<Rightarrow> string \<Rightarrow> ('s world, bool \<times> string option) prog" where
  "unlinkWallet B userId walletId =
     bnd (own_wallet B userId walletId) (\<lambda>wallet.
     bnd (require (uw_type wallet \<noteq> ''custodial'') (BadRequest (Msg ''Cannot remove custodial wallet''))) (\<lambda>_.
     bnd (call (delete_rows (wallets B) (\<lambda>r. uw_id r = walletId \<and> uw_user_id r = userId))) (\<lambda>error.
     case error of
       Some e \<Rightarrow> ret (False, Some (e_message e))
     | None \<Rightarrow>
         bnd (if uw_primary wallet then promote_remaining B userId else ret ()) (\<lambda>_.
         ret (True, None)))))"

definition verifyWallet :: "'s backend \<Rightarrow> signing \<Rightarrow> string \<Rightarrow> string \<Rightarrow> verify_wallet_dto \<Rightarrow> ('s world, user_wallet option \<times> string option) prog" where
  "verifyWallet B K userId walletId dto =
     bnd (own_wallet B userId walletId) (\<lambda>existingWallet.
     if uw_verified existingWallet then ret (Some existingWallet, None)
     else
       bnd (require (uw_address existingWallet = vw_address dto) (BadRequest (Msg ''Wallet address does not match''))) (\<lambda>_.
       bnd (check_signature B K userId (vw_address dto) (vw_signed_message dto) (vw_signature dto)) (\<lambda>_.
       bnd (call (now B)) (\<lambda>t.
       bnd (call (update_single (wallets B) (\<lambda>r. uw_id r = walletId)
         (\<lambda>r. r\<lparr>uw_verified := True, uw_verified_at := Some t, uw_updated_at := t\<rparr>))) (\<lambda>result.
       ret (updated_wallet result))))))"


section \<open>What a write may change\<close>

text \<open>
  From tables \<open>a\<close> to \<open>b\<close> only wallets of user \<open>u\<close> and the provider column of that user changed, and the unique
  indexes hold: one row per user and address, one primary wallet per user.
\<close>

definition no_provider :: "auth_user \<Rightarrow> auth_user" where
  "no_provider x = x\<lparr>au_wallet_provider := None\<rparr>"

definition own_rows_only :: "string \<Rightarrow> tables \<Rightarrow> tables \<Rightarrow> bool" where
  "own_rows_only u a b \<longleftrightarrow> valid_wallets (t_wallets b) \<and>
     filter (\<lambda>r. uw_user_id r \<noteq> u) (t_wallets b) = filter (\<lambda>r. uw_user_id r \<noteq> u) (t_wallets a) \<and>
     filter (\<lambda>x. au_id x \<noteq> u) (t_users b) = filter (\<lambda>x. au_id x \<noteq> u) (t_users a) \<and>
     map no_provider (t_users b) = map no_provider (t_users a) \<and>
     b\<lparr>t_wallets := [], t_users := []\<rparr> = a\<lparr>t_wallets := [], t_users := []\<rparr>"

definition has_wallet :: "string \<Rightarrow> string \<Rightarrow> tables \<Rightarrow> bool" where
  "has_wallet u i ts \<longleftrightarrow> (\<exists>r \<in> set (t_wallets ts). uw_id r = i \<and> uw_user_id r = u)"

lemma own_rows_refl: "valid_wallets (t_wallets a) \<Longrightarrow> own_rows_only u a a"
  by (simp add: own_rows_only_def)

lemma filter_other_update:
  assumes "\<And>r. r \<in> set rs \<Longrightarrow> P r \<Longrightarrow> \<not> Q r \<and> \<not> Q (f r)"
  shows "filter Q (update_where P f rs) = filter Q rs"
  using assms by (induction rs) (auto simp: update_where_def)

lemma filter_of_others:
  assumes "u \<noteq> v" and "filter (\<lambda>r. g r \<noteq> v) ys = filter (\<lambda>r. g r \<noteq> v) xs"
  shows "filter (\<lambda>r. g r = u) ys = filter (\<lambda>r. g r = u) xs"
proof -
  have "filter (\<lambda>r. g r = u) (filter (\<lambda>r. g r \<noteq> v) ys) = filter (\<lambda>r. g r = u) (filter (\<lambda>r. g r \<noteq> v) xs)" using assms(2) by simp
  moreover have "(\<lambda>r. g r = u \<and> g r \<noteq> v) = (\<lambda>r. g r = u)" "(\<lambda>r. g r \<noteq> v \<and> g r = u) = (\<lambda>r. g r = u)" using assms(1) by auto
  ultimately show ?thesis by (simp add: filter_filter)
qed

lemma own_rows_insert:
  assumes "own_rows_only u a b" and "uw_user_id r = u" and "valid_wallets (t_wallets b @ [r])"
  shows "own_rows_only u a (b\<lparr>t_wallets := t_wallets b @ [r]\<rparr>)"
  using assms by (auto simp: own_rows_only_def)

lemma own_rows_update:
  assumes "own_rows_only u a b" and "valid_wallets (update_where P f (t_wallets b))"
    and "\<And>r. r \<in> set (t_wallets b) \<Longrightarrow> P r \<Longrightarrow> uw_user_id r = u \<and> uw_user_id (f r) = u"
  shows "own_rows_only u a (b\<lparr>t_wallets := update_where P f (t_wallets b)\<rparr>)"
proof -
  have "filter (\<lambda>r. uw_user_id r \<noteq> u) (update_where P f (t_wallets b)) = filter (\<lambda>r. uw_user_id r \<noteq> u) (t_wallets b)"
    by (rule filter_other_update) (use assms(3) in auto)
  with assms(1,2) show ?thesis by (auto simp: own_rows_only_def)
qed

lemma valid_wallets_filter: "valid_wallets rs \<Longrightarrow> valid_wallets (filter P rs)"
proof -
  have swap: "filter Q (filter P rs) = filter P (filter Q rs)" for Q unfolding filter_filter by (simp only: conj_commute)
  assume "valid_wallets rs"
  then show ?thesis unfolding valid_wallets_def keyed_def swap [of uw_primary] by (simp add: distinct_map_filter del: filter_filter)
qed

lemma own_rows_delete:
  assumes "own_rows_only u a b" and "\<And>r. P r \<Longrightarrow> uw_user_id r = u"
  shows "own_rows_only u a (b\<lparr>t_wallets := filter (\<lambda>r. \<not> P r) (t_wallets b)\<rparr>)"
proof -
  have "filter (\<lambda>r. uw_user_id r \<noteq> u) (filter (\<lambda>r. \<not> P r) (t_wallets b)) = filter (\<lambda>r. uw_user_id r \<noteq> u) (t_wallets b)"
    unfolding filter_filter by (rule filter_cong) (use assms(2) in auto)
  with assms(1) show ?thesis by (auto simp: own_rows_only_def valid_wallets_filter)
qed

lemma own_rows_provider:
  assumes "own_rows_only u a b"
  shows "own_rows_only u a (b\<lparr>t_users := update_where (\<lambda>x. au_id x = u) (\<lambda>x. x\<lparr>au_wallet_provider := p\<rparr>) (t_users b)\<rparr>)"
proof -
  have "filter (\<lambda>x. au_id x \<noteq> u) (update_where (\<lambda>x. au_id x = u) (\<lambda>x. x\<lparr>au_wallet_provider := p\<rparr>) (t_users b)) = filter (\<lambda>x. au_id x \<noteq> u) (t_users b)"
    by (rule filter_other_update) auto
  moreover have "map no_provider (update_where (\<lambda>x. au_id x = u) (\<lambda>x. x\<lparr>au_wallet_provider := p\<rparr>) (t_users b)) = map no_provider (t_users b)"
    by (auto simp: update_where_def no_provider_def)
  ultimately show ?thesis using assms by (auto simp: own_rows_only_def)
qed

lemma has_wallet_user:
  assumes "has_wallet u i ts" and "valid_wallets (t_wallets ts)" and "r \<in> set (t_wallets ts)" and "uw_id r = i"
  shows "uw_user_id r = u"
  using assms keyed_unique [of uw_id "t_wallets ts"] by (auto simp: has_wallet_def valid_wallets_def)

lemma has_wallet_update:
  assumes "has_wallet u i ts" and "\<And>r. P r \<Longrightarrow> uw_id (f r) = uw_id r \<and> uw_user_id (f r) = uw_user_id r"
  shows "has_wallet u i (ts\<lparr>t_wallets := update_where P f (t_wallets ts)\<rparr>)"
proof -
  obtain r where "r \<in> set (t_wallets ts)" "uw_id r = i" "uw_user_id r = u" using assms(1) by (auto simp: has_wallet_def)
  then have "(if P r then f r else r) \<in> set (update_where P f (t_wallets ts))" "uw_id (if P r then f r else r) = i"
    "uw_user_id (if P r then f r else r) = u" using assms(2) by (auto simp: update_where_def)
  then show ?thesis unfolding has_wallet_def by auto
qed

lemma own_rows_valid: "own_rows_only u a b \<Longrightarrow> valid_wallets (t_wallets b)"
  by (simp add: own_rows_only_def)

text \<open>The requests of the controller that write, each by an authenticated user, and a run of several.\<close>

datatype wallet_request =
    Link link_wallet_dto
  | Change string update_wallet_dto
  | Unlink string
  | Verify string verify_wallet_dto

fun handle_wallet :: "'s backend \<Rightarrow> signing \<Rightarrow> string \<times> wallet_request \<Rightarrow> 's world \<Rightarrow> 's world" where
  "handle_wallet B K (userId, Link dto) w = snd (linkWallet B K userId dto w)"
| "handle_wallet B K (userId, Change i dto) w = snd (updateWallet B userId i dto w)"
| "handle_wallet B K (userId, Unlink i) w = snd (unlinkWallet B userId i w)"
| "handle_wallet B K (userId, Verify i dto) w = snd (verifyWallet B K userId i dto w)"

definition handle_wallets :: "'s backend \<Rightarrow> signing \<Rightarrow> (string \<times> wallet_request) list \<Rightarrow> 's world \<Rightarrow> 's world" where
  "handle_wallets B K = fold (handle_wallet B K)"

section \<open>Evidence\<close>

text \<open>The wallet is the one the user's login wrote on the account, with the Pollar user when one is claimed.\<close>

definition login_proves :: "tables \<Rightarrow> string \<Rightarrow> string \<Rightarrow> string option \<Rightarrow> bool" where
  "login_proves ts userId address pollar \<longleftrightarrow> (\<exists>x \<in> set (t_users ts). au_id x = userId \<and> au_wallet x = Some address \<and>
     (truthy pollar \<longrightarrow> au_pollar_user_id x = pollar))"

lemma login_provesI:
  "x \<in> set (t_users ts) \<Longrightarrow> au_wallet x = Some address \<Longrightarrow> login_proves ts (au_id x) address None"
  "x \<in> set (t_users ts) \<Longrightarrow> au_wallet x = Some address \<Longrightarrow> au_pollar_user_id x = Some p \<Longrightarrow> login_proves ts (au_id x) address (Some p)"
  by (auto simp: login_proves_def)

text \<open>A challenge issued for the user and the wallet, with a signature by the wallet's key on the text without the proof line.\<close>

definition key_proves :: "signing \<Rightarrow> string \<Rightarrow> string \<Rightarrow> string \<Rightarrow> string \<Rightarrow> string \<Rightarrow> bool" where
  "key_proves K secret userId address message signature \<longleftrightarrow> secret \<noteq> [] \<and>
     (\<exists>payload. read_challenge K message secret = Inr payload \<and>
       jget ''sub'' payload = Some (JStr userId) \<and> jget ''addr'' payload = Some (JStr address)) \<and>
     is_public_key K address \<and>
     (key_verifies K address (sha256_raw K (stripProofLine message)) signature \<or>
      key_verifies K address (stripProofLine message) signature)"

definition link_evidence :: "'s backend \<Rightarrow> signing \<Rightarrow> tables \<Rightarrow> string \<Rightarrow> link_wallet_dto \<Rightarrow> bool" where
  "link_evidence B K ts userId dto \<longleftrightarrow>
     (if lw_type dto = ''custodial''
      then lw_auth_provider dto \<noteq> Some ''accesly'' \<and> (lw_auth_provider dto = Some ''pollar'' \<or> truthy (lw_pollar_user_id dto) \<longrightarrow>
        login_proves ts userId (lw_address dto) (lw_pollar_user_id dto))
      else if lw_type dto = ''accesly'' then login_proves ts userId (lw_address dto) None
      else if lw_auth_provider dto = Some ''pollar'' then login_proves ts userId (lw_address dto) (lw_pollar_user_id dto)
      else key_proves K (default (getenv B ''JWT_SECRET'') []) userId (lw_address dto)
             (default (lw_signed_message dto) []) (default (lw_signature dto) []))"

lemma verifyStellarSignature_proves:
  "verifyStellarSignature K m sig a = Inr () \<Longrightarrow> is_public_key K a \<and>
     (key_verifies K a (sha256_raw K (stripProofLine m)) sig \<or> key_verifies K a (stripProofLine m) sig)"
  by (simp add: verifyStellarSignature_def Let_def split: if_splits)


text \<open>The columns a request decides.\<close>

definition links_row :: "user_wallet \<Rightarrow> user_wallet \<Rightarrow> bool" where
  "links_row base r \<longleftrightarrow> uw_user_id r = uw_user_id base \<and> uw_address r = uw_address base \<and> uw_type r = uw_type base \<and>
     uw_primary r = uw_primary base \<and> uw_verified r = uw_verified base"

context database begin

lemma wp_check_signature:
  assumes ok: "\<And>s'. st s' = st (svc w) \<Longrightarrow> key_proves K (default (getenv B ''JWT_SECRET'') []) userId address m sig \<Longrightarrow>
      Q (Inr ()) (w\<lparr>svc := s'\<rparr>)"
    and bad: "\<And>e s'. st s' = st (svc w) \<Longrightarrow> Q (Inl e) (w\<lparr>svc := s'\<rparr>)"
  shows "wp (check_signature B K userId address m sig) Q w"
proof -
  have same: "w = w\<lparr>svc := svc w\<rparr>" by simp
  have bad': "Q (Inl e) w" for e using bad [of "svc w" e] by simp
  show ?thesis
    unfolding check_signature_def parseAndVerifyChallenge_def
    by (auto simp: wp_simps bnd_assoc lift_exn_def bad' truthy_def key_proves_def split: sum.splits option.splits
        intro!: wp_now bad ok dest: verifyStellarSignature_proves)
qed


lemma wp_login:
  assumes "\<And>x s'. st s' = st (svc w) \<Longrightarrow> (\<And>y. x = Some y \<Longrightarrow> y \<in> set (t_users (st (svc w))) \<and> au_id y = userId) \<Longrightarrow>
      Q (Inr (x, None)) (w\<lparr>svc := s'\<rparr>)"
    and "\<And>e s'. st s' = st (svc w) \<Longrightarrow> Q (Inr (None, Some e)) (w\<lparr>svc := s'\<rparr>)"
  shows "wp (call (select_one (users B) (\<lambda>u. au_id u = userId))) Q w"
  by (rule users_wp(2)) (use assms in auto)

lemma wp_assertPollarOwnership:
  assumes ok: "\<And>s'. st s' = st (svc w) \<Longrightarrow> login_proves (st (svc w)) userId address (Some claimed) \<Longrightarrow> Q (Inr ()) (w\<lparr>svc := s'\<rparr>)"
    and bad: "\<And>e s'. st s' = st (svc w) \<Longrightarrow> Q (Inl e) (w\<lparr>svc := s'\<rparr>)"
  shows "wp (assertPollarOwnership B userId address claimed) Q w"
  unfolding assertPollarOwnership_def readVerifiedIdentity_def
  by (auto simp: wp_simps split: option.splits intro!: wp_login ok bad login_provesI)

lemma wp_resolve_identity:
  assumes ok: "\<And>ap pu t s'. st s' = st (svc w) \<Longrightarrow> link_evidence B K (st (svc w)) userId dto \<Longrightarrow> Q (Inr (ap, pu, t)) (w\<lparr>svc := s'\<rparr>)"
    and bad: "\<And>e s'. st s' = st (svc w) \<Longrightarrow> Q (Inl e) (w\<lparr>svc := s'\<rparr>)"
  shows "wp (resolve_identity B K userId dto) Q w"
proof -
  have bad': "Q (Inl e) w" for e using bad [of "svc w" e] by simp
  consider (custodial) "lw_type dto = ''custodial''" | (accesly) "lw_type dto \<noteq> ''custodial''" "lw_type dto = ''accesly''"
    | (pollar) "lw_type dto \<noteq> ''custodial''" "lw_type dto \<noteq> ''accesly''" "lw_auth_provider dto = Some ''pollar''"
    | (signed) "lw_type dto \<noteq> ''custodial''" "lw_type dto \<noteq> ''accesly''" "lw_auth_provider dto \<noteq> Some ''pollar''" by blast
  then show ?thesis
  proof cases
    case custodial
    then show ?thesis
      unfolding resolve_identity_def custodial_identity_def Let_def link_evidence_def
      by (auto simp: wp_simps link_evidence_def truthy_def split: option.splits
          intro!: wp_now wp_assertPollarOwnership ok bad bad')
  next
    case accesly
    then show ?thesis
      unfolding resolve_identity_def accesly_identity_def
      by (auto simp: wp_simps link_evidence_def split: option.splits intro!: wp_now wp_login ok bad bad' login_provesI)
  next
    case pollar
    then show ?thesis
      unfolding resolve_identity_def pollar_identity_def
      by (auto simp: wp_simps link_evidence_def truthy_def split: option.splits intro!: wp_now wp_assertPollarOwnership ok bad bad')
  next
    case signed
    then show ?thesis
      unfolding resolve_identity_def signed_identity_def
      by (auto simp: wp_simps link_evidence_def intro!: wp_now wp_check_signature ok bad bad')
  qed
qed


text \<open>The row an insert leaves behind is the one of the request, up to the generated and the identity columns.\<close>

lemma wp_insert_wallet:
  assumes ok: "\<And>r s'. st s' = (st (svc w))\<lparr>t_wallets := t_wallets (st (svc w)) @ [r]\<rparr> \<Longrightarrow> valid_wallets (t_wallets (st (svc w)) @ [r]) \<Longrightarrow>
      links_row base r \<Longrightarrow> Q (Inr (Some r, None)) (w\<lparr>svc := s'\<rparr>)"
    and bad: "\<And>e s'. st s' = st (svc w) \<Longrightarrow> Q (Inr (None, Some e)) (w\<lparr>svc := s'\<rparr>)"
  shows "wp (insert_wallet B dto ap pu base) Q w"
  unfolding insert_wallet_def
  by (auto simp: wp_simps missing_column_def gen_wallet_def with_identity_def links_row_def intro!: wallets_wp(5) ok bad)

lemma wp_linkWallet:
  assumes found: "\<And>r s'. st s' = st (svc w) \<Longrightarrow> r \<in> set (t_wallets (st (svc w))) \<Longrightarrow> uw_user_id r = userId \<Longrightarrow>
      uw_address r = lw_address dto \<Longrightarrow> Q (Inr (Some r, None)) (w\<lparr>svc := s'\<rparr>)"
    and new: "\<And>r isPrimary t ap s'. links_row (base_wallet userId dto isPrimary t) r \<Longrightarrow> link_evidence B K (st (svc w)) userId dto \<Longrightarrow>
      (isPrimary \<longrightarrow> list_all (\<lambda>q. uw_user_id q \<noteq> userId) (t_wallets (st (svc w)))) \<Longrightarrow>
      valid_wallets (t_wallets (st (svc w)) @ [r]) \<Longrightarrow>
      st s' = (st (svc w))\<lparr>t_wallets := t_wallets (st (svc w)) @ [r]\<rparr> \<or>
      st s' = (st (svc w))\<lparr>t_wallets := t_wallets (st (svc w)) @ [r],
        t_users := update_where (\<lambda>x. au_id x = userId) (\<lambda>x. x\<lparr>au_wallet_provider := ap\<rparr>) (t_users (st (svc w)))\<rparr> \<Longrightarrow>
      Q (Inr (Some r, None)) (w\<lparr>svc := s'\<rparr>)"
    and bad: "\<And>x s'. st s' = st (svc w) \<Longrightarrow> (\<forall>r m. x \<noteq> Inr (Some r, m)) \<Longrightarrow> Q x (w\<lparr>svc := s'\<rparr>)"
  shows "wp (linkWallet B K userId dto) Q w"
proof -
  have one: "list_all (\<lambda>q. uw_user_id q \<noteq> userId) (t_wallets (st (svc w)))"
    if "Some (length (filter (\<lambda>r. uw_user_id r = userId) (t_wallets (st (svc w))))) = Some 0"
    using that by (simp add: filter_empty_conv list_all_iff)
  have fresh: "wp (link_new B K userId dto isPrimary) Q (w\<lparr>svc := s'\<rparr>)"
    if s': "st s' = st (svc w)" and prim: "isPrimary \<longrightarrow> list_all (\<lambda>q. uw_user_id q \<noteq> userId) (t_wallets (st (svc w)))" for isPrimary s'
    unfolding link_new_def wp_bnd
  proof (rule wp_resolve_identity, goal_cases)
    case (1 ap pu t s2)
    have same: "st s2 = st (svc w)" using 1(1) s' by simp
    show ?case unfolding sum.case prod.case wp_bnd
    proof (rule wp_insert_wallet, goal_cases)
      case (1 r s3)
      then show ?case using \<open>link_evidence B K _ userId dto\<close> same s' prim
        by (auto simp: wp_simps intro!: users_wp(7) new [of "isPrimary" t r])
    next
      case (2 e s3)
      then show ?case using same by (auto simp: wp_simps intro!: bad)
    qed
  next
    case (2 e s2)
    then show ?case using s' by (auto intro!: bad)
  qed
  show ?thesis
    unfolding linkWallet_def
    by (auto simp: wp_simps intro!: wallets_wp(2,4) found fresh one)
qed


lemma wp_own_wallet:
  assumes ok: "\<And>r s'. st s' = st (svc w) \<Longrightarrow> r \<in> set (t_wallets (st (svc w))) \<Longrightarrow> uw_id r = i \<Longrightarrow> uw_user_id r = u \<Longrightarrow>
      Q (Inr r) (w\<lparr>svc := s'\<rparr>)"
    and bad: "\<And>e s'. st s' = st (svc w) \<Longrightarrow> Q (Inl e) (w\<lparr>svc := s'\<rparr>)"
  shows "wp (own_wallet B u i) Q w"
  unfolding own_wallet_def by (auto simp: wp_simps intro!: wallets_wp(2) ok bad)

text \<open>Updates of the user's wallets, in a run of several calls.\<close>

definition owning :: "string \<Rightarrow> string \<Rightarrow> tables \<Rightarrow> 's world \<Rightarrow> bool" where
  "owning u i a v \<longleftrightarrow> own_rows_only u a (st (svc v)) \<and> has_wallet u i (st (svc v))"

lemma owning_update:
  assumes "owning u i a v" and "st s' = (st (svc v))\<lparr>t_wallets := update_where P f (t_wallets (st (svc v)))\<rparr>"
    and "valid_wallets (update_where P f (t_wallets (st (svc v))))"
    and "\<And>r. uw_id (f r) = uw_id r \<and> uw_user_id (f r) = uw_user_id r"
    and "\<And>r. P r \<Longrightarrow> uw_user_id r = u \<or> uw_id r = i"
  shows "owning u i a (v\<lparr>svc := s'\<rparr>)"
proof -
  have own: "uw_user_id r = u" if "r \<in> set (t_wallets (st (svc v)))" "P r" for r
    using that assms(5) [OF that(2)] assms(1) has_wallet_user [OF _ own_rows_valid, of u i "st (svc v)" u a r] by (auto simp: owning_def)
  have "own_rows_only u a ((st (svc v))\<lparr>t_wallets := update_where P f (t_wallets (st (svc v)))\<rparr>)"
    using assms own by (intro own_rows_update) (auto simp: owning_def)
  moreover have "has_wallet u i ((st (svc v))\<lparr>t_wallets := update_where P f (t_wallets (st (svc v)))\<rparr>)"
    using assms by (intro has_wallet_update) (auto simp: owning_def)
  ultimately show ?thesis by (simp add: owning_def assms(2))
qed

lemma owning_same: "owning u i a v \<Longrightarrow> st s' = st (svc v) \<Longrightarrow> owning u i a (v\<lparr>svc := s'\<rparr>)"
  by (simp add: owning_def)

lemma owning_start: "valid_wallets (t_wallets (st (svc w))) \<Longrightarrow> r \<in> set (t_wallets (st (svc w))) \<Longrightarrow> st s' = st (svc w) \<Longrightarrow>
     owning (uw_user_id r) (uw_id r) (st (svc w)) (w\<lparr>svc := s'\<rparr>)"
  by (auto simp: owning_def own_rows_refl has_wallet_def)

lemma wp_demote_others:
  assumes v: "owning u i a v" and ok: "\<And>v'. owning u i a v' \<Longrightarrow> Q (Inr ()) v'"
  shows "wp (demote_others B u i) Q v"
  unfolding demote_others_def wp_bnd
proof (rule wp_now, goal_cases)
  case (1 t s1)
  then have v1: "owning u i a (v\<lparr>svc := s1\<rparr>)" by (rule owning_same [OF v])
  have up: "owning u i a ((v\<lparr>svc := s1\<rparr>)\<lparr>svc := s2\<rparr>)"
    if "st s2 = (st s1)\<lparr>t_wallets := update_where (\<lambda>r. uw_user_id r = u \<and> uw_id r \<noteq> i) (\<lambda>r. r\<lparr>uw_primary := False, uw_updated_at := t\<rparr>) (t_wallets (st s1))\<rparr>"
      "valid_wallets (update_where (\<lambda>r. uw_user_id r = u \<and> uw_id r \<noteq> i) (\<lambda>r. r\<lparr>uw_primary := False, uw_updated_at := t\<rparr>) (t_wallets (st s1)))" for s2
    by (rule owning_update [OF v1, where P = "\<lambda>r. uw_user_id r = u \<and> uw_id r \<noteq> i" and f = "\<lambda>r. r\<lparr>uw_primary := False, uw_updated_at := t\<rparr>"])
      (use that in auto)
  show ?case unfolding sum.case wp_bnd
  proof (rule wallets_wp(7), goal_cases)
    case (1 e s2)
    then show ?case using owning_same [OF v1, of s2] ok by (simp add: wp_ret)
  next
    case (2 s2)
    then show ?case using up [of s2] ok by (simp add: wp_ret)
  qed
qed

lemma wp_promote_remaining:
  assumes v: "own_rows_only u a (st (svc v))" and ok: "\<And>v'. own_rows_only u a (st (svc v')) \<Longrightarrow> Q (Inr ()) v'"
  shows "wp (promote_remaining B u) Q v"
proof -
  have head: "r \<in> set rs \<and> uw_user_id r = u" if "take 1 (filter (\<lambda>r. uw_user_id r = u) rs) = r # qs" for r qs rs
    using filter_hdD [of "\<lambda>r. uw_user_id r = u" rs r] that by (cases "filter (\<lambda>r. uw_user_id r = u) rs") auto
  have up: "own_rows_only u a ((st (svc v))\<lparr>t_wallets := update_where (\<lambda>x. uw_id x = uw_id r) (\<lambda>x. x\<lparr>uw_primary := True\<rparr>) (t_wallets (st (svc v)))\<rparr>)"
    if "take 1 (filter (\<lambda>r. uw_user_id r = u) (t_wallets (st (svc v)))) = r # qs"
      "valid_wallets (update_where (\<lambda>x. uw_id x = uw_id r) (\<lambda>x. x\<lparr>uw_primary := True\<rparr>) (t_wallets (st (svc v))))" for r qs
    by (rule own_rows_update [OF v that(2)])
      (use head [OF that(1)] keyed_unique [of uw_id "t_wallets (st (svc v))"] own_rows_valid [OF v] in \<open>auto simp: valid_wallets_def\<close>)
  show ?thesis unfolding promote_remaining_def wp_bnd
  proof (rule wallets_wp(1), goal_cases)
    case (1 e s1)
    then show ?case using ok v by (simp add: wp_ret)
  next
    case (2 s1)
    show ?case
    proof (cases "take 1 (filter (\<lambda>r. uw_user_id r = u) (t_wallets (st (svc v))))")
      case Nil
      then show ?thesis using 2 ok v by (simp add: wp_ret)
    next
      case (Cons r qs)
      show ?thesis unfolding sum.case prod.case Cons default_simps list.case wp_bnd
      proof (rule wallets_wp(7), goal_cases)
        case (1 e s2)
        then show ?case using 2 ok v by (simp add: wp_ret)
      next
        case (2 s2)
        then show ?case using \<open>st s1 = _\<close> ok up [OF Cons] by (simp add: wp_ret)
      qed
    qed
  qed
qed

lemma link_own_rows:
  assumes "valid_wallets (t_wallets (st (svc w)))"
  shows "wp (linkWallet B K u dto) (\<lambda>_ v. own_rows_only u (st (svc w)) (st (svc v))) w"
proof (rule wp_linkWallet, goal_cases)
  case (2 r isPrimary t ap s')
  let ?a = "st (svc w)"
  have ins: "own_rows_only u ?a (?a\<lparr>t_wallets := t_wallets ?a @ [r]\<rparr>)"
    by (rule own_rows_insert [OF own_rows_refl [OF assms]]) (use 2 in \<open>auto simp: links_row_def base_wallet_def\<close>)
  show ?case using 2(5) ins own_rows_provider [OF ins, of ap] by auto
qed (use assms in \<open>auto simp: own_rows_refl\<close>)

lemma update_own_rows:
  assumes "valid_wallets (t_wallets (st (svc w)))"
  shows "wp (updateWallet B u i dto) (\<lambda>_ v. own_rows_only u (st (svc w)) (st (svc v))) w"
proof -
  let ?a = "st (svc w)"
  have last: "wp (save_wallet B i dto) (\<lambda>_ v. own_rows_only u ?a (st (svc v))) v" if v: "owning u i ?a v" for v
  proof -
    have cols: "uw_id (wallet_columns dto t r) = uw_id r \<and> uw_user_id (wallet_columns dto t r) = uw_user_id r" for t r
      by (simp add: wallet_columns_def Let_def split: option.split)
    have upd: "own_rows_only u ?a ((st (svc v))\<lparr>t_wallets := update_where (\<lambda>r. uw_id r = i) (wallet_columns dto t) (t_wallets (st (svc v)))\<rparr>)"
      if c: "valid_wallets (update_where (\<lambda>r. uw_id r = i) (wallet_columns dto t) (t_wallets (st (svc v))))" for t
      by (rule own_rows_update [OF _ c]) (use v cols has_wallet_user own_rows_valid in \<open>auto simp: owning_def\<close>)
    have v': "own_rows_only u ?a (st (svc v))" using v by (simp add: owning_def)
    show ?thesis
      unfolding save_wallet_def by (auto simp: wp_simps v' intro!: wp_now wallets_wp(8) upd)
  qed
  show ?thesis
    unfolding updateWallet_def wp_bnd [of "own_wallet B u i"]
  proof (rule wp_own_wallet, goal_cases)
    case (1 r s')
    then have start: "owning u i ?a (w\<lparr>svc := s'\<rparr>)" using owning_start [OF assms 1(2,1)] by simp
    show ?case
      by (cases "uwd_primary dto = Some True") (auto simp: wp_bnd [of "demote_others B u i"] bnd_ret_left intro!: wp_demote_others [OF start] last start)
  qed (use assms in \<open>auto simp: own_rows_refl\<close>)
qed


lemma unlink_own_rows:
  assumes "valid_wallets (t_wallets (st (svc w)))"
  shows "wp (unlinkWallet B u i) (\<lambda>_ v. own_rows_only u (st (svc w)) (st (svc v))) w"
proof -
  let ?a = "st (svc w)" and ?D = "\<lambda>r. \<not> (uw_id r = i \<and> uw_user_id r = u)"
  let ?b = "?a\<lparr>t_wallets := filter ?D (t_wallets ?a)\<rparr>"
  have b: "own_rows_only u ?a ?b"
    by (rule own_rows_delete [OF own_rows_refl [OF assms]]) auto
  show ?thesis
    unfolding unlinkWallet_def
    using assms b
    by (auto simp: wp_bnd [of "own_wallet B u i"] wp_bnd [of "require c e" for c e] wp_bnd [of "call c" for c]
          wp_bnd [of "promote_remaining B v" for v] bnd_ret_left wp_require wp_ret own_rows_refl
        intro!: wp_own_wallet wallets_wp(10) wp_promote_remaining)
qed

lemma verify_own_rows:
  assumes "valid_wallets (t_wallets (st (svc w)))"
  shows "wp (verifyWallet B K u i dto) (\<lambda>_ v. own_rows_only u (st (svc w)) (st (svc v))) w"
proof -
  let ?a = "st (svc w)"
  have upd: "own_rows_only (uw_user_id q) ?a (?a\<lparr>t_wallets := update_where (\<lambda>r. uw_id r = uw_id q) (\<lambda>r. r\<lparr>uw_verified := True, uw_verified_at := Some t, uw_updated_at := t\<rparr>) (t_wallets ?a)\<rparr>)"
    if "valid_wallets (update_where (\<lambda>r. uw_id r = uw_id q) (\<lambda>r. r\<lparr>uw_verified := True, uw_verified_at := Some t, uw_updated_at := t\<rparr>) (t_wallets ?a))"
      "q \<in> set (t_wallets ?a)" for q t
    by (rule own_rows_update [OF own_rows_refl [OF assms] that(1)])
      (use that(2) keyed_unique [of uw_id "t_wallets ?a"] assms in \<open>auto simp: valid_wallets_def\<close>)
  show ?thesis
    unfolding verifyWallet_def
    by (auto simp: wp_simps assms own_rows_refl intro!: wp_own_wallet wp_check_signature wp_now wallets_wp(8) upd)
qed

lemma handle_own_rows:
  assumes "valid_wallets (t_wallets (st (svc w)))"
  shows "own_rows_only (fst q) (st (svc w)) (st (svc (handle_wallet B K q w)))"
proof -
  obtain u op where q: "q = (u, op)" by (cases q)
  have run: "own_rows_only u (st (svc w)) (st (svc (snd (m w))))" if "wp m (\<lambda>_ v. own_rows_only u (st (svc w)) (st (svc v))) w" for m :: "('s world, 'z) prog"
    using wpD [OF that, of "fst (m w)" "snd (m w)"] by simp
  show ?thesis
    unfolding q
    by (cases op) (auto intro: run link_own_rows update_own_rows unlink_own_rows verify_own_rows assms)
qed

end

section \<open>Properties\<close>

text \<open>
  (C16) Users change only their own wallets. Over any database: after any sequence of link, change, unlink and verify requests by
  any users, successful or not, the wallets and the account columns of a user who made none of them are what they were; no
  table but the wallets and the users is touched, of the users only the provider column; and there is
  one row per user and address and at most one primary wallet per user.
\<close>

theorem wallets_own_rows:
  assumes "database B st" and "valid_wallets (t_wallets (st (svc w)))" and "u \<notin> fst ` set qs"
    and "b = st (svc (handle_wallets B K qs w))"
  shows "valid_wallets (t_wallets b) \<and>
    filter (\<lambda>r. uw_user_id r = u) (t_wallets b) = filter (\<lambda>r. uw_user_id r = u) (t_wallets (st (svc w))) \<and>
    filter (\<lambda>x. au_id x = u) (t_users b) = filter (\<lambda>x. au_id x = u) (t_users (st (svc w))) \<and>
    map no_provider (t_users b) = map no_provider (t_users (st (svc w))) \<and>
    b\<lparr>t_wallets := [], t_users := []\<rparr> = (st (svc w))\<lparr>t_wallets := [], t_users := []\<rparr>"
  using assms(2-4)
proof (induction qs arbitrary: w b)
  case Nil
  then show ?case by (simp add: handle_wallets_def)
next
  case (Cons q qs)
  let ?v = "handle_wallet B K q w"
  have step: "own_rows_only (fst q) (st (svc w)) (st (svc ?v))"
    by (rule database.handle_own_rows [OF assms(1) Cons.prems(1)])
  have u: "u \<noteq> fst q" using Cons.prems(2) by auto
  have other: "filter (\<lambda>r. uw_user_id r = u) (t_wallets (st (svc ?v))) = filter (\<lambda>r. uw_user_id r = u) (t_wallets (st (svc w)))"
    "filter (\<lambda>x. au_id x = u) (t_users (st (svc ?v))) = filter (\<lambda>x. au_id x = u) (t_users (st (svc w)))"
    using step by (auto simp: own_rows_only_def intro: filter_of_others [OF u])
  have "b = st (svc (handle_wallets B K qs ?v))" using Cons.prems(3) by (simp add: handle_wallets_def)
  from Cons.IH [OF own_rows_valid [OF step] _ this] Cons.prems(2) show ?case
    using step other by (simp add: own_rows_only_def)
qed



section \<open>Runs\<close>

text \<open>Two users, each with the wallet of the login; the first has it linked.\<close>

definition sample_user :: "string \<Rightarrow> string \<Rightarrow> auth_user" where
  "sample_user u address = \<lparr>au_id = u, au_wallet = Some address, au_pollar_user_id = None, au_wallet_provider = None\<rparr>"

definition sample_wallet :: user_wallet where
  "sample_wallet = \<lparr>uw_id = ''w1'', uw_user_id = ''U1'', uw_address = ''GA'', uw_type = ''freighter'', uw_label = None, uw_primary = True,
     uw_verified = True, uw_verified_at = Some 5, uw_auth_provider = None, uw_pollar_user_id = None, uw_c_address = None,
     uw_created_at = 5, uw_updated_at = 5\<rparr>"

definition wallet_world :: "mem world" where
  "wallet_world = world_on (no_tables\<lparr>t_wallets := [sample_wallet], t_users := [sample_user ''U1'' ''GA'', sample_user ''U2'' ''GB'']\<rparr>)
     (quiet_env\<lparr>fresh := \<lambda>n. ''w2''\<rparr>)"

definition link_dto :: "string \<Rightarrow> string \<Rightarrow> link_wallet_dto" where
  "link_dto address type = \<lparr>lw_address = address, lw_type = type, lw_label = None,
     lw_signed_message = Some (WALLET_OWNERSHIP_PREFIX @ [nl] @ ''Proof: e30.h3x''), lw_signature = Some (''signed-by-'' @ address),
     lw_auth_provider = None, lw_pollar_user_id = None, lw_c_address = None\<rparr>"

definition link_run :: "string \<Rightarrow> string \<Rightarrow> string \<Rightarrow> (exn + user_wallet option \<times> string option) \<times> mem world" where
  "link_run u address type = linkWallet (mem_backend secret_vars) (sample_signing u) u (link_dto address type) wallet_world"

definition wallet_requests :: "(string \<times> wallet_request) list" where
  "wallet_requests = [(''U2'', Link (link_dto ''GB'' ''custodial'')), (''U2'', Unlink ''w1''),
     (''U2'', Change ''w2'' \<lparr>uwd_label = Some (Some ''main''), uwd_primary = Some True\<rparr>)]"

lemma wallets_own_rows_witness:
  "map uw_label (t_wallets (tabs (svc (handle_wallets (mem_backend secret_vars) (sample_signing ''U2'') wallet_requests wallet_world)))) = [None, Some ''main''] \<and>
   filter (\<lambda>r. uw_user_id r = ''U1'') (t_wallets (tabs (svc (handle_wallets (mem_backend secret_vars) (sample_signing ''U2'') wallet_requests wallet_world)))) = [sample_wallet]"
proof -
  have "valid_wallets (t_wallets (tabs (svc wallet_world)))" "''U1'' \<notin> fst ` set wallet_requests"
    "filter (\<lambda>r. uw_user_id r = ''U1'') (t_wallets (tabs (svc wallet_world))) = [sample_wallet]"
    by (simp_all add: wallet_world_def world_on_def wallet_requests_def valid_wallets_def keyed_def sample_wallet_def)
  with wallets_own_rows [OF mem.database_axioms _ _ refl] have
    "filter (\<lambda>r. uw_user_id r = ''U1'') (t_wallets (tabs (svc (handle_wallets (mem_backend secret_vars) (sample_signing ''U2'') wallet_requests wallet_world)))) = [sample_wallet]"
    by simp
  moreover have "map uw_label (t_wallets (tabs (svc (handle_wallets (mem_backend secret_vars) (sample_signing ''U2'') wallet_requests wallet_world)))) = [None, Some ''main'']"
    by code_simp
  ultimately show ?thesis by blast
qed


text \<open>
  A custodial wallet is linked without proof: a user who names the address of another user becomes able to act for
  it, although the table's readers take its rows as proven.
\<close>

lemma custodial_link_takes_over:
  "fst (assertActorWallet (mem_backend secret_vars) ''U2'' ''GA'' wallet_world) \<noteq> Inr () \<and>
   fst (assertActorWallet (mem_backend secret_vars) ''U2'' ''GA'' (snd (link_run ''U2'' ''GA'' ''custodial''))) = Inr ()"
  by code_simp

end
