(* ===== verification/Marketplace.thy ===== *)
theory Marketplace
  imports Access JsNumber
begin

text \<open>
  Thalos Connect: \<open>opportunities/opportunities.service.ts\<close> and \<open>applications/applications.service.ts\<close>. Projects post
  opportunities, builders apply, the owner decides. The resolution of the caller's profile is the same text in both services
  and one definition here. The foreign key that removes the applications of a removed opportunity belongs to
  the database and is left out: no operation reads the applications of an opportunity that is gone.
\<close>

section \<open>The caller\<close>

definition project_walletForUserId :: "'s backend \<Rightarrow> string \<Rightarrow> ('s world, string option) prog" where
  "project_walletForUserId B userId =
     bnd (call (select_one (users B) (\<lambda>u. au_id u = userId))) (\<lambda>(data, error).
     ret (case (error, data) of
            (None, Some u) \<Rightarrow> (if truthy (au_wallet u) then au_wallet u else None)
          | _ \<Rightarrow> None))"

definition resolveCallerProfile :: "'s backend \<Rightarrow> string \<Rightarrow> ('s world, string \<times> string) prog" where
  "resolveCallerProfile B userId =
     bnd (project_walletForUserId B userId) (\<lambda>wallet.
     case wallet of
       None \<Rightarrow> throw (Forbidden ''No wallet on profile'')
     | Some a \<Rightarrow>
         bnd (call (select_one (profiles B) (\<lambda>p. pr_wallet p = a))) (\<lambda>(data, error).
         case (error, data) of
           (None, Some p) \<Rightarrow> bnd (require (pr_id p \<noteq> []) (Forbidden ''No Project profile for this user'')) (\<lambda>_. ret (pr_id p, pr_account_type p))
         | _ \<Rightarrow> throw (Forbidden ''No Project profile for this user'')))"

definition requireCallerProfileId :: "'s backend \<Rightarrow> string \<Rightarrow> ('s world, string) prog" where
  "requireCallerProfileId B userId = bnd (resolveCallerProfile B userId) (\<lambda>(i, _). ret i)"

definition requireProjectProfileId :: "'s backend \<Rightarrow> string \<Rightarrow> ('s world, string) prog" where
  "requireProjectProfileId B userId =
     bnd (resolveCallerProfile B userId) (\<lambda>(i, accountType).
     bnd (require (accountType = ''enterprise'') (Forbidden ''Only a Project can manage opportunities'')) (\<lambda>_. ret i))"

section \<open>Opportunities\<close>

record create_opportunity_dto =
  cod_project_id :: "string option"
  cod_title :: string
  cod_description :: string
  cod_skills :: "string list"
  cod_budget :: rat
  cod_asset :: "string option"
  cod_engagement :: string

record update_opportunity_dto =
  uod_title :: "string option"
  uod_description :: "string option"
  uod_skills :: "string list option"
  uod_budget :: "rat option"
  uod_asset :: "string option"
  uod_engagement :: "string option"
  uod_status :: "string option"

record discover_query =
  dq_skills :: "string list option"
  dq_engagement :: "string option"
  dq_budget_min :: "rat option"
  dq_budget_max :: "rat option"
  dq_q :: "string option"
  dq_page :: "nat option"
  dq_limit :: "nat option"

definition isAllowedStatusTransition :: "string \<Rightarrow> string \<Rightarrow> bool" where
  "isAllowedStatusTransition s t \<longleftrightarrow> s = ''open'' \<and> (t = ''closed'' \<or> t = ''filled'')"

text \<open>\<open>new BadRequestException({success: false, error: {code, details: [one]}})\<close>\<close>

definition refusal :: "string \<Rightarrow> string \<Rightarrow> string \<Rightarrow> exn" where
  "refusal code field message = BadRequest (Coded code [\<lparr>d_field = field, d_code = code, d_message = message\<rparr>])"

definition new_opportunity :: "string \<Rightarrow> create_opportunity_dto \<Rightarrow> opportunity" where
  "new_opportunity projectId dto = \<lparr>op_id = [], op_project_id = projectId, op_title = cod_title dto, op_description = cod_description dto,
     op_skills = cod_skills dto, op_budget = cod_budget dto, op_asset = default (cod_asset dto) ''USDC'',
     op_engagement = cod_engagement dto, op_status = ''open'', op_created_at = 0\<rparr>"

definition createOpportunity :: "'s backend \<Rightarrow> string \<Rightarrow> create_opportunity_dto \<Rightarrow> ('s world, opportunity) prog" where
  "createOpportunity B userId dto =
     bnd (requireProjectProfileId B userId) (\<lambda>projectId.
     bnd (require (\<not> (truthy (cod_project_id dto) \<and> cod_project_id dto \<noteq> Some projectId))
       (Forbidden ''project_id does not match the authenticated Project'')) (\<lambda>_.
     bnd (call (insert_row (opportunities B) (new_opportunity projectId dto))) (\<lambda>(data, error).
     case (error, data) of
       (None, Some o') \<Rightarrow> ret o'
     | (e, _) \<Rightarrow> throw (refusal ''OPPORTUNITY_CREATE_FAILED'' ''body'' (default (map_option e_message e) ''Failed to create opportunity'')))))"

definition newest :: "opportunity list \<Rightarrow> opportunity list" where
  "newest = sort_key (\<lambda>o'. - op_created_at o')"

definition listMine :: "'s backend \<Rightarrow> string \<Rightarrow> ('s world, opportunity list) prog" where
  "listMine B userId =
     bnd (requireProjectProfileId B userId) (\<lambda>projectId.
     bnd (call (select_rows (opportunities B) (\<lambda>o'. op_project_id o' = projectId) newest)) (\<lambda>(data, error).
     case error of
       Some e \<Rightarrow> throw (refusal ''OPPORTUNITY_LIST_FAILED'' ''query'' (e_message e))
     | None \<Rightarrow> ret (default data [])))"

text \<open>
  The search. \<open>like\<close> is the database's case-insensitive \<open>ILIKE\<close> on a column and a pattern; the page is cut from
  the rows of one query, which also counts them.
\<close>

definition sanitized :: "string \<Rightarrow> string" where
  "sanitized q = trim (filter (\<lambda>c. c \<notin> set ''%_,'') q)"

definition discovered :: "(string \<Rightarrow> string \<Rightarrow> bool) \<Rightarrow> discover_query \<Rightarrow> opportunity \<Rightarrow> bool" where
  "discovered like query o' \<longleftrightarrow> op_status o' = ''open'' \<and>
     (truthy (dq_engagement query) \<longrightarrow> dq_engagement query = Some (op_engagement o')) \<and>
     (case dq_skills query of None \<Rightarrow> True | Some ss \<Rightarrow> ss = [] \<or> set ss \<inter> set (op_skills o') \<noteq> {}) \<and>
     (case dq_budget_min query of None \<Rightarrow> True | Some b \<Rightarrow> b \<le> op_budget o') \<and>
     (case dq_budget_max query of None \<Rightarrow> True | Some b \<Rightarrow> op_budget o' \<le> b) \<and>
     (case dq_q query of None \<Rightarrow> True | Some q \<Rightarrow> sanitized q = [] \<or>
        like (op_title o') (''%'' @ sanitized q @ ''%'') \<or> like (op_description o') (''%'' @ sanitized q @ ''%''))"

definition page_of :: "nat \<Rightarrow> nat \<Rightarrow> 'a list \<Rightarrow> 'a list" where
  "page_of page limit rs = take limit (drop ((page - 1) * limit) rs)"

definition discover ::
    "'s backend \<Rightarrow> (string \<Rightarrow> string \<Rightarrow> bool) \<Rightarrow> discover_query \<Rightarrow> ('s world, opportunity list \<times> nat \<times> nat \<times> nat) prog" where
  "discover B like query =
     (let page = default (dq_page query) 1; limit = default (dq_limit query) 20
      in bnd (require (case (dq_budget_min query, dq_budget_max query) of (Some a, Some b) \<Rightarrow> \<not> b < a | _ \<Rightarrow> True)
           (refusal ''VALIDATION_ERROR'' ''budget_min'' ''budget_min must be less than or equal to budget_max'')) (\<lambda>_.
         bnd (call (select_rows (opportunities B) (discovered like query) newest)) (\<lambda>(data, error).
         case error of
           Some e \<Rightarrow> throw (refusal ''OPPORTUNITY_DISCOVER_FAILED'' ''query'' (e_message e))
         | None \<Rightarrow> ret (page_of page limit (default data []), page, limit, length (default data [])))))"

definition loadOpportunity :: "'s backend \<Rightarrow> string \<Rightarrow> ('s world, opportunity) prog" where
  "loadOpportunity B i =
     bnd (call (select_one (opportunities B) (\<lambda>o'. op_id o' = i))) (\<lambda>(data, error).
     case (error, data) of
       (Some e, _) \<Rightarrow> throw (BadRequest (Msg (e_message e)))
     | (None, None) \<Rightarrow> throw (NotFound ''Opportunity not found'')
     | (None, Some o') \<Rightarrow> ret o')"

definition getOpportunity :: "'s backend \<Rightarrow> string \<Rightarrow> string \<Rightarrow> ('s world, opportunity) prog" where
  "getOpportunity B userId i =
     bnd (loadOpportunity B i) (\<lambda>o'.
     if op_status o' = ''open'' then ret o'
     else bnd (requireCallerProfileId B userId) (\<lambda>projectId.
          bnd (require (op_project_id o' = projectId) (NotFound ''Opportunity not found'')) (\<lambda>_. ret o')))"

definition requireOwner :: "'s backend \<Rightarrow> string \<Rightarrow> string \<Rightarrow> ('s world, opportunity) prog" where
  "requireOwner B userId i =
     bnd (loadOpportunity B i) (\<lambda>o'.
     bnd (requireProjectProfileId B userId) (\<lambda>projectId.
     bnd (require (op_project_id o' = projectId) (Forbidden ''Only the owning Project can modify this opportunity'')) (\<lambda>_. ret o')))"

definition has_field_updates :: "update_opportunity_dto \<Rightarrow> bool" where
  "has_field_updates dto \<longleftrightarrow> uod_title dto \<noteq> None \<or> uod_description dto \<noteq> None \<or> uod_skills dto \<noteq> None \<or>
     uod_budget dto \<noteq> None \<or> uod_asset dto \<noteq> None \<or> uod_engagement dto \<noteq> None"

definition opportunity_patch :: "update_opportunity_dto \<Rightarrow> opportunity \<Rightarrow> opportunity" where
  "opportunity_patch dto o' = o'\<lparr>op_title := default (uod_title dto) (op_title o'), op_description := default (uod_description dto) (op_description o'),
     op_skills := default (uod_skills dto) (op_skills o'), op_budget := default (uod_budget dto) (op_budget o'),
     op_asset := default (uod_asset dto) (op_asset o'), op_engagement := default (uod_engagement dto) (op_engagement o'),
     op_status := default (uod_status dto) (op_status o')\<rparr>"

definition updateOpportunity :: "'s backend \<Rightarrow> string \<Rightarrow> string \<Rightarrow> update_opportunity_dto \<Rightarrow> ('s world, opportunity) prog" where
  "updateOpportunity B userId i dto =
     bnd (requireOwner B userId i) (\<lambda>existing.
     bnd (case uod_status dto of
            None \<Rightarrow> ret ()
          | Some s \<Rightarrow> require (isAllowedStatusTransition (op_status existing) s) (refusal ''INVALID_STATUS_TRANSITION'' ''status''
              (''Cannot transition from '' @ op_status existing @ '' to '' @ s @ ''. Allowed: open -> closed, open -> filled.''))) (\<lambda>_.
     bnd (require (\<not> (has_field_updates dto \<and> op_status existing \<noteq> ''open'')) (refusal ''OPPORTUNITY_NOT_EDITABLE'' ''status''
       ''Only open opportunities can have their fields edited'')) (\<lambda>_.
     if uod_status dto = None \<and> \<not> has_field_updates dto then ret existing
     else bnd (call (update_single (opportunities B) (\<lambda>o'. op_id o' = i) (opportunity_patch dto))) (\<lambda>(data, error).
          case (error, data) of
            (None, Some o') \<Rightarrow> ret o'
          | (e, _) \<Rightarrow> throw (refusal ''OPPORTUNITY_UPDATE_FAILED'' ''body'' (default (map_option e_message e) ''Failed to update opportunity''))))))"

definition removeOpportunity :: "'s backend \<Rightarrow> string \<Rightarrow> string \<Rightarrow> ('s world, bool) prog" where
  "removeOpportunity B userId i =
     bnd (requireOwner B userId i) (\<lambda>_.
     bnd (call (delete_rows (opportunities B) (\<lambda>o'. op_id o' = i))) (\<lambda>error.
     case error of
       Some e \<Rightarrow> throw (refusal ''OPPORTUNITY_DELETE_FAILED'' ''id'' (e_message e))
     | None \<Rightarrow> ret True))"

section \<open>Applications\<close>

record create_application_dto =
  cad_opportunity_id :: string
  cad_message :: "string option"

definition assertOpportunityOwner :: "'s backend \<Rightarrow> string \<Rightarrow> string \<Rightarrow> ('s world, opportunity) prog" where
  "assertOpportunityOwner B userId i =
     bnd (loadOpportunity B i) (\<lambda>o'.
     bnd (requireProjectProfileId B userId) (\<lambda>projectId.
     bnd (require (op_project_id o' = projectId) (Forbidden ''Only the owning Project can perform this action'')) (\<lambda>_. ret o')))"

definition new_application :: "string \<Rightarrow> create_application_dto \<Rightarrow> application" where
  "new_application userId dto = \<lparr>ap_id = [], ap_opportunity_id = cad_opportunity_id dto, ap_builder_id = userId,
     ap_message = default (cad_message dto) [], ap_status = ''pending'', ap_created_at = 0\<rparr>"

definition apply_to :: "'s backend \<Rightarrow> string \<Rightarrow> create_application_dto \<Rightarrow> ('s world, application option) prog" where
  "apply_to B userId dto =
     bnd (requireCallerProfileId B userId) (\<lambda>profileId.
     bnd (loadOpportunity B (cad_opportunity_id dto)) (\<lambda>o'.
     bnd (require (op_project_id o' \<noteq> profileId) (Forbidden ''Projects cannot apply to their own opportunities'')) (\<lambda>_.
     bnd (require (op_status o' = ''open'') (Conflict ''This opportunity is no longer open'')) (\<lambda>_.
     bnd (call (insert_row (applications B) (new_application userId dto))) (\<lambda>(data, error).
     case error of
       Some e \<Rightarrow> if e_code e = ''23505'' then throw (Conflict ''You have already applied to this opportunity'')
         else throw (BadRequest (Msg (e_message e)))
     | None \<Rightarrow> ret data)))))"

definition listApplicants :: "'s backend \<Rightarrow> string \<Rightarrow> string \<Rightarrow> ('s world, application list) prog" where
  "listApplicants B userId opportunityId =
     bnd (loadOpportunity B opportunityId) (\<lambda>o'.
     bnd (catch (requireProjectProfileId B userId) (\<lambda>_. ret [])) (\<lambda>profileId.
     if op_project_id o' = profileId then
       bnd (call (select_rows (applications B) (\<lambda>a. ap_opportunity_id a = opportunityId) (sort_key ap_created_at))) (\<lambda>(data, error).
       case error of Some e \<Rightarrow> throw (BadRequest (Msg (e_message e))) | None \<Rightarrow> ret (default data []))
     else
       bnd (call (select_one (applications B) (\<lambda>a. ap_opportunity_id a = opportunityId \<and> ap_builder_id a = userId))) (\<lambda>(data, error).
       case error of Some e \<Rightarrow> throw (BadRequest (Msg (e_message e)))
       | None \<Rightarrow> ret (case data of None \<Rightarrow> [] | Some a \<Rightarrow> [a]))))"

text \<open>What follows an accepted application; the last write's error is not looked at.\<close>

definition settle_accepted :: "'s backend \<Rightarrow> string \<Rightarrow> string \<Rightarrow> ('s world, unit) prog" where
  "settle_accepted B opportunityId applicationId =
     bnd (call (update_rows (opportunities B) (\<lambda>o'. op_id o' = opportunityId) (\<lambda>o'. o'\<lparr>op_status := ''filled''\<rparr>))) (\<lambda>oppError.
     case oppError of
       Some e \<Rightarrow> throw (BadRequest (Msg (''Application accepted but failed to mark opportunity as filled: '' @ e_message e)))
     | None \<Rightarrow>
         bnd (call (update_rows (applications B)
           (\<lambda>a. ap_opportunity_id a = opportunityId \<and> ap_status a = ''pending'' \<and> ap_id a \<noteq> applicationId)
           (\<lambda>a. a\<lparr>ap_status := ''rejected''\<rparr>))) (\<lambda>_. ret ()))"

definition updateApplicationStatus :: "'s backend \<Rightarrow> string \<Rightarrow> string \<Rightarrow> string \<Rightarrow> ('s world, application option) prog" where
  "updateApplicationStatus B userId applicationId status =
     bnd (call (select_one (applications B) (\<lambda>a. ap_id a = applicationId))) (\<lambda>(existing, fetchErr).
     case (fetchErr, existing) of
       (None, Some a) \<Rightarrow>
         bnd (assertOpportunityOwner B userId (ap_opportunity_id a)) (\<lambda>_.
         bnd (require (ap_status a = ''pending'') (Conflict (''Application is already '' @ ap_status a @ '' and cannot be changed''))) (\<lambda>_.
         bnd (call (update_single (applications B) (\<lambda>x. ap_id x = applicationId) (\<lambda>x. x\<lparr>ap_status := status\<rparr>))) (\<lambda>(data, error).
         case error of
           Some e \<Rightarrow> throw (BadRequest (Msg (e_message e)))
         | None \<Rightarrow>
             bnd (if status = ''accepted'' then settle_accepted B (ap_opportunity_id a) applicationId else ret ()) (\<lambda>_.
             ret data))))
     | _ \<Rightarrow> throw (NotFound (''Application '' @ applicationId @ '' not found'')))"

section \<open>The marketplace as a step relation\<close>

text \<open>The profile of a user: the one with the wallet of the login.\<close>

definition profile_of :: "tables \<Rightarrow> string \<Rightarrow> string \<Rightarrow> string \<Rightarrow> bool" where
  "profile_of ts u i kind \<longleftrightarrow> i \<noteq> [] \<and> (\<exists>x \<in> set (t_users ts). au_id x = u \<and>
     (\<exists>p \<in> set (t_profiles ts). au_wallet x = Some (pr_wallet p) \<and> pr_wallet p \<noteq> [] \<and> pr_id p = i \<and> pr_account_type p = kind))"

definition owner_of :: "tables \<Rightarrow> string \<Rightarrow> opportunity \<Rightarrow> bool" where
  "owner_of ts u o' \<longleftrightarrow> profile_of ts u (op_project_id o') ''enterprise''"

definition reject_others :: "string \<Rightarrow> string \<Rightarrow> application list \<Rightarrow> application list" where
  "reject_others o' i = update_where (\<lambda>a. ap_opportunity_id a = o' \<and> ap_status a = ''pending'' \<and> ap_id a \<noteq> i) (\<lambda>a. a\<lparr>ap_status := ''rejected''\<rparr>)"

definition fill :: "string \<Rightarrow> opportunity list \<Rightarrow> opportunity list" where
  "fill i = update_where (\<lambda>o'. op_id o' = i) (\<lambda>o'. o'\<lparr>op_status := ''filled''\<rparr>)"

definition decide :: "string \<Rightarrow> string \<Rightarrow> application list \<Rightarrow> application list" where
  "decide i s = update_where (\<lambda>x. ap_id x = i) (\<lambda>x. x\<lparr>ap_status := s\<rparr>)"

text \<open>One step of user \<open>u\<close>; \<open>gone\<close> is the opportunity the request removes, if it removes one.\<close>

inductive market_step :: "string \<Rightarrow> string option \<Rightarrow> tables \<Rightarrow> tables \<Rightarrow> bool" for u gone where
  Post: "owner_of ts u o' \<Longrightarrow> op_status o' = ''open'' \<Longrightarrow> op_id o' \<notin> op_id ` set (t_opportunities ts) \<Longrightarrow>
     market_step u gone ts (ts\<lparr>t_opportunities := t_opportunities ts @ [o']\<rparr>)"
| Edit: "filter (\<lambda>x. op_id x = i) (t_opportunities ts) = [o'] \<Longrightarrow> owner_of ts u o' \<Longrightarrow> op_status o' = ''open'' \<Longrightarrow>
     (uod_status dto = None \<or> uod_status dto = Some ''closed'' \<or> uod_status dto = Some ''filled'') \<Longrightarrow>
     market_step u gone ts (ts\<lparr>t_opportunities := update_where (\<lambda>x. op_id x = i) (opportunity_patch dto) (t_opportunities ts)\<rparr>)"
| Withdraw: "gone = Some i \<Longrightarrow> filter (\<lambda>x. op_id x = i) (t_opportunities ts) = [o'] \<Longrightarrow> owner_of ts u o' \<Longrightarrow>
     market_step u gone ts (ts\<lparr>t_opportunities := filter (\<lambda>x. op_id x \<noteq> i) (t_opportunities ts),
       t_applications := filter (\<lambda>a. ap_opportunity_id a \<noteq> i) (t_applications ts)\<rparr>)"
| Apply: "filter (\<lambda>x. op_id x = ap_opportunity_id a) (t_opportunities ts) = [o'] \<Longrightarrow> op_status o' = ''open'' \<Longrightarrow>
     profile_of ts u pid kind \<Longrightarrow> op_project_id o' \<noteq> pid \<Longrightarrow> ap_builder_id a = u \<Longrightarrow> ap_status a = ''pending'' \<Longrightarrow>
     valid_applications (t_applications ts @ [a]) \<Longrightarrow> market_step u gone ts (ts\<lparr>t_applications := t_applications ts @ [a]\<rparr>)"
| Decide: "filter (\<lambda>x. ap_id x = i) (t_applications ts) = [a] \<Longrightarrow> ap_status a = ''pending'' \<Longrightarrow>
     filter (\<lambda>x. op_id x = ap_opportunity_id a) (t_opportunities ts) = [o'] \<Longrightarrow> owner_of ts u o' \<Longrightarrow>
     market_step u gone ts (ts\<lparr>t_applications := decide i s (t_applications ts)\<rparr>)"
| Fill: "a \<in> set (t_applications ts) \<Longrightarrow> ap_status a = ''accepted'' \<Longrightarrow> ap_opportunity_id a = i \<Longrightarrow>
     filter (\<lambda>x. op_id x = i) (t_opportunities ts) = [o'] \<Longrightarrow> owner_of ts u o' \<Longrightarrow>
     market_step u gone ts (ts\<lparr>t_opportunities := fill i (t_opportunities ts)\<rparr>)"
| Reject: "filter (\<lambda>x. ap_id x = i) (t_applications ts) = [a] \<Longrightarrow> ap_status a = ''accepted'' \<Longrightarrow>
     filter (\<lambda>x. op_id x = ap_opportunity_id a) (t_opportunities ts) = [o'] \<Longrightarrow> owner_of ts u o' \<Longrightarrow> op_status o' = ''filled'' \<Longrightarrow>
     market_step u gone ts (ts\<lparr>t_applications := reject_others (ap_opportunity_id a) i (t_applications ts)\<rparr>)"

text \<open>The requests of the two controllers that write.\<close>

datatype market_request =
    PostOpportunity create_opportunity_dto
  | EditOpportunity string update_opportunity_dto
  | RemoveOpportunity string
  | ApplyTo create_application_dto
  | DecideApplication string string

fun handle_market :: "'s backend \<Rightarrow> string \<times> market_request \<Rightarrow> 's world \<Rightarrow> 's world" where
  "handle_market B (u, PostOpportunity dto) w = snd (createOpportunity B u dto w)"
| "handle_market B (u, EditOpportunity i dto) w = snd (updateOpportunity B u i dto w)"
| "handle_market B (u, RemoveOpportunity i) w = snd (removeOpportunity B u i w)"
| "handle_market B (u, ApplyTo dto) w = snd (apply_to B u dto w)"
| "handle_market B (u, DecideApplication i s) w = snd (updateApplicationStatus B u i s w)"

fun removes :: "market_request \<Rightarrow> string option" where
  "removes (RemoveOpportunity i) = Some i"
| "removes _ = None"

definition handle_requests :: "'s backend \<Rightarrow> (string \<times> market_request) list \<Rightarrow> 's world \<Rightarrow> 's world" where
  "handle_requests B = fold (handle_market B)"

lemma profile_ofI:
  "x \<in> set (t_users ts) \<Longrightarrow> p \<in> set (t_profiles ts) \<Longrightarrow> au_wallet x = Some (pr_wallet p) \<Longrightarrow> pr_wallet p \<noteq> [] \<Longrightarrow> pr_id p \<noteq> [] \<Longrightarrow>
     profile_of ts (au_id x) (pr_id p) (pr_account_type p)"
  by (auto simp: profile_of_def)

context database begin

text \<open>Reading keeps the tables.\<close>

lemma wp_resolveCallerProfile:
  assumes ok: "\<And>i kind s'. st s' = st (svc w) \<Longrightarrow> profile_of (st (svc w)) u i kind \<Longrightarrow> Q (Inr (i, kind)) (w\<lparr>svc := s'\<rparr>)"
    and bad: "\<And>e s'. st s' = st (svc w) \<Longrightarrow> Q (Inl e) (w\<lparr>svc := s'\<rparr>)"
  shows "wp (resolveCallerProfile B u) Q w"
  unfolding resolveCallerProfile_def project_walletForUserId_def
  by (auto simp: wp_simps truthy_def split: option.splits intro!: users_wp(2) profiles_wp(2) ok bad profile_ofI)

lemma wp_requireCallerProfileId:
  assumes ok: "\<And>i kind s'. st s' = st (svc w) \<Longrightarrow> profile_of (st (svc w)) u i kind \<Longrightarrow> Q (Inr i) (w\<lparr>svc := s'\<rparr>)"
    and bad: "\<And>e s'. st s' = st (svc w) \<Longrightarrow> Q (Inl e) (w\<lparr>svc := s'\<rparr>)"
  shows "wp (requireCallerProfileId B u) Q w"
  unfolding requireCallerProfileId_def
  by (auto simp: wp_simps intro!: wp_resolveCallerProfile ok bad)

lemma wp_requireProjectProfileId:
  assumes ok: "\<And>i s'. st s' = st (svc w) \<Longrightarrow> profile_of (st (svc w)) u i ''enterprise'' \<Longrightarrow> Q (Inr i) (w\<lparr>svc := s'\<rparr>)"
    and bad: "\<And>e s'. st s' = st (svc w) \<Longrightarrow> Q (Inl e) (w\<lparr>svc := s'\<rparr>)"
  shows "wp (requireProjectProfileId B u) Q w"
  unfolding requireProjectProfileId_def
  by (auto simp: wp_simps intro!: wp_resolveCallerProfile ok bad)

lemma wp_loadOpportunity:
  assumes ok: "\<And>o' s'. st s' = st (svc w) \<Longrightarrow> filter (\<lambda>x. op_id x = i) (t_opportunities (st (svc w))) = [o'] \<Longrightarrow> Q (Inr o') (w\<lparr>svc := s'\<rparr>)"
    and bad: "\<And>e s'. st s' = st (svc w) \<Longrightarrow> Q (Inl e) (w\<lparr>svc := s'\<rparr>)"
  shows "wp (loadOpportunity B i) Q w"
  unfolding loadOpportunity_def
  by (auto simp: wp_simps intro!: opportunities_wp(2) ok bad)

lemma wp_requireOwner:
  assumes ok: "\<And>o' s'. st s' = st (svc w) \<Longrightarrow> filter (\<lambda>x. op_id x = i) (t_opportunities (st (svc w))) = [o'] \<Longrightarrow>
      owner_of (st (svc w)) u o' \<Longrightarrow> Q (Inr o') (w\<lparr>svc := s'\<rparr>)"
    and bad: "\<And>e s'. st s' = st (svc w) \<Longrightarrow> Q (Inl e) (w\<lparr>svc := s'\<rparr>)"
  shows "wp (requireOwner B u i) Q w" and "wp (assertOpportunityOwner B u i) Q w"
  unfolding requireOwner_def assertOpportunityOwner_def
  by (auto simp: wp_simps owner_of_def intro!: wp_loadOpportunity wp_requireProjectProfileId ok bad)


lemma create_steps: "wp (createOpportunity B u dto) (\<lambda>_ v. (market_step u None)\<^sup>*\<^sup>* (st (svc w)) (st (svc v))) w"
proof -
  have post: "(market_step u None)\<^sup>*\<^sup>* ts (ts\<lparr>t_opportunities := t_opportunities ts @ [gen_opportunity i t (new_opportunity pid dto)]\<rparr>)"
    if "profile_of ts u pid ''enterprise''" "keyed op_id (t_opportunities ts @ [gen_opportunity i t (new_opportunity pid dto)])" for ts i t pid
    by (rule r_into_rtranclp, rule Post)
      (use that in \<open>auto simp: owner_of_def gen_opportunity_def new_opportunity_def keyed_def image_iff\<close>)
  show ?thesis
    unfolding createOpportunity_def
    by (auto simp: wp_simps intro!: wp_requireProjectProfileId opportunities_wp(5) post)
qed

lemma update_steps: "wp (updateOpportunity B u i dto) (\<lambda>_ v. (market_step u None)\<^sup>*\<^sup>* (st (svc w)) (st (svc v))) w"
  unfolding updateOpportunity_def wp_bnd [of "requireOwner B u i"]
proof (rule wp_requireOwner, goal_cases)
  case (1 o' s')
  let ?a = "st (svc w)"
  have edit: "(market_step u None)\<^sup>*\<^sup>* ?a (?a\<lparr>t_opportunities := update_where (\<lambda>x. op_id x = i) (opportunity_patch dto) (t_opportunities ?a)\<rparr>)"
    if "op_status o' = ''open''" "uod_status dto = None \<or> uod_status dto = Some ''closed'' \<or> uod_status dto = Some ''filled''"
    by (rule r_into_rtranclp, rule Edit [OF 1(2,3) that])
  show ?case
    using 1 by (auto simp: wp_simps isAllowedStatusTransition_def intro!: opportunities_wp(8) edit split: option.split)
qed auto

lemma without_one:
  assumes "filter (\<lambda>x. op_id x = i) (t_opportunities ts) = [o']"
  shows "without_opportunities (\<lambda>x. op_id x = i) ts = ts\<lparr>t_opportunities := filter (\<lambda>x. op_id x \<noteq> i) (t_opportunities ts),
    t_applications := filter (\<lambda>a. ap_opportunity_id a \<noteq> i) (t_applications ts)\<rparr>"
proof -
  have "list_ex (\<lambda>r. op_id r = i \<and> op_id r = j) (t_opportunities ts) \<longleftrightarrow> j = i" for j
    using filter_hdD [OF assms] by (auto simp: list_ex_iff)
  then show ?thesis by (simp add: without_opportunities_def)
qed

lemma remove_steps: "wp (removeOpportunity B u i) (\<lambda>_ v. (market_step u (Some i))\<^sup>*\<^sup>* (st (svc w)) (st (svc v))) w"
  unfolding removeOpportunity_def wp_bnd [of "requireOwner B u i"]
proof (rule wp_requireOwner, goal_cases)
  case (1 o' s')
  have "(market_step u (Some i))\<^sup>*\<^sup>* (st (svc w)) (without_opportunities (\<lambda>x. op_id x = i) (st (svc w)))"
    unfolding without_one [OF 1(2)] by (rule r_into_rtranclp, rule Withdraw [OF refl 1(2,3)])
  then show ?case using 1 by (auto simp: wp_simps intro!: wp_delete_opportunities split: option.split)
qed auto

lemma apply_steps: "wp (apply_to B u dto) (\<lambda>_ v. (market_step u None)\<^sup>*\<^sup>* (st (svc w)) (st (svc v))) w"
proof -
  have app: "(market_step u None)\<^sup>*\<^sup>* ts (ts\<lparr>t_applications := t_applications ts @ [gen_application i t (new_application u dto)]\<rparr>)"
    if "filter (\<lambda>x. op_id x = cad_opportunity_id dto) (t_opportunities ts) = [o']" "op_status o' = ''open''" "profile_of ts u pid kind"
      "op_project_id o' \<noteq> pid" "valid_applications (t_applications ts @ [gen_application i t (new_application u dto)])" for ts i t pid kind o'
    by (rule r_into_rtranclp, rule Apply [OF _ that(2-4)])
      (use that in \<open>simp_all add: gen_application_def new_application_def\<close>)
  show ?thesis
    unfolding apply_to_def wp_bnd [of "requireCallerProfileId B u"]
  proof (rule wp_requireCallerProfileId, goal_cases)
    case (1 pid kind s')
    show ?case unfolding sum.case wp_bnd [of "loadOpportunity B i" for i]
    proof (rule wp_loadOpportunity, goal_cases)
      case (1 o' s2)
      with \<open>st s' = _\<close> \<open>profile_of _ _ _ _\<close> show ?case
        by (auto simp: wp_simps intro!: applications_wp(5) app split: option.split)
    qed (use 1 in auto)
  qed auto
qed

lemma settle_steps:
  assumes a: "filter (\<lambda>x. ap_id x = i) (t_applications (st (svc v))) = [a]" "ap_status a = ''accepted''" "ap_opportunity_id a = oid"
    and o': "filter (\<lambda>x. op_id x = oid) (t_opportunities (st (svc v))) = [o']" "owner_of (st (svc v)) u o'"
  shows "wp (settle_accepted B oid i) (\<lambda>_ v'. (market_step u None)\<^sup>*\<^sup>* (st (svc v)) (st (svc v'))) v"
proof -
  let ?b = "st (svc v)" and ?c = "(st (svc v))\<lparr>t_opportunities := fill oid (t_opportunities (st (svc v)))\<rparr>"
  have "a \<in> set (t_applications ?b)" using filter_hdD [OF a(1)] by simp
  then have f: "market_step u None ?b ?c" by (rule Fill [OF _ a(2,3) o'])
  have r: "market_step u None ?c (?c\<lparr>t_applications := reject_others (ap_opportunity_id a) i (t_applications ?c)\<rparr>)"
  proof (rule Reject)
    show "filter (\<lambda>x. op_id x = ap_opportunity_id a) (t_opportunities ?c) = [o'\<lparr>op_status := ''filled''\<rparr>]"
      using o'(1) a(3) by (simp add: fill_def update_where_single)
  qed (use a o' in \<open>auto simp: owner_of_def profile_of_def\<close>)
  have both: "(market_step u None)\<^sup>*\<^sup>* ?b (?c\<lparr>t_applications := reject_others oid i (t_applications ?c)\<rparr>)"
    using f r a(3) by (meson r_into_rtranclp rtranclp.rtrancl_into_rtrancl)
  show ?thesis unfolding settle_accepted_def wp_bnd
  proof (rule opportunities_wp(7), goal_cases)
    case (2 s2)
    then have s2: "st s2 = ?c" by (simp add: fill_def)
    show ?case unfolding sum.case option.case wp_bnd
    proof (rule applications_wp(7), goal_cases)
      case (2 s3)
      then show ?case using both s2 by (simp add: wp_ret reject_others_def)
    qed (use s2 f in \<open>auto simp: wp_ret\<close>)
  qed (auto simp: wp_throw)
qed

lemma decide_steps: "wp (updateApplicationStatus B u i s) (\<lambda>_ v. (market_step u None)\<^sup>*\<^sup>* (st (svc w)) (st (svc v))) w"
  unfolding updateApplicationStatus_def wp_bnd [of "call (select_one (applications B) P)" for P]
proof (rule applications_wp(2), goal_cases)
  case (3 a s')
  let ?a = "st (svc w)"
  show ?case unfolding sum.case prod.case option.case wp_bnd [of "assertOpportunityOwner B u j" for j]
  proof (rule wp_requireOwner(2), goal_cases)
    case (1 o' s2)
    have s2: "st s2 = ?a" using 1(1) 3(1) by simp
    note o' = 1(2,3) [simplified 3(1)]
    let ?b = "?a\<lparr>t_applications := decide i s (t_applications ?a)\<rparr>"
    have d: "market_step u None ?a ?b" if "ap_status a = ''pending''"
      by (rule Decide [OF 3(2) that]) (use o' 3(1) in auto)
    have f: "filter (\<lambda>x. ap_id x = i) (t_applications ?b) = [a\<lparr>ap_status := s\<rparr>]"
      using 3(2) by (simp add: decide_def update_where_single)
    have settled: "wp (settle_accepted B (ap_opportunity_id a) i) (\<lambda>_ v'. (market_step u None)\<^sup>*\<^sup>* ?b (st (svc v'))) (w\<lparr>svc := s3\<rparr>)"
      if "st s3 = ?b" "s = ''accepted''" for s3
      using settle_steps [of i "w\<lparr>svc := s3\<rparr>" "a\<lparr>ap_status := s\<rparr>" "ap_opportunity_id a" o' u] that f o' 3(1)
      by (simp add: owner_of_def profile_of_def)
    have step: "wp (bnd (if s = ''accepted'' then settle_accepted B (ap_opportunity_id a) i else ret ()) (\<lambda>_. ret data))
        (\<lambda>_ v. (market_step u None)\<^sup>*\<^sup>* ?a (st (svc v))) (w\<lparr>svc := s3\<rparr>)"
      if p: "ap_status a = ''pending''" and s3: "st s3 = ?b" for s3 data
    proof (cases "s = ''accepted''")
      case True
      have "wp (settle_accepted B (ap_opportunity_id a) i) (\<lambda>r v. case r of Inl e \<Rightarrow> (market_step u None)\<^sup>*\<^sup>* ?a (st (svc v))
          | Inr x \<Rightarrow> wp (ret data) (\<lambda>_ v. (market_step u None)\<^sup>*\<^sup>* ?a (st (svc v))) v) (w\<lparr>svc := s3\<rparr>)"
        by (rule wp_mono [OF settled [OF s3 True]])
          (use d [OF p] in \<open>auto simp: wp_ret split: sum.split intro: converse_rtranclp_into_rtranclp\<close>)
      then show ?thesis using True by (simp add: wp_bnd)
    next
      case False
      then show ?thesis using d [OF p] s3 by (simp add: wp_bnd wp_ret r_into_rtranclp)
    qed
    show ?case
    proof (cases "ap_status a = ''pending''")
      case True
      show ?thesis unfolding sum.case wp_bnd [of "require c e" for c e] wp_require if_P [OF True] wp_bnd [of "call x" for x]
      proof (rule applications_wp(8), goal_cases)
        case (2 r s3)
        then show ?case using step [OF True, of s3] s2 by (simp add: decide_def split del: if_split)
      qed (simp_all add: wp_throw s2)
    next
      case False
      then show ?thesis using s2 by (simp add: wp_bnd wp_require)
    qed
  qed (use 3 in auto)
qed (auto simp: wp_throw)

lemma handle_steps: "(market_step (fst q) (removes (snd q)))\<^sup>*\<^sup>* (st (svc w)) (st (svc (handle_market B q w)))"
proof -
  obtain u op where q: "q = (u, op)" by (cases q)
  note run = wp_after [where R = "\<lambda>v. (market_step u g)\<^sup>*\<^sup>* (st (svc w)) (st (svc v))" for g]
  show ?thesis
    unfolding q
    by (cases op) (simp_all add: run [OF create_steps] run [OF update_steps] run [OF remove_steps] run [OF apply_steps] run [OF decide_steps])
qed

end

section \<open>What steps keep\<close>

text \<open>
  The past of both tables: an application keeps its opportunity, builder and message, and its status once decided; an
  opportunity keeps its owner, is frozen once it is no longer open except that a closed one may be filled, and a filled
  one stays filled. Removing an opportunity, which only its owner can, takes its applications with it.
\<close>

definition same_application :: "application \<Rightarrow> application \<Rightarrow> bool" where
  "same_application a b \<longleftrightarrow> ap_id b = ap_id a \<and> ap_opportunity_id b = ap_opportunity_id a \<and> ap_builder_id b = ap_builder_id a \<and>
     ap_message b = ap_message a \<and> (ap_status a \<noteq> ''pending'' \<longrightarrow> ap_status b = ap_status a)"

definition frozen :: "opportunity \<Rightarrow> opportunity" where
  "frozen o' = o'\<lparr>op_status := []\<rparr>"

definition same_opportunity :: "opportunity \<Rightarrow> opportunity \<Rightarrow> bool" where
  "same_opportunity a b \<longleftrightarrow> op_id b = op_id a \<and> op_project_id b = op_project_id a \<and>
     (op_status a \<noteq> ''open'' \<longrightarrow> frozen b = frozen a \<and> (op_status b = op_status a \<or> op_status b = ''filled''))"

definition market_past :: "string \<Rightarrow> string option \<Rightarrow> tables \<Rightarrow> tables \<Rightarrow> bool" where
  "market_past u gone a b \<longleftrightarrow> (\<forall>x \<in> set (t_applications a). (\<exists>y \<in> set (t_applications b). same_application x y) \<or>
       gone = Some (ap_opportunity_id x) \<and> (\<forall>o' \<in> set (t_opportunities a). op_id o' = ap_opportunity_id x \<longrightarrow> owner_of a u o')) \<and>
     (\<forall>x \<in> set (t_opportunities a). (\<exists>y \<in> set (t_opportunities b). same_opportunity x y) \<or> gone = Some (op_id x) \<and> owner_of a u x) \<and>
     a\<lparr>t_opportunities := [], t_applications := []\<rparr> = b\<lparr>t_opportunities := [], t_applications := []\<rparr>"

lemma same_application_refl [simp]: "same_application a a"
  by (simp add: same_application_def)

lemma same_application_trans: "same_application a b \<Longrightarrow> same_application b c \<Longrightarrow> same_application a c"
  by (simp add: same_application_def)

lemma same_opportunity_refl [simp]: "same_opportunity a a"
  by (simp add: same_opportunity_def)

lemma same_opportunity_trans: "same_opportunity a b \<Longrightarrow> same_opportunity b c \<Longrightarrow> same_opportunity a c"
  by (auto simp: same_opportunity_def)

lemma market_past_refl [simp]: "market_past u gone a a"
  by (auto simp: market_past_def intro: same_application_refl same_opportunity_refl)

lemma owner_of_kept:
  assumes "a\<lparr>t_opportunities := [], t_applications := []\<rparr> = b\<lparr>t_opportunities := [], t_applications := []\<rparr>" and "same_opportunity x y"
  shows "owner_of b u y = owner_of a u x"
proof -
  have "t_users a = t_users b" "t_profiles a = t_profiles b"
    using arg_cong [OF assms(1), of t_users] arg_cong [OF assms(1), of t_profiles] by simp_all
  then show ?thesis using assms(2) by (simp add: owner_of_def profile_of_def same_opportunity_def)
qed

lemma update_where_all:
  assumes "\<And>x. x \<in> set xs \<Longrightarrow> P x \<Longrightarrow> R x (f x)" and "\<And>x. R x x"
  shows "\<forall>x \<in> set xs. \<exists>y \<in> set (update_where P f xs). R x y"
proof
  fix x assume x: "x \<in> set xs"
  then have "(if P x then f x else x) \<in> set (update_where P f xs)" by (auto simp: update_where_def)
  moreover have "R x (if P x then f x else x)" using assms x by simp
  ultimately show "\<exists>y \<in> set (update_where P f xs). R x y" by blast
qed

lemma step_past: "market_step u gone a b \<Longrightarrow> market_past u gone a b"
proof (induction rule: market_step.induct)
  case (Post ts o')
  then show ?case by (auto simp: market_past_def intro: same_application_refl same_opportunity_refl)
next
  case (Edit i ts o' dto)
  have "same_opportunity x (opportunity_patch dto x)" if "x \<in> set (t_opportunities ts)" "op_id x = i" for x
    using filter_singleD [OF Edit(1) that] Edit(3) by (simp add: same_opportunity_def opportunity_patch_def)
  then have "\<forall>x \<in> set (t_opportunities ts). \<exists>y \<in> set (update_where (\<lambda>x. op_id x = i) (opportunity_patch dto) (t_opportunities ts)). same_opportunity x y"
    by (intro update_where_all) simp_all
  then show ?case by (auto simp: market_past_def intro: same_application_refl)
next
  case (Withdraw i ts o')
  have "owner_of ts u x" if "x \<in> set (t_opportunities ts)" "op_id x = i" for x
    using filter_singleD [OF Withdraw(2) that] Withdraw(3) by simp
  then show ?case using Withdraw(1) by (auto simp: market_past_def intro: same_application_refl same_opportunity_refl)
next
  case (Apply a ts o' pid kind)
  then show ?case by (auto simp: market_past_def intro: same_application_refl same_opportunity_refl)
next
  case (Decide i ts a o' s)
  have "same_application x (x\<lparr>ap_status := s\<rparr>)" if "x \<in> set (t_applications ts)" "ap_id x = i" for x
    using filter_singleD [OF Decide(1) that] Decide(2) by (simp add: same_application_def)
  then have "\<forall>x \<in> set (t_applications ts). \<exists>y \<in> set (decide i s (t_applications ts)). same_application x y"
    unfolding decide_def by (intro update_where_all) simp_all
  then show ?case by (auto simp: market_past_def intro: same_opportunity_refl)
next
  case (Fill a ts i o')
  have "\<forall>x \<in> set (t_opportunities ts). \<exists>y \<in> set (fill i (t_opportunities ts)). same_opportunity x y"
    unfolding fill_def by (intro update_where_all) (simp_all add: same_opportunity_def frozen_def)
  then show ?case by (auto simp: market_past_def intro: same_application_refl)
next
  case (Reject i ts a o')
  have "\<forall>x \<in> set (t_applications ts). \<exists>y \<in> set (reject_others (ap_opportunity_id a) i (t_applications ts)). same_application x y"
    unfolding reject_others_def by (intro update_where_all) (simp_all add: same_application_def)
  then show ?case by (auto simp: market_past_def intro: same_opportunity_refl)
qed

lemma market_past_trans:
  assumes ab: "market_past u gone a b" and bc: "market_past u gone b c"
  shows "market_past u gone a c"
proof -
  have frame: "a\<lparr>t_opportunities := [], t_applications := []\<rparr> = b\<lparr>t_opportunities := [], t_applications := []\<rparr>"
    using ab by (simp add: market_past_def)
  have kept: "owner_of a u x" if x: "x \<in> set (t_opportunities a)"
    and b: "\<And>y. y \<in> set (t_opportunities b) \<Longrightarrow> op_id y = op_id x \<Longrightarrow> owner_of b u y" for x
  proof -
    from ab x consider y where "y \<in> set (t_opportunities b)" "same_opportunity x y" | "owner_of a u x"
      unfolding market_past_def by blast
    then show ?thesis
    proof cases
      case 1
      then show ?thesis using b [OF 1(1)] owner_of_kept [OF frame 1(2)] by (simp add: same_opportunity_def)
    qed
  qed
  have opp: "(\<exists>z \<in> set (t_opportunities c). same_opportunity x z) \<or> gone = Some (op_id x) \<and> owner_of a u x"
    if x: "x \<in> set (t_opportunities a)" for x
  proof (cases "gone = Some (op_id x) \<and> owner_of a u x")
    case False
    then obtain y where y: "y \<in> set (t_opportunities b)" "same_opportunity x y" using ab x by (auto simp: market_past_def)
    have "gone = Some (op_id y) \<and> owner_of b u y \<longleftrightarrow> gone = Some (op_id x) \<and> owner_of a u x"
      using y(2) owner_of_kept [OF frame y(2)] by (simp add: same_opportunity_def)
    then obtain z where "z \<in> set (t_opportunities c)" "same_opportunity y z" using bc y(1) False by (auto simp: market_past_def)
    then show ?thesis using same_opportunity_trans [OF y(2)] by blast
  qed simp
  have app: "(\<exists>z \<in> set (t_applications c). same_application x z) \<or>
      gone = Some (ap_opportunity_id x) \<and> (\<forall>o' \<in> set (t_opportunities a). op_id o' = ap_opportunity_id x \<longrightarrow> owner_of a u o')"
    if x: "x \<in> set (t_applications a)" for x
  proof (cases "\<exists>y \<in> set (t_applications b). same_application x y")
    case True
    then obtain y where y: "y \<in> set (t_applications b)" "same_application x y" by blast
    then have id: "ap_opportunity_id y = ap_opportunity_id x" by (simp add: same_application_def)
    from bc y(1) consider z where "z \<in> set (t_applications c)" "same_application y z"
      | "gone = Some (ap_opportunity_id x)" "\<forall>o' \<in> set (t_opportunities b). op_id o' = ap_opportunity_id x \<longrightarrow> owner_of b u o'"
      unfolding market_past_def id [symmetric] by blast
    then show ?thesis using kept same_application_trans [OF y(2)] by cases auto
  next
    case False
    then show ?thesis using ab x by (auto simp: market_past_def)
  qed
  show ?thesis using opp app frame bc by (simp add: market_past_def)
qed

text \<open>The keys of the opportunities stay distinct.\<close>

lemma update_where_ids: "(\<And>x. op_id (f x) = op_id x) \<Longrightarrow> map op_id (update_where P f xs) = map op_id xs"
  by (auto simp: update_where_def)

lemma step_distinct: "market_step u gone a b \<Longrightarrow> distinct (map op_id (t_opportunities a)) \<Longrightarrow> distinct (map op_id (t_opportunities b))"
  by (induction rule: market_step.induct) (auto simp: update_where_ids opportunity_patch_def fill_def distinct_map_filter)

lemma steps_distinct: "(market_step u gone)\<^sup>*\<^sup>* a b \<Longrightarrow> distinct (map op_id (t_opportunities a)) \<Longrightarrow> distinct (map op_id (t_opportunities b))"
  by (induction rule: rtranclp_induct) (auto dest: step_distinct)

lemma steps_past: "(market_step u gone)\<^sup>*\<^sup>* a b \<Longrightarrow> market_past u gone a b"
  by (induction rule: rtranclp_induct) (auto intro: step_past market_past_trans)


section \<open>Properties\<close>

text \<open>
  (C35) The marketplace services refine the step relation. Over any database: a request of a user, successful or not, takes the
  tables through steps of that user only: posting for the own project, editing or moving an open opportunity of
  the own project to closed or filled, removing one, applying as another profile to an open opportunity as its first application of
  that user, deciding a pending application to an own opportunity, filling the opportunity of an accepted
  application, and then rejecting the other pending ones.
\<close>

theorem market_refines:
  assumes "database B st" and "handle_market B (u, request) w = w'"
  shows "(market_step u (removes request))\<^sup>*\<^sup>* (st (svc w)) (st (svc w'))"
  using database.handle_steps [OF assms(1), of "(u, request)" w] assms(2) by simp

text \<open>
  (C36) Decisions last. Over any database whose opportunities have distinct keys, after any sequence of requests by any users: every application is
  still there for the same opportunity, builder and message, with its status unless that was pending, or a request of the owner of its
  opportunity removed that opportunity, and with it its applications; every opportunity is still there for its
  owner unless a request of its owner removed it, unchanged if it was no longer open, except that a closed one may be
  filled; and no other table has changed.
\<close>

theorem market_lasts:
  assumes "database B st" and "a = st (svc w)" and "b = st (svc (handle_requests B qs w))" and "distinct (map op_id (t_opportunities a))"
  shows "(\<forall>x \<in> set (t_applications a). (\<exists>y \<in> set (t_applications b). same_application x y) \<or>
       (\<exists>u. (u, RemoveOpportunity (ap_opportunity_id x)) \<in> set qs \<and>
          (\<forall>o' \<in> set (t_opportunities a). op_id o' = ap_opportunity_id x \<longrightarrow> owner_of a u o'))) \<and>
    (\<forall>x \<in> set (t_opportunities a). (\<exists>y \<in> set (t_opportunities b). same_opportunity x y) \<or>
       (\<exists>u. (u, RemoveOpportunity (op_id x)) \<in> set qs \<and> owner_of a u x)) \<and>
    a\<lparr>t_opportunities := [], t_applications := []\<rparr> = b\<lparr>t_opportunities := [], t_applications := []\<rparr>"
  using assms(2,3,4)
proof (induction qs arbitrary: w a)
  case Nil
  then show ?case by (auto simp: handle_requests_def intro: same_application_refl same_opportunity_refl)
next
  case (Cons q qs)
  obtain u op where q: "q = (u, op)" by (cases q)
  let ?c = "st (svc (handle_market B q w))"
  have steps: "(market_step u (removes op))\<^sup>*\<^sup>* a ?c"
    using database.handle_steps [OF assms(1), of q w] Cons.prems(1) by (simp add: q)
  have step: "market_past u (removes op) a ?c" by (rule steps_past [OF steps])
  have frame: "a\<lparr>t_opportunities := [], t_applications := []\<rparr> = ?c\<lparr>t_opportunities := [], t_applications := []\<rparr>"
    using step by (simp add: market_past_def)
  have "b = st (svc (handle_requests B qs (handle_market B q w)))" using Cons.prems(2) by (simp add: handle_requests_def)
  note rest = Cons.IH [OF refl this steps_distinct [OF steps Cons.prems(3)]]
  have gone: "(u, RemoveOpportunity i) \<in> set (q # qs)" if "removes op = Some i" for i using that q by (cases op) auto
  have same: "op_id y = op_id x \<and> owner_of ?c v y = owner_of a v x" if "same_opportunity x y" for x y v
    using that owner_of_kept [OF frame that] by (simp add: same_opportunity_def)
  have opps: "(\<exists>z \<in> set (t_opportunities b). same_opportunity x z) \<or> (\<exists>v. (v, RemoveOpportunity (op_id x)) \<in> set (q # qs) \<and> owner_of a v x)"
    if x: "x \<in> set (t_opportunities a)" for x
  proof (cases "removes op = Some (op_id x) \<and> owner_of a u x")
    case True
    then show ?thesis using gone by blast
  next
    case False
    then obtain y where y: "y \<in> set (t_opportunities ?c)" "same_opportunity x y" using step x by (auto simp: market_past_def)
    from rest y(1) consider z where "z \<in> set (t_opportunities b)" "same_opportunity y z"
      | v where "(v, RemoveOpportunity (op_id y)) \<in> set qs" "owner_of ?c v y" by blast
    then show ?thesis using same [OF y(2)] same_opportunity_trans [OF y(2)] by cases auto
  qed
  have apps: "(\<exists>z \<in> set (t_applications b). same_application x z) \<or> (\<exists>v. (v, RemoveOpportunity (ap_opportunity_id x)) \<in> set (q # qs) \<and>
      (\<forall>o' \<in> set (t_opportunities a). op_id o' = ap_opportunity_id x \<longrightarrow> owner_of a v o'))"
    if x: "x \<in> set (t_applications a)" for x
  proof (cases "removes op = Some (ap_opportunity_id x) \<and>
      (\<forall>o' \<in> set (t_opportunities a). op_id o' = ap_opportunity_id x \<longrightarrow> owner_of a u o')")
    case True
    then show ?thesis using gone by blast
  next
    case False
    then obtain y where y: "y \<in> set (t_applications ?c)" "same_application x y" using step x by (auto simp: market_past_def)
    then have id: "ap_opportunity_id y = ap_opportunity_id x" by (simp add: same_application_def)
    from rest y(1) consider z where "z \<in> set (t_applications b)" "same_application y z"
      | v where "(v, RemoveOpportunity (ap_opportunity_id x)) \<in> set qs"
          "\<forall>o' \<in> set (t_opportunities ?c). op_id o' = ap_opportunity_id x \<longrightarrow> owner_of ?c v o'" unfolding id [symmetric] by blast
    then show ?thesis
    proof cases
      case 1
      then show ?thesis using same_application_trans [OF y(2)] by blast
    next
      case (2 v)
      have "owner_of a v o'" if o': "o' \<in> set (t_opportunities a)" "op_id o' = ap_opportunity_id x" for o'
      proof (cases "removes op = Some (op_id o') \<and> owner_of a u o'")
        case True
        have "o'' = o'" if "o'' \<in> set (t_opportunities a)" "op_id o'' = ap_opportunity_id x" for o''
          using that o' Cons.prems(3) by (metis distinct_map inj_onD)
        then show ?thesis using True False o'(2) by auto
      next
        case False
        then obtain z where "z \<in> set (t_opportunities ?c)" "same_opportunity o' z" using step o'(1) by (auto simp: market_past_def)
        then show ?thesis using 2(2) same [of o' z v] o'(2) by auto
      qed
      then show ?thesis using 2(1) by auto
    qed
  qed
  show ?case using apps opps frame rest by simp
qed


section \<open>Runs\<close>

text \<open>A project, two builders, and an opportunity one of them has applied to.\<close>

definition market_user :: "string \<Rightarrow> string \<Rightarrow> auth_user" where
  "market_user u address = \<lparr>au_id = u, au_wallet = Some address, au_pollar_user_id = None, au_wallet_provider = None\<rparr>"

definition market_profile :: "string \<Rightarrow> string \<Rightarrow> string \<Rightarrow> profile" where
  "market_profile i address kind = \<lparr>pr_id = i, pr_wallet = address, pr_display_name = None, pr_email = None, pr_account_type = kind,
     pr_role = [], pr_handle = None, pr_show_earnings = False, pr_about = no_about, pr_created_at = 1, pr_updated_at = 1\<rparr>"

definition sample_opportunity :: "string \<Rightarrow> opportunity" where
  "sample_opportunity s = \<lparr>op_id = ''o1'', op_project_id = ''P1'', op_title = ''Audit'', op_description = ''An escrow audit'', op_skills = [''rust''],
     op_budget = 100, op_asset = ''USDC'', op_engagement = ''fixed'', op_status = s, op_created_at = 1\<rparr>"

definition sample_application :: application where
  "sample_application = \<lparr>ap_id = ''a0'', ap_opportunity_id = ''o1'', ap_builder_id = ''U3'', ap_message = [], ap_status = ''pending'', ap_created_at = 2\<rparr>"

definition market_world :: "string \<Rightarrow> mem world" where
  "market_world s = world_on (no_tables\<lparr>t_users := [market_user ''U1'' ''G1'', market_user ''U2'' ''G2'', market_user ''U3'' ''G3''],
     t_profiles := [market_profile ''P1'' ''G1'' ''enterprise'', market_profile ''P2'' ''G2'' ''personal'', market_profile ''P3'' ''G3'' ''personal''],
     t_opportunities := [sample_opportunity s], t_applications := [sample_application]\<rparr>) (quiet_env\<lparr>fresh := \<lambda>n. ''a1''\<rparr>)"

definition market_requests :: "(string \<times> market_request) list" where
  "market_requests = [(''U2'', ApplyTo \<lparr>cad_opportunity_id = ''o1'', cad_message = None\<rparr>), (''U1'', DecideApplication ''a1'' ''accepted''),
     (''U1'', DecideApplication ''a0'' ''accepted''), (''U2'', RemoveOpportunity ''o1'')]"

definition market_end :: "string \<Rightarrow> tables" where
  "market_end s = tabs (svc (handle_requests (mem_backend (\<lambda>_. None)) market_requests (market_world s)))"

lemma market_refines_witness:
  "tabs (svc (handle_market (mem_backend (\<lambda>_. None)) (''U1'', DecideApplication ''a0'' ''rejected'') (market_world ''open''))) \<noteq> tabs (svc (market_world ''open'')) \<and>
   (market_step ''U1'' None)\<^sup>*\<^sup>* (tabs (svc (market_world ''open'')))
     (tabs (svc (handle_market (mem_backend (\<lambda>_. None)) (''U1'', DecideApplication ''a0'' ''rejected'') (market_world ''open''))))"
proof -
  have "map ap_status (t_applications (tabs (svc (handle_market (mem_backend (\<lambda>_. None)) (''U1'', DecideApplication ''a0'' ''rejected'') (market_world ''open''))))) \<noteq>
      map ap_status (t_applications (tabs (svc (market_world ''open''))))"
    by code_simp
  moreover have "(market_step ''U1'' None)\<^sup>*\<^sup>* (tabs (svc (market_world ''open'')))
     (tabs (svc (handle_market (mem_backend (\<lambda>_. None)) (''U1'', DecideApplication ''a0'' ''rejected'') (market_world ''open''))))"
    using market_refines [OF mem.database_axioms refl, where u = "''U1''" and request = "DecideApplication ''a0'' ''rejected''"] by simp
  ultimately show ?thesis by metis
qed

lemma market_lasts_witness:
  "map ap_status (t_applications (market_end ''open'')) = [''rejected'', ''accepted''] \<and> map op_status (t_opportunities (market_end ''open'')) = [''filled''] \<and>
   (\<exists>y \<in> set (t_applications (market_end ''open'')). same_application sample_application y)"
proof -
  let ?a = "tabs (svc (market_world ''open''))"
  have tables: "t_applications ?a = [sample_application]" "t_opportunities ?a = [sample_opportunity ''open'']"
    "t_users ?a = [market_user ''U1'' ''G1'', market_user ''U2'' ''G2'', market_user ''U3'' ''G3'']"
    "t_profiles ?a = [market_profile ''P1'' ''G1'' ''enterprise'', market_profile ''P2'' ''G2'' ''personal'', market_profile ''P3'' ''G3'' ''personal'']"
    by (simp_all add: market_world_def world_on_def)
  have keys: "distinct (map op_id (t_opportunities ?a))" by (simp add: tables)
  have no_owner: "\<not> owner_of ?a ''U2'' (sample_opportunity ''open'')"
    by (simp add: owner_of_def profile_of_def tables market_user_def market_profile_def)
  have only: "v = ''U2''" if "(v, RemoveOpportunity i) \<in> set market_requests" for v i
    using that by (simp add: market_requests_def)
  have id: "ap_opportunity_id sample_application = op_id (sample_opportunity ''open'')"
    by (simp add: sample_application_def sample_opportunity_def)
  have "\<exists>y \<in> set (t_applications (market_end ''open'')). same_application sample_application y"
  proof -
    from market_lasts [OF mem.database_axioms [of "\<lambda>_. None"] refl refl keys, where qs = market_requests, THEN conjunct1]
    have "(\<exists>y \<in> set (t_applications (market_end ''open'')). same_application sample_application y) \<or>
      (\<exists>v. (v, RemoveOpportunity (ap_opportunity_id sample_application)) \<in> set market_requests \<and>
        owner_of ?a v (sample_opportunity ''open''))"
      unfolding market_end_def by (simp add: tables id)
    then show ?thesis using only no_owner by blast
  qed
  moreover have "map ap_status (t_applications (market_end ''open'')) = [''rejected'', ''accepted'']"
    "map op_status (t_opportunities (market_end ''open'')) = [''filled'']" by code_simp+
  ultimately show ?thesis by blast
qed

text \<open>Accepting an application does not ask whether the opportunity is open: a closed one becomes filled.\<close>

lemma closed_then_filled:
  "map op_status (t_opportunities (tabs (svc (handle_market (mem_backend (\<lambda>_. None)) (''U1'', DecideApplication ''a0'' ''accepted'') (market_world ''closed''))))) = [''filled'']"
  by code_simp

end
