(* ===== verification/Conversations.thy ===== *)
theory Conversations
  imports Access
begin

text \<open>
  \<open>files/files.service.ts\<close> with its constants, \<open>agreement-chat/agreement-chat.service.ts\<close> and
  \<open>contacts/contacts.service.ts\<close>. Files live in a private bucket and are read through links signed after an access check;
  messages of an agreement may carry them. The files embedded in a query of attachments are read by a query of
  their own; an upload is given by the fields the service reads.
\<close>

section \<open>Files\<close>

definition MAX_FILE_BYTES :: int where
  "MAX_FILE_BYTES = 10 * 1024 * 1024"

definition ALLOWED_CONTENT_TYPES :: "string list" where
  "ALLOWED_CONTENT_TYPES = [''image/png'', ''image/jpeg'', ''image/webp'', ''image/gif'', ''application/pdf'', ''text/plain'', ''text/csv'',
     ''application/msword'', ''application/vnd.openxmlformats-officedocument.wordprocessingml.document'', ''application/vnd.ms-excel'',
     ''application/vnd.openxmlformats-officedocument.spreadsheetml.sheet'']"

definition STORAGE_BUCKET :: "'s backend \<Rightarrow> string" where
  "STORAGE_BUCKET B = or_else (getenv B ''SUPABASE_STORAGE_BUCKET'') ''attachments''"

definition isAllowedContentType :: "string \<Rightarrow> bool" where
  "isAllowedContentType contentType = js_includes ALLOWED_CONTENT_TYPES contentType"

definition storagePathFor :: "string option \<Rightarrow> string \<Rightarrow> string" where
  "storagePathFor agreementId fileId =
     (if truthy agreementId then ''agreements/'' @ default agreementId [] else ''unscoped'') @ ''/'' @ fileId"

record uploaded_file =
  uf_name :: string
  uf_type :: string
  uf_size :: nat
  uf_buffer :: nat

record public_file =
  pf_id :: string
  pf_name :: string
  pf_type :: string
  pf_size :: nat

definition toPublicFile :: "stored_file \<Rightarrow> public_file" where
  "toPublicFile f = \<lparr>pf_id = fi_id f, pf_name = fi_name f, pf_type = fi_type f, pf_size = fi_size f\<rparr>"

definition assertAcceptable :: "uploaded_file \<Rightarrow> ('s world, unit) prog" where
  "assertAcceptable f =
     bnd (require (uf_buffer f \<noteq> 0) (BadRequest (Msg ''The uploaded file is empty''))) (\<lambda>_.
     bnd (require (int (uf_size f) \<le> MAX_FILE_BYTES) (PayloadTooLarge ''Files must be 10 MB or smaller'')) (\<lambda>_.
     require (isAllowedContentType (uf_type f)) (UnsupportedMediaType (''Files of type '' @ uf_type f @ '' are not accepted''))))"

definition assertAgreementAccess :: "'s backend \<Rightarrow> string \<Rightarrow> string \<Rightarrow> ('s world, unit) prog" where
  "assertAgreementAccess B userId agreementId =
     bnd (call (select_one (agreements B) (\<lambda>a. a_id a = agreementId))) (\<lambda>(agreement, error).
     case (error, agreement) of
       (None, Some a) \<Rightarrow>
         bnd (userCanAccessAgreement B userId agreementId (a_created_by a)) (\<lambda>allowed.
         require allowed (Forbidden ''Not a participant of this agreement''))
     | _ \<Rightarrow> throw (NotFound ''Agreement not found''))"

definition file_row :: "string \<Rightarrow> string \<Rightarrow> uploaded_file \<Rightarrow> string option \<Rightarrow> string \<Rightarrow> string \<Rightarrow> stored_file" where
  "file_row i path f agreementId userId wallet = \<lparr>fi_id = i, fi_path = path, fi_name = uf_name f, fi_type = uf_type f, fi_size = uf_size f,
     fi_agreement_id = agreementId, fi_user = userId, fi_wallet = wallet, fi_created_at = 0\<rparr>"

text \<open>The object is stored first; without its row it is taken out again.\<close>

definition store_file :: "'s backend \<Rightarrow> string \<Rightarrow> string \<Rightarrow> string option \<Rightarrow> uploaded_file \<Rightarrow> ('s world, stored_file) prog" where
  "store_file B userId wallet agreementId f =
     bnd (call (random_id B)) (\<lambda>i.
     let path = storagePathFor agreementId i
     in bnd (upload_object B path) (\<lambda>uploadError.
        bnd (require (uploadError = None) (ServiceUnavailable (''Could not store the file. If this persists, check that the \"''
          @ STORAGE_BUCKET B @ ''\" storage bucket exists.''))) (\<lambda>_.
        bnd (call (insert_row (files B) (file_row i path f agreementId userId wallet))) (\<lambda>(data, error).
        case (error, data) of
          (None, Some r) \<Rightarrow> ret r
        | (e, _) \<Rightarrow> bnd (remove_object B path) (\<lambda>_.
            throw (BadRequest (Msg (''Could not record the file: '' @ default (map_option e_message e) ''unknown''))))))))"

definition upload :: "'s backend \<Rightarrow> string \<Rightarrow> string \<Rightarrow> string option \<Rightarrow> uploaded_file \<Rightarrow> ('s world, stored_file) prog" where
  "upload B userId uploaderWallet agreementId f =
     bnd (assertAcceptable f) (\<lambda>_.
     bnd (if truthy agreementId then assertAgreementAccess B userId (default agreementId []) else ret ()) (\<lambda>_.
     store_file B userId uploaderWallet agreementId f))"

definition check_files :: "'s backend \<Rightarrow> string \<Rightarrow> stored_file list \<Rightarrow> ('s world, unit) prog" where
  "check_files B userId fs = for_each (\<lambda>f. if truthy (fi_agreement_id f)
     then assertAgreementAccess B userId (default (fi_agreement_id f) []) else ret ()) fs"

definition readableFiles :: "'s backend \<Rightarrow> string \<Rightarrow> string list \<Rightarrow> ('s world, stored_file list) prog" where
  "readableFiles B userId fileIds =
     (let unique = uniq (filter (\<lambda>i. i \<noteq> []) fileIds)
      in if unique = [] then ret []
         else bnd (call (select_rows (files B) (\<lambda>f. fi_id f \<in> set unique) (\<lambda>rs. rs))) (\<lambda>(data, error).
              case error of
                Some e \<Rightarrow> throw (BadRequest (Msg (''Could not read the files: '' @ e_message e)))
              | None \<Rightarrow>
                  let fs = default data []; missing = filter (\<lambda>i. \<not> list_ex (\<lambda>f. fi_id f = i) fs) unique
                  in bnd (require (missing = []) (NotFound (''No such file: '' @ join '', '' missing))) (\<lambda>_.
                     bnd (check_files B userId fs) (\<lambda>_. ret fs))))"

definition signedUrl :: "'s backend \<Rightarrow> string \<Rightarrow> string \<Rightarrow> ('s world, string \<times> string) prog" where
  "signedUrl B userId fileId =
     bnd (readableFiles B userId [fileId]) (\<lambda>fs.
     case fs of
       [] \<Rightarrow> throw (PlainError ''TypeError'')
     | f # _ \<Rightarrow>
         bnd (call (sign_object B (fi_path f))) (\<lambda>(url, error).
         bnd (require (error = None \<and> truthy url) (ServiceUnavailable (''Could not create a download link: '' @ default error ''unknown''))) (\<lambda>_.
         ret (default url [], fi_name f))))"

section \<open>Messages\<close>

record send_message_dto =
  sm_agreement_id :: string
  sm_sender_wallet :: string
  sm_message :: "string option"
  sm_attachment_ids :: "string list option"

definition chat_assertActorWallet :: "'s backend \<Rightarrow> string \<Rightarrow> string \<Rightarrow> ('s world, unit) prog" where
  "chat_assertActorWallet B userId actorWallet =
     bnd (resolveUserWallets B userId) (\<lambda>ws.
     require (js_includes ws actorWallet) (Forbidden ''sender_wallet does not match authenticated user''))"

definition chat_assertCanAccessAgreement :: "'s backend \<Rightarrow> string \<Rightarrow> string \<Rightarrow> ('s world, unit) prog" where
  "chat_assertCanAccessAgreement B userId agreementId =
     bnd (call (select_one (agreements B) (\<lambda>a. a_id a = agreementId))) (\<lambda>(agreement, aErr).
     case (aErr, agreement) of
       (None, Some a) \<Rightarrow>
         bnd (userCanAccessAgreement B userId agreementId (a_created_by a)) (\<lambda>allowed.
         require allowed (Forbidden ''Not a participant of this agreement''))
     | _ \<Rightarrow> throw (NotFound ''Agreement not found''))"

record message_view =
  mv_message :: chat_message
  mv_attachments :: "public_file list"

definition files_of :: "attachment list \<Rightarrow> stored_file list \<Rightarrow> string \<Rightarrow> public_file list" where
  "files_of links fs messageId = concat (map (\<lambda>l. map toPublicFile (filter (\<lambda>f. fi_id f = at_file_id l) fs))
     (filter (\<lambda>l. at_message_id l = messageId) links))"

definition withAttachments :: "'s backend \<Rightarrow> chat_message list \<Rightarrow> ('s world, message_view list) prog" where
  "withAttachments B ms =
     (let plain = map (\<lambda>m. \<lparr>mv_message = m, mv_attachments = []\<rparr>) ms
      in if ms = [] then ret []
         else bnd (call (select_rows (attachments B) (\<lambda>l. at_message_id l \<in> set (map cm_id ms)) (\<lambda>rs. rs))) (\<lambda>(links, error).
              if error \<noteq> None then ret plain
              else bnd (call (select_rows (files B) (\<lambda>f. fi_id f \<in> set (map at_file_id (default links []))) (\<lambda>rs. rs))) (\<lambda>(fs, filesError).
                   if filesError \<noteq> None then ret plain
                   else ret (map (\<lambda>m. \<lparr>mv_message = m, mv_attachments = files_of (default links []) (default fs []) (cm_id m)\<rparr>) ms))))"

definition getMessages :: "'s backend \<Rightarrow> string \<Rightarrow> string \<Rightarrow> ('s world, message_view list) prog" where
  "getMessages B userId agreementId =
     bnd (chat_assertCanAccessAgreement B userId agreementId) (\<lambda>_.
     bnd (call (select_rows (messages B) (\<lambda>m. cm_agreement_id m = agreementId) (sort_key cm_created_at))) (\<lambda>(data, error).
     case error of
       Some e \<Rightarrow> throw (BadRequest (Msg (''Failed to retrieve messages: '' @ e_message e)))
     | None \<Rightarrow> withAttachments B (default data [])))"

definition new_message :: "string \<Rightarrow> send_message_dto \<Rightarrow> string \<Rightarrow> chat_message" where
  "new_message userId dto t = \<lparr>cm_id = [], cm_agreement_id = sm_agreement_id dto, cm_sender_id = userId,
     cm_sender_wallet = sm_sender_wallet dto, cm_text = t, cm_created_at = 0\<rparr>"

definition foreign_file :: "string \<Rightarrow> stored_file \<Rightarrow> bool" where
  "foreign_file agreementId f \<longleftrightarrow> truthy (fi_agreement_id f) \<and> fi_agreement_id f \<noteq> Some agreementId"

definition post_message :: "'s backend \<Rightarrow> string \<Rightarrow> send_message_dto \<Rightarrow> string \<Rightarrow> string list \<Rightarrow> stored_file list \<Rightarrow> ('s world, message_view) prog" where
  "post_message B userId dto t attachmentIds fs =
     bnd (call (insert_row (messages B) (new_message userId dto t))) (\<lambda>(data, error).
     case (error, data) of
       (None, Some m) \<Rightarrow>
         bnd (if length attachmentIds > 0
              then bnd (call (insert_rows (attachments B) (map (\<lambda>i. \<lparr>at_message_id = cm_id m, at_file_id = i\<rparr>) attachmentIds))) (\<lambda>linkError.
                   case linkError of
                     Some e \<Rightarrow> throw (BadRequest (Msg (''Failed to attach the files: '' @ e_message e)))
                   | None \<Rightarrow> ret ())
              else ret ()) (\<lambda>_.
         ret \<lparr>mv_message = m, mv_attachments = map toPublicFile fs\<rparr>)
     | (e, _) \<Rightarrow> throw (BadRequest (Msg (''Failed to send message: '' @ default (map_option e_message e) []))))"

definition sendMessage :: "'s backend \<Rightarrow> string \<Rightarrow> send_message_dto \<Rightarrow> ('s world, message_view) prog" where
  "sendMessage B userId dto =
     bnd (chat_assertCanAccessAgreement B userId (sm_agreement_id dto)) (\<lambda>_.
     bnd (chat_assertActorWallet B userId (sm_sender_wallet dto)) (\<lambda>_.
     let attachmentIds = default (sm_attachment_ids dto) [];
         t = (case sm_message dto of None \<Rightarrow> [] | Some m \<Rightarrow> trim m)
     in bnd (require (\<not> (t = [] \<and> length attachmentIds = 0)) (BadRequest (Msg ''Message cannot be empty''))) (\<lambda>_.
        bnd (readableFiles B userId attachmentIds) (\<lambda>fs.
        bnd (require (\<not> list_ex (foreign_file (sm_agreement_id dto)) fs)
          (BadRequest (Msg ''An attachment belongs to a different agreement''))) (\<lambda>_.
        post_message B userId dto t attachmentIds fs)))))"

section \<open>Contacts\<close>

record add_contact_dto =
  ac_name :: string
  ac_email :: "string option"
  ac_phone :: "string option"
  ac_wallet :: "string option"

text \<open>\<open>by_name\<close> is the order of the database's collation.\<close>

definition listContacts :: "'s backend \<Rightarrow> (contact list \<Rightarrow> contact list) \<Rightarrow> string \<Rightarrow> ('s world, contact list \<times> string option) prog" where
  "listContacts B by_name userId =
     bnd (call (select_rows (contacts B) (\<lambda>c. co_user_id c = userId) by_name)) (\<lambda>(data, error).
     ret (case error of Some e \<Rightarrow> ([], Some (e_message e)) | None \<Rightarrow> (default data [], None)))"

definition known_contact :: "string \<Rightarrow> add_contact_dto \<Rightarrow> profile \<Rightarrow> contact" where
  "known_contact userId dto p = \<lparr>co_id = [], co_user_id = userId, co_contact_user_id = Some (pr_id p), co_name = ac_name dto,
     co_email = ac_email dto, co_phone = None, co_wallet = Some (pr_wallet p), co_status = ''active''\<rparr>"

definition pending_contact :: "string \<Rightarrow> add_contact_dto \<Rightarrow> contact" where
  "pending_contact userId dto = \<lparr>co_id = [], co_user_id = userId, co_contact_user_id = None, co_name = ac_name dto,
     co_email = ac_email dto, co_phone = ac_phone dto, co_wallet = ac_wallet dto, co_status = ''pending''\<rparr>"

definition invite_link :: "string \<Rightarrow> string \<Rightarrow> string \<Rightarrow> string" where
  "invite_link appBaseUrl userId contactId =
     (if appBaseUrl \<noteq> [] \<and> last appBaseUrl = CHR ''/'' then butlast appBaseUrl else appBaseUrl) @ ''/invite?ref='' @ userId @ ''&contact='' @ contactId"

definition addContact ::
    "'s backend \<Rightarrow> string \<Rightarrow> add_contact_dto \<Rightarrow> string \<Rightarrow> ('s world, contact option \<times> string option \<times> string option) prog" where
  "addContact B userId dto appBaseUrl =
     bnd (if truthy (ac_email dto) then call (select_one (profiles B) (\<lambda>p. pr_email p = ac_email dto)) else ret (None, None)) (\<lambda>(existing, _).
     case existing of
       Some p \<Rightarrow>
         bnd (call (insert_row (contacts B) (known_contact userId dto p))) (\<lambda>(c, error).
         ret (case error of Some e \<Rightarrow> (None, None, Some (e_message e)) | None \<Rightarrow> (c, None, None)))
     | None \<Rightarrow>
         bnd (call (insert_row (contacts B) (pending_contact userId dto))) (\<lambda>(c, error).
         ret (case (error, c) of
                (None, Some x) \<Rightarrow> (c, Some (invite_link appBaseUrl userId (co_id x)), None)
              | (e, _) \<Rightarrow> (None, None, map_option e_message e))))"

definition removeContact :: "'s backend \<Rightarrow> string \<Rightarrow> string \<Rightarrow> ('s world, string option) prog" where
  "removeContact B userId contactId =
     bnd (call (delete_rows (contacts B) (\<lambda>c. co_id c = contactId \<and> co_user_id c = userId))) (\<lambda>error.
     ret (map_option e_message error))"

section \<open>What the checks prove\<close>

definition readable :: "tables \<Rightarrow> string \<Rightarrow> stored_file \<Rightarrow> bool" where
  "readable ts u f \<longleftrightarrow> (truthy (fi_agreement_id f) \<longrightarrow> may_access ts u (default (fi_agreement_id f) []))"

lemma same_access_check:
  "assertAgreementAccess B u i = assertCanAccessAgreement B u i" "chat_assertCanAccessAgreement B u i = assertCanAccessAgreement B u i"
  by (simp_all add: assertAgreementAccess_def chat_assertCanAccessAgreement_def assertCanAccessAgreement_def)

text \<open>The rows of the files asked for, each of them readable.\<close>

definition readable_rows :: "tables \<Rightarrow> string \<Rightarrow> string list \<Rightarrow> stored_file list \<Rightarrow> bool" where
  "readable_rows ts u ids fs \<longleftrightarrow> fs = filter (\<lambda>f. fi_id f \<in> set ids \<and> fi_id f \<noteq> []) (t_files ts) \<and>
     (\<forall>f \<in> set fs. readable ts u f) \<and> (\<forall>i \<in> set ids. i \<noteq> [] \<longrightarrow> (\<exists>f \<in> set fs. fi_id f = i))"

definition acceptable :: "uploaded_file \<Rightarrow> bool" where
  "acceptable f \<longleftrightarrow> uf_buffer f \<noteq> 0 \<and> uf_size f \<le> 10485760 \<and>
     (uf_type f \<in> (\<lambda>s. ''image/'' @ s) ` {''png'', ''jpeg'', ''webp'', ''gif''} \<or> uf_type f \<in> (\<lambda>s. ''text/'' @ s) ` {''plain'', ''csv''} \<or>
      uf_type f \<in> (\<lambda>s. ''application/'' @ s) ` {''pdf'', ''msword'', ''vnd.ms-excel'',
        ''vnd.openxmlformats-officedocument.wordprocessingml.document'', ''vnd.openxmlformats-officedocument.spreadsheetml.sheet''})"

lemma acceptable_checks: "acceptable f \<longleftrightarrow> uf_buffer f \<noteq> 0 \<and> int (uf_size f) \<le> MAX_FILE_BYTES \<and> isAllowedContentType (uf_type f)"
  by (auto simp: acceptable_def MAX_FILE_BYTES_def isAllowedContentType_def ALLOWED_CONTENT_TYPES_def)

text \<open>Where the object of a file is: in the folder of its agreement, or with the unscoped ones.\<close>

definition object_path :: "string option \<Rightarrow> string \<Rightarrow> string" where
  "object_path g k = (case g of Some (c # cs) \<Rightarrow> ''agreements/'' @ (c # cs) @ ''/'' @ k | _ \<Rightarrow> ''unscoped/'' @ k)"

lemma storagePathFor_object: "storagePathFor g k = object_path g k"
  by (auto simp: storagePathFor_def object_path_def truthy_def split: option.split list.split)

text \<open>
  A run that ended by taking its object back: after its object was stored under a key just drawn, the row that names it was not
  inserted, and the removal of that object was requested last. Only when the removal fails is the object left.
\<close>

definition taken_back :: "'s backend \<Rightarrow> string option \<Rightarrow> string list \<Rightarrow> 's \<Rightarrow> string list \<Rightarrow> bool" where
  "taken_back B g before s' after \<longleftrightarrow> (\<exists>s k s1 s2 s3 row e d.
     random_id B s = (k, s1) \<and> put_object B (object_path g k) s1 = (None, s2) \<and>
     fi_path row = object_path g k \<and> insert_row (files B) row s2 = ((None, Some e), s3) \<and>
     drop_object B (object_path g k) s3 = (d, s') \<and>
     after = (if d then filter (\<lambda>p. p \<noteq> object_path g k) before else before @ [object_path g k]))"

text \<open>The row of an uploaded file.\<close>

definition records_upload :: "string \<Rightarrow> string \<Rightarrow> string option \<Rightarrow> uploaded_file \<Rightarrow> stored_file \<Rightarrow> bool" where
  "records_upload u a g f x \<longleftrightarrow> fi_path x = object_path g (fi_id x) \<and> fi_name x = uf_name f \<and> fi_type x = uf_type f \<and> fi_size x = uf_size f \<and>
     fi_agreement_id x = g \<and> fi_user x = u \<and> fi_wallet x = a"

text \<open>Everything a message needs to be sent.\<close>

definition message_text :: "send_message_dto \<Rightarrow> string" where
  "message_text dto = (case sm_message dto of None \<Rightarrow> [] | Some m \<Rightarrow> trim m)"

definition sendable :: "tables \<Rightarrow> string \<Rightarrow> send_message_dto \<Rightarrow> bool" where
  "sendable ts u dto \<longleftrightarrow> may_access ts u (sm_agreement_id dto) \<and> owns ts u (sm_sender_wallet dto) \<and>
     (message_text dto \<noteq> [] \<or> default (sm_attachment_ids dto) [] \<noteq> []) \<and>
     (\<forall>i \<in> set (default (sm_attachment_ids dto) []). i \<noteq> [] \<longrightarrow>
       (\<exists>f \<in> set (t_files ts). fi_id f = i \<and> readable ts u f \<and>
         fi_agreement_id f \<in> {None, Some [], Some (sm_agreement_id dto)}))"

lemma not_foreign: "\<not> foreign_file i f \<longleftrightarrow> fi_agreement_id f \<in> {None, Some [], Some i}"
  by (auto simp: foreign_file_def truthy_def split: option.split)

text \<open>The row of the message, up to its key and time, and the rows that link it to its files.\<close>

definition message_row :: "string \<Rightarrow> send_message_dto \<Rightarrow> chat_message \<Rightarrow> bool" where
  "message_row u dto m \<longleftrightarrow> cm_agreement_id m = sm_agreement_id dto \<and> cm_sender_id m = u \<and>
     cm_sender_wallet m = sm_sender_wallet dto \<and> cm_text m = message_text dto"

definition links :: "chat_message \<Rightarrow> string list \<Rightarrow> attachment list" where
  "links m ids = map (\<lambda>i. \<lparr>at_message_id = cm_id m, at_file_id = i\<rparr>) ids"

context database begin

lemma wp_check_files:
  assumes ok: "\<And>s'. st s' = st (svc w) \<Longrightarrow> \<forall>f \<in> set fs. readable (st (svc w)) u f \<Longrightarrow> Q (Inr ()) (w\<lparr>svc := s'\<rparr>)"
    and bad: "\<And>e s'. st s' = st (svc w) \<Longrightarrow> Q (Inl e) (w\<lparr>svc := s'\<rparr>)"
  shows "wp (check_files B u fs) Q w"
  using assms
proof (induction fs arbitrary: w)
  case Nil
  have "Q (Inr ()) (w\<lparr>svc := svc w\<rparr>)" by (rule Nil(1)) simp_all
  then show ?case by (simp add: check_files_def wp_ret)
next
  case (Cons f fs)
  have rest: "wp (check_files B u fs) Q (w\<lparr>svc := s1\<rparr>)" if "st s1 = st (svc w)" "readable (st (svc w)) u f" for s1
  proof (rule Cons.IH, goal_cases)
    case (1 s2)
    then show ?case using Cons.prems(1) [of s2] that by simp
  next
    case (2 e s2)
    then show ?case using Cons.prems(2) [of e s2] that by simp
  qed
  have step: "check_files B u (f # fs) = bnd (if truthy (fi_agreement_id f) then assertAgreementAccess B u (default (fi_agreement_id f) []) else ret ())
      (\<lambda>_. check_files B u fs)" by (simp add: check_files_def)
  show ?case
  proof (cases "truthy (fi_agreement_id f)")
    case True
    show ?thesis unfolding step wp_bnd if_P [OF True] same_access_check
      by (rule wp_assertCanAccessAgreement) (auto intro!: rest Cons.prems(2) simp: readable_def)
  next
    case False
    have "wp (check_files B u fs) Q (w\<lparr>svc := svc w\<rparr>)" by (rule rest) (simp_all add: readable_def False)
    then show ?thesis unfolding step if_not_P [OF False] bnd_ret_left by simp
  qed
qed

lemma wp_readableFiles:
  assumes ok: "\<And>fs s'. st s' = st (svc w) \<Longrightarrow> readable_rows (st (svc w)) u ids fs \<Longrightarrow> Q (Inr fs) (w\<lparr>svc := s'\<rparr>)"
    and bad: "\<And>e s'. st s' = st (svc w) \<Longrightarrow> Q (Inl e) (w\<lparr>svc := s'\<rparr>)"
  shows "wp (readableFiles B u ids) Q w"
proof (cases "filter (\<lambda>i. i \<noteq> []) ids = []")
  case True
  have "filter (\<lambda>f. fi_id f \<in> set ids \<and> fi_id f \<noteq> []) (t_files (st (svc w))) = []"
    using True by (auto simp: filter_empty_conv)
  then have "Q (Inr []) (w\<lparr>svc := svc w\<rparr>)"
    using True by (intro ok) (auto simp: readable_rows_def filter_empty_conv)
  then show ?thesis using True by (simp add: readableFiles_def wp_ret)
next
  case False
  have rows: "readable_rows (st (svc w)) u ids fs"
    if "fs = filter (\<lambda>f. fi_id f \<in> set (uniq (filter (\<lambda>i. i \<noteq> []) ids))) (t_files (st (svc w)))"
      "filter (\<lambda>i. \<not> list_ex (\<lambda>f. fi_id f = i) fs) (uniq (filter (\<lambda>i. i \<noteq> []) ids)) = []" "\<forall>f \<in> set fs. readable (st (svc w)) u f" for fs
    using that by (auto simp: readable_rows_def filter_empty_conv list_ex_iff)
  show ?thesis
    unfolding readableFiles_def Let_def
    by (auto simp: False wp_bnd [of "call x" for x] wp_bnd [of "require c e" for c e] wp_bnd [of "check_files B u fs" for fs] wp_throw wp_require wp_ret
        intro!: files_wp(1) wp_check_files ok bad rows simp del: set_uniq)
qed

lemma wp_signedUrl:
  assumes ok: "\<And>url f s'. st s' = st (svc w) \<Longrightarrow> f \<in> set (t_files (st (svc w))) \<Longrightarrow> fi_id f = i \<Longrightarrow> readable (st (svc w)) u f \<Longrightarrow>
      \<exists>s. sign_object B (fi_path f) s = ((Some url, None), s') \<Longrightarrow> Q (Inr (url, fi_name f)) (w\<lparr>svc := s'\<rparr>)"
    and bad: "\<And>e s'. st s' = st (svc w) \<Longrightarrow> Q (Inl e) (w\<lparr>svc := s'\<rparr>)"
  shows "wp (signedUrl B u i) Q w"
  unfolding signedUrl_def wp_bnd [of "readableFiles B u x" for x]
proof (rule wp_readableFiles, goal_cases)
  case (1 fs s')
  show ?case
  proof (cases fs)
    case Nil
    then show ?thesis using 1 by (simp add: wp_throw bad)
  next
    case (Cons f fs')
    then have "f \<in> set fs" by simp
    then have f: "f \<in> set (t_files (st (svc w)))" "fi_id f = i" "readable (st (svc w)) u f" using 1(2) by (auto simp: readable_rows_def)
    obtain url e s2 where c: "sign_object B (fi_path f) s' = ((url, e), s2)" by (metis prod.collapse)
    then have "st s2 = st (svc w)" using sign_law [OF c] 1(1) by simp
    then show ?thesis using f c unfolding Cons
      by (auto simp: wp_simps wp_call truthy_def intro!: ok bad split: option.split)
  qed
qed (auto intro: bad)


lemma wp_chat_assertActorWallet:
  assumes ok: "\<And>s'. st s' = st (svc w) \<Longrightarrow> owns (st (svc w)) u a \<Longrightarrow> Q (Inr ()) (w\<lparr>svc := s'\<rparr>)"
    and bad: "\<And>e s'. st s' = st (svc w) \<Longrightarrow> Q (Inl e) (w\<lparr>svc := s'\<rparr>)"
  shows "wp (chat_assertActorWallet B u a) Q w"
  unfolding chat_assertActorWallet_def by (auto simp: wp_simps intro!: wp_resolveUserWallets ok bad)

lemma wp_post_message:
  assumes sent: "\<And>m s'. message_row u dto m \<Longrightarrow> st s' = (st (svc w))\<lparr>t_messages := t_messages (st (svc w)) @ [m],
        t_attachments := t_attachments (st (svc w)) @ links m ids\<rparr> \<Longrightarrow>
      (ids \<noteq> [] \<longrightarrow> valid_attachments (t_attachments (st (svc w)) @ links m ids)) \<Longrightarrow>
      Q (Inr \<lparr>mv_message = m, mv_attachments = map toPublicFile fs\<rparr>) (w\<lparr>svc := s'\<rparr>)"
    and bare: "\<And>m e s'. message_row u dto m \<Longrightarrow> ids \<noteq> [] \<Longrightarrow> st s' = (st (svc w))\<lparr>t_messages := t_messages (st (svc w)) @ [m]\<rparr> \<Longrightarrow>
      Q (Inl e) (w\<lparr>svc := s'\<rparr>)"
    and bad: "\<And>e s'. st s' = st (svc w) \<Longrightarrow> Q (Inl e) (w\<lparr>svc := s'\<rparr>)"
  shows "wp (post_message B u dto (message_text dto) ids fs) Q w"
proof -
  have row: "message_row u dto (gen_message i t (new_message u dto (message_text dto)))" for i t
    by (simp add: message_row_def gen_message_def new_message_def)
  have same: "qs = rs" if "list_all2 (\<lambda>r q. \<exists>i t. q = gen_attachment i t r) rs qs" for qs rs
    using that by (induction rule: list_all2_induct) (auto simp: gen_attachment_def)
  show ?thesis unfolding post_message_def wp_bnd [of "call x" for x]
  proof (rule messages_wp(5), goal_cases)
    case (1 e s')
    then show ?case by (auto simp: wp_throw intro!: bad)
  next
    case (2 i t s')
    let ?m = "gen_message i t (new_message u dto (message_text dto))"
    show ?case
    proof (cases "ids = []")
      case True
      have "st s' = (st (svc w))\<lparr>t_messages := t_messages (st (svc w)) @ [?m], t_attachments := t_attachments (st (svc w)) @ links ?m ids\<rparr>"
        using 2 True by (simp add: links_def)
      from sent [OF row this] True show ?thesis by (simp add: wp_ret bnd_ret_left)
    next
      case False
      then show ?thesis using 2
        by (auto simp: wp_simps links_def [symmetric] intro!: attachments_wp(6) bare [OF row False] sent [OF row] dest!: same)
    qed
  qed
qed

lemma wp_sendMessage:
  assumes sent: "\<And>m fs s'. sendable (st (svc w)) u dto \<Longrightarrow> message_row u dto m \<Longrightarrow> st s' = (st (svc w))\<lparr>t_messages := t_messages (st (svc w)) @ [m],
        t_attachments := t_attachments (st (svc w)) @ links m (default (sm_attachment_ids dto) [])\<rparr> \<Longrightarrow>
      (default (sm_attachment_ids dto) [] \<noteq> [] \<longrightarrow> valid_attachments (t_attachments (st (svc w)) @ links m (default (sm_attachment_ids dto) []))) \<Longrightarrow>
      readable_rows (st (svc w)) u (default (sm_attachment_ids dto) []) fs \<Longrightarrow>
      Q (Inr \<lparr>mv_message = m, mv_attachments = map toPublicFile fs\<rparr>) (w\<lparr>svc := s'\<rparr>)"
    and bare: "\<And>m e s'. sendable (st (svc w)) u dto \<Longrightarrow> message_row u dto m \<Longrightarrow> default (sm_attachment_ids dto) [] \<noteq> [] \<Longrightarrow>
      st s' = (st (svc w))\<lparr>t_messages := t_messages (st (svc w)) @ [m]\<rparr> \<Longrightarrow> Q (Inl e) (w\<lparr>svc := s'\<rparr>)"
    and bad: "\<And>e s'. st s' = st (svc w) \<Longrightarrow> Q (Inl e) (w\<lparr>svc := s'\<rparr>)"
  shows "wp (sendMessage B u dto) Q w"
proof -
  let ?ids = "default (sm_attachment_ids dto) []" and ?a = "st (svc w)"
  have last: "wp (bnd (require (\<not> list_ex (foreign_file (sm_agreement_id dto)) fs) (BadRequest (Msg ''An attachment belongs to a different agreement'')))
      (\<lambda>_. post_message B u dto (message_text dto) ?ids fs)) Q (w\<lparr>svc := s'\<rparr>)"
    if s': "st s' = ?a" and checks: "may_access ?a u (sm_agreement_id dto)" "owns ?a u (sm_sender_wallet dto)"
      "\<not> (message_text dto = [] \<and> length ?ids = 0)" and fs: "readable_rows ?a u ?ids fs" for fs s'
  proof (cases "list_ex (foreign_file (sm_agreement_id dto)) fs")
    case True
    then show ?thesis using s' by (simp add: wp_bnd wp_require bad)
  next
    case False
    have f: "\<exists>f \<in> set (t_files ?a). fi_id f = i \<and> readable ?a u f \<and> fi_agreement_id f \<in> {None, Some [], Some (sm_agreement_id dto)}" if i: "i \<in> set ?ids" "i \<noteq> []" for i
    proof -
      obtain f where f: "f \<in> set fs" "fi_id f = i" using fs i by (auto simp: readable_rows_def)
      then have "f \<in> set (t_files ?a)" "readable ?a u f" using fs by (auto simp: readable_rows_def)
      then show ?thesis using f False unfolding not_foreign [symmetric] by (auto simp: list_ex_iff)
    qed
    have "sendable ?a u dto" using checks f by (auto simp: sendable_def)
    then have "wp (post_message B u dto (message_text dto) ?ids fs) Q (w\<lparr>svc := s'\<rparr>)"
    proof (intro wp_post_message, goal_cases)
      case (1 m s2)
      then show ?case using s' fs by (simp add: sent)
    next
      case (2 m e s2)
      then show ?case using s' by (simp add: bare)
    next
      case (3 e s2)
      then show ?case using s' by (simp add: bad)
    qed
    then show ?thesis using False by (simp add: wp_bnd [of "require c e" for c e] wp_require)
  qed
  show ?thesis
    unfolding sendMessage_def same_access_check Let_def message_text_def [symmetric]
    by (auto simp: wp_bnd [of "assertCanAccessAgreement B x y" for x y] wp_bnd [of "chat_assertActorWallet B x y" for x y]
          wp_bnd [of "require (c \<longrightarrow> d) e" for c d e] wp_bnd [of "readableFiles B x y" for x y] wp_require
        intro!: wp_assertCanAccessAgreement wp_chat_assertActorWallet wp_readableFiles last bad split del: if_split split: if_split)
qed


text \<open>An upload stores one object and its row; a failed one leaves an object only when its removal failed.\<close>

lemma wp_store_file:
  assumes ok: "\<And>r s'. records_upload u a g f r \<Longrightarrow> fi_id r \<notin> fi_id ` set (t_files (st (svc w))) \<Longrightarrow>
      st s' = (st (svc w))\<lparr>t_files := t_files (st (svc w)) @ [r]\<rparr> \<Longrightarrow> Q (Inr r) (w\<lparr>svc := s', stored := stored w @ [fi_path r]\<rparr>)"
    and bad: "\<And>e s' objs. st s' = st (svc w) \<Longrightarrow> objs = stored w \<or> taken_back B g (stored w) s' objs \<Longrightarrow>
      Q (Inl e) (w\<lparr>svc := s', stored := objs\<rparr>)"
  shows "wp (store_file B u a g f) Q w"
proof -
  obtain i s1 where id: "random_id B (svc w) = (i, s1)" by (metis prod.collapse)
  let ?p = "object_path g i"
  let ?row = "file_row i ?p f g u a"
  obtain e2 s2 where up: "put_object B ?p s1 = (e2, s2)" by (metis prod.collapse)
  have s2: "st s2 = st (svc w)" using random_law [OF id] put_law [OF up] by simp
  show ?thesis
  proof (cases e2)
    case (Some x)
    have "Q (Inl e) (w\<lparr>svc := s2, stored := stored w\<rparr>)" for e by (rule bad) (use s2 in auto)
    then show ?thesis using id up Some by (simp add: wp_def store_file_def storagePathFor_object prog_simps Let_def)
  next
    case None
    obtain d e3 s3 where ins: "insert_row (files B) ?row s2 = ((d, e3), s3)" by (metis prod.collapse)
    note law = table_store.insert_row_law [OF files_store ins]
    show ?thesis
    proof (cases e3)
      case (Some x)
      then have d: "d = None" "st s3 = st (svc w)" using law s2 by auto
      obtain gone s4 where drop: "drop_object B ?p s3 = (gone, s4)" by (metis prod.collapse)
      let ?objs = "if gone then filter (\<lambda>p. p \<noteq> ?p) (stored w) else stored w @ [?p]"
      have "taken_back B g (stored w) s4 ?objs"
        unfolding taken_back_def using id up None ins Some d(1) drop
        by (intro exI [of _ "svc w"] exI [of _ i] exI [of _ s1] exI [of _ s2] exI [of _ s3] exI [of _ ?row] exI [of _ x] exI [of _ gone])
          (simp add: file_row_def)
      then have "Q (Inl e) (w\<lparr>svc := s4, stored := ?objs\<rparr>)" for e by (intro bad) (use d drop_law [OF drop] in auto)
      then show ?thesis using id up None ins Some d(1) drop
        by (cases gone) (simp_all add: wp_def store_file_def storagePathFor_object prog_simps Let_def)
    next
      case None: None
      then obtain j t where d: "d = Some (gen_file j t ?row)" and s3: "st s3 = (st (svc w))\<lparr>t_files := t_files (st (svc w)) @ [gen_file j t ?row]\<rparr>"
        and v: "valid_files (t_files (st (svc w)) @ [gen_file j t ?row])" using law s2 by auto
      have r: "records_upload u a g f (gen_file j t ?row)" "fi_path (gen_file j t ?row) = ?p" by (simp_all add: records_upload_def gen_file_def file_row_def)
      have "Q (Inr (gen_file j t ?row)) (w\<lparr>svc := s3, stored := stored w @ [fi_path (gen_file j t ?row)]\<rparr>)"
        by (rule ok [OF r(1)]) (use v s3 in \<open>auto simp: valid_files_def keyed_def\<close>)
      then have "Q (Inr (gen_file j t ?row)) (w\<lparr>stored := stored w @ [?p], svc := s3\<rparr>)"
        unfolding r(2) by (rule back_subst [of "Q (Inr (gen_file j t ?row))"]) simp
      then show ?thesis using id up \<open>e2 = None\<close> ins None d r(2)
        by (simp add: wp_def store_file_def storagePathFor_object prog_simps Let_def)
    qed
  qed
qed

lemma wp_upload:
  assumes ok: "\<And>r s'. acceptable f \<Longrightarrow> (truthy g \<longrightarrow> may_access (st (svc w)) u (default g [])) \<Longrightarrow>
      records_upload u a g f r \<Longrightarrow> fi_id r \<notin> fi_id ` set (t_files (st (svc w))) \<Longrightarrow>
      st s' = (st (svc w))\<lparr>t_files := t_files (st (svc w)) @ [r]\<rparr> \<Longrightarrow> Q (Inr r) (w\<lparr>svc := s', stored := stored w @ [fi_path r]\<rparr>)"
    and bad: "\<And>e s' objs. st s' = st (svc w) \<Longrightarrow> objs = stored w \<or> taken_back B g (stored w) s' objs \<Longrightarrow>
      Q (Inl e) (w\<lparr>svc := s', stored := objs\<rparr>)"
  shows "wp (upload B u a g f) Q w"
proof -
  have same: "Q (Inl e) (w\<lparr>svc := s'\<rparr>)" if "st s' = st (svc w)" for e s'
    using bad [of s' "stored w"] that by simp
  then have here: "Q (Inl e) w" for e using same [of "svc w"] by simp
  have store: "wp (store_file B u a g f) Q (w\<lparr>svc := s1\<rparr>)"
    if "st s1 = st (svc w)" "acceptable f" "truthy g \<longrightarrow> may_access (st (svc w)) u (default g [])" for s1
    by (rule wp_store_file) (use that ok bad in auto)
  have "wp (if truthy g then assertAgreementAccess B u (default g []) else ret ())
      (\<lambda>r v. case r of Inl e \<Rightarrow> Q (Inl e) v | Inr x \<Rightarrow> wp (store_file B u a g f) Q v) w" if acc: "acceptable f"
  proof (cases "truthy g")
    case True
    show ?thesis unfolding if_P [OF True] same_access_check
      by (rule wp_assertCanAccessAgreement) (use store acc same in auto)
  next
    case False
    then show ?thesis using store [of "svc w"] acc by (simp add: wp_ret)
  qed
  then show ?thesis
    unfolding upload_def assertAcceptable_def
    by (auto simp: wp_bnd wp_require acceptable_checks here)
qed

end


section \<open>Properties\<close>

text \<open>
  (C38) Messages. Over any database: a message that is sent was sent by a user with access to the agreement, from a wallet
  of that user, with text or files, each file known to the database, readable by the user and scoped to this agreement or to none (a file without an
  agreement can be attached by whoever knows its key). Appended are one row, with the agreement, the user, the wallet and the trimmed
  text of the request, and one link per file, all different; the files named are answered with it. A refused message leaves no
  trace, unless only the links to its files failed to be written: then it is there without them.
\<close>

theorem message_sent:
  assumes "database B st" and "sendMessage B u dto w = (r, w')" and "a = st (svc w)" and "b = st (svc w')"
    and "ids = default (sm_attachment_ids dto) []"
  shows "case r of
      Inr v \<Rightarrow> sendable a u dto \<and> message_row u dto (mv_message v) \<and> distinct ids \<and> pf_id ` set (mv_attachments v) = set ids - {[]} \<and>
        b = a\<lparr>t_messages := t_messages a @ [mv_message v], t_attachments := t_attachments a @ links (mv_message v) ids\<rparr>
    | Inl e \<Rightarrow> b = a \<or> (\<exists>m. sendable a u dto \<and> message_row u dto m \<and> ids \<noteq> [] \<and> b = a\<lparr>t_messages := t_messages a @ [m]\<rparr>)"
    (is "?P r w'")
proof -
  have one: "distinct ids" if "valid_attachments (xs @ links m ids)" for xs m
    using that by (auto simp: valid_attachments_def links_def distinct_map inj_on_def)
  have shown: "pf_id ` set (map toPublicFile fs) = set ids - {[]}" if rows: "readable_rows a u ids fs" for fs
  proof (intro set_eqI iffI)
    fix i assume "i \<in> set ids - {[]}"
    then obtain x where "x \<in> set fs" "fi_id x = i" using rows unfolding readable_rows_def by blast
    then show "i \<in> pf_id ` set (map toPublicFile fs)" by (auto simp: toPublicFile_def image_image)
  qed (use rows in \<open>auto simp: readable_rows_def toPublicFile_def\<close>)
  let ?R = "\<lambda>r v. case r of
      Inr x \<Rightarrow> sendable a u dto \<and> message_row u dto (mv_message x) \<and> distinct ids \<and> pf_id ` set (mv_attachments x) = set ids - {[]} \<and>
        st (svc v) = a\<lparr>t_messages := t_messages a @ [mv_message x], t_attachments := t_attachments a @ links (mv_message x) ids\<rparr>
    | Inl e \<Rightarrow> st (svc v) = a \<or> (\<exists>m. sendable a u dto \<and> message_row u dto m \<and> ids \<noteq> [] \<and> st (svc v) = a\<lparr>t_messages := t_messages a @ [m]\<rparr>)"
  have "wp (sendMessage B u dto) ?R w"
    by (rule database.wp_sendMessage [OF assms(1)]) (use one shown in \<open>auto simp: assms(3,5) simp del: set_map\<close>)
  from wpD [OF this assms(2)] show ?thesis unfolding assms(4) .
qed

text \<open>
  (C40) Files. Over any database: an upload that ends normally was of an accepted type and size and, when for an agreement, by a
  user with access to it; its object is stored in the folder of that agreement under a key no other row has, and its row names that path, the
  agreement, the user and the wallet. A refused upload changes no table and stores nothing, or its object was stored and the row that names it was not: then
  the removal of that object is the last thing requested, and the object is left only if that fails. A download link is the one signed for the
  path of the row with the key asked for, whose agreement, if it has one, the user may access; signing changes no table.
\<close>

theorem files_kept_private:
  assumes "database B st" and "upload B u wallet g f w = (r, w')" and "signedUrl B u i v = (q, v')"
  shows "(case r of
      Inr x \<Rightarrow> acceptable f \<and> (truthy g \<longrightarrow> may_access (st (svc w)) u (default g [])) \<and>
        records_upload u wallet g f x \<and> fi_id x \<notin> fi_id ` set (t_files (st (svc w))) \<and>
        st (svc w') = (st (svc w))\<lparr>t_files := t_files (st (svc w)) @ [x]\<rparr> \<and> stored w' = stored w @ [fi_path x]
    | Inl e \<Rightarrow> st (svc w') = st (svc w) \<and> (stored w' = stored w \<or> taken_back B g (stored w) (svc w') (stored w'))) \<and>
    st (svc v') = st (svc v) \<and>
    (\<forall>url name. q = Inr (url, name) \<longrightarrow> (\<exists>x \<in> set (t_files (st (svc v))). fi_id x = i \<and> fi_name x = name \<and>
       (\<exists>s. sign_object B (fi_path x) s = ((Some url, None), svc v')) \<and>
       (truthy (fi_agreement_id x) \<longrightarrow> may_access (st (svc v)) u (default (fi_agreement_id x) []))))"
proof -
  have "wp (upload B u wallet g f) (\<lambda>r w'. case r of
      Inr x \<Rightarrow> acceptable f \<and> (truthy g \<longrightarrow> may_access (st (svc w)) u (default g [])) \<and>
        records_upload u wallet g f x \<and> fi_id x \<notin> fi_id ` set (t_files (st (svc w))) \<and>
        st (svc w') = (st (svc w))\<lparr>t_files := t_files (st (svc w)) @ [x]\<rparr> \<and> stored w' = stored w @ [fi_path x]
    | Inl e \<Rightarrow> st (svc w') = st (svc w) \<and> (stored w' = stored w \<or> taken_back B g (stored w) (svc w') (stored w'))) w"
    by (rule database.wp_upload [OF assms(1)]) auto
  note up = wpD [OF this assms(2)]
  have "wp (signedUrl B u i) (\<lambda>q v'. st (svc v') = st (svc v) \<and>
    (\<forall>url name. q = Inr (url, name) \<longrightarrow> (\<exists>x \<in> set (t_files (st (svc v))). fi_id x = i \<and> fi_name x = name \<and>
       (\<exists>s. sign_object B (fi_path x) s = ((Some url, None), svc v')) \<and>
       (truthy (fi_agreement_id x) \<longrightarrow> may_access (st (svc v)) u (default (fi_agreement_id x) []))))) v"
    by (rule database.wp_signedUrl [OF assms(1)]) (auto simp: readable_def)
  note sign = wpD [OF this assms(3)]
  from up sign show ?thesis by simp
qed


section \<open>Runs\<close>

definition chat_agreement :: agreement where
  "chat_agreement = \<lparr>a_id = ''ag1'', a_contract_id = None, a_title = ''Audit'', a_description = None, a_amount = ''10'', a_asset = None,
     a_status = ''active'', a_type = None, a_milestones = None, a_metadata = JNull, a_created_by = ''G1'', a_created_at = 1, a_updated_at = 1,
     a_funded_at = None, a_completed_at = None\<rparr>"

definition chat_file :: "string \<Rightarrow> string option \<Rightarrow> stored_file" where
  "chat_file i g = \<lparr>fi_id = i, fi_path = storagePathFor g i, fi_name = ''shot.png'', fi_type = ''image/png'', fi_size = 9, fi_agreement_id = g,
     fi_user = ''U1'', fi_wallet = ''G1'', fi_created_at = 1\<rparr>"

definition chat_world :: "mem world" where
  "chat_world = world_on (no_tables\<lparr>t_agreements := [chat_agreement], t_files := [chat_file ''f1'' (Some ''ag1''), chat_file ''f2'' (Some ''ag2'')],
     t_users := [\<lparr>au_id = ''U1'', au_wallet = Some ''G1'', au_pollar_user_id = None, au_wallet_provider = None\<rparr>,
       \<lparr>au_id = ''U2'', au_wallet = Some ''G2'', au_pollar_user_id = None, au_wallet_provider = None\<rparr>]\<rparr>) (quiet_env\<lparr>fresh := \<lambda>_. ''n1''\<rparr>)"

definition chat_dto :: "string list \<Rightarrow> send_message_dto" where
  "chat_dto ids = \<lparr>sm_agreement_id = ''ag1'', sm_sender_wallet = ''G1'', sm_message = Some '' see '', sm_attachment_ids = Some ids\<rparr>"

definition chat_run :: "string list \<Rightarrow> (exn + message_view) \<times> mem world" where
  "chat_run ids = sendMessage (mem_backend (\<lambda>_. None)) ''U1'' (chat_dto ids) chat_world"

definition upload_run :: "string \<Rightarrow> (exn + stored_file) \<times> mem world" where
  "upload_run u = upload (mem_backend (\<lambda>_. None)) u ''G1'' (Some ''ag1'') \<lparr>uf_name = ''a.pdf'', uf_type = ''application/pdf'', uf_size = 7, uf_buffer = 7\<rparr> chat_world"

definition url_run :: "string \<Rightarrow> string \<Rightarrow> (exn + string \<times> string) \<times> mem world" where
  "url_run u i = signedUrl (mem_backend (\<lambda>_. None)) u i chat_world"

definition is_value :: "exn + 'a \<Rightarrow> bool" where
  "is_value r = (case r of Inl _ \<Rightarrow> False | Inr _ \<Rightarrow> True)"

lemma message_sent_witness:
  "is_value (fst (chat_run [''f1''])) \<and> map cm_text (t_messages (tabs (svc (snd (chat_run [''f1'']))))) = [''see''] \<and>
   \<not> is_value (fst (chat_run [''f2''])) \<and> sendable (tabs (svc chat_world)) ''U1'' (chat_dto [''f1''])"
proof -
  have run: "sendMessage (mem_backend (\<lambda>_. None)) ''U1'' (chat_dto ids) chat_world = (fst (chat_run ids), snd (chat_run ids))" for ids
    by (simp add: chat_run_def)
  have v: "is_value (fst (chat_run [''f1'']))" "map cm_text (t_messages (tabs (svc (snd (chat_run [''f1'']))))) = [''see'']" "\<not> is_value (fst (chat_run [''f2'']))"
    by code_simp+
  obtain x where "fst (chat_run [''f1'']) = Inr x" using v(1) by (auto simp: is_value_def split: sum.splits)
  then have "sendable (tabs (svc chat_world)) ''U1'' (chat_dto [''f1''])"
    using message_sent [OF mem.database_axioms run [of "[''f1'']"] refl refl refl] by simp
  with v show ?thesis by blast
qed

lemma files_kept_private_witness:
  "is_value (fst (upload_run ''U1'')) \<and> stored (snd (upload_run ''U1'')) = [''agreements/ag1/n1''] \<and> \<not> is_value (fst (upload_run ''U2'')) \<and>
   \<not> is_value (fst (url_run ''U2'' ''f1'')) \<and> may_access (tabs (svc chat_world)) ''U1'' ''ag1''"
proof -
  have run: "upload (mem_backend (\<lambda>_. None)) u ''G1'' (Some ''ag1'') \<lparr>uf_name = ''a.pdf'', uf_type = ''application/pdf'', uf_size = 7, uf_buffer = 7\<rparr> chat_world =
      (fst (upload_run u), snd (upload_run u))" "signedUrl (mem_backend (\<lambda>_. None)) u i chat_world = (fst (url_run u i), snd (url_run u i))" for u i
    by (simp_all add: upload_run_def url_run_def)
  have v: "is_value (fst (upload_run ''U1''))" "stored (snd (upload_run ''U1'')) = [''agreements/ag1/n1'']" "\<not> is_value (fst (upload_run ''U2''))"
    "\<not> is_value (fst (url_run ''U2'' ''f1''))"
    by code_simp+
  obtain x where "fst (upload_run ''U1'') = Inr x" using v(1) by (auto simp: is_value_def split: sum.splits)
  then have "may_access (tabs (svc chat_world)) ''U1'' ''ag1''"
    using files_kept_private [OF mem.database_axioms run(1) [of "''U1''"] run(2) [of "''U1''" "''f1''"]] by simp
  with v show ?thesis by blast
qed

text \<open>
  The same file twice in one message: the check sees it once, the links violate their key after the message is
  written, so the caller is told that sending failed while the message stands.
\<close>

lemma repeated_file_leaves_message:
  "\<not> is_value (fst (chat_run [''f1'', ''f1''])) \<and> map cm_text (t_messages (tabs (svc (snd (chat_run [''f1'', ''f1'']))))) = [''see''] \<and>
   t_attachments (tabs (svc (snd (chat_run [''f1'', ''f1''])))) = []"
  by code_simp

end
