(* ===== verification/Compliance.thy ===== *)
theory Compliance
  imports HttpClient JsonText
begin

text \<open>
  Who is verified: \<open>verification/verification.service.ts\<close> (reading the aggregated status), \<open>kyb/kyb.service.ts\<close> (businesses,
  reviewed by admins) and \<open>kyc/kyc.service.ts\<close> (persons, by an external provider and its webhooks), with the translation of the webhooks of
  the six providers in \<open>identity-providers/providers\<close>. The provider that is asked (\<open>IdentityProviders\<close> has the six),
  and the locale of \<open>localeCompare\<close>, are arguments.
\<close>

section \<open>Admins\<close>

definition isAdmin :: "'s backend \<Rightarrow> string \<Rightarrow> ('s world, bool) prog" where
  "isAdmin B userId =
     bnd (call (select_one (users B) (\<lambda>u. au_id u = userId))) (\<lambda>(authUser, _).
     let wallet = (case authUser of None \<Rightarrow> None | Some u \<Rightarrow> au_wallet u)
     in if \<not> truthy wallet then ret False
        else bnd (call (select_one (profiles B) (\<lambda>p. Some (pr_wallet p) = wallet))) (\<lambda>(profile, _).
             ret (case profile of None \<Rightarrow> False | Some p \<Rightarrow> pr_role p = ''admin'')))"

definition admin :: "tables \<Rightarrow> string \<Rightarrow> bool" where
  "admin ts u \<longleftrightarrow> (\<exists>x \<in> set (t_users ts). au_id x = u \<and>
     (\<exists>p \<in> set (t_profiles ts). au_wallet x = Some (pr_wallet p) \<and> pr_wallet p \<noteq> [] \<and> pr_role p = ''admin''))"

section \<open>The verification status\<close>

record access_context =
  ax_caller :: "string option"
  ax_internal :: bool

record status_response =
  sr_subject_type :: string
  sr_subject_id :: string
  sr_verified :: bool
  sr_status :: string
  sr_level :: string
  sr_provider :: "string option"
  sr_expires_at :: "int option"
  sr_last_updated :: "string option"

definition LEVEL_RANK :: "string \<Rightarrow> int option" where
  "LEVEL_RANK = map_of [(''none'', 0), (''basic'', 1), (''standard'', 2), (''advanced'', 3)]"

definition notVerified :: "string \<Rightarrow> string \<Rightarrow> status_response" where
  "notVerified subjectType subjectId = \<lparr>sr_subject_type = subjectType, sr_subject_id = subjectId, sr_verified = False,
     sr_status = ''unverified'', sr_level = ''none'', sr_provider = None, sr_expires_at = None, sr_last_updated = None\<rparr>"

definition isExpired :: "int \<Rightarrow> verification \<Rightarrow> bool" where
  "isExpired t r \<longleftrightarrow> (case vr_expires_at r of None \<Rightarrow> False | Some e \<Rightarrow> e \<le> t)"

text \<open>Strings in the order of \<open>sort()\<close>, and the last of a list in it.\<close>

fun text_le :: "string \<Rightarrow> string \<Rightarrow> bool" where
  "text_le [] t = True"
| "text_le (c # s) [] = False"
| "text_le (c # s) (d # t) \<longleftrightarrow> (of_char c :: nat) < of_char d \<or> c = d \<and> text_le s t"

definition latest :: "string list \<Rightarrow> string option" where
  "latest xs = fold (\<lambda>x m. case m of None \<Rightarrow> Some x | Some y \<Rightarrow> if text_le y x then Some x else m) xs None"

text \<open>The comparison of two verified records, and the first record of the list sorted by it.\<close>

definition compare_records :: "(string \<Rightarrow> string \<Rightarrow> int) \<Rightarrow> verification \<Rightarrow> verification \<Rightarrow> int" where
  "compare_records collate a b = (case (LEVEL_RANK (vr_level b), LEVEL_RANK (vr_level a)) of
     (Some i, Some j) \<Rightarrow> if i - j \<noteq> 0 then i - j else collate (default (vr_updated_at b) []) (default (vr_updated_at a) [])
   | _ \<Rightarrow> 0)"

definition choose_record :: "(string \<Rightarrow> string \<Rightarrow> int) \<Rightarrow> verification \<Rightarrow> verification \<Rightarrow> verification" where
  "choose_record collate x m = (if compare_records collate x m < 0 then x else m)"

fun best_record :: "(string \<Rightarrow> string \<Rightarrow> int) \<Rightarrow> verification list \<Rightarrow> verification option" where
  "best_record collate [] = None"
| "best_record collate (r # rs) = Some (fold (choose_record collate) rs r)"

definition effectiveUnverifiedStatus :: "int \<Rightarrow> verification list \<Rightarrow> string" where
  "effectiveUnverifiedStatus t records =
     (let has = (\<lambda>s. list_ex (\<lambda>r. vr_status r = s) records)
      in if has ''pending'' then ''pending''
         else if has ''expired'' \<or> list_ex (\<lambda>r. vr_status r = ''verified'' \<and> isExpired t r) records then ''expired''
         else if has ''rejected'' then ''rejected''
         else ''unverified'')"

definition aggregate_records :: "(string \<Rightarrow> string \<Rightarrow> int) \<Rightarrow> int \<Rightarrow> string \<Rightarrow> string \<Rightarrow> verification list \<Rightarrow> status_response" where
  "aggregate_records collate t subjectType subjectId records =
     (if records = [] then notVerified subjectType subjectId
      else let lastUpdated = latest (filter (\<lambda>s. s \<noteq> []) (List.map_filter vr_updated_at records));
               validVerified = filter (\<lambda>r. vr_status r = ''verified'' \<and> \<not> isExpired t r) records
           in (case best_record collate validVerified of
                 Some best \<Rightarrow> \<lparr>sr_subject_type = subjectType, sr_subject_id = subjectId, sr_verified = True, sr_status = ''verified'',
                   sr_level = vr_level best, sr_provider = vr_provider best, sr_expires_at = vr_expires_at best, sr_last_updated = lastUpdated\<rparr>
               | None \<Rightarrow> \<lparr>sr_subject_type = subjectType, sr_subject_id = subjectId, sr_verified = False,
                   sr_status = effectiveUnverifiedStatus t records, sr_level = ''none'', sr_provider = None, sr_expires_at = None,
                   sr_last_updated = lastUpdated\<rparr>))"

definition verification_getStatus :: "'s backend \<Rightarrow> (string \<Rightarrow> string \<Rightarrow> int) \<Rightarrow> string \<Rightarrow> string \<Rightarrow> ('s world, status_response) prog" where
  "verification_getStatus B collate subjectType subjectId =
     bnd (call (select_rows (verifications B) (\<lambda>r. vr_subject_type r = subjectType \<and> vr_subject_id r = subjectId) (\<lambda>rs. rs))) (\<lambda>(data, error).
     if error \<noteq> None then ret (notVerified subjectType subjectId)
     else bnd (call (now B)) (\<lambda>t. ret (aggregate_records collate t subjectType subjectId (default data []))))"

definition assertCanRead :: "'s backend \<Rightarrow> string \<Rightarrow> string \<Rightarrow> access_context \<Rightarrow> ('s world, unit) prog" where
  "assertCanRead B subjectType subjectId ctx =
     (if ax_internal ctx then ret ()
      else if subjectType = ''user'' \<and> truthy (ax_caller ctx) \<and> ax_caller ctx = Some subjectId then ret ()
      else bnd (if truthy (ax_caller ctx) then isAdmin B (default (ax_caller ctx) []) else ret False) (\<lambda>ok.
           require ok (Forbidden ''Not authorized to view this verification status'')))"

definition getUserVerification :: "'s backend \<Rightarrow> (string \<Rightarrow> string \<Rightarrow> int) \<Rightarrow> string \<Rightarrow> access_context \<Rightarrow> ('s world, status_response) prog" where
  "getUserVerification B collate userId ctx =
     bnd (assertCanRead B ''user'' userId ctx) (\<lambda>_. verification_getStatus B collate ''user'' userId)"

definition getBusinessVerification :: "'s backend \<Rightarrow> (string \<Rightarrow> string \<Rightarrow> int) \<Rightarrow> string \<Rightarrow> access_context \<Rightarrow> ('s world, status_response) prog" where
  "getBusinessVerification B collate businessId ctx =
     bnd (assertCanRead B ''business'' businessId ctx) (\<lambda>_. verification_getStatus B collate ''business'' businessId)"

section \<open>Businesses\<close>

record create_kyb_dto =
  ck_organization_id :: string
  ck_business_name :: string
  ck_registration_number :: string
  ck_country :: string
  ck_entity_type :: string

record review_kyb_dto =
  rk_status :: string
  rk_rejection_reason :: "string option"

text \<open>A provider of business checks: it opens a session with an initial status and a reference, or throws.\<close>

record 's kyb_provider =
  bp_name :: string
  bp_session :: "create_kyb_dto \<Rightarrow> 's \<Rightarrow> (exn + string \<times> string) \<times> 's"

definition bp_open :: "'s kyb_provider \<Rightarrow> create_kyb_dto \<Rightarrow> ('s world, string \<times> string) prog" where
  "bp_open V dto = (\<lambda>w. case bp_session V dto (svc w) of (r, s) \<Rightarrow> (r, w\<lparr>svc := s\<rparr>))"

definition manual_provider :: "'s backend \<Rightarrow> 's kyb_provider" where
  "manual_provider B = \<lparr>bp_name = ''manual'', bp_session = (\<lambda>_ s. case random_id B s of (i, s') \<Rightarrow> (Inr (''pending'', i), s'))\<rparr>"

definition FINALIZED_STATUSES :: "string list" where
  "FINALIZED_STATUSES = [''verified'', ''rejected'']"

definition findByOrganizationId :: "'s backend \<Rightarrow> string \<Rightarrow> ('s world, kyb_verification option) prog" where
  "findByOrganizationId B organizationId =
     bnd (call (select_one (kyb B) (\<lambda>r. kb_organization_id r = organizationId))) (\<lambda>(data, error).
     case error of Some e \<Rightarrow> throw (BadRequest (Msg (e_message e))) | None \<Rightarrow> ret data)"

definition kyb_attempt :: "create_kyb_dto \<Rightarrow> string \<Rightarrow> string \<Rightarrow> string \<Rightarrow> int \<Rightarrow> kyb_verification \<Rightarrow> kyb_verification" where
  "kyb_attempt dto provider status session t r = r\<lparr>kb_entity_type := ck_entity_type dto, kb_business_name := ck_business_name dto,
     kb_registration_number := ck_registration_number dto, kb_country := ck_country dto, kb_status := status, kb_provider := provider,
     kb_session_id := session, kb_rejection_reason := None, kb_verified_at := (if status = ''verified'' then Some t else None), kb_updated_at := t\<rparr>"

definition kyb_row :: "string \<Rightarrow> create_kyb_dto \<Rightarrow> string \<Rightarrow> string \<Rightarrow> string \<Rightarrow> int \<Rightarrow> kyb_verification" where
  "kyb_row userId dto provider status session t = \<lparr>kb_id = [], kb_organization_id = ck_organization_id dto, kb_requested_by = userId,
     kb_entity_type = ck_entity_type dto, kb_business_name = ck_business_name dto, kb_registration_number = ck_registration_number dto,
     kb_country = ck_country dto, kb_status = status, kb_provider = provider, kb_session_id = session, kb_rejection_reason = None,
     kb_verified_at = (if status = ''verified'' then Some t else None), kb_created_at = 0, kb_updated_at = 0\<rparr>"

definition retry_kyb :: "'s backend \<Rightarrow> 's kyb_provider \<Rightarrow> create_kyb_dto \<Rightarrow> ('s world, kyb_verification) prog" where
  "retry_kyb B V dto =
     bnd (bp_open V dto) (\<lambda>(status, session).
     bnd (call (now B)) (\<lambda>t.
     bnd (call (update_single (kyb B) (\<lambda>r. kb_organization_id r = ck_organization_id dto) (kyb_attempt dto (bp_name V) status session t))) (\<lambda>(data, error).
     case (error, data) of
       (None, Some r) \<Rightarrow> ret r
     | (e, _) \<Rightarrow> throw (BadRequest (Msg (default (map_option e_message e) []))))))"

definition first_kyb :: "'s backend \<Rightarrow> 's kyb_provider \<Rightarrow> string \<Rightarrow> create_kyb_dto \<Rightarrow> ('s world, kyb_verification) prog" where
  "first_kyb B V userId dto =
     bnd (bp_open V dto) (\<lambda>(status, session).
     bnd (call (now B)) (\<lambda>t.
     bnd (call (insert_row (kyb B) (kyb_row userId dto (bp_name V) status session t))) (\<lambda>(data, error).
     case (error, data) of
       (None, Some r) \<Rightarrow> ret r
     | (Some e, _) \<Rightarrow>
         if e_code e = ''23505'' then
           bnd (findByOrganizationId B (ck_organization_id dto)) (\<lambda>raced.
           case raced of Some r \<Rightarrow> ret r | None \<Rightarrow> throw (BadRequest (Msg (e_message e))))
         else throw (BadRequest (Msg (e_message e)))
     | _ \<Rightarrow> throw (PlainError ''TypeError''))))"

definition kyb_createSession :: "'s backend \<Rightarrow> 's kyb_provider \<Rightarrow> string \<Rightarrow> create_kyb_dto \<Rightarrow> ('s world, kyb_verification) prog" where
  "kyb_createSession B V userId dto =
     bnd (findByOrganizationId B (ck_organization_id dto)) (\<lambda>existing.
     case existing of
       Some r \<Rightarrow>
         bnd (require (kb_requested_by r = userId) (Forbidden ''Not the requester for this organization'')) (\<lambda>_.
         if kb_status r = ''pending'' \<or> kb_status r = ''in_review'' then ret r
         else if kb_status r = ''verified'' then ret r
         else retry_kyb B V dto)
     | None \<Rightarrow> first_kyb B V userId dto)"

definition kyb_getStatus :: "'s backend \<Rightarrow> string \<Rightarrow> string \<Rightarrow> ('s world, kyb_verification) prog" where
  "kyb_getStatus B userId organizationId =
     bnd (findByOrganizationId B organizationId) (\<lambda>verification.
     case verification of
       None \<Rightarrow> throw (NotFound ''No KYB verification found for this organization'')
     | Some r \<Rightarrow>
         bnd (if kb_requested_by r \<noteq> userId then isAdmin B userId else ret True) (\<lambda>ok.
         bnd (require ok (Forbidden ''Not authorized to view this KYB verification'')) (\<lambda>_. ret r)))"

definition kyb_decision :: "review_kyb_dto \<Rightarrow> int \<Rightarrow> kyb_verification \<Rightarrow> kyb_verification" where
  "kyb_decision dto t r = r\<lparr>kb_status := rk_status dto, kb_rejection_reason := (if rk_status dto = ''rejected'' then rk_rejection_reason dto else None),
     kb_verified_at := (if rk_status dto = ''verified'' then Some t else None), kb_updated_at := t\<rparr>"

definition announce_kyb :: "kyb_verification \<Rightarrow> ('s world, unit) prog" where
  "announce_kyb r =
     (let who = [(''organizationId'', JStr (kb_organization_id r)), (''businessName'', JStr (kb_business_name r))]
      in if kb_status r = ''verified'' then emit ''kyb.verified'' (JObj (who @ [(''verifiedAt'',
           case kb_verified_at r of None \<Rightarrow> JNull | Some t \<Rightarrow> JStr (iso_string t))]))
         else if kb_status r = ''rejected'' then emit ''kyb.rejected'' (JObj (who @ [(''rejectionReason'', jnullable (kb_rejection_reason r))]))
         else ret ())"

definition kyb_review :: "'s backend \<Rightarrow> string \<Rightarrow> string \<Rightarrow> review_kyb_dto \<Rightarrow> ('s world, kyb_verification) prog" where
  "kyb_review B userId organizationId dto =
     bnd (isAdmin B userId) (\<lambda>ok.
     bnd (require ok (Forbidden ''Only admins can review KYB verifications'')) (\<lambda>_.
     bnd (findByOrganizationId B organizationId) (\<lambda>existing.
     case existing of
       None \<Rightarrow> throw (NotFound ''No KYB verification found for this organization'')
     | Some r \<Rightarrow>
         bnd (require (\<not> js_includes FINALIZED_STATUSES (kb_status r))
           (BadRequest (Msg (''Cannot review a verification already finalized as \"'' @ kb_status r @ ''\"'')))) (\<lambda>_.
         bnd (call (now B)) (\<lambda>t.
         bnd (call (update_single (kyb B) (\<lambda>x. kb_organization_id x = organizationId) (kyb_decision dto t))) (\<lambda>(data, error).
         case (error, data) of
           (None, Some q) \<Rightarrow> bnd (announce_kyb q) (\<lambda>_. ret q)
         | (e, _) \<Rightarrow> throw (BadRequest (Msg (default (map_option e_message e) [])))))))))"

definition kyb_isVerified :: "'s backend \<Rightarrow> string \<Rightarrow> ('s world, bool) prog" where
  "kyb_isVerified B organizationId =
     bnd (findByOrganizationId B organizationId) (\<lambda>verification.
     ret (case verification of None \<Rightarrow> False | Some r \<Rightarrow> kb_status r = ''verified''))"

section \<open>Persons\<close>

text \<open>The answer of a provider to a new session, what it reads about one later, and the result it reads from a webhook.\<close>

record session_result =
  ss_reference :: "json option"
  ss_url :: "json option"
  ss_metadata :: "json option"

record verification_result =
  vt_status :: string
  vt_verified_at :: json
  vt_metadata :: json

record webhook_result =
  wr_reference :: "json option"
  wr_status :: string
  wr_verified_at :: "int option"

record 's kyc_provider =
  kp_name :: string
  kp_session :: "string \<Rightarrow> json option \<Rightarrow> ('s world, session_result) prog"
  kp_status :: "string \<Rightarrow> ('s world, verification_result) prog"
  kp_webhook :: "json \<Rightarrow> exn + webhook_result"

definition LIVE_STATUSES :: "string list" where
  "LIVE_STATUSES = [''pending'', ''in_review'']"

definition RETRYABLE_STATUSES :: "string list" where
  "RETRYABLE_STATUSES = [''rejected'', ''expired'', ''unverified'']"

definition mapProviderStatus :: "json \<Rightarrow> string" where
  "mapProviderStatus status =
     (if status = JStr ''pending'' then ''pending'' else if status = JStr ''in_review'' then ''pending''
      else if status = JStr ''verified'' then ''verified'' else if status = JStr ''rejected'' then ''rejected''
      else if status = JStr ''expired'' then ''expired'' else ''pending'')"

definition session_status :: "session_result \<Rightarrow> json" where
  "session_status session = (case Option.bind (ss_metadata session) (jget ''status'') of
     None \<Rightarrow> JStr ''pending'' | Some v \<Rightarrow> if v = JNull then JStr ''pending'' else v)"

definition put_key :: "string \<Rightarrow> json \<Rightarrow> (string \<times> json) list \<Rightarrow> (string \<times> json) list" where
  "put_key k v kvs = (if k \<in> set (map fst kvs) then map (\<lambda>(l, u). (l, if l = k then v else u)) kvs else kvs @ [(k, v)])"

text \<open>The reference as the text column stores it; \<open>undefined\<close> is no value for the column.\<close>

definition reference_column :: "json option \<Rightarrow> string option \<Rightarrow> string option" where
  "reference_column v unset = (case v of None \<Rightarrow> unset | Some JNull \<Rightarrow> None | Some (JStr s) \<Rightarrow> Some s | Some u \<Rightarrow> Some (stringify u))"

definition merged_metadata :: "session_result \<Rightarrow> string \<Rightarrow> json" where
  "merged_metadata session sessionUrl = JObj (put_key ''sessionUrl'' (if nullish (ss_url session) then JStr sessionUrl else the (ss_url session))
     (case ss_metadata session of Some (JObj kvs) \<Rightarrow> kvs | _ \<Rightarrow> []))"

definition findByUserId :: "'s backend \<Rightarrow> 's kyc_provider \<Rightarrow> string \<Rightarrow> ('s world, verification option) prog" where
  "findByUserId B V userId =
     bnd (call (select_one (verifications B) (\<lambda>r. vr_subject_type r = ''user'' \<and> vr_subject_id r = userId \<and> vr_provider r = Some (kp_name V)))) (\<lambda>(data, error).
     case error of Some e \<Rightarrow> throw (BadRequest (Msg (e_message e))) | None \<Rightarrow> ret data)"

definition fresh_attempt :: "session_result \<Rightarrow> string \<Rightarrow> int \<Rightarrow> verification \<Rightarrow> verification" where
  "fresh_attempt session sessionUrl t r = r\<lparr>vr_reference := reference_column (ss_reference session) (vr_reference r), vr_status := mapProviderStatus (session_status session),
     vr_level := ''none'', vr_verified_at := None, vr_expires_at := None, vr_metadata := merged_metadata session sessionUrl,
     vr_updated_at := Some (iso_string t)\<rparr>"

definition kyc_row :: "string \<Rightarrow> string \<Rightarrow> session_result \<Rightarrow> string \<Rightarrow> int \<Rightarrow> verification" where
  "kyc_row userId provider session sessionUrl t = \<lparr>vr_id = [], vr_subject_type = ''user'', vr_subject_id = userId, vr_provider = Some provider,
     vr_reference = reference_column (ss_reference session) None, vr_status = mapProviderStatus (session_status session), vr_level = ''none'',
     vr_verified_at = (if session_status session = JStr ''verified'' then Some t else None), vr_expires_at = None,
     vr_metadata = merged_metadata session sessionUrl, vr_created_at = 0, vr_updated_at = None\<rparr>"

definition insert_kyc :: "'s backend \<Rightarrow> 's kyc_provider \<Rightarrow> string \<Rightarrow> verification \<Rightarrow> ('s world, verification) prog" where
  "insert_kyc B V userId row =
     bnd (call (insert_row (verifications B) row)) (\<lambda>(data, error).
     case (error, data) of
       (None, Some r) \<Rightarrow> ret r
     | (Some e, _) \<Rightarrow>
         if e_code e = ''23505'' then
           bnd (findByUserId B V userId) (\<lambda>raced.
           case raced of Some r \<Rightarrow> ret r | None \<Rightarrow> throw (BadRequest (Msg (e_message e))))
         else throw (BadRequest (Msg (e_message e)))
     | _ \<Rightarrow> throw (PlainError ''TypeError''))"

definition upsertVerification ::
    "'s backend \<Rightarrow> 's kyc_provider \<Rightarrow> string \<Rightarrow> string option \<Rightarrow> json \<Rightarrow> string \<Rightarrow> ('s world, verification) prog" where
  "upsertVerification B V userId existingId metadata sessionUrl =
     bnd (kp_session V userId (Some metadata)) (\<lambda>session.
     bnd (call (now B)) (\<lambda>t.
     if truthy existingId then
       bnd (call (update_single (verifications B) (\<lambda>r. Some (vr_id r) = existingId) (fresh_attempt session sessionUrl t))) (\<lambda>(data, error).
       case (error, data) of
         (None, Some r) \<Rightarrow> ret r
       | (e, _) \<Rightarrow> throw (BadRequest (Msg (default (map_option e_message e) []))))
     else insert_kyc B V userId (kyc_row userId (kp_name V) session sessionUrl t)))"

definition kyc_createSession :: "'s backend \<Rightarrow> 's kyc_provider \<Rightarrow> string \<Rightarrow> json option \<Rightarrow> ('s world, verification) prog" where
  "kyc_createSession B V userId metadata =
     bnd (findByUserId B V userId) (\<lambda>existing.
     case existing of
       Some r \<Rightarrow>
         if js_includes LIVE_STATUSES (vr_status r) then ret r
         else if vr_status r = ''verified'' then ret r
         else if js_includes RETRYABLE_STATUSES (vr_status r)
         then upsertVerification B V userId (Some (vr_id r)) (default metadata (JObj [])) []
         else upsertVerification B V userId None (default metadata (JObj [])) []
     | None \<Rightarrow> upsertVerification B V userId None (default metadata (JObj [])) [])"

text \<open>The reference of a webhook as the filter of the query prints it.\<close>

definition reference_text :: "webhook_result \<Rightarrow> string" where
  "reference_text r = (case wr_reference r of None \<Rightarrow> ''undefined'' | Some v \<Rightarrow> js_String v)"

definition webhook_columns_kyc :: "webhook_result \<Rightarrow> int \<Rightarrow> verification \<Rightarrow> verification" where
  "webhook_columns_kyc result t r = r\<lparr>vr_status := mapProviderStatus (JStr (wr_status result)),
     vr_verified_at := (if wr_status result = ''verified'' then Some (default (wr_verified_at result) t) else None), vr_updated_at := Some (iso_string t)\<rparr>"

definition handleWebhookProcessed :: "'s backend \<Rightarrow> webhook_result \<Rightarrow> ('s world, unit) prog" where
  "handleWebhookProcessed B result =
     bnd (call (now B)) (\<lambda>t.
     bnd (call (update_rows (verifications B) (\<lambda>r. vr_reference r = Some (reference_text result)) (webhook_columns_kyc result t))) (\<lambda>_. ret ()))"

section \<open>Webhooks of the identity providers\<close>

definition property_of :: "string \<Rightarrow> json \<Rightarrow> exn + json option" where
  "property_of k v = (if v = JNull then Inl (PlainError ''TypeError'') else Inr (jget k v))"

text \<open>The property of a property that may be missing.\<close>

definition inner_property :: "string \<Rightarrow> json option \<Rightarrow> exn + json option" where
  "inner_property k v = (case v of None \<Rightarrow> Inl (PlainError ''TypeError'') | Some u \<Rightarrow> property_of k u)"

definition status_by :: "(string \<times> string) list \<Rightarrow> json option \<Rightarrow> string" where
  "status_by table v = (case v of Some (JStr s) \<Rightarrow> default (map_of table s) ''in_review'' | _ \<Rightarrow> ''in_review'')"

definition webhook_of :: "json option \<Rightarrow> string \<Rightarrow> webhook_result" where
  "webhook_of reference status = \<lparr>wr_reference = reference, wr_status = status, wr_verified_at = None\<rparr>"

definition simple_webhook :: "string \<Rightarrow> (string \<times> string) list \<Rightarrow> json \<Rightarrow> exn + webhook_result" where
  "simple_webhook key table payload = (case property_of ''status'' payload of
     Inl e \<Rightarrow> Inl e | Inr s \<Rightarrow> Inr (webhook_of (jget key payload) (status_by table s)))"

definition sumsub_webhook :: "json \<Rightarrow> exn + webhook_result" where
  "sumsub_webhook payload = (case property_of ''reviewResult'' payload of
     Inl e \<Rightarrow> Inl e
   | Inr r \<Rightarrow> Inr (webhook_of (jget ''applicantId'' payload)
       (status_by [(''GREEN'', ''verified''), (''RED'', ''rejected'')] (Option.bind r (jget ''reviewAnswer'')))))"

definition persona_webhook :: "json \<Rightarrow> exn + webhook_result" where
  "persona_webhook = simple_webhook ''inquiryId'' [(''pending'', ''pending''), (''in_review'', ''in_review''), (''approved'', ''verified''),
     (''rejected'', ''rejected''), (''expired'', ''expired'')]"

definition veriff_webhook :: "json \<Rightarrow> exn + webhook_result" where
  "veriff_webhook = simple_webhook ''sessionId'' [(''pending'', ''pending''), (''in_progress'', ''in_review''), (''completed'', ''verified''),
     (''failed'', ''rejected''), (''expired'', ''expired'')]"

definition synaps_webhook :: "json \<Rightarrow> exn + webhook_result" where
  "synaps_webhook = simple_webhook ''sessionId'' [(''pending'', ''pending''), (''in_review'', ''in_review''), (''approved'', ''verified''),
     (''rejected'', ''rejected''), (''expired'', ''expired'')]"

definition alloy_webhook :: "json \<Rightarrow> exn + webhook_result" where
  "alloy_webhook = simple_webhook ''evaluation_id'' [(''pending'', ''pending''), (''running'', ''in_review''), (''complete'', ''verified''),
     (''error'', ''rejected''), (''expired'', ''expired'')]"

definition stripe_webhook :: "json \<Rightarrow> exn + webhook_result" where
  "stripe_webhook payload = (case property_of ''data'' payload of
     Inl e \<Rightarrow> Inl e
   | Inr d \<Rightarrow> (case inner_property ''object'' d of
       Inl e \<Rightarrow> Inl e
     | Inr x \<Rightarrow> (case inner_property ''status'' x of
         Inl e \<Rightarrow> Inl e
       | Inr s \<Rightarrow> Inr (webhook_of (Option.bind x (jget ''id'')) (status_by [(''requires_input'', ''pending''), (''processing'', ''in_review''),
           (''verified'', ''verified''), (''unverified'', ''rejected''), (''expired'', ''expired'')] s)))))"

text \<open>
  \<open>POST /identity-providers/webhook\<close>: the secret, the provider's reading, and the event on the bus, which the KYC service handles.
\<close>

definition WebhookSecretGuard :: "'s backend \<Rightarrow> string option \<Rightarrow> ('s world, unit) prog" where
  "WebhookSecretGuard B header =
     bnd (require (truthy (getenv B ''KYC_WEBHOOK_SECRET'')) (Unauthorized ''KYC_WEBHOOK_SECRET not configured'')) (\<lambda>_.
     require (header = getenv B ''KYC_WEBHOOK_SECRET'') (Unauthorized ''Invalid webhook secret''))"

definition processWebhook :: "'s backend \<Rightarrow> 's kyc_provider \<Rightarrow> string option \<Rightarrow> json \<Rightarrow> ('s world, webhook_result) prog" where
  "processWebhook B V header payload =
     bnd (WebhookSecretGuard B header) (\<lambda>_.
     bnd (lift_exn (kp_webhook V payload)) (\<lambda>result.
     bnd (handleWebhookProcessed B result) (\<lambda>_.
     ret result)))"

section \<open>What a status means\<close>

definition may_read :: "tables \<Rightarrow> string \<Rightarrow> string \<Rightarrow> access_context \<Rightarrow> bool" where
  "may_read ts kind s ctx \<longleftrightarrow> ax_internal ctx \<or>
     (\<exists>u. u \<noteq> [] \<and> ax_caller ctx = Some u \<and> (kind = ''user'' \<and> u = s \<or> admin ts u))"

definition currently_verified :: "int \<Rightarrow> verification \<Rightarrow> bool" where
  "currently_verified t r \<longleftrightarrow> vr_status r = ''verified'' \<and> (\<forall>e. vr_expires_at r = Some e \<longrightarrow> t < e)"

lemma currently_verified_iff: "currently_verified t r \<longleftrightarrow> vr_status r = ''verified'' \<and> \<not> isExpired t r"
  by (auto simp: currently_verified_def isExpired_def split: option.splits)

text \<open>The levels from the lowest; a record whose level is none of them is comparable with all.\<close>

definition levels :: "string list" where
  "levels = [''none'', ''basic'', ''standard'', ''advanced'']"

definition level_le :: "verification \<Rightarrow> verification \<Rightarrow> bool" where
  "level_le q r \<longleftrightarrow> (\<forall>i < length levels. \<forall>j < length levels. levels ! i = vr_level q \<longrightarrow> levels ! j = vr_level r \<longrightarrow> i \<le> j)"

lemma ex_position: "(\<exists>n < length [a, b, c, d]. [a, b, c, d] ! n = l \<and> i = int n) \<longleftrightarrow> (a = l \<and> i = 0 \<or> b = l \<and> i = 1 \<or> c = l \<and> i = 2 \<or> d = l \<and> i = 3)"
proof
  assume "\<exists>n < length [a, b, c, d]. [a, b, c, d] ! n = l \<and> i = int n"
  then obtain n where n: "n < 4" "[a, b, c, d] ! n = l" "i = int n" by auto
  then consider "n = 0" | "n = 1" | "n = 2" | "n = 3" by linarith
  then show "a = l \<and> i = 0 \<or> b = l \<and> i = 1 \<or> c = l \<and> i = 2 \<or> d = l \<and> i = 3"
    using n by cases (simp_all add: numeral_eq_Suc)
next
  assume r: "a = l \<and> i = 0 \<or> b = l \<and> i = 1 \<or> c = l \<and> i = 2 \<or> d = l \<and> i = 3"
  have "[a, b, c, d] ! 0 = a" "[a, b, c, d] ! 1 = b" "[a, b, c, d] ! 2 = c" "[a, b, c, d] ! 3 = d" by (simp_all add: numeral_eq_Suc)
  with r show "\<exists>n < length [a, b, c, d]. [a, b, c, d] ! n = l \<and> i = int n"
    by (elim disjE) (rule exI [of _ 0] exI [of _ 1] exI [of _ 2] exI [of _ 3], simp; fail)+
qed

lemma ranks_by_position:
  assumes "distinct [a, b, c, d]"
  shows "map_of [(a, 0), (b, 1), (c, 2), (d, 3)] l = Some (i :: int) \<longleftrightarrow> (\<exists>n < length [a, b, c, d]. [a, b, c, d] ! n = l \<and> i = int n)"
  unfolding ex_position using assms by auto

lemma LEVEL_RANK_levels: "LEVEL_RANK l = Some i \<longleftrightarrow> (\<exists>n < length levels. levels ! n = l \<and> i = int n)"
  unfolding LEVEL_RANK_def levels_def by (rule ranks_by_position) simp

lemma level_le_rank:
  "level_le q r \<longleftrightarrow> (\<forall>i j. LEVEL_RANK (vr_level q) = Some i \<longrightarrow> LEVEL_RANK (vr_level r) = Some j \<longrightarrow> i \<le> j)"
  unfolding level_le_def LEVEL_RANK_levels by fastforce

text \<open>The answer for the records of a subject at a time.\<close>

definition verdict :: "int \<Rightarrow> verification list \<Rightarrow> status_response \<Rightarrow> bool" where
  "verdict t records x \<longleftrightarrow> (sr_verified x \<longleftrightarrow> (\<exists>q \<in> set records. currently_verified t q)) \<and> (sr_verified x \<longleftrightarrow> sr_status x = ''verified'') \<and>
     (if sr_verified x then (\<exists>q \<in> set records. currently_verified t q \<and> sr_level x = vr_level q \<and> sr_provider x = vr_provider q \<and>
         sr_expires_at x = vr_expires_at q \<and> (\<forall>p \<in> set records. currently_verified t p \<longrightarrow> level_le p q))
      else sr_level x = ''none'' \<and> sr_provider x = None \<and> sr_expires_at x = None)"

lemma level_le_refl [simp]: "level_le r r"
  by (simp add: level_le_rank)

text \<open>The answer when nothing could be read.\<close>

definition closed_answer :: "status_response \<Rightarrow> bool" where
  "closed_answer x \<longleftrightarrow> \<not> sr_verified x \<and> sr_status x = ''unverified'' \<and> sr_level x = ''none'' \<and> sr_provider x = None \<and>
     sr_expires_at x = None \<and> sr_last_updated x = None"

definition about_subject :: "string \<Rightarrow> string \<Rightarrow> status_response \<Rightarrow> bool" where
  "about_subject kind s x \<longleftrightarrow> sr_subject_type x = kind \<and> sr_subject_id x = s"

text \<open>The database answered a read of the verifications with an error.\<close>

definition unreadable :: "'s backend \<Rightarrow> ('s \<Rightarrow> tables) \<Rightarrow> tables \<Rightarrow> bool" where
  "unreadable B st ts \<longleftrightarrow> (\<exists>P k s e s'. st s = ts \<and> select_rows (verifications B) P k s = ((None, Some e), s'))"

definition ranked :: "verification \<Rightarrow> bool" where
  "ranked r \<longleftrightarrow> LEVEL_RANK (vr_level r) \<noteq> None"

lemma choose_record_cases:
  "choose_record collate x r \<in> {x, r} \<and> level_le r (choose_record collate x r) \<and> level_le x (choose_record collate x r) \<and>
     (ranked r \<longrightarrow> ranked (choose_record collate x r)) \<and> (\<not> ranked r \<longrightarrow> choose_record collate x r = r)"
  by (auto simp: choose_record_def ranked_def compare_records_def level_le_rank split: option.splits if_splits)

lemma level_le_trans: "level_le p q \<Longrightarrow> level_le q r \<Longrightarrow> ranked q \<Longrightarrow> level_le p r"
  by (fastforce simp: level_le_rank ranked_def)

lemma level_le_unranked: "\<not> ranked r \<Longrightarrow> level_le p r"
  by (simp add: level_le_rank ranked_def)

lemma best_fold:
  "fold (choose_record collate) rs r \<in> set (r # rs) \<and> (\<forall>p \<in> set (r # rs). level_le p (fold (choose_record collate) rs r)) \<and>
     (\<not> ranked r \<longrightarrow> fold (choose_record collate) rs r = r)"
proof (induction rs arbitrary: r)
  case Nil
  then show ?case by simp
next
  case (Cons x rs)
  define m where "m = choose_record collate x r"
  define b where "b = fold (choose_record collate) rs m"
  have m: "m \<in> {x, r}" "level_le r m" "level_le x m" "\<not> ranked r \<longrightarrow> m = r"
    using choose_record_cases [of collate x r] unfolding m_def by blast+
  have b: "b \<in> set (m # rs)" "\<forall>p \<in> set (m # rs). level_le p b" "\<not> ranked m \<longrightarrow> b = m"
    using Cons.IH [of m] unfolding b_def by blast+
  have up: "level_le q b" if "level_le q m" for q
  proof (cases "ranked m")
    case True
    have "level_le m b" using b(2) by simp
    then show ?thesis using level_le_trans [OF that _ True] by blast
  next
    case False
    then show ?thesis using b(3) level_le_unranked by simp
  qed
  have "b \<in> set (r # x # rs)" using b(1) m(1) by auto
  moreover have "\<forall>p \<in> set (r # x # rs). level_le p b" using up [OF m(2)] up [OF m(3)] b(2) by simp
  moreover have "\<not> ranked r \<longrightarrow> b = r" using m(4) b(3) by blast
  moreover have "fold (choose_record collate) (x # rs) r = b" by (simp add: b_def m_def)
  ultimately show ?case by (simp only:)
qed

lemma best_record_highest:
  assumes "best_record collate rs = Some b"
  shows "b \<in> set rs \<and> (\<forall>p \<in> set rs. level_le p b)"
  using assms best_fold [of collate "tl rs" "hd rs"] by (cases rs) auto

lemma best_record_None [simp]: "best_record collate rs = None \<longleftrightarrow> rs = []"
  by (cases rs) auto

lemma unverified_status: "effectiveUnverifiedStatus t rs \<noteq> ''verified''"
  by (simp add: effectiveUnverifiedStatus_def Let_def)

lemma closed_notVerified: "closed_answer (notVerified kind s) \<and> about_subject kind s (notVerified kind s)"
  by (simp add: closed_answer_def about_subject_def notVerified_def)

lemma about_aggregate: "about_subject kind s (aggregate_records collate t kind s rs)"
  by (simp add: about_subject_def aggregate_records_def notVerified_def Let_def split: option.split)

lemma verdict_notVerified: "verdict t [] (notVerified kind s)"
  by (simp add: verdict_def notVerified_def)

lemma verdict_aggregate: "verdict t rs (aggregate_records collate t kind s rs)"
proof (cases "rs = []")
  case True
  then show ?thesis by (simp add: aggregate_records_def verdict_notVerified)
next
  case False
  let ?v = "filter (\<lambda>r. vr_status r = ''verified'' \<and> \<not> isExpired t r) rs"
  show ?thesis
  proof (cases "best_record collate ?v")
    case None
    then have "?v = []" by simp
    then have "\<not> (\<exists>q \<in> set rs. currently_verified t q)" by (simp add: filter_empty_conv currently_verified_iff)
    then show ?thesis using False None by (simp add: aggregate_records_def Let_def verdict_def unverified_status)
  next
    case (Some b)
    note b = best_record_highest [OF Some]
    have "b \<in> set rs" "currently_verified t b" using b by (auto simp: currently_verified_iff)
    moreover have "\<forall>p \<in> set rs. currently_verified t p \<longrightarrow> level_le p b" using b by (auto simp: currently_verified_iff)
    ultimately show ?thesis using False Some by (auto simp: aggregate_records_def Let_def verdict_def)
  qed
qed

lemma adminI:
  "x \<in> set (t_users ts) \<Longrightarrow> p \<in> set (t_profiles ts) \<Longrightarrow> au_wallet x = Some (pr_wallet p) \<Longrightarrow> pr_wallet p \<noteq> [] \<Longrightarrow> pr_role p = ''admin'' \<Longrightarrow>
     admin ts (au_id x)"
  by (auto simp: admin_def)

definition subject_records :: "tables \<Rightarrow> string \<Rightarrow> string \<Rightarrow> verification list" where
  "subject_records ts kind s = filter (\<lambda>r. vr_subject_type r = kind \<and> vr_subject_id r = s) (t_verifications ts)"

context database begin

lemma wp_isAdmin:
  assumes "\<And>ok s'. st s' = st (svc w) \<Longrightarrow> (ok \<longrightarrow> admin (st (svc w)) u) \<Longrightarrow> Q (Inr ok) (w\<lparr>svc := s'\<rparr>)"
  shows "wp (isAdmin B u) Q w"
  unfolding isAdmin_def
  by (auto simp: wp_simps Let_def truthy_def split: option.splits intro!: users_wp(2) profiles_wp(2) assms adminI)

lemma wp_assertCanRead:
  assumes ok: "\<And>s'. st s' = st (svc w) \<Longrightarrow> may_read (st (svc w)) kind s ctx \<Longrightarrow> Q (Inr ()) (w\<lparr>svc := s'\<rparr>)"
    and bad: "\<And>s' m. st s' = st (svc w) \<Longrightarrow> Q (Inl (Forbidden m)) (w\<lparr>svc := s'\<rparr>)"
  shows "wp (assertCanRead B kind s ctx) Q w"
proof -
  have here: "may_read (st (svc w)) kind s ctx \<Longrightarrow> Q (Inr ()) w" "Q (Inl (Forbidden m)) w" for m
    using ok [of "svc w"] bad [of "svc w"] by simp_all
  show ?thesis
    unfolding assertCanRead_def
    by (auto simp: wp_simps bnd_ret_left truthy_def may_read_def split: option.splits intro!: wp_isAdmin here ok bad)
qed

lemma wp_verification_getStatus:
  assumes failed: "\<And>s'. st s' = st (svc w) \<Longrightarrow> unreadable B st (st (svc w)) \<Longrightarrow> Q (Inr (notVerified kind s)) (w\<lparr>svc := s'\<rparr>)"
    and answer: "\<And>s' v x. st s' = st (svc w) \<Longrightarrow> verdict (fst (now B v)) (subject_records (st (svc w)) kind s) x \<Longrightarrow>
      about_subject kind s x \<Longrightarrow> Q (Inr x) (w\<lparr>svc := s'\<rparr>)"
  shows "wp (verification_getStatus B collate kind s) Q w"
  unfolding verification_getStatus_def wp_bnd [of "call (select_rows (verifications B) P k)" for P k]
proof (rule table_store.wp_select_rows_read [OF verifications_store], goal_cases)
  case (1 e s')
  then have "unreadable B st (st (svc w))" unfolding unreadable_def by blast
  then show ?case using 1 by (simp add: wp_ret failed)
next
  case (2 s')
  obtain t s2 where t: "now B s' = (t, s2)" by (cases "now B s'")
  have "st s2 = st (svc w)" using now_law [OF t] 2 by simp
  then have "Q (Inr (aggregate_records collate t kind s (subject_records (st (svc w)) kind s))) (w\<lparr>svc := s2\<rparr>)"
    using t by (intro answer [of _ s']) (simp_all add: verdict_aggregate about_aggregate)
  then show ?case by (simp add: wp_bnd wp_call wp_ret t subject_records_def)
qed

lemma wp_getUserVerification:
  assumes bad: "\<And>s' m. st s' = st (svc w) \<Longrightarrow> Q (Inl (Forbidden m)) (w\<lparr>svc := s'\<rparr>)"
    and ok: "\<And>s' v x. st s' = st (svc w) \<Longrightarrow> may_read (st (svc w)) kind s ctx \<Longrightarrow> about_subject kind s x \<Longrightarrow>
      unreadable B st (st (svc w)) \<and> closed_answer x \<or> verdict (fst (now B v)) (subject_records (st (svc w)) kind s) x \<Longrightarrow>
      Q (Inr x) (w\<lparr>svc := s'\<rparr>)"
  shows "wp (bnd (assertCanRead B kind s ctx) (\<lambda>_. verification_getStatus B collate kind s)) Q w"
  unfolding wp_bnd
proof (rule wp_assertCanRead, goal_cases)
  case (1 s1)
  show ?case
    unfolding sum.case
  proof (rule wp_verification_getStatus, goal_cases)
    case (1 s2)
    then show ?case using \<open>st s1 = _\<close> \<open>may_read _ _ _ _\<close> closed_notVerified by (auto intro!: ok [where v = s2])
  next
    case (2 s2 v x)
    then show ?case using \<open>st s1 = _\<close> \<open>may_read _ _ _ _\<close> by (auto intro!: ok [where v = v])
  qed
qed (simp add: bad)

end

section \<open>Reviewing businesses\<close>

text \<open>Requests of users to the KYB service with the manual provider the module installs.\<close>

datatype kyb_request =
    OpenKyb create_kyb_dto
  | ReviewKyb string review_kyb_dto
  | ReadKyb string

definition handle_kyb :: "'s backend \<Rightarrow> string \<times> kyb_request \<Rightarrow> 's world \<Rightarrow> 's world" where
  "handle_kyb B q w = (case snd q of
     OpenKyb dto \<Rightarrow> snd (kyb_createSession B (manual_provider B) (fst q) dto w)
   | ReviewKyb i dto \<Rightarrow> snd (kyb_review B (fst q) i dto w)
   | ReadKyb i \<Rightarrow> snd (kyb_getStatus B (fst q) i w))"

definition handle_kybs :: "'s backend \<Rightarrow> (string \<times> kyb_request) list \<Rightarrow> 's world \<Rightarrow> 's world" where
  "handle_kybs B qs w = fold (handle_kyb B) qs w"

definition same_business :: "kyb_verification \<Rightarrow> kyb_verification \<Rightarrow> bool" where
  "same_business x y \<longleftrightarrow> kb_id y = kb_id x \<and> kb_organization_id y = kb_organization_id x \<and> kb_requested_by y = kb_requested_by x \<and>
     (kb_status x = ''verified'' \<longrightarrow> y = x)"

inductive kyb_step :: "string \<Rightarrow> kyb_request \<Rightarrow> tables \<Rightarrow> tables \<Rightarrow> bool" for u q where
  Keep: "kyb_step u q ts ts"
| Ask: "kb_requested_by r = u \<Longrightarrow> kb_status r = ''pending'' \<Longrightarrow> kyb_step u q ts (ts\<lparr>t_kyb := t_kyb ts @ [r]\<rparr>)"
| Again: "filter (\<lambda>x. kb_organization_id x = ck_organization_id dto) (t_kyb ts) = [r] \<Longrightarrow> kb_requested_by r = u \<Longrightarrow> kb_status r \<noteq> ''verified'' \<Longrightarrow>
    kyb_step u q ts (ts\<lparr>t_kyb := update_where (\<lambda>x. kb_organization_id x = ck_organization_id dto) (kyb_attempt dto ''manual'' ''pending'' i t) (t_kyb ts)\<rparr>)"
| Decide: "q = ReviewKyb org dto \<Longrightarrow> admin ts u \<Longrightarrow> filter (\<lambda>x. kb_organization_id x = org) (t_kyb ts) = [r] \<Longrightarrow> \<not> js_includes FINALIZED_STATUSES (kb_status r) \<Longrightarrow>
    kyb_step u q ts (ts\<lparr>t_kyb := update_where (\<lambda>x. kb_organization_id x = org) (kyb_decision dto t) (t_kyb ts)\<rparr>)"

definition approves :: "tables \<Rightarrow> string \<Rightarrow> kyb_request \<Rightarrow> kyb_verification \<Rightarrow> bool" where
  "approves ts u q y \<longleftrightarrow> (\<exists>dto. q = ReviewKyb (kb_organization_id y) dto \<and> rk_status dto = ''verified'' \<and> admin ts u)"

definition kyb_past :: "string \<Rightarrow> kyb_request \<Rightarrow> tables \<Rightarrow> tables \<Rightarrow> bool" where
  "kyb_past u q a b \<longleftrightarrow> (\<forall>x \<in> set (t_kyb a). \<exists>y \<in> set (t_kyb b). same_business x y) \<and>
     (\<forall>y \<in> set (t_kyb b). kb_status y = ''verified'' \<longrightarrow> y \<in> set (t_kyb a) \<or> approves a u q y) \<and> a\<lparr>t_kyb := []\<rparr> = b\<lparr>t_kyb := []\<rparr>"

lemma same_business_refl [simp]: "same_business x x"
  by (simp add: same_business_def)

lemma same_business_trans: "same_business x y \<Longrightarrow> same_business y z \<Longrightarrow> same_business x z"
  by (auto simp: same_business_def)

lemma kyb_update_past:
  assumes one: "filter P (t_kyb a) = [r]" and open_row: "kb_status r \<noteq> ''verified''"
    and same: "\<And>x. kb_status x \<noteq> ''verified'' \<Longrightarrow> same_business x (f x)"
    and fresh: "kb_status (f r) = ''verified'' \<Longrightarrow> approves a u q (f r)"
  shows "kyb_past u q a (a\<lparr>t_kyb := update_where P f (t_kyb a)\<rparr>)"
proof -
  have only: "x = r" if "x \<in> set (t_kyb a)" "P x" for x using filter_singleD [OF one that] .
  have "\<exists>y \<in> set (update_where P f (t_kyb a)). same_business x y" if "x \<in> set (t_kyb a)" for x
  proof (cases "P x")
    case True
    then have "f x \<in> set (update_where P f (t_kyb a))" using that by (auto simp: set_update_where)
    then show ?thesis using same only [OF that True] open_row by blast
  next
    case False
    then have "x \<in> set (update_where P f (t_kyb a))" using that by (auto simp: set_update_where)
    then show ?thesis using same_business_refl by blast
  qed
  moreover have "y \<in> set (t_kyb a) \<or> approves a u q y" if "y \<in> set (update_where P f (t_kyb a))" "kb_status y = ''verified''" for y
    using that only fresh by (auto simp: set_update_where)
  ultimately show ?thesis by (simp add: kyb_past_def)
qed

lemma kyb_step_past: "kyb_step u q a b \<Longrightarrow> kyb_past u q a b"
proof (induction rule: kyb_step.induct)
  case (Again dto ts r i t)
  then show ?case by (intro kyb_update_past) (auto simp: same_business_def kyb_attempt_def)
next
  case (Decide org dto ts r t)
  then have "kb_organization_id r = org" using filter_hdD by fastforce
  with Decide show ?case
    by (intro kyb_update_past) (auto simp: same_business_def kyb_decision_def approves_def js_includes_def FINALIZED_STATUSES_def)
qed (auto simp: kyb_past_def intro: same_business_refl)

context database begin

lemma wp_findByOrganizationId:
  assumes "\<And>e s'. st s' = st (svc w) \<Longrightarrow> Q (Inl e) (w\<lparr>svc := s'\<rparr>)"
    and "\<And>s'. st s' = st (svc w) \<Longrightarrow> Q (Inr None) (w\<lparr>svc := s'\<rparr>)"
    and "\<And>r s'. st s' = st (svc w) \<Longrightarrow> filter (\<lambda>x. kb_organization_id x = i) (t_kyb (st (svc w))) = [r] \<Longrightarrow> Q (Inr (Some r)) (w\<lparr>svc := s'\<rparr>)"
  shows "wp (findByOrganizationId B i) Q w"
  unfolding findByOrganizationId_def
  by (auto simp: wp_simps intro!: kyb_wp(2) assms)

lemma wp_manual:
  assumes "\<And>i s'. st s' = st (svc w) \<Longrightarrow> Q (Inr (''pending'', i)) (w\<lparr>svc := s'\<rparr>)"
  shows "wp (bp_open (manual_provider B) dto) Q w"
  using assms random_law by (auto simp: wp_def bp_open_def manual_provider_def split: prod.splits)

lemma first_kyb_steps:
  "wp (first_kyb B (manual_provider B) u dto) (\<lambda>_ v. kyb_step u q (st (svc w)) (st (svc v))) w"
  unfolding first_kyb_def wp_bnd [of "bp_open V d" for V d]
proof (rule wp_manual, goal_cases)
  case (1 i s')
  show ?case unfolding sum.case prod.case wp_bnd [of "call (now B)"]
  proof (rule wp_now, goal_cases)
    case (1 t s2)
    have s2: "st s2 = st (svc w)" using 1 \<open>st s' = st (svc w)\<close> by simp
    have keep: "kyb_step u q (st (svc w)) (st s3)" if "st s3 = st (svc w)" for s3 using that Keep by simp
    show ?case unfolding sum.case wp_bnd [of "call x" for x]
    proof (rule kyb_wp(5), goal_cases)
      case (1 e s3)
      then show ?case using s2 keep
        by (auto simp: wp_simps split: option.split intro!: wp_findByOrganizationId)
    next
      case (2 k t' s3)
      have "kyb_step u q (st (svc w)) (st s3)"
        using 2(1) s2 Ask [of "gen_kyb k t' (kyb_row u dto ''manual'' ''pending'' i t)" u q "st (svc w)"]
        by (simp add: gen_kyb_def kyb_row_def manual_provider_def)
      then show ?case by (simp add: wp_ret)
    qed
  qed
qed

lemma retry_kyb_steps:
  assumes "filter (\<lambda>x. kb_organization_id x = ck_organization_id dto) (t_kyb (st (svc w))) = [r]" "kb_requested_by r = u" "kb_status r \<noteq> ''verified''"
  shows "wp (retry_kyb B (manual_provider B) dto) (\<lambda>_ v. kyb_step u q (st (svc w)) (st (svc v))) w"
  unfolding retry_kyb_def wp_bnd [of "bp_open V d" for V d]
proof (rule wp_manual, goal_cases)
  case (1 i s')
  show ?case unfolding sum.case prod.case wp_bnd [of "call (now B)"]
  proof (rule wp_now, goal_cases)
    case (1 t s2)
    have s2: "st s2 = st (svc w)" using 1 \<open>st s' = st (svc w)\<close> by simp
    show ?case unfolding sum.case wp_bnd [of "call x" for x]
    proof (rule kyb_wp(8), goal_cases)
      case (1 e s3)
      then show ?case using s2 Keep by (simp add: wp_throw)
    next
      case (2 x s3)
      then show ?case using s2 Again [OF assms, where i = i and t = t] by (simp add: wp_ret manual_provider_def)
    qed
  qed
qed

lemma create_kyb_steps:
  "wp (kyb_createSession B (manual_provider B) u dto) (\<lambda>_ v. kyb_step u q (st (svc w)) (st (svc v))) w"
  unfolding kyb_createSession_def wp_bnd [of "findByOrganizationId B i" for i]
proof (rule wp_findByOrganizationId, goal_cases)
  case (1 e s')
  then show ?case using Keep by simp
next
  case (2 s')
  then show ?case using first_kyb_steps [of u dto q "w\<lparr>svc := s'\<rparr>"] by simp
next
  case (3 r s')
  then show ?case using retry_kyb_steps [of dto "w\<lparr>svc := s'\<rparr>" r u q] Keep [of u q "st (svc w)"]
    by (auto simp: wp_bnd wp_require wp_ret)
qed

lemma review_kyb_steps:
  "wp (kyb_review B u i dto) (\<lambda>_ v. kyb_step u (ReviewKyb i dto) (st (svc w)) (st (svc v))) w"
  unfolding kyb_review_def wp_bnd [of "isAdmin B u"]
proof (rule wp_isAdmin, goal_cases)
  case (1 ok s')
  have keep: "kyb_step u (ReviewKyb i dto) (st (svc w)) (st s3)" if "st s3 = st (svc w)" for s3 using that Keep by simp
  show ?case
  proof (cases ok)
    case False
    then show ?thesis using 1 by (simp add: wp_bnd wp_require keep)
  next
    case True
    show ?thesis unfolding sum.case wp_bnd [of "require c e" for c e] wp_require if_P [OF True] wp_bnd [of "findByOrganizationId B i"]
    proof (rule wp_findByOrganizationId, goal_cases)
      case (3 r s2)
      show ?case
      proof (cases "js_includes FINALIZED_STATUSES (kb_status r)")
        case True
        then show ?thesis using 3 1 by (simp add: wp_bnd wp_require keep)
      next
        case False
        show ?thesis unfolding sum.case option.case wp_bnd [of "require c e" for c e] wp_require if_P [OF False] wp_bnd [of "call x" for x]
        proof (rule wp_now, goal_cases)
          case (1 t s3)
          have s3: "st s3 = st (svc w)" using 1 3 \<open>st s' = st (svc w)\<close> by simp
          show ?case unfolding sum.case wp_bnd [of "call x" for x]
          proof (rule kyb_wp(8), goal_cases)
            case (1 e s4)
            then show ?case using s3 by (simp add: wp_throw keep)
          next
            case (2 x s4)
            have f: "filter (\<lambda>x. kb_organization_id x = i) (t_kyb (st (svc w))) = [r]" using 3 \<open>st s' = st (svc w)\<close> by simp
            have "kyb_step u (ReviewKyb i dto) (st (svc w)) (st s4)"
              using 2 s3 Decide [OF refl _ f False, of u dto t] True \<open>ok \<longrightarrow> admin (st (svc w)) u\<close> by simp
            then show ?case by (simp add: wp_simps announce_kyb_def Let_def wp_emit)
          qed
        qed
      qed
    qed (use 1 in \<open>auto simp: wp_throw keep\<close>)
  qed
qed

lemma read_kyb_steps:
  "wp (kyb_getStatus B u i) (\<lambda>_ v. kyb_step u q (st (svc w)) (st (svc v))) w"
  unfolding kyb_getStatus_def
  by (auto simp: wp_simps intro!: wp_findByOrganizationId wp_isAdmin Keep)

end

context database begin

lemma handle_kyb_steps: "kyb_past (fst q) (snd q) (st (svc w)) (st (svc (handle_kyb B q w)))"
proof -
  obtain u op where q: "q = (u, op)" by (cases q)
  note run = wp_after [where R = "\<lambda>v. kyb_step u p (st (svc w)) (st (svc v))" for p]
  have "kyb_step u op (st (svc w)) (st (svc (handle_kyb B q w)))"
    unfolding q handle_kyb_def
    by (cases op) (simp_all add: run [OF create_kyb_steps] run [OF review_kyb_steps] run [OF read_kyb_steps])
  then show ?thesis by (simp add: q kyb_step_past)
qed

end

lemma kyb_keeps_admins:
  assumes "kyb_past u q a b"
  shows "admin b v = admin a v"
proof -
  have "a\<lparr>t_kyb := []\<rparr> = b\<lparr>t_kyb := []\<rparr>" using assms by (simp add: kyb_past_def)
  from arg_cong [OF this, of t_users] arg_cong [OF this, of t_profiles] show ?thesis by (simp add: admin_def)
qed

section \<open>Verifying persons\<close>

datatype kyc_request =
    StartKyc string "json option"
  | KycWebhook "string option" json

definition handle_kyc :: "'s backend \<Rightarrow> 's kyc_provider \<Rightarrow> kyc_request \<Rightarrow> 's world \<Rightarrow> 's world" where
  "handle_kyc B V q w = (case q of
     StartKyc u metadata \<Rightarrow> snd (kyc_createSession B V u metadata w)
   | KycWebhook header payload \<Rightarrow> snd (processWebhook B V header payload w))"

text \<open>A provider does not write the database.\<close>

definition provider_keeps :: "('s \<Rightarrow> tables) \<Rightarrow> 's kyc_provider \<Rightarrow> bool" where
  "provider_keeps st V \<longleftrightarrow> (\<forall>u m w. st (svc (snd (kp_session V u m w))) = st (svc w))"

text \<open>Why a record may be verified: the provider's answer to the user's own session, or an authentic webhook about its reference.\<close>

definition vouched :: "'s backend \<Rightarrow> 's kyc_provider \<Rightarrow> kyc_request \<Rightarrow> verification \<Rightarrow> bool" where
  "vouched B V q y \<longleftrightarrow> (case q of
     StartKyc u metadata \<Rightarrow> vr_subject_type y = ''user'' \<and> vr_subject_id y = u \<and> vr_provider y = Some (kp_name V) \<and>
       (\<exists>m w w' session. kp_session V u m w = (Inr session, w') \<and> session_status session = JStr ''verified'' \<and>
         (\<exists>old. vr_reference y = reference_column (ss_reference session) old))
   | KycWebhook header payload \<Rightarrow> truthy header \<and> header = getenv B ''KYC_WEBHOOK_SECRET'' \<and>
       (\<exists>result. kp_webhook V payload = Inr result \<and> wr_status result = ''verified'' \<and> vr_reference y = Some (reference_text result)))"

definition kyc_past :: "(verification \<Rightarrow> bool) \<Rightarrow> tables \<Rightarrow> tables \<Rightarrow> bool" where
  "kyc_past good a b \<longleftrightarrow> a\<lparr>t_verifications := []\<rparr> = b\<lparr>t_verifications := []\<rparr> \<and>
     (\<forall>y \<in> set (t_verifications b). vr_status y = ''verified'' \<longrightarrow> y \<in> set (t_verifications a) \<or> good y)"

lemma kyc_past_refl [simp]: "kyc_past good a a"
  by (simp add: kyc_past_def)

lemma kyc_past_insert: "(vr_status r = ''verified'' \<Longrightarrow> good r) \<Longrightarrow> kyc_past good a (a\<lparr>t_verifications := t_verifications a @ [r]\<rparr>)"
  by (auto simp: kyc_past_def)

lemma kyc_past_update:
  "(\<And>x. x \<in> set (t_verifications a) \<Longrightarrow> P x \<Longrightarrow> vr_status (f x) = ''verified'' \<Longrightarrow> good (f x)) \<Longrightarrow>
     kyc_past good a (a\<lparr>t_verifications := update_where P f (t_verifications a)\<rparr>)"
  by (auto simp: kyc_past_def set_update_where)

lemma mapProviderStatus_verified [simp]: "mapProviderStatus v = ''verified'' \<longleftrightarrow> v = JStr ''verified''"
  by (auto simp: mapProviderStatus_def)

context database begin

lemma wp_kp_session:
  assumes "provider_keeps st V"
    and "\<And>e w'. st (svc w') = st (svc w) \<Longrightarrow> Q (Inl e) w'"
    and "\<And>session w'. st (svc w') = st (svc w) \<Longrightarrow> kp_session V u m w = (Inr session, w') \<Longrightarrow> Q (Inr session) w'"
  shows "wp (kp_session V u m) Q w"
proof -
  obtain r w' where r: "kp_session V u m w = (r, w')" by (metis prod.collapse)
  have "st (svc w') = st (svc w)" using assms(1) r by (metis provider_keeps_def snd_conv)
  then show ?thesis using assms(2,3) r by (cases r) (simp_all add: wp_def)
qed

lemma wp_findByUserId:
  assumes "\<And>e s'. st s' = st (svc w) \<Longrightarrow> Q (Inl e) (w\<lparr>svc := s'\<rparr>)"
    and "\<And>s'. st s' = st (svc w) \<Longrightarrow> Q (Inr None) (w\<lparr>svc := s'\<rparr>)"
    and "\<And>r s'. st s' = st (svc w) \<Longrightarrow> r \<in> set (t_verifications (st (svc w))) \<Longrightarrow> vr_subject_type r = ''user'' \<Longrightarrow> vr_subject_id r = u \<Longrightarrow>
      vr_provider r = Some (kp_name V) \<Longrightarrow> Q (Inr (Some r)) (w\<lparr>svc := s'\<rparr>)"
  shows "wp (findByUserId B V u) Q w"
  unfolding findByUserId_def
  by (auto simp: wp_simps intro!: verifications_wp(2) assms)

lemma insert_kyc_past:
  assumes "\<And>i t. vr_status row = ''verified'' \<Longrightarrow> good (gen_verification i t row)"
  shows "wp (insert_kyc B V u row) (\<lambda>_ v. kyc_past good (st (svc w)) (st (svc v))) w"
  unfolding insert_kyc_def wp_bnd [of "call x" for x]
proof (rule verifications_wp(5), goal_cases)
  case (1 e s')
  then show ?case by (auto simp: wp_simps split: option.split intro!: wp_findByUserId)
next
  case (2 i t s')
  have "vr_status (gen_verification i t row) = vr_status row" by (simp add: gen_verification_def)
  then show ?case using 2(1) assms by (auto simp: wp_ret intro!: kyc_past_insert)
qed

lemma upsert_past:
  assumes keeps: "provider_keeps st V"
    and own: "\<And>i r. existing = Some i \<Longrightarrow> r \<in> set (t_verifications (st (svc w))) \<Longrightarrow> vr_id r = i \<Longrightarrow>
      vr_subject_type r = ''user'' \<and> vr_subject_id r = u \<and> vr_provider r = Some (kp_name V)"
  shows "wp (upsertVerification B V u existing m url) (\<lambda>_ v. kyc_past (vouched B V (StartKyc u md)) (st (svc w)) (st (svc v))) w"
  unfolding upsertVerification_def wp_bnd [of "kp_session V u (Some m)"]
proof (rule wp_kp_session [OF keeps], goal_cases)
  case (2 session w1)
  note s' = 2
  show ?case unfolding sum.case wp_bnd [of "call (now B)"]
  proof (rule wp_now, goal_cases)
    case (1 t s2)
    have s2: "st s2 = st (svc w)" using 1 s' by simp
    show ?case
    proof (cases "truthy existing")
      case True
      then obtain i where i: "existing = Some i" by (auto simp: truthy_def split: option.splits)
      show ?thesis unfolding sum.case if_P [OF True] wp_bnd [of "call x" for x]
      proof (rule verifications_wp(8), goal_cases)
        case (1 e s3)
        then show ?case using s2 by (simp add: wp_throw)
      next
        case (2 r s3)
        have "vouched B V (StartKyc u md) (fresh_attempt session url t x)"
          if "x \<in> set (t_verifications (st (svc w)))" "vr_id x = i" "vr_status (fresh_attempt session url t x) = ''verified''" for x
          unfolding vouched_def kyc_request.case
        proof (intro conjI exI)
          show "kp_session V u (Some m) w = (Inr session, w1)" by (rule s'(2))
        qed (use own [OF i that(1,2)] that(3) in \<open>auto simp: fresh_attempt_def\<close>)
        then show ?case using 2 s2 i by (auto simp: wp_ret intro!: kyc_past_update)
      qed
    next
      case False
      have "vouched B V (StartKyc u md) (gen_verification i t' (kyc_row u (kp_name V) session url t))"
        if "vr_status (kyc_row u (kp_name V) session url t) = ''verified''" for i t'
        unfolding vouched_def kyc_request.case
      proof (intro conjI exI)
        show "kp_session V u (Some m) w = (Inr session, w1)" by (rule s'(2))
      qed (use that in \<open>auto simp: gen_verification_def kyc_row_def\<close>)
      from insert_kyc_past [where row = "kyc_row u (kp_name V) session url t" and good = "vouched B V (StartKyc u md)" and V = V and u = u and w = "w1\<lparr>svc := s2\<rparr>", OF this]
      show ?thesis using False s2 by simp
    qed
  qed
qed simp

lemma create_kyc_past:
  assumes keeps: "provider_keeps st V" and ids: "keyed vr_id (t_verifications (st (svc w)))"
  shows "wp (kyc_createSession B V u md) (\<lambda>_ v. kyc_past (vouched B V (StartKyc u md)) (st (svc w)) (st (svc v))) w"
  unfolding kyc_createSession_def wp_bnd [of "findByUserId B V u"]
proof (rule wp_findByUserId, goal_cases)
  case (2 s')
  then show ?case using upsert_past [OF keeps, of None "w\<lparr>svc := s'\<rparr>" u "default md (JObj [])" "[]" md] by simp
next
  case (3 r s')
  have "x = r" if "x \<in> set (t_verifications (st (svc w)))" "vr_id x = vr_id r" for x
    using ids that 3(2) by (auto simp: keyed_def dest: inj_onD simp: distinct_map)
  then show ?case using 3 upsert_past [OF keeps, of None "w\<lparr>svc := s'\<rparr>" u "default md (JObj [])" "[]" md]
      upsert_past [OF keeps, of "Some (vr_id r)" "w\<lparr>svc := s'\<rparr>" u "default md (JObj [])" "[]" md]
    by (auto simp: wp_ret)
qed simp

lemma webhook_kyc_past:
  "wp (processWebhook B V header payload) (\<lambda>_ v. kyc_past (vouched B V (KycWebhook header payload)) (st (svc w)) (st (svc v))) w"
proof (cases "kp_webhook V payload")
  case (Inl e)
  then show ?thesis by (auto simp: processWebhook_def WebhookSecretGuard_def wp_simps lift_exn_def)
next
  case (Inr result)
  have "vouched B V (KycWebhook header payload) (webhook_columns_kyc result t x)"
    if "truthy header" "header = getenv B ''KYC_WEBHOOK_SECRET''" "vr_reference x = Some (reference_text result)"
      "vr_status (webhook_columns_kyc result t x) = ''verified''" for t x
    using that Inr by (auto simp: vouched_def webhook_columns_kyc_def)
  then show ?thesis using Inr
    by (auto simp: processWebhook_def WebhookSecretGuard_def handleWebhookProcessed_def wp_simps lift_exn_def intro!: wp_now verifications_wp(7) kyc_past_update)
qed

end

section \<open>Properties\<close>

text \<open>
  (C30) The verification status is fail-closed. Over any database, reading the status of a user or business changes no table, and either is
  refused with 403 or is read by that user, an admin or an internal caller. The answer is about that subject. When the database answered the read of the
  records with an error it may be: not verified, status \<open>unverified\<close>, level \<open>none\<close>, no provider, no expiry. Otherwise it says verified exactly if some
  record of the subject is verified and not expired at the time of reading, with level, provider and expiry of such a record of the highest level, and
  level \<open>none\<close> with no provider if there is none.
\<close>

theorem verification_fails_closed:
  assumes "database B st"
    and "(read, kind) \<in> {(getUserVerification B collate, ''user''), (getBusinessVerification B collate, ''business'')}"
    and "read s ctx w = (r, w')"
  shows "st (svc w') = st (svc w) \<and>
    (case r of
       Inl e \<Rightarrow> \<exists>m. e = Forbidden m
     | Inr x \<Rightarrow> may_read (st (svc w)) kind s ctx \<and> about_subject kind s x \<and>
         (unreadable B st (st (svc w)) \<and> closed_answer x \<or>
          (\<exists>v. verdict (fst (now B v)) (subject_records (st (svc w)) kind s) x)))"
proof -
  let ?P = "\<lambda>r w'. st (svc w') = st (svc w) \<and> (case r of Inl e \<Rightarrow> \<exists>m. e = Forbidden m
     | Inr x \<Rightarrow> may_read (st (svc w)) kind s ctx \<and> about_subject kind s x \<and> (unreadable B st (st (svc w)) \<and> closed_answer x \<or>
       (\<exists>v. verdict (fst (now B v)) (subject_records (st (svc w)) kind s) x)))"
  have "wp (bnd (assertCanRead B kind s ctx) (\<lambda>_. verification_getStatus B collate kind s)) ?P w"
    by (rule database.wp_getUserVerification [OF assms(1)]) auto
  moreover have "read s ctx = bnd (assertCanRead B kind s ctx) (\<lambda>_. verification_getStatus B collate kind s)"
    using assms(2) by (auto simp: getUserVerification_def getBusinessVerification_def)
  ultimately have "wp (read s ctx) ?P w" by simp
  from wpD [OF this assms(3)] show ?thesis .
qed

text \<open>
  (C31) Only admins verify businesses. Over any database, after any sequence of requests of any users to the KYB service with the manual provider:
  every record is still there for its organization and requester, verbatim if it was verified; a verified record that is new or
  changed was approved by a review request for its organization from an admin; and no other table has changed.
\<close>

theorem kyb_decided:
  assumes "database B st" and "a = st (svc w)" and "b = st (svc (handle_kybs B qs w))"
  shows "(\<forall>x \<in> set (t_kyb a). \<exists>y \<in> set (t_kyb b). same_business x y) \<and>
    (\<forall>y \<in> set (t_kyb b). kb_status y = ''verified'' \<longrightarrow> y \<in> set (t_kyb a) \<or> (\<exists>(u, q) \<in> set qs. approves a u q y)) \<and>
    a\<lparr>t_kyb := []\<rparr> = b\<lparr>t_kyb := []\<rparr>"
  using assms(2,3)
proof (induction qs arbitrary: w a)
  case Nil
  then show ?case by (auto simp: handle_kybs_def intro: same_business_refl)
next
  case (Cons q qs)
  let ?c = "st (svc (handle_kyb B q w))"
  have step: "kyb_past (fst q) (snd q) a ?c" using database.handle_kyb_steps [OF assms(1)] Cons.prems(1) by simp
  have "b = st (svc (handle_kybs B qs (handle_kyb B q w)))" using Cons.prems(2) by (simp add: handle_kybs_def)
  note rest = Cons.IH [OF refl this]
  have same: "approves ?c u p y = approves a u p y" for u p y by (simp add: approves_def kyb_keeps_admins [OF step])
  have "\<exists>z \<in> set (t_kyb b). same_business x z" if "x \<in> set (t_kyb a)" for x
    using that step rest unfolding kyb_past_def by (meson same_business_trans)
  moreover have "y \<in> set (t_kyb a) \<or> (\<exists>(u, p) \<in> set (q # qs). approves a u p y)" if y: "y \<in> set (t_kyb b)" "kb_status y = ''verified''" for y
  proof -
    consider "y \<in> set (t_kyb ?c)" | u p where "(u, p) \<in> set qs" "approves ?c u p y" using rest y by auto
    then show ?thesis
    proof cases
      case 1
      then have "y \<in> set (t_kyb a) \<or> approves a (fst q) (snd q) y" using step y(2) by (simp add: kyb_past_def)
      then show ?thesis by (auto simp: case_prod_beta)
    next
      case 2
      then show ?thesis using same by auto
    qed
  qed
  moreover have "a\<lparr>t_kyb := []\<rparr> = b\<lparr>t_kyb := []\<rparr>" using step rest by (simp add: kyb_past_def)
  ultimately show ?case by blast
qed

text \<open>
  A person is verified by the provider: the two requests to the KYC service, for any provider that does not write the database.
\<close>

lemma kyc_handled:
  assumes "database B st" and "provider_keeps st V" and "keyed vr_id (t_verifications (st (svc w)))"
  shows "kyc_past (vouched B V q) (st (svc w)) (st (svc (handle_kyc B V q w)))"
proof -
  note run = wp_after [where R = "\<lambda>v. kyc_past (vouched B V q) (st (svc w)) (st (svc v))" for q]
  show ?thesis
    using run [OF database.create_kyc_past [OF assms]] run [OF database.webhook_kyc_past [OF assms(1)]] by (cases q) (auto simp: handle_kyc_def)
qed

section \<open>Runs\<close>

text \<open>An admin, a requester with two verified records, and a provider whose webhooks are Sumsub's.\<close>

definition compliance_user :: "string \<Rightarrow> string \<Rightarrow> auth_user" where
  "compliance_user u address = \<lparr>au_id = u, au_wallet = Some address, au_pollar_user_id = None, au_wallet_provider = None\<rparr>"

definition compliance_profile :: "string \<Rightarrow> string \<Rightarrow> string \<Rightarrow> profile" where
  "compliance_profile i address role = \<lparr>pr_id = i, pr_wallet = address, pr_display_name = None, pr_email = None, pr_account_type = ''personal'',
     pr_role = role, pr_handle = None, pr_show_earnings = False, pr_about = no_about, pr_created_at = 1, pr_updated_at = 1\<rparr>"

definition sample_verification :: "string \<Rightarrow> string \<Rightarrow> string \<Rightarrow> string \<Rightarrow> int option \<Rightarrow> verification" where
  "sample_verification i provider s level e = \<lparr>vr_id = i, vr_subject_type = ''user'', vr_subject_id = ''U2'', vr_provider = Some provider,
     vr_reference = Some i, vr_status = s, vr_level = level, vr_verified_at = None, vr_expires_at = e, vr_metadata = JObj [], vr_created_at = 1,
     vr_updated_at = None\<rparr>"

definition compliance_world :: "verification list \<Rightarrow> mem world" where
  "compliance_world vs = world_on (no_tables\<lparr>t_users := [compliance_user ''U1'' ''G1'', compliance_user ''U2'' ''G2''],
     t_profiles := [compliance_profile ''P1'' ''G1'' ''admin'', compliance_profile ''P2'' ''G2'' []], t_verifications := vs\<rparr>) quiet_env"

definition two_records :: "verification list" where
  "two_records = [sample_verification ''v1'' ''sumsub'' ''verified'' ''basic'' None, sample_verification ''v2'' ''persona'' ''verified'' ''advanced'' (Some (-1)),
     sample_verification ''v3'' ''synaps'' ''verified'' ''standard'' (Some 100000)]"

definition read_run :: "string \<Rightarrow> (exn + status_response) \<times> mem world" where
  "read_run u = getUserVerification (mem_backend (\<lambda>_. None)) (\<lambda>_ _. 0) ''U2'' \<lparr>ax_caller = Some u, ax_internal = False\<rparr> (compliance_world two_records)"

theorem verification_fails_closed_witness:
  "(case fst (read_run ''U2'') of Inr x \<Rightarrow> sr_verified x \<and> sr_level x = ''standard'' \<and>
      (\<exists>v. verdict (fst (now (mem_backend (\<lambda>_. None)) v)) (subject_records (tabs (svc (compliance_world two_records))) ''user'' ''U2'') x)
    | Inl _ \<Rightarrow> False) \<and> fst (read_run ''U3'') = Inl (Forbidden ''Not authorized to view this verification status'')"
proof -
  have run: "getUserVerification (mem_backend (\<lambda>_. None)) (\<lambda>_ _. 0) ''U2'' \<lparr>ax_caller = Some ''U2'', ax_internal = False\<rparr> (compliance_world two_records) =
      (fst (read_run ''U2''), snd (read_run ''U2''))" by (simp add: read_run_def)
  have "case fst (read_run ''U2'') of Inr x \<Rightarrow> sr_verified x \<and> sr_level x = ''standard'' | Inl _ \<Rightarrow> False" by code_simp
  moreover have "fst (read_run ''U3'') = Inl (Forbidden ''Not authorized to view this verification status'')" by code_simp
  moreover note verification_fails_closed [OF mem.database_axioms insertI1 run]
  ultimately show ?thesis by (auto simp: closed_answer_def split: sum.splits)
qed

definition kyb_dto :: create_kyb_dto where
  "kyb_dto = \<lparr>ck_organization_id = ''O1'', ck_business_name = ''Acme'', ck_registration_number = ''1'', ck_country = ''DE'', ck_entity_type = ''llc''\<rparr>"

definition kyb_requests :: "(string \<times> kyb_request) list" where
  "kyb_requests = [(''U2'', OpenKyb kyb_dto), (''U2'', ReviewKyb ''O1'' \<lparr>rk_status = ''verified'', rk_rejection_reason = None\<rparr>),
     (''U1'', ReviewKyb ''O1'' \<lparr>rk_status = ''verified'', rk_rejection_reason = None\<rparr>), (''U1'', ReviewKyb ''O1'' \<lparr>rk_status = ''rejected'', rk_rejection_reason = None\<rparr>)]"

definition kyb_end :: "nat \<Rightarrow> kyb_verification list" where
  "kyb_end n = t_kyb (tabs (svc (handle_kybs (mem_backend (\<lambda>_. None)) (take n kyb_requests) (compliance_world []))))"

theorem kyb_decided_witness:
  "map kb_status (kyb_end 2) = [''pending''] \<and> map kb_status (kyb_end 4) = [''verified''] \<and>
   (\<exists>(u, q) \<in> set (take 4 kyb_requests). approves (tabs (svc (compliance_world []))) u q (hd (kyb_end 4)))"
proof -
  have s: "map kb_status (kyb_end 4) = [''verified'']" "map kb_status (kyb_end 2) = [''pending'']" by code_simp+
  then have "hd (kyb_end 4) \<in> set (kyb_end 4)" "kb_status (hd (kyb_end 4)) = ''verified''" by (auto simp: map_eq_Cons_conv)
  moreover have "t_kyb (tabs (svc (compliance_world []))) = []" by (simp add: compliance_world_def world_on_def no_tables_def)
  ultimately have "\<exists>(u, q) \<in> set (take 4 kyb_requests). approves (tabs (svc (compliance_world []))) u q (hd (kyb_end 4))"
    using kyb_decided [OF mem.database_axioms refl refl, where w = "compliance_world []" and qs = "take 4 kyb_requests"]
    unfolding kyb_end_def by (simp only: list.set empty_iff) blast
  then show ?thesis using s by blast
qed

text \<open>A payload Veriff or Alloy sends when it has finished, whatever it decided, verifies the person.\<close>

lemma finished_is_verified:
  "map_sum id wr_status (veriff_webhook (JObj [(''sessionId'', JStr ''v1''), (''status'', JStr ''completed''), (''decision'', JStr ''declined'')])) = Inr ''verified'' \<and>
   map_sum id wr_status (alloy_webhook (JObj [(''evaluation_id'', JStr ''v1''), (''status'', JStr ''complete''), (''outcome'', JStr ''Denied'')])) = Inr ''verified''"
  by code_simp

end
