(* ===== verification/Profiles.thy ===== *)
theory Profiles
  imports Marketplace Notifications Compliance
begin

text \<open>
  \<open>profiles/profiles.service.ts\<close> and \<open>profiles/reputation.service.ts\<close>: the profile of a wallet, who may edit it and who may change
  roles, the public directory, and the reputation computed from the agreements of a wallet. A handler that answers \<open>{profile, error}\<close> is modelled by the
  pair. \<open>ILIKE\<close> is an argument of the search; search words with characters that PostgREST reserves in \<open>or\<close> filters are not covered.
\<close>

section \<open>Request bodies\<close>

record get_or_create_dto =
  gc_wallet_address :: string
  gc_account_type :: "string option"

text \<open>A field that is absent is \<open>None\<close>; one that is given as \<open>null\<close> is \<open>Some None\<close>.\<close>

record update_profile_dto =
  pu_display_name :: "string option option"
  pu_email :: "string option option"
  pu_avatar_url :: "string option option"
  pu_account_type :: "string option"
  pu_headline :: "string option option"
  pu_bio :: "string option option"
  pu_skills :: "string list option option"
  pu_tech_stack :: "string list option option"
  pu_hourly_rate :: "rat option option"
  pu_availability :: "string option option"
  pu_portfolio_links :: "json option option"
  pu_social_links :: "json option option"
  pu_handle :: "string option option"
  pu_org_name :: "string option option"
  pu_org_description :: "string option option"
  pu_org_website :: "string option option"
  pu_looking_for :: "string list option option"
  pu_org_links :: "json option option"
  pu_show_earnings :: "bool option"

record set_role_dto =
  sx_wallet_address :: string
  sx_role :: string

record discover_profiles_dto =
  dx_skills :: "string option"
  dx_tech_stack :: "string option"
  dx_availability :: "string option"
  dx_q :: "string option"
  dx_page :: "nat option"
  dx_limit :: "nat option"

text \<open>The columns of the public endpoints.\<close>

record public_profile =
  pb_id :: string
  pb_wallet :: string
  pb_display_name :: "string option"
  pb_account_type :: string
  pb_about :: profile_about
  pb_handle :: "string option"
  pb_created_at :: int

definition public_columns :: "profile \<Rightarrow> public_profile" where
  "public_columns p = \<lparr>pb_id = pr_id p, pb_wallet = pr_wallet p, pb_display_name = pr_display_name p, pb_account_type = pr_account_type p,
     pb_about = pr_about p, pb_handle = pr_handle p, pb_created_at = pr_created_at p\<rparr>"

section \<open>\<open>ProfilesService\<close>\<close>

definition profile_walletForUserId :: "'s backend \<Rightarrow> string \<Rightarrow> ('s world, string option) prog" where
  "profile_walletForUserId B userId =
     bnd (call (select_one (users B) (\<lambda>u. au_id u = userId))) (\<lambda>(data, error).
     ret (case (error, data) of
       (None, Some u) \<Rightarrow> if truthy (au_wallet u) then au_wallet u else None
     | _ \<Rightarrow> None))"

definition profile_assertActorWallet :: "'s backend \<Rightarrow> string \<Rightarrow> string \<Rightarrow> ('s world, unit) prog" where
  "profile_assertActorWallet B userId actorWallet =
     bnd (profile_walletForUserId B userId) (\<lambda>w.
     require (truthy w \<and> w = Some actorWallet) (Forbidden ''Wallet does not match authenticated user''))"

type_synonym answer_of_profile = "profile option \<times> string option"

definition new_profile :: "get_or_create_dto \<Rightarrow> profile" where
  "new_profile dto = \<lparr>pr_id = [], pr_wallet = gc_wallet_address dto, pr_display_name = None, pr_email = None,
     pr_account_type = or_else (gc_account_type dto) ''personal'', pr_role = ''user'', pr_handle = None, pr_show_earnings = False, pr_about = no_about,
     pr_created_at = 0, pr_updated_at = 0\<rparr>"

definition create_profile :: "'s backend \<Rightarrow> get_or_create_dto \<Rightarrow> ('s world, answer_of_profile) prog" where
  "create_profile B dto =
     bnd (call (insert_row (profiles B) (new_profile dto))) (\<lambda>(newProfile, insertError).
     ret (case insertError of Some e \<Rightarrow> (None, Some (e_message e)) | None \<Rightarrow> (newProfile, None)))"

definition getOrCreate :: "'s backend \<Rightarrow> string \<Rightarrow> get_or_create_dto \<Rightarrow> ('s world, answer_of_profile) prog" where
  "getOrCreate B userId dto =
     bnd (profile_assertActorWallet B userId (gc_wallet_address dto)) (\<lambda>_.
     bnd (call (select_one (profiles B) (\<lambda>p. pr_wallet p = gc_wallet_address dto))) (\<lambda>(existingProfile, fetchError).
     case existingProfile of
       Some p \<Rightarrow> ret (Some p, None)
     | None \<Rightarrow> (case fetchError of
         Some e \<Rightarrow> if e_code e \<noteq> ''PGRST116'' then ret (None, Some (e_message e)) else create_profile B dto
       | None \<Rightarrow> create_profile B dto)))"

definition getByWallet :: "'s backend \<Rightarrow> string \<Rightarrow> ('s world, answer_of_profile) prog" where
  "getByWallet B walletAddress =
     bnd (call (select_one (profiles B) (\<lambda>p. pr_wallet p = walletAddress))) (\<lambda>(data, error).
     ret (case error of
       Some e \<Rightarrow> if e_code e \<noteq> ''PGRST116'' then (None, Some (e_message e)) else (data, None)
     | None \<Rightarrow> (data, None)))"

definition updated_about :: "update_profile_dto \<Rightarrow> profile_about \<Rightarrow> profile_about" where
  "updated_about dto a = \<lparr>pa_avatar_url = default (pu_avatar_url dto) (pa_avatar_url a), pa_headline = default (pu_headline dto) (pa_headline a),
     pa_bio = default (pu_bio dto) (pa_bio a), pa_skills = default (pu_skills dto) (pa_skills a), pa_tech_stack = default (pu_tech_stack dto) (pa_tech_stack a),
     pa_hourly_rate = default (pu_hourly_rate dto) (pa_hourly_rate a), pa_availability = default (pu_availability dto) (pa_availability a),
     pa_portfolio_links = default (pu_portfolio_links dto) (pa_portfolio_links a), pa_social_links = default (pu_social_links dto) (pa_social_links a),
     pa_org_name = default (pu_org_name dto) (pa_org_name a), pa_org_description = default (pu_org_description dto) (pa_org_description a),
     pa_org_website = default (pu_org_website dto) (pa_org_website a), pa_looking_for = default (pu_looking_for dto) (pa_looking_for a),
     pa_org_links = default (pu_org_links dto) (pa_org_links a)\<rparr>"

definition updated_profile :: "update_profile_dto \<Rightarrow> int \<Rightarrow> profile \<Rightarrow> profile" where
  "updated_profile dto t p = p\<lparr>pr_display_name := default (pu_display_name dto) (pr_display_name p), pr_email := default (pu_email dto) (pr_email p),
     pr_account_type := default (pu_account_type dto) (pr_account_type p), pr_handle := default (pu_handle dto) (pr_handle p),
     pr_show_earnings := default (pu_show_earnings dto) (pr_show_earnings p), pr_about := updated_about dto (pr_about p), pr_updated_at := t\<rparr>"

definition applyUpdate :: "'s backend \<Rightarrow> string \<Rightarrow> update_profile_dto \<Rightarrow> ('s world, answer_of_profile) prog" where
  "applyUpdate B walletAddress dto =
     bnd (call (now B)) (\<lambda>t.
     bnd (call (update_single (profiles B) (\<lambda>p. pr_wallet p = walletAddress) (updated_profile dto t))) (\<lambda>(data, error).
     case error of
       Some e \<Rightarrow> if e_code e = ''23505'' then throw (Conflict ''handle is already taken'') else ret (None, Some (e_message e))
     | None \<Rightarrow> ret (data, None)))"

definition update_profile :: "'s backend \<Rightarrow> string \<Rightarrow> string \<Rightarrow> update_profile_dto \<Rightarrow> ('s world, answer_of_profile) prog" where
  "update_profile B userId walletAddress dto =
     bnd (profile_assertActorWallet B userId walletAddress) (\<lambda>_. applyUpdate B walletAddress dto)"

definition updateForUser :: "'s backend \<Rightarrow> string \<Rightarrow> update_profile_dto \<Rightarrow> ('s world, answer_of_profile) prog" where
  "updateForUser B userId dto =
     bnd (profile_walletForUserId B userId) (\<lambda>wallet.
     case wallet of
       None \<Rightarrow> throw (NotFound ''No wallet found for authenticated user'')
     | Some a \<Rightarrow> applyUpdate B a dto)"

definition profile_getById :: "'s backend \<Rightarrow> string \<Rightarrow> ('s world, answer_of_profile) prog" where
  "profile_getById B i =
     bnd (call (select_one (profiles B) (\<lambda>p. pr_id p = i))) (\<lambda>(data, error).
     case error of
       Some e \<Rightarrow> if e_code e \<noteq> ''PGRST116'' then ret (None, Some (e_message e)) else throw (NotFound ''Profile not found'')
     | None \<Rightarrow> (case data of None \<Rightarrow> throw (NotFound ''Profile not found'') | Some p \<Rightarrow> ret (Some p, None)))"

definition getMe :: "'s backend \<Rightarrow> string \<Rightarrow> ('s world, answer_of_profile) prog" where
  "getMe B userId =
     bnd (profile_walletForUserId B userId) (\<lambda>wallet.
     case wallet of
       None \<Rightarrow> throw (NotFound ''No wallet found for authenticated user'')
     | Some a \<Rightarrow> getByWallet B a)"

definition getByHandle :: "'s backend \<Rightarrow> string \<Rightarrow> ('s world, public_profile option \<times> string option) prog" where
  "getByHandle B handle =
     bnd (call (select_one (profiles B) (\<lambda>p. pr_handle p = Some handle))) (\<lambda>(data, error).
     case error of
       Some e \<Rightarrow> if e_code e \<noteq> ''PGRST116'' then ret (None, Some (e_message e)) else throw (NotFound ''Profile not found'')
     | None \<Rightarrow> (case data of None \<Rightarrow> throw (NotFound ''Profile not found'') | Some p \<Rightarrow> ret (Some (public_columns p), None)))"

definition parseList :: "string option \<Rightarrow> string list" where
  "parseList value = (if truthy value then filter (\<lambda>v. v \<noteq> []) (map trim (split_on (CHR '','') (default value []))) else [])"

definition overlaps :: "string list option \<Rightarrow> string list \<Rightarrow> bool" where
  "overlaps column xs \<longleftrightarrow> (case column of None \<Rightarrow> False | Some ys \<Rightarrow> set xs \<inter> set ys \<noteq> {})"

definition search_word :: "string \<Rightarrow> string" where
  "search_word q = trim (filter (\<lambda>c. c \<notin> {CHR ''%'', CHR ''_'', CHR '',''}) q)"

definition found_profile :: "(string \<Rightarrow> string \<Rightarrow> bool) \<Rightarrow> discover_profiles_dto \<Rightarrow> profile \<Rightarrow> bool" where
  "found_profile like dto p \<longleftrightarrow> pr_handle p \<noteq> None \<and>
     (parseList (dx_skills dto) \<noteq> [] \<longrightarrow> overlaps (pa_skills (pr_about p)) (parseList (dx_skills dto))) \<and>
     (parseList (dx_tech_stack dto) \<noteq> [] \<longrightarrow> overlaps (pa_tech_stack (pr_about p)) (parseList (dx_tech_stack dto))) \<and>
     (truthy (dx_availability dto) \<longrightarrow> pa_availability (pr_about p) = dx_availability dto) \<and>
     (truthy (dx_q dto) \<longrightarrow> (let x = search_word (default (dx_q dto) []); hit = (\<lambda>column. case column of None \<Rightarrow> False | Some s \<Rightarrow> like s (''%'' @ x @ ''%''))
        in x = [] \<or> hit (pa_headline (pr_about p)) \<or> hit (pa_bio (pr_about p))))"

definition latest_profiles :: "profile list \<Rightarrow> profile list" where
  "latest_profiles = sort_key (\<lambda>p. - pr_created_at p)"

record profile_page =
  px_profiles :: "public_profile list"
  px_page :: nat
  px_limit :: nat
  px_total :: nat
  px_error :: "string option"

definition profile_discover :: "'s backend \<Rightarrow> (string \<Rightarrow> string \<Rightarrow> bool) \<Rightarrow> discover_profiles_dto \<Rightarrow> ('s world, profile_page) prog" where
  "profile_discover B like dto =
     (let page = default (dx_page dto) 1; limit = default (dx_limit dto) 12
      in bnd (call (select_rows (profiles B) (found_profile like dto) latest_profiles)) (\<lambda>(data, error).
         ret (case error of
           Some e \<Rightarrow> \<lparr>px_profiles = [], px_page = page, px_limit = limit, px_total = 0, px_error = Some (e_message e)\<rparr>
         | None \<Rightarrow> \<lparr>px_profiles = map public_columns (page_of page limit (default data [])), px_page = page, px_limit = limit,
             px_total = length (default data []), px_error = None\<rparr>)))"

definition getByRole :: "'s backend \<Rightarrow> string \<Rightarrow> ('s world, profile list \<times> string option) prog" where
  "getByRole B role =
     bnd (call (select_rows (profiles B) (\<lambda>p. pr_role p = role) latest_profiles)) (\<lambda>(data, error).
     ret (case error of Some e \<Rightarrow> ([], Some (e_message e)) | None \<Rightarrow> (default data [], None)))"

definition getDisputeResolvers :: "'s backend \<Rightarrow> ('s world, profile list \<times> string option) prog" where
  "getDisputeResolvers B = getByRole B ''dispute_resolver''"

definition getValidators :: "'s backend \<Rightarrow> ('s world, profile list \<times> string option) prog" where
  "getValidators B = getByRole B ''validator''"

definition setUserRole :: "'s backend \<Rightarrow> string \<Rightarrow> set_role_dto \<Rightarrow> ('s world, bool \<times> string option) prog" where
  "setUserRole B userId dto =
     bnd (profile_walletForUserId B userId) (\<lambda>currentWallet.
     bnd (require (truthy currentWallet) (Forbidden ''No wallet on profile'')) (\<lambda>_.
     bnd (call (select_one (profiles B) (\<lambda>p. Some (pr_wallet p) = currentWallet))) (\<lambda>(currentProfile, _).
     bnd (require (case currentProfile of None \<Rightarrow> False | Some p \<Rightarrow> pr_role p = ''admin'') (Forbidden ''Only admins can change user roles'')) (\<lambda>_.
     bnd (call (now B)) (\<lambda>t.
     bnd (call (update_rows (profiles B) (\<lambda>p. pr_wallet p = sx_wallet_address dto) (\<lambda>p. p\<lparr>pr_role := sx_role dto, pr_updated_at := t\<rparr>))) (\<lambda>error.
     ret (case error of Some e \<Rightarrow> (False, Some (e_message e)) | None \<Rightarrow> (True, None))))))))"

section \<open>\<open>ReputationService\<close>\<close>

record reputation =
  rp_handle :: "string option"
  rp_completed :: nat
  rp_released :: nat
  rp_total_usdc :: "jsnum option"
  rp_github_verified :: "bool option"
  rp_pr_backed :: nat

definition profileByHandle :: "'s backend \<Rightarrow> string \<Rightarrow> ('s world, profile) prog" where
  "profileByHandle B handle =
     bnd (call (select_one (profiles B) (\<lambda>p. pr_handle p = Some handle))) (\<lambda>(data, error).
     case error of
       Some e \<Rightarrow> throw (BadRequest (Msg (e_message e)))
     | None \<Rightarrow> (case data of
         None \<Rightarrow> throw (NotFound (''No profile found for handle \"'' @ handle @ ''\"''))
       | Some p \<Rightarrow> ret p))"

definition profileByUserId :: "'s backend \<Rightarrow> string \<Rightarrow> ('s world, profile) prog" where
  "profileByUserId B userId =
     bnd (call (select_one (users B) (\<lambda>u. au_id u = userId))) (\<lambda>(authUser, authErr).
     let wallet = (case authUser of None \<Rightarrow> None | Some u \<Rightarrow> au_wallet u)
     in bnd (require (authErr = None \<and> truthy wallet) (NotFound ''No wallet found for authenticated user'')) (\<lambda>_.
        bnd (call (select_one (profiles B) (\<lambda>p. Some (pr_wallet p) = wallet))) (\<lambda>(profile, profErr).
        case (profErr, profile) of
          (None, Some p) \<Rightarrow> ret p
        | _ \<Rightarrow> throw (NotFound ''No profile found for authenticated user''))))"

definition fetchBuilderAgreements :: "'s backend \<Rightarrow> string \<Rightarrow> ('s world, agreement list) prog" where
  "fetchBuilderAgreements B walletAddress =
     bnd (call (select_rows (participants B) (\<lambda>p. p_wallet p = walletAddress) (\<lambda>rs. rs))) (\<lambda>(participations, partErr).
     if partErr \<noteq> None \<or> default participations [] = [] then ret []
     else let agreementIds = map p_agreement_id (default participations [])
       in bnd (call (select_rows (agreements B) (\<lambda>a. js_includes agreementIds (a_id a)) (\<lambda>rs. rs))) (\<lambda>(agreements', agErr).
          ret (if agErr \<noteq> None then [] else default agreements' [])))"

record tally =
  tl_released :: nat
  tl_total :: jsnum
  tl_backed :: nat

definition tally_milestone :: "milestone \<Rightarrow> tally \<Rightarrow> tally" where
  "tally_milestone m c =
     (let amount = parseFloat (default (ms_amount m) ''0'');
          c' = (if ms_status m = Some ''released''
                then c\<lparr>tl_released := tl_released c + 1, tl_total := (if amount \<noteq> NaN then js_add (tl_total c) amount else tl_total c)\<rparr>
                else c)
      in if default (ms_evidence_urls m) [] \<noteq> [] then c'\<lparr>tl_backed := tl_backed c' + 1\<rparr> else c')"

definition tally_agreement :: "agreement \<Rightarrow> nat \<times> tally \<Rightarrow> nat \<times> tally" where
  "tally_agreement a = (\<lambda>(n, c). (if a_status a = ''completed'' then n + 1 else n, fold tally_milestone (default (a_milestones a) []) c))"

definition computeReputation :: "agreement list \<Rightarrow> profile \<Rightarrow> bool \<Rightarrow> reputation" where
  "computeReputation ags p includeEarnings =
     (case fold tally_agreement ags (0, \<lparr>tl_released = 0, tl_total = Fin 0, tl_backed = 0\<rparr>) of (n, c) \<Rightarrow>
        \<lparr>rp_handle = pr_handle p, rp_completed = n, rp_released = tl_released c, rp_total_usdc = (if includeEarnings then Some (tl_total c) else None),
          rp_github_verified = None, rp_pr_backed = tl_backed c\<rparr>)"

definition getPublicReputation :: "'s backend \<Rightarrow> string \<Rightarrow> ('s world, reputation) prog" where
  "getPublicReputation B handle =
     bnd (profileByHandle B handle) (\<lambda>p.
     bnd (fetchBuilderAgreements B (pr_wallet p)) (\<lambda>ags.
     ret (computeReputation ags p (pr_show_earnings p))))"

definition getMyReputation :: "'s backend \<Rightarrow> string \<Rightarrow> ('s world, reputation) prog" where
  "getMyReputation B userId =
     bnd (profileByUserId B userId) (\<lambda>p.
     bnd (fetchBuilderAgreements B (pr_wallet p)) (\<lambda>ags.
     ret (computeReputation ags p True)))"

section \<open>What the reputation counts\<close>

definition milestones_of :: "agreement list \<Rightarrow> milestone list" where
  "milestones_of ags = concat (map (\<lambda>a. default (a_milestones a) []) ags)"

definition is_released :: "milestone \<Rightarrow> bool" where
  "is_released m \<longleftrightarrow> ms_status m = Some ''released''"

definition released_amounts :: "milestone list \<Rightarrow> jsnum list" where
  "released_amounts ms = filter (\<lambda>x. x \<noteq> NaN) (map (\<lambda>m. parseFloat (default (ms_amount m) ''0'')) (filter is_released ms))"

definition tally_of :: "milestone list \<Rightarrow> tally" where
  "tally_of ms = \<lparr>tl_released = length (filter is_released ms), tl_total = fold (\<lambda>x sum. js_add sum x) (released_amounts ms) (Fin 0),
     tl_backed = length (filter (\<lambda>m. default (ms_evidence_urls m) [] \<noteq> []) ms)\<rparr>"

lemma tally_snoc: "tally_milestone m (tally_of ms) = tally_of (ms @ [m])"
  by (simp add: tally_milestone_def tally_of_def released_amounts_def is_released_def Let_def)

lemma tally_fold: "fold tally_milestone ms (tally_of ms') = tally_of (ms' @ ms)"
  by (induction ms arbitrary: ms') (simp_all add: tally_snoc)

lemma agreements_fold:
  "fold tally_agreement ags (n, tally_of ms) = (n + length (filter (\<lambda>a. a_status a = ''completed'') ags), tally_of (ms @ milestones_of ags))"
  by (induction ags arbitrary: n ms) (simp_all add: tally_agreement_def milestones_of_def tally_fold)

lemma computeReputation_counts:
  "computeReputation ags p e = \<lparr>rp_handle = pr_handle p, rp_completed = length (filter (\<lambda>a. a_status a = ''completed'') ags),
     rp_released = length (filter is_released (milestones_of ags)),
     rp_total_usdc = (if e then Some (fold (\<lambda>x sum. js_add sum x) (released_amounts (milestones_of ags)) (Fin 0)) else None),
     rp_github_verified = None, rp_pr_backed = length (filter (\<lambda>m. default (ms_evidence_urls m) [] \<noteq> []) (milestones_of ags))\<rparr>"
proof -
  have "\<lparr>tl_released = 0, tl_total = Fin 0, tl_backed = 0\<rparr> = tally_of []" by (simp add: tally_of_def released_amounts_def)
  then show ?thesis unfolding computeReputation_def by (simp only: agreements_fold) (simp add: tally_of_def)
qed

text \<open>The agreements a wallet takes part in.\<close>

definition taken_part :: "tables \<Rightarrow> string \<Rightarrow> agreement list" where
  "taken_part ts a = filter (\<lambda>g. \<exists>p \<in> set (t_participants ts). p_wallet p = a \<and> p_agreement_id p = a_id g) (t_agreements ts)"

text \<open>
  The run that ended in this state ended with a failed read of the rows that say which agreements these are, or of
  the agreements themselves.
\<close>

definition unread :: "'s backend \<Rightarrow> tables \<Rightarrow> string \<Rightarrow> 's \<Rightarrow> bool" where
  "unread B ts a s' \<longleftrightarrow> (\<exists>s e. select_rows (participants B) (\<lambda>p. p_wallet p = a) (\<lambda>rs. rs) s = ((None, Some e), s') \<or>
     select_rows (agreements B) (\<lambda>g. js_includes (map p_agreement_id (filter (\<lambda>p. p_wallet p = a) (t_participants ts))) (a_id g)) (\<lambda>rs. rs) s =
       ((None, Some e), s'))"

context database begin

lemma wp_fetchBuilderAgreements:
  assumes "\<And>ags s'. st s' = st (svc w) \<Longrightarrow> ags = taken_part (st (svc w)) a \<or> ags = [] \<and> unread B (st (svc w)) a s' \<Longrightarrow>
      Q (Inr ags) (w\<lparr>svc := s'\<rparr>)"
  shows "wp (fetchBuilderAgreements B a) Q w"
  unfolding fetchBuilderAgreements_def
proof -
  have part: "filter (\<lambda>x. a_id x \<in> p_agreement_id ` {p \<in> set (t_participants (st (svc w))). p_wallet p = a}) (t_agreements (st (svc w))) =
      taken_part (st (svc w)) a"
    unfolding taken_part_def by (rule filter_cong) (auto simp: image_iff)
  have read: "taken_part (st (svc w)) a = []" if "filter (\<lambda>p. p_wallet p = a) (t_participants (st (svc w))) = []"
    using that by (auto simp: taken_part_def filter_empty_conv)
  have second: "wp (call (select_rows (agreements B) (\<lambda>x. js_includes (map p_agreement_id (filter (\<lambda>p. p_wallet p = a) (t_participants (st (svc w))))) (a_id x)) (\<lambda>rs. rs)))
      (\<lambda>r v. case r of Inl e \<Rightarrow> Q (Inl e) v | Inr (d, e) \<Rightarrow> wp (ret (if e \<noteq> None then [] else default d [])) Q v) (w\<lparr>svc := s1\<rparr>)"
    if s1: "st s1 = st (svc w)" for s1
  proof (rule table_store.wp_select_rows_read [OF deleting_store.axioms(1) [OF agreements_store]], goal_cases)
    case (1 e s2)
    then have "unread B (st (svc w)) a s2" unfolding unread_def by auto
    then show ?case using s1 1 by (auto simp: wp_ret intro!: assms)
  next
    case (2 s2)
    then show ?case using s1 part by (auto simp: wp_ret intro!: assms)
  qed
  show "wp (bnd (call (select_rows (participants B) (\<lambda>p. p_wallet p = a) (\<lambda>rs. rs))) (\<lambda>(participations, partErr).
     if partErr \<noteq> None \<or> default participations [] = [] then ret []
     else let agreementIds = map p_agreement_id (default participations [])
       in bnd (call (select_rows (agreements B) (\<lambda>a. js_includes agreementIds (a_id a)) (\<lambda>rs. rs))) (\<lambda>(agreements', agErr).
          ret (if agErr \<noteq> None then [] else default agreements' [])))) Q w"
    unfolding wp_bnd [of "call (select_rows (participants B) P k)" for P k]
  proof (rule table_store.wp_select_rows_read [OF participants_store], goal_cases)
    case (1 e s1)
    then have "unread B (st (svc w)) a s1" unfolding unread_def by auto
    then show ?case using 1 by (auto simp: wp_ret intro!: assms)
  next
    case (2 s1)
    then show ?case using second [OF 2] read
      by (auto simp: wp_ret wp_bnd [of "call x" for x] Let_def case_prod_beta intro!: assms cong: sum.case_cong)
  qed
qed

end

section \<open>Changing profiles\<close>

datatype profile_request =
    GetOrCreate get_or_create_dto
  | UpdateWallet string update_profile_dto
  | UpdateMine update_profile_dto
  | SetRole set_role_dto
  | ReadMine
  | ReadById string
  | ReadHandle string

definition handle_profile :: "'s backend \<Rightarrow> string \<times> profile_request \<Rightarrow> 's world \<Rightarrow> 's world" where
  "handle_profile B q w = (case snd q of
     GetOrCreate dto \<Rightarrow> snd (getOrCreate B (fst q) dto w)
   | UpdateWallet a dto \<Rightarrow> snd (update_profile B (fst q) a dto w)
   | UpdateMine dto \<Rightarrow> snd (updateForUser B (fst q) dto w)
   | SetRole dto \<Rightarrow> snd (setUserRole B (fst q) dto w)
   | ReadMine \<Rightarrow> snd (getMe B (fst q) w)
   | ReadById i \<Rightarrow> snd (profile_getById B i w)
   | ReadHandle h \<Rightarrow> snd (getByHandle B h w))"

definition handle_profiles :: "'s backend \<Rightarrow> (string \<times> profile_request) list \<Rightarrow> 's world \<Rightarrow> 's world" where
  "handle_profiles B qs w = fold (handle_profile B) qs w"

definition holds_wallet :: "tables \<Rightarrow> string \<Rightarrow> string \<Rightarrow> bool" where
  "holds_wallet ts u a \<longleftrightarrow> a \<noteq> [] \<and> (\<exists>x \<in> set (t_users ts). au_id x = u \<and> au_wallet x = Some a)"

lemma holds_walletI: "x \<in> set (t_users ts) \<Longrightarrow> au_wallet x = Some a \<Longrightarrow> a \<noteq> [] \<Longrightarrow> holds_wallet ts (au_id x) a"
  by (auto simp: holds_wallet_def)

inductive profile_step :: "string \<Rightarrow> tables \<Rightarrow> tables \<Rightarrow> bool" for u ts where
  Keep: "profile_step u ts ts"
| Create: "holds_wallet ts u (pr_wallet p) \<Longrightarrow> pr_role p = ''user'' \<Longrightarrow> profile_step u ts (ts\<lparr>t_profiles := t_profiles ts @ [p]\<rparr>)"
| Edit: "holds_wallet ts u a \<Longrightarrow>
    profile_step u ts (ts\<lparr>t_profiles := update_where (\<lambda>p. pr_wallet p = a) (updated_profile dto t) (t_profiles ts)\<rparr>)"
| Role: "admin ts u \<Longrightarrow>
    profile_step u ts (ts\<lparr>t_profiles := update_where (\<lambda>p. pr_wallet p = a) (\<lambda>p. p\<lparr>pr_role := r, pr_updated_at := t\<rparr>) (t_profiles ts)\<rparr>)"

context database begin

lemma wp_profile_walletForUserId:
  assumes "\<And>a s'. st s' = st (svc w) \<Longrightarrow> (\<And>x. a = Some x \<Longrightarrow> holds_wallet (st (svc w)) u x) \<Longrightarrow> Q (Inr a) (w\<lparr>svc := s'\<rparr>)"
  shows "wp (profile_walletForUserId B u) Q w"
  unfolding profile_walletForUserId_def
  by (auto simp: wp_simps truthy_def split: option.splits intro!: users_wp(2) assms holds_walletI)

lemma wp_profile_assertActorWallet:
  assumes "\<And>s'. st s' = st (svc w) \<Longrightarrow> holds_wallet (st (svc w)) u a \<Longrightarrow> Q (Inr ()) (w\<lparr>svc := s'\<rparr>)"
    and "\<And>e s'. st s' = st (svc w) \<Longrightarrow> Q (Inl e) (w\<lparr>svc := s'\<rparr>)"
  shows "wp (profile_assertActorWallet B u a) Q w"
  unfolding profile_assertActorWallet_def
  by (auto simp: wp_simps truthy_def split: option.splits intro!: wp_profile_walletForUserId assms)

lemma create_profile_steps:
  assumes "holds_wallet (st (svc w)) u (gc_wallet_address dto)"
  shows "wp (create_profile B dto) (\<lambda>_ v. profile_step u (st (svc w)) (st (svc v))) w"
  unfolding create_profile_def
  using assms by (auto simp: wp_simps new_profile_def gen_profile_def intro!: profiles_wp(5) Create Keep)

lemma getOrCreate_steps: "wp (getOrCreate B u dto) (\<lambda>_ v. profile_step u (st (svc w)) (st (svc v))) w"
proof -
  have create: "wp (create_profile B dto) (\<lambda>_ v. profile_step u (st (svc w)) (st (svc v))) (w\<lparr>svc := s'\<rparr>)"
    if "st s' = st (svc w)" "holds_wallet (st (svc w)) u (gc_wallet_address dto)" for s'
    using create_profile_steps [of "w\<lparr>svc := s'\<rparr>" u dto] that by simp
  show ?thesis
    unfolding getOrCreate_def wp_bnd [of "profile_assertActorWallet B u a" for a] wp_bnd [of "call x" for x]
  proof (rule wp_profile_assertActorWallet, goal_cases)
    case (1 s')
    then show ?case unfolding sum.case
      by (intro profiles_wp(2)) (simp_all add: wp_ret create Keep)
  qed (simp add: Keep)
qed

lemma applyUpdate_steps:
  assumes "holds_wallet (st (svc w)) u a"
  shows "wp (applyUpdate B a dto) (\<lambda>_ v. profile_step u (st (svc w)) (st (svc v))) w"
  unfolding applyUpdate_def wp_bnd [of "call x" for x]
proof (rule wp_now, goal_cases)
  case (1 t s')
  then show ?case unfolding sum.case
    by (intro profiles_wp(8)) (simp_all add: wp_ret wp_throw Keep Edit [OF assms])
qed

lemma update_profile_steps: "wp (update_profile B u a dto) (\<lambda>_ v. profile_step u (st (svc w)) (st (svc v))) w"
  unfolding update_profile_def wp_bnd
proof (rule wp_profile_assertActorWallet, goal_cases)
  case (1 s')
  then show ?case using applyUpdate_steps [of "w\<lparr>svc := s'\<rparr>" u a dto] by simp
qed (simp add: Keep)

lemma updateForUser_steps: "wp (updateForUser B u dto) (\<lambda>_ v. profile_step u (st (svc w)) (st (svc v))) w"
  unfolding updateForUser_def wp_bnd
proof (rule wp_profile_walletForUserId, goal_cases)
  case (1 a s')
  then show ?case using applyUpdate_steps [of "w\<lparr>svc := s'\<rparr>" u _ dto] by (cases a) (simp_all add: wp_throw Keep)
qed

lemma setUserRole_steps: "wp (setUserRole B u dto) (\<lambda>_ v. profile_step u (st (svc w)) (st (svc v))) w"
proof -
  have adm: "admin (st (svc w)) u" if "holds_wallet (st (svc w)) u (pr_wallet p)" "p \<in> set (t_profiles (st (svc w)))" "pr_role p = ''admin''" for p
    using that by (auto simp: holds_wallet_def admin_def)
  show ?thesis
    unfolding setUserRole_def
    by (auto simp: wp_simps adm Keep split: option.splits intro!: wp_profile_walletForUserId profiles_wp(2) wp_now profiles_wp(7) Role)
qed

lemma read_profile_steps:
  "wp (getMe B u) (\<lambda>_ v. profile_step u (st (svc w)) (st (svc v))) w"
  "wp (profile_getById B i) (\<lambda>_ v. profile_step u (st (svc w)) (st (svc v))) w"
  "wp (getByHandle B h) (\<lambda>_ v. profile_step u (st (svc w)) (st (svc v))) w"
  unfolding getMe_def getByWallet_def profile_getById_def getByHandle_def
  by (auto simp: wp_simps split: option.split intro!: wp_profile_walletForUserId profiles_wp(2) Keep)

lemma handle_profile_steps: "profile_step (fst q) (st (svc w)) (st (svc (handle_profile B q w)))"
proof -
  obtain u op where q: "q = (u, op)" by (cases q)
  note run = wp_after [where R = "\<lambda>v. profile_step u (st (svc w)) (st (svc v))"]
  show ?thesis
    unfolding q handle_profile_def
    by (cases op) (simp_all add: run [OF getOrCreate_steps] run [OF update_profile_steps] run [OF updateForUser_steps] run [OF setUserRole_steps]
      run [OF read_profile_steps(1)] run [OF read_profile_steps(2)] run [OF read_profile_steps(3)])
qed

end

section \<open>What requests of others leave alone\<close>

definition same_owner :: "profile \<Rightarrow> profile \<Rightarrow> bool" where
  "same_owner x y \<longleftrightarrow> pr_id y = pr_id x \<and> pr_wallet y = pr_wallet x \<and> pr_role y = pr_role x \<and> pr_created_at y = pr_created_at x"

definition profiles_past :: "string set \<Rightarrow> tables \<Rightarrow> tables \<Rightarrow> bool" where
  "profiles_past who a b \<longleftrightarrow>
     (\<exists>kept new. t_profiles b = kept @ new \<and>
        list_all2 (\<lambda>x y. same_owner x y \<and> (y = x \<or> (\<exists>u \<in> who. holds_wallet a u (pr_wallet x)))) (t_profiles a) kept \<and>
        (\<forall>p \<in> set new. pr_role p = ''user'' \<and> (\<exists>u \<in> who. holds_wallet a u (pr_wallet p)))) \<and>
     a\<lparr>t_profiles := []\<rparr> = b\<lparr>t_profiles := []\<rparr>"

lemma same_owner_refl [simp]: "same_owner x x"
  by (simp add: same_owner_def)

lemma list_all2_in: "list_all2 R xs ys \<Longrightarrow> y \<in> set ys \<Longrightarrow> \<exists>x \<in> set xs. R x y"
  by (induction rule: list_all2_induct) auto

lemma profiles_pastI:
  assumes "t_profiles b = kept @ new" and "list_all2 (\<lambda>x y. same_owner x y \<and> (y = x \<or> (\<exists>u \<in> who. holds_wallet a u (pr_wallet x)))) (t_profiles a) kept"
    and "\<And>p. p \<in> set new \<Longrightarrow> pr_role p = ''user'' \<and> (\<exists>u \<in> who. holds_wallet a u (pr_wallet p))" and "a\<lparr>t_profiles := []\<rparr> = b\<lparr>t_profiles := []\<rparr>"
  shows "profiles_past who a b"
  unfolding profiles_past_def using assms by blast

lemma profiles_past_refl: "profiles_past who a a"
  by (rule profiles_pastI [of _ "t_profiles a" "[]"]) (simp_all add: list_all2_same)

lemma profile_step_past:
  assumes "profile_step u a b" and "u \<in> who" and "\<not> admin a u"
  shows "profiles_past who a b"
  using assms
proof (induction rule: profile_step.induct)
  case Keep
  then show ?case by (simp add: profiles_past_refl)
next
  case (Create p)
  then show ?case by (intro profiles_pastI [of _ "t_profiles a" "[p]"]) (auto simp: list_all2_same)
next
  case (Edit x dto t)
  then have "same_owner p (if pr_wallet p = x then updated_profile dto t p else p) \<and>
      ((if pr_wallet p = x then updated_profile dto t p else p) = p \<or> (\<exists>u \<in> who. holds_wallet a u (pr_wallet p)))" for p
    by (auto simp: same_owner_def updated_profile_def)
  then show ?case
    by (intro profiles_pastI [of _ "update_where (\<lambda>p. pr_wallet p = x) (updated_profile dto t) (t_profiles a)" "[]"])
      (simp_all add: update_where_def list_all2_map2 list_all2_same)
qed simp

lemma profiles_past_frame:
  assumes "profiles_past who a b"
  shows "holds_wallet b u x = holds_wallet a u x"
proof -
  have "a\<lparr>t_profiles := []\<rparr> = b\<lparr>t_profiles := []\<rparr>" using assms by (simp add: profiles_past_def)
  from arg_cong [OF this, of t_users] show ?thesis by (simp add: holds_wallet_def)
qed

lemma profiles_past_admin:
  assumes "profiles_past who a b" and "admin b u"
  shows "admin a u"
proof -
  obtain x p where x: "x \<in> set (t_users b)" "au_id x = u" "au_wallet x = Some (pr_wallet p)" "pr_wallet p \<noteq> []"
    and p: "p \<in> set (t_profiles b)" "pr_role p = ''admin''"
    using assms(2) by (auto simp: admin_def)
  obtain kept new where k: "t_profiles b = kept @ new" "list_all2 (\<lambda>x y. same_owner x y \<and> (y = x \<or> (\<exists>u \<in> who. holds_wallet a u (pr_wallet x)))) (t_profiles a) kept"
    "\<forall>p \<in> set new. pr_role p = ''user''" "a\<lparr>t_profiles := []\<rparr> = b\<lparr>t_profiles := []\<rparr>"
    using assms(1) by (auto simp: profiles_past_def)
  have "p \<in> set kept" using p k by auto
  then obtain q where "q \<in> set (t_profiles a)" "same_owner q p" using list_all2_in [OF k(2)] by blast
  then show ?thesis using x p(2) arg_cong [OF k(4), of t_users] by (auto simp: admin_def same_owner_def)
qed

lemma profiles_past_trans:
  assumes ab: "profiles_past who a b" and bc: "profiles_past who b c"
  shows "profiles_past who a c"
proof -
  let ?R = "\<lambda>x y. same_owner x y \<and> (y = x \<or> (\<exists>u \<in> who. holds_wallet a u (pr_wallet x)))"
  obtain k n where kn: "t_profiles b = k @ n" "list_all2 ?R (t_profiles a) k" "\<forall>p \<in> set n. pr_role p = ''user'' \<and> (\<exists>u \<in> who. holds_wallet a u (pr_wallet p))"
    using ab by (auto simp: profiles_past_def)
  obtain k2 n2 where kn2: "t_profiles c = k2 @ n2" "list_all2 ?R (k @ n) k2" "\<forall>p \<in> set n2. pr_role p = ''user'' \<and> (\<exists>u \<in> who. holds_wallet a u (pr_wallet p))"
    using bc by (auto simp: profiles_past_def kn(1) profiles_past_frame [OF ab])
  obtain k3 n3 where kn3: "k2 = k3 @ n3" "list_all2 ?R k k3" "list_all2 ?R n n3"
    using kn2(2) by (auto simp: list_all2_append1)
  have "list_all2 ?R (t_profiles a) k3"
    by (rule list_all2_trans [OF _ kn(2) kn3(2)]) (auto simp: same_owner_def)
  moreover have "pr_role p = ''user'' \<and> (\<exists>u \<in> who. holds_wallet a u (pr_wallet p))" if "p \<in> set n3" for p
  proof -
    obtain q where "q \<in> set n" "same_owner q p" using list_all2_in [OF kn3(3) \<open>p \<in> set n3\<close>] by blast
    then show ?thesis using kn(3) by (auto simp: same_owner_def)
  qed
  ultimately show ?thesis
    using kn2(1,3) kn3(1) ab bc by (intro profiles_pastI [of _ k3 "n3 @ n2"]) (auto simp: profiles_past_def)
qed

section \<open>Reading a reputation\<close>

definition reputation_answer :: "(tables \<Rightarrow> profile \<Rightarrow> bool) \<Rightarrow> tables \<Rightarrow> (profile \<Rightarrow> bool) \<Rightarrow> (profile \<Rightarrow> bool) \<Rightarrow> exn + reputation \<Rightarrow> tables \<Rightarrow> bool" where
  "reputation_answer lost ts P e r ts' \<longleftrightarrow> ts' = ts \<and> (case r of
     Inl x \<Rightarrow> http_status x \<in> {400, 404}
   | Inr x \<Rightarrow> \<exists>p \<in> set (t_profiles ts). P p \<and>
       (\<exists>ags. (ags = taken_part ts (pr_wallet p) \<or> ags = [] \<and> lost ts p) \<and> x = computeReputation ags p (e p)))"

abbreviation unread_after :: "'s backend \<Rightarrow> 's world \<Rightarrow> tables \<Rightarrow> profile \<Rightarrow> bool" where
  "unread_after B v \<equiv> \<lambda>ts p. unread B ts (pr_wallet p) (svc v)"

lemma reputation_answer_counts:
  assumes "reputation_answer lost ts P e r ts'"
  shows "ts' = ts \<and> (case r of Inl x \<Rightarrow> http_status x \<in> {400, 404} | Inr x \<Rightarrow>
      \<exists>p \<in> set (t_profiles ts). \<exists>ags. (ags = taken_part ts (pr_wallet p) \<or> ags = [] \<and> lost ts p) \<and> P p \<and>
        rp_handle x = pr_handle p \<and> rp_completed x = length (filter (\<lambda>g. a_status g = ''completed'') ags) \<and>
        rp_released x = length (filter is_released (milestones_of ags)) \<and>
        rp_pr_backed x = length (filter (\<lambda>m. default (ms_evidence_urls m) [] \<noteq> []) (milestones_of ags)) \<and>
        rp_total_usdc x = (if \<not> e p then None else Some (fold (\<lambda>v sum. js_add sum v) (released_amounts (milestones_of ags)) (Fin 0))))"
proof (cases r)
  case (Inr x)
  then obtain p ags where "p \<in> set (t_profiles ts)" "P p" "ags = taken_part ts (pr_wallet p) \<or> ags = [] \<and> lost ts p"
      "x = computeReputation ags p (e p)"
    using assms by (auto simp only: reputation_answer_def sum.case)
  moreover note computeReputation_counts [of ags p "e p"]
  ultimately show ?thesis using assms Inr unfolding reputation_answer_def by (auto simp only: sum.case reputation.simps if_not_P not_not split: if_split)
qed (use assms in \<open>simp add: reputation_answer_def\<close>)

context database begin

lemma reputation_from:
  assumes "st s' = st (svc w)" and "p \<in> set (t_profiles (st (svc w)))" and "P p" and "b = e p"
  shows "wp (bnd (fetchBuilderAgreements B (pr_wallet p)) (\<lambda>ags. ret (computeReputation ags p b)))
    (\<lambda>r v. reputation_answer (unread_after B v) (st (svc w)) P e r (st (svc v))) (w\<lparr>svc := s'\<rparr>)"
  unfolding wp_bnd
proof (rule wp_fetchBuilderAgreements, goal_cases)
  case (1 ags s2)
  then show ?case using assms by (auto simp: wp_ret reputation_answer_def)
qed

lemma public_reputation_answer:
  "wp (getPublicReputation B h) (\<lambda>r v. reputation_answer (unread_after B v) (st (svc w)) (\<lambda>p. pr_handle p = Some h) pr_show_earnings r (st (svc v))) w"
  unfolding getPublicReputation_def profileByHandle_def wp_bnd [of "bnd x f" for x f] wp_bnd [of "call x" for x]
proof (rule profiles_wp(2), goal_cases)
  case (3 p s')
  then show ?case by (simp add: wp_ret reputation_from)
qed (simp_all add: wp_throw reputation_answer_def)

lemma my_reputation_answer:
  "wp (getMyReputation B u) (\<lambda>r v. reputation_answer (unread_after B v) (st (svc w)) (\<lambda>p. holds_wallet (st (svc w)) u (pr_wallet p)) (\<lambda>_. True) r (st (svc v))) w"
proof -
  have bad: "reputation_answer lost (st (svc w)) P e (Inl (NotFound m)) (st (svc w))" for lost P e m by (simp add: reputation_answer_def)
  have ok: "wp (bnd (fetchBuilderAgreements B (pr_wallet p)) (\<lambda>ags. ret (computeReputation ags p True)))
      (\<lambda>r v. reputation_answer (unread_after B v) (st (svc w)) (\<lambda>p. holds_wallet (st (svc w)) (au_id x) (pr_wallet p)) (\<lambda>_. True) r (st (svc v))) (w\<lparr>svc := s'\<rparr>)"
    if "st s' = st (svc w)" "x \<in> set (t_users (st (svc w)))" "au_wallet x = Some (pr_wallet p)" "pr_wallet p \<noteq> []" "p \<in> set (t_profiles (st (svc w)))" for x p s'
    by (rule reputation_from) (use that in \<open>auto intro: holds_walletI\<close>)
  show ?thesis
    unfolding getMyReputation_def profileByUserId_def wp_bnd [of "bnd x f" for x f] wp_bnd [of "call x" for x]
  proof (rule users_wp(2), goal_cases)
    case (3 x s')
    show ?case
    proof (cases "truthy (au_wallet x)")
      case True
      then show ?thesis using 3
        by (auto simp: wp_simps truthy_def bad split: option.splits intro!: profiles_wp(2) ok [unfolded wp_bnd])
    qed (use 3 in \<open>simp add: wp_simps bad\<close>)
  qed (simp_all add: wp_simps bad)
qed

end

section \<open>Properties\<close>

text \<open>
  (C33) Profiles belong to their wallets and roles to the admins. Over any database, after any sequence of requests to the profile service by users none of whom
  is an admin: every profile is still there with its id, wallet, role and creation time, unchanged unless a requester holds its wallet; a new profile has the
  role \<open>user\<close> and the wallet of a requester; no requester has become an admin; and no other table has changed.
\<close>

theorem profiles_belong_to_wallets:
  assumes "database B st" and "a = st (svc w)" and "b = st (svc (handle_profiles B qs w))"
    and "\<And>u. u \<in> fst ` set qs \<Longrightarrow> \<not> admin a u"
  shows "(\<exists>kept new. t_profiles b = kept @ new \<and>
      list_all2 (\<lambda>x y. same_owner x y \<and> (y = x \<or> (\<exists>u \<in> fst ` set qs. holds_wallet a u (pr_wallet x)))) (t_profiles a) kept \<and>
      (\<forall>p \<in> set new. pr_role p = ''user'' \<and> (\<exists>u \<in> fst ` set qs. holds_wallet a u (pr_wallet p)))) \<and>
    (\<forall>u \<in> fst ` set qs. \<not> admin b u) \<and> a\<lparr>t_profiles := []\<rparr> = b\<lparr>t_profiles := []\<rparr>"
proof -
  define who where "who = fst ` set qs"
  have "profiles_past who a b" if "set ps \<subseteq> set qs" "\<And>u. u \<in> who \<Longrightarrow> \<not> admin a u" "a = st (svc w)" "b = st (svc (handle_profiles B ps w))" for ps w a
    using that
  proof (induction ps arbitrary: w a)
    case Nil
    then show ?case by (simp add: handle_profiles_def profiles_past_refl)
  next
    case (Cons q ps)
    let ?c = "st (svc (handle_profile B q w))"
    have "fst q \<in> who" using Cons.prems(1) by (auto simp: who_def)
    then have ac: "profiles_past who a ?c"
      using profile_step_past database.handle_profile_steps [OF assms(1), of q w] Cons.prems(2,3) by blast
    have "profiles_past who ?c b"
    proof (rule Cons.IH)
      show "\<not> admin ?c u" if "u \<in> who" for u using profiles_past_admin [OF ac] Cons.prems(2) that by blast
    qed (use Cons.prems(1,4) in \<open>auto simp: handle_profiles_def\<close>)
    then show ?case by (rule profiles_past_trans [OF ac])
  qed
  then have past: "profiles_past who a b" using assms(2,3,4) unfolding who_def by blast
  moreover have "\<forall>u \<in> who. \<not> admin b u" using profiles_past_admin [OF past] assms(4) unfolding who_def by blast
  ultimately show ?thesis unfolding profiles_past_def who_def by blast
qed

text \<open>
  (C37) A reputation is the exact count over the agreements of the wallet, when these can be read. Over any database, asking for the reputation of a
  handle or for one's own changes no table. An answer is about a profile with that handle, or of the wallet of the user. It counts
  the completed agreements, the released milestones and the milestones with evidence of all agreements that list the wallet as a
  participant, in whatever role (a payer's agreements count like a builder's), it sums the released amounts that are numbers, and on the public route it has the sum
  exactly when the profile shows its earnings. Only when the run ends with a failed read of these agreements are they taken to be none; that failure
  is not reported.
\<close>

theorem reputation_exact:
  assumes "database B st"
    and "(case who of Inl h \<Rightarrow> getPublicReputation B h | Inr u \<Rightarrow> getMyReputation B u) w = (r, w')"
  shows "st (svc w') = st (svc w) \<and>
    (case r of Inl e \<Rightarrow> http_status e \<in> {400, 404} | Inr x \<Rightarrow>
      \<exists>p \<in> set (t_profiles (st (svc w))).
        \<exists>ags. (ags = taken_part (st (svc w)) (pr_wallet p) \<or> ags = [] \<and> unread B (st (svc w)) (pr_wallet p) (svc w')) \<and>
        (case who of Inl h \<Rightarrow> pr_handle p = Some h | Inr u \<Rightarrow> holds_wallet (st (svc w)) u (pr_wallet p)) \<and>
        rp_handle x = pr_handle p \<and> rp_completed x = length (filter (\<lambda>g. a_status g = ''completed'') ags) \<and>
        rp_released x = length (filter is_released (milestones_of ags)) \<and>
        rp_pr_backed x = length (filter (\<lambda>m. default (ms_evidence_urls m) [] \<noteq> []) (milestones_of ags)) \<and>
        rp_total_usdc x = (if isl who \<and> \<not> pr_show_earnings p then None
          else Some (fold (\<lambda>v sum. js_add sum v) (released_amounts (milestones_of ags)) (Fin 0))))"
proof -
  have pub: "wp (getPublicReputation B h) (\<lambda>r v. reputation_answer (unread_after B v) (st (svc w)) (\<lambda>p. pr_handle p = Some h) pr_show_earnings r (st (svc v))) w" for h
    by (rule database.public_reputation_answer [OF assms(1)])
  have my: "wp (getMyReputation B u) (\<lambda>r v. reputation_answer (unread_after B v) (st (svc w)) (\<lambda>p. holds_wallet (st (svc w)) u (pr_wallet p)) (\<lambda>_. True) r (st (svc v))) w" for u
    by (rule database.my_reputation_answer [OF assms(1)])
  show ?thesis
  proof (cases who)
    case (Inl h)
    then have "reputation_answer (unread_after B w') (st (svc w)) (\<lambda>p. pr_handle p = Some h) pr_show_earnings r (st (svc w'))"
      using wpD [OF pub, of h r w'] assms(2) by simp
    from reputation_answer_counts [OF this] show ?thesis unfolding Inl by (simp only: sum.case sum.disc simp_thms)
  next
    case (Inr u)
    then have "reputation_answer (unread_after B w') (st (svc w)) (\<lambda>p. holds_wallet (st (svc w)) u (pr_wallet p)) (\<lambda>_. True) r (st (svc w'))"
      using wpD [OF my, of u r w'] assms(2) by simp
    from reputation_answer_counts [OF this] show ?thesis unfolding Inr by (simp only: sum.case sum.disc simp_thms)
  qed
qed

section \<open>Runs\<close>

text \<open>A builder with a handle who took part in two agreements, and an admin.\<close>

definition builder_profile :: profile where
  "builder_profile = (compliance_profile ''P2'' ''G2'' ''user'')\<lparr>pr_handle := Some ''ada'', pr_email := Some ''a@x.io''\<rparr>"

definition built_milestone :: "string \<Rightarrow> string \<Rightarrow> string list option \<Rightarrow> milestone" where
  "built_milestone s a urls = \<lparr>ms_description = None, ms_amount = Some a, ms_status = Some s, ms_evidence_description = None, ms_evidence_urls = urls, ms_evidence_at = None\<rparr>"

definition built_agreement :: "string \<Rightarrow> string \<Rightarrow> milestone list \<Rightarrow> agreement" where
  "built_agreement i s ms = \<lparr>a_id = i, a_contract_id = None, a_title = ''t'', a_description = None, a_amount = ''3'', a_asset = None, a_status = s, a_type = None,
     a_milestones = Some ms, a_metadata = JNull, a_created_by = ''U1'', a_created_at = 1, a_updated_at = 1, a_funded_at = None, a_completed_at = None\<rparr>"

definition profile_world :: "mem world" where
  "profile_world = world_on (no_tables\<lparr>t_users := [compliance_user ''U1'' ''G1'', compliance_user ''U2'' ''G2'', compliance_user ''U3'' ''G3''],
     t_profiles := [compliance_profile ''P1'' ''G1'' ''admin'', builder_profile],
     t_agreements := [built_agreement ''A1'' ''completed'' [built_milestone ''released'' ''2'' (Some [''u'']), built_milestone ''approved'' ''1'' None],
        built_agreement ''A2'' ''funded'' [built_milestone ''released'' ''5'' None], built_agreement ''A3'' ''completed'' []],
     t_participants := [\<lparr>p_id = ''p1'', p_agreement_id = ''A1'', p_wallet = ''G2'', p_role = None\<rparr>, \<lparr>p_id = ''p2'', p_agreement_id = ''A2'', p_wallet = ''G2'', p_role = None\<rparr>]\<rparr>) quiet_env"

definition no_update :: update_profile_dto where
  "no_update = \<lparr>pu_display_name = None, pu_email = None, pu_avatar_url = None, pu_account_type = None, pu_headline = None, pu_bio = None, pu_skills = None,
     pu_tech_stack = None, pu_hourly_rate = None, pu_availability = None, pu_portfolio_links = None, pu_social_links = None, pu_handle = None,
     pu_org_name = None, pu_org_description = None, pu_org_website = None, pu_looking_for = None, pu_org_links = None, pu_show_earnings = None\<rparr>"

definition profile_requests :: "(string \<times> profile_request) list" where
  "profile_requests = [(''U3'', GetOrCreate \<lparr>gc_wallet_address = ''G3'', gc_account_type = None\<rparr>), (''U2'', UpdateMine (no_update\<lparr>pu_show_earnings := Some True\<rparr>)),
     (''U3'', SetRole \<lparr>sx_wallet_address = ''G3'', sx_role = ''admin''\<rparr>), (''U3'', UpdateWallet ''G1'' (no_update\<lparr>pu_bio := Some (Some ''x'')\<rparr>))]"

definition profiles_after :: tables where
  "profiles_after = tabs (svc (handle_profiles (mem_backend (\<lambda>_. None)) profile_requests profile_world))"

lemma profiles_belong_to_wallets_witness:
  "map (\<lambda>p. (pr_wallet p, pr_role p, pr_show_earnings p)) (t_profiles profiles_after) = [(''G1'', ''admin'', False), (''G2'', ''user'', True), (''G3'', ''user'', False)] \<and>
   \<not> admin profiles_after ''U3''"
proof -
  have "\<not> admin (tabs (svc profile_world)) u" if "u \<in> fst ` set profile_requests" for u
    using that by (auto simp: admin_def profile_world_def world_on_def no_tables_def profile_requests_def compliance_user_def compliance_profile_def builder_profile_def)
  note all = profiles_belong_to_wallets [OF mem.database_axioms refl refl this]
  have "''U3'' \<in> fst ` set profile_requests" by (simp add: profile_requests_def)
  then have "\<not> admin profiles_after ''U3''" using all unfolding profiles_after_def by blast
  moreover have "map (\<lambda>p. (pr_wallet p, pr_role p, pr_show_earnings p)) (t_profiles profiles_after) =
      [(''G1'', ''admin'', False), (''G2'', ''user'', True), (''G3'', ''user'', False)]" by code_simp
  ultimately show ?thesis by blast
qed

definition reputation_run :: "string + string \<Rightarrow> (exn + reputation) \<times> mem world" where
  "reputation_run who = (case who of Inl h \<Rightarrow> getPublicReputation (mem_backend (\<lambda>_. None)) h | Inr u \<Rightarrow> getMyReputation (mem_backend (\<lambda>_. None)) u) profile_world"

lemma reputation_exact_witness:
  "tabs (svc (snd (reputation_run (Inl ''ada'')))) = tabs (svc profile_world) \<and>
   map_sum id (\<lambda>x. (rp_completed x, rp_released x, rp_pr_backed x, rp_total_usdc x)) (fst (reputation_run (Inl ''ada''))) = Inr (1, 2, 1, None) \<and>
   map_sum id rp_total_usdc (fst (reputation_run (Inr ''U2''))) = Inr (Some (Fin 7)) \<and>
   map a_id (taken_part (tabs (svc profile_world)) ''G2'') = [''A1'', ''A2'']"
proof -
  have run: "(case Inl ''ada'' of Inl h \<Rightarrow> getPublicReputation (mem_backend (\<lambda>_. None)) h | Inr u \<Rightarrow> getMyReputation (mem_backend (\<lambda>_. None)) u) profile_world =
      (fst (reputation_run (Inl ''ada'')), snd (reputation_run (Inl ''ada'')))" by (simp add: reputation_run_def)
  have "map_sum id (\<lambda>x. (rp_completed x, rp_released x, rp_pr_backed x, rp_total_usdc x)) (fst (reputation_run (Inl ''ada''))) = Inr (1, 2, 1, None)"
    "map_sum id rp_total_usdc (fst (reputation_run (Inr ''U2''))) = Inr (Some (Fin 7))"
    "map a_id (taken_part (tabs (svc profile_world)) ''G2'') = [''A1'', ''A2'']" by code_simp+
  then show ?thesis using reputation_exact [OF mem.database_axioms run] by blast
qed

text \<open>
  A read that fails is answered like a wallet without agreements, and a payer's agreements count as completed work.
\<close>

definition payer_world :: "(nat \<Rightarrow> db_error option) \<Rightarrow> mem world" where
  "payer_world f = world_on (tabs (svc profile_world)\<lparr>t_participants := [\<lparr>p_id = ''p1'', p_agreement_id = ''A1'', p_wallet = ''G2'', p_role = Some ''payer''\<rparr>]\<rparr>)
     (quiet_env\<lparr>fault := f\<rparr>)"

lemma unread_reputation_empty:
  "map_sum id (\<lambda>x. (rp_completed x, rp_released x)) (fst (getPublicReputation (mem_backend (\<lambda>_. None)) ''ada'' (payer_world (\<lambda>_. None)))) = Inr (1, 1)"
  "map_sum id (\<lambda>x. (rp_completed x, rp_released x)) (fst (getPublicReputation (mem_backend (\<lambda>_. None)) ''ada''
     (payer_world (\<lambda>n. if n = 1 then Some not_one else None)))) = Inr (0, 0)"
  by code_simp+

text \<open>The list of dispute resolvers, which anyone may ask for, has their e-mail addresses.\<close>

lemma resolvers_show_email:
  "map_sum id (\<lambda>(ps, _). map pr_email ps) (fst (getDisputeResolvers (mem_backend (\<lambda>_. None))
     (world_on (no_tables\<lparr>t_profiles := [builder_profile\<lparr>pr_role := ''dispute_resolver''\<rparr>]\<rparr>) quiet_env))) = Inr [Some ''a@x.io'']"
  by code_simp

end
