(* ===== verification/Ramps.thy ===== *)
theory Ramps
  imports JsonText
begin

text \<open>
  \<open>ramps/ramps.service.ts\<close> and \<open>ramps/lendara.client.ts\<close>: buying USDC for an agreement. The wallet that receives is derived from the
  user and the agreement, and a deposit counts once the transaction of the session has been read back. Lendara answers through \<open>fetch\<close>.
\<close>

section \<open>The client\<close>

definition DEFAULT_LENDARA_URL :: string where
  "DEFAULT_LENDARA_URL = ''https://lendaraweb-production.up.railway.app''"

definition SANDBOX_API_KEY :: string where
  "SANDBOX_API_KEY = ''lnd_test_K3J365P7K55526TJUFRPLHZ5GF''"

text \<open>The variable, or the default, without one slash at the end.\<close>

definition lendara_baseUrl :: "'s backend \<Rightarrow> string" where
  "lendara_baseUrl B = (let u = or_else (getenv B ''LENDARA_API_URL'') DEFAULT_LENDARA_URL
     in if u \<noteq> [] \<and> last u = CHR ''/'' then butlast u else u)"

definition lendara_apiKey :: "'s backend \<Rightarrow> exn + string" where
  "lendara_apiKey B = (let key = map_option trim (getenv B ''LENDARA_API_KEY'')
     in if truthy key then Inr (default key [])
        else if isMainnet B then Inl (ServiceUnavailable ''LENDARA_API_KEY is not configured, so the on-ramp is unavailable.'')
        else Inr SANDBOX_API_KEY)"

definition lendara_call :: "'s backend \<Rightarrow> string \<Rightarrow> string \<Rightarrow> string \<Rightarrow> json option \<Rightarrow> http_request" where
  "lendara_call B key meth path body = \<lparr>rq_method = meth, rq_url = lendara_baseUrl B @ path, rq_query = [],
     rq_headers = [(''Authorization'', ''Bearer '' @ key), (''Content-Type'', ''application/json'')],
     rq_body = (if meth = ''POST'' then Some (default body (JObj [])) else None)\<rparr>"

text \<open>The key is read inside the \<open>try\<close>, so its own exception becomes the one about reaching Lendara.\<close>

definition lendara_request :: "'s backend \<Rightarrow> string \<Rightarrow> string \<Rightarrow> json option \<Rightarrow> ('s world, json) prog" where
  "lendara_request B meth path body =
     bnd (catch (bnd (lift_exn (lendara_apiKey B)) (\<lambda>key. send B (lendara_call B key meth path body))) (\<lambda>_. ret (Inl []))) (\<lambda>answer.
     case answer of
       Inl _ \<Rightarrow> throw (ServiceUnavailable ''Could not reach Lendara. Try again in a moment.'')
     | Inr response \<Rightarrow>
         bnd (require (200 \<le> rp_status response \<and> rp_status response < 300)
           (ServiceUnavailable (''Lendara rejected the request ('' @ nat_str (rp_status response) @ '').''))) (\<lambda>_.
         ret (response_data (rp_body response))))"

definition session_params :: "string \<Rightarrow> string \<Rightarrow> string \<Rightarrow> json" where
  "session_params account fiatCurrency amount = JObj [(''account'', JStr account), (''fiat_currency'', JStr fiatCurrency), (''amount'', JStr amount)]"

definition lendara_createSession :: "'s backend \<Rightarrow> string \<Rightarrow> string \<Rightarrow> string \<Rightarrow> ('s world, json) prog" where
  "lendara_createSession B account fiatCurrency amount =
     lendara_request B ''POST'' ''/v1/sessions'' (Some (session_params account fiatCurrency amount))"

definition getTransaction :: "'s backend \<Rightarrow> string \<Rightarrow> ('s world, json) prog" where
  "getTransaction B sessionId = lendara_request B ''GET'' (''/v1/transactions/'' @ encodeURIComponent sessionId) None"

definition issuerOf :: "string option \<Rightarrow> string option" where
  "issuerOf asset = (if truthy asset then (case split_on (CHR '':'') (default asset []) of
     [a, _, issuer] \<Rightarrow> if a = ''stellar'' then Some issuer else None
   | _ \<Rightarrow> None) else None)"

section \<open>The service\<close>

definition destinationWalletFor :: "'s backend \<Rightarrow> string \<Rightarrow> string \<Rightarrow> ('s world, string) prog" where
  "destinationWalletFor B userId agreementId =
     bnd (call (select_one (agreements B) (\<lambda>a. a_id a = agreementId))) (\<lambda>(agreement, error).
     case (error, agreement) of
       (None, Some a) \<Rightarrow>
         bnd (userCanAccessAgreement B userId agreementId (a_created_by a)) (\<lambda>ok.
         bnd (require ok (Forbidden ''Not a participant of this agreement'')) (\<lambda>_.
         bnd (resolveUserWallets B userId) (\<lambda>wallets.
         bnd (require (wallets \<noteq> []) (BadRequest (Msg ''This account has no wallet to receive the funds''))) (\<lambda>_.
         bnd (call (select_rows (participants B) (\<lambda>p. p_agreement_id p = agreementId) (\<lambda>rs. rs))) (\<lambda>(participants', _).
         let payer = List.find (\<lambda>p. p_role p = Some ''payer'') (default participants' []);
             candidate = (case payer of None \<Rightarrow> None | Some p \<Rightarrow> Some (p_wallet p))
         in if truthy candidate \<and> js_includes wallets (default candidate []) then ret (default candidate [])
            else bnd (require (\<not> truthy candidate) (Forbidden ''Only the wallet funding this agreement can buy USDC for it'')) (\<lambda>_.
                 ret (hd wallets)))))))
     | _ \<Rightarrow> throw (NotFound ''Agreement not found''))"

text \<open>The session as Lendara answered it, and the account, which is put over it.\<close>

definition ramp_createSession :: "'s backend \<Rightarrow> string \<Rightarrow> string \<Rightarrow> string \<Rightarrow> string \<Rightarrow> ('s world, json \<times> string) prog" where
  "ramp_createSession B userId agreementId fiatCurrency amount =
     bnd (destinationWalletFor B userId agreementId) (\<lambda>account.
     bnd (lendara_createSession B account fiatCurrency amount) (\<lambda>session.
     bnd (require (jtruthy (jget ''url'' session) \<and> jtruthy (jget ''id'' session)) (BadRequest (Msg ''Lendara did not return a usable session''))) (\<lambda>_.
     ret (session, account))))"

text \<open>A field the code uses as a string: absent or \<open>null\<close> is \<open>None\<close>, and any other type ends in a \<open>TypeError\<close> when a method is called.\<close>

definition text_field :: "json option \<Rightarrow> exn + string option" where
  "text_field v = (case v of None \<Rightarrow> Inr None | Some JNull \<Rightarrow> Inr None | Some (JStr s) \<Rightarrow> Inr (Some s) | _ \<Rightarrow> Inl (PlainError ''TypeError''))"

definition nullish_or :: "json option \<Rightarrow> json option \<Rightarrow> json option" where
  "nullish_or v u = (if v = None \<or> v = Some JNull then u else v)"

text \<open>A field tested for truth before it is used as a string.\<close>

definition truthy_text :: "json option \<Rightarrow> exn + string option" where
  "truthy_text v = (if jtruthy v then text_field v else Inr None)"

record ramp_check =
  rv_verified :: bool
  rv_reason :: "string option"
  rv_transaction :: "json option"
  rv_usable :: "bool option"

definition unverified :: "string \<Rightarrow> ramp_check" where
  "unverified reason = \<lparr>rv_verified = False, rv_reason = Some reason, rv_transaction = None, rv_usable = None\<rparr>"

definition DONE_STATUSES :: "string list" where
  "DONE_STATUSES = [''completed'', ''complete'', ''success'', ''succeeded'']"

definition matchesEscrowAsset :: "'s backend \<Rightarrow> json \<Rightarrow> exn + bool" where
  "matchesEscrowAsset B tx = (case truthy_text (jget ''amount_out_asset'' tx) of
     Inl e \<Rightarrow> Inl e
   | Inr asset \<Rightarrow> (case truthy_text (case issuerOf asset of Some i \<Rightarrow> Some (JStr i) | None \<Rightarrow> jget ''asset_issuer'' tx) of
       Inl e \<Rightarrow> Inl e
     | Inr issuer \<Rightarrow> Inr (truthy issuer \<and> toUpperCase (default issuer []) = toUpperCase (trustline_address B))))"

definition check_transaction :: "'s backend \<Rightarrow> string \<Rightarrow> json \<Rightarrow> exn + ramp_check" where
  "check_transaction B expectedAccount tx =
     (if tx = JNull then Inl (PlainError ''TypeError'')
      else case text_field (jget ''status'' tx) of
        Inl e \<Rightarrow> Inl e
      | Inr status \<Rightarrow>
          if \<not> js_includes DONE_STATUSES (toLowerCase (default status [])) then Inr (unverified (''The deposit is '' @ default status ''not finished''))
          else (case truthy_text (nullish_or (jget ''to'' tx) (nullish_or (jget ''destination'' tx) (jget ''account'' tx))) of
            Inl e \<Rightarrow> Inl e
          | Inr None \<Rightarrow> Inr (unverified ''Lendara did not report a destination account'')
          | Inr (Some destination) \<Rightarrow>
              if toUpperCase destination \<noteq> toUpperCase expectedAccount then Inr (unverified ''The deposit went to a different wallet'')
              else if \<not> jtruthy (jget ''stellar_transaction_id'' tx) then Inr (unverified ''Lendara did not report a Stellar transaction'')
              else (case matchesEscrowAsset B tx of
                Inl e \<Rightarrow> Inl e
              | Inr usable \<Rightarrow> Inr \<lparr>rv_verified = True, rv_reason = None, rv_transaction = jget ''stellar_transaction_id'' tx, rv_usable = Some usable\<rparr>)))"

definition ramp_verify :: "'s backend \<Rightarrow> string \<Rightarrow> string \<Rightarrow> string \<Rightarrow> ('s world, ramp_check) prog" where
  "ramp_verify B userId agreementId sessionId =
     bnd (destinationWalletFor B userId agreementId) (\<lambda>expectedAccount.
     bnd (getTransaction B sessionId) (\<lambda>tx.
     lift_exn (check_transaction B expectedAccount tx)))"

section \<open>What a deposit must show\<close>

definition delivered :: "string \<Rightarrow> json \<Rightarrow> bool" where
  "delivered account tx \<longleftrightarrow> (\<exists>s d. jget ''status'' tx = Some (JStr s) \<and> toLowerCase s \<in> set DONE_STATUSES \<and>
     nullish_or (jget ''to'' tx) (nullish_or (jget ''destination'' tx) (jget ''account'' tx)) = Some (JStr d) \<and> d \<noteq> [] \<and>
     toUpperCase d = toUpperCase account \<and> jtruthy (jget ''stellar_transaction_id'' tx))"

lemma text_field_Some: "text_field v = Inr (Some s) \<longleftrightarrow> v = Some (JStr s)"
  by (auto simp: text_field_def split: option.splits json.splits)

lemma text_field_None: "text_field v = Inr None \<longleftrightarrow> v = None \<or> v = Some JNull"
  by (auto simp: text_field_def split: option.splits json.splits)

lemma truthy_text_Some: "truthy_text v = Inr (Some s) \<longleftrightarrow> v = Some (JStr s) \<and> s \<noteq> []"
  by (auto simp: truthy_text_def text_field_Some)

lemma truthy_text_None: "truthy_text v = Inr None \<longleftrightarrow> \<not> jtruthy v"
  by (cases v) (auto simp: truthy_text_def text_field_None)

lemma check_transaction_exact:
  assumes "check_transaction B account tx = Inr v"
  shows "(rv_verified v \<longleftrightarrow> delivered account tx) \<and>
    (if rv_verified v then rv_transaction v = jget ''stellar_transaction_id'' tx \<and> map_sum id Some (matchesEscrowAsset B tx) = Inr (rv_usable v)
     else rv_reason v \<noteq> None \<and> rv_usable v = None)"
proof (cases "text_field (jget ''status'' tx)")
  case (Inl e)
  then show ?thesis using assms by (auto simp: check_transaction_def split: if_splits)
next
  case (Inr status)
  let ?d = "nullish_or (jget ''to'' tx) (nullish_or (jget ''destination'' tx) (jget ''account'' tx))"
  have tx: "tx \<noteq> JNull" using assms by (auto simp: check_transaction_def)
  have blank: "\<not> js_includes DONE_STATUSES (toLowerCase [])" by (simp add: DONE_STATUSES_def toLowerCase_def)
  show ?thesis
  proof (cases "js_includes DONE_STATUSES (toLowerCase (default status []))")
    case False
    then have "\<not> delivered account tx" using Inr by (auto simp: delivered_def text_field_def)
    then show ?thesis using False Inr tx assms by (auto simp: check_transaction_def unverified_def)
  next
    case True
    then obtain s where s: "jget ''status'' tx = Some (JStr s)" "status = Some s" "toLowerCase s \<in> set DONE_STATUSES"
      using Inr blank by (cases status) (auto simp: text_field_Some)
    show ?thesis
    proof (cases "truthy_text ?d")
      case (Inl e)
      then show ?thesis using assms Inr True tx by (simp add: check_transaction_def)
    next
      case d: (Inr destination)
      show ?thesis
      proof (cases destination)
        case None
        then have "\<not> jtruthy ?d" using d by (simp add: truthy_text_None)
        then have "\<not> delivered account tx" by (auto simp: delivered_def)
        then show ?thesis using None assms Inr True tx d by (auto simp: check_transaction_def unverified_def)
      next
        case (Some x)
        then have "?d = Some (JStr x)" "x \<noteq> []" using d by (simp_all add: truthy_text_Some)
        then have "delivered account tx \<longleftrightarrow> toUpperCase x = toUpperCase account \<and> jtruthy (jget ''stellar_transaction_id'' tx)"
          using s by (auto simp: delivered_def)
        then show ?thesis using Some assms Inr True tx d
          by (auto simp: check_transaction_def unverified_def split: if_splits sum.splits)
      qed
    qed
  qed
qed

text \<open>A request that opens a session: to the configured address, with the account, the currency and the amount as its body.\<close>

definition opens_session :: "'s backend \<Rightarrow> string \<Rightarrow> string \<Rightarrow> string \<Rightarrow> http_request \<Rightarrow> bool" where
  "opens_session B account currency amount q \<longleftrightarrow> rq_method q = ''POST'' \<and> rq_url q = lendara_baseUrl B @ ''/v1/sessions'' \<and>
     rq_body q = Some (JObj [(''account'', JStr account), (''fiat_currency'', JStr currency), (''amount'', JStr amount)])"

lemma session_opened: "opens_session B account currency amount (lendara_call B key ''POST'' ''/v1/sessions'' (Some (session_params account currency amount)))"
  by (simp add: opens_session_def lendara_call_def session_params_def)

context database begin

lemma wp_destinationWalletFor:
  assumes ok: "\<And>a s'. st s' = st (svc w) \<Longrightarrow> owns (st (svc w)) u a \<Longrightarrow> may_access (st (svc w)) u aid \<Longrightarrow> Q (Inr a) (w\<lparr>svc := s'\<rparr>)"
    and bad: "\<And>e s'. st s' = st (svc w) \<Longrightarrow> http_status e \<in> {400, 403, 404} \<Longrightarrow> Q (Inl e) (w\<lparr>svc := s'\<rparr>)"
  shows "wp (destinationWalletFor B u aid) Q w"
proof -
  have hd: "owns (st (svc w)) u (hd ws)" if "ws \<noteq> []" "\<And>a. a \<in> set ws \<Longrightarrow> owns (st (svc w)) u a" for ws using that by simp
  show ?thesis
    unfolding destinationWalletFor_def
    by (auto simp: wp_simps Let_def split: option.splits
        intro!: agreements_wp(2) wp_userCanAccessAgreement wp_resolveUserWallets participants_wp(1) ok bad hd)
qed

lemma wp_lendara_request:
  assumes refused: "\<And>m s' out. st s' = st (svc w) \<Longrightarrow> out = [] \<or> (\<exists>key answer. out = [(lendara_call B key meth path body, answer)]) \<Longrightarrow>
      Q (Inl (ServiceUnavailable m)) (w\<lparr>svc := s', sent := sent w @ out\<rparr>)"
    and ok: "\<And>key rp s'. st s' = st (svc w) \<Longrightarrow> 200 \<le> rp_status rp \<and> rp_status rp < 300 \<Longrightarrow>
      Q (Inr (response_data (rp_body rp))) (w\<lparr>svc := s', sent := sent w @ [(lendara_call B key meth path body, Inr rp)]\<rparr>)"
  shows "wp (lendara_request B meth path body) Q w"
proof (cases "lendara_apiKey B")
  case (Inl e)
  then show ?thesis using refused [of "svc w" "[]"] by (simp add: lendara_request_def wp_simps lift_exn_def)
next
  case (Inr key)
  show ?thesis
    unfolding lendara_request_def
    by (auto simp: wp_simps lift_exn_def Inr split: sum.split intro!: wp_fetch refused ok)
qed

end

section \<open>Properties\<close>

text \<open>
  (C27) USDC is bought only into an own wallet. Over any database, asking for a session changes no table and either is refused before anything is sent, or
  sends exactly one request: a \<open>POST\<close> that names, in its body, a wallet the user holds as the account and the currency and amount asked for, on
  behalf of an agreement the user takes part in; a session that is answered names that wallet and has a URL and an id.
\<close>

theorem session_pays_own_wallet:
  assumes "database B st" and "ramp_createSession B u aid currency amount w = (r, w')"
  shows "st (svc w') = st (svc w) \<and>
    (sent w' = sent w \<and> isl r \<or>
     (\<exists>account q answer.
        sent w' = sent w @ [(q, answer)] \<and> opens_session B account currency amount q \<and>
        owns (st (svc w)) u account \<and> may_access (st (svc w)) u aid \<and>
        (case r of Inl e \<Rightarrow> http_status e \<in> {400, 503} | Inr (session, x) \<Rightarrow>
           x = account \<and> jtruthy (jget ''url'' session) \<and> jtruthy (jget ''id'' session) \<and>
           (\<exists>rp. answer = Inr rp \<and> session = response_data (rp_body rp)))))"
proof -
  let ?P = "\<lambda>r w'. st (svc w') = st (svc w) \<and>
    (sent w' = sent w \<and> isl r \<or>
     (\<exists>account q answer.
        sent w' = sent w @ [(q, answer)] \<and> opens_session B account currency amount q \<and>
        owns (st (svc w)) u account \<and> may_access (st (svc w)) u aid \<and>
        (case r of Inl e \<Rightarrow> http_status e \<in> {400, 503} | Inr (session, x) \<Rightarrow>
           x = account \<and> jtruthy (jget ''url'' session) \<and> jtruthy (jget ''id'' session) \<and>
           (\<exists>rp. answer = Inr rp \<and> session = response_data (rp_body rp)))))"
  have "wp (ramp_createSession B u aid currency amount) ?P w"
    unfolding ramp_createSession_def wp_bnd [of "destinationWalletFor B u aid"]
  proof (rule database.wp_destinationWalletFor [OF assms(1)], goal_cases)
    case (1 a s')
    show ?case
      unfolding sum.case lendara_createSession_def wp_bnd [of "lendara_request B m p b" for m p b]
      by (rule database.wp_lendara_request [OF assms(1)]) (use 1 session_opened in \<open>fastforce simp: wp_simps\<close>)+
  qed auto
  from wpD [OF this assms(2)] show ?thesis .
qed


section \<open>Runs\<close>

definition ramp_user :: "string \<Rightarrow> string \<Rightarrow> auth_user" where
  "ramp_user u address = \<lparr>au_id = u, au_wallet = Some address, au_pollar_user_id = None, au_wallet_provider = None\<rparr>"

definition ramp_agreement :: "string \<Rightarrow> agreement" where
  "ramp_agreement i = \<lparr>a_id = i, a_contract_id = None, a_title = ''t'', a_description = None, a_amount = ''3'', a_asset = None, a_status = ''pending'', a_type = None,
     a_milestones = None, a_metadata = JNull, a_created_by = ''GA'', a_created_at = 1, a_updated_at = 1, a_funded_at = None, a_completed_at = None\<rparr>"

definition ramp_reply :: "http_request \<Rightarrow> json" where
  "ramp_reply rq = (if rq_method rq = ''POST'' then JObj [(''id'', JStr ''s1''), (''url'', JStr ''https://l'')]
     else JObj [(''status'', JStr ''Completed''), (''to'', JStr ''gb''), (''stellar_transaction_id'', JStr ''t1''), (''amount_out_asset'', JStr ''stellar:USDC:GI'')])"

definition ramp_world :: "mem world" where
  "ramp_world = world_on (no_tables\<lparr>t_users := [ramp_user ''U1'' ''GA'', ramp_user ''U2'' ''GB''], t_agreements := [ramp_agreement ''A1'', ramp_agreement ''A2''],
     t_participants := [\<lparr>p_id = ''p1'', p_agreement_id = ''A1'', p_wallet = ''GB'', p_role = Some ''payer''\<rparr>, \<lparr>p_id = ''p2'', p_agreement_id = ''A2'', p_wallet = ''GB'', p_role = Some ''payer''\<rparr>]\<rparr>)
     (quiet_env\<lparr>reply := (\<lambda>_ rq. Inr \<lparr>rp_status = 200, rp_body = Json (ramp_reply rq)\<rparr>)\<rparr>)"

abbreviation ramp_backend :: "mem backend" where
  "ramp_backend \<equiv> mem_backend (\<lambda>k. if k = ''TRUSTLINE_USDC_ADDRESS'' then Some ''gi'' else None)"

definition session_run :: "string \<Rightarrow> (exn + json \<times> string) \<times> mem world" where
  "session_run u = ramp_createSession ramp_backend u ''A1'' ''ARS'' ''10'' ramp_world"

definition verify_run :: "string \<Rightarrow> (exn + ramp_check) \<times> mem world" where
  "verify_run aid = ramp_verify ramp_backend ''U2'' aid ''s/1'' ramp_world"

lemma session_pays_own_wallet_witness:
  "map_sum id snd (fst (session_run ''U2'')) = Inr ''GB'' \<and>
   map_sum id snd (fst (session_run ''U1'')) = Inl (Forbidden ''Only the wallet funding this agreement can buy USDC for it'') \<and>
   owns (tabs (svc ramp_world)) ''U2'' ''GB''"
proof -
  have run: "ramp_createSession ramp_backend ''U2'' ''A1'' ''ARS'' ''10'' ramp_world = (fst (session_run ''U2''), snd (session_run ''U2''))"
    by (simp add: session_run_def)
  have r: "map_sum id snd (fst (session_run ''U2'')) = Inr ''GB''" by code_simp
  then obtain s where s: "fst (session_run ''U2'') = Inr (s, ''GB'')" by (cases "fst (session_run ''U2'')") auto
  have "owns (tabs (svc ramp_world)) ''U2'' ''GB''"
    using session_pays_own_wallet [OF mem.database_axioms run] by (auto simp: s)
  moreover have "map_sum id snd (fst (session_run ''U1'')) = Inl (Forbidden ''Only the wallet funding this agreement can buy USDC for it'')" by code_simp
  ultimately show ?thesis using r by blast
qed


text \<open>The session is not tied to the agreement: one deposit verifies two of them.\<close>

lemma one_deposit_two_agreements:
  "map_sum id rv_verified (fst (verify_run ''A1'')) = Inr True \<and> map_sum id rv_transaction (fst (verify_run ''A1'')) = map_sum id rv_transaction (fst (verify_run ''A2''))"
  by code_simp

text \<open>On mainnet without a key the answer is that Lendara could not be reached.\<close>

lemma missing_key_not_named:
  "getenv B ''STELLAR_NETWORK'' = Some ''public'' \<Longrightarrow> getenv B ''LENDARA_API_KEY'' = None \<Longrightarrow>
     lendara_request B meth path body w = (Inl (ServiceUnavailable ''Could not reach Lendara. Try again in a moment.''), w)"
  by (simp add: lendara_request_def lendara_apiKey_def isMainnet_def toLowerCase_def lower_char_def or_else_def truthy_def Let_def lift_exn_def prog_simps)

end
