(* ===== verification/JobQueue.thy ===== *)
theory JobQueue
  imports Relay
begin

text \<open>
  \<open>common/retry/retry-queue.service.ts\<close>: the retry queue in memory, which the milestone sync uses. Its methods and the pieces of \<open>processDueJobs\<close> between two
  \<open>await\<close>s are functions on the state of the service, and the service is any interleaving of them: while a handler runs, jobs may be
  added, retried, listed and cleared, and the timer may fire again. The outcome of a handler is an argument. \<open>Date\<close>s beyond 8.64e15 ms are invalid.
\<close>

section \<open>State\<close>

datatype job_status = Queued | Processing | Completed | Failed

record 'p queue_job =
  qj_id :: string
  qj_type :: string
  qj_payload :: 'p
  qj_retry_count :: int
  qj_max_retries :: int
  qj_last_error :: "string option"
  qj_next :: "int option"
  qj_created :: "int option"
  qj_status :: job_status

datatype retry_event =
    JobCompleted string string
  | JobFailed string string string
  | MaxRetriesReached string string string

text \<open>\<open>mq_due\<close> holds what is left of the \<open>for\<close> loop over the due jobs, \<open>mq_running\<close> the job whose handler is awaited.\<close>

record 'p job_queue =
  mq_jobs :: "'p queue_job list"
  mq_handlers :: "string list"
  mq_processing :: bool
  mq_destroyed :: bool
  mq_due :: "string list"
  mq_running :: "string option"
  mq_counter :: nat
  mq_events :: "retry_event list"

definition new_queue :: "nat \<Rightarrow> 'p job_queue" where
  "new_queue n = \<lparr>mq_jobs = [], mq_handlers = [], mq_processing = False, mq_destroyed = False, mq_due = [], mq_running = None, mq_counter = n, mq_events = []\<rparr>"

section \<open>Operations\<close>

definition js_date :: "int \<Rightarrow> int option" where
  "js_date t = (if \<bar>t\<bar> \<le> 8640000000000000 then Some t else None)"

definition date_le :: "int option \<Rightarrow> int option \<Rightarrow> bool" where
  "date_le a b \<longleftrightarrow> (case (a, b) of (Some x, Some y) \<Rightarrow> x \<le> y | _ \<Rightarrow> False)"

text \<open>\<open>n.toString(36)\<close> and the id of a job: the type made safe and cut, the time and the counter.\<close>

definition lower36_digit :: "nat \<Rightarrow> char" where
  "lower36_digit n = char_of (if n < 10 then 48 + n else 87 + n)"

fun lower36 :: "nat \<Rightarrow> string" where
  "lower36 n = (if n < 36 then [lower36_digit n] else lower36 (n div 36) @ [lower36_digit (n mod 36)])"

declare lower36.simps [simp del]

definition alnum :: "char \<Rightarrow> bool" where
  "alnum c \<longleftrightarrow> (let n = (of_char c :: nat) in 48 \<le> n \<and> n \<le> 57 \<or> 65 \<le> n \<and> n \<le> 90 \<or> 97 \<le> n \<and> n \<le> 122)"

definition generateId :: "string \<Rightarrow> nat \<Rightarrow> nat \<Rightarrow> string" where
  "generateId type t counter =
     take 12 (map (\<lambda>c. if alnum c then c else CHR ''_'') type) @ ''_'' @ lower36 t @ ''_'' @ lower36 counter"

definition mq_registerHandler :: "string \<Rightarrow> 'p job_queue \<Rightarrow> 'p job_queue" where
  "mq_registerHandler type q = q\<lparr>mq_handlers := (if js_includes (mq_handlers q) type then mq_handlers q else mq_handlers q @ [type])\<rparr>"

definition mq_enqueue :: "string \<Rightarrow> 'p \<Rightarrow> int option \<Rightarrow> nat \<Rightarrow> 'p job_queue \<Rightarrow> string \<times> 'p job_queue" where
  "mq_enqueue type payload maxRetries t q =
     (let n = Suc (mq_counter q); i = generateId type t n;
          job = \<lparr>qj_id = i, qj_type = type, qj_payload = payload, qj_retry_count = 0, qj_max_retries = default maxRetries 3, qj_last_error = None,
            qj_next = js_date (int t), qj_created = js_date (int t), qj_status = Queued\<rparr>
      in (i, q\<lparr>mq_jobs := mq_jobs q @ [job], mq_counter := n\<rparr>))"

text \<open>The milestone sync puts its pushes into this queue.\<close>

definition MILESTONE_SYNC_JOB_TYPE :: string where
  "MILESTONE_SYNC_JOB_TYPE = ''milestone_sync''"

definition enqueueRetry :: "milestone_sync_payload \<Rightarrow> int option \<Rightarrow> nat \<Rightarrow> milestone_sync_payload job_queue \<Rightarrow> string \<times> milestone_sync_payload job_queue" where
  "enqueueRetry payload maxRetries t q = mq_enqueue MILESTONE_SYNC_JOB_TYPE payload maxRetries t q"

definition mq_getJob :: "string \<Rightarrow> 'p job_queue \<Rightarrow> 'p queue_job option" where
  "mq_getJob i q = List.find (\<lambda>j. qj_id j = i) (mq_jobs q)"

definition mq_hasJob :: "string \<Rightarrow> 'p job_queue \<Rightarrow> bool" where
  "mq_hasJob i q \<longleftrightarrow> mq_getJob i q \<noteq> None"

definition change_job :: "string \<Rightarrow> ('p queue_job \<Rightarrow> 'p queue_job) \<Rightarrow> 'p job_queue \<Rightarrow> 'p job_queue" where
  "change_job i f q = q\<lparr>mq_jobs := update_where (\<lambda>j. qj_id j = i) f (mq_jobs q)\<rparr>"

definition requeued :: "nat \<Rightarrow> 'p queue_job \<Rightarrow> 'p queue_job" where
  "requeued t j = j\<lparr>qj_retry_count := 0, qj_status := Queued, qj_last_error := None, qj_next := js_date (int t)\<rparr>"

definition mq_retryJob :: "string \<Rightarrow> nat \<Rightarrow> 'p job_queue \<Rightarrow> bool \<times> 'p job_queue" where
  "mq_retryJob i t q = (case mq_getJob i q of
     None \<Rightarrow> (False, q)
   | Some j \<Rightarrow> if qj_status j \<noteq> Failed then (False, q) else (True, change_job i (requeued t) q))"

definition mq_listJobs :: "job_status option \<Rightarrow> 'p job_queue \<Rightarrow> 'p queue_job list" where
  "mq_listJobs s q = (case s of None \<Rightarrow> mq_jobs q | Some x \<Rightarrow> filter (\<lambda>j. qj_status j = x) (mq_jobs q))"

definition settled_job :: "'p queue_job \<Rightarrow> bool" where
  "settled_job j \<longleftrightarrow> qj_status j = Completed \<or> qj_status j = Failed"

definition mq_clearCompleted :: "'p job_queue \<Rightarrow> nat \<times> 'p job_queue" where
  "mq_clearCompleted q = (length (filter settled_job (mq_jobs q)), q\<lparr>mq_jobs := filter (\<lambda>j. \<not> settled_job j) (mq_jobs q)\<rparr>)"

definition mq_destroy :: "'p job_queue \<Rightarrow> 'p job_queue" where
  "mq_destroy q = q\<lparr>mq_destroyed := True\<rparr>"

section \<open>Processing\<close>

text \<open>The loop ends when nothing is left of it; then the flag is reset.\<close>

definition loop_end :: "'p job_queue \<Rightarrow> 'p job_queue" where
  "loop_end q = (if mq_due q = [] then q\<lparr>mq_processing := False\<rparr> else q)"

definition due_now :: "nat \<Rightarrow> 'p queue_job \<Rightarrow> bool" where
  "due_now t j \<longleftrightarrow> qj_status j = Queued \<and> date_le (qj_next j) (js_date (int t))"

text \<open>The timer, up to the first job.\<close>

definition mq_poll :: "nat \<Rightarrow> 'p job_queue \<Rightarrow> 'p job_queue" where
  "mq_poll t q = (if mq_destroyed q \<or> mq_processing q then q
     else loop_end (q\<lparr>mq_processing := True, mq_due := map qj_id (filter (due_now t) (mq_jobs q))\<rparr>))"

text \<open>The next job of the loop, up to the call of its handler; without one it waits a minute.\<close>

definition mq_start :: "nat \<Rightarrow> 'p job_queue \<Rightarrow> 'p job_queue" where
  "mq_start t q = (case (mq_running q, mq_due q) of
     (None, i # rest) \<Rightarrow> (case mq_getJob i q of
        None \<Rightarrow> q
      | Some j \<Rightarrow> if \<not> js_includes (mq_handlers q) (qj_type j)
          then loop_end (change_job i (\<lambda>x. x\<lparr>qj_next := js_date (int t + 60000)\<rparr>) (q\<lparr>mq_due := rest\<rparr>))
          else change_job i (\<lambda>x. x\<lparr>qj_status := Processing\<rparr>) (q\<lparr>mq_due := rest, mq_running := Some i\<rparr>))
   | _ \<Rightarrow> q)"

text \<open>What the handler came to: success, a result without it, or an exception.\<close>

datatype outcome = Succeeded | Refused "string option" | Threw string

definition outcome_error :: "outcome \<Rightarrow> string" where
  "outcome_error x = (case x of Refused e \<Rightarrow> default e ''Unknown handler error'' | Threw m \<Rightarrow> m | Succeeded \<Rightarrow> [])"

definition backoff_delay :: "int \<Rightarrow> int" where
  "backoff_delay retryCount = 2000 * 4 ^ nat (retryCount - 1)"

definition failed_attempt :: "string \<Rightarrow> nat \<Rightarrow> 'p queue_job \<Rightarrow> 'p queue_job" where
  "failed_attempt message t j =
     (let n = qj_retry_count j + 1; k = j\<lparr>qj_retry_count := n, qj_last_error := Some message\<rparr>
      in if qj_max_retries j \<le> n then k\<lparr>qj_status := Failed\<rparr>
         else k\<lparr>qj_next := js_date (int t + backoff_delay n), qj_status := Queued\<rparr>)"

definition attempt_event :: "string \<Rightarrow> 'p queue_job \<Rightarrow> retry_event" where
  "attempt_event message j =
     (if qj_max_retries j \<le> qj_retry_count j + 1 then MaxRetriesReached (qj_id j) (qj_type j) message else JobFailed (qj_id j) (qj_type j) message)"

text \<open>
  The events \<open>retry.job.*\<close> have no listener in the program, so emitting one inside the \<open>try\<close> runs no code that could throw.
\<close>

definition mq_finish :: "outcome \<Rightarrow> nat \<Rightarrow> 'p job_queue \<Rightarrow> 'p job_queue" where
  "mq_finish x t q = (case mq_running q of
     None \<Rightarrow> q
   | Some i \<Rightarrow> (case mq_getJob i q of
       None \<Rightarrow> q
     | Some j \<Rightarrow> loop_end (if x = Succeeded
         then change_job i (\<lambda>k. k\<lparr>qj_status := Completed\<rparr>) (q\<lparr>mq_running := None, mq_events := mq_events q @ [JobCompleted i (qj_type j)]\<rparr>)
         else change_job i (failed_attempt (outcome_error x) t)
           (q\<lparr>mq_running := None, mq_events := mq_events q @ [attempt_event (outcome_error x) j]\<rparr>))))"

section \<open>Interleavings\<close>

datatype 'p queue_action =
    RegisterHandler string
  | Enqueue string 'p "int option" nat
  | RetryJob string nat
  | ClearCompleted
  | Destroy
  | Poll nat
  | Start nat
  | Finish outcome nat

definition queue_act :: "'p queue_action \<Rightarrow> 'p job_queue \<Rightarrow> 'p job_queue" where
  "queue_act a q = (case a of
     RegisterHandler type \<Rightarrow> mq_registerHandler type q
   | Enqueue type payload m t \<Rightarrow> snd (mq_enqueue type payload m t q)
   | RetryJob i t \<Rightarrow> snd (mq_retryJob i t q)
   | ClearCompleted \<Rightarrow> snd (mq_clearCompleted q)
   | Destroy \<Rightarrow> mq_destroy q
   | Poll t \<Rightarrow> mq_poll t q
   | Start t \<Rightarrow> mq_start t q
   | Finish x t \<Rightarrow> mq_finish x t q)"

definition queue_run :: "'p queue_action list \<Rightarrow> 'p job_queue \<Rightarrow> 'p job_queue" where
  "queue_run = fold queue_act"

section \<open>Ids are fresh\<close>

definition digit36 :: "char \<Rightarrow> nat" where
  "digit36 c = (let n = of_char c in if 97 \<le> n then n - 87 else n - 48)"

definition value36 :: "string \<Rightarrow> nat" where
  "value36 s = foldl (\<lambda>a c. 36 * a + digit36 c) 0 s"

lemma digit36_lower36 [simp]: "n < 36 \<Longrightarrow> digit36 (lower36_digit n) = n"
  by (simp add: digit36_def lower36_digit_def Let_def)

lemma value36_lower36: "value36 (lower36 n) = n"
proof (induction n rule: lower36.induct)
  case (1 n)
  then show ?case by (subst lower36.simps) (simp add: value36_def)
qed

lemma lower36_digit_plain: "n < 36 \<Longrightarrow> lower36_digit n \<noteq> CHR ''_''"
  by (auto simp: lower36_digit_def dest!: arg_cong [of _ _ "of_char :: char \<Rightarrow> nat"])

lemma lower36_plain: "CHR ''_'' \<notin> set (lower36 n)"
proof (induction n rule: lower36.induct)
  case (1 n)
  then show ?case using lower36_digit_plain [of n] lower36_digit_plain [of "n mod 36"] by (subst lower36.simps) auto
qed

lemma generateId_fresh:
  assumes "generateId a t m = generateId b u n"
  shows "m = n"
proof -
  have tail: "takeWhile (\<lambda>c. c \<noteq> CHR ''_'') (rev (generateId c v k)) = rev (lower36 k)" for c v k
    using lower36_plain [of k] by (simp add: generateId_def takeWhile_append2 takeWhile_tail) (metis takeWhile_append2 append_Nil2 set_rev takeWhile.simps(2))
  have "lower36 m = lower36 n" using assms tail [of a t m] tail [of b u n] by simp
  then show ?thesis by (metis value36_lower36)
qed

section \<open>The invariant\<close>

definition attempts_ok :: "'p queue_job \<Rightarrow> bool" where
  "attempts_ok j \<longleftrightarrow> 0 \<le> qj_retry_count j \<and>
     (if qj_status j = Failed then qj_retry_count j = max 1 (qj_max_retries j) \<and> qj_last_error j \<noteq> None
      else qj_retry_count j < max 1 (qj_max_retries j))"

definition issued :: "nat \<Rightarrow> string \<Rightarrow> bool" where
  "issued n i \<longleftrightarrow> (\<exists>type t k. i = generateId type t k \<and> k \<le> n)"

definition jobs_ok :: "'p job_queue \<Rightarrow> bool" where
  "jobs_ok q \<longleftrightarrow> distinct (map qj_id (mq_jobs q)) \<and> (\<forall>j \<in> set (mq_jobs q). attempts_ok j \<and> issued (mq_counter q) (qj_id j))"

definition due_ok :: "'p job_queue \<Rightarrow> bool" where
  "due_ok q \<longleftrightarrow> distinct (mq_due q) \<and> (\<forall>i \<in> set (mq_due q). \<exists>j \<in> set (mq_jobs q). qj_id j = i \<and> qj_status j = Queued)"

definition run_ok :: "'p job_queue \<Rightarrow> bool" where
  "run_ok q \<longleftrightarrow> (\<forall>j \<in> set (mq_jobs q). qj_status j = Processing \<longleftrightarrow> mq_running q = Some (qj_id j)) \<and>
     (\<forall>i. mq_running q = Some i \<longrightarrow> (\<exists>j \<in> set (mq_jobs q). qj_id j = i))"

definition flag_ok :: "'p job_queue \<Rightarrow> bool" where
  "flag_ok q \<longleftrightarrow> (mq_processing q \<longleftrightarrow> mq_running q \<noteq> None \<or> mq_due q \<noteq> [])"

definition loop_ok :: "'p job_queue \<Rightarrow> bool" where
  "loop_ok q \<longleftrightarrow> due_ok q \<and> run_ok q \<and> flag_ok q"

lemmas loop_ok_parts = loop_ok_def due_ok_def run_ok_def flag_ok_def

definition completions :: "string \<Rightarrow> 'p job_queue \<Rightarrow> nat" where
  "completions i q = length (filter (\<lambda>e. case e of JobCompleted k _ \<Rightarrow> k = i | _ \<Rightarrow> False) (mq_events q))"

definition events_ok :: "'p job_queue \<Rightarrow> bool" where
  "events_ok q \<longleftrightarrow> (\<forall>i. completions i q \<le> 1 \<and>
     (completions i q = 1 \<longrightarrow> issued (mq_counter q) i \<and> (\<forall>j \<in> set (mq_jobs q). qj_id j = i \<longrightarrow> qj_status j = Completed)))"

definition queue_ok :: "'p job_queue \<Rightarrow> bool" where
  "queue_ok q \<longleftrightarrow> jobs_ok q \<and> loop_ok q \<and> events_ok q"

lemma getJob_Some: "mq_getJob i q = Some j \<Longrightarrow> j \<in> set (mq_jobs q) \<and> qj_id j = i"
  by (auto simp: mq_getJob_def find_Some_iff)

lemma getJob_None: "mq_getJob i q = None \<longleftrightarrow> (\<forall>j \<in> set (mq_jobs q). qj_id j \<noteq> i)"
  by (auto simp: mq_getJob_def find_None_iff)

lemma job_unique: "jobs_ok q \<Longrightarrow> j \<in> set (mq_jobs q) \<Longrightarrow> k \<in> set (mq_jobs q) \<Longrightarrow> qj_id j = qj_id k \<Longrightarrow> j = k"
  by (auto simp: jobs_ok_def distinct_map dest: inj_onD)

lemma changed_jobs:
  assumes "jobs_ok q" and "mq_getJob i q = Some j"
  shows "set (mq_jobs (change_job i f q)) = insert (f j) (set (mq_jobs q) - {j})"
proof -
  have "{r \<in> set (mq_jobs q). qj_id r \<noteq> i} = set (mq_jobs q) - {j}" "{r \<in> set (mq_jobs q). qj_id r = i} = {j}"
    using getJob_Some [OF assms(2)] job_unique [OF assms(1)] by auto
  then show ?thesis by (simp add: change_job_def set_update_where)
qed

lemma change_job_simps [simp]:
  "mq_handlers (change_job i f q) = mq_handlers q" "mq_processing (change_job i f q) = mq_processing q"
  "mq_destroyed (change_job i f q) = mq_destroyed q" "mq_due (change_job i f q) = mq_due q" "mq_running (change_job i f q) = mq_running q"
  "mq_counter (change_job i f q) = mq_counter q" "mq_events (change_job i f q) = mq_events q"
  by (simp_all add: change_job_def)

lemma changed_ids: "(\<And>j. qj_id (f j) = qj_id j) \<Longrightarrow> map qj_id (mq_jobs (change_job i f q)) = map qj_id (mq_jobs q)"
  by (simp add: change_job_def map_key_update_where)

lemma jobs_ok_change:
  assumes "jobs_ok q" and "mq_getJob i q = Some j" and "\<And>j. qj_id (f j) = qj_id j" and "attempts_ok (f j)"
  shows "jobs_ok (change_job i f q)"
  using assms changed_jobs [OF assms(1,2)] changed_ids [OF assms(3), of i q] getJob_Some [OF assms(2)] by (auto simp: jobs_ok_def)

lemma issued_mono: "issued n i \<Longrightarrow> n \<le> m \<Longrightarrow> issued m i"
  by (auto simp: issued_def intro: le_trans)

lemma not_issued: "\<not> issued n (generateId type t (Suc n))"
  using generateId_fresh by (fastforce simp: issued_def)

section \<open>Every action keeps it\<close>

lemma queue_ok_new: "queue_ok (new_queue n)"
  by (simp add: queue_ok_def jobs_ok_def loop_ok_parts events_ok_def completions_def new_queue_def)

lemma queue_ok_register: "queue_ok q \<Longrightarrow> queue_ok (mq_registerHandler type q)"
  by (simp add: queue_ok_def jobs_ok_def loop_ok_parts events_ok_def completions_def mq_registerHandler_def)

lemma queue_ok_enqueue:
  assumes "queue_ok q"
  shows "queue_ok (snd (mq_enqueue type payload m t q))"
proof -
  define i where "i = generateId type t (Suc (mq_counter q))"
  have new: "\<not> issued (mq_counter q) i" unfolding i_def by (rule not_issued)
  then have fresh: "\<forall>j \<in> set (mq_jobs q). qj_id j \<noteq> i" and run: "mq_running q \<noteq> Some i" and none: "completions i q \<noteq> 1"
    using assms by (auto simp: queue_ok_def jobs_ok_def loop_ok_parts events_ok_def)
  define job where "job = \<lparr>qj_id = i, qj_type = type, qj_payload = payload, qj_retry_count = 0, qj_max_retries = default m 3, qj_last_error = None,
    qj_next = js_date (int t), qj_created = js_date (int t), qj_status = Queued\<rparr>"
  define q' where "q' = q\<lparr>mq_jobs := mq_jobs q @ [job], mq_counter := Suc (mq_counter q)\<rparr>"
  have ok: "jobs_ok q" "due_ok q" "run_ok q" "flag_ok q" "events_ok q" using assms by (simp_all add: queue_ok_def loop_ok_def)
  have job: "qj_id job = i" "qj_status job = Queued" "attempts_ok job" by (simp_all add: job_def attempts_ok_def)
  have jobs: "set (mq_jobs q') = insert job (set (mq_jobs q))" by (simp add: q'_def)
  have same: "mq_due q' = mq_due q" "mq_running q' = mq_running q" "mq_processing q' = mq_processing q" "mq_counter q' = Suc (mq_counter q)"
    "mq_events q' = mq_events q" by (simp_all add: q'_def)
  have mono: "issued (mq_counter q) x \<Longrightarrow> issued (Suc (mq_counter q)) x" for x by (erule issued_mono) simp
  have "issued (Suc (mq_counter q)) i" by (auto simp: issued_def i_def)
  then have "jobs_ok q'" using ok(1) fresh mono by (auto simp: jobs_ok_def q'_def job)
  moreover have "due_ok q'" using ok(2) by (auto simp: due_ok_def jobs same)
  moreover have "run_ok q'" using ok(3) run by (auto simp: run_ok_def jobs same job)
  moreover have "flag_ok q'" using ok(4) by (simp add: flag_ok_def same)
  moreover have "events_ok q'"
  proof -
    have "completions x q' = completions x q" for x by (simp add: completions_def same)
    then show ?thesis using ok(5) none mono unfolding events_ok_def by (auto simp: jobs same job)
  qed
  ultimately have "queue_ok q'" by (simp add: queue_ok_def loop_ok_def)
  then show ?thesis by (simp add: mq_enqueue_def Let_def q'_def job_def i_def)
qed

lemma queue_ok_clear: "queue_ok q \<Longrightarrow> queue_ok (snd (mq_clearCompleted q))"
proof -
  assume ok: "queue_ok q"
  define q' where "q' = q\<lparr>mq_jobs := filter (\<lambda>j. \<not> settled_job j) (mq_jobs q)\<rparr>"
  have jobs: "set (mq_jobs q') = {j \<in> set (mq_jobs q). \<not> settled_job j}" by (simp add: q'_def)
  have same: "mq_due q' = mq_due q" "mq_running q' = mq_running q" "mq_processing q' = mq_processing q" "mq_counter q' = mq_counter q"
    "mq_events q' = mq_events q" by (simp_all add: q'_def)
  have live: "\<not> settled_job j" if "qj_status j = Queued \<or> qj_status j = Processing" for j :: "'a queue_job"
    using that by (auto simp: settled_job_def)
  have "distinct (map qj_id (mq_jobs q'))" using ok by (simp add: q'_def queue_ok_def jobs_ok_def distinct_map_filter)
  then have "jobs_ok q'" using ok by (simp add: jobs same queue_ok_def jobs_ok_def)
  moreover have "due_ok q'" using ok live by (fastforce simp: jobs same queue_ok_def loop_ok_def due_ok_def)
  moreover have "run_ok q'"
  proof -
    have run: "run_ok q" using ok by (simp add: queue_ok_def loop_ok_def)
    have "\<exists>j \<in> set (mq_jobs q'). qj_id j = i" if i: "mq_running q = Some i" for i
    proof -
      obtain j where "j \<in> set (mq_jobs q)" "qj_id j = i" using run i by (auto simp: run_ok_def)
      moreover then have "qj_status j = Processing" using run i by (simp add: run_ok_def)
      ultimately show ?thesis using live by (auto simp: jobs)
    qed
    then show ?thesis using run by (simp add: run_ok_def jobs same)
  qed
  moreover have "flag_ok q'" using ok by (simp add: same queue_ok_def loop_ok_def flag_ok_def)
  moreover have "events_ok q'" using ok by (simp add: jobs same queue_ok_def events_ok_def completions_def)
  ultimately have "queue_ok q'" by (simp add: queue_ok_def loop_ok_def)
  then show ?thesis by (simp add: mq_clearCompleted_def q'_def)
qed

lemma queue_ok_destroy: "queue_ok q \<Longrightarrow> queue_ok (mq_destroy q)"
  by (simp add: queue_ok_def jobs_ok_def loop_ok_parts events_ok_def completions_def mq_destroy_def)

lemma jobs_ok_loop_end [simp]: "jobs_ok (loop_end q) = jobs_ok q"
  by (simp add: jobs_ok_def loop_end_def)

lemma events_ok_loop_end [simp]: "events_ok (loop_end q) = events_ok q"
  by (simp add: events_ok_def completions_def loop_end_def)

lemma jobs_of_loop_end [simp]: "mq_jobs (loop_end q) = mq_jobs q" "mq_due (loop_end q) = mq_due q" "mq_running (loop_end q) = mq_running q"
  by (simp_all add: loop_end_def)

lemma queue_ok_poll:
  assumes "queue_ok q"
  shows "queue_ok (mq_poll t q)"
proof (cases "mq_destroyed q \<or> mq_processing q")
  case True
  then show ?thesis using assms by (simp add: mq_poll_def)
next
  case False
  let ?due = "map qj_id (filter (due_now t) (mq_jobs q))"
  have idle: "mq_running q = None" "mq_due q = []" using False assms by (auto simp: queue_ok_def loop_ok_parts)
  have "distinct ?due" using assms by (simp add: queue_ok_def jobs_ok_def distinct_map_filter)
  moreover have "\<forall>i \<in> set ?due. \<exists>j \<in> set (mq_jobs q). qj_id j = i \<and> qj_status j = Queued" by (auto simp: due_now_def)
  ultimately have "loop_ok (mq_poll t q)"
    using False idle assms by (auto simp: mq_poll_def loop_ok_parts loop_end_def queue_ok_def)
  then show ?thesis using assms False
    by (simp add: queue_ok_def mq_poll_def) (simp add: jobs_ok_def events_ok_def completions_def)
qed

lemma due_ok_change:
  assumes "jobs_ok q" and "mq_getJob i q = Some j" and "\<And>k. qj_id (f k) = qj_id k" and "due_ok q" and "i \<notin> set (mq_due q)"
  shows "due_ok (change_job i f q)"
proof -
  have "\<exists>k \<in> set (mq_jobs (change_job i f q)). qj_id k = x \<and> qj_status k = Queued" if x: "x \<in> set (mq_due q)" for x
  proof -
    obtain k where "k \<in> set (mq_jobs q)" "qj_id k = x" "qj_status k = Queued" using assms(4) x by (auto simp: due_ok_def)
    moreover have "k \<noteq> j" using calculation x assms(5) getJob_Some [OF assms(2)] by auto
    ultimately show ?thesis using changed_jobs [OF assms(1,2), of f] by auto
  qed
  then show ?thesis using assms(4) by (simp add: due_ok_def)
qed

lemma run_ok_change:
  assumes "jobs_ok q" and "mq_getJob i q = Some j" and "\<And>k. qj_id (f k) = qj_id k" and "run_ok q"
    and "qj_status (f j) = Processing \<longleftrightarrow> mq_running q = Some i"
  shows "run_ok (change_job i f q)"
proof -
  note set = changed_jobs [OF assms(1,2), of f] and j = getJob_Some [OF assms(2)]
  have "\<forall>k \<in> set (mq_jobs (change_job i f q)). qj_status k = Processing \<longleftrightarrow> mq_running q = Some (qj_id k)"
    using assms(3,4,5) j unfolding set by (auto simp: run_ok_def)
  moreover have "\<exists>k \<in> set (mq_jobs (change_job i f q)). qj_id k = x" if "mq_running q = Some x" for x
  proof -
    have "x \<in> qj_id ` set (mq_jobs q)" using assms(4) that by (auto simp: run_ok_def)
    then have "x \<in> set (map qj_id (mq_jobs (change_job i f q)))" by (simp add: changed_ids [OF assms(3)])
    then show ?thesis by auto
  qed
  ultimately show ?thesis by (simp add: run_ok_def)
qed

lemma queue_ok_retry:
  assumes "queue_ok q"
  shows "queue_ok (snd (mq_retryJob i t q))"
proof (cases "mq_getJob i q")
  case None
  then show ?thesis using assms by (simp add: mq_retryJob_def)
next
  case (Some j)
  note j = getJob_Some [OF Some]
  show ?thesis
  proof (cases "qj_status j = Failed")
    case False
    then show ?thesis using Some assms by (simp add: mq_retryJob_def)
  next
    case True
    have ok: "jobs_ok q" "loop_ok q" "events_ok q" using assms by (simp_all add: queue_ok_def)
    have id: "qj_id (requeued t k) = qj_id k" and status: "qj_status (requeued t k) = Queued" for k by (simp_all add: requeued_def)
    have "jobs_ok (change_job i (requeued t) q)"
      by (rule jobs_ok_change [OF ok(1) Some id]) (simp add: requeued_def attempts_ok_def)
    moreover note set = changed_jobs [OF ok(1) Some, of "requeued t"]
    have "i \<notin> set (mq_due q)" "mq_running q \<noteq> Some i"
      using ok(2) j True job_unique [OF ok(1)] by (fastforce simp: loop_ok_parts)+
    then have "due_ok (change_job i (requeued t) q)" "run_ok (change_job i (requeued t) q)"
      using ok(2) by (simp_all add: due_ok_change [OF ok(1) Some id] run_ok_change [OF ok(1) Some id] loop_ok_def status)
    moreover have "flag_ok (change_job i (requeued t) q)" using ok(2) by (simp add: loop_ok_def flag_ok_def)
    moreover have "events_ok (change_job i (requeued t) q)"
      using ok(3) j True unfolding events_ok_def set by (auto simp: requeued_def completions_def)
    ultimately show ?thesis using Some True by (simp add: mq_retryJob_def queue_ok_def loop_ok_def)
  qed
qed

text \<open>A job of the loop that is taken out of it.\<close>

lemma queue_ok_take:
  assumes "jobs_ok q" and "due_ok q" and "mq_due q = i # rest"
  shows "due_ok (q\<lparr>mq_due := rest, mq_running := r\<rparr>)" "i \<notin> set rest" "\<exists>j. mq_getJob i q = Some j \<and> qj_status j = Queued"
proof -
  show "due_ok (q\<lparr>mq_due := rest, mq_running := r\<rparr>)" "i \<notin> set rest" using assms(2,3) by (simp_all add: due_ok_def)
  obtain j where j: "j \<in> set (mq_jobs q)" "qj_id j = i" "qj_status j = Queued" using assms(2,3) by (auto simp: due_ok_def)
  then obtain k where k: "mq_getJob i q = Some k" using getJob_None [of i q] by (cases "mq_getJob i q") auto
  then show "\<exists>j. mq_getJob i q = Some j \<and> qj_status j = Queued" using job_unique [OF assms(1)] getJob_Some [OF k] j by metis
qed

lemma events_ok_change:
  assumes "jobs_ok q" and "mq_getJob i q = Some j" and "\<And>k. qj_id (f k) = qj_id k" and "events_ok q" and "qj_status j \<noteq> Completed"
  shows "events_ok (change_job i f q)"
proof -
  note set = changed_jobs [OF assms(1,2), of f] and j = getJob_Some [OF assms(2)]
  have "completions i q \<noteq> 1" using assms(4,5) j by (auto simp: events_ok_def)
  then show ?thesis using assms(3,4) j unfolding events_ok_def set by (auto simp: completions_def)
qed

lemma queue_ok_start:
  assumes "queue_ok q"
  shows "queue_ok (mq_start t q)"
proof (cases "mq_running q = None \<and> mq_due q \<noteq> []")
  case False
  then show ?thesis using assms by (auto simp: mq_start_def split: option.splits list.splits)
next
  case True
  then obtain i rest where due: "mq_due q = i # rest" and idle: "mq_running q = None" by (auto simp: neq_Nil_conv)
  have ok: "jobs_ok q" "due_ok q" "run_ok q" "flag_ok q" "events_ok q" using assms by (simp_all add: queue_ok_def loop_ok_def)
  note take = queue_ok_take [OF ok(1,2) due]
  obtain j where j: "mq_getJob i q = Some j" "qj_status j = Queued" using take(3) by blast
  have aj: "attempts_ok j" using ok(1) getJob_Some [OF j(1)] by (simp add: jobs_ok_def)
  show ?thesis
  proof (cases "js_includes (mq_handlers q) (qj_type j)")
    case False
    let ?q = "q\<lparr>mq_due := rest\<rparr>" and ?f = "\<lambda>x. x\<lparr>qj_next := js_date (int t + 60000)\<rparr>"
    have q: "jobs_ok ?q" "mq_getJob i ?q = Some j" "due_ok ?q" "run_ok ?q" "events_ok ?q"
      using ok j(1) take(1) [of "mq_running q"] by (simp_all add: jobs_ok_def run_ok_def events_ok_def completions_def mq_getJob_def)
    have "jobs_ok (change_job i ?f ?q)" by (rule jobs_ok_change [OF q(1,2)]) (use aj j(2) in \<open>simp_all add: attempts_ok_def\<close>)
    moreover have "due_ok (change_job i ?f ?q)" by (rule due_ok_change [OF q(1,2) _ q(3)]) (use take(2) in simp_all)
    moreover have "run_ok (change_job i ?f ?q)" by (rule run_ok_change [OF q(1,2) _ q(4)]) (use j(2) idle in simp_all)
    moreover have "events_ok (change_job i ?f ?q)" by (rule events_ok_change [OF q(1,2) _ q(5)]) (use j(2) in simp_all)
    ultimately have "queue_ok (loop_end (change_job i ?f ?q))"
      using ok(4) idle due by (simp add: queue_ok_def loop_ok_def due_ok_def run_ok_def) (simp add: flag_ok_def loop_end_def)
    then show ?thesis using False due idle j(1) by (simp add: mq_start_def)
  next
    case True
    let ?q = "q\<lparr>mq_due := rest, mq_running := Some i\<rparr>" and ?f = "\<lambda>x. x\<lparr>qj_status := Processing\<rparr>"
    have q: "jobs_ok ?q" "mq_getJob i ?q = Some j" "due_ok ?q" "events_ok ?q"
      using ok j(1) take(1) [of "Some i"] by (simp_all add: jobs_ok_def events_ok_def completions_def mq_getJob_def)
    have "jobs_ok (change_job i ?f ?q)" by (rule jobs_ok_change [OF q(1,2)]) (use aj j(2) in \<open>simp_all add: attempts_ok_def\<close>)
    moreover have "due_ok (change_job i ?f ?q)" by (rule due_ok_change [OF q(1,2) _ q(3)]) (use take(2) in simp_all)
    moreover have "run_ok (change_job i ?f ?q)"
      using ok(3) idle getJob_Some [OF j(1)] changed_jobs [OF q(1,2), of ?f] job_unique [OF ok(1)] by (auto simp: run_ok_def)
    moreover have "events_ok (change_job i ?f ?q)" by (rule events_ok_change [OF q(1,2) _ q(4)]) (use j(2) in simp_all)
    moreover have "flag_ok (change_job i ?f ?q)" using ok(4) due by (simp add: flag_ok_def)
    ultimately show ?thesis using True due idle j(1) by (simp add: mq_start_def queue_ok_def loop_ok_def)
  qed
qed

lemma failed_attempt_simps [simp]: "qj_id (failed_attempt m t j) = qj_id j" "qj_status (failed_attempt m t j) \<noteq> Processing"
  "qj_status (failed_attempt m t j) \<noteq> Completed"
  by (simp_all add: failed_attempt_def Let_def)

lemma attempts_ok_failed: "attempts_ok j \<Longrightarrow> qj_status j \<noteq> Failed \<Longrightarrow> attempts_ok (failed_attempt m t j)"
  by (auto simp: attempts_ok_def failed_attempt_def Let_def)

lemma queue_ok_finish:
  fixes q :: "'p job_queue"
  assumes "queue_ok q"
  shows "queue_ok (mq_finish x t q)"
proof (cases "mq_running q")
  case None
  then show ?thesis using assms by (simp add: mq_finish_def)
next
  case (Some i)
  have ok: "jobs_ok q" "due_ok q" "run_ok q" "flag_ok q" "events_ok q" using assms by (simp_all add: queue_ok_def loop_ok_def)
  obtain k where k: "k \<in> set (mq_jobs q)" "qj_id k = i" using ok(3) Some by (auto simp: run_ok_def)
  then obtain j where j: "mq_getJob i q = Some j" using getJob_None [of i q] by (cases "mq_getJob i q") auto
  note jin = getJob_Some [OF j]
  have status: "qj_status j = Processing" using ok(3) Some jin by (auto simp: run_ok_def)
  then have due: "i \<notin> set (mq_due q)" using ok(2) jin job_unique [OF ok(1)] by (fastforce simp: due_ok_def)
  have aj: "attempts_ok j" using ok(1) jin by (simp add: jobs_ok_def)
  have others: "qj_status y \<noteq> Processing" if "y \<in> set (mq_jobs q)" "y \<noteq> j" for y
    using ok(3) Some that jin job_unique [OF ok(1)] by (auto simp: run_ok_def)
  define f :: "'p queue_job \<Rightarrow> 'p queue_job" where "f = (if x = Succeeded then (\<lambda>k. k\<lparr>qj_status := Completed\<rparr>) else failed_attempt (outcome_error x) t)"
  define e where "e = (if x = Succeeded then JobCompleted i (qj_type j) else attempt_event (outcome_error x) j)"
  let ?q = "q\<lparr>mq_running := None, mq_events := mq_events q @ [e]\<rparr>"
  have fin: "mq_finish x t q = loop_end (change_job i f ?q)" using Some j by (auto simp: mq_finish_def f_def e_def)
  have id: "qj_id (f y) = qj_id y" for y by (simp add: f_def)
  have q: "jobs_ok ?q" "mq_getJob i ?q = Some j" "due_ok ?q" using ok(1,2) j by (simp_all add: jobs_ok_def due_ok_def mq_getJob_def)
  note set = changed_jobs [OF q(1,2), of f]
  have "attempts_ok (j\<lparr>qj_status := Completed\<rparr>)" using aj status by (simp add: attempts_ok_def)
  then have "attempts_ok (f j)" by (simp add: f_def attempts_ok_failed aj status)
  then have "jobs_ok (change_job i f ?q)" by (rule jobs_ok_change [OF q(1,2) id])
  moreover have "due_ok (change_job i f ?q)" by (rule due_ok_change [OF q(1,2) id q(3)]) (use due in simp)
  moreover have "run_ok (change_job i f ?q)" using others unfolding run_ok_def set by (auto simp: f_def)
  moreover have "flag_ok (loop_end (change_job i f ?q))" using ok(4) Some by (simp add: flag_ok_def loop_end_def)
  moreover have "events_ok (change_job i f ?q)"
  proof (cases "x = Succeeded")
    case True
    have "completions i q = 0" using ok(5) jin status by (force simp: events_ok_def le_Suc_eq)
    then have "completions y (change_job i f ?q) = (if y = i then 1 else completions y q)" for y using True by (auto simp: completions_def e_def)
    moreover have "issued (mq_counter q) i" using ok(1) jin by (auto simp: jobs_ok_def)
    ultimately show ?thesis using ok(5) jin job_unique [OF ok(1)] True unfolding events_ok_def set by (auto simp: f_def)
  next
    case False
    have "completions y ?q = completions y q" for y using False by (simp add: completions_def e_def attempt_event_def)
    then have "events_ok ?q" using ok(5) by (simp add: events_ok_def)
    then show ?thesis by (rule events_ok_change [OF q(1,2) id]) (simp add: status)
  qed
  ultimately show ?thesis unfolding fin by (simp add: queue_ok_def loop_ok_def due_ok_def run_ok_def)
qed

lemma queue_ok_act: "queue_ok q \<Longrightarrow> queue_ok (queue_act a q)"
  by (cases a) (simp_all add: queue_act_def queue_ok_register queue_ok_enqueue queue_ok_retry queue_ok_clear queue_ok_destroy queue_ok_poll queue_ok_start queue_ok_finish)

lemma queue_ok_run: "queue_ok q \<Longrightarrow> queue_ok (queue_run as q)"
  unfolding queue_run_def by (induction as arbitrary: q) (simp_all add: queue_ok_act)

lemma processing_one:
  assumes "queue_ok q"
  shows "length (filter (\<lambda>j. qj_status j = Processing) (mq_jobs q)) \<le> 1"
proof -
  let ?p = "filter (\<lambda>j. qj_status j = Processing) (mq_jobs q)"
  have "distinct ?p" using assms by (auto simp: queue_ok_def jobs_ok_def distinct_map)
  moreover have "x = y" if "x \<in> set ?p" "y \<in> set ?p" for x y
    using that assms job_unique [of q x y] by (auto simp: queue_ok_def loop_ok_parts)
  ultimately show ?thesis by (cases ?p) (auto simp: neq_Nil_conv Suc_le_eq, metis list.exhaust list.set_intros)
qed

section \<open>One job, attempt by attempt\<close>

text \<open>The timer fires at \<open>t\<close>, and the handler of the first due job comes to \<open>x\<close>.\<close>

definition attempt_at :: "nat \<Rightarrow> outcome \<Rightarrow> 'p job_queue \<Rightarrow> 'p job_queue" where
  "attempt_at t x q = mq_finish x t (mq_start t (mq_poll t q))"

text \<open>Attempts at the times the only job asks for.\<close>

primrec tries :: "outcome list \<Rightarrow> 'p job_queue \<Rightarrow> 'p job_queue" where
  "tries [] q = q"
| "tries (x # xs) q = tries xs (case mq_jobs q of
     [j] \<Rightarrow> (case qj_next j of Some t \<Rightarrow> attempt_at (nat t) x q | None \<Rightarrow> q)
   | _ \<Rightarrow> q)"

definition only_job :: "'p queue_job \<Rightarrow> 'p job_queue \<Rightarrow> bool" where
  "only_job j q \<longleftrightarrow> mq_jobs q = [j] \<and> js_includes (mq_handlers q) (qj_type j) \<and> \<not> mq_destroyed q \<and> \<not> mq_processing q \<and> mq_due q = [] \<and> mq_running q = None"

text \<open>How long the job waits between \<open>n + 1\<close> failures, the first of which is number \<open>c + 1\<close>.\<close>

definition waiting :: "nat \<Rightarrow> nat \<Rightarrow> int" where
  "waiting c n = (\<Sum>k<n. 2000 * 4 ^ (c + k))"

lemma waiting_Suc: "waiting c (Suc n) = 2000 * 4 ^ c + waiting (Suc c) n"
  by (simp add: waiting_def sum.lessThan_Suc_shift del: sum.lessThan_Suc)

lemma waiting_nonneg: "0 \<le> waiting c n"
  by (simp add: waiting_def sum_nonneg)

lemma waiting_closed: "3 * waiting c n = 2000 * 4 ^ c * (4 ^ n - 1)"
  by (induction n) (simp_all add: waiting_def algebra_simps power_add)

lemma attempt_only:
  assumes "only_job j q" and "qj_status j = Queued" and "qj_next j = Some (int t)" and "t \<le> 8640000000000000"
  shows "only_job (if x = Succeeded then j\<lparr>qj_status := Completed\<rparr> else failed_attempt (outcome_error x) t (j\<lparr>qj_status := Processing\<rparr>)) (attempt_at t x q)"
proof -
  have j: "mq_jobs q = [j]" "js_includes (mq_handlers q) (qj_type j)" "\<not> mq_destroyed q" "\<not> mq_processing q" "mq_due q = []" "mq_running q = None"
    using assms(1) by (simp_all add: only_job_def)
  have "due_now t j" using assms(2-4) by (simp add: due_now_def date_le_def js_date_def)
  then have poll: "mq_poll t q = q\<lparr>mq_processing := True, mq_due := [qj_id j]\<rparr>" using j by (simp add: mq_poll_def loop_end_def)
  have start: "mq_start t (mq_poll t q) = q\<lparr>mq_processing := True, mq_due := [], mq_running := Some (qj_id j), mq_jobs := [j\<lparr>qj_status := Processing\<rparr>]\<rparr>"
    using j unfolding poll by (simp add: mq_start_def mq_getJob_def change_job_def update_where_def)
  show ?thesis
    using j unfolding attempt_at_def start
    by (simp add: mq_finish_def mq_getJob_def change_job_def update_where_def loop_end_def only_job_def) (simp add: failed_attempt_def Let_def)
qed

lemma failures_fail:
  assumes "only_job j q" and "qj_status j = Queued" and "qj_next j = Some (int t)" and "qj_retry_count j = int c"
    and "xs \<noteq> []" and "Succeeded \<notin> set xs" and "int (c + length xs) = max 1 (qj_max_retries j)"
    and "int t + waiting c (length xs - 1) \<le> 8640000000000000"
  shows "\<exists>k. only_job k (tries xs q) \<and> qj_id k = qj_id j \<and> qj_status k = Failed \<and> qj_retry_count k = int (c + length xs) \<and>
    qj_last_error k = Some (outcome_error (last xs)) \<and> qj_next k = Some (int t + waiting c (length xs - 1))"
  using assms
proof (induction xs arbitrary: q j t c)
  case Nil
  then show ?case by simp
next
  case (Cons x xs)
  have bound: "t \<le> 8640000000000000" using Cons.prems(8) waiting_nonneg [of c "length (x # xs) - 1"] by simp
  define k where "k = failed_attempt (outcome_error x) t (j\<lparr>qj_status := Processing\<rparr>)"
  have x: "x \<noteq> Succeeded" using Cons.prems(6) by auto
  have q: "tries (x # xs) q = tries xs (attempt_at t x q)" using Cons.prems(1,3) by (simp add: only_job_def)
  have only: "only_job k (attempt_at t x q)" using attempt_only [OF Cons.prems(1-3) bound, of x] x by (simp add: k_def)
  show ?case
  proof (cases "xs = []")
    case True
    then have "qj_max_retries j \<le> int c + 1" using Cons.prems(7) by simp
    then show ?thesis using True only q Cons.prems(3,4)
      by (intro exI [of _ k]) (simp add: k_def failed_attempt_def Let_def waiting_def)
  next
    case False
    then have len: "length (x # xs) - 1 = Suc (length xs - 1)" by (cases xs) auto
    have more: "\<not> qj_max_retries j \<le> int c + 1" using Cons.prems(7) False by (cases xs) (auto split: if_splits simp: max_def)
    have next_t: "int t + 2000 * 4 ^ c \<le> 8640000000000000"
      using Cons.prems(8) waiting_nonneg [of "Suc c" "length xs - 1"] unfolding len waiting_Suc by simp
    have later: "int (t + 2000 * 4 ^ c) + waiting (Suc c) (length xs - 1) \<le> 8640000000000000"
      using Cons.prems(8) unfolding len waiting_Suc by simp
    have k: "qj_status k = Queued" "qj_retry_count k = int (Suc c)" "qj_id k = qj_id j" "qj_max_retries k = qj_max_retries j"
      "qj_next k = Some (int (t + 2000 * 4 ^ c))"
      using more next_t Cons.prems(4) by (simp_all add: k_def failed_attempt_def Let_def js_date_def backoff_delay_def)
    have "\<exists>k'. only_job k' (tries xs (attempt_at t x q)) \<and> qj_id k' = qj_id k \<and> qj_status k' = Failed \<and> qj_retry_count k' = int (Suc c + length xs) \<and>
        qj_last_error k' = Some (outcome_error (last xs)) \<and> qj_next k' = Some (int (t + 2000 * 4 ^ c) + waiting (Suc c) (length xs - 1))"
      by (rule Cons.IH [OF only k(1,5,2) False _ _ later]) (use Cons.prems(6,7) k(4) in simp_all)
    then show ?thesis using False unfolding q len waiting_Suc by (simp add: k(3) add.assoc)
  qed
qed

text \<open>From the 22nd failure on the date of the next attempt is not a valid one, and then the job is never due again.\<close>

lemma far_date_invalid:
  assumes "22 \<le> n"
  shows "js_date (int t + backoff_delay n) = None"
proof -
  have "(4::int) ^ 21 \<le> 4 ^ nat (n - 1)" using assms by (intro power_increasing) auto
  then have "8640000000000000 < backoff_delay n" by (simp add: backoff_delay_def)
  then show ?thesis by (simp add: js_date_def)
qed

lemma invalid_never_due: "qj_next j = None \<Longrightarrow> \<not> due_now t j"
  by (simp add: due_now_def date_le_def)

section \<open>Properties\<close>

text \<open>
  (C22) The queue in memory keeps its jobs apart. After any interleaving of its methods, timer ticks and handler outcomes: ids are unique; at most one job is
  being processed, and the loop is marked as running exactly while a handler is awaited or jobs are left in it; a job has
  failed as often as it counts, less than its limit (at least one) unless it is marked as failed, which it is at the limit, with an error; and a job
  succeeds at most once, stays completed and is never processed again.
\<close>

theorem queue_sound:
  assumes "q = queue_run as (new_queue n)"
  shows "distinct (map qj_id (mq_jobs q)) \<and> length (filter (\<lambda>j. qj_status j = Processing) (mq_jobs q)) \<le> 1 \<and>
    (mq_processing q \<longleftrightarrow> mq_running q \<noteq> None \<or> mq_due q \<noteq> []) \<and>
    (\<forall>j \<in> set (mq_jobs q). 0 \<le> qj_retry_count j \<and>
       (if qj_status j = Failed then qj_retry_count j = max 1 (qj_max_retries j) \<and> qj_last_error j \<noteq> None
        else qj_retry_count j < max 1 (qj_max_retries j)) \<and>
       (completions (qj_id j) q = 1 \<longrightarrow> qj_status j = Completed)) \<and>
    (\<forall>i. completions i q \<le> 1)"
proof -
  have ok: "queue_ok q" unfolding assms by (rule queue_ok_run [OF queue_ok_new])
  then show ?thesis using processing_one [OF ok] by (auto simp: queue_ok_def jobs_ok_def loop_ok_def flag_ok_def events_ok_def attempts_ok_def)
qed

text \<open>
  (C23) A job that keeps failing is given up. The only job of an idle queue with its handler, tried when it is due, that fails as often as it
  may (once, if the limit is lower) is then marked as failed with the last error and that count, and its last attempt is later than the first by \<open>2000 (4^n - 1) / 3\<close> ms for
  \<open>n\<close> waits, as long as that is a valid date.
\<close>

theorem failing_job_given_up:
  assumes "only_job j q" and "qj_status j = Queued" and "qj_next j = Some (int t)" and "qj_retry_count j = 0"
    and "Succeeded \<notin> set xs" and "int (length xs) = max 1 (qj_max_retries j)" and "int t + 2000 * (4 ^ (length xs - 1) - 1) div 3 \<le> 8640000000000000"
  shows "\<exists>k. mq_jobs (tries xs q) = [k] \<and> qj_id k = qj_id j \<and> qj_status k = Failed \<and> qj_retry_count k = int (length xs) \<and>
    qj_last_error k = Some (outcome_error (last xs)) \<and> qj_next k = Some (int t + 2000 * (4 ^ (length xs - 1) - 1) div 3) \<and> \<not> mq_processing (tries xs q)"
proof -
  have w: "waiting 0 (length xs - 1) = 2000 * (4 ^ (length xs - 1) - 1) div 3" using waiting_closed [of 0 "length xs - 1"] by simp
  have "xs \<noteq> []" using assms(6) by auto
  from failures_fail [OF assms(1-3) _ this assms(5), of 0] show ?thesis using assms(4,6,7) unfolding w by (auto simp: only_job_def)
qed

section \<open>Runs\<close>

definition queue_actions :: "nat queue_action list" where
  "queue_actions = [RegisterHandler ''milestone_sync'', Enqueue ''milestone_sync'' 1 None 1, Enqueue ''other'' 2 None 1, Poll 2, Start 2, Poll 2,
     Enqueue ''milestone_sync'' 3 (Some 1) 2, Finish (Refused None) 3, Start 3, Poll 3, Start 3, Finish Succeeded 3, ClearCompleted]"

definition queue_end :: "nat job_queue" where
  "queue_end = queue_run queue_actions (new_queue 0)"

lemma queue_sound_witness:
  "map (\<lambda>j. (qj_id j, qj_payload j, qj_status j, qj_retry_count j)) (mq_jobs queue_end) = [(''milestone_sy_1_1'', 1, Queued, 1), (''other_1_2'', 2, Queued, 0)] \<and>
   distinct (map qj_id (mq_jobs queue_end))"
proof -
  have "map (\<lambda>j. (qj_id j, qj_payload j, qj_status j, qj_retry_count j)) (mq_jobs queue_end) = [(''milestone_sy_1_1'', 1, Queued, 1), (''other_1_2'', 2, Queued, 0)]"
    by code_simp
  then show ?thesis using queue_sound [OF queue_end_def] by blast
qed

definition lone_job :: "nat queue_job" where
  "lone_job = \<lparr>qj_id = ''a'', qj_type = ''m'', qj_payload = 1, qj_retry_count = 0, qj_max_retries = 3, qj_last_error = None, qj_next = Some 5, qj_created = Some 5, qj_status = Queued\<rparr>"

definition lone_queue :: "nat job_queue" where
  "lone_queue = (new_queue 1)\<lparr>mq_jobs := [lone_job], mq_handlers := [''m'']\<rparr>"

lemma failing_job_given_up_witness:
  "\<exists>k. mq_jobs (tries [Threw ''x'', Refused None, Refused (Some ''502'')] lone_queue) = [k] \<and> qj_status k = Failed \<and> qj_retry_count k = 3 \<and>
     qj_last_error k = Some ''502'' \<and> qj_next k = Some 10005"
proof -
  have "only_job lone_job lone_queue" by (simp add: only_job_def lone_queue_def lone_job_def new_queue_def)
  from failing_job_given_up [OF this, of 5 "[Threw ''x'', Refused None, Refused (Some ''502'')]"] show ?thesis
    by (auto simp: lone_job_def outcome_error_def)
qed

end
