(* ===== verification/IdentityProviders.thy ===== *)
theory IdentityProviders
  imports Compliance
begin

text \<open>
  \<open>identity-providers/\<close>: the six providers a person is verified by, with the HTTP client of each, their choice by the configuration,
  the service and the configuration manager. The vendors answer through \<open>fetch\<close>; the text a request has as its URL is
  normalised by \<open>fetch\<close> once more, so the path is kept as it is written. A JSON body whose text an error message quotes is in
  the form \<open>JSON.stringify\<close> prints.
\<close>

section \<open>Configuration\<close>

text \<open>A timeout is the text of a variable or a number.\<close>

datatype timeout_value = TextMs string | NumMs jsnum

record idp_config =
  ic_provider :: string
  ic_api_key :: string
  ic_api_secret :: "string option"
  ic_webhook_secret :: "string option"
  ic_base_url :: "string option"
  ic_api_url :: "string option"
  ic_timeout :: "timeout_value option"
  ic_level_name :: "string option"

text \<open>The signing of jsonwebtoken (issued, expires, secret), and the values the runtime's \<open>AbortSignal.timeout\<close> takes.\<close>

record idp_runtime =
  rt_sign :: "int \<Rightarrow> int \<Rightarrow> string \<Rightarrow> string"
  rt_timeout :: "timeout_value \<Rightarrow> bool"

definition timeout_given :: "timeout_value option \<Rightarrow> timeout_value" where
  "timeout_given v = (case v of
     None \<Rightarrow> NumMs (Fin 30000)
   | Some (TextMs s) \<Rightarrow> if s = [] then NumMs (Fin 30000) else TextMs s
   | Some (NumMs x) \<Rightarrow> if x = Fin 0 \<or> x = NaN then NumMs (Fin 30000) else NumMs x)"

section \<open>The clients\<close>

text \<open>\<open>new URL(path, base)\<close> for a path that starts with a slash: the path replaces that of the base.\<close>

definition url_origin :: "string \<Rightarrow> string option" where
  "url_origin base =
     (let scheme = (if starts_with ''https://'' base then ''https://'' else if starts_with ''http://'' base then ''http://'' else []);
          host = takeWhile (\<lambda>c. c \<notin> set ''/?#'') (drop (length scheme) base)
      in if scheme = [] \<or> host = [] then None else Some (scheme @ host))"

definition web_url :: "string \<Rightarrow> string \<Rightarrow> exn + string" where
  "web_url path base = (case url_origin base of None \<Rightarrow> Inl (PlainError ''TypeError'') | Some origin \<Rightarrow> Inr (origin @ path))"

definition body_text :: "http_body \<Rightarrow> string" where
  "body_text b = (case b of Json v \<Rightarrow> stringify v | Text s \<Rightarrow> s)"

text \<open>What the six \<open>request\<close> methods share.\<close>

definition vendor_request ::
    "'s backend \<Rightarrow> idp_runtime \<Rightarrow> idp_config \<Rightarrow> string \<Rightarrow> string \<Rightarrow> string \<Rightarrow> string \<Rightarrow> (string \<times> string) list \<Rightarrow> json option \<Rightarrow>
     ('s world, json) prog" where
  "vendor_request B R C vendor authorization meth url query data =
     bnd (require (rt_timeout R (timeout_given (ic_timeout C))) (PlainError ''TypeError'')) (\<lambda>_.
     bnd (send B \<lparr>rq_method = meth, rq_url = url, rq_query = query,
       rq_headers = [(''Content-Type'', ''application/json''), (''Authorization'', authorization)], rq_body = data\<rparr>) (\<lambda>answer.
     case answer of
       Inl message \<Rightarrow> throw (PlainError message)
     | Inr res \<Rightarrow>
         bnd (require (200 \<le> rp_status res \<and> rp_status res < 300)
           (PlainError (vendor @ '' API error: '' @ nat_str (rp_status res) @ '' - '' @ body_text (rp_body res)))) (\<lambda>_.
         case rp_body res of Json v \<Rightarrow> ret v | Text _ \<Rightarrow> throw (PlainError ''SyntaxError''))))"

text \<open>Base64 of the UTF-8 of a text.\<close>

definition utf8 :: "string \<Rightarrow> int list" where
  "utf8 s = concat (map (\<lambda>c. let n = of_char c in if n < 128 then [n] else [192 + n div 64, 128 + n mod 64]) s)"

definition base64_digit :: "int \<Rightarrow> char" where
  "base64_digit n = ''ABCDEFGHIJKLMNOPQRSTUVWXYZabcdefghijklmnopqrstuvwxyz0123456789+/'' ! nat (n mod 64)"

fun base64 :: "int list \<Rightarrow> string" where
  "base64 (a # b # c # bs) = (let n = a * 65536 + b * 256 + c
     in [base64_digit (n div 262144), base64_digit (n div 4096), base64_digit (n div 64), base64_digit n] @ base64 bs)"
| "base64 [a, b] = (let n = a * 65536 + b * 256 in [base64_digit (n div 262144), base64_digit (n div 4096), base64_digit (n div 64), CHR ''=''])"
| "base64 [a] = (let n = a * 65536 in [base64_digit (n div 262144), base64_digit (n div 4096), CHR ''='', CHR ''=''])"
| "base64 [] = []"

definition bearer :: "idp_config \<Rightarrow> string" where
  "bearer C = ''Bearer '' @ ic_api_key C"

subsection \<open>Sumsub\<close>

definition createJwt :: "'s backend \<Rightarrow> idp_runtime \<Rightarrow> idp_config \<Rightarrow> ('s world, string) prog" where
  "createJwt B R C =
     bnd (call (now B)) (\<lambda>t.
     let iat = t div 1000; ends = iat + 3600
     in bnd (require (truthy (ic_api_secret C)) (PlainError ''Sumsub apiSecret is required'')) (\<lambda>_.
        ret (rt_sign R iat ends (default (ic_api_secret C) []))))"

definition sumsub_base :: "idp_config \<Rightarrow> string" where
  "sumsub_base C = or_else (ic_base_url C) ''https://api.sumsub.com''"

definition sumsub_request :: "'s backend \<Rightarrow> idp_runtime \<Rightarrow> idp_config \<Rightarrow> string \<Rightarrow> string \<Rightarrow> json option \<Rightarrow> ('s world, json) prog" where
  "sumsub_request B R C meth path data =
     bnd (createJwt B R C) (\<lambda>token.
     bnd (lift_exn (web_url path (sumsub_base C))) (\<lambda>url.
     vendor_request B R C ''Sumsub'' (''Bearer '' @ token) meth url [] data))"

text \<open>The entries an object spread copies: those of an object, and the elements of an array or the characters of a string by index.\<close>

definition index_entries :: "json list \<Rightarrow> (string \<times> json) list" where
  "index_entries vs = map (\<lambda>(i, v). (nat_str i, v)) (zip [0..<length vs] vs)"

definition spread :: "json option \<Rightarrow> (string \<times> json) list" where
  "spread v = (case v of Some (JObj kvs) \<Rightarrow> kvs | Some (JArr vs) \<Rightarrow> index_entries vs | Some (JStr s) \<Rightarrow> index_entries (map (\<lambda>c. JStr [c]) s) | _ \<Rightarrow> [])"

text \<open>\<open>{...a, ...b}\<close>: what comes later is put over what came before.\<close>

definition overlay :: "(string \<times> json) list \<Rightarrow> (string \<times> json) list \<Rightarrow> (string \<times> json) list" where
  "overlay a b = fold (\<lambda>(k, v). put_key k v) b a"

definition applicant_data :: "string \<Rightarrow> json option \<Rightarrow> json" where
  "applicant_data userId metadata = JObj (overlay [(''externalUserId'', JStr userId)] (spread metadata))"

definition createApplicant :: "'s backend \<Rightarrow> idp_runtime \<Rightarrow> idp_config \<Rightarrow> string \<Rightarrow> json option \<Rightarrow> ('s world, json) prog" where
  "createApplicant B R C userId metadata = sumsub_request B R C ''POST'' ''/resources/applicants'' (Some (applicant_data userId metadata))"

definition getApplicantStatus :: "'s backend \<Rightarrow> idp_runtime \<Rightarrow> idp_config \<Rightarrow> string \<Rightarrow> ('s world, json) prog" where
  "getApplicantStatus B R C applicantId = sumsub_request B R C ''GET'' (''/resources/applicants/'' @ applicantId @ ''/status'') None"

definition getApplicantData :: "'s backend \<Rightarrow> idp_runtime \<Rightarrow> idp_config \<Rightarrow> string \<Rightarrow> ('s world, json) prog" where
  "getApplicantData B R C applicantId = sumsub_request B R C ''GET'' (''/resources/applicants/'' @ applicantId @ ''/one'') None"

definition generateAccessToken :: "'s backend \<Rightarrow> idp_runtime \<Rightarrow> idp_config \<Rightarrow> json option \<Rightarrow> string option \<Rightarrow> ('s world, json) prog" where
  "generateAccessToken B R C applicantId levelName = sumsub_request B R C ''POST'' ''/resources/accessTokens''
     (Some (JObj (jopt ''userIdInApp'' applicantId @ [(''levelName'', JStr (or_else levelName ''basic-kyc-level''))])))"

definition cancelInspection :: "'s backend \<Rightarrow> idp_runtime \<Rightarrow> idp_config \<Rightarrow> string \<Rightarrow> ('s world, json) prog" where
  "cancelInspection B R C applicantId = sumsub_request B R C ''POST'' (''/resources/inspections/'' @ applicantId @ ''/cancel'') None"

subsection \<open>Persona\<close>

definition persona_base :: "idp_config \<Rightarrow> string" where
  "persona_base C = or_else (ic_base_url C) ''https://withpersona.com/api/v1''"

definition persona_request ::
    "'s backend \<Rightarrow> idp_runtime \<Rightarrow> idp_config \<Rightarrow> string \<Rightarrow> string \<Rightarrow> json option \<Rightarrow> (string \<times> string) list \<Rightarrow> ('s world, json) prog" where
  "persona_request B R C meth path data query =
     bnd (lift_exn (web_url path (persona_base C))) (\<lambda>url.
     vendor_request B R C ''Persona'' (bearer C) meth url query data)"

definition createInquiry :: "'s backend \<Rightarrow> idp_runtime \<Rightarrow> idp_config \<Rightarrow> json \<Rightarrow> ('s world, json) prog" where
  "createInquiry B R C data = persona_request B R C ''POST'' ''/inquiries'' (Some data) []"

definition getInquiry :: "'s backend \<Rightarrow> idp_runtime \<Rightarrow> idp_config \<Rightarrow> string \<Rightarrow> ('s world, json) prog" where
  "getInquiry B R C inquiryId = persona_request B R C ''GET'' (''/inquiries/'' @ inquiryId) None []"

definition listInquiries :: "'s backend \<Rightarrow> idp_runtime \<Rightarrow> idp_config \<Rightarrow> (string \<times> string) list \<Rightarrow> ('s world, json) prog" where
  "listInquiries B R C params = persona_request B R C ''GET'' ''/inquiries'' None params"

subsection \<open>Veriff\<close>

definition veriff_base :: "idp_config \<Rightarrow> string" where
  "veriff_base C = or_else (ic_base_url C) ''https://api.veriff.com/v1''"

definition veriff_auth :: "idp_config \<Rightarrow> string" where
  "veriff_auth C = ''Basic '' @ base64 (utf8 (ic_api_key C @ '':'' @ default (ic_api_secret C) []))"

definition veriff_request :: "'s backend \<Rightarrow> idp_runtime \<Rightarrow> idp_config \<Rightarrow> string \<Rightarrow> string \<Rightarrow> json option \<Rightarrow> ('s world, json) prog" where
  "veriff_request B R C meth path data =
     bnd (require (truthy (ic_api_secret C)) (PlainError ''Veriff apiSecret is required'')) (\<lambda>_.
     vendor_request B R C ''Veriff'' (veriff_auth C) meth (veriff_base C @ path) [] data)"

definition veriff_createSession :: "'s backend \<Rightarrow> idp_runtime \<Rightarrow> idp_config \<Rightarrow> json \<Rightarrow> ('s world, json) prog" where
  "veriff_createSession B R C data = veriff_request B R C ''POST'' ''/sessions'' (Some data)"

definition veriff_getSession :: "'s backend \<Rightarrow> idp_runtime \<Rightarrow> idp_config \<Rightarrow> string \<Rightarrow> ('s world, json) prog" where
  "veriff_getSession B R C sessionId = veriff_request B R C ''GET'' (''/sessions/'' @ sessionId) None"

definition getSessionDecision :: "'s backend \<Rightarrow> idp_runtime \<Rightarrow> idp_config \<Rightarrow> string \<Rightarrow> ('s world, json) prog" where
  "getSessionDecision B R C sessionId = veriff_request B R C ''GET'' (''/sessions/'' @ sessionId @ ''/decision'') None"

subsection \<open>Synaps, Alloy and Stripe\<close>

definition synaps_base :: "idp_config \<Rightarrow> string" where
  "synaps_base C = or_else (ic_api_url C) ''https://api.synaps.io/v2''"

definition synaps_request :: "'s backend \<Rightarrow> idp_runtime \<Rightarrow> idp_config \<Rightarrow> string \<Rightarrow> string \<Rightarrow> json option \<Rightarrow> ('s world, json) prog" where
  "synaps_request B R C meth path data = vendor_request B R C ''Synaps'' (bearer C) meth (synaps_base C @ path) [] data"

definition synaps_createSession :: "'s backend \<Rightarrow> idp_runtime \<Rightarrow> idp_config \<Rightarrow> json \<Rightarrow> ('s world, json) prog" where
  "synaps_createSession B R C data = synaps_request B R C ''POST'' ''/session'' (Some data)"

definition synaps_getSession :: "'s backend \<Rightarrow> idp_runtime \<Rightarrow> idp_config \<Rightarrow> string \<Rightarrow> ('s world, json) prog" where
  "synaps_getSession B R C sessionId = synaps_request B R C ''GET'' (''/session/'' @ sessionId) None"

definition updateSession :: "'s backend \<Rightarrow> idp_runtime \<Rightarrow> idp_config \<Rightarrow> string \<Rightarrow> json option \<Rightarrow> ('s world, json) prog" where
  "updateSession B R C sessionId data = synaps_request B R C ''PUT'' (''/session/'' @ sessionId) (if jtruthy data then data else None)"

definition alloy_base :: "idp_config \<Rightarrow> string" where
  "alloy_base C = or_else (ic_api_url C) ''https://sandbox.alloy.co/v1''"

definition alloy_request :: "'s backend \<Rightarrow> idp_runtime \<Rightarrow> idp_config \<Rightarrow> string \<Rightarrow> string \<Rightarrow> json option \<Rightarrow> ('s world, json) prog" where
  "alloy_request B R C meth path data = vendor_request B R C ''Alloy'' (bearer C) meth (alloy_base C @ path) [] data"

definition createEvaluation :: "'s backend \<Rightarrow> idp_runtime \<Rightarrow> idp_config \<Rightarrow> json \<Rightarrow> ('s world, json) prog" where
  "createEvaluation B R C data = alloy_request B R C ''POST'' ''/evaluations'' (Some data)"

definition getEvaluation :: "'s backend \<Rightarrow> idp_runtime \<Rightarrow> idp_config \<Rightarrow> string \<Rightarrow> ('s world, json) prog" where
  "getEvaluation B R C evaluationId = alloy_request B R C ''GET'' (''/evaluations/'' @ evaluationId) None"

definition cancelEvaluation :: "'s backend \<Rightarrow> idp_runtime \<Rightarrow> idp_config \<Rightarrow> string \<Rightarrow> ('s world, json) prog" where
  "cancelEvaluation B R C evaluationId = alloy_request B R C ''POST'' (''/evaluations/'' @ evaluationId @ ''/cancel'') None"

definition stripe_request :: "'s backend \<Rightarrow> idp_runtime \<Rightarrow> idp_config \<Rightarrow> string \<Rightarrow> string \<Rightarrow> json option \<Rightarrow> ('s world, json) prog" where
  "stripe_request B R C meth path data = vendor_request B R C ''Stripe'' (bearer C) meth (''https://api.stripe.com/v1'' @ path) [] data"

definition createVerificationSession :: "'s backend \<Rightarrow> idp_runtime \<Rightarrow> idp_config \<Rightarrow> json \<Rightarrow> ('s world, json) prog" where
  "createVerificationSession B R C data = stripe_request B R C ''POST'' ''/identity/verification_sessions''
     (Some (JObj (overlay [(''type'', JStr ''individual'')] (spread (jget ''metadata'' data)))))"

definition retrieveVerificationSession :: "'s backend \<Rightarrow> idp_runtime \<Rightarrow> idp_config \<Rightarrow> string \<Rightarrow> ('s world, json) prog" where
  "retrieveVerificationSession B R C sessionId = stripe_request B R C ''GET'' (''/identity/verification_sessions/'' @ sessionId) None"

definition cancelVerificationSession :: "'s backend \<Rightarrow> idp_runtime \<Rightarrow> idp_config \<Rightarrow> string \<Rightarrow> ('s world, json) prog" where
  "cancelVerificationSession B R C sessionId =
     stripe_request B R C ''POST'' (''/identity/verification_sessions/'' @ sessionId @ ''/cancel'') None"

section \<open>The providers\<close>

text \<open>\<open>metadata?.k\<close>, \<open>v || null\<close>, and a value in a template literal.\<close>

definition field_of :: "json option \<Rightarrow> string \<Rightarrow> string \<Rightarrow> (string \<times> json) list" where
  "field_of metadata k l = jopt k (Option.bind metadata (jget l))"

definition or_null :: "json option \<Rightarrow> json" where
  "or_null v = (if jtruthy v then the v else JNull)"

definition template_text :: "json option \<Rightarrow> string" where
  "template_text v = (case v of None \<Rightarrow> ''undefined'' | Some u \<Rightarrow> js_String u)"

definition opened_session :: "string \<Rightarrow> string option \<Rightarrow> string \<Rightarrow> json \<Rightarrow> exn + session_result" where
  "opened_session idKey urlKey name v = (case property_of idKey v of
     Inl e \<Rightarrow> Inl e
   | Inr i \<Rightarrow> Inr \<lparr>ss_reference = i, ss_url = Option.bind urlKey (\<lambda>k. jget k v), ss_metadata = Some (JObj (jopt name i))\<rparr>)"

definition status_result :: "(string \<times> string) list \<Rightarrow> string \<Rightarrow> json \<Rightarrow> exn + verification_result" where
  "status_result table stamp v = (case property_of ''status'' v of
     Inl e \<Rightarrow> Inl e
   | Inr s \<Rightarrow> Inr \<lparr>vt_status = status_by table s, vt_verified_at = or_null (jget stamp v), vt_metadata = JObj (jopt ''status'' s)\<rparr>)"

definition sumsub_createSession :: "'s backend \<Rightarrow> idp_runtime \<Rightarrow> idp_config \<Rightarrow> string \<Rightarrow> json option \<Rightarrow> ('s world, session_result) prog" where
  "sumsub_createSession B R C userId metadata =
     bnd (createApplicant B R C userId metadata) (\<lambda>applicant.
     bnd (lift_exn (property_of ''externalUserId'' applicant)) (\<lambda>i.
     bnd (generateAccessToken B R C i None) (\<lambda>answer.
     bnd (lift_exn (property_of ''token'' answer)) (\<lambda>token.
     ret \<lparr>ss_reference = i, ss_url = Some (JStr (''https://frontend.sumsub.com/websdk/sdk?accessToken='' @ template_text token)),
       ss_metadata = Some (JObj (jopt ''applicantId'' i))\<rparr>))))"

definition sumsub_result :: "json \<Rightarrow> exn + verification_result" where
  "sumsub_result v = (case property_of ''reviewResult'' v of
     Inl e \<Rightarrow> Inl e
   | Inr r \<Rightarrow> Inr \<lparr>vt_status = (let answer = Option.bind r (jget ''reviewAnswer'')
           in if answer = Some (JStr ''GREEN'') then ''verified'' else if answer = Some (JStr ''RED'') then ''rejected'' else ''in_review''),
       vt_verified_at = or_null (jget ''created_at'' v), vt_metadata = JObj (jopt ''reviewStatus'' (jget ''reviewStatus'' v))\<rparr>)"

definition sumsub_getStatus :: "'s backend \<Rightarrow> idp_runtime \<Rightarrow> idp_config \<Rightarrow> string \<Rightarrow> ('s world, verification_result) prog" where
  "sumsub_getStatus B R C i = bnd (getApplicantStatus B R C i) (\<lambda>v. lift_exn (sumsub_result v))"

definition inquiry_data :: "string \<Rightarrow> json option \<Rightarrow> json" where
  "inquiry_data userId m = JObj [(''type'', JStr ''individual''),
     (''attributes'', JObj (field_of m ''first_name'' ''firstName'' @ field_of m ''last_name'' ''lastName'' @ field_of m ''email'' ''email'' @
        field_of m ''dob'' ''dob'' @ field_of m ''address'' ''address'' @ field_of m ''phone'' ''phone'')),
     (''external_user_id'', JStr userId)]"

definition persona_open :: "'s backend \<Rightarrow> idp_runtime \<Rightarrow> idp_config \<Rightarrow> string \<Rightarrow> json option \<Rightarrow> ('s world, session_result) prog" where
  "persona_open B R C userId metadata =
     bnd (createInquiry B R C (inquiry_data userId metadata)) (\<lambda>v. lift_exn (opened_session ''id'' (Some ''url'') ''inquiryId'' v))"

definition persona_result :: "json \<Rightarrow> exn + verification_result" where
  "persona_result = status_result [(''pending'', ''pending''), (''in_review'', ''in_review''), (''approved'', ''verified''),
     (''rejected'', ''rejected''), (''expired'', ''expired'')] ''created_at''"

definition persona_getStatus :: "'s backend \<Rightarrow> idp_runtime \<Rightarrow> idp_config \<Rightarrow> string \<Rightarrow> ('s world, verification_result) prog" where
  "persona_getStatus B R C i = bnd (getInquiry B R C i) (\<lambda>v. lift_exn (persona_result v))"

definition veriff_data :: "string \<Rightarrow> json option \<Rightarrow> json" where
  "veriff_data userId m = JObj [(''verification'', JObj [(''person'', JObj (field_of m ''firstName'' ''firstName'' @ field_of m ''lastName'' ''lastName'' @
        field_of m ''dateOfBirth'' ''dob'' @ field_of m ''email'' ''email'' @ field_of m ''address'' ''address'' @ field_of m ''phoneNumber'' ''phone''))]),
     (''externalUserId'', JStr userId)]"

definition veriff_open :: "'s backend \<Rightarrow> idp_runtime \<Rightarrow> idp_config \<Rightarrow> string \<Rightarrow> json option \<Rightarrow> ('s world, session_result) prog" where
  "veriff_open B R C userId metadata =
     bnd (veriff_createSession B R C (veriff_data userId metadata)) (\<lambda>v. lift_exn (opened_session ''id'' (Some ''url'') ''sessionId'' v))"

definition veriff_result :: "json \<Rightarrow> exn + verification_result" where
  "veriff_result v = map_sum id (\<lambda>r. r\<lparr>vt_metadata := JObj (jopt ''status'' (jget ''status'' v) @ jopt ''decision'' (jpath ''decision'' ''status'' v))\<rparr>)
     (status_result [(''pending'', ''pending''), (''in_progress'', ''in_review''), (''completed'', ''verified''),
       (''failed'', ''rejected''), (''expired'', ''expired'')] ''createdAt'' v)"

definition veriff_getStatus :: "'s backend \<Rightarrow> idp_runtime \<Rightarrow> idp_config \<Rightarrow> string \<Rightarrow> ('s world, verification_result) prog" where
  "veriff_getStatus B R C i = bnd (veriff_getSession B R C i) (\<lambda>v. lift_exn (veriff_result v))"

definition person_fields :: "json option \<Rightarrow> string \<Rightarrow> string \<Rightarrow> (string \<times> json) list" where
  "person_fields m firstKey lastKey = field_of m firstKey ''firstName'' @ field_of m lastKey ''lastName'' @ field_of m ''dob'' ''dob'' @
     field_of m ''email'' ''email'' @ field_of m ''phone'' ''phone'' @ field_of m ''address'' ''address''"

definition synaps_open :: "'s backend \<Rightarrow> idp_runtime \<Rightarrow> idp_config \<Rightarrow> string \<Rightarrow> json option \<Rightarrow> ('s world, session_result) prog" where
  "synaps_open B R C userId metadata =
     bnd (synaps_createSession B R C (JObj [(''externalUserId'', JStr userId), (''type'', JStr ''individual''),
       (''metadata'', JObj (person_fields metadata ''firstName'' ''lastName''))])) (\<lambda>v. lift_exn (opened_session ''id'' (Some ''session_url'') ''sessionId'' v))"

definition synaps_result :: "json \<Rightarrow> exn + verification_result" where
  "synaps_result = status_result [(''pending'', ''pending''), (''in_review'', ''in_review''), (''approved'', ''verified''),
     (''rejected'', ''rejected''), (''expired'', ''expired'')] ''updated_at''"

definition synaps_getStatus :: "'s backend \<Rightarrow> idp_runtime \<Rightarrow> idp_config \<Rightarrow> string \<Rightarrow> ('s world, verification_result) prog" where
  "synaps_getStatus B R C i = bnd (synaps_getSession B R C i) (\<lambda>v. lift_exn (synaps_result v))"

definition alloy_open :: "'s backend \<Rightarrow> idp_runtime \<Rightarrow> idp_config \<Rightarrow> string \<Rightarrow> json option \<Rightarrow> ('s world, session_result) prog" where
  "alloy_open B R C userId metadata =
     bnd (createEvaluation B R C (JObj [(''name'', JStr ''kyc-verification''), (''tags'', JArr [JStr (''user-'' @ userId)]),
       (''entity'', JObj ((''type'', JStr ''individual'') # person_fields metadata ''first_name'' ''last_name''))]))
     (\<lambda>v. lift_exn (opened_session ''evaluation_id'' None ''evaluationId'' v))"

definition alloy_result :: "json \<Rightarrow> exn + verification_result" where
  "alloy_result = status_result [(''pending'', ''pending''), (''running'', ''in_review''), (''complete'', ''verified''),
     (''error'', ''rejected''), (''expired'', ''expired'')] ''created_at''"

definition alloy_getStatus :: "'s backend \<Rightarrow> idp_runtime \<Rightarrow> idp_config \<Rightarrow> string \<Rightarrow> ('s world, verification_result) prog" where
  "alloy_getStatus B R C i = bnd (getEvaluation B R C i) (\<lambda>v. lift_exn (alloy_result v))"

definition stripe_open :: "'s backend \<Rightarrow> idp_runtime \<Rightarrow> idp_config \<Rightarrow> string \<Rightarrow> json option \<Rightarrow> ('s world, session_result) prog" where
  "stripe_open B R C userId metadata =
     bnd (createVerificationSession B R C (JObj [(''metadata'', JObj (overlay [(''userId'', JStr userId)] (spread metadata)))]))
     (\<lambda>v. lift_exn (opened_session ''id'' (Some ''url'') ''sessionId'' v))"

definition stripe_result :: "json \<Rightarrow> exn + verification_result" where
  "stripe_result = status_result [(''requires_input'', ''pending''), (''processing'', ''in_review''), (''verified'', ''verified''),
     (''unverified'', ''rejected''), (''expired'', ''expired'')] ''created''"

definition stripe_getStatus :: "'s backend \<Rightarrow> idp_runtime \<Rightarrow> idp_config \<Rightarrow> string \<Rightarrow> ('s world, verification_result) prog" where
  "stripe_getStatus B R C i = bnd (retrieveVerificationSession B R C i) (\<lambda>v. lift_exn (stripe_result v))"

text \<open>The classes by name, and the module's choice.\<close>

definition provider_class :: "'s backend \<Rightarrow> idp_runtime \<Rightarrow> idp_config \<Rightarrow> string \<Rightarrow> 's kyc_provider option" where
  "provider_class B R C = map_of [
     (''sumsub'', \<lparr>kp_name = ''sumsub'', kp_session = sumsub_createSession B R C, kp_status = sumsub_getStatus B R C, kp_webhook = sumsub_webhook\<rparr>),
     (''persona'', \<lparr>kp_name = ''persona'', kp_session = persona_open B R C, kp_status = persona_getStatus B R C, kp_webhook = persona_webhook\<rparr>),
     (''veriff'', \<lparr>kp_name = ''veriff'', kp_session = veriff_open B R C, kp_status = veriff_getStatus B R C, kp_webhook = veriff_webhook\<rparr>),
     (''synaps'', \<lparr>kp_name = ''synaps'', kp_session = synaps_open B R C, kp_status = synaps_getStatus B R C, kp_webhook = synaps_webhook\<rparr>),
     (''stripe'', \<lparr>kp_name = ''stripe'', kp_session = stripe_open B R C, kp_status = stripe_getStatus B R C, kp_webhook = stripe_webhook\<rparr>),
     (''alloy'', \<lparr>kp_name = ''alloy'', kp_session = alloy_open B R C, kp_status = alloy_getStatus B R C, kp_webhook = alloy_webhook\<rparr>)]"

definition identity_config :: "'s backend \<Rightarrow> idp_config" where
  "identity_config B = \<lparr>ic_provider = default (getenv B ''IDENTITY_PROVIDER'') ''sumsub'', ic_api_key = default (getenv B ''IDENTITY_API_KEY'') [],
     ic_api_secret = getenv B ''IDENTITY_API_SECRET'', ic_webhook_secret = getenv B ''IDENTITY_WEBHOOK_SECRET'',
     ic_base_url = getenv B ''IDENTITY_BASE_URL'', ic_api_url = None, ic_timeout = map_option TextMs (getenv B ''IDENTITY_TIMEOUT''),
     ic_level_name = getenv B ''IDENTITY_LEVEL_NAME''\<rparr>"

text \<open>A name inherited from \<open>Object.prototype\<close> finds no class of a provider and ends in a \<open>TypeError\<close>, at once or in the first call.\<close>

definition identity_provider :: "'s backend \<Rightarrow> idp_runtime \<Rightarrow> exn + 's kyc_provider" where
  "identity_provider B R =
     (let C = identity_config B; name = ic_provider C
      in case provider_class B R C name of
        Some V \<Rightarrow> Inr V
      | None \<Rightarrow> if inherited name then Inl (PlainError ''TypeError'') else Inl (PlainError (''Unsupported identity provider: '' @ name)))"

definition identity_createSession :: "'s kyc_provider \<Rightarrow> string \<Rightarrow> json option \<Rightarrow> ('s world, session_result) prog" where
  "identity_createSession V userId metadata = kp_session V userId metadata"

definition identity_getStatus :: "'s kyc_provider \<Rightarrow> string \<Rightarrow> ('s world, verification_result) prog" where
  "identity_getStatus V providerVerificationId = kp_status V providerVerificationId"

section \<open>The configuration manager\<close>

text \<open>\<open>parseInt(s, 10)\<close>.\<close>

definition parse_int :: "string \<Rightarrow> jsnum" where
  "parse_int s = (case split_sign (dropWhile js_space s) of (negative, t) \<Rightarrow>
     let ds = takeWhile digit t
     in if ds = [] then NaN else of_exact (if negative then - of_nat (digits_val ds) else of_nat (digits_val ds)))"

text \<open>What the constructor gets: variables by name, or a configuration. Variables without the two keys are taken for a configuration.\<close>

datatype manager_input = Variables "(string \<times> string) list" | Configuration idp_config

definition fromEnv :: "(string \<times> string) list \<Rightarrow> idp_config" where
  "fromEnv vars = \<lparr>ic_provider = or_else (map_of vars ''IDENTITY_PROVIDER'') ''sumsub'', ic_api_key = default (map_of vars ''IDENTITY_API_KEY'') [],
     ic_api_secret = Some (default (map_of vars ''IDENTITY_API_SECRET'') []), ic_webhook_secret = Some (default (map_of vars ''IDENTITY_WEBHOOK_SECRET'') []),
     ic_base_url = Some (default (map_of vars ''IDENTITY_BASE_URL'') []), ic_api_url = None,
     ic_timeout = Some (NumMs (parse_int (or_else (map_of vars ''IDENTITY_TIMEOUT'') ''30000''))),
     ic_level_name = Some (or_else (map_of vars ''IDENTITY_LEVEL_NAME'') ''basic-kyc-level'')\<rparr>"

definition read_as_config :: "(string \<times> string) list \<Rightarrow> idp_config" where
  "read_as_config vars = \<lparr>ic_provider = default (map_of vars ''provider'') [], ic_api_key = default (map_of vars ''apiKey'') [],
     ic_api_secret = map_of vars ''apiSecret'', ic_webhook_secret = map_of vars ''webhookSecret'', ic_base_url = map_of vars ''baseUrl'',
     ic_api_url = map_of vars ''apiUrl'', ic_timeout = map_option TextMs (map_of vars ''timeout''), ic_level_name = map_of vars ''levelName''\<rparr>"

definition validateConfig :: "idp_config \<Rightarrow> exn option" where
  "validateConfig C =
     (if ic_provider C = [] then Some (PlainError ''IDENTITY_PROVIDER is required'')
      else if ic_api_key C = [] then Some (PlainError ''IDENTITY_API_KEY is required'')
      else if ic_provider C = ''sumsub'' \<and> \<not> truthy (ic_api_secret C) then Some (PlainError ''IDENTITY_API_SECRET is required for Sumsub'')
      else None)"

definition new_manager :: "manager_input \<Rightarrow> exn + idp_config" where
  "new_manager input =
     (let C = (case input of
          Variables vars \<Rightarrow> if map_of vars ''IDENTITY_PROVIDER'' \<noteq> None \<or> map_of vars ''IDENTITY_API_KEY'' \<noteq> None then fromEnv vars else read_as_config vars
        | Configuration c \<Rightarrow> c)
      in case validateConfig C of Some e \<Rightarrow> Inl e | None \<Rightarrow> Inr C)"

text \<open>\<open>updateConfig\<close>: the fields of the update in order; the new configuration is installed before it is validated.\<close>

datatype config_change =
    SetProvider string
  | SetApiKey string
  | SetApiSecret "string option"
  | SetBaseUrl "string option"
  | SetTimeout "timeout_value option"

definition change_config :: "config_change \<Rightarrow> idp_config \<Rightarrow> idp_config" where
  "change_config ch C = (case ch of
     SetProvider s \<Rightarrow> C\<lparr>ic_provider := s\<rparr>
   | SetApiKey s \<Rightarrow> C\<lparr>ic_api_key := s\<rparr>
   | SetApiSecret s \<Rightarrow> C\<lparr>ic_api_secret := s\<rparr>
   | SetBaseUrl s \<Rightarrow> C\<lparr>ic_base_url := s\<rparr>
   | SetTimeout t \<Rightarrow> C\<lparr>ic_timeout := t\<rparr>)"

definition updateConfig :: "config_change list \<Rightarrow> idp_config \<Rightarrow> (exn + unit) \<times> idp_config" where
  "updateConfig updates C =
     (let D = fold change_config updates C
      in (case validateConfig D of Some e \<Rightarrow> (Inl e, D) | None \<Rightarrow> (Inr (), D)))"

lemma new_manager_valid: "new_manager input = Inr C \<Longrightarrow> validateConfig C = None"
  by (auto simp: new_manager_def Let_def split: option.splits)

text \<open>A refused update is in force all the same.\<close>

lemma refused_update_stays:
  "validateConfig (fold change_config us C) = Some e \<Longrightarrow> updateConfig us C = (Inl e, fold change_config us C)"
  by (simp add: updateConfig_def)

section \<open>What is asked of a vendor\<close>

text \<open>A program that asks at most \<open>n\<close> requests that satisfy \<open>P\<close>, and changes nothing else one can see.\<close>

definition asks_only :: "('s \<Rightarrow> tables) \<Rightarrow> (http_request \<Rightarrow> bool) \<Rightarrow> nat \<Rightarrow> 's world \<Rightarrow> 's world \<Rightarrow> bool" where
  "asks_only st P n w w' \<longleftrightarrow> st (svc w') = st (svc w) \<and> emitted w' = emitted w \<and> spawned w' = spawned w \<and> mailed w' = mailed w \<and>
     (\<exists>ls. sent w' = sent w @ ls \<and> length ls \<le> n \<and> (\<forall>(rq, _) \<in> set ls. P rq))"

lemma asks_only_refl [simp]: "asks_only st P n w w"
  by (simp add: asks_only_def)

lemma asks_only_svc: "st s = st (svc w) \<Longrightarrow> asks_only st P n w (w\<lparr>svc := s\<rparr>)"
  by (simp add: asks_only_def)

lemma asks_only_trans: "asks_only st P n u v \<Longrightarrow> asks_only st P m v w \<Longrightarrow> asks_only st P (n + m) u w"
  unfolding asks_only_def
proof (elim conjE exE, intro conjI)
  fix ls ms
  assume "sent v = sent u @ ls" "length ls \<le> n" "\<forall>(rq, _) \<in> set ls. P rq" "sent w = sent v @ ms" "length ms \<le> m" "\<forall>(rq, _) \<in> set ms. P rq"
  then show "\<exists>ls. sent w = sent u @ ls \<and> length ls \<le> n + m \<and> (\<forall>(rq, _) \<in> set ls. P rq)"
    by (intro exI [of _ "ls @ ms"]) auto
qed simp_all

text \<open>A program that asks so from every world.\<close>

definition asker :: "('s \<Rightarrow> tables) \<Rightarrow> (http_request \<Rightarrow> bool) \<Rightarrow> nat \<Rightarrow> ('s world, 'a) prog \<Rightarrow> bool" where
  "asker st P n m \<longleftrightarrow> (\<forall>w. asks_only st P n w (snd (m w)))"

lemma asker_ret [intro]: "asker st P 0 (ret x)"
  by (simp add: asker_def ret_def)

lemma asker_throw [intro]: "asker st P 0 (throw e)"
  by (simp add: asker_def throw_def)

lemma asker_require [intro]: "asker st P 0 (require c e)"
  by (simp add: asker_def require_run)

lemma asker_lift [intro]: "asker st P 0 (lift_exn r)"
  by (simp add: asker_def lift_exn_run)

lemma asker_mono:
  assumes "asker st P n m" and "n \<le> k"
  shows "asker st P k m"
  unfolding asker_def
proof
  fix w
  obtain ls where "sent (snd (m w)) = sent w @ ls" "length ls \<le> n" "\<forall>(rq, _) \<in> set ls. P rq"
    using assms(1) unfolding asker_def asks_only_def by blast
  then have "\<exists>ls. sent (snd (m w)) = sent w @ ls \<and> length ls \<le> k \<and> (\<forall>(rq, _) \<in> set ls. P rq)"
    using assms(2) le_trans by blast
  then show "asks_only st P k w (snd (m w))" using assms(1) by (simp add: asker_def asks_only_def)
qed

lemma asker_bnd:
  assumes "asker st P n m" and "\<And>x. asker st P k (f x)"
  shows "asker st P (n + k) (bnd m f)"
  unfolding asker_def
proof
  fix w
  obtain r v where m: "m w = (r, v)" by (metis prod.collapse)
  have one: "asks_only st P n w v" using assms(1) m by (metis asker_def snd_conv)
  show "asks_only st P (n + k) w (snd (bnd m f w))"
  proof (cases r)
    case (Inl e)
    then show ?thesis using asks_only_trans [OF one asks_only_refl] m by (simp add: bnd_def)
  next
    case (Inr x)
    then show ?thesis using asks_only_trans [OF one] assms(2) [of x] m by (simp add: bnd_def asker_def)
  qed
qed

lemma asker_guard: "asker st P n m \<Longrightarrow> asker st P n (bnd (require c e) (\<lambda>_. m))"
  using asker_bnd [of st P 0 "require c e" n "\<lambda>_. m"] by auto

lemma asker_lifted: "(\<And>x. r = Inr x \<Longrightarrow> asker st P n (f x)) \<Longrightarrow> asker st P n (bnd (lift_exn r) f)"
  by (cases r) (auto simp: asker_def bnd_def lift_exn_run)

lemma asker_then_lift: "asker st P 1 m \<Longrightarrow> asker st P 2 (bnd m (\<lambda>x. lift_exn (f x)))"
  by (rule asker_mono [OF asker_bnd [OF _ asker_lift]], assumption, simp)

definition carries :: "string \<Rightarrow> (string \<Rightarrow> bool) \<Rightarrow> http_request \<Rightarrow> bool" where
  "carries base auth rq \<longleftrightarrow> starts_with (base @ ''/'') (rq_url rq) \<and> (\<exists>a. map_of (rq_headers rq) ''Authorization'' = Some a \<and> auth a)"

text \<open>The start of the addresses of a vendor, and its credentials.\<close>

definition vendor_address :: "idp_config \<Rightarrow> string \<Rightarrow> string option" where
  "vendor_address C vendor =
     (if vendor = ''sumsub'' then url_origin (sumsub_base C) else if vendor = ''persona'' then url_origin (persona_base C)
      else if vendor = ''veriff'' then Some (veriff_base C) else if vendor = ''synaps'' then Some (synaps_base C)
      else if vendor = ''alloy'' then Some (alloy_base C) else if vendor = ''stripe'' then Some ''https://api.stripe.com/v1'' else None)"

definition vendor_credentials :: "idp_runtime \<Rightarrow> idp_config \<Rightarrow> string \<Rightarrow> string \<Rightarrow> bool" where
  "vendor_credentials R C vendor auth \<longleftrightarrow>
     (if vendor = ''sumsub'' then \<exists>t. auth = ''Bearer '' @ rt_sign R t (t + 3600) (default (ic_api_secret C) []) \<and> truthy (ic_api_secret C)
      else if vendor = ''veriff'' then auth = veriff_auth C \<and> truthy (ic_api_secret C) else auth = bearer C)"

definition for_vendor :: "idp_runtime \<Rightarrow> idp_config \<Rightarrow> string \<Rightarrow> http_request \<Rightarrow> bool" where
  "for_vendor R C vendor rq \<longleftrightarrow> (\<exists>base. vendor_address C vendor = Some base \<and> carries base (vendor_credentials R C vendor) rq)"

lemma starts_with_base: "starts_with ''/'' path \<Longrightarrow> starts_with (base @ ''/'') (base @ path)"
  by (simp add: starts_with_def)

context database begin

lemma asker_vendor:
  assumes "\<And>rq. rq_url rq = url \<Longrightarrow> map_of (rq_headers rq) ''Authorization'' = Some auth \<Longrightarrow> P rq"
  shows "asker st P 1 (vendor_request B R C vendor auth meth url query data)"
  unfolding vendor_request_def
proof (rule asker_guard)
  have "asker st P 1 (send B \<lparr>rq_method = meth, rq_url = url, rq_query = query,
       rq_headers = [(''Content-Type'', ''application/json''), (''Authorization'', auth)], rq_body = data\<rparr>)" (is "asker st P 1 (send B ?rq)")
    unfolding asker_def
  proof
    fix w
    have "P ?rq" by (rule assms) simp_all
    then show "asks_only st P 1 w (snd (send B ?rq w))"
      using fetch_law [of ?rq "svc w"] by (auto simp: asks_only_def send_def split: prod.splits)
  qed
  moreover have "asker st P 0 (case answer of Inl message \<Rightarrow> throw (PlainError message)
     | Inr res \<Rightarrow> bnd (require (200 \<le> rp_status res \<and> rp_status res < 300) (e res)) (\<lambda>_.
         case rp_body res of Json v \<Rightarrow> ret v | Text _ \<Rightarrow> throw (PlainError ''SyntaxError'')))" for answer :: "string + http_response" and e
    by (auto split: sum.split http_body.split intro!: asker_guard)
  ultimately have "asker st P (1 + 0) (bnd (send B ?rq) (\<lambda>answer. case answer of Inl message \<Rightarrow> throw (PlainError message)
     | Inr res \<Rightarrow> bnd (require (200 \<le> rp_status res \<and> rp_status res < 300)
           (PlainError (vendor @ '' API error: '' @ nat_str (rp_status res) @ '' - '' @ body_text (rp_body res)))) (\<lambda>_.
         case rp_body res of Json v \<Rightarrow> ret v | Text _ \<Rightarrow> throw (PlainError ''SyntaxError''))))"
    by (rule asker_bnd)
  then show "asker st P 1 (bnd (send B ?rq) (\<lambda>answer. case answer of Inl message \<Rightarrow> throw (PlainError message)
     | Inr res \<Rightarrow> bnd (require (200 \<le> rp_status res \<and> rp_status res < 300)
           (PlainError (vendor @ '' API error: '' @ nat_str (rp_status res) @ '' - '' @ body_text (rp_body res)))) (\<lambda>_.
         case rp_body res of Json v \<Rightarrow> ret v | Text _ \<Rightarrow> throw (PlainError ''SyntaxError''))))" by simp
qed

lemma asker_clock:
  assumes "\<And>t. asker st P n (f t)"
  shows "asker st P n (bnd (call (now B)) f)"
proof -
  have "asker st P 0 (call (now B))"
    unfolding asker_def
  proof
    fix w :: "'s world"
    obtain t s where n: "now B (svc w) = (t, s)" by (metis prod.collapse)
    then have "st s = st (svc w)" using now_law by blast
    then show "asks_only st P 0 w (snd (call (now B) w))" using n by (simp add: call_def asks_only_svc)
  qed
  from asker_bnd [OF this assms] show ?thesis by simp
qed

lemma sumsub_asks: "starts_with ''/'' path \<Longrightarrow> asker st (for_vendor R C ''sumsub'') 1 (sumsub_request B R C meth path data)"
proof -
  assume path: "starts_with ''/'' path"
  have "asker st (for_vendor R C ''sumsub'') 1 (bnd (lift_exn (web_url path (sumsub_base C))) (\<lambda>url.
     vendor_request B R C ''Sumsub'' (''Bearer '' @ rt_sign R t (t + 3600) (default (ic_api_secret C) [])) meth url [] data))"
    if "truthy (ic_api_secret C)" for t
  proof (intro asker_lifted asker_vendor)
    fix url and rq :: http_request
    assume "web_url path (sumsub_base C) = Inr url" and rq: "rq_url rq = url"
      "map_of (rq_headers rq) ''Authorization'' = Some (''Bearer '' @ rt_sign R t (t + 3600) (default (ic_api_secret C) []))"
    then obtain origin where "url_origin (sumsub_base C) = Some origin" "url = origin @ path"
      by (auto simp: web_url_def split: option.splits)
    then show "for_vendor R C ''sumsub'' rq"
      using rq that unfolding for_vendor_def carries_def vendor_address_def vendor_credentials_def by (simp add: starts_with_base [OF path]) blast
  qed
  moreover have "asker st (for_vendor R C ''sumsub'') 1 (throw e :: ('s world, json) prog)" for e by (rule asker_mono [OF asker_throw]) simp
  ultimately show ?thesis
    unfolding sumsub_request_def createJwt_def bnd_assoc Let_def
    by (intro asker_clock) (simp add: require_def bnd_ret_left bnd_throw_left del: One_nat_def)
qed

lemma persona_asks: "starts_with ''/'' path \<Longrightarrow> asker st (for_vendor R C ''persona'') 1 (persona_request B R C meth path data query)"
  unfolding persona_request_def
proof (intro asker_lifted asker_vendor)
  assume path: "starts_with ''/'' path"
  fix url and rq :: http_request
  assume "web_url path (persona_base C) = Inr url" and rq: "rq_url rq = url" "map_of (rq_headers rq) ''Authorization'' = Some (bearer C)"
  then obtain origin where "url_origin (persona_base C) = Some origin" "url = origin @ path"
    by (auto simp: web_url_def split: option.splits)
  then show "for_vendor R C ''persona'' rq"
    using rq unfolding for_vendor_def carries_def vendor_address_def vendor_credentials_def by (simp add: starts_with_base [OF path])
qed

lemma veriff_asks: "asker st (for_vendor R C ''veriff'') 1 (veriff_request B R C meth path data)"
  if path: "starts_with ''/'' path"
proof (cases "truthy (ic_api_secret C)")
  case True
  show ?thesis unfolding veriff_request_def
    by (intro asker_guard asker_vendor) (simp add: True for_vendor_def carries_def vendor_address_def vendor_credentials_def starts_with_base [OF path])
next
  case False
  then show ?thesis unfolding veriff_request_def
    by (auto simp: require_def bnd_throw_left intro: asker_mono [OF asker_throw])
qed

lemma synaps_asks: "starts_with ''/'' path \<Longrightarrow> asker st (for_vendor R C ''synaps'') 1 (synaps_request B R C meth path data)"
  unfolding synaps_request_def
  by (intro asker_vendor) (simp add: for_vendor_def carries_def vendor_address_def vendor_credentials_def starts_with_base)

lemma alloy_asks: "starts_with ''/'' path \<Longrightarrow> asker st (for_vendor R C ''alloy'') 1 (alloy_request B R C meth path data)"
  unfolding alloy_request_def
  by (intro asker_vendor) (simp add: for_vendor_def carries_def vendor_address_def vendor_credentials_def starts_with_base)

lemma stripe_asks: "starts_with ''/'' path \<Longrightarrow> asker st (for_vendor R C ''stripe'') 1 (stripe_request B R C meth path data)"
  unfolding stripe_request_def
  by (intro asker_vendor) (simp add: for_vendor_def carries_def vendor_address_def vendor_credentials_def starts_with_base [where base = "''https://api.stripe.com/v1''", simplified])

lemmas vendor_asks = persona_asks veriff_asks synaps_asks alloy_asks stripe_asks

lemma sumsub_opens: "asker st (for_vendor R C ''sumsub'') 2 (sumsub_createSession B R C u m)"
proof -
  have "asker st (for_vendor R C ''sumsub'') (1 + 0) (bnd (generateAccessToken B R C i None) (\<lambda>answer. bnd (lift_exn (property_of ''token'' answer)) (\<lambda>token.
     ret \<lparr>ss_reference = i, ss_url = Some (JStr (''https://frontend.sumsub.com/websdk/sdk?accessToken='' @ template_text token)),
       ss_metadata = Some (JObj (jopt ''applicantId'' i))\<rparr>)))" for i
    unfolding generateAccessToken_def by (intro asker_bnd sumsub_asks asker_lifted asker_ret) (simp add: starts_with_def)
  then have "asker st (for_vendor R C ''sumsub'') (1 + 1) (sumsub_createSession B R C u m)"
    unfolding sumsub_createSession_def createApplicant_def by (intro asker_bnd sumsub_asks asker_lifted) (simp_all add: starts_with_def)
  then show ?thesis by (simp add: numeral_2_eq_2)
qed

lemma provider_asks:
  assumes "identity_provider B R = Inr V"
  shows "asker st (for_vendor R (identity_config B) (kp_name V)) 2 (kp_session V u m) \<and>
    asker st (for_vendor R (identity_config B) (kp_name V)) 2 (kp_status V i)"
proof -
  obtain name where "provider_class B R (identity_config B) name = Some V" "name = ic_provider (identity_config B)"
    using assms by (auto simp: identity_provider_def Let_def split: option.splits if_splits)
  moreover have "starts_with ''/'' (CHR ''/'' # p)" for p by (simp add: starts_with_def)
  ultimately show ?thesis
    unfolding provider_class_def
    by (auto simp: persona_open_def veriff_open_def synaps_open_def alloy_open_def stripe_open_def createInquiry_def veriff_createSession_def
        synaps_createSession_def createEvaluation_def createVerificationSession_def sumsub_getStatus_def persona_getStatus_def veriff_getStatus_def
        synaps_getStatus_def alloy_getStatus_def stripe_getStatus_def getApplicantStatus_def getInquiry_def veriff_getSession_def synaps_getSession_def
        getEvaluation_def retrieveVerificationSession_def sumsub_opens intro!: asker_then_lift sumsub_asks vendor_asks split: if_splits)
qed

end

section \<open>Sessions are never verified at once\<close>

text \<open>The metadata a session of one of the six providers carries have no status, so the session starts as pending.\<close>

definition starts_pending :: "('s world, session_result) prog \<Rightarrow> bool" where
  "starts_pending m \<longleftrightarrow> (\<forall>w session w'. m w = (Inr session, w') \<longrightarrow> session_status session = JStr ''pending'')"

lemma jopt_status: "k \<noteq> ''status'' \<Longrightarrow> jget ''status'' (JObj (jopt k v)) = None"
  by (simp add: jget_def jopt_def split: option.split)

lemma opened_pending:
  assumes "name \<noteq> ''status''" and "opened_session idKey urlKey name v = Inr session"
  shows "session_status session = JStr ''pending''"
proof -
  obtain i where "session = \<lparr>ss_reference = i, ss_url = Option.bind urlKey (\<lambda>k. jget k v), ss_metadata = Some (JObj (jopt name i))\<rparr>"
    using assms(2) by (auto simp: opened_session_def split: sum.splits)
  then show ?thesis by (simp add: session_status_def jopt_status [OF assms(1)])
qed

lemma starts_pending_opened: "name \<noteq> ''status'' \<Longrightarrow> starts_pending (bnd m (\<lambda>v. lift_exn (opened_session idKey urlKey name v)))"
  unfolding starts_pending_def by (auto simp: bnd_run lift_exn_run split: prod.splits sum.splits dest: opened_pending)

lemma starts_pending_bnd: "(\<And>x. starts_pending (f x)) \<Longrightarrow> starts_pending (bnd m f)"
  unfolding starts_pending_def by (auto simp: bnd_run split: prod.splits sum.splits)

lemma starts_pending_sumsub: "starts_pending (sumsub_createSession B R C u m)"
  unfolding sumsub_createSession_def
  by (intro starts_pending_bnd) (simp add: starts_pending_def ret_def session_status_def jopt_status)

lemma provider_starts_pending:
  assumes "identity_provider B R = Inr V"
  shows "starts_pending (kp_session V u m)"
proof -
  obtain name where "provider_class B R (identity_config B) name = Some V"
    using assms by (auto simp: identity_provider_def Let_def split: option.splits if_splits)
  then show ?thesis unfolding provider_class_def
    by (auto simp: persona_open_def veriff_open_def synaps_open_def alloy_open_def stripe_open_def starts_pending_sumsub
        intro!: starts_pending_opened split: if_splits)
qed

lemma provider_keeps_tables:
  assumes "database B st" and "identity_provider B R = Inr V"
  shows "provider_keeps st V"
  using database.provider_asks [OF assms] by (simp add: provider_keeps_def asker_def asks_only_def)

section \<open>Properties\<close>

text \<open>
  (C32) A person is verified by a webhook only. Over any database whose verification ids are unique, with the provider the configuration
  chooses among the six: a request for a session or a webhook changes only verification records, and a verified record that is new
  or changed was named by a webhook that carried the configured secret and that the provider reads as verified; asking for
  a session verifies nobody.
\<close>

theorem person_verified_by_webhook:
  assumes "database B st" and "identity_provider B R = Inr V" and "keyed vr_id (t_verifications (st (svc w)))"
    and "handle_kyc B V q w = w'"
  shows "(st (svc w))\<lparr>t_verifications := []\<rparr> = (st (svc w'))\<lparr>t_verifications := []\<rparr> \<and>
    (\<forall>y \<in> set (t_verifications (st (svc w'))). vr_status y = ''verified'' \<longrightarrow> y \<in> set (t_verifications (st (svc w))) \<or>
      (\<exists>header payload result. q = KycWebhook header payload \<and> truthy header \<and> header = getenv B ''KYC_WEBHOOK_SECRET'' \<and>
        kp_webhook V payload = Inr result \<and> wr_status result = ''verified'' \<and> vr_reference y = Some (reference_text result)))"
proof -
  have never: "\<not> vouched B V (StartKyc u md) y" for u md y
    using provider_starts_pending [OF assms(2)] by (fastforce simp: vouched_def starts_pending_def)
  have "kyc_past (vouched B V q) (st (svc w)) (st (svc w'))"
    using kyc_handled [OF assms(1) provider_keeps_tables [OF assms(1,2)] assms(3)] assms(4) by blast
  then show ?thesis unfolding kyc_past_def
    using never by (cases q) (auto simp: vouched_def)
qed

text \<open>
  Credentials go to the vendor only. Over any database, with the provider the configuration chooses, opening a session or asking for a status
  changes no table, emits nothing and sends at most two requests; each goes to an address below the vendor's base and carries
  the vendor's credentials of the configuration (for Sumsub a token of one hour signed with the secret), and for Sumsub and Veriff none is sent without a secret.
\<close>

theorem vendor_requests_addressed:
  assumes "database B st" and "identity_provider B R = Inr V"
    and "w' \<in> {snd (identity_createSession V u m w), snd (identity_getStatus V i w)}"
  shows "st (svc w') = st (svc w) \<and> emitted w' = emitted w \<and>
    (\<exists>ls. sent w' = sent w @ ls \<and> length ls \<le> 2 \<and> (\<forall>(rq, _) \<in> set ls. \<exists>base a.
      vendor_address (identity_config B) (kp_name V) = Some base \<and> starts_with (base @ ''/'') (rq_url rq) \<and>
      map_of (rq_headers rq) ''Authorization'' = Some a \<and> vendor_credentials R (identity_config B) (kp_name V) a))"
proof -
  have "asks_only st (for_vendor R (identity_config B) (kp_name V)) 2 w w'"
    using database.provider_asks [OF assms(1,2)] assms(3) by (auto simp: asker_def identity_createSession_def identity_getStatus_def)
  then show ?thesis unfolding asks_only_def for_vendor_def carries_def by blast
qed

text \<open>
  Asking a provider agrees with being told. For each of the six providers, the status read from the vendor's answer for a person is the one its
  webhook handler reads from a notification with the same document, also when it is malformed.
\<close>

theorem asked_agrees_with_told:
  "map_sum id vt_status (sumsub_result v) = map_sum id wr_status (sumsub_webhook v) \<and>
   map_sum id vt_status (persona_result v) = map_sum id wr_status (persona_webhook v) \<and>
   map_sum id vt_status (veriff_result v) = map_sum id wr_status (veriff_webhook v) \<and>
   map_sum id vt_status (synaps_result v) = map_sum id wr_status (synaps_webhook v) \<and>
   map_sum id vt_status (alloy_result v) = map_sum id wr_status (alloy_webhook v) \<and>
   map_sum id vt_status (stripe_result v) = map_sum id wr_status (stripe_webhook (JObj [(''data'', JObj [(''object'', v)])]))"
proof -
  have two: "status_by [(''GREEN'', ''verified''), (''RED'', ''rejected'')] a =
      (if a = Some (JStr ''GREEN'') then ''verified'' else if a = Some (JStr ''RED'') then ''rejected'' else ''in_review'')" for a
    by (auto simp: status_by_def default_def split: option.split json.split)
  have simple: "map_sum id vt_status (status_result table stamp v) = map_sum id wr_status (simple_webhook key table v)" for table stamp key
    by (simp add: status_result_def simple_webhook_def webhook_of_def split: sum.split)
  have "map_sum id vt_status (sumsub_result v) = map_sum id wr_status (sumsub_webhook v)"
    by (simp add: sumsub_result_def sumsub_webhook_def webhook_of_def two Let_def split: sum.split)
  moreover have "map_sum id vt_status (veriff_result v) = map_sum id wr_status (veriff_webhook v)"
  proof -
    have "map_sum id vt_status (map_sum id (\<lambda>r. r\<lparr>vt_metadata := m\<rparr>) q) = map_sum id vt_status q" for m and q :: "exn + verification_result"
      by (cases q) simp_all
    then show ?thesis unfolding veriff_result_def veriff_webhook_def simple by (simp only: simple)
  qed
  moreover have "map_sum id vt_status (stripe_result v) = map_sum id wr_status (stripe_webhook (JObj [(''data'', JObj [(''object'', v)])]))"
    by (simp add: stripe_result_def stripe_webhook_def status_result_def webhook_of_def property_of_def inner_property_def jget_def split: sum.split)
  ultimately show ?thesis
    unfolding persona_result_def persona_webhook_def synaps_result_def synaps_webhook_def alloy_result_def alloy_webhook_def
    by (intro conjI simple)
qed

section \<open>Runs\<close>

definition idp_vars :: "string \<Rightarrow> string \<Rightarrow> string option" where
  "idp_vars provider = map_of [(''IDENTITY_PROVIDER'', provider), (''IDENTITY_API_KEY'', ''key''), (''IDENTITY_API_SECRET'', ''top''),
     (''KYC_WEBHOOK_SECRET'', ''s3cret'')]"

definition idp_plain :: idp_runtime where
  "idp_plain = \<lparr>rt_sign = (\<lambda>_ _ k. k @ ''.jwt''), rt_timeout = (\<lambda>t. t = NumMs (Fin 30000))\<rparr>"

text \<open>A vendor that answers with an id of its own and the external id it was given.\<close>

definition idp_reply :: "http_request \<Rightarrow> json" where
  "idp_reply rq = JObj ([(''id'', JStr ''app1''), (''status'', JStr ''approved''), (''token'', JStr ''t'')] @
     jopt ''externalUserId'' (Option.bind (rq_body rq) (jget ''externalUserId'')))"

definition idp_world :: "mem world" where
  "idp_world = world_on no_tables (quiet_env\<lparr>reply := (\<lambda>_ rq. Inr \<lparr>rp_status = 200, rp_body = Json (idp_reply rq)\<rparr>)\<rparr>)"

definition the_provider :: "string \<Rightarrow> mem kyc_provider" where
  "the_provider name = (case identity_provider (mem_backend (idp_vars name)) idp_plain of Inr V \<Rightarrow> V | Inl _ \<Rightarrow> undefined)"

lemma the_provider_chosen:
  "name \<in> {''sumsub'', ''persona'', ''veriff'', ''synaps'', ''stripe'', ''alloy''} \<Longrightarrow>
     identity_provider (mem_backend (idp_vars name)) idp_plain = Inr (the_provider name)"
  by (auto simp: the_provider_def identity_provider_def identity_config_def provider_class_def idp_vars_def mem_backend_def Let_def default_def)

definition green_for :: "string \<Rightarrow> json" where
  "green_for i = JObj [(''applicantId'', JStr i), (''reviewResult'', JObj [(''reviewAnswer'', JStr ''GREEN'')])]"

definition idp_after :: "string \<Rightarrow> kyc_request list \<Rightarrow> mem world" where
  "idp_after name qs = fold (handle_kyc (mem_backend (idp_vars name)) (the_provider name)) qs idp_world"

definition idp_statuses :: "string \<Rightarrow> kyc_request list \<Rightarrow> (string \<times> string option \<times> string) list" where
  "idp_statuses name qs = map (\<lambda>r. (vr_subject_id r, vr_reference r, vr_status r)) (t_verifications (tabs (svc (idp_after name qs))))"

lemma person_verified_by_webhook_witness:
  "idp_statuses ''sumsub'' [StartKyc ''U2'' None, KycWebhook (Some ''guess'') (green_for ''U2'')] = [(''U2'', Some ''U2'', ''pending'')] \<and>
   idp_statuses ''sumsub'' [StartKyc ''U2'' None, KycWebhook (Some ''s3cret'') (green_for ''U2'')] = [(''U2'', Some ''U2'', ''verified'')] \<and>
   Some ''s3cret'' = getenv (mem_backend (idp_vars ''sumsub'')) ''KYC_WEBHOOK_SECRET''"
proof -
  let ?B = "mem_backend (idp_vars ''sumsub'')" and ?w = "idp_after ''sumsub'' [StartKyc ''U2'' None]"
  let ?v = "idp_after ''sumsub'' [StartKyc ''U2'' None, KycWebhook (Some ''s3cret'') (green_for ''U2'')]"
  have s: "idp_statuses ''sumsub'' [StartKyc ''U2'' None] = [(''U2'', Some ''U2'', ''pending'')]"
    "idp_statuses ''sumsub'' [StartKyc ''U2'' None, KycWebhook (Some ''guess'') (green_for ''U2'')] = [(''U2'', Some ''U2'', ''pending'')]"
    "idp_statuses ''sumsub'' [StartKyc ''U2'' None, KycWebhook (Some ''s3cret'') (green_for ''U2'')] = [(''U2'', Some ''U2'', ''verified'')]" by code_simp+
  then obtain x y where x: "t_verifications (tabs (svc ?w)) = [x]" "vr_status x = ''pending''"
    and y: "t_verifications (tabs (svc ?v)) = [y]" "vr_status y = ''verified''" by (auto simp: idp_statuses_def map_eq_Cons_conv)
  have "handle_kyc ?B (the_provider ''sumsub'') (KycWebhook (Some ''s3cret'') (green_for ''U2'')) ?w = ?v" by (simp add: idp_after_def)
  note told = person_verified_by_webhook [OF mem.database_axioms the_provider_chosen [of "''sumsub''"] _ this]
  have "keyed vr_id (t_verifications (tabs (svc ?w)))" by (simp add: x keyed_def)
  then have "Some ''s3cret'' = getenv ?B ''KYC_WEBHOOK_SECRET''" using told x y by auto
  with s show ?thesis by blast
qed

definition ask_run :: "string \<Rightarrow> string \<Rightarrow> mem world" where
  "ask_run name i = snd (identity_getStatus (the_provider name) i idp_world)"

lemma vendor_requests_addressed_witness:
  "map (\<lambda>(rq, _). (rq_url rq, map_of (rq_headers rq) ''Authorization'')) (sent (ask_run ''veriff'' ''v1'')) =
     [(''https://api.veriff.com/v1/sessions/v1'', Some ''Basic a2V5OnRvcA=='')] \<and>
   tabs (svc (ask_run ''veriff'' ''v1'')) = tabs (svc idp_world)"
proof -
  have "map (\<lambda>(rq, _). (rq_url rq, map_of (rq_headers rq) ''Authorization'')) (sent (ask_run ''veriff'' ''v1'')) =
     [(''https://api.veriff.com/v1/sessions/v1'', Some ''Basic a2V5OnRvcA=='')]" by code_simp
  moreover have chosen: "identity_provider (mem_backend (idp_vars ''veriff'')) idp_plain = Inr (the_provider ''veriff'')" by (rule the_provider_chosen) simp
  moreover have "ask_run ''veriff'' ''v1'' \<in> {snd (identity_createSession (the_provider ''veriff'') [] None idp_world), snd (identity_getStatus (the_provider ''veriff'') ''v1'' idp_world)}"
    by (simp add: ask_run_def)
  note addressed = vendor_requests_addressed [OF mem.database_axioms chosen this]
  ultimately show ?thesis using addressed by blast
qed

text \<open>The base of Persona loses its path, an id is put into the address as it is, and the variable for the base is not read by Alloy and Synaps.\<close>

lemma persona_path_lost:
  "map (\<lambda>(rq, _). rq_url rq) (sent (ask_run ''persona'' ''../accounts'')) = [''https://withpersona.com/inquiries/../accounts'']"
  by code_simp

lemma base_url_ignored:
  "alloy_base (identity_config B) = ''https://sandbox.alloy.co/v1'' \<and> synaps_base (identity_config B) = ''https://api.synaps.io/v2''"
  by (simp add: alloy_base_def synaps_base_def identity_config_def)

text \<open>
  Sumsub names its own id in a webhook, but the record holds the external one, which the metadata of the request overrides: a webhook about the
  person's applicant finds no record, and one about anybody else's id verifies whoever asked for a session under it.
\<close>

lemma sumsub_reference_mismatch:
  "idp_statuses ''sumsub'' [StartKyc ''U2'' None, KycWebhook (Some ''s3cret'') (green_for ''app1'')] = [(''U2'', Some ''U2'', ''pending'')] \<and>
   idp_statuses ''sumsub'' [StartKyc ''U3'' (Some (JObj [(''externalUserId'', JStr ''app1'')])), KycWebhook (Some ''s3cret'') (green_for ''app1'')] =
     [(''U3'', Some ''app1'', ''verified'')]"
  by code_simp

end
