(* ===== verification/Errors.thy ===== *)
theory Errors
  imports Relay JsonText
begin

text \<open>
  \<open>common/filters\<close>: the one shape in which a refused request is answered,
  \<open>{success: false, error: {code, details: [{field, code, message}]}}\<close>, and the filter that brings the body of every 400 into it.
  What an exception of the framework has as its body is an argument.
\<close>

section \<open>The shape\<close>

definition detail_entry :: "detail \<Rightarrow> json" where
  "detail_entry d = JObj [(''field'', JStr (d_field d)), (''code'', JStr (d_code d)), (''message'', JStr (d_message d))]"

definition validationFailure :: "json list \<Rightarrow> string \<Rightarrow> json" where
  "validationFailure details code = JObj [(''success'', JBool False), (''error'', JObj [(''code'', JStr code), (''details'', JArr details)])]"

definition fieldError :: "string \<Rightarrow> string \<Rightarrow> string \<Rightarrow> json" where
  "fieldError field code message = validationFailure [detail_entry \<lparr>d_field = field, d_code = code, d_message = message\<rparr>] ''VALIDATION_ERROR''"

definition isValidationFailure :: "json \<Rightarrow> bool" where
  "isValidationFailure obj \<longleftrightarrow> jget ''success'' obj = Some (JBool False) \<and>
     (case jget ''error'' obj of
        Some e \<Rightarrow> jget ''code'' e \<noteq> None \<and> (case jget ''details'' e of Some (JArr _) \<Rightarrow> True | _ \<Rightarrow> False)
      | None \<Rightarrow> False)"

section \<open>The filter\<close>

text \<open>A string as it is, any other value as its JSON text.\<close>

definition as_text :: "json \<Rightarrow> string" where
  "as_text v = (case v of JStr s \<Rightarrow> s | _ \<Rightarrow> stringify v)"

definition or_given :: "json option \<Rightarrow> string \<Rightarrow> json" where
  "or_given v d = (if nullish v then JStr d else the v)"

definition completed_detail :: "json \<Rightarrow> exn + json" where
  "completed_detail d = (if d = JNull then Inl (PlainError ''TypeError'') else
     Inr (JObj [(''field'', or_given (jget ''field'' d) ''body''), (''code'', or_given (jget ''code'' d) ''VALIDATION_ERROR''),
       (''message'', or_given (jget ''message'' d) (stringify d))]))"

fun completed_details :: "json list \<Rightarrow> exn + json list" where
  "completed_details [] = Inr []"
| "completed_details (d # ds) = (case completed_detail d of
     Inl e \<Rightarrow> Inl e
   | Inr x \<Rightarrow> (case completed_details ds of Inl e \<Rightarrow> Inl e | Inr xs \<Rightarrow> Inr (x # xs)))"

definition body_detail :: "string \<Rightarrow> json" where
  "body_detail message = JObj [(''field'', JStr ''body''), (''code'', JStr ''VALIDATION_ERROR''), (''message'', JStr message)]"

definition text_or :: "json option \<Rightarrow> string \<Rightarrow> string" where
  "text_or v d = (if jtruthy v then as_text (the v) else d)"

text \<open>The body of the answer for the body of the exception.\<close>

definition filter_catch :: "json \<Rightarrow> exn + json" where
  "filter_catch raw =
     (if isValidationFailure raw then Inr raw
      else case raw of
        JStr s \<Rightarrow> Inr (validationFailure [body_detail s] ''VALIDATION_ERROR'')
      | JNull \<Rightarrow> Inr (validationFailure [body_detail (js_String raw)] ''VALIDATION_ERROR'')
      | JBool _ \<Rightarrow> Inr (validationFailure [body_detail (js_String raw)] ''VALIDATION_ERROR'')
      | JNum _ \<Rightarrow> Inr (validationFailure [body_detail (js_String raw)] ''VALIDATION_ERROR'')
      | _ \<Rightarrow> (case (case jget ''details'' raw of
               Some (JArr ds) \<Rightarrow> completed_details ds
             | _ \<Rightarrow> Inr [body_detail (text_or (jget ''message'' raw) (stringify raw))]) of
           Inl e \<Rightarrow> Inl e
         | Inr details \<Rightarrow> Inr (validationFailure details (text_or (jget ''code'' raw) ''VALIDATION_ERROR''))))"

section \<open>What it answers\<close>

text \<open>
  The contract, apart from the code: what counts as a failure already, and the failure that answers any other body. A detail
  keeps each of its three fields that is there and not \<open>null\<close>.
\<close>

definition is_failure :: "json \<Rightarrow> bool" where
  "is_failure v \<longleftrightarrow> (\<exists>e c ds. jget ''success'' v = Some (JBool False) \<and> jget ''error'' v = Some e \<and>
     jget ''code'' e = Some c \<and> jget ''details'' e = Some (JArr ds))"

definition kept_or :: "json option \<Rightarrow> json \<Rightarrow> json \<Rightarrow> bool" where
  "kept_or given fallback x \<longleftrightarrow> (if given = None \<or> given = Some JNull then x = fallback else given = Some x)"

definition completes :: "json \<Rightarrow> json \<Rightarrow> bool" where
  "completes d x \<longleftrightarrow> (\<exists>f c m. x = JObj [(''field'', f), (''code'', c), (''message'', m)] \<and>
     kept_or (jget ''field'' d) (JStr ''body'') f \<and> kept_or (jget ''code'' d) (JStr ''VALIDATION_ERROR'') c \<and>
     kept_or (jget ''message'' d) (JStr (stringify d)) m)"

definition text_of :: "json option \<Rightarrow> string \<Rightarrow> string \<Rightarrow> bool" where
  "text_of given fallback s \<longleftrightarrow> (if jtruthy given then given = Some (JStr s) \<or> (\<nexists>t. given = Some (JStr t)) \<and> s = stringify (the given)
     else s = fallback)"

definition the_message :: "json \<Rightarrow> string \<Rightarrow> bool" where
  "the_message raw s \<longleftrightarrow> (case raw of
     JStr t \<Rightarrow> s = t
   | JObj _ \<Rightarrow> text_of (jget ''message'' raw) (stringify raw) s
   | JArr _ \<Rightarrow> s = stringify raw
   | _ \<Rightarrow> s = js_String raw)"

definition answers_body :: "json \<Rightarrow> json \<Rightarrow> bool" where
  "answers_body raw v \<longleftrightarrow> (\<exists>code ds. v = JObj [(''success'', JBool False), (''error'', JObj [(''code'', JStr code), (''details'', JArr ds)])] \<and>
     text_of (jget ''code'' raw) ''VALIDATION_ERROR'' code \<and>
     (case jget ''details'' raw of
        Some (JArr given) \<Rightarrow> list_all2 completes given ds
      | _ \<Rightarrow> \<exists>m. the_message raw m \<and>
          ds = [JObj [(''field'', JStr ''body''), (''code'', JStr ''VALIDATION_ERROR''), (''message'', JStr m)]]))"

lemma isValidationFailure_iff: "isValidationFailure v \<longleftrightarrow> is_failure v"
  by (auto simp: isValidationFailure_def is_failure_def split: option.splits json.splits)

lemma isValidationFailure_built [simp]: "isValidationFailure (validationFailure details code)"
  by (simp add: isValidationFailure_def validationFailure_def jget_def)

lemma filter_keeps [simp]: "isValidationFailure v \<Longrightarrow> filter_catch v = Inr v"
  by (simp add: filter_catch_def)

lemma kept_or_given: "kept_or v (JStr d) (or_given v d)"
  by (cases v) (auto simp: kept_or_def or_given_def nullish_def)

lemma completed_completes: "completed_detail d = Inr x \<Longrightarrow> completes d x"
  by (auto simp: completed_detail_def completes_def kept_or_given split: if_splits)

lemma completed_details_complete: "completed_details ds = Inr xs \<Longrightarrow> list_all2 completes ds xs"
  by (induction ds arbitrary: xs) (auto split: sum.splits dest: completed_completes)

lemma completed_details_error: "completed_details ds = Inl e \<longleftrightarrow> e = PlainError ''TypeError'' \<and> JNull \<in> set ds"
  by (induction ds) (auto simp: completed_detail_def split: sum.splits)

lemma text_or_text: "text_of v d (text_or v d)"
  by (cases v) (auto simp: text_of_def text_or_def as_text_def split: json.split)

lemma jget_only_objects: "(\<nexists>kvs. v = JObj kvs) \<Longrightarrow> jget k v = None"
  by (cases v) (auto simp: jget_def)

lemma text_of_None: "text_of None d d" by (simp add: text_of_def)

lemma answer_without_details:
  assumes "\<nexists>ds. jget ''details'' raw = Some (JArr ds)" and "text_of (jget ''code'' raw) ''VALIDATION_ERROR'' code" and "the_message raw m"
  shows "answers_body raw (validationFailure [body_detail m] code)"
  using assms by (auto simp: answers_body_def validationFailure_def body_detail_def split: option.splits json.splits)

lemma filter_answers:
  assumes "\<not> isValidationFailure raw" and "filter_catch raw = Inr v"
  shows "answers_body raw v"
proof (cases "\<exists>kvs. raw = JObj kvs")
  case False
  then have "jget k raw = None" for k by (rule jget_only_objects)
  with False assms show ?thesis
    by (cases raw) (auto simp: filter_catch_def the_message_def text_of_None text_or_def intro!: answer_without_details)
next
  case True
  show ?thesis
  proof (cases "\<exists>ds. jget ''details'' raw = Some (JArr ds)")
    case True
    then obtain ds where ds: "jget ''details'' raw = Some (JArr ds)" by blast
    then obtain xs where xs: "completed_details ds = Inr xs" "v = validationFailure xs (text_or (jget ''code'' raw) ''VALIDATION_ERROR'')"
      using assms \<open>\<exists>kvs. raw = JObj kvs\<close> by (auto simp: filter_catch_def split: sum.splits)
    then show ?thesis
      using ds completed_details_complete [OF xs(1)] by (auto simp: answers_body_def validationFailure_def intro: text_or_text)
  next
    case False
    then have "v = validationFailure [body_detail (text_or (jget ''message'' raw) (stringify raw))] (text_or (jget ''code'' raw) ''VALIDATION_ERROR'')"
      using assms True by (auto simp: filter_catch_def split: option.splits json.splits)
    then show ?thesis
      using False True by (auto simp: the_message_def intro!: answer_without_details text_or_text)
  qed
qed

lemma filter_fails: "(\<exists>e. filter_catch raw = Inl e) \<longleftrightarrow>
    \<not> isValidationFailure raw \<and> (\<exists>ds. jget ''details'' raw = Some (JArr ds) \<and> JNull \<in> set ds)"
proof (cases "\<exists>kvs. raw = JObj kvs")
  case False
  then have "jget k raw = None" for k by (rule jget_only_objects)
  with False show ?thesis by (cases raw) (auto simp: filter_catch_def)
next
  case True
  have "completed_details ds = Inr xs \<Longrightarrow> JNull \<notin> set ds" for ds xs using completed_details_error [of ds] by auto
  with True show ?thesis
    by (auto simp: filter_catch_def completed_details_error split: option.split json.split sum.split)
qed

text \<open>
  (C28) Every 400 is answered in one shape. (The filter is registered for \<open>BadRequestException\<close> only; the answers with 401, 403, 404, 409 and the
  like keep the framework's shape.) For any body of such an exception, the filter fails exactly when the body is no failure in the shape and has
  \<open>details\<close> with a \<open>null\<close> among them. Otherwise it answers the body itself if that is such a failure already, and else a failure with
  the body's code (its JSON text if it is no text, \<open>VALIDATION_ERROR\<close> if it has none) and, one for one, the body's details, each with its own
  field, code and message where given and the defaults elsewhere, or a single detail for \<open>body\<close> with the body's message. An answer
  passes the filter once more unchanged.
\<close>

theorem error_contract:
  "((\<exists>e. filter_catch raw = Inl e) \<longleftrightarrow> \<not> is_failure raw \<and> (\<exists>ds. jget ''details'' raw = Some (JArr ds) \<and> JNull \<in> set ds)) \<and>
   (\<forall>v. filter_catch raw = Inr v \<longrightarrow> is_failure v \<and> filter_catch v = Inr v \<and> (if is_failure raw then v = raw else answers_body raw v))"
proof (intro conjI allI impI)
  show "(\<exists>e. filter_catch raw = Inl e) \<longleftrightarrow> \<not> is_failure raw \<and> (\<exists>ds. jget ''details'' raw = Some (JArr ds) \<and> JNull \<in> set ds)"
    using filter_fails by (simp add: isValidationFailure_iff)
next
  fix v assume v: "filter_catch raw = Inr v"
  show a: "if is_failure raw then v = raw else answers_body raw v"
    using v filter_answers by (auto simp: isValidationFailure_iff)
  show f: "is_failure v"
  proof (cases "is_failure raw")
    case False
    then have "answers_body raw v" using a by simp
    then show ?thesis by (auto simp: answers_body_def is_failure_def jget_def)
  qed (use a in simp)
  show "filter_catch v = Inr v" by (rule filter_keeps) (simp add: isValidationFailure_iff f)
qed

definition half_given :: json where
  "half_given = JObj [(''code'', JStr ''LIMIT''), (''details'', JArr [JObj [(''field'', JStr ''amount''), (''message'', JStr ''too high'')]])]"

definition half_completed :: json where
  "half_completed = JObj [(''success'', JBool False), (''error'', JObj [(''code'', JStr ''LIMIT''),
     (''details'', JArr [JObj [(''field'', JStr ''amount''), (''code'', JStr ''VALIDATION_ERROR''), (''message'', JStr ''too high'')]])])]"

lemma error_contract_witness:
  "filter_catch half_given = Inr half_completed \<and> answers_body half_given half_completed \<and> filter_catch half_completed = Inr half_completed \<and>
   (\<exists>e. filter_catch (JObj [(''details'', JArr [JNull])]) = Inl e)"
proof -
  have a: "filter_catch half_given = Inr half_completed" by code_simp
  have "\<not> is_failure half_given" by (simp add: is_failure_def half_given_def jget_def)
  moreover have "\<not> is_failure (JObj [(''details'', JArr [JNull])])" by (simp add: is_failure_def jget_def)
  then have "\<exists>e. filter_catch (JObj [(''details'', JArr [JNull])]) = Inl e"
    using error_contract [of "JObj [(''details'', JArr [JNull])]"] by (simp add: jget_def)
  ultimately show ?thesis using a error_contract [of half_given] by auto
qed

text \<open>
  The exceptions of the services: their codes and details arrive as they are, and a message becomes the one detail. The hypotheses on the body of the
  framework's exception: an object is passed on, and a text is the \<open>message\<close> of an object without \<open>success\<close>, \<open>code\<close> and \<open>details\<close>.
\<close>

definition failure_of :: "string \<Rightarrow> detail list \<Rightarrow> json" where
  "failure_of code details = validationFailure (map detail_entry details) code"

lemma services_in_contract:
  assumes objects: "\<And>code details. raw (Coded code details) = failure_of code details"
    and texts: "\<And>m. jget ''message'' (raw (Msg m)) = Some (JStr m) \<and> jget ''success'' (raw (Msg m)) = None \<and>
      jget ''code'' (raw (Msg m)) = None \<and> jget ''details'' (raw (Msg m)) = None"
  shows "filter_catch (raw (Coded code details)) = Inr (failure_of code details) \<and>
    (m \<noteq> [] \<longrightarrow> filter_catch (raw (Msg m)) = Inr (fieldError ''body'' ''VALIDATION_ERROR'' m))"
proof -
  have "\<not> isValidationFailure (raw (Msg m))" using texts [of m] by (simp add: isValidationFailure_def)
  moreover have "\<exists>kvs. raw (Msg m) = JObj kvs" using texts [of m] by (auto simp: jget_def split: json.splits)
  ultimately show ?thesis using texts [of m]
    by (auto simp: objects failure_of_def filter_catch_def fieldError_def detail_entry_def body_detail_def text_or_def as_text_def)
qed

text \<open>
  The messages of the framework's validators are a list; it arrives as the text of its JSON in the one detail, without a field. A code that is not a text is
  printed.
\<close>

lemma validators_lose_fields:
  "filter_catch (JObj [(''message'', JArr [JStr ''title must be a string'', JStr ''amount should not be empty'']), (''error'', JStr ''Bad Request'')]) =
     Inr (fieldError ''body'' ''VALIDATION_ERROR'' ''[\"title must be a string\",\"amount should not be empty\"]'')"
  by code_simp

lemma null_detail_fails: "filter_catch (JObj [(''details'', JArr [JNull])]) = Inl (PlainError ''TypeError'')"
  by code_simp

end
