(* ===== verification/Users.thy ===== *)
theory Users
  imports Profiles Marketplace
begin

text \<open>
  \<open>users/users.service.ts\<close>: the search for people. The condition of the query is a text that the database parses; the profiles a text
  matches, and the order of rows in a query without one, are the database's.
\<close>

record search_users_dto =
  su_q :: string
  su_page :: "nat option"
  su_limit :: "nat option"
  su_exclude :: "string option"

record user_hit =
  uh_id :: string
  uh_name :: string
  uh_email :: string
  uh_wallet :: string

record users_page =
  up_users :: "user_hit list"
  up_page :: nat
  up_limit :: nat
  up_total :: "nat option"
  up_error :: "string option"

definition hex_text :: "nat \<Rightarrow> string \<Rightarrow> bool" where
  "hex_text n s \<longleftrightarrow> length s = n \<and> list_all (\<lambda>c. digit_in_base 16 c \<noteq> None) s"

definition is_uuid :: "string \<Rightarrow> bool" where
  "is_uuid s \<longleftrightarrow> (case split_on (CHR ''-'') s of
     [a, b, c, d, e] \<Rightarrow> hex_text 8 a \<and> hex_text 4 b \<and> hex_text 4 c \<and> hex_text 4 d \<and> hex_text 12 e
   | _ \<Rightarrow> False)"

definition without_wildcards :: "string \<Rightarrow> string" where
  "without_wildcards q = filter (\<lambda>c. c \<notin> set ''%_'') q"

definition search_condition :: "string \<Rightarrow> string" where
  "search_condition s = ''display_name.ilike.%'' @ s @ ''%,email.ilike.%'' @ s @ ''%,wallet_address.ilike.%'' @ s @ ''%''"

definition searched :: "(string \<Rightarrow> profile \<Rightarrow> bool) \<Rightarrow> string \<Rightarrow> search_users_dto \<Rightarrow> profile \<Rightarrow> bool" where
  "searched satisfies userId dto p \<longleftrightarrow>
     (let excludeId = default (su_exclude dto) userId
      in (excludeId \<noteq> [] \<longrightarrow> pr_id p \<noteq> excludeId) \<and>
         (if is_uuid (trim (su_q dto)) then pr_id p = trim (su_q dto)
          else satisfies (search_condition (without_wildcards (su_q dto))) p))"

definition user_hit_of :: "profile \<Rightarrow> user_hit" where
  "user_hit_of p = \<lparr>uh_id = pr_id p, uh_name = or_else (pr_display_name p) ''Unknown'', uh_email = or_else (pr_email p) [], uh_wallet = pr_wallet p\<rparr>"

text \<open>The rows of the page, and the exact count of all that match, come from one query.\<close>

definition search_users ::
    "'s backend \<Rightarrow> (string \<Rightarrow> profile \<Rightarrow> bool) \<Rightarrow> (profile list \<Rightarrow> profile list) \<Rightarrow> string \<Rightarrow> search_users_dto \<Rightarrow> ('s world, users_page) prog" where
  "search_users B satisfies order userId dto =
     (let page = default (su_page dto) 1; limit = default (su_limit dto) 10
      in if without_wildcards (su_q dto) = []
         then ret \<lparr>up_users = [], up_page = page, up_limit = limit, up_total = None, up_error = None\<rparr>
         else bnd (call (select_rows (profiles B) (searched satisfies userId dto) order)) (\<lambda>(data, error).
           case error of
             Some e \<Rightarrow> ret \<lparr>up_users = [], up_page = page, up_limit = limit, up_total = Some 0, up_error = Some (e_message e)\<rparr>
           | None \<Rightarrow>
               let rows = default data [];
                   cut = (if is_uuid (trim (su_q dto)) then take 1 rows else page_of page limit rows)
               in ret \<lparr>up_users = map user_hit_of cut, up_page = page, up_limit = limit, up_total = Some (length rows), up_error = None\<rparr>))"

definition hit_ok :: "tables \<Rightarrow> (string \<Rightarrow> profile \<Rightarrow> bool) \<Rightarrow> string \<Rightarrow> search_users_dto \<Rightarrow> user_hit \<Rightarrow> bool" where
  "hit_ok ts satisfies userId dto h \<longleftrightarrow> (\<exists>p \<in> set (t_profiles ts). h = user_hit_of p \<and> searched satisfies userId dto p)"

definition search_ok :: "tables \<Rightarrow> (string \<Rightarrow> profile \<Rightarrow> bool) \<Rightarrow> string \<Rightarrow> search_users_dto \<Rightarrow> exn + users_page \<Rightarrow> tables \<Rightarrow> bool" where
  "search_ok ts satisfies userId dto r ts' \<longleftrightarrow> ts' = ts \<and> (case r of
     Inl e \<Rightarrow> False
   | Inr x \<Rightarrow> list_all (hit_ok ts satisfies userId dto) (up_users x) \<and> length (up_users x) \<le> max 1 (up_limit x) \<and>
       (case up_total x of None \<Rightarrow> up_users x = [] | Some n \<Rightarrow> length (up_users x) \<le> n))"

context database begin

lemma wp_search_users:
  assumes "\<And>rs. set (order rs) \<subseteq> set rs"
  shows "wp (search_users B satisfies order u dto) (\<lambda>r v. search_ok (st (svc w)) satisfies u dto r (st (svc v))) w"
proof (cases "without_wildcards (su_q dto) = []")
  case True
  then show ?thesis by (simp add: search_users_def Let_def wp_ret search_ok_def)
next
  case False
  show ?thesis unfolding search_users_def Let_def if_not_P [OF False] wp_bnd
  proof (rule profiles_wp(1), goal_cases)
    case (1 e s')
    then show ?case by (simp add: wp_ret search_ok_def)
  next
    case (2 s')
    let ?rows = "order (filter (searched satisfies u dto) (t_profiles (st (svc w))))"
    have hits: "list_all (hit_ok (st (svc w)) satisfies u dto) (map user_hit_of rs)" if "set rs \<subseteq> set ?rows" for rs
      using that assms [of "filter (searched satisfies u dto) (t_profiles (st (svc w)))"] by (auto simp: list_all_iff hit_ok_def)
    have parts: "set (take 1 ?rows) \<subseteq> set ?rows" "set (page_of p l ?rows) \<subseteq> set ?rows" for p l
      by (auto simp: page_of_def dest: in_set_takeD in_set_dropD)
    have "length (page_of p l ?rows) \<le> max 1 l" "length (page_of p l ?rows) \<le> length ?rows" for p l
      by (auto simp: page_of_def)
    then show ?case using 2 hits [OF parts(1)] hits [OF parts(2)] by (simp add: wp_ret search_ok_def min_le_iff_disj le_max_iff_disj)
  qed
qed

end

text \<open>
  The search is confined. Over any database, for an order that keeps to the rows it is given, a search changes no table and never ends in an
  exception; every hit shows a profile that satisfies the condition and is not the excluded one, and a page holds at most the limit.
\<close>

theorem search_confined:
  assumes "database B st" and "\<And>rs. set (order rs) \<subseteq> set rs" and "search_users B satisfies order u dto w = (r, w')"
  shows "search_ok (st (svc w)) satisfies u dto r (st (svc w'))"
  using wpD [OF database.wp_search_users [OF assms(1,2)] assms(3)] .

text \<open>A comma in the text asked for ends the condition on the name: the rest is a condition of the caller's own choice.\<close>

lemma search_condition_injected:
  "search_condition (without_wildcards ''x,role.eq.admin,a'') =
     ''display_name.ilike.%x,role.eq.admin,a%,email.ilike.%x,role.eq.admin,a%,wallet_address.ilike.%x,role.eq.admin,a%''"
  by code_simp

definition search_run :: "string \<Rightarrow> (exn + users_page) \<times> mem world" where
  "search_run u = search_users (mem_backend (\<lambda>_. None)) (\<lambda>_ p. pr_email p \<noteq> None) (\<lambda>rs. rs) u
     \<lparr>su_q = ''a'', su_page = None, su_limit = None, su_exclude = None\<rparr> profile_world"

text \<open>The caller is left out by the id of the account, which is not the id of the profile: a person finds the own profile.\<close>

lemma search_confined_run:
  "map_sum id (\<lambda>x. map uh_id (up_users x)) (fst (search_run ''U2'')) = Inr [''P2''] \<and>
   search_ok (tabs (svc profile_world)) (\<lambda>_ p. pr_email p \<noteq> None) ''U2'' \<lparr>su_q = ''a'', su_page = None, su_limit = None, su_exclude = None\<rparr>
     (fst (search_run ''U2'')) (tabs (svc (snd (search_run ''U2''))))"
proof -
  have "search_users (mem_backend (\<lambda>_. None)) (\<lambda>_ p. pr_email p \<noteq> None) (\<lambda>rs. rs) ''U2''
     \<lparr>su_q = ''a'', su_page = None, su_limit = None, su_exclude = None\<rparr> profile_world = (fst (search_run ''U2''), snd (search_run ''U2''))"
    by (simp add: search_run_def)
  from search_confined [OF mem.database_axioms _ this] show ?thesis by (intro conjI) (code_simp, simp)
qed

end
