(* ===== verification/Templates.thy ===== *)
theory Templates
  imports Notifications StellarProof "HOL-Library.Sublist"
begin

text \<open>
  \<open>notifications/templates\<close>: the bodies of the mails. The text of a template is kept line by line. The year of the clock and
  the text of a date are those of the runtime's locale and time zone, arguments.
\<close>

section \<open>Formatting\<close>

record mail_env =
  me_year :: nat
  me_date :: "json option \<Rightarrow> string"

definition formatWallet :: "string \<Rightarrow> string" where
  "formatWallet wallet = (if wallet = [] \<or> length wallet < 10 then wallet
     else take 4 wallet @ ''...'' @ drop (length wallet - 4) wallet)"

text \<open>
  \<open>toLocaleString('en-US')\<close> with two to six fraction digits: the exact value rounded half away from zero, zeros after the second digit dropped, the integer
  part in groups of three. An infinity is the UTF-8 of its sign.
\<close>

fun grouped :: "string \<Rightarrow> string" where
  "grouped (a # b # c # d # s) = a # b # c # CHR '','' # grouped (d # s)"
| "grouped s = s"

fun drop_zeros :: "nat \<Rightarrow> string \<Rightarrow> string" where
  "drop_zeros 0 s = s"
| "drop_zeros (Suc n) s = (case s of [] \<Rightarrow> [] | c # t \<Rightarrow> if c = CHR ''0'' then drop_zeros n t else s)"

definition six_digits :: "nat \<Rightarrow> string" where
  "six_digits n = (let ds = nat_str n in replicate (6 - length ds) (CHR ''0'') @ ds)"

definition micros :: "rat \<Rightarrow> nat" where
  "micros q = nat \<lfloor>\<bar>q\<bar> * 1000000 + 1 / 2\<rfloor>"

definition amount_digits :: "nat \<Rightarrow> string \<times> string" where
  "amount_digits m = (nat_str (m div 1000000), rev (drop_zeros 4 (rev (six_digits (m mod 1000000)))))"

definition locale_number :: "jsnum \<Rightarrow> string" where
  "locale_number x = (case x of
     Fin q \<Rightarrow> (case amount_digits (micros q) of (ip, fp) \<Rightarrow> (if q < 0 then ''-'' else []) @ rev (grouped (rev ip)) @ ''.'' @ fp)
   | NaN \<Rightarrow> ''NaN''
   | PosInf \<Rightarrow> map char_of [226::nat, 136, 158]
   | NegInf \<Rightarrow> CHR ''-'' # map char_of [226::nat, 136, 158])"

definition formatAmount :: "string \<Rightarrow> string \<Rightarrow> string" where
  "formatAmount amount asset = locale_number (parseFloat amount) @ '' '' @ asset"

section \<open>Values in a template\<close>

definition and_then :: "exn + 'a \<Rightarrow> ('a \<Rightarrow> exn + 'b) \<Rightarrow> exn + 'b" where
  "and_then r f = (case r of Inl e \<Rightarrow> Inl e | Inr x \<Rightarrow> f x)"

definition when_given :: "json option \<Rightarrow> string \<Rightarrow> string" where
  "when_given v s = (if jtruthy v then s else [])"

definition given_or :: "json option \<Rightarrow> string \<Rightarrow> string" where
  "given_or v d = (if jtruthy v then js_String (the v) else d)"

text \<open>\<open>formatWallet\<close> on any value: what is falsy is printed, lists are cut like texts, and other values have no \<open>slice\<close>.\<close>

definition wallet_text :: "json option \<Rightarrow> exn + string" where
  "wallet_text v = (case v of
     None \<Rightarrow> Inr ''undefined''
   | Some (JStr s) \<Rightarrow> Inr (formatWallet s)
   | Some (JArr vs) \<Rightarrow> Inr (if length vs < 10 then js_String (JArr vs)
       else js_String (JArr (take 4 vs)) @ ''...'' @ js_String (JArr (drop (length vs - 4) vs)))
   | Some u \<Rightarrow> if \<not> jtruthy v \<or> js_less (json_number (jget ''length'' u)) (Fin 10) then Inr (js_String u) else Inl (PlainError ''TypeError''))"

definition named_wallet :: "string \<Rightarrow> string \<Rightarrow> json \<Rightarrow> exn + string" where
  "named_wallet nameKey walletKey data =
     (if jtruthy (jget nameKey data) then Inr (prop_text nameKey data) else wallet_text (jget walletKey data))"

definition length_text :: "json option \<Rightarrow> exn + string" where
  "length_text v = (case v of
     None \<Rightarrow> Inl (PlainError ''TypeError'')
   | Some JNull \<Rightarrow> Inl (PlainError ''TypeError'')
   | Some (JArr vs) \<Rightarrow> Inr (nat_str (length vs))
   | Some (JStr s) \<Rightarrow> Inr (nat_str (length s))
   | Some u \<Rightarrow> Inr (prop_text ''length'' u))"

text \<open>\<open>v + 1\<close>: numbers are added, texts and objects concatenated.\<close>

definition plus_one :: "json option \<Rightarrow> string" where
  "plus_one v = (case v of
     None \<Rightarrow> ''NaN''
   | Some JNull \<Rightarrow> ''1''
   | Some (JBool b) \<Rightarrow> if b then ''2'' else ''1''
   | Some (JNum r) \<Rightarrow> num_str (js_add (Fin r) (Fin 1))
   | Some u \<Rightarrow> js_String u @ ''1'')"

definition or_zero :: "json option \<Rightarrow> json option" where
  "or_zero v = (if v = None \<or> v = Some JNull then Some (JNum 0) else v)"

section \<open>The templates\<close>

definition base_before :: string where
  "base_before = join [nl] [
     [],
     ''<!DOCTYPE html>'',
     ''<html lang=\"en\">'',
     ''<head>'',
     ''  <meta charset=\"UTF-8\">'',
     ''  <meta name=\"viewport\" content=\"width=device-width, initial-scale=1.0\">'',
     ''  <title>Thalos Notification</title>'',
     ''</head>'',
     ''<body style=\"margin: 0; padding: 0; font-family: -apple-system, BlinkMacSystemFont, 'Segoe UI', Roboto, 'Helvetica Neue', Arial, sans-serif; background-color: #0C1220;\">'',
     ''  <table role=\"presentation\" style=\"width: 100%; border-collapse: collapse;\">'',
     ''    <tr>'',
     ''      <td align=\"center\" style=\"padding: 40px 20px;\">'',
     ''        <table role=\"presentation\" style=\"width: 100%; max-width: 600px; border-collapse: collapse;\">'',
     ''          <!-- Header -->'',
     ''          <tr>'',
     ''            <td style=\"padding: 24px 32px; background: #0C1220; border-radius: 12px 12px 0 0; border-bottom: 3px solid #F0B400;\">'',
     ''              <table role=\"presentation\" style=\"width: 100%; border-collapse: collapse;\">'',
     ''                <tr>'',
     ''                  <td>'',
     ''                    <h1 style=\"margin: 0; font-size: 24px; font-weight: 700; color: #F0B400; letter-spacing: -0.5px;\">'',
     ''                      Thalos'',
     ''                    </h1>'',
     ''                    <p style=\"margin: 4px 0 0; font-size: 14px; color: rgba(255,255,255,0.6);\">'',
     ''                      Trustless Agreements on Stellar'',
     ''                    </p>'',
     ''                  </td>'',
     ''                </tr>'',
     ''              </table>'',
     ''            </td>'',
     ''          </tr>'',
     [],
     ''          <!-- Content -->'',
     ''          <tr>'',
     ''            <td style=\"padding: 32px; background: #131b2e; border-radius: 0 0 12px 12px; box-shadow: 0 4px 6px -1px rgba(0,0,0,0.4);\">'',
     ''              '']"

definition base_between :: string where
  "base_between = join [nl] [
     [],
     ''            </td>'',
     ''          </tr>'',
     [],
     ''          <!-- Footer -->'',
     ''          <tr>'',
     ''            <td style=\"padding: 24px 32px; text-align: center;\">'',
     ''              <p style=\"margin: 0 0 8px; font-size: 14px; color: rgba(255,255,255,0.5);\">'',
     ''                This is an automated notification from Thalos Platform.'',
     ''              </p>'',
     ''              <p style=\"margin: 0 0 16px; font-size: 12px; color: rgba(255,255,255,0.35);\">'',
     ''                You received this email because you are a participant in an agreement on Thalos.'',
     ''              </p>'',
     ''              <table role=\"presentation\" style=\"width: 100%; border-collapse: collapse;\">'',
     ''                <tr>'',
     ''                  <td align=\"center\">'',
     ''                    <a href=\"https://thalosplatform.xyz\" style=\"color: #F0B400; text-decoration: none; font-size: 12px; margin: 0 8px;\">Website</a>'',
     ''                    <span style=\"color: rgba(255,255,255,0.3);\">|</span>'',
     ''                    <a href=\"https://thalosplatform.xyz/dashboard\" style=\"color: #F0B400; text-decoration: none; font-size: 12px; margin: 0 8px;\">Dashboard</a>'',
     ''                    <span style=\"color: rgba(255,255,255,0.3);\">|</span>'',
     ''                    <a href=\"https://thalosplatform.xyz/settings\" style=\"color: #F0B400; text-decoration: none; font-size: 12px; margin: 0 8px;\">Settings</a>'',
     ''                  </td>'',
     ''                </tr>'',
     ''              </table>'',
     ''              <p style=\"margin: 16px 0 0; font-size: 11px; color: rgba(255,255,255,0.35);\">'',
     ''                &copy; '']"

definition base_after :: string where
  "base_after = join [nl] [
     '' Thalos. All rights reserved.'',
     ''              </p>'',
     ''            </td>'',
     ''          </tr>'',
     ''        </table>'',
     ''      </td>'',
     ''    </tr>'',
     ''  </table>'',
     ''</body>'',
     ''</html>'',
     ''  '']"

definition baseTemplate :: "mail_env \<Rightarrow> string \<Rightarrow> string" where
  "baseTemplate E content = trim (base_before @ content @ base_between @ nat_str (me_year E) @ base_after)"

definition agreementCreatedTemplate :: "mail_env \<Rightarrow> json \<Rightarrow> exn + string" where
  "agreementCreatedTemplate E data =
     and_then (named_wallet ''createdByName'' ''createdByWallet'' data) (\<lambda>who.
     and_then (length_text (jget ''participantWallets'' data)) (\<lambda>count.
     Inr (baseTemplate E (join [nl] [
      [],
      ''    <h2 style=\"color: #FFFFFF; margin: 0 0 16px;\">New Agreement Created</h2>'',
      ''    <p style=\"color: rgba(255,255,255,0.8); margin: 0 0 24px;\">'',
      ''      A new agreement has been created and you have been added as a participant.'',
      ''    </p>'',
      [],
      ''    <div style=\"background: #1a2540; border-radius: 8px; padding: 20px; margin-bottom: 24px;\">'',
      ''      <h3 style=\"color: #FFFFFF; margin: 0 0 12px; font-size: 18px;\">'' @ prop_text ''title'' data @ ''</h3>'',
      ''      '' @ when_given (jget ''description'' data) (''<p style=\"color: rgba(255,255,255,0.6); margin: 0 0 16px;\">'' @ prop_text ''description'' data @ ''</p>''),
      [],
      ''      <table style=\"width: 100%; border-collapse: collapse;\">'',
      ''        <tr>'',
      ''          <td style=\"padding: 8px 0; color: rgba(255,255,255,0.55); width: 120px;\">Amount:</td>'',
      ''          <td style=\"padding: 8px 0; color: #FFFFFF; font-weight: 600;\">'' @ formatAmount (prop_text ''amount'' data) (prop_text ''asset'' data) @ ''</td>'',
      ''        </tr>'',
      ''        <tr>'',
      ''          <td style=\"padding: 8px 0; color: rgba(255,255,255,0.55);\">Created by:</td>'',
      ''          <td style=\"padding: 8px 0; color: #FFFFFF;\">'' @ who @ ''</td>'',
      ''        </tr>'',
      ''        <tr>'',
      ''          <td style=\"padding: 8px 0; color: rgba(255,255,255,0.55);\">Participants:</td>'',
      ''          <td style=\"padding: 8px 0; color: #FFFFFF;\">'' @ count @ '' participant(s)</td>'',
      ''        </tr>'',
      ''      </table>'',
      ''    </div>'',
      [],
      ''    <p style=\"color: rgba(255,255,255,0.8); margin: 0 0 24px;\">'',
      ''      The agreement is now pending funding. Once funded, work can begin on the agreed terms.'',
      ''    </p>'',
      [],
      ''    <a href=\"https://thalosplatform.xyz/agreements/'' @ prop_text ''agreementId'' data @ ''\"'',
      ''       style=\"display: inline-block; background: #F0B400; color: #0C1220; padding: 12px 24px;'',
      ''              text-decoration: none; border-radius: 8px; font-weight: 600;\">'',
      ''      View Agreement'',
      ''    </a>'',
      ''  '']))))"

definition agreementFundedTemplate :: "mail_env \<Rightarrow> json \<Rightarrow> exn + string" where
  "agreementFundedTemplate E data =
     and_then (named_wallet ''fundedByName'' ''fundedByWallet'' data) (\<lambda>who.
     Inr (baseTemplate E (join [nl] [
      [],
      ''    <h2 style=\"color: #FFFFFF; margin: 0 0 16px;\">Agreement Funded</h2>'',
      ''    <p style=\"color: rgba(255,255,255,0.8); margin: 0 0 24px;\">'',
      ''      Great news! The agreement has been funded and is now active.'',
      ''    </p>'',
      [],
      ''    <div style=\"background: #1a2540; border-radius: 8px; padding: 20px; margin-bottom: 24px; border-left: 4px solid #F0B400;\">'',
      ''      <h3 style=\"color: #FFFFFF; margin: 0 0 12px; font-size: 18px;\">'' @ prop_text ''title'' data @ ''</h3>'',
      [],
      ''      <table style=\"width: 100%; border-collapse: collapse;\">'',
      ''        <tr>'',
      ''          <td style=\"padding: 8px 0; color: rgba(255,255,255,0.55); width: 120px;\">Amount:</td>'',
      ''          <td style=\"padding: 8px 0; color: #F0B400; font-weight: 600;\">'' @ formatAmount (prop_text ''amount'' data) (prop_text ''asset'' data) @ ''</td>'',
      ''        </tr>'',
      ''        <tr>'',
      ''          <td style=\"padding: 8px 0; color: rgba(255,255,255,0.55);\">Funded by:</td>'',
      ''          <td style=\"padding: 8px 0; color: #FFFFFF;\">'' @ who @ ''</td>'',
      ''        </tr>'',
      ''        '' @ when_given (jget ''transactionSignature'' data) (join [nl] [
        [],
        ''        <tr>'',
        ''          <td style=\"padding: 8px 0; color: rgba(255,255,255,0.55);\">Transaction:</td>'',
        ''          <td style=\"padding: 8px 0;\">'',
        ''            <a href=\"https://solscan.io/tx/'' @ prop_text ''transactionSignature'' data @ ''\"'',
        ''               style=\"color: #F0B400; text-decoration: none;\">'',
        ''              View on Solscan'',
        ''            </a>'',
        ''          </td>'',
        ''        </tr>'',
        ''        '']),
      ''      </table>'',
      ''    </div>'',
      [],
      ''    <p style=\"color: rgba(255,255,255,0.8); margin: 0 0 24px;\">'',
      ''      Work can now begin. Funds are held securely in the smart contract escrow until milestones are approved.'',
      ''    </p>'',
      [],
      ''    <a href=\"https://thalosplatform.xyz/agreements/'' @ prop_text ''agreementId'' data @ ''\"'',
      ''       style=\"display: inline-block; background: #F0B400; color: #0C1220; padding: 12px 24px;'',
      ''              text-decoration: none; border-radius: 8px; font-weight: 600;\">'',
      ''      View Agreement'',
      ''    </a>'',
      ''  ''])))"

definition evidenceSubmittedTemplate :: "mail_env \<Rightarrow> json \<Rightarrow> exn + string" where
  "evidenceSubmittedTemplate E data =
     and_then (named_wallet ''submittedByName'' ''submittedByWallet'' data) (\<lambda>who.
     Inr (baseTemplate E (join [nl] [
      [],
      ''    <h2 style=\"color: #FFFFFF; margin: 0 0 16px;\">Evidence Submitted</h2>'',
      ''    <p style=\"color: rgba(255,255,255,0.8); margin: 0 0 24px;\">'',
      ''      New evidence has been submitted for milestone review.'',
      ''    </p>'',
      [],
      ''    <div style=\"background: #1a2540; border-radius: 8px; padding: 20px; margin-bottom: 24px; border-left: 4px solid #F0B400;\">'',
      ''      <h3 style=\"color: #FFFFFF; margin: 0 0 12px; font-size: 18px;\">'' @ prop_text ''agreementTitle'' data @ ''</h3>'',
      [],
      ''      <table style=\"width: 100%; border-collapse: collapse;\">'',
      ''        <tr>'',
      ''          <td style=\"padding: 8px 0; color: rgba(255,255,255,0.55); width: 120px;\">Milestone:</td>'',
      ''          <td style=\"padding: 8px 0; color: #FFFFFF; font-weight: 600;\">#'' @ plus_one (jget ''milestoneIndex'' data) @ '' - '' @ prop_text ''milestoneDescription'' data @ ''</td>'',
      ''        </tr>'',
      ''        <tr>'',
      ''          <td style=\"padding: 8px 0; color: rgba(255,255,255,0.55);\">Submitted by:</td>'',
      ''          <td style=\"padding: 8px 0; color: #FFFFFF;\">'' @ who @ ''</td>'',
      ''        </tr>'',
      ''        '' @ when_given (jget ''evidenceDescription'' data) (join [nl] [
        [],
        ''        <tr>'',
        ''          <td style=\"padding: 8px 0; color: rgba(255,255,255,0.55);\">Description:</td>'',
        ''          <td style=\"padding: 8px 0; color: #FFFFFF;\">'' @ prop_text ''evidenceDescription'' data @ ''</td>'',
        ''        </tr>'',
        ''        '']),
      ''      </table>'',
      ''    </div>'',
      [],
      ''    <p style=\"color: rgba(255,255,255,0.8); margin: 0 0 24px;\">'',
      ''      Please review the submitted evidence and approve the milestone if the work meets the agreed requirements.'',
      ''    </p>'',
      [],
      ''    <a href=\"https://thalosplatform.xyz/agreements/'' @ prop_text ''agreementId'' data @ ''\"'',
      ''       style=\"display: inline-block; background: #F0B400; color: #0C1220; padding: 12px 24px;'',
      ''              text-decoration: none; border-radius: 8px; font-weight: 600;\">'',
      ''      Review Evidence'',
      ''    </a>'',
      ''  ''])))"

definition milestoneApprovedTemplate :: "mail_env \<Rightarrow> json \<Rightarrow> exn + string" where
  "milestoneApprovedTemplate E data =
     and_then (named_wallet ''approvedByName'' ''approvedByWallet'' data) (\<lambda>who.
     Inr (baseTemplate E (join [nl] [
      [],
      ''    <h2 style=\"color: #FFFFFF; margin: 0 0 16px;\">Milestone Approved</h2>'',
      ''    <p style=\"color: rgba(255,255,255,0.8); margin: 0 0 24px;\">'',
      ''      A milestone has been approved and payment has been released.'',
      ''    </p>'',
      [],
      ''    <div style=\"background: #1a2540; border-radius: 8px; padding: 20px; margin-bottom: 24px; border-left: 4px solid #F0B400;\">'',
      ''      <h3 style=\"color: #FFFFFF; margin: 0 0 12px; font-size: 18px;\">'' @ prop_text ''agreementTitle'' data @ ''</h3>'',
      [],
      ''      <table style=\"width: 100%; border-collapse: collapse;\">'',
      ''        <tr>'',
      ''          <td style=\"padding: 8px 0; color: rgba(255,255,255,0.55); width: 120px;\">Milestone:</td>'',
      ''          <td style=\"padding: 8px 0; color: #FFFFFF; font-weight: 600;\">#'' @ plus_one (jget ''milestoneIndex'' data) @ '' - '' @ prop_text ''milestoneDescription'' data @ ''</td>'',
      ''        </tr>'',
      ''        <tr>'',
      ''          <td style=\"padding: 8px 0; color: rgba(255,255,255,0.55);\">Amount:</td>'',
      ''          <td style=\"padding: 8px 0; color: #F0B400; font-weight: 600;\">'' @ formatAmount (prop_text ''milestoneAmount'' data) (prop_text ''asset'' data) @ ''</td>'',
      ''        </tr>'',
      ''        <tr>'',
      ''          <td style=\"padding: 8px 0; color: rgba(255,255,255,0.55);\">Approved by:</td>'',
      ''          <td style=\"padding: 8px 0; color: #FFFFFF;\">'' @ who @ ''</td>'',
      ''        </tr>'',
      ''      </table>'',
      ''    </div>'',
      [],
      ''    <p style=\"color: rgba(255,255,255,0.8); margin: 0 0 24px;\">'',
      ''      The payment for this milestone has been automatically released from escrow.'',
      ''    </p>'',
      [],
      ''    <a href=\"https://thalosplatform.xyz/agreements/'' @ prop_text ''agreementId'' data @ ''\"'',
      ''       style=\"display: inline-block; background: #F0B400; color: #0C1220; padding: 12px 24px;'',
      ''              text-decoration: none; border-radius: 8px; font-weight: 600;\">'',
      ''      View Agreement'',
      ''    </a>'',
      ''  ''])))"

definition milestoneReleasedTemplate :: "mail_env \<Rightarrow> json \<Rightarrow> exn + string" where
  "milestoneReleasedTemplate E data =
     and_then (named_wallet ''actorName'' ''actorWallet'' data) (\<lambda>who.
     Inr (baseTemplate E (join [nl] [
      [],
      ''    <h2 style=\"color: #FFFFFF; margin: 0 0 16px;\">Payment Released</h2>'',
      ''    <p style=\"color: rgba(255,255,255,0.8); margin: 0 0 24px;\">'',
      ''      Escrow funds for a milestone have been released on-chain.'',
      ''    </p>'',
      [],
      ''    <div style=\"background: #1a2540; border-radius: 8px; padding: 20px; margin-bottom: 24px; border-left: 4px solid #F0B400;\">'',
      ''      <h3 style=\"color: #FFFFFF; margin: 0 0 12px; font-size: 18px;\">'' @ prop_text ''agreementTitle'' data @ ''</h3>'',
      [],
      ''      <table style=\"width: 100%; border-collapse: collapse;\">'',
      ''        <tr>'',
      ''          <td style=\"padding: 8px 0; color: rgba(255,255,255,0.55); width: 120px;\">Milestone:</td>'',
      ''          <td style=\"padding: 8px 0; color: #FFFFFF; font-weight: 600;\">#'' @ plus_one (jget ''milestoneIndex'' data) @ '' - '' @ prop_text ''milestoneDescription'' data @ ''</td>'',
      ''        </tr>'',
      ''        <tr>'',
      ''          <td style=\"padding: 8px 0; color: rgba(255,255,255,0.55);\">Released:</td>'',
      ''          <td style=\"padding: 8px 0; color: #F0B400; font-weight: 600;\">'' @ formatAmount (prop_text ''milestoneAmount'' data) (prop_text ''asset'' data) @ ''</td>'',
      ''        </tr>'',
      ''        <tr>'',
      ''          <td style=\"padding: 8px 0; color: rgba(255,255,255,0.55);\">Released by:</td>'',
      ''          <td style=\"padding: 8px 0; color: #FFFFFF;\">'' @ who @ ''</td>'',
      ''        </tr>'',
      ''        '' @ when_given (jget ''evidence'' data) (join [nl] [
        [],
        ''        <tr>'',
        ''          <td style=\"padding: 8px 0; color: rgba(255,255,255,0.55);\">Evidence:</td>'',
        ''          <td style=\"padding: 8px 0; color: #FFFFFF;\">'' @ prop_text ''evidence'' data @ ''</td>'',
        ''        </tr>'',
        ''        '']),
      ''      </table>'',
      ''    </div>'',
      [],
      ''    <p style=\"color: rgba(255,255,255,0.8); margin: 0 0 24px;\">'',
      ''      The funds have left escrow and are now in the recipient's wallet. No further action is required for this milestone.'',
      ''    </p>'',
      [],
      ''    <a href=\"https://thalosplatform.xyz/agreements/'' @ prop_text ''agreementId'' data @ ''\"'',
      ''       style=\"display: inline-block; background: #F0B400; color: #0C1220; padding: 12px 24px;'',
      ''              text-decoration: none; border-radius: 8px; font-weight: 600;\">'',
      ''      View Agreement'',
      ''    </a>'',
      ''  ''])))"

definition disputeOpenedTemplate :: "mail_env \<Rightarrow> json \<Rightarrow> exn + string" where
  "disputeOpenedTemplate E data =
     and_then (named_wallet ''openedByName'' ''openedByWallet'' data) (\<lambda>who.
     Inr (baseTemplate E (join [nl] [
      [],
      ''    <h2 style=\"color: #FFFFFF; margin: 0 0 16px;\">Dispute Opened</h2>'',
      ''    <p style=\"color: rgba(255,255,255,0.8); margin: 0 0 24px;\">'',
      ''      A dispute has been opened on an agreement you are participating in.'',
      ''    </p>'',
      [],
      ''    <div style=\"background: #1a2540; border-radius: 8px; padding: 20px; margin-bottom: 24px; border-left: 4px solid #ef4444;\">'',
      ''      <h3 style=\"color: #FFFFFF; margin: 0 0 12px; font-size: 18px;\">'' @ prop_text ''agreementTitle'' data @ ''</h3>'',
      [],
      ''      <table style=\"width: 100%; border-collapse: collapse;\">'',
      ''        <tr>'',
      ''          <td style=\"padding: 8px 0; color: rgba(255,255,255,0.55); width: 120px;\">Opened by:</td>'',
      ''          <td style=\"padding: 8px 0; color: #FFFFFF;\">'' @ who @ ''</td>'',
      ''        </tr>'',
      ''        '' @ when_given (jget ''milestoneDescription'' data) (join [nl] [
        [],
        ''        <tr>'',
        ''          <td style=\"padding: 8px 0; color: rgba(255,255,255,0.55);\">Milestone:</td>'',
        ''          <td style=\"padding: 8px 0; color: #FFFFFF;\">#'' @ plus_one (or_zero (jget ''milestoneIndex'' data)) @ '' - '' @ prop_text ''milestoneDescription'' data @ ''</td>'',
        ''        </tr>'',
        ''        '']),
      ''        <tr>'',
      ''          <td style=\"padding: 8px 0; color: rgba(255,255,255,0.55);\">Reason:</td>'',
      ''          <td style=\"padding: 8px 0; color: #ef4444; font-weight: 500;\">'' @ prop_text ''disputeReason'' data @ ''</td>'',
      ''        </tr>'',
      ''      </table>'',
      ''    </div>'',
      [],
      ''    <p style=\"color: rgba(255,255,255,0.8); margin: 0 0 24px;\">'',
      ''      Funds in escrow are now frozen until the dispute is resolved. Both parties should work towards a resolution.'',
      ''    </p>'',
      [],
      ''    <a href=\"https://thalosplatform.xyz/agreements/'' @ prop_text ''agreementId'' data @ ''\"'',
      ''       style=\"display: inline-block; background: #F0B400; color: #0C1220; padding: 12px 24px;'',
      ''              text-decoration: none; border-radius: 8px; font-weight: 600;\">'',
      ''      View Dispute'',
      ''    </a>'',
      ''  ''])))"

definition disputeResolvedTemplate :: "mail_env \<Rightarrow> json \<Rightarrow> exn + string" where
  "disputeResolvedTemplate E data =
     and_then (named_wallet ''resolvedByName'' ''resolvedByWallet'' data) (\<lambda>who.
     Inr (baseTemplate E (join [nl] [
      [],
      ''    <h2 style=\"color: #FFFFFF; margin: 0 0 16px;\">Dispute Resolved</h2>'',
      ''    <p style=\"color: rgba(255,255,255,0.8); margin: 0 0 24px;\">'',
      ''      The dispute has been resolved and funds have been distributed accordingly.'',
      ''    </p>'',
      [],
      ''    <div style=\"background: #1a2540; border-radius: 8px; padding: 20px; margin-bottom: 24px; border-left: 4px solid #F0B400;\">'',
      ''      <h3 style=\"color: #FFFFFF; margin: 0 0 12px; font-size: 18px;\">'' @ prop_text ''agreementTitle'' data @ ''</h3>'',
      [],
      ''      <table style=\"width: 100%; border-collapse: collapse;\">'',
      ''        <tr>'',
      ''          <td style=\"padding: 8px 0; color: rgba(255,255,255,0.55); width: 120px;\">Resolution:</td>'',
      ''          <td style=\"padding: 8px 0; color: #FFFFFF; font-weight: 600;\">'' @ prop_text ''resolution'' data @ ''</td>'',
      ''        </tr>'',
      ''        <tr>'',
      ''          <td style=\"padding: 8px 0; color: rgba(255,255,255,0.55);\">Resolved by:</td>'',
      ''          <td style=\"padding: 8px 0; color: #FFFFFF;\">'' @ who @ ''</td>'',
      ''        </tr>'',
      ''        '' @ when_given (jget ''releaseAmount'' data) (join [nl] [
        [],
        ''        <tr>'',
        ''          <td style=\"padding: 8px 0; color: rgba(255,255,255,0.55);\">Released:</td>'',
        ''          <td style=\"padding: 8px 0; color: #F0B400; font-weight: 600;\">'' @ formatAmount (prop_text ''releaseAmount'' data) (given_or (jget ''asset'' data) ''USDC'') @ ''</td>'',
        ''        </tr>'',
        ''        '']),
      ''        '' @ when_given (jget ''refundAmount'' data) (join [nl] [
        [],
        ''        <tr>'',
        ''          <td style=\"padding: 8px 0; color: rgba(255,255,255,0.55);\">Refunded:</td>'',
        ''          <td style=\"padding: 8px 0; color: #F0B400; font-weight: 600;\">'' @ formatAmount (prop_text ''refundAmount'' data) (given_or (jget ''asset'' data) ''USDC'') @ ''</td>'',
        ''        </tr>'',
        ''        '']),
      ''      </table>'',
      ''    </div>'',
      [],
      ''    <a href=\"https://thalosplatform.xyz/agreements/'' @ prop_text ''agreementId'' data @ ''\"'',
      ''       style=\"display: inline-block; background: #F0B400; color: #0C1220; padding: 12px 24px;'',
      ''              text-decoration: none; border-radius: 8px; font-weight: 600;\">'',
      ''      View Agreement'',
      ''    </a>'',
      ''  ''])))"

definition agreementCompletedTemplate :: "mail_env \<Rightarrow> json \<Rightarrow> exn + string" where
  "agreementCompletedTemplate E data =
     (let completedDate = me_date E (jget ''completedAt'' data)
     in Inr (baseTemplate E (join [nl] [
      [],
      ''    <h2 style=\"color: #FFFFFF; margin: 0 0 16px;\">Agreement Completed</h2>'',
      ''    <p style=\"color: rgba(255,255,255,0.8); margin: 0 0 24px;\">'',
      ''      Congratulations! The agreement has been successfully completed.'',
      ''    </p>'',
      [],
      ''    <div style=\"background: #1a2540; border-radius: 8px; padding: 20px; margin-bottom: 24px; border: 1px solid #F0B400;\">'',
      ''      <div style=\"text-align: center; margin-bottom: 16px;\">'',
      ''        <span style=\"font-size: 48px; color: #F0B400;\">&#10003;</span>'',
      ''      </div>'',
      [],
      ''      <h3 style=\"color: #FFFFFF; margin: 0 0 12px; font-size: 18px; text-align: center;\">'' @ prop_text ''title'' data @ ''</h3>'',
      [],
      ''      <table style=\"width: 100%; border-collapse: collapse;\">'',
      ''        <tr>'',
      ''          <td style=\"padding: 8px 0; color: rgba(255,255,255,0.55); width: 120px;\">Total Amount:</td>'',
      ''          <td style=\"padding: 8px 0; color: #F0B400; font-weight: 600;\">'' @ formatAmount (prop_text ''totalAmount'' data) (prop_text ''asset'' data) @ ''</td>'',
      ''        </tr>'',
      ''        <tr>'',
      ''          <td style=\"padding: 8px 0; color: rgba(255,255,255,0.55);\">Completed on:</td>'',
      ''          <td style=\"padding: 8px 0; color: #FFFFFF;\">'' @ completedDate @ ''</td>'',
      ''        </tr>'',
      ''      </table>'',
      ''    </div>'',
      [],
      ''    <p style=\"color: rgba(255,255,255,0.8); margin: 0 0 24px;\">'',
      ''      All milestones have been approved and all payments have been released. Thank you for using Thalos!'',
      ''    </p>'',
      [],
      ''    <a href=\"https://thalosplatform.xyz/agreements/'' @ prop_text ''agreementId'' data @ ''\"'',
      ''       style=\"display: inline-block; background: #F0B400; color: #0C1220; padding: 12px 24px;'',
      ''              text-decoration: none; border-radius: 8px; font-weight: 600;\">'',
      ''      View Agreement'',
      ''    </a>'',
      ''  ''])))"

definition template_of :: "mail_env \<Rightarrow> string \<Rightarrow> json \<Rightarrow> exn + string" where
  "template_of E name data = (case map_of [
     (''agreementCreatedTemplate'', agreementCreatedTemplate), (''agreementFundedTemplate'', agreementFundedTemplate),
     (''evidenceSubmittedTemplate'', evidenceSubmittedTemplate), (''milestoneApprovedTemplate'', milestoneApprovedTemplate),
     (''milestoneReleasedTemplate'', milestoneReleasedTemplate), (''disputeOpenedTemplate'', disputeOpenedTemplate),
     (''disputeResolvedTemplate'', disputeResolvedTemplate), (''agreementCompletedTemplate'', agreementCompletedTemplate)] name of
       Some template \<Rightarrow> template E data
     | None \<Rightarrow> Inl (PlainError ''TypeError''))"

section \<open>Amounts\<close>

definition no_comma :: "string \<Rightarrow> string" where
  "no_comma s = filter (\<lambda>c. c \<noteq> CHR '','') s"

lemma no_comma_append: "no_comma (s @ t) = no_comma s @ no_comma t"
  by (simp add: no_comma_def)

lemma no_comma_point: "no_comma (CHR ''.'' # s) = CHR ''.'' # no_comma s"
  by (simp add: no_comma_def)

lemma no_comma_grouped: "no_comma (grouped s) = no_comma s"
  by (induction s rule: grouped.induct) (simp_all add: no_comma_def)

lemma no_comma_rev: "no_comma (rev s) = rev (no_comma s)"
  by (simp add: no_comma_def rev_filter)

lemma no_comma_digits: "list_all digit s \<Longrightarrow> no_comma s = s"
  by (induction s) (auto simp: no_comma_def digit_def)

lemma digits_nat_str: "list_all digit (nat_str n)"
  using nat_str_digits by (auto simp: list_all_iff digit_def)

lemma digits_val_append: "digits_val (s @ t) = digits_val s * 10 ^ length t + digits_val t"
proof -
  have "foldl (\<lambda>n c. 10 * n + (of_char c - 48)) a t = a * 10 ^ length t + foldl (\<lambda>n c. 10 * n + (of_char c - 48)) 0 t" for a :: nat
  proof (induction t arbitrary: a)
    case (Cons c t)
    let ?F = "\<lambda>a. foldl (\<lambda>n c. 10 * n + (of_char c - 48)) a t"
    have "?F (10 * a + v) = 10 * a * 10 ^ length t + ?F v" for v
      by (simp only: Cons [of "10 * a + v"] Cons [of v] add_mult_distrib add.assoc)
    moreover have "10 * a * 10 ^ length t = a * 10 ^ Suc (length t)" by simp
    ultimately show ?case by (simp only: foldl.simps length_Cons mult_0_right add_0)
  qed simp
  from this [of "digits_val s"] show ?thesis by (simp add: digits_val_def)
qed

lemma digits_val_zeros [simp]: "digits_val (replicate n (CHR ''0'')) = 0"
  by (induction n) (simp_all add: digits_val_def)

lemma digits_val_nat_str: "digits_val (nat_str n) = n"
proof (induction n rule: less_induct)
  case (less n)
  have one: "digits_val [char_of (48 + d)] = d" if "d < 10" for d :: nat
    using that by (simp add: digits_val_def of_char_of)
  show ?case
  proof (cases "n < 10")
    case True
    then show ?thesis by (simp add: nat_str.simps [of n] one)
  next
    case False
    then show ?thesis using less [of "n div 10"] one [of "n mod 10"] by (simp add: nat_str.simps [of n] digits_val_append)
  qed
qed

lemma nat_str_length: "n < 10 ^ Suc k \<Longrightarrow> length (nat_str n) \<le> Suc k"
proof (induction k arbitrary: n)
  case 0
  then show ?case by (simp add: nat_str.simps [of n])
next
  case (Suc k)
  have "n div 10 < 10 ^ Suc k" using Suc.prems by (simp add: less_mult_imp_div_less mult.commute)
  then show ?case using Suc.IH [of "n div 10"] by (simp add: nat_str.simps [of n])
qed

lemma six_digits_ok:
  assumes "n < 1000000"
  shows "length (six_digits n) = 6 \<and> digits_val (six_digits n) = n \<and> list_all digit (six_digits n)"
  using nat_str_length [of n 5] assms digits_nat_str [of n]
  by (auto simp: six_digits_def Let_def digits_val_append digits_val_nat_str list_all_iff digit_def)

lemma drop_zeros_split: "\<exists>j \<le> k. s = replicate j (CHR ''0'') @ drop_zeros k s"
proof (induction k s rule: drop_zeros.induct)
  case (2 n s)
  show ?case
  proof (cases s)
    case (Cons c t)
    show ?thesis
    proof (cases "c = CHR ''0''")
      case True
      then obtain j where "j \<le> n" "t = replicate j (CHR ''0'') @ drop_zeros n t" using 2 Cons by blast
      then show ?thesis using Cons True by (intro exI [of _ "Suc j"]) simp
    qed (use Cons in auto)
  qed simp
qed simp

lemma amount_digits_ok:
  assumes "amount_digits m = (ip, fp)"
  shows "ip \<noteq> [] \<and> list_all digit ip \<and> list_all digit fp \<and> 2 \<le> length fp \<and> length fp \<le> 6 \<and> decimal_value (ip, fp) = of_nat m / 1000000"
proof -
  let ?s = "six_digits (m mod 1000000)"
  have six: "length ?s = 6" "digits_val ?s = m mod 1000000" "list_all digit ?s" using six_digits_ok [of "m mod 1000000"] by simp_all
  obtain j where j: "j \<le> 4" "rev ?s = replicate j (CHR ''0'') @ drop_zeros 4 (rev ?s)" using drop_zeros_split [of 4 "rev ?s"] by blast
  have ip: "ip = nat_str (m div 1000000)" and fp: "fp = rev (drop_zeros 4 (rev ?s))" using assms by (simp_all add: amount_digits_def)
  have s: "?s = fp @ replicate j (CHR ''0'')" unfolding fp using arg_cong [OF j(2), of rev] by simp
  have len: "length fp + j = 6" using six(1) s by (metis length_append length_replicate)
  have val: "digits_val fp * 10 ^ j = m mod 1000000" using six(2) unfolding s by (simp add: digits_val_append)
  have "list_all digit fp" using six(3) unfolding s by simp
  moreover have "ip \<noteq> []" unfolding ip by (simp add: nat_str.simps [of "m div 1000000"])
  moreover have "decimal_value (ip, fp) = of_nat m / 1000000"
  proof -
    have "(m div 1000000 * 10 ^ length fp + digits_val fp) * 10 ^ j = m div 1000000 * 10 ^ (length fp + j) + m mod 1000000"
      by (simp add: algebra_simps power_add val)
    also have "\<dots> = m" by (simp add: len)
    finally have "of_nat (digits_val (ip @ fp)) * 10 ^ j = (of_nat m :: rat)"
      unfolding ip digits_val_append digits_val_nat_str by (metis of_nat_mult of_nat_numeral of_nat_power)
    moreover have "(10::rat) ^ length fp * 10 ^ j = 1000000" using len by (simp add: power_add [symmetric])
    ultimately have "of_nat m / 1000000 = (of_nat (digits_val (ip @ fp)) * 10 ^ j) / ((10::rat) ^ length fp * 10 ^ j)" by simp
    then show ?thesis by (simp add: decimal_value_def)
  qed
  ultimately show ?thesis using len j(1) digits_nat_str unfolding ip by auto
qed

lemma micros_close: "\<bar>of_nat (micros q) / 1000000 - \<bar>q\<bar>\<bar> \<le> 1 / 2000000"
proof -
  have "of_nat (micros q) = (of_int \<lfloor>\<bar>q\<bar> * 1000000 + 1 / 2\<rfloor> :: rat)" by (simp add: micros_def)
  moreover have "of_int \<lfloor>\<bar>q\<bar> * 1000000 + 1 / 2\<rfloor> \<le> \<bar>q\<bar> * 1000000 + 1 / 2" "\<bar>q\<bar> * 1000000 + 1 / 2 < of_int \<lfloor>\<bar>q\<bar> * 1000000 + 1 / 2\<rfloor> + 1"
    by linarith+
  ultimately show ?thesis by linarith
qed

lemma decimal_parts_digits:
  assumes "ip \<noteq> []" and "list_all digit ip" and "fp \<noteq> []" and "list_all digit fp"
  shows "decimal_parts (ip @ ''.'' @ fp) = Some (ip, fp)"
proof -
  have dot: "\<not> digit (CHR ''.'')" by (simp add: digit_def)
  have parts: "takeWhile digit (ip @ ''.'' @ fp) = ip" "dropWhile digit (ip @ ''.'' @ fp) = CHR ''.'' # fp"
    using assms(2) dot by (simp_all add: list_all_iff takeWhile_append dropWhile_append)
  show ?thesis unfolding decimal_parts_def parts using assms by (cases ip) simp_all
qed

text \<open>
  The amount of a mail is the amount. For any amount text that parses to a finite number that is not negative, what a mail shows is a decimal with two
  to six digits after the point that differs from the number by at most half a millionth, in groups of three, followed by the asset.
\<close>

theorem amount_shown:
  assumes "parseFloat amount = Fin q" and "0 \<le> q"
  shows "\<exists>ip fp shown. formatAmount amount asset = shown @ '' '' @ asset \<and> shown = rev (grouped (rev ip)) @ ''.'' @ fp \<and>
    decimal_parts (no_comma shown) = Some (ip, fp) \<and> 2 \<le> length fp \<and> length fp \<le> 6 \<and> \<bar>decimal_value (ip, fp) - q\<bar> \<le> 1 / 2000000"
proof -
  obtain ip fp where d: "amount_digits (micros q) = (ip, fp)" by (metis prod.collapse)
  note ok = amount_digits_ok [OF d]
  have "no_comma (rev (grouped (rev ip)) @ ''.'' @ fp) = ip @ ''.'' @ fp"
    using ok by (simp add: no_comma_append no_comma_rev no_comma_grouped no_comma_digits no_comma_point)
  moreover have "decimal_parts (ip @ ''.'' @ fp) = Some (ip, fp)" using ok by (intro decimal_parts_digits) auto
  moreover have "formatAmount amount asset = (rev (grouped (rev ip)) @ ''.'' @ fp) @ '' '' @ asset"
    using assms d by (simp add: formatAmount_def locale_number_def)
  moreover have "\<bar>decimal_value (ip, fp) - q\<bar> \<le> 1 / 2000000" 
  proof -
    have "decimal_value (ip, fp) = of_nat (micros q) / 1000000" using ok by blast
    then show ?thesis using micros_close [of q] assms(2) by (simp only: abs_of_nonneg)
  qed
  ultimately show ?thesis using ok by metis
qed

definition shown_amount :: "string \<Rightarrow> string" where
  "shown_amount s = formatAmount s ''USDC''"

lemma amount_shown_witness:
  "shown_amount ''12.5'' = ''12.50 USDC'' \<and> shown_amount ''0.0000001'' = ''0.00 USDC'' \<and> rev (grouped (rev ''1234567'')) = ''1,234,567'' \<and>
   (\<exists>ip fp shown. shown_amount ''12.5'' = shown @ '' USDC'' \<and> decimal_parts (no_comma shown) = Some (ip, fp) \<and> 2 \<le> length fp)"
proof -
  have chars: "char_of (48::nat) = CHR ''0''" "char_of (53::nat) = CHR ''5''" by code_simp+
  have "six_digits 500000 = ''500000''" by (simp add: six_digits_def nat_str.simps chars)
  moreover have "six_digits 0 = ''000000''" "nat_str 12 = ''12''" "nat_str 0 = ''0''" by code_simp+
  moreover have "drop_zeros 4 (rev ''500000'') = ''05''" "drop_zeros 4 (rev ''000000'') = ''00''" by code_simp+
  ultimately have digits: "amount_digits 12500000 = (''12'', ''50'')" "amount_digits 0 = (''0'', ''00'')" by (simp_all add: amount_digits_def)
  have p: "parseFloat ''12.5'' = Fin (25 / 2)" "parseFloat ''0.0000001'' = Fin (rnd64 (1 / 10000000))" by code_simp+
  have "\<lfloor>\<bar>25 / 2\<bar> * 1000000 + 1 / 2 :: rat\<rfloor> = 12500000" by (simp add: floor_eq_iff)
  then have micro: "micros (25 / 2) = 12500000" by (simp add: micros_def)
  have "0 \<le> rnd64 (1 / 10000000) \<and> rnd64 (1 / 10000000) * 1000000 < 1 / 2" by code_simp
  then have small: "\<not> rnd64 (1 / 10000000) < 0" and "\<lfloor>\<bar>rnd64 (1 / 10000000)\<bar> * 1000000 + 1 / 2\<rfloor> = 0" by (simp_all add: floor_eq_iff)
  then have none: "micros (rnd64 (1 / 10000000)) = 0" by (simp add: micros_def)
  moreover have "rev (grouped (rev ''1234567'')) = ''1,234,567''" by code_simp
  moreover note p(2)
  moreover have "\<exists>ip fp shown. shown_amount ''12.5'' = shown @ '' '' @ ''USDC'' \<and> decimal_parts (no_comma shown) = Some (ip, fp) \<and> 2 \<le> length fp"
    using amount_shown [OF p(1), of "''USDC''"] unfolding shown_amount_def by auto
  ultimately show ?thesis
    by (simp add: shown_amount_def formatAmount_def locale_number_def p digits micro none small)
qed

section \<open>What a mail contains\<close>

lemma sublist_join_nth: "k < length ls \<Longrightarrow> sublist (ls ! k) (join sep ls)"
proof (induction sep ls arbitrary: k rule: join.induct)
  case (3 sep x y xs)
  show ?case
  proof (cases k)
    case (Suc n)
    then have "sublist ((y # xs) ! n) (join sep (y # xs))" using 3 by simp
    then show ?thesis using Suc by (simp add: sublist_append)
  qed simp
qed simp_all

lemma trim_frame:
  assumes "list_all js_space a" and "list_all js_space b" and "s \<noteq> []" and "\<not> js_space (hd s)" and "\<not> js_space (last s)"
  shows "trim (a @ s @ b) = s"
proof -
  have front: "dropWhile js_space (a @ t) = dropWhile js_space t" if "list_all js_space a" for a t using that by (induction a) auto
  have stop: "dropWhile js_space t = t" if "t \<noteq> []" "\<not> js_space (hd t)" for t using that by (cases t) auto
  have "dropWhile js_space (s @ b) = s @ b" using assms(3,4) by (intro stop) simp_all
  moreover have "dropWhile js_space (rev b @ rev s) = rev s"
    using front [of "rev b" "rev s"] stop [of "rev s"] assms(2,3,5) by (simp add: list_all_rev hd_rev)
  ultimately show ?thesis using front [OF assms(1), of "s @ b"] by (simp add: trim_def)
qed

lemma sublist_baseTemplate: "sublist content (baseTemplate E content)"
proof -
  have front: "base_before = [nl] @ CHR ''<'' # drop 2 base_before" by code_simp
  have rear: "base_after = butlast (butlast (butlast base_after)) @ [nl, CHR '' '', CHR '' '']" by code_simp
  have final: "butlast (butlast (butlast base_after)) \<noteq> []" "last (butlast (butlast (butlast base_after))) = CHR ''>''" by code_simp+
  let ?s = "(CHR ''<'' # drop 2 base_before) @ content @ base_between @ nat_str (me_year E) @ butlast (butlast (butlast base_after))"
  have "trim ([nl] @ ?s @ [nl, CHR '' '', CHR '' '']) = ?s"
    by (rule trim_frame) (use final in \<open>auto simp: js_space_def nl_def\<close>)
  moreover have "base_before @ content @ base_between @ nat_str (me_year E) @ base_after = [nl] @ ?s @ [nl, CHR '' '', CHR '' '']"
    by (subst front, subst rear) simp
  ultimately have "baseTemplate E content = ?s" unfolding baseTemplate_def by simp
  then show ?thesis by (metis append.assoc sublist_appendI)
qed

definition title_key :: "string \<Rightarrow> string" where
  "title_key name = (if name \<in> {''agreementCreatedTemplate'', ''agreementFundedTemplate'', ''agreementCompletedTemplate''} then ''title'' else ''agreementTitle'')"

definition shows_agreement :: "string \<Rightarrow> json \<Rightarrow> string \<Rightarrow> bool" where
  "shows_agreement name data body \<longleftrightarrow> sublist (''<a href=\"https://thalosplatform.xyz/agreements/'' @ prop_text ''agreementId'' data @ ''\"'') body \<and>
     sublist (CHR ''>'' # prop_text (title_key name) data @ ''</h3>'') body"

lemma and_then_Inr: "and_then r f = Inr y \<longleftrightarrow> (\<exists>x. r = Inr x \<and> f x = Inr y)"
  by (simp add: and_then_def split: sum.split)

lemma sublist_line:
  assumes "k < length ls" and "ls ! k = a @ x @ b"
  shows "sublist x (baseTemplate E (join sep ls))"
proof -
  have "sublist x (a @ x @ b)" by simp
  then show ?thesis using sublist_join_nth [OF assms(1), of sep] sublist_baseTemplate [of "join sep ls" E] assms(2)
    by (metis sublist_order.order_trans)
qed

lemma agreementCreatedTemplate_shows: "agreementCreatedTemplate E data = Inr body \<Longrightarrow> shows_agreement ''agreementCreatedTemplate'' data body"
  unfolding agreementCreatedTemplate_def Let_def shows_agreement_def
  by (clarsimp simp only: and_then_Inr sum.inject, intro conjI, rule sublist_line [where k = 30 and a = "''    ''" and b = "[]"], simp, simp,
      rule sublist_line [where k = 7 and a = "''      <h3 style=\"color: #FFFFFF; margin: 0 0 12px; font-size: 18px;\"''" and b = "[]"], simp, simp add: title_key_def)

lemma agreementFundedTemplate_shows: "agreementFundedTemplate E data = Inr body \<Longrightarrow> shows_agreement ''agreementFundedTemplate'' data body"
  unfolding agreementFundedTemplate_def Let_def shows_agreement_def
  by (clarsimp simp only: and_then_Inr sum.inject, intro conjI, rule sublist_line [where k = 26 and a = "''    ''" and b = "[]"], simp, simp,
      rule sublist_line [where k = 7 and a = "''      <h3 style=\"color: #FFFFFF; margin: 0 0 12px; font-size: 18px;\"''" and b = "[]"], simp, simp add: title_key_def)

lemma evidenceSubmittedTemplate_shows: "evidenceSubmittedTemplate E data = Inr body \<Longrightarrow> shows_agreement ''evidenceSubmittedTemplate'' data body"
  unfolding evidenceSubmittedTemplate_def Let_def shows_agreement_def
  by (clarsimp simp only: and_then_Inr sum.inject, intro conjI, rule sublist_line [where k = 26 and a = "''    ''" and b = "[]"], simp, simp,
      rule sublist_line [where k = 7 and a = "''      <h3 style=\"color: #FFFFFF; margin: 0 0 12px; font-size: 18px;\"''" and b = "[]"], simp, simp add: title_key_def)

lemma milestoneApprovedTemplate_shows: "milestoneApprovedTemplate E data = Inr body \<Longrightarrow> shows_agreement ''milestoneApprovedTemplate'' data body"
  unfolding milestoneApprovedTemplate_def Let_def shows_agreement_def
  by (clarsimp simp only: and_then_Inr sum.inject, intro conjI, rule sublist_line [where k = 29 and a = "''    ''" and b = "[]"], simp, simp,
      rule sublist_line [where k = 7 and a = "''      <h3 style=\"color: #FFFFFF; margin: 0 0 12px; font-size: 18px;\"''" and b = "[]"], simp, simp add: title_key_def)

lemma milestoneReleasedTemplate_shows: "milestoneReleasedTemplate E data = Inr body \<Longrightarrow> shows_agreement ''milestoneReleasedTemplate'' data body"
  unfolding milestoneReleasedTemplate_def Let_def shows_agreement_def
  by (clarsimp simp only: and_then_Inr sum.inject, intro conjI, rule sublist_line [where k = 30 and a = "''    ''" and b = "[]"], simp, simp,
      rule sublist_line [where k = 7 and a = "''      <h3 style=\"color: #FFFFFF; margin: 0 0 12px; font-size: 18px;\"''" and b = "[]"], simp, simp add: title_key_def)

lemma disputeOpenedTemplate_shows: "disputeOpenedTemplate E data = Inr body \<Longrightarrow> shows_agreement ''disputeOpenedTemplate'' data body"
  unfolding disputeOpenedTemplate_def Let_def shows_agreement_def
  by (clarsimp simp only: and_then_Inr sum.inject, intro conjI, rule sublist_line [where k = 26 and a = "''    ''" and b = "[]"], simp, simp,
      rule sublist_line [where k = 7 and a = "''      <h3 style=\"color: #FFFFFF; margin: 0 0 12px; font-size: 18px;\"''" and b = "[]"], simp, simp add: title_key_def)

lemma disputeResolvedTemplate_shows: "disputeResolvedTemplate E data = Inr body \<Longrightarrow> shows_agreement ''disputeResolvedTemplate'' data body"
  unfolding disputeResolvedTemplate_def Let_def shows_agreement_def
  by (clarsimp simp only: and_then_Inr sum.inject, intro conjI, rule sublist_line [where k = 23 and a = "''    ''" and b = "[]"], simp, simp,
      rule sublist_line [where k = 7 and a = "''      <h3 style=\"color: #FFFFFF; margin: 0 0 12px; font-size: 18px;\"''" and b = "[]"], simp, simp add: title_key_def)

lemma agreementCompletedTemplate_shows: "agreementCompletedTemplate E data = Inr body \<Longrightarrow> shows_agreement ''agreementCompletedTemplate'' data body"
  unfolding agreementCompletedTemplate_def Let_def shows_agreement_def
  by (clarsimp simp only: and_then_Inr sum.inject, intro conjI, rule sublist_line [where k = 29 and a = "''    ''" and b = "[]"], simp, simp,
      rule sublist_line [where k = 11 and a = "''      <h3 style=\"color: #FFFFFF; margin: 0 0 12px; font-size: 18px; text-align: center;\"''" and b = "[]"], simp, simp add: title_key_def)

lemmas template_shows = agreementCreatedTemplate_shows agreementFundedTemplate_shows evidenceSubmittedTemplate_shows
  milestoneApprovedTemplate_shows milestoneReleasedTemplate_shows disputeOpenedTemplate_shows disputeResolvedTemplate_shows agreementCompletedTemplate_shows

text \<open>
  Every mail names its agreement. Whatever the data, a body the templates make has the link to the agreement with the id of the data, and the title of the data
  inside its heading, both exactly as they are.
\<close>

theorem mail_shows_agreement:
  assumes "template_of E name data = Inr body"
  shows "shows_agreement name data body"
proof -
  obtain template where "template E data = Inr body" and t: "map_of [
     (''agreementCreatedTemplate'', agreementCreatedTemplate), (''agreementFundedTemplate'', agreementFundedTemplate),
     (''evidenceSubmittedTemplate'', evidenceSubmittedTemplate), (''milestoneApprovedTemplate'', milestoneApprovedTemplate),
     (''milestoneReleasedTemplate'', milestoneReleasedTemplate), (''disputeOpenedTemplate'', disputeOpenedTemplate),
     (''disputeResolvedTemplate'', disputeResolvedTemplate), (''agreementCompletedTemplate'', agreementCompletedTemplate)] name = Some template"
    using assms unfolding template_of_def by (auto split: option.splits)
  then show ?thesis
    using map_of_SomeD [OF t] unfolding list.set insert_iff empty_iff prod.inject
    by (elim disjE conjE FalseE) (hypsubst, erule template_shows)+
qed

text \<open>So a title that is markup is markup in the mail.\<close>

lemma title_is_markup:
  assumes "agreementFundedTemplate E (JObj [(''title'', JStr ''<img src=//x.io/p>'')]) = Inr body"
  shows "sublist ''><img src=//x.io/p></h3>'' body"
  using agreementFundedTemplate_shows [OF assms] by (simp add: shows_agreement_def title_key_def prop_text_def jget_def)

end

