(* ===== verification/Routes.thy ===== *)
theory Routes
  imports JsNumber Milestones
begin

text \<open>
  Which request reaches which handler, and what it has to carry: the guards (\<open>auth/\<close>, \<open>internal-trustless/internal-secret.guard.ts\<close>,
  \<open>identity-providers/webhook-secret.guard.ts\<close>, \<open>verification/jwt-or-internal-secret.guard.ts\<close>) and the decorators of every controller,
  in the order of the modules. Passport's reading of a bearer token and the rate limiter are arguments. A path is the list of its segments
  below \<open>/v1\<close>, decoded.
\<close>

section \<open>Requests\<close>

datatype http_method = GET | POST | PATCH | DELETE

text \<open>A header of Node is a text or, when it may be repeated, a list of them.\<close>

datatype header = OneValue string | ManyValues "string list"

text \<open>\<open>AuthUserCtx\<close>: the claims of a token are JSON, whatever the type says.\<close>

record caller =
  uc_userId :: json
  uc_email :: "json option"

record in_request =
  ir_method :: http_method
  ir_path :: "string list"
  ir_headers :: "(string \<times> header) list"
  ir_user :: "caller option"
  ir_internal :: bool

text \<open>
  The environment of the process; the payload passport accepts in the headers under a secret (a bearer token signed with HS256 that has not
  expired); the answer of the rate limiter.
\<close>

record gate =
  gt_vars :: "string \<Rightarrow> string option"
  gt_bearer :: "(string \<times> header) list \<Rightarrow> string \<Rightarrow> json option"
  gt_limit :: "in_request \<Rightarrow> exn option"

section \<open>Guards\<close>

definition header_value :: "string \<Rightarrow> in_request \<Rightarrow> string option" where
  "header_value name r = (case map_of (ir_headers r) name of
     None \<Rightarrow> None
   | Some (OneValue v) \<Rightarrow> Some v
   | Some (ManyValues vs) \<Rightarrow> (case vs of [] \<Rightarrow> None | v # _ \<Rightarrow> Some v))"

text \<open>The constructor of the strategy: without a secret the process does not start.\<close>

definition JwtStrategy :: "(string \<Rightarrow> string option) \<Rightarrow> exn + string" where
  "JwtStrategy vars = (if truthy (vars ''JWT_SECRET'') then Inr (default (vars ''JWT_SECRET'') []) else Inl (PlainError ''JWT_SECRET is required''))"

definition validate_payload :: "json \<Rightarrow> exn + caller" where
  "validate_payload payload =
     (if jtruthy (jget ''sub'' payload)
      then Inr \<lparr>uc_userId = default (jget ''sub'' payload) JNull, uc_email = jget ''email'' payload\<rparr>
      else Inl (Unauthorized ''Unauthorized''))"

text \<open>Metadata of the handler, then of the class: the first that is set.\<close>

fun getAllAndOverride :: "'a option list \<Rightarrow> 'a option" where
  "getAllAndOverride [] = None"
| "getAllAndOverride (None # xs) = getAllAndOverride xs"
| "getAllAndOverride (Some x # xs) = Some x"

definition JwtAuthGuard :: "gate \<Rightarrow> string \<Rightarrow> bool option list \<Rightarrow> in_request \<Rightarrow> exn + in_request" where
  "JwtAuthGuard E secret isPublic r =
     (if getAllAndOverride isPublic = Some True then Inr r
      else (case gt_bearer E (ir_headers r) secret of
          None \<Rightarrow> Inl (Unauthorized ''Unauthorized'')
        | Some payload \<Rightarrow> (case validate_payload payload of
            Inl e \<Rightarrow> Inl e
          | Inr u \<Rightarrow> Inr (r\<lparr>ir_user := Some u\<rparr>))))"

definition InternalSecretGuard :: "gate \<Rightarrow> in_request \<Rightarrow> exn + in_request" where
  "InternalSecretGuard E r =
     (let expected = gt_vars E ''THALOS_INTERNAL_SECRET''
      in if \<not> truthy expected then Inl (Unauthorized ''THALOS_INTERNAL_SECRET not configured'')
         else if header_value ''x-thalos-internal-secret'' r \<noteq> expected then Inl (Unauthorized ''Invalid internal secret'')
         else Inr r)"

definition KycSecretGuard :: "gate \<Rightarrow> in_request \<Rightarrow> exn + in_request" where
  "KycSecretGuard E r =
     (let expected = gt_vars E ''KYC_WEBHOOK_SECRET''
      in if \<not> truthy expected then Inl (Unauthorized ''KYC_WEBHOOK_SECRET not configured'')
         else if header_value ''x-kyc-webhook-secret'' r \<noteq> expected then Inl (Unauthorized ''Invalid webhook secret'')
         else Inr r)"

definition JwtOrInternalSecretGuard :: "gate \<Rightarrow> string \<Rightarrow> bool option list \<Rightarrow> in_request \<Rightarrow> exn + in_request" where
  "JwtOrInternalSecretGuard E secret isPublic r =
     (let expected = gt_vars E ''THALOS_INTERNAL_SECRET''; value = header_value ''x-thalos-internal-secret'' r
      in if truthy expected \<and> truthy value \<and> value = expected then Inr (r\<lparr>ir_internal := True\<rparr>)
         else JwtAuthGuard E secret isPublic r)"

datatype guard = JwtAuth | InternalSecret | KycSecret | JwtOrInternal | Throttler

primrec canActivate :: "gate \<Rightarrow> string \<Rightarrow> bool option list \<Rightarrow> guard \<Rightarrow> in_request \<Rightarrow> exn + in_request" where
  "canActivate E secret isPublic JwtAuth r = JwtAuthGuard E secret isPublic r"
| "canActivate E secret isPublic InternalSecret r = InternalSecretGuard E r"
| "canActivate E secret isPublic KycSecret r = KycSecretGuard E r"
| "canActivate E secret isPublic JwtOrInternal r = JwtOrInternalSecretGuard E secret isPublic r"
| "canActivate E secret isPublic Throttler r = (case gt_limit E r of None \<Rightarrow> Inr r | Some e \<Rightarrow> Inl e)"

primrec run_guards :: "gate \<Rightarrow> string \<Rightarrow> bool option list \<Rightarrow> guard list \<Rightarrow> in_request \<Rightarrow> exn + in_request" where
  "run_guards E secret isPublic [] r = Inr r"
| "run_guards E secret isPublic (g # gs) r = (case canActivate E secret isPublic g r of
     Inl e \<Rightarrow> Inl e | Inr r' \<Rightarrow> run_guards E secret isPublic gs r')"

section \<open>Routes\<close>

datatype segment = Lit string | Par string

text \<open>The parameters of a handler: the user of the request, a segment of the path (parsed as a UUID or not), query, body, file, headers.\<close>

datatype arg =
    CallerId
  | ParamArg string
  | UuidArg string
  | QueryArg string
  | QueryDto string
  | BodyDto string
  | UploadArg string
  | RawRequest
  | HeaderArg string

text \<open>The guards of the class come before those of the handler; \<open>rt_public\<close> is the metadata of handler and class.\<close>

record route =
  rt_method :: http_method
  rt_path :: "segment list"
  rt_guards :: "guard list"
  rt_public :: "bool option list"
  rt_code :: "nat option"
  rt_handler :: string
  rt_args :: "arg list"
  rt_calls :: "string list"

definition handler :: "http_method \<Rightarrow> segment list \<Rightarrow> nat option \<Rightarrow> string \<Rightarrow> arg list \<Rightarrow> string list \<Rightarrow> route" where
  "handler m p code h args calls = \<lparr>rt_method = m, rt_path = p, rt_guards = [], rt_public = [None, None], rt_code = code, rt_handler = h,
     rt_args = args, rt_calls = calls\<rparr>"

definition with_guard :: "guard \<Rightarrow> route \<Rightarrow> route" where
  "with_guard g rt = rt\<lparr>rt_guards := rt_guards rt @ [g]\<rparr>"

definition Public :: "route \<Rightarrow> route" where
  "Public rt = rt\<lparr>rt_public := [Some True, None]\<rparr>"

definition controller :: "segment list \<Rightarrow> guard list \<Rightarrow> route list \<Rightarrow> route list" where
  "controller prefix gs rts = map (\<lambda>rt. rt\<lparr>rt_path := prefix @ rt_path rt, rt_guards := gs @ rt_guards rt\<rparr>) rts"

text \<open>The status of an answer without an exception.\<close>

definition success_status :: "route \<Rightarrow> nat" where
  "success_status rt = (case rt_code rt of Some c \<Rightarrow> c | None \<Rightarrow> if rt_method rt = POST then 201 else 200)"

text \<open>A table per controller: method, path, declared status, handler, parameters, and the methods the handler calls, in order.\<close>

definition root_routes :: "route list" where
  "root_routes = controller [] []
    [handler GET [] None ''index'' [] []]"

definition retry_queue_routes :: "route list" where
  "retry_queue_routes = controller [Lit ''retry-queue''] [JwtAuth]
    [handler GET [] None ''list'' [CallerId, QueryDto ''ListRetryJobsQueryDto'']
       [''retryQueue.assertAdmin'', ''retryQueue.listJobs''],
     handler GET [Par ''id''] None ''getOne'' [CallerId, ParamArg ''id''] [''retryQueue.assertAdmin'', ''retryQueue.getJob''],
     handler POST [Par ''id'', Lit ''retry''] None ''retry'' [CallerId, ParamArg ''id'']
       [''retryQueue.assertAdmin'', ''retryQueue.manualRetry'']]"

definition internal_trustless_routes :: "route list" where
  "internal_trustless_routes = controller [Lit ''internal'', Lit ''trustless''] [InternalSecret]
    [handler POST [Lit ''relay''] None ''relay'' [BodyDto ''TrustlessRelayDto''] [''relayToTrustless'']]"

definition trustless_public_routes :: "route list" where
  "trustless_public_routes = controller [Lit ''trustless''] [JwtAuth]
    [handler POST [Lit ''prepare''] None ''prepare'' [BodyDto ''TrustlessRelayDto''] [''relayToTrustless'']]"

definition escrows_routes :: "route list" where
  "escrows_routes = controller [Lit ''escrows''] [JwtAuth]
    [Public (with_guard Throttler (handler GET [Lit ''by-signer'', Par ''address''] None ''getEscrowsBySigner'' [ParamArg ''address'', QueryArg ''page'', QueryArg ''pageSize'', QueryArg ''validateOnChain'']
       [''relayToTrustless''])),
     Public (with_guard Throttler (handler GET [Lit ''by-role''] None ''getEscrowsByRole'' [QueryArg ''address'', QueryArg ''role'', QueryArg ''status'', QueryArg ''type'']
       [''relayToTrustless''])),
     Public (with_guard Throttler (handler GET [Lit ''by-contract-id''] None ''getEscrowByContractId'' [QueryArg ''contractId''] [''readEscrow''])),
     handler POST [Lit ''create''] (Some 200) ''createEscrow'' [BodyDto ''CreateEscrowDto''] [''writeWithBackstop''],
     handler POST [Lit ''fund''] (Some 200) ''fundEscrow'' [BodyDto ''FundEscrowDto''] [''writeWithBackstop''],
     handler POST [Lit ''approve-milestone''] (Some 200) ''approveMilestone'' [BodyDto ''ApproveMilestoneDto'']
       [''writeWithBackstop''],
     handler POST [Lit ''change-milestone-status''] (Some 200) ''changeMilestoneStatus'' [BodyDto ''ChangeMilestoneStatusDto'']
       [''assertEscrowFunded'', ''writeWithBackstop''],
     handler POST [Lit ''release''] (Some 200) ''releaseFunds'' [BodyDto ''ReleaseFundsDto''] [''writeWithBackstop''],
     handler POST [Lit ''dispute''] (Some 200) ''disputeMilestone'' [BodyDto ''DisputeMilestoneDto'']
       [''escrowWrite.disputeMilestone''],
     handler POST [Lit ''resolve-dispute''] (Some 200) ''resolveDispute'' [BodyDto ''ResolveDisputeDto'']
       [''readEscrow'', ''assertResolvable'', ''splitByPercentage'', ''assertRecipientsCanReceive'', ''writeWithBackstop''],
     handler POST [Lit ''send-transaction''] (Some 200) ''sendTransaction'' [BodyDto ''SendTransactionDto'']
       [''escrowWrite.sendTransaction'']]"

definition agreements_routes :: "route list" where
  "agreements_routes = controller [Lit ''agreements''] [JwtAuth]
    [handler POST [] (Some 201) ''create'' [CallerId, BodyDto ''CreateAgreementDto''] [''agreements.create''],
     handler GET [] None ''list'' [CallerId, QueryDto ''ListAgreementsQueryDto''] [''agreements.list''],
     handler GET [Lit ''by-wallet''] None ''listByWallet'' [CallerId, QueryArg ''wallet''] [''agreements.listByWallet''],
     handler GET [Lit ''by-contract'', Par ''contractId''] None ''getByContract'' [CallerId, ParamArg ''contractId'']
       [''agreements.getByContractId''],
     handler GET [Par ''id'', Lit ''activity''] None ''activity'' [CallerId, ParamArg ''id''] [''agreements.getActivity''],
     handler GET [Par ''id''] None ''getOne'' [CallerId, ParamArg ''id''] [''agreements.getById''],
     handler PATCH [Par ''id'', Lit ''link-contract''] None ''linkContract'' [CallerId, ParamArg ''id'', BodyDto ''LinkContractDto'']
       [''agreements.linkContract''],
     handler PATCH [Par ''id'', Lit ''status''] None ''updateStatus'' [CallerId, ParamArg ''id'', BodyDto ''UpdateAgreementStatusDto'']
       [''agreements.updateStatus''],
     handler PATCH [Par ''id'', Lit ''milestones''] None ''updateMilestone'' [CallerId, ParamArg ''id'', BodyDto ''UpdateMilestoneDto'']
       [''agreements.updateMilestone''],
     handler POST [Par ''id'', Lit ''sync''] (Some 200) ''syncAgreement'' [CallerId, ParamArg ''id'', QueryArg ''useRetryQueue'']
       [''agreements.getById'', ''syncEngine.syncAgreement''],
     handler POST [Par ''id'', Lit ''reconcile''] (Some 200) ''reconcileAgreement'' [CallerId, ParamArg ''id'', QueryArg ''useRetryQueue'']
       [''agreements.getById'', ''syncEngine.reconcileAgreement'']]"

definition users_routes :: "route list" where
  "users_routes = controller [Lit ''users''] [JwtAuth]
    [handler GET [Lit ''search''] None ''search'' [CallerId, QueryDto ''SearchUsersDto''] [''users.search'']]"

definition contacts_routes :: "route list" where
  "contacts_routes = controller [Lit ''contacts''] [JwtAuth]
    [handler GET [] None ''list'' [CallerId] [''contacts.list''],
     handler POST [] None ''add'' [CallerId, BodyDto ''AddContactDto''] [''contacts.add''],
     handler DELETE [Par ''id''] None ''remove'' [CallerId, ParamArg ''id''] [''contacts.remove'']]"

definition notifications_routes :: "route list" where
  "notifications_routes = controller [Lit ''internal'', Lit ''notifications''] [InternalSecret]
    [handler POST [Lit ''agreement-created''] (Some 200) ''notifyAgreementCreated'' [BodyDto ''NotifyAgreementCreatedDto'']
       [''notifications.notifyAgreementCreated''],
     handler POST [Lit ''agreement-funded''] (Some 200) ''notifyAgreementFunded'' [BodyDto ''NotifyAgreementFundedDto'']
       [''notifications.notifyAgreementFunded''],
     handler POST [Lit ''evidence-submitted''] (Some 200) ''notifyEvidenceSubmitted'' [BodyDto ''NotifyEvidenceSubmittedDto'']
       [''notifications.notifyEvidenceSubmitted''],
     handler POST [Lit ''milestone-approved''] (Some 200) ''notifyMilestoneApproved'' [BodyDto ''NotifyMilestoneApprovedDto'']
       [''notifications.notifyMilestoneApproved''],
     handler POST [Lit ''dispute-opened''] (Some 200) ''notifyDisputeOpened'' [BodyDto ''NotifyDisputeOpenedDto'']
       [''notifications.notifyDisputeOpened''],
     handler POST [Lit ''dispute-resolved''] (Some 200) ''notifyDisputeResolved'' [BodyDto ''NotifyDisputeResolvedDto'']
       [''notifications.notifyDisputeResolved''],
     handler POST [Lit ''agreement-completed''] (Some 200) ''notifyAgreementCompleted'' [BodyDto ''NotifyAgreementCompletedDto'']
       [''notifications.notifyAgreementCompleted''],
     handler POST [Lit ''custom''] (Some 200) ''sendCustomNotification'' [BodyDto ''SendCustomNotificationDto'']
       [''notifications.sendCustomNotification'']]"

definition chat_routes :: "route list" where
  "chat_routes = controller [Lit ''agreements''] [JwtAuth]
    [handler GET [Par ''agreementId'', Lit ''messages''] None ''getMessages'' [CallerId, ParamArg ''agreementId'']
       [''chat.getMessages''],
     handler POST [Par ''agreementId'', Lit ''messages''] None ''sendMessage'' [CallerId, ParamArg ''agreementId'', BodyDto ''SendMessageDto'']
       [''chat.sendMessage'']]"

definition files_routes :: "route list" where
  "files_routes = controller [Lit ''files''] [JwtAuth]
    [handler POST [] None ''upload'' [CallerId, UploadArg ''file'', BodyDto ''UploadFileDto''] [''files.upload''],
     handler GET [Par ''id'', Lit ''url''] None ''downloadUrl'' [CallerId, ParamArg ''id''] [''files.signedUrl'']]"

definition ramps_routes :: "route list" where
  "ramps_routes = controller [Lit ''ramps'', Lit ''lendara''] [JwtAuth]
    [handler POST [Lit ''session''] None ''createSession'' [CallerId, BodyDto ''CreateLendaraSessionDto'']
       [''ramps.createSession''],
     handler POST [Lit ''verify''] None ''verify'' [CallerId, BodyDto ''VerifyLendaraSessionDto''] [''ramps.verify'']]"

definition disputes_routes :: "route list" where
  "disputes_routes = controller [Lit ''disputes''] [JwtAuth]
    [handler POST [] None ''openDispute'' [CallerId, BodyDto ''OpenDisputeDto''] [''disputes.openDispute''],
     handler GET [Lit ''open''] None ''getOpenDisputes'' [CallerId] [''disputes.getOpenDisputes''],
     handler GET [Lit ''by-resolver''] None ''getByResolver'' [CallerId, QueryArg ''wallet''] [''disputes.getDisputesByResolver''],
     handler GET [Lit ''by-agreement'', Par ''agreementId''] None ''getByAgreement'' [CallerId, ParamArg ''agreementId'']
       [''disputes.getDisputesByAgreement''],
     handler GET [Par ''id''] None ''getById'' [CallerId, ParamArg ''id''] [''disputes.getDisputeById''],
     handler PATCH [Par ''id'', Lit ''assign-resolver''] None ''assignResolver'' [CallerId, ParamArg ''id'', BodyDto ''AssignResolverDto'']
       [''disputes.assignResolver''],
     handler PATCH [Par ''id'', Lit ''resolve''] None ''resolve'' [CallerId, ParamArg ''id'', BodyDto ''ResolveDisputeDto'']
       [''disputes.resolveDispute''],
     handler PATCH [Par ''id'', Lit ''cancel''] None ''cancel'' [CallerId, ParamArg ''id'', BodyDto ''CancelDisputeDto'']
       [''disputes.cancelDispute'']]"

definition profiles_routes :: "route list" where
  "profiles_routes = controller [Lit ''profiles''] []
    [handler GET [] None ''discover'' [QueryDto ''DiscoverProfilesDto''] [''profiles.discover''],
     with_guard JwtAuth (handler POST [] None ''getOrCreate'' [CallerId, BodyDto ''GetOrCreateProfileDto''] [''profiles.getOrCreate'']),
     with_guard JwtAuth (handler PATCH [] None ''updateMe'' [CallerId, BodyDto ''UpdateProfileDto''] [''profiles.updateForUser'']),
     with_guard JwtAuth (handler GET [Lit ''me''] None ''getMe'' [CallerId] [''profiles.getMe'']),
     handler GET [Lit ''handle'', Par ''handle''] None ''getByHandle'' [ParamArg ''handle''] [''profiles.getByHandle''],
     handler GET [Lit ''handle'', Par ''handle'', Lit ''reputation''] None ''getPublicReputation'' [ParamArg ''handle'']
       [''reputation.getPublicReputation''],
     with_guard JwtAuth (handler GET [Lit ''me'', Lit ''reputation''] None ''getMyReputation'' [CallerId] [''reputation.getMyReputation'']),
     handler GET [Lit ''dispute-resolvers''] None ''getDisputeResolvers'' [] [''profiles.getDisputeResolvers''],
     handler GET [Lit ''validators''] None ''getValidators'' [] [''profiles.getValidators''],
     handler GET [Lit ''by-wallet'', Par ''wallet''] None ''getByWallet'' [ParamArg ''wallet''] [''profiles.getByWallet''],
     with_guard JwtAuth (handler PATCH [Lit ''by-wallet'', Par ''wallet''] None ''update'' [CallerId, ParamArg ''wallet'', BodyDto ''UpdateProfileDto'']
       [''profiles.update'']),
     with_guard JwtAuth (handler PATCH [Lit ''set-role''] None ''setRole'' [CallerId, BodyDto ''SetUserRoleDto''] [''profiles.setUserRole'']),
     with_guard JwtAuth (handler GET [Par ''id''] None ''getById'' [ParamArg ''id''] [''profiles.getById''])]"

definition wallets_routes :: "route list" where
  "wallets_routes = controller [Lit ''wallets''] [JwtAuth]
    [handler GET [] None ''getMyWallets'' [CallerId] [''walletsService.getUserWallets''],
     handler GET [Lit ''with-balances''] None ''getMyWalletsWithBalances'' [CallerId]
       [''walletsService.getUserWalletsWithBalances''],
     handler GET [Lit ''agreements''] None ''getAgreementsByWallet'' [CallerId] [''walletsService.getAgreementsByWallet''],
     handler GET [Lit ''primary''] None ''getPrimaryWallet'' [CallerId] [''walletsService.getPrimaryWallet''],
     handler GET [Lit ''verification-challenge''] None ''getVerificationChallenge'' [CallerId, QueryDto ''VerificationChallengeQueryDto'']
       [''walletsService.generateVerificationChallenge''],
     handler GET [Par ''address'', Lit ''balance''] None ''getWalletBalance'' [ParamArg ''address'']
       [''walletsService.getWalletBalance''],
     handler POST [] None ''linkWallet'' [CallerId, BodyDto ''LinkWalletDto''] [''walletsService.linkWallet''],
     handler POST [Par ''id'', Lit ''verify''] None ''verifyWallet'' [CallerId, ParamArg ''id'', BodyDto ''VerifyWalletDto'']
       [''walletsService.verifyWallet''],
     handler PATCH [Par ''id''] None ''updateWallet'' [CallerId, ParamArg ''id'', BodyDto ''UpdateWalletDto'']
       [''walletsService.updateWallet''],
     handler DELETE [Par ''id''] None ''unlinkWallet'' [CallerId, ParamArg ''id''] [''walletsService.unlinkWallet''],
     handler GET [Lit ''check'', Par ''address''] None ''checkWalletOwnership'' [CallerId, ParamArg ''address'']
       [''walletsService.walletBelongsToUser'']]"

definition webhooks_routes :: "route list" where
  "webhooks_routes = controller [Lit ''webhooks''] []
    [handler POST [Lit ''trustless-work''] (Some 200) ''handleTrustlessWork'' [RawRequest, HeaderArg ''x-trustless-signature'']
       [''webhooksService.verifySignature'', ''webhooksService.handleEvent'']]"

definition verification_routes :: "route list" where
  "verification_routes = controller [Lit ''verification''] [JwtOrInternal]
    [handler GET [Lit ''user'', Par ''id''] None ''getUser'' [UuidArg ''id'', RawRequest] [''verification.getUserVerification''],
     handler GET [Lit ''business'', Par ''id''] None ''getBusiness'' [UuidArg ''id'', RawRequest]
       [''verification.getBusinessVerification'']]"

definition kyb_routes :: "route list" where
  "kyb_routes = controller [Lit ''kyb''] [JwtAuth]
    [handler POST [Lit ''session''] None ''createSession'' [CallerId, BodyDto ''CreateKybSessionDto''] [''kyb.createSession''],
     handler GET [Lit ''status'', Par ''organizationId''] None ''getStatus'' [CallerId, UuidArg ''organizationId'']
       [''kyb.getStatus''],
     handler PATCH [Lit ''status'', Par ''organizationId''] None ''review'' [CallerId, UuidArg ''organizationId'', BodyDto ''ReviewKybSessionDto'']
       [''kyb.review'']]"

definition kyc_routes :: "route list" where
  "kyc_routes = controller [Lit ''kyc''] [JwtAuth]
    [handler POST [Lit ''session''] None ''createSession'' [CallerId, BodyDto ''CreateKycSessionDto''] [''kyc.createSession'']]"

definition identity_providers_routes :: "route list" where
  "identity_providers_routes = controller [Lit ''identity-providers''] []
    [with_guard JwtAuth (handler POST [Lit ''session''] (Some 201) ''createSession'' [BodyDto ''userId, metadata'']
       [''identityProvidersService.createSession'']),
     with_guard JwtAuth (handler GET [Lit ''status'', Par ''id''] None ''getStatus'' [ParamArg ''id''] [''identityProvidersService.getStatus'']),
     with_guard KycSecret (handler POST [Lit ''webhook''] None ''processWebhook'' [BodyDto ''unknown''] [''identityProvidersService.processWebhook''])]"

definition opportunities_routes :: "route list" where
  "opportunities_routes = controller [Lit ''opportunities''] [JwtAuth]
    [handler GET [] None ''discover'' [QueryDto ''DiscoverOpportunitiesQueryDto''] [''opportunities.discover''],
     handler GET [Lit ''mine''] None ''listMine'' [CallerId] [''opportunities.listMine''],
     handler GET [Par ''id''] None ''getOne'' [CallerId, UuidArg ''id''] [''opportunities.getById''],
     handler POST [] (Some 201) ''create'' [CallerId, BodyDto ''CreateOpportunityDto''] [''opportunities.create''],
     handler PATCH [Par ''id''] None ''update'' [CallerId, UuidArg ''id'', BodyDto ''UpdateOpportunityDto'']
       [''opportunities.update''],
     handler DELETE [Par ''id''] None ''remove'' [CallerId, UuidArg ''id''] [''opportunities.remove'']]"

definition applications_routes :: "route list" where
  "applications_routes = controller [Lit ''applications''] [JwtAuth]
    [handler POST [] (Some 201) ''apply'' [CallerId, BodyDto ''CreateApplicationDto''] [''applications.apply''],
     handler GET [] None ''listApplicants'' [CallerId, QueryDto ''ListApplicationsQueryDto''] [''applications.listApplicants''],
     handler PATCH [Par ''id''] None ''updateStatus'' [CallerId, UuidArg ''id'', BodyDto ''UpdateApplicationStatusDto'']
       [''applications.updateStatus'']]"

text \<open>The order of registration: the module that declares a controller comes before those it imports, and these in the order of its list.\<close>

definition routes :: "route list" where
  "routes = root_routes @ retry_queue_routes @ internal_trustless_routes @ trustless_public_routes @
     escrows_routes @ agreements_routes @ users_routes @ contacts_routes @
     notifications_routes @ chat_routes @ files_routes @ ramps_routes @
     disputes_routes @ profiles_routes @ wallets_routes @ webhooks_routes @
     verification_routes @ kyb_routes @ kyc_routes @ identity_providers_routes @
     opportunities_routes @ applications_routes"

section \<open>Serving a request\<close>

text \<open>The router compares fixed segments without case; a parameter takes any segment that is not empty.\<close>

fun fits :: "segment list \<Rightarrow> string list \<Rightarrow> bool" where
  "fits [] [] = True"
| "fits (Lit a # p) (w # ws) \<longleftrightarrow> toLowerCase w = toLowerCase a \<and> fits p ws"
| "fits (Par _ # p) (w # ws) \<longleftrightarrow> w \<noteq> [] \<and> fits p ws"
| "fits _ _ = False"

definition resolve_in :: "route list \<Rightarrow> http_method \<Rightarrow> string list \<Rightarrow> route option" where
  "resolve_in rts m ws = find (\<lambda>rt. rt_method rt = m \<and> fits (rt_path rt) ws) rts"

primrec method_name :: "http_method \<Rightarrow> string" where
  "method_name GET = ''GET''"
| "method_name POST = ''POST''"
| "method_name PATCH = ''PATCH''"
| "method_name DELETE = ''DELETE''"

definition serve :: "gate \<Rightarrow> in_request \<Rightarrow> exn + route \<times> in_request" where
  "serve E r = (case JwtStrategy (gt_vars E) of
     Inl e \<Rightarrow> Inl e
   | Inr secret \<Rightarrow> (case resolve_in routes (ir_method r) (ir_path r) of
       None \<Rightarrow> Inl (NotFound (''Cannot '' @ method_name (ir_method r) @ '' /v1/'' @ join ''/'' (ir_path r)))
     | Some rt \<Rightarrow> (case run_guards E secret (rt_public rt) (rt_guards rt) r of
         Inl e \<Rightarrow> Inl e
       | Inr r' \<Rightarrow> Inr (rt, r'))))"

section \<open>No route hides another\<close>

fun apart :: "segment list \<Rightarrow> segment list \<Rightarrow> bool" where
  "apart [] [] = False"
| "apart (Lit a # p) (Lit b # q) \<longleftrightarrow> a \<noteq> b \<or> apart p q"
| "apart (Lit a # p) (Par b # q) = True"
| "apart (Par a # p) (_ # q) = apart p q"
| "apart _ _ = True"

fun fixed_words :: "segment list \<Rightarrow> string list" where
  "fixed_words [] = []"
| "fixed_words (Lit a # p) = a # fixed_words p"
| "fixed_words (Par _ # p) = fixed_words p"

definition words :: "route list \<Rightarrow> string list" where
  "words rts = concat (map (\<lambda>rt. fixed_words (rt_path rt)) rts)"

text \<open>The values of the parameters are none of the words of the interface.\<close>

fun plain_values :: "string list \<Rightarrow> segment list \<Rightarrow> string list \<Rightarrow> bool" where
  "plain_values v (Par _ # p) (w # ws) \<longleftrightarrow> toLowerCase w \<notin> set v \<and> plain_values v p ws"
| "plain_values v (_ # p) (_ # ws) = plain_values v p ws"
| "plain_values v _ _ = True"

definition address :: "route \<Rightarrow> http_method \<times> segment list" where
  "address rt = (rt_method rt, rt_path rt)"

fun unhidden :: "(http_method \<times> segment list) list \<Rightarrow> bool" where
  "unhidden [] = True"
| "unhidden (a # as) \<longleftrightarrow> list_all (\<lambda>b. fst a \<noteq> fst b \<or> apart (snd a) (snd b)) as \<and> unhidden as"

lemma fits_Cons: "fits (s # p) ws \<longleftrightarrow> (\<exists>w us. ws = w # us \<and> fits p us \<and>
    (case s of Lit a \<Rightarrow> toLowerCase w = toLowerCase a | Par _ \<Rightarrow> w \<noteq> []))"
  by (cases s; cases ws) auto

lemma fits_Nil: "fits [] ws \<longleftrightarrow> ws = []"
  by (cases ws) auto

lemma apart_fits:
  "apart p q \<Longrightarrow> fits q ws \<Longrightarrow> plain_values v q ws \<Longrightarrow> set (fixed_words p) \<subseteq> set v \<Longrightarrow>
     \<forall>w \<in> set (fixed_words p @ fixed_words q). toLowerCase w = w \<Longrightarrow> \<not> fits p ws"
proof (induction p q arbitrary: ws rule: apart.induct)
  case (2 a p b q)
  then show ?case by (cases ws) auto
next
  case (3 a p b q)
  then show ?case by (cases ws) auto
next
  case (4 a p s q)
  then show ?case by (cases ws; cases s) auto
qed (auto simp: fits_Nil fits_Cons)

lemmas route_tables = root_routes_def retry_queue_routes_def internal_trustless_routes_def trustless_public_routes_def escrows_routes_def
  agreements_routes_def users_routes_def contacts_routes_def notifications_routes_def chat_routes_def files_routes_def ramps_routes_def
  disputes_routes_def profiles_routes_def wallets_routes_def webhooks_routes_def verification_routes_def kyb_routes_def kyc_routes_def
  identity_providers_routes_def opportunities_routes_def applications_routes_def controller_def handler_def with_guard_def Public_def

lemma routes_unhidden: "unhidden (map address routes)"
  by (simp add: routes_def route_tables address_def)

lemma routes_lower: "list_all (\<lambda>w. toLowerCase w = w) (words routes)"
  by (simp add: words_def routes_def route_tables toLowerCase_def lower_char_def)

lemma unhidden_resolve:
  assumes "unhidden (map address rts)" "rt \<in> set rts" "fits (rt_path rt) ws" "plain_values v (rt_path rt) ws"
    and "set (words rts) \<subseteq> set v" "list_all (\<lambda>w. toLowerCase w = w) (words rts)"
  shows "resolve_in rts (rt_method rt) ws = Some rt"
  using assms
proof (induction rts)
  case (Cons p rts)
  show ?case
  proof (cases "rt = p")
    case True
    then show ?thesis using Cons.prems(3) by (simp add: resolve_in_def)
  next
    case False
    then have "rt \<in> set rts" using Cons.prems(2) by simp
    moreover from this have "set (fixed_words (rt_path rt)) \<subseteq> set (words rts)" by (auto simp: words_def)
    ultimately have "rt_method p \<noteq> rt_method rt \<or> \<not> fits (rt_path p) ws"
      using Cons.prems apart_fits [of "rt_path p" "rt_path rt" ws v] by (auto simp: list_all_iff words_def address_def)
    moreover have "resolve_in rts (rt_method rt) ws = Some rt"
      using \<open>rt \<in> set rts\<close> Cons.prems by (intro Cons.IH) (auto simp: words_def)
    ultimately show ?thesis by (auto simp: resolve_in_def)
  qed
qed simp

text \<open>
  Every route answers the requests for it: with parameters that are no words of the interface, the first route in the order of
  registration that fits is the one the request is written for.
\<close>

theorem routes_reachable:
  assumes "rt \<in> set routes" "fits (rt_path rt) ws" "plain_values (words routes) (rt_path rt) ws"
  shows "resolve_in routes (rt_method rt) ws = Some rt"
  using unhidden_resolve [OF routes_unhidden assms subset_refl routes_lower] .

section \<open>Who gets in\<close>

definition presents :: "gate \<Rightarrow> string \<Rightarrow> string \<Rightarrow> in_request \<Rightarrow> bool" where
  "presents E variable name r \<longleftrightarrow> truthy (gt_vars E variable) \<and> header_value name r = gt_vars E variable"

text \<open>The caller the token of a request names.\<close>

definition named_by_token :: "gate \<Rightarrow> in_request \<Rightarrow> caller \<Rightarrow> bool" where
  "named_by_token E r u \<longleftrightarrow> (\<exists>secret payload. gt_vars E ''JWT_SECRET'' = Some secret \<and> secret \<noteq> [] \<and>
     gt_bearer E (ir_headers r) secret = Some payload \<and> jget ''sub'' payload = Some (uc_userId u) \<and> jtruthy (Some (uc_userId u)) \<and>
     uc_email u = jget ''email'' payload)"

definition admitted :: "gate \<Rightarrow> in_request \<Rightarrow> in_request \<Rightarrow> bool" where
  "admitted E r r' \<longleftrightarrow> ir_headers r' = ir_headers r \<and> (\<forall>u. ir_user r' = Some u \<longrightarrow> ir_user r = Some u \<or> named_by_token E r u) \<and>
     (ir_user r \<noteq> None \<longrightarrow> ir_user r' \<noteq> None) \<and>
     (ir_internal r' \<longrightarrow> ir_internal r \<or> presents E ''THALOS_INTERNAL_SECRET'' ''x-thalos-internal-secret'' r)"

definition needs_user :: "guard list \<Rightarrow> bool option list \<Rightarrow> bool" where
  "needs_user gs isPublic \<longleftrightarrow> JwtAuth \<in> set gs \<and> getAllAndOverride isPublic \<noteq> Some True"

lemma header_value_cong: "ir_headers r' = ir_headers r \<Longrightarrow> header_value name r' = header_value name r"
  by (simp add: header_value_def)

lemma JwtAuthGuard_admits:
  assumes "JwtStrategy (gt_vars E) = Inr secret" "JwtAuthGuard E secret isPublic r = Inr r'"
  shows "admitted E r r'" "getAllAndOverride isPublic \<noteq> Some True \<Longrightarrow> ir_user r' \<noteq> None"
  using assms
  by (auto simp: JwtAuthGuard_def JwtStrategy_def validate_payload_def admitted_def named_by_token_def truthy_def default_def
      split: if_splits option.splits sum.splits)

lemma canActivate_admits:
  assumes "JwtStrategy (gt_vars E) = Inr secret" "canActivate E secret isPublic g r = Inr r'"
  shows "admitted E r r'"
    and "g = JwtAuth \<Longrightarrow> getAllAndOverride isPublic \<noteq> Some True \<Longrightarrow> ir_user r' \<noteq> None"
    and "g = InternalSecret \<Longrightarrow> presents E ''THALOS_INTERNAL_SECRET'' ''x-thalos-internal-secret'' r"
    and "g = KycSecret \<Longrightarrow> presents E ''KYC_WEBHOOK_SECRET'' ''x-kyc-webhook-secret'' r"
  using assms JwtAuthGuard_admits [OF assms(1)]
  by (cases g; auto simp: InternalSecretGuard_def KycSecretGuard_def JwtOrInternalSecretGuard_def Let_def admitted_def presents_def
      split: if_splits option.splits)+

lemma admitted_trans: "admitted E r s \<Longrightarrow> admitted E s t \<Longrightarrow> admitted E r t"
  by (auto simp: admitted_def named_by_token_def presents_def header_value_def)

lemma run_guards_admit:
  assumes "JwtStrategy (gt_vars E) = Inr secret" "run_guards E secret isPublic gs r = Inr r'"
  shows "admitted E r r' \<and> (needs_user gs isPublic \<longrightarrow> ir_user r' \<noteq> None) \<and>
    (InternalSecret \<in> set gs \<longrightarrow> presents E ''THALOS_INTERNAL_SECRET'' ''x-thalos-internal-secret'' r) \<and>
    (KycSecret \<in> set gs \<longrightarrow> presents E ''KYC_WEBHOOK_SECRET'' ''x-kyc-webhook-secret'' r)"
  using assms(2)
proof (induction gs arbitrary: r)
  case Nil
  then show ?case by (simp add: admitted_def needs_user_def)
next
  case (Cons g gs)
  then obtain s where s: "canActivate E secret isPublic g r = Inr s" "run_guards E secret isPublic gs s = Inr r'"
    by (auto split: sum.splits)
  note step = canActivate_admits [OF assms(1) s(1)]
  note rest = Cons.IH [OF s(2)]
  have "admitted E r r'" using step(1) rest admitted_trans by blast
  moreover have "header_value n s = header_value n r" for n
    using step(1) by (simp add: admitted_def header_value_def)
  moreover have "ir_user r' \<noteq> None" if "ir_user s \<noteq> None" using that rest by (simp add: admitted_def)
  ultimately show ?case
    using step(2-4) rest by (auto simp: needs_user_def presents_def)
qed

lemma routes_guarded:
  "list_all (\<lambda>rt. (CallerId \<in> set (rt_args rt) \<longrightarrow> needs_user (rt_guards rt) (rt_public rt)) \<and>
     (rt_method rt = GET \<or> rt_handler rt = ''handleTrustlessWork'' \<or> needs_user (rt_guards rt) (rt_public rt) \<or>
      InternalSecret \<in> set (rt_guards rt) \<or> KycSecret \<in> set (rt_guards rt))) routes"
  by (simp add: routes_def route_tables needs_user_def)

lemma serve_admits:
  assumes "serve E r = Inr (rt, r')"
  obtains secret where "JwtStrategy (gt_vars E) = Inr secret" "resolve_in routes (ir_method r) (ir_path r) = Some rt"
    "run_guards E secret (rt_public rt) (rt_guards rt) r = Inr r'" "admitted E r r'"
  using assms run_guards_admit by (fastforce simp: serve_def split: sum.splits option.splits)

text \<open>
  (C13) No request gets past the guards of its route unknown: where the handler takes the user, that is the subject of a token
  accepted under \<open>JWT_SECRET\<close>, and without that secret nothing is served at all; a request is only taken for a service's own if it
  presents the internal secret; and whatever is not read with GET was sent by a user, with one of the two configured secrets, or to the
  webhook of Trustless Work, which checks a signature itself.
\<close>

theorem requests_authenticated:
  assumes "serve E r = Inr (rt, r')" "ir_user r = None" "\<not> ir_internal r"
  shows "rt \<in> set routes \<and> (CallerId \<in> set (rt_args rt) \<longrightarrow> ir_user r' \<noteq> None) \<and>
    (\<forall>u. ir_user r' = Some u \<longrightarrow> named_by_token E r u) \<and>
    (ir_internal r' \<longrightarrow> presents E ''THALOS_INTERNAL_SECRET'' ''x-thalos-internal-secret'' r) \<and>
    (rt_method rt = GET \<or> rt_handler rt = ''handleTrustlessWork'' \<or> ir_user r' \<noteq> None \<or>
     presents E ''THALOS_INTERNAL_SECRET'' ''x-thalos-internal-secret'' r \<or> presents E ''KYC_WEBHOOK_SECRET'' ''x-kyc-webhook-secret'' r)"
proof -
  obtain secret where secret: "JwtStrategy (gt_vars E) = Inr secret"
    and found: "resolve_in routes (ir_method r) (ir_path r) = Some rt"
    and passed: "run_guards E secret (rt_public rt) (rt_guards rt) r = Inr r'"
    by (rule serve_admits [OF assms(1)])
  have "rt \<in> set routes" using found by (auto simp: resolve_in_def find_Some_iff)
  moreover from this have "CallerId \<in> set (rt_args rt) \<longrightarrow> needs_user (rt_guards rt) (rt_public rt)"
    "rt_method rt = GET \<or> rt_handler rt = ''handleTrustlessWork'' \<or> needs_user (rt_guards rt) (rt_public rt) \<or>
      InternalSecret \<in> set (rt_guards rt) \<or> KycSecret \<in> set (rt_guards rt)"
    using routes_guarded by (simp_all add: list_all_iff)
  ultimately show ?thesis
    using run_guards_admit [OF secret passed] assms(2, 3) by (auto simp: admitted_def)
qed

definition entry :: "(string \<times> header) list \<Rightarrow> in_request" where
  "entry hs = \<lparr>ir_method = PATCH, ir_path = [''disputes'', ''d1'', ''resolve''], ir_headers = hs, ir_user = None, ir_internal = False\<rparr>"

definition entrance :: gate where
  "entrance = \<lparr>gt_vars = map_of [(''JWT_SECRET'', ''k'')],
     gt_bearer = (\<lambda>hs secret. if map_of hs ''authorization'' = Some (OneValue (''Bearer '' @ secret)) then Some (JObj [(''sub'', JStr ''u1'')]) else None),
     gt_limit = (\<lambda>_. None)\<rparr>"

text \<open>A token that is accepted, one that is not, and a process without its secret.\<close>

lemma requests_authenticated_witness:
  "named_by_token entrance (entry [(''authorization'', OneValue ''Bearer k'')]) \<lparr>uc_userId = JStr ''u1'', uc_email = None\<rparr> \<and>
   serve entrance (entry [(''authorization'', OneValue ''Bearer x'')]) = Inl (Unauthorized ''Unauthorized'') \<and>
   serve (entrance\<lparr>gt_vars := Map.empty\<rparr>) (entry []) = Inl (PlainError ''JWT_SECRET is required'')"
proof -
  let ?r = "entry [(''authorization'', OneValue ''Bearer k'')]"
  let ?rt = "disputes_routes ! 6"
  have rt: "?rt \<in> set routes" by (simp add: routes_def disputes_routes_def controller_def)
  have "resolve_in routes (rt_method ?rt) [''disputes'', ''d1'', ''resolve''] = Some ?rt"
    by (rule routes_reachable [OF rt]) (simp_all add: route_tables toLowerCase_def lower_char_def words_def routes_def)
  then have found: "resolve_in routes PATCH [''disputes'', ''d1'', ''resolve''] = Some ?rt"
    by (simp add: route_tables)
  let ?u = "\<lparr>uc_userId = JStr ''u1'', uc_email = None\<rparr>"
  have ok: "serve entrance ?r = Inr (?rt, ?r\<lparr>ir_user := Some ?u\<rparr>)"
    using found by (simp add: serve_def entrance_def entry_def JwtStrategy_def truthy_def default_def route_tables JwtAuthGuard_def
        validate_payload_def jget_def)
  have "\<forall>u. Some ?u = Some u \<longrightarrow> named_by_token entrance ?r u"
    using requests_authenticated [OF ok] by (simp add: entry_def)
  moreover have "serve entrance (entry [(''authorization'', OneValue ''Bearer x'')]) = Inl (Unauthorized ''Unauthorized'')"
    using found by (simp add: serve_def entrance_def entry_def JwtStrategy_def truthy_def default_def route_tables JwtAuthGuard_def)
  moreover have "serve (entrance\<lparr>gt_vars := Map.empty\<rparr>) (entry []) = Inl (PlainError ''JWT_SECRET is required'')"
    by (simp add: serve_def JwtStrategy_def truthy_def)
  ultimately show ?thesis by simp
qed

text \<open>The handlers anyone reaches.\<close>

theorem open_routes:
  "map rt_handler (filter (\<lambda>rt. \<not> needs_user (rt_guards rt) (rt_public rt) \<and>
     set (rt_guards rt) \<inter> {InternalSecret, KycSecret, JwtOrInternal} = {}) routes) =
   [''index'', ''getEscrowsBySigner'', ''getEscrowsByRole'', ''getEscrowByContractId'', ''discover'', ''getByHandle'',
    ''getPublicReputation'', ''getDisputeResolvers'', ''getValidators'', ''getByWallet'', ''handleTrustlessWork'']"
  by (simp add: routes_def route_tables needs_user_def)

end
