(* ===== verification/Endpoints.thy ===== *)
theory Endpoints
  imports Routes Agreements Conversations Compliance Notifications Errors
begin

text \<open>
  The handlers of the controllers that do more than pass their parameters on: \<open>agreements.controller.ts\<close>,
  \<open>agreement-chat.controller.ts\<close>, \<open>contacts.controller.ts\<close>, \<open>files.controller.ts\<close>, \<open>verification.controller.ts\<close> and
  \<open>notifications.controller.ts\<close>, with the origins of \<open>main.ts\<close> and the event the application sends itself when it starts.
\<close>

section \<open>Agreements\<close>

text \<open>An \<open>error\<close> that is a text is falsy when it is empty; the validator's error object has a code.\<close>

definition post_agreement :: "'s backend \<Rightarrow> string \<Rightarrow> create_dto \<Rightarrow> ('s world, agreement option \<times> api_error option) prog" where
  "post_agreement B userId dto =
     bnd (create B userId dto) (\<lambda>(agreement, error).
     case error of
       None \<Rightarrow> ret (agreement, error)
     | Some (Validation code details) \<Rightarrow> throw (BadRequest (Body (failure_of code details)))
     | Some (Message m) \<Rightarrow> if m = [] then ret (agreement, error)
         else throw (BadRequest (Body (fieldError ''body'' ''VALIDATION_ERROR'' m))))"

definition blankToUndefined :: "string option \<Rightarrow> string option" where
  "blankToUndefined value = (case value of Some v \<Rightarrow> if trim v = [] then None else Some v | None \<Rightarrow> None)"

definition get_agreements ::
    "'s backend \<Rightarrow> string \<Rightarrow> string option \<Rightarrow> string option \<Rightarrow> ('s world, agreement list \<times> string option) prog" where
  "get_agreements B userId status ty = list_agreements B userId (blankToUndefined status) (blankToUndefined ty)"

definition post_sync :: "'s backend \<Rightarrow> string \<Rightarrow> string \<Rightarrow> string option \<Rightarrow> ('s world, sync_result) prog" where
  "post_sync B userId agreementId useRetryQueue =
     bnd (getById B userId agreementId) (\<lambda>_. syncAgreement B agreementId (useRetryQueue = Some ''true''))"

definition post_reconcile :: "'s backend \<Rightarrow> string \<Rightarrow> string \<Rightarrow> string option \<Rightarrow> ('s world, reconcile_result) prog" where
  "post_reconcile B userId agreementId useRetryQueue =
     bnd (getById B userId agreementId) (\<lambda>_. reconcileAgreement B agreementId (useRetryQueue = Some ''true''))"

section \<open>Conversations\<close>

definition post_message_to :: "'s backend \<Rightarrow> string \<Rightarrow> string \<Rightarrow> send_message_dto \<Rightarrow> ('s world, message_view) prog" where
  "post_message_to B userId agreementId dto = sendMessage B userId (dto\<lparr>sm_agreement_id := agreementId\<rparr>)"

fun split_at :: "(char \<Rightarrow> bool) \<Rightarrow> string \<Rightarrow> string list" where
  "split_at P [] = [[]]"
| "split_at P (c # s) = (if P c then [] # split_at P s else (case split_at P s of x # xs \<Rightarrow> (c # x) # xs | [] \<Rightarrow> [[c]]))"

definition appBaseUrl :: "(string \<Rightarrow> string option) \<Rightarrow> string" where
  "appBaseUrl vars =
     or_else (vars ''THALOS_APP_PUBLIC_URL'')
       (or_else (map_option (\<lambda>s. trim (hd (split_at (\<lambda>c. c = CHR '','') s))) (vars ''THALOS_CORS_ORIGIN'')) ''http://localhost:3000'')"

definition post_contact :: "'s backend \<Rightarrow> string \<Rightarrow> add_contact_dto \<Rightarrow> ('s world, contact option \<times> string option \<times> string option) prog" where
  "post_contact B userId dto = addContact B userId dto (appBaseUrl (getenv B))"

text \<open>The origins of \<open>enableCors\<close>; without the variable every origin is allowed.\<close>

definition cors_origins :: "(string \<Rightarrow> string option) \<Rightarrow> string list option" where
  "cors_origins vars = (if truthy (vars ''THALOS_CORS_ORIGIN'')
     then Some (filter (\<lambda>s. s \<noteq> []) (map trim (split_at (\<lambda>c. c \<in> {CHR '','', CHR '';''}) (default (vars ''THALOS_CORS_ORIGIN'') []))))
     else None)"

definition post_file :: "'s backend \<Rightarrow> string \<Rightarrow> string \<Rightarrow> string option \<Rightarrow> uploaded_file option \<Rightarrow> ('s world, public_file) prog" where
  "post_file B userId uploaderWallet agreementId f = (case f of
     None \<Rightarrow> throw (BadRequest (Msg ''No file was uploaded''))
   | Some x \<Rightarrow> bnd (upload B userId uploaderWallet agreementId x) (\<lambda>stored. ret (toPublicFile stored)))"

section \<open>Verification\<close>

text \<open>What the guard left on the request. The services compare the user with texts, so a subject that is not a text is nobody's.\<close>

definition accessContext :: "in_request \<Rightarrow> access_context" where
  "accessContext r =
     \<lparr>ax_caller = (case ir_user r of Some u \<Rightarrow> (case uc_userId u of JStr s \<Rightarrow> Some s | _ \<Rightarrow> None) | None \<Rightarrow> None), ax_internal = ir_internal r\<rparr>"

definition get_user_status :: "'s backend \<Rightarrow> (string \<Rightarrow> string \<Rightarrow> int) \<Rightarrow> string \<Rightarrow> in_request \<Rightarrow> ('s world, status_response) prog" where
  "get_user_status B collate i r = getUserVerification B collate i (accessContext r)"

definition get_business_status :: "'s backend \<Rightarrow> (string \<Rightarrow> string \<Rightarrow> int) \<Rightarrow> string \<Rightarrow> in_request \<Rightarrow> ('s world, status_response) prog" where
  "get_business_status B collate i r = getBusinessVerification B collate i (accessContext r)"

section \<open>Notifications\<close>

text \<open>The data of a mail from the fields of a body: an absent field stays absent.\<close>

definition data_of :: "(string \<times> string) list \<Rightarrow> json \<Rightarrow> json" where
  "data_of names dto = JObj (concat (map (\<lambda>(k, f). jopt k (jget f dto)) names))"

type_synonym template = "string \<Rightarrow> json \<Rightarrow> exn + string"

definition post_agreement_created :: "'s backend \<Rightarrow> template \<Rightarrow> json \<Rightarrow> ('s world, unit) prog" where
  "post_agreement_created B html dto = notifyAgreementCreated B html (data_of
     [(''agreementId'', ''agreement_id''), (''title'', ''title''), (''description'', ''description''), (''amount'', ''amount''), (''asset'', ''asset''),
      (''createdByWallet'', ''created_by_wallet''), (''createdByName'', ''created_by_name''), (''participantWallets'', ''participant_wallets'')] dto)"

definition post_agreement_funded :: "'s backend \<Rightarrow> template \<Rightarrow> json \<Rightarrow> ('s world, unit) prog" where
  "post_agreement_funded B html dto = notifyAgreementFunded B html (data_of
     [(''agreementId'', ''agreement_id''), (''title'', ''title''), (''amount'', ''amount''), (''asset'', ''asset''),
      (''fundedByWallet'', ''funded_by_wallet''), (''fundedByName'', ''funded_by_name''), (''transactionSignature'', ''transaction_signature'')] dto)"

definition post_evidence_submitted :: "'s backend \<Rightarrow> template \<Rightarrow> json \<Rightarrow> ('s world, unit) prog" where
  "post_evidence_submitted B html dto = notifyEvidenceSubmitted B html (data_of
     [(''agreementId'', ''agreement_id''), (''agreementTitle'', ''agreement_title''), (''milestoneIndex'', ''milestone_index''),
      (''milestoneDescription'', ''milestone_description''), (''milestoneAmount'', ''milestone_amount''), (''asset'', ''asset''),
      (''submittedByWallet'', ''submitted_by_wallet''), (''submittedByName'', ''submitted_by_name''),
      (''evidenceDescription'', ''evidence_description''), (''evidenceUrls'', ''evidence_urls'')] dto) None"

definition post_milestone_approved :: "'s backend \<Rightarrow> template \<Rightarrow> json \<Rightarrow> ('s world, unit) prog" where
  "post_milestone_approved B html dto = notifyMilestoneApproved B html (data_of
     [(''agreementId'', ''agreement_id''), (''agreementTitle'', ''agreement_title''), (''milestoneIndex'', ''milestone_index''),
      (''milestoneDescription'', ''milestone_description''), (''milestoneAmount'', ''milestone_amount''), (''asset'', ''asset''),
      (''approvedByWallet'', ''approved_by_wallet''), (''approvedByName'', ''approved_by_name'')] dto)"

definition post_dispute_opened :: "'s backend \<Rightarrow> template \<Rightarrow> json \<Rightarrow> ('s world, unit) prog" where
  "post_dispute_opened B html dto = notifyDisputeOpened B html (data_of
     [(''agreementId'', ''agreement_id''), (''agreementTitle'', ''agreement_title''), (''disputeReason'', ''dispute_reason''),
      (''openedByWallet'', ''opened_by_wallet''), (''openedByName'', ''opened_by_name''), (''milestoneIndex'', ''milestone_index''),
      (''milestoneDescription'', ''milestone_description'')] dto)"

definition post_dispute_resolved :: "'s backend \<Rightarrow> template \<Rightarrow> json \<Rightarrow> ('s world, unit) prog" where
  "post_dispute_resolved B html dto = notifyDisputeResolved B html (data_of
     [(''agreementId'', ''agreement_id''), (''agreementTitle'', ''agreement_title''), (''resolution'', ''resolution''),
      (''resolvedByWallet'', ''resolved_by_wallet''), (''resolvedByName'', ''resolved_by_name''), (''winnerWallet'', ''winner_wallet''),
      (''refundAmount'', ''refund_amount''), (''releaseAmount'', ''release_amount''), (''asset'', ''asset'')] dto)"

definition post_agreement_completed :: "'s backend \<Rightarrow> template \<Rightarrow> json \<Rightarrow> ('s world, unit) prog" where
  "post_agreement_completed B html dto = notifyAgreementCompleted B html (data_of
     [(''agreementId'', ''agreement_id''), (''title'', ''title''), (''totalAmount'', ''total_amount''), (''asset'', ''asset''),
      (''completedAt'', ''completed_at'')] dto)"

text \<open>\<open>AgreementEventsListener.onApplicationBootstrap\<close>: the event bus is tried out with an event of the business.\<close>

definition onApplicationBootstrap :: "('s world, unit) prog" where
  "onApplicationBootstrap = emit ''agreement.created'' (JObj
     [(''agreementId'', JStr ''test-agreement-id''), (''title'', JStr ''Event bus smoke test''), (''amount'', JStr ''100''),
      (''asset'', JStr ''USDC''), (''createdByWallet'', JStr ''GTESTWALLET''), (''participantWallets'', JArr [JStr ''GTESTWALLET''])])"

section \<open>What the handlers guarantee\<close>

lemma post_sync_effect:
  assumes "database B st"
  shows "wp (post_sync B userId aid q) (\<lambda>r v. sync_effect aid (st (svc w)) (st (svc v)) \<and> emitted v = emitted w \<and>
    (may_access (st (svc w)) userId aid \<or> st (svc v) = st (svc w) \<and> spawned v = spawned w \<and> (\<exists>e. r = Inl e))) w"
proof -
  have after: "wp (syncAgreement B aid b) (\<lambda>r v. sync_effect aid (st (svc w)) (st (svc v)) \<and> emitted v = emitted w \<and>
      (may_access (st (svc w)) userId aid \<or> st (svc v) = st (svc w) \<and> spawned v = spawned w \<and> (\<exists>e. r = Inl e))) u"
    if "may_access (st (svc w)) userId aid" "st (svc u) = st (svc w)" "quiet w u" for u b
    using that by (auto simp: syncAgreement_def wp_bnd wp_spawn wp_ret quiet_def intro!: database.wp_doSync [OF assms])
  show ?thesis
    unfolding post_sync_def wp_bnd
    by (rule database.wp_getById [OF assms]) (auto simp: quiet_def intro!: after split: sum.splits)
qed


lemma wp_reconcile_any: "wp (reconcileAgreement B aid b) (\<lambda>_ _. True) w"
  by (simp add: wp_def split: prod.splits)

text \<open>
  A request to sync or reconcile works for those who may access the agreement, and for anyone else changes nothing and fails. A sync that was asked
  for keeps to its agreement and its lifecycle, at once or queued.
\<close>

theorem requested_sync_authorized:
  assumes "database B st"
  shows "(post_sync B userId aid q w = (r, w') \<longrightarrow> sync_effect aid (st (svc w)) (st (svc w')) \<and> emitted w' = emitted w \<and>
      (may_access (st (svc w)) userId aid \<or> st (svc w') = st (svc w) \<and> spawned w' = spawned w \<and> (\<exists>e. r = Inl e))) \<and>
    (post_reconcile B userId aid q w = (r', w') \<longrightarrow>
      may_access (st (svc w)) userId aid \<or> st (svc w') = st (svc w) \<and> spawned w' = spawned w \<and> (\<exists>e. r' = Inl e))"
proof -
  have "wp (post_reconcile B userId aid q) (\<lambda>r v.
      may_access (st (svc w)) userId aid \<or> st (svc v) = st (svc w) \<and> spawned v = spawned w \<and> (\<exists>e. r = Inl e)) w"
    unfolding post_reconcile_def wp_bnd
    by (rule database.wp_getById [OF assms]) (auto simp: quiet_def intro!: wp_mono [OF wp_reconcile_any] split: sum.splits)
  then show ?thesis using wpD [OF post_sync_effect [OF assms]] by (auto dest: wpD)
qed

text \<open>
  From the request to the answer: a status is answered to a request with the internal secret, or whose token names the user asked about
  or an admin; and answering changes no table.
\<close>

theorem status_served:
  assumes "database B st" "serve E r = Inr (rt, r')" "ir_user r = None" "\<not> ir_internal r"
    and "(read, kind) \<in> {(get_user_status B collate, ''user''), (get_business_status B collate, ''business'')}"
    and "read s r' w = (answer, w')"
  shows "st (svc w') = st (svc w) \<and>
    (\<forall>x. answer = Inr x \<longrightarrow> presents E ''THALOS_INTERNAL_SECRET'' ''x-thalos-internal-secret'' r \<or>
      (\<exists>u i. named_by_token E r u \<and> uc_userId u = JStr i \<and> (kind = ''user'' \<and> i = s \<or> admin (st (svc w)) i)))"
proof -
  have "admitted E r r'" by (rule serve_admits [OF assms(2)])
  then have known: "presents E ''THALOS_INTERNAL_SECRET'' ''x-thalos-internal-secret'' r \<or>
      (\<exists>u i. named_by_token E r u \<and> uc_userId u = JStr i \<and> (kind = ''user'' \<and> i = s \<or> admin (st (svc w)) i))"
    if "may_read (st (svc w)) kind s (accessContext r')"
    using that assms(3, 4) by (auto simp: may_read_def accessContext_def admitted_def split: option.splits json.splits)
  let ?P = "\<lambda>a v. st (svc v) = st (svc w) \<and> (\<forall>x. a = Inr x \<longrightarrow> may_read (st (svc w)) kind s (accessContext r'))"
  have "wp (bnd (assertCanRead B kind s (accessContext r')) (\<lambda>_. verification_getStatus B collate kind s)) ?P w"
    by (rule database.wp_getUserVerification [OF assms(1)]) auto
  moreover have "read s r' = bnd (assertCanRead B kind s (accessContext r')) (\<lambda>_. verification_getStatus B collate kind s)"
    using assms(5) by (auto simp: get_user_status_def get_business_status_def getUserVerification_def getBusinessVerification_def)
  ultimately have "wp (read s r') ?P w" by simp
  from wpD [OF this assms(6)] show ?thesis using known by blast
qed

text \<open>
  The mails of the internal endpoints go to participants of the agreement the body names, whatever else it claims, and nothing but the log changes.
\<close>

theorem internal_mails_contained:
  assumes "database B st"
    and "(post, ev) \<in> {(post_agreement_created, ''agreement_created''), (post_agreement_funded, ''agreement_funded''),
      (post_evidence_submitted, ''evidence_submitted''), (post_milestone_approved, ''milestone_approved''),
      (post_dispute_opened, ''dispute_opened''), (post_dispute_resolved, ''dispute_resolved''), (post_agreement_completed, ''agreement_completed'')}"
    and "jget ''agreement_id'' dto = Some (JStr i)" "post B html dto w = (r, w')"
  shows "notified st (Some i) ev (addresses (st (svc w)) (others (st (svc w)) i None)) w w'"
proof -
  have i: "prop_text ''agreementId'' (data_of ((''agreementId'', ''agreement_id'') # fs) dto) = i" for fs
    using assms(3) by (simp add: data_of_def prop_text_def jget_def jopt_def)
  have "wp (post B html dto) (\<lambda>r v. notified st (Some i) ev (addresses (st (svc w)) (others (st (svc w)) i None)) w v) w"
    using assms(2)
    by (auto simp: post_agreement_created_def post_agreement_funded_def post_evidence_submitted_def post_milestone_approved_def
        post_dispute_opened_def post_dispute_resolved_def post_agreement_completed_def notifyAgreementCreated_def notifyAgreementFunded_def
        notifyEvidenceSubmitted_def notifyMilestoneApproved_def notifyDisputeOpened_def notifyDisputeResolved_def notifyAgreementCompleted_def
        simp del: append.simps intro!: database.wp_notify [OF assms(1), unfolded i] simp: i)
  from wpD [OF this assms(4)] show ?thesis .
qed

text \<open>Origins separated by semicolons are taken apart for CORS but not for the links of invitations, which start with the whole list.\<close>

theorem origins_differ:
  fixes vars :: "string \<Rightarrow> string option"
  defines "vars \<equiv> map_of [(''THALOS_CORS_ORIGIN'', ''https://a.io; https://b.io'')]"
  shows "cors_origins vars = Some [''https://a.io'', ''https://b.io''] \<and> appBaseUrl vars = ''https://a.io; https://b.io''"
  unfolding vars_def by code_simp

text \<open>The event of the start is one of the notifications, so every start is written to their log.\<close>

theorem start_is_logged:
  "map (\<lambda>q. (nl_event_type q, nl_agreement_id q, nl_status q)) (t_notifications (tabs (svc (snd (on_event (mem_backend (\<lambda>_. None)) (\<lambda>t _. Inr t)
     (hd (emitted (snd (onApplicationBootstrap (world_on no_tables quiet_env))))) (world_on no_tables quiet_env)))))) =
   [(''agreement_created'', Some ''test-agreement-id'', ''skipped'')]"
  by code_simp

end
