(* ===== verification/Spec2Isabelle.thy ===== *)
theory Spec2Isabelle
  imports Lifecycle Milestones Distributions Agreements Disputes RetryQueue Escrows Webhooks HttpClient StellarProof Wallets Marketplace Conversations Compliance Profiles Ramps JobQueue IdentityProviders Errors Users Templates Routes Endpoints
begin

text \<open>
  A model of the Thalos backend (\<open>src/src\<close>), a NestJS service that keeps agreements between clients and providers, has their money held
  by escrow contracts on Stellar through the API of Trustless Work, and runs the services around them: wallets, disputes, chat and files, a
  job market, identity checks, on-ramps, notifications. All state is in the tables of a Supabase database; the process itself keeps only a
  queue in memory. Paths below are under \<open>src/src\<close>.

  \<^bold>\<open>Foundations.\<close>
  \<^item> \<open>Prelude\<close>: JSON values, the exceptions of the framework, programs (an \<open>async\<close> method is a function from a world to an exception or a
    value and the next world; what was written before an exception stays written), a calculus \<open>wp\<close> of weakest preconditions for
    them, JavaScript string functions and calendar dates.
  \<^item> \<open>JsNumber\<close>: IEEE doubles over the rationals with rounding to nearest even, parsing and printing, \<open>toFixed\<close>. The locale \<open>rounding\<close>
    states what the arithmetic needs of a rounding and is interpreted by \<open>rnd64\<close>. \<open>JsonText\<close>: optional chaining, printing of JSON, ISO dates.
  \<^item> \<open>Schema\<close>: one record per table, and the unique indexes. \<open>Backend\<close>: the services outside the process as an argument: per table the
    queries the code issues, each of which may fail; clock, random ids, HTTP, mail, file storage, environment variables. The
    locale \<open>database\<close>, made of one \<open>table_store\<close> per table, is what the code relies on: a call that answers without an error did what it says, a
    call that fails changed nothing, no call changes another table. Lemmas are proved in it; the properties assume it. It is
    interpreted by \<open>mem_backend\<close>, tables in memory that fail at any call a schedule names, on which the witnesses run.

  \<^bold>\<open>Agreements and escrows.\<close>
  \<^item> \<open>Lifecycle\<close> (\<open>agreements/agreement-lifecycle.ts\<close>, \<open>agreements/validation\<close>): the three transition validators and the one state machine they accept, an
    inductive relation. \<open>Milestones\<close> (\<open>common/milestone-status.ts\<close>). \<open>Validator\<close> (\<open>agreements/agreement.validator.ts\<close>): exactly the
    well-formed agreements pass, for amounts with at most two decimals.
  \<^item> \<open>Access\<close> (\<open>common/wallets\<close>): whose wallets and agreements are whose. \<open>Relay\<close> (\<open>internal-trustless\<close>: relay, request
    builders, funding guard, \<open>milestone-sync\<close>): which requests leave and what has to be answered before evidence does.
  \<^item> \<open>Sync\<close> (\<open>agreements/sync\<close>) and \<open>Agreements\<close> (\<open>agreements.service.ts\<close>): every operation with its error branches; reads
    answer what the user may see, status changes are authorised steps of the lifecycle that start from the row that was read.
  \<^item> \<open>Distributions\<close> (\<open>disputes/dispute-distributions.ts\<close>): percentages to amounts in doubles; the rounding error of every operation is bounded
    so that the sum is exact to the stroop. \<open>Disputes\<close> (\<open>disputes.service.ts\<close>): disputes only evolve, and who resolves them.
  \<^item> \<open>Escrows\<close> (\<open>escrow-read.helper.ts\<close>, \<open>trustline.guard.ts\<close>, \<open>escrows.controller.ts\<close>): reading escrows, resolutions within the
    balance, the retry of failed writes. \<open>Webhooks\<close> (\<open>webhooks\<close>): signatures, idempotent jobs, what an event may change.

  \<^bold>\<open>Queues and outgoing calls.\<close>
  \<^item> \<open>RetryQueue\<close> (\<open>retry-queue\<close>): jobs as rows, one attempt as a program; every job settles after the attempts it has left.
  \<^item> \<open>JobQueue\<close> (\<open>common/retry\<close>): the queue in memory as a transition system: an event is a call or the piece of the loop between two awaits, a
    run is any list of events. Dates above 8640000000000000 ms are invalid in JavaScript and therefore a hypothesis of the retry times.
  \<^item> \<open>HttpClient\<close> (\<open>common/api\<close>): one request, every outcome of which becomes an envelope.

  \<^bold>\<open>People and conversations.\<close>
  \<^item> \<open>StellarProof\<close>, \<open>Wallets\<close> (\<open>wallets\<close>): challenges and signatures; a wallet is linked with a proof or is called unverified; any sequence of
    requests keeps the unique indexes and the rows of other users. \<open>Profiles\<close> (\<open>profiles\<close>): profile and reputation. \<open>Users\<close> (\<open>users\<close>): search.
  \<^item> \<open>Marketplace\<close> (\<open>opportunities\<close>, \<open>applications\<close>): an abstract relation of allowed steps; the services refine it under every failure.
  \<^item> \<open>Conversations\<close> (\<open>agreement-chat\<close>, \<open>files\<close>, \<open>contacts\<close>), \<open>Ramps\<close> (\<open>ramps\<close>).
  \<^item> \<open>Compliance\<close> (\<open>verification\<close>, \<open>kyb\<close>, \<open>kyc\<close>) over any identity provider; \<open>IdentityProviders\<close> has the six providers, their clients and
    their choice by the configuration, and combines both.
  \<^item> \<open>Notifications\<close> (\<open>notifications.service.ts\<close> and its listener) over any templates; \<open>Templates\<close> has the eight bodies.

  \<^bold>\<open>The edge.\<close>
  \<^item> \<open>Errors\<close> (\<open>common/filters\<close>): every body of a refused request is brought into one shape.
  \<^item> \<open>Routes\<close> (all controllers, all guards): the table of routes in the order of registration; no route hides another; no
    request passes its guards unknown. \<open>Endpoints\<close>: the handlers with code of their own, and the way from a request to an answer.

  \<^bold>\<open>Reading the properties.\<close> Each is a theorem under a text with its number. Properties of services have the form: over any database,
  from any state, whatever calls fail and whatever the other servers answer, if the operation ends with this result in this world, then.
  Programs are total functions, so ending is part of the model: recursion is on lists and numbers, or has a measure (\<open>proof_match\<close>), and no fuel is used. Events
  are recorded in the world in the order they are emitted and their listeners are run on them; tasks not waited for are recorded as
  spawned. Other requests between two calls of one operation are not interleaved: where the code guards its updates by conditions, the
  conditions are in the model of the update, and the properties speak of the row it finds.

  \<^bold>\<open>Arguments of the model.\<close> Code outside the repository is never given a definition: the database and the order and text matching
  of its queries, \<open>fetch\<close>, the mail provider, the storage; HMAC, SHA-256, Ed25519 and base64url; the signing and reading of tokens by
  jsonwebtoken and passport; the rate limiter; \<open>localeCompare\<close> and the formatting of dates; the abort of a request by its timeout, which is one of
  its outcomes. Strings are lists of 8-bit characters; accents and arrows in messages are written in ASCII.

  \<^bold>\<open>Not modelled.\<close> The rules of class-validator on request bodies, which its library interprets (the services are proved for bodies with any
  values of the declared types); dependency injection and the start of the server; the description of the API; log lines; types and
  names of events as constants; the test suites and their doubles; the SQL of the schema, except for the unique indexes the code relies on.
\<close>

end
